(* ===== verification/Prelude.thy ===== *)
theory Prelude
  imports Main "HOL-Library.AList" "HOL-Library.Sublist"
begin

text \<open>
  Shared vocabulary of the development: identifiers and instants, Python dictionaries as
  association lists in insertion order, JSON values, the exceptions the back end raises, and
  the operations on tables of rows that stand for the SQLAlchemy queries.  The generic lemmas
  on them are collected in \<open>table_simps\<close> and \<open>dict_simps\<close>.
\<close>

named_theorems table_simps
named_theorems dict_simps

section \<open>Identifiers, instants, durations\<close>

text \<open>
  A \<open>uuid.UUID\<close> is only compared and stored, so it is a number.  A \<open>datetime\<close> with its time
  zone is the number of microseconds since the epoch, which is the resolution Python keeps; a
  \<open>timedelta\<close> is a number of microseconds as well.
\<close>

type_synonym uuid = nat
type_synonym instant = int

definition seconds :: "int \<Rightarrow> int" where
  "seconds n = n * 1000000"

definition minutes :: "int \<Rightarrow> int" where
  "minutes n = seconds (60 * n)"

definition hours :: "int \<Rightarrow> int" where
  "hours n = minutes (60 * n)"

definition days :: "int \<Rightarrow> int" where
  "days n = hours (24 * n)"

lemmas duration_defs = days_def hours_def minutes_def seconds_def

lemma seconds_mono: "a \<le> b \<Longrightarrow> seconds a \<le> seconds b"
  by (simp add: seconds_def)

lemma seconds_nonneg [simp]: "0 \<le> seconds n \<longleftrightarrow> 0 \<le> n"
  by (simp add: seconds_def)

lemma days_nonneg [simp]: "0 \<le> days n \<longleftrightarrow> 0 \<le> n"
  by (simp add: duration_defs)

lemma days_pos [simp]: "0 < days n \<longleftrightarrow> 0 < n"
  by (simp add: duration_defs)

section \<open>JSON values and Python dictionaries\<close>

text \<open>
  A Python \<open>dict\<close> keeps insertion order and an assignment to a present key keeps its place:
  \<open>AList.update\<close> does exactly that on an association list, and \<open>AList.delete\<close> is \<open>pop\<close> with
  a default.
\<close>

datatype json =
    JNull
  | JBool bool
  | JInt int
  | JStr string
  | JList "json list"
  | JObj "(string \<times> json) list"

type_synonym 'v dict = "(string \<times> 'v) list"

definition dict_get :: "'v dict \<Rightarrow> string \<Rightarrow> 'v option" where
  "dict_get d k = map_of d k"

definition dict_set :: "string \<Rightarrow> 'v \<Rightarrow> 'v dict \<Rightarrow> 'v dict" where
  "dict_set k v d = AList.update k v d"

definition dict_pop :: "string \<Rightarrow> 'v dict \<Rightarrow> 'v dict" where
  "dict_pop k d = AList.delete k d"

lemma dict_get_set [simp, dict_simps]:
  "dict_get (dict_set k v d) k' = (if k' = k then Some v else dict_get d k')"
  by (simp add: dict_get_def dict_set_def update_conv')

lemma dict_get_pop [simp, dict_simps]:
  "dict_get (dict_pop k d) k' = (if k' = k then None else dict_get d k')"
  by (simp add: dict_get_def dict_pop_def delete_conv')

text \<open>Truth of a JSON value, as Python's \<open>if value\<close> and \<open>value or default\<close> see it.\<close>

fun json_truthy :: "json \<Rightarrow> bool" where
  "json_truthy JNull = False"
| "json_truthy (JBool b) = b"
| "json_truthy (JInt n) = (n \<noteq> 0)"
| "json_truthy (JStr s) = (s \<noteq> [])"
| "json_truthy (JList xs) = (xs \<noteq> [])"
| "json_truthy (JObj kvs) = (kvs \<noteq> [])"

section \<open>Exceptions\<close>

text \<open>
  The exceptions that cross a function boundary in the modelled code.  A fallible operation
  returns \<open>exn + 'a\<close>, with \<open>Inl\<close> for a raise.
\<close>

datatype exn =
    BillingError string
  | HTTPException nat
  | RuntimeError
  | ValueError
  | TokenError string
  | IntegrityError
  | AttributeError
  | OSError
  | StructError
  | MultipleResultsFound
  | ZeroDivisionError
  | KeyError
  | TypeError
  | ImportError
  | ValidationError
  | NameError
  | BackupRestoreError string
  | DiskProtectionError
  | WorldSizeLimitError
  | UnboundLocalError

section \<open>Tables of rows\<close>

text \<open>
  A table is the list of its rows in the order the database returns them.
  \<open>get_row\<close> is \<open>db.get\<close>, \<open>filter\<close> is a \<open>select ... where\<close>, \<open>first_row\<close> is
  \<open>.scalars().first()\<close> and \<open>modify_row\<close> writes the attributes of the one row with a key.
\<close>

definition get_row :: "('r \<Rightarrow> 'k) \<Rightarrow> 'k \<Rightarrow> 'r list \<Rightarrow> 'r option" where
  "get_row key k rows = List.find (\<lambda>r. key r = k) rows"

definition first_row :: "'r list \<Rightarrow> 'r option" where
  "first_row rows = (case rows of [] \<Rightarrow> None | r # _ \<Rightarrow> Some r)"

definition modify_row :: "('r \<Rightarrow> 'k) \<Rightarrow> 'k \<Rightarrow> ('r \<Rightarrow> 'r) \<Rightarrow> 'r list \<Rightarrow> 'r list" where
  "modify_row key k f rows = map (\<lambda>r. if key r = k then f r else r) rows"

definition modify_where :: "('r \<Rightarrow> bool) \<Rightarrow> ('r \<Rightarrow> 'r) \<Rightarrow> 'r list \<Rightarrow> 'r list" where
  "modify_where p f rows = map (\<lambda>r. if p r then f r else r) rows"

definition delete_row :: "('r \<Rightarrow> 'k) \<Rightarrow> 'k \<Rightarrow> 'r list \<Rightarrow> 'r list" where
  "delete_row key k rows = filter (\<lambda>r. key r \<noteq> k) rows"

text \<open>\<open>.one_or_none()\<close> and \<open>.scalar_one_or_none()\<close>.\<close>

fun one_or_none :: "'r list \<Rightarrow> exn + 'r option" where
  "one_or_none [] = Inr None"
| "one_or_none [r] = Inr (Some r)"
| "one_or_none (r # r' # rs) = Inl MultipleResultsFound"

lemma one_or_none_InrD: "one_or_none rows = Inr (Some r) \<Longrightarrow> rows = [r]"
  by (cases rows rule: one_or_none.cases) auto

lemma first_row_simps [simp]:
  "first_row [] = None" "first_row (r # rs) = Some r"
  by (simp_all add: first_row_def)

lemma first_row_SomeD: "first_row rows = Some r \<Longrightarrow> r \<in> set rows"
  by (cases rows) auto

lemma first_row_None [simp]: "first_row rows = None \<longleftrightarrow> rows = []"
  by (cases rows) auto

lemma get_row_simps [simp]:
  "get_row key k [] = None"
  "get_row key k (r # rows) = (if key r = k then Some r else get_row key k rows)"
  by (simp_all add: get_row_def)

lemma get_row_SomeD: "get_row key k rows = Some r \<Longrightarrow> r \<in> set rows \<and> key r = k"
  by (auto simp: get_row_def find_Some_iff)

lemma get_row_None: "get_row key k rows = None \<longleftrightarrow> k \<notin> key ` set rows"
  by (auto simp: get_row_def find_None_iff)

lemma get_row_modify_row [table_simps]:
  assumes "\<And>r. key (f r) = key r"
  shows "get_row key k (modify_row key k' f rows) =
    (if k = k' then map_option f (get_row key k rows) else get_row key k rows)"
  by (induction rows) (auto simp: modify_row_def assms)

lemma length_modify_row [simp]: "length (modify_row key k f rows) = length rows"
  by (simp add: modify_row_def)

lemma set_modify_row:
  "set (modify_row key k f rows) = (\<lambda>r. if key r = k then f r else r) ` set rows"
  by (simp add: modify_row_def)

lemma set_modify_where:
  "set (modify_where p f rows) = (\<lambda>r. if p r then f r else r) ` set rows"
  by (simp add: modify_where_def)

lemma map_key_modify_row [simp]:
  assumes "\<And>r. key' (f r) = key' r"
  shows "map key' (modify_row key k f rows) = map key' rows"
  by (simp add: modify_row_def assms)

lemma get_row_unique:
  "distinct (map key rows) \<Longrightarrow> r \<in> set rows \<Longrightarrow> get_row key (key r) rows = Some r"
  by (induction rows) auto

lemma modify_row_absent:
  "k \<notin> key ` set rows \<Longrightarrow> modify_row key k f rows = rows"
  by (induction rows) (auto simp: modify_row_def)

lemma set_delete_row [simp]: "set (delete_row key k rows) = {r \<in> set rows. key r \<noteq> k}"
  by (auto simp: delete_row_def)

text \<open>
  A loop that writes the rows of a query one by one is one pass over the table, when keys are
  unique.
\<close>

lemma fold_modify_row:
  assumes "distinct (map key xs)" "\<And>r. key (f r) = key r"
  shows "fold (\<lambda>s. modify_row key (key s) f) xs rows =
    map (\<lambda>r. if key r \<in> key ` set xs then f r else r) rows"
  using assms(1)
proof (induction xs arbitrary: rows)
  case Nil
  then show ?case by simp
next
  case (Cons x xs)
  then have "fold (\<lambda>s. modify_row key (key s) f) (x # xs) rows =
      map (\<lambda>r. if key r \<in> key ` set xs then f r else r) (modify_row key (key x) f rows)"
    by simp
  also have "\<dots> = map (\<lambda>r. if key r \<in> key ` set (x # xs) then f r else r) rows"
    using Cons.prems by (auto simp: modify_row_def assms(2))
  finally show ?case .
qed

lemma key_in_filter:
  "distinct (map key rows) \<Longrightarrow> r \<in> set rows \<Longrightarrow> key r \<in> key ` set (filter P rows) \<longleftrightarrow> P r"
  by (auto simp: distinct_map inj_on_def)

lemma fold_modify_filter:
  assumes "distinct (map key rows)" "\<And>r. key (f r) = key r"
  shows "fold (\<lambda>s. modify_row key (key s) f) (filter P rows) rows = modify_where P f rows"
proof -
  have "distinct (map key (filter P rows))" using assms(1) by (rule distinct_map_filter)
  then have "fold (\<lambda>s. modify_row key (key s) f) (filter P rows) rows =
      map (\<lambda>r. if key r \<in> key ` set (filter P rows) then f r else r) rows"
    using assms(2) by (rule fold_modify_row)
  also have "\<dots> = modify_where P f rows"
    unfolding modify_where_def by (rule map_cong) (simp_all add: key_in_filter [OF assms(1)] del: set_filter)
  finally show ?thesis .
qed

lemma filter_key_unique:
  "distinct (map f xs) \<Longrightarrow> x \<in> set xs \<Longrightarrow> filter (\<lambda>y. f y = f x) xs = [x]"
proof (induction xs)
  case (Cons a xs)
  then show ?case by (cases "a = x") (auto simp: filter_empty_conv, metis image_eqI)
qed simp

lemma filter_singletonD: "filter P xs = [x] \<Longrightarrow> x \<in> set xs \<and> P x"
  using filter_eq_ConsD by fastforce

lemma get_row_map:
  assumes "\<And>r. key (f r) = key r"
  shows "get_row key k (map f rows) = map_option f (get_row key k rows)"
  by (induction rows) (auto simp: assms)

section \<open>Summing a projection\<close>

definition sum_of :: "('a \<Rightarrow> int) \<Rightarrow> 'a list \<Rightarrow> int" where
  "sum_of f xs = sum_list (map f xs)"

lemma sum_of_simps [simp]:
  "sum_of f [] = 0" "sum_of f (x # xs) = f x + sum_of f xs"
  "sum_of f (xs @ ys) = sum_of f xs + sum_of f ys"
  by (simp_all add: sum_of_def)

lemma sum_of_nonneg: "(\<And>x. x \<in> set xs \<Longrightarrow> 0 \<le> f x) \<Longrightarrow> 0 \<le> sum_of f xs"
  by (induction xs) (simp_all add: add_nonneg_nonneg)

lemma sum_of_mono: "(\<And>x. x \<in> set xs \<Longrightarrow> f x \<le> g x) \<Longrightarrow> sum_of f xs \<le> sum_of g xs"
  by (induction xs) (simp_all add: add_mono)

lemma sum_of_cong: "(\<And>x. x \<in> set xs \<Longrightarrow> f x = g x) \<Longrightarrow> sum_of f xs = sum_of g xs"
  by (induction xs) simp_all

section \<open>The best-so-far loop\<close>

text \<open>
  Node selection in three places of the code is the same loop: \<open>best = None\<close>,
  \<open>best_free = -1\<close>, then for each candidate in order, when it is eligible and its score is
  strictly greater than \<open>best_free\<close>, it becomes the best.
\<close>

fun best_loop :: "('a \<Rightarrow> bool) \<Rightarrow> ('a \<Rightarrow> int) \<Rightarrow> 'a list \<Rightarrow> 'a option \<Rightarrow> int \<Rightarrow> 'a option \<times> int" where
  "best_loop ok score [] best best_free = (best, best_free)"
| "best_loop ok score (x # xs) best best_free =
     (if ok x \<and> score x > best_free then best_loop ok score xs (Some x) (score x)
      else best_loop ok score xs best best_free)"

text \<open>The invariant of the loop: what is kept is the best of what was seen and eligible.\<close>

definition best_inv :: "('a \<Rightarrow> bool) \<Rightarrow> ('a \<Rightarrow> int) \<Rightarrow> 'a list \<Rightarrow> 'a option \<Rightarrow> int \<Rightarrow> bool" where
  "best_inv ok score seen best best_free \<longleftrightarrow>
     (case best of
        None \<Rightarrow> best_free = -1 \<and> (\<forall>x \<in> set seen. ok x \<longrightarrow> score x \<le> -1)
      | Some b \<Rightarrow> b \<in> set seen \<and> ok b \<and> score b = best_free \<and> best_free > -1 \<and>
                  (\<forall>x \<in> set seen. ok x \<longrightarrow> score x \<le> best_free))"

lemma best_loop_inv:
  "best_inv ok score seen best bf \<Longrightarrow> best_loop ok score xs best bf = (b, f) \<Longrightarrow>
   best_inv ok score (seen @ xs) b f"
proof (induction xs arbitrary: seen best bf)
  case Nil
  then show ?case by simp
next
  case (Cons x xs)
  have "best_inv ok score (seen @ [x])
      (if ok x \<and> score x > bf then Some x else best)
      (if ok x \<and> score x > bf then score x else bf)"
    using Cons.prems(1) by (auto simp: best_inv_def split: option.splits)
  from Cons.IH [OF this] Cons.prems(2) show ?case
    by (simp split: if_splits)
qed

lemma best_loop_start:
  assumes "best_loop ok score xs None (- 1) = (b, f)"
  shows "best_inv ok score xs b f"
proof -
  have "best_inv ok score [] None (- 1)" by (simp add: best_inv_def)
  from best_loop_inv [OF this assms] show ?thesis by simp
qed

lemma map_filter_modify_row:
  "(\<And>x. h (f x) = h x) \<Longrightarrow> List.map_filter h (modify_row key k f xs) = List.map_filter h xs"
  by (induction xs) (auto simp: modify_row_def map_filter_simps split: option.split)

end
