(* ===== verification/Schema.thy ===== *)
theory Schema
  imports Prelude
begin

text \<open>
  The data model of the control plane (\<open>database/schema.py\<close>): its enumerations, the rows of
  the tables the modelled code reads or writes, and the database as the record of those
  tables.  A column that no modelled operation touches (display names, the CPU floats, bookkeeping
  time stamps) is left out.  Prices are \<open>Numeric(12, 2)\<close> and kept in hundredths.
\<close>

section \<open>Enumerations\<close>

datatype BillingSubscriptionStatus = active | grace_period | suspended | cancelled

datatype BillingTransactionStatus = pending | paid | failed | refunded

datatype ServerState =
  created | provisioning | running | syncing | suspended | suspending | migrating

datatype VMProvider = oracle_free | hetzner | local_bedrock | local_java

datatype BackupStatus =
    pending | running | held_saves | copying | compressing | verifying
  | completed | failed | cancelled | deleting | deleted | expired

datatype RestoreStatus =
    pending | running | validating_backup | stopping_server | extracting | validating_restore | swapping
  | starting_server | completed | failed | rolled_back | cancelled

datatype BackupConsistencyMethod = save_hold | server_stop | filesystem_snapshot

datatype BackupKind = manual | scheduled | system

datatype NodeState = online | offline | draining | starting

datatype NodeTier = shared | dedicated

datatype ServerFlavor = BEDROCK | JAVA_VANILLA | PAPER | PURPUR | FABRIC | FORGE | NEOFORGE

datatype DeploymentState =
    created | building | running | suspended | stopped | error | crash_loop | quota_exceeded

datatype HealthStatus = unknown | healthy | unhealthy | crash_loop | quota_exceeded

datatype RevisionTrigger = manual | env_change | rollback | github_push

datatype DeploymentKind = docker_image | dockerfile | nextjs | fastapi | static_site

datatype SourceType = github | docker_image | upload

datatype DatabaseEngine = postgresql | mysql | mariadb | redis

datatype BlockcoinReason =
  referral | ad_view | daily_task | server_hosting | purchase | admin_adjustment

datatype DomainStatus = pending_dns | active | failed

section \<open>Rows\<close>

record user =
  usr_id :: uuid
  usr_email :: string
  usr_nickname :: string
  usr_is_admin :: bool
  usr_auth_hash :: string
  usr_referrer_code :: string
  usr_referred_by_id :: "uuid option"
  usr_blockcoin_balance :: int
  usr_google_sub :: "string option"
  usr_auth_provider :: string
  usr_email_verified_at :: "instant option"
  usr_otp_hash :: "string option"
  usr_otp_expires_at :: "instant option"
  usr_deleted_at :: "instant option"

record coin_transaction =
  coin_user_id :: uuid
  coin_amount :: int
  coin_reason :: BlockcoinReason
  coin_meta :: "json dict"

record refresh_token =
  rt_user_id :: uuid
  rt_jti :: string
  rt_expires_at :: instant
  rt_revoked_at :: "instant option"

record server =
  srv_id :: uuid
  srv_node_id :: "uuid option"
  srv_owner_id :: uuid
  srv_world_name :: string
  srv_state :: ServerState
  srv_vm_provider :: VMProvider
  srv_vm_id :: "string option"
  srv_vm_ipv4 :: "string option"
  srv_vm_port :: int
  srv_proxy_port :: "int option"
  srv_mc_config :: "json dict"
  srv_last_activity :: instant
  srv_players_online :: int
  srv_flavor :: ServerFlavor
  srv_mc_version :: "string option"
  srv_java_version :: "int option"
  srv_last_backup_at :: "instant option"
  srv_backup_count :: int

record collaborator =
  col_server_id :: uuid
  col_user_id :: uuid
  col_permissions :: "string list"

record plan =
  bp_id :: string
  bp_name :: string
  bp_ram_mb :: int
  bp_cpu_limit :: int
  bp_storage_mb :: int
  bp_player_limit :: int
  bp_price :: int
  bp_duration_days :: int
  bp_active :: bool
  bp_provider_price_id :: "string option"

record subscription =
  sub_id :: uuid
  sub_user_id :: uuid
  sub_server_id :: "uuid option"
  sub_resource_type :: "string option"
  sub_resource_id :: "uuid option"
  sub_plan_id :: string
  sub_starts_at :: instant
  sub_expires_at :: instant
  sub_status :: BillingSubscriptionStatus
  sub_provider_subscription_id :: "string option"
  sub_created_at :: instant
  sub_updated_at :: instant

record transaction =
  tx_id :: uuid
  tx_user_id :: uuid
  tx_server_id :: "uuid option"
  tx_resource_type :: "string option"
  tx_resource_id :: "uuid option"
  tx_subscription_id :: "uuid option"
  tx_provider :: string
  tx_provider_order_id :: string
  tx_provider_payment_id :: "string option"
  tx_amount :: int
  tx_currency :: string
  tx_status :: BillingTransactionStatus
  tx_completed_at :: "instant option"
  tx_target_plan_id :: string

record audit_log =
  aud_user_id :: uuid
  aud_server_id :: "uuid option"
  aud_transaction_id :: "uuid option"
  aud_action :: string
  aud_details :: "json dict"

record ban =
  ban_id :: uuid
  ban_server_id :: uuid
  ban_xuid :: string
  ban_player_name :: "string option"
  ban_reason :: "string option"
  ban_active :: bool
  ban_banned_at :: instant
  ban_expires_at :: "instant option"
  ban_unbanned_at :: "instant option"
  ban_created_by :: "uuid option"
  ban_unbanned_by :: "uuid option"

record node =
  nd_id :: uuid
  nd_name :: string
  nd_ip_address :: string
  nd_agent_port :: int
  nd_status :: NodeState
  nd_status_updated_at :: instant
  nd_approved :: bool
  nd_agent_token_hash :: "string option"
  nd_tier :: NodeTier
  nd_provider :: "string option"
  nd_provider_instance_id :: "string option"
  nd_total_ram_mb :: int
  nd_used_ram_mb :: int
  nd_last_heartbeat :: "instant option"

record deployment =
  dep_id :: uuid
  dep_owner_id :: uuid
  dep_node_id :: "uuid option"
  dep_docker_image :: string
  dep_internal_port :: int
  dep_host_port :: "int option"
  dep_state :: DeploymentState
  dep_container_id :: "string option"
  dep_ram_limit_mb :: int
  dep_last_network_rx :: "int option"
  dep_github_repo_url :: "string option"
  dep_restart_count :: int
  dep_health_status :: HealthStatus
  dep_error_message :: "string option"
  dep_env_vars :: "string dict"
  dep_github_branch :: string
  dep_webhook_token :: "string option"

record project =
  prj_id :: uuid
  prj_owner_id :: uuid

record database_instance =
  dbi_id :: uuid
  dbi_project_id :: uuid
  dbi_node_id :: "uuid option"
  dbi_engine :: DatabaseEngine
  dbi_version :: string
  dbi_db_name :: string
  dbi_db_username :: string
  dbi_db_password :: string
  dbi_ram_limit_mb :: int
  dbi_internal_hostname :: string
  dbi_internal_port :: int
  dbi_state :: DeploymentState

record webhook_event =
  wh_event_id :: string
  wh_provider :: string
  wh_event_type :: string
  wh_processed_at :: instant

record custom_domain =
  dom_id :: uuid
  dom_deployment_id :: uuid
  dom_domain :: string
  dom_status :: DomainStatus
  dom_verification_token :: string
  dom_ssl_active :: bool
  dom_error_message :: "string option"
  dom_created_at :: instant

record revision =
  rev_id :: uuid
  rev_deployment_id :: uuid
  rev_image_tag :: "string option"
  rev_commit_sha :: "string option"
  rev_status :: DeploymentState
  rev_is_active :: bool
  rev_trigger :: RevisionTrigger
  rev_build_logs :: "string option"
  rev_runtime_logs :: "string option"
  rev_error_message :: "string option"
  rev_env_snapshot :: "string dict option"
  rev_deployed_at :: "instant option"
  rev_created_at :: instant

record backup =
  bk_id :: uuid
  bk_server_id :: uuid
  bk_owner_id :: uuid
  bk_created_by_user_id :: "uuid option"
  bk_schedule_id :: "uuid option"
  bk_kind :: BackupKind
  bk_status :: BackupStatus
  bk_name :: "string option"
  bk_description :: "string option"
  bk_pinned :: bool
  bk_world_name :: string
  bk_bedrock_version :: "string option"
  bk_consistency_method :: "BackupConsistencyMethod option"
  bk_server_was_running :: bool
  bk_storage_key :: "string option"
  bk_checksum_sha256 :: "string option"
  bk_size_bytes :: int
  bk_uncompressed_size_bytes :: int
  bk_included_paths :: "string list"
  bk_failure_code :: "string option"
  bk_created_at :: instant
  bk_completed_at :: "instant option"
  bk_deleted_at :: "instant option"

record backup_job =
  bj_id :: uuid
  bj_backup_id :: uuid
  bj_server_id :: uuid
  bj_requested_by_user_id :: "uuid option"
  bj_status :: BackupStatus
  bj_phase :: string
  bj_progress_percent :: int
  bj_progress_bytes :: int
  bj_total_bytes :: int
  bj_idempotency_key :: "string option"
  bj_force_offline :: bool
  bj_attempts :: int
  bj_locked_at :: "instant option"
  bj_heartbeat_at :: "instant option"
  bj_error_code :: "string option"
  bj_created_at :: instant
  bj_started_at :: "instant option"
  bj_completed_at :: "instant option"
  bj_updated_at :: instant

record restore_job =
  rj_id :: uuid
  rj_backup_id :: uuid
  rj_server_id :: uuid
  rj_requested_by_user_id :: uuid
  rj_status :: RestoreStatus
  rj_phase :: string
  rj_progress_percent :: int
  rj_restart_after_restore :: bool
  rj_server_was_running :: bool
  rj_rollback_enabled :: bool
  rj_rollback_path :: "string list option"
  rj_attempts :: int
  rj_locked_at :: "instant option"
  rj_heartbeat_at :: "instant option"
  rj_error_code :: "string option"
  rj_created_at :: instant
  rj_started_at :: "instant option"
  rj_completed_at :: "instant option"
  rj_updated_at :: instant

record backup_schedule =
  sch_id :: uuid
  sch_server_id :: uuid
  sch_owner_id :: uuid
  sch_enabled :: bool
  sch_interval_minutes :: "int option"
  sch_retention_count :: int
  sch_retention_days :: "int option"
  sch_skip_if_server_offline :: bool
  sch_defer_if_job_active :: bool
  sch_last_run_at :: "instant option"
  sch_last_success_at :: "instant option"
  sch_next_run_at :: "instant option"
  sch_consecutive_failures :: int
  sch_created_at :: instant
  sch_updated_at :: instant

section \<open>The database\<close>

record database =
  db_users :: "user list"
  db_refresh_tokens :: "refresh_token list"
  db_coin_transactions :: "coin_transaction list"
  db_servers :: "server list"
  db_collaborators :: "collaborator list"
  db_plans :: "plan list"
  db_subscriptions :: "subscription list"
  db_transactions :: "transaction list"
  db_audit_logs :: "audit_log list"
  db_bans :: "ban list"
  db_nodes :: "node list"
  db_deployments :: "deployment list"
  db_revisions :: "revision list"
  db_domains :: "custom_domain list"
  db_projects :: "project list"
  db_instances :: "database_instance list"
  db_webhook_events :: "webhook_event list"
  db_backups :: "backup list"
  db_backup_jobs :: "backup_job list"
  db_restore_jobs :: "restore_job list"
  db_backup_schedules :: "backup_schedule list"

definition empty_db :: database where
  "empty_db = \<lparr>db_users = [], db_refresh_tokens = [], db_coin_transactions = [],
     db_servers = [], db_collaborators = [],
     db_plans = [], db_subscriptions = [], db_transactions = [], db_audit_logs = [],
     db_bans = [], db_nodes = [], db_deployments = [], db_revisions = [], db_domains = [],
     db_projects = [], db_instances = [], db_webhook_events = [],
     db_backups = [], db_backup_jobs = [], db_restore_jobs = [], db_backup_schedules = []\<rparr>"

section \<open>Settings\<close>

text \<open>The fields of \<open>Settings\<close> (\<open>config/config_manager.py\<close>) the modelled code reads.\<close>

record settings =
  cfg_bedrock_port_range_start :: int
  cfg_bedrock_port_range_end :: int
  cfg_java_port_range_start :: int
  cfg_java_port_range_end :: int
  cfg_backup_retention_count :: int
  cfg_subscription_grace_period_days :: int
  cfg_worker_agent_token :: string
  cfg_minecraft_public_host :: string
  cfg_proxy_enabled :: bool
  cfg_proxy_port_range_start :: int
  cfg_proxy_port_range_end :: int
  cfg_max_servers_per_user :: int
  cfg_migration_cooldown_seconds :: int
  cfg_max_migrations_per_hour :: int
  cfg_production_mode :: bool
  cfg_allow_auto_node_registration :: bool
  cfg_database_url :: string
  cfg_jwt_secret_key :: string
  cfg_smtp_host :: string
  cfg_smtp_user :: string
  cfg_smtp_from_email :: string
  cfg_billing_provider :: string
  cfg_razorpay_key_id :: string
  cfg_razorpay_key_secret :: string
  cfg_razorpay_webhook_secret :: string
  cfg_cors_origins :: string
  cfg_require_billing_for_apps :: bool
  cfg_require_billing_for_databases :: bool
  cfg_max_apps_per_user :: int
  cfg_max_databases_per_user :: int
  cfg_jwt_access_token_expire_seconds :: int
  cfg_jwt_refresh_token_expire_seconds :: int
  cfg_email_verification_otp_expire_seconds :: int
  cfg_paddle_webhook_secret :: string
  cfg_paddle_env :: string
  cfg_paddle_api_key :: string
  cfg_public_app_base_domain :: string
  cfg_public_ingress_domain :: string
  cfg_public_ingress_ipv4 :: string

text \<open>The declared defaults.\<close>

definition default_settings :: settings where
  "default_settings = \<lparr>
     cfg_bedrock_port_range_start = 19132, cfg_bedrock_port_range_end = 19232,
     cfg_java_port_range_start = 25565, cfg_java_port_range_end = 25665,
     cfg_backup_retention_count = 7, cfg_subscription_grace_period_days = 3,
     cfg_worker_agent_token = ''change-me-in-dev'', cfg_minecraft_public_host = '''',
     cfg_proxy_enabled = False,
     cfg_proxy_port_range_start = 30000, cfg_proxy_port_range_end = 39999,
     cfg_max_servers_per_user = 5, cfg_migration_cooldown_seconds = 300,
     cfg_max_migrations_per_hour = 10, cfg_production_mode = False,
     cfg_allow_auto_node_registration = True,
     cfg_database_url = ''sqlite+pysqlite:///./database/blockhost.db'',
     cfg_jwt_secret_key = ''change-me'', cfg_smtp_host = '''', cfg_smtp_user = '''',
     cfg_smtp_from_email = '''', cfg_billing_provider = ''test'',
     cfg_razorpay_key_id = '''', cfg_razorpay_key_secret = '''', cfg_razorpay_webhook_secret = '''',
     cfg_cors_origins = ''*'', cfg_require_billing_for_apps = False,
     cfg_require_billing_for_databases = False, cfg_max_apps_per_user = 10,
     cfg_max_databases_per_user = 10, cfg_jwt_access_token_expire_seconds = 86400,
     cfg_jwt_refresh_token_expire_seconds = 2592000,
     cfg_email_verification_otp_expire_seconds = 86400, cfg_paddle_webhook_secret = '''',
     cfg_paddle_env = ''sandbox'', cfg_paddle_api_key = '''', cfg_public_app_base_domain = '''',
     cfg_public_ingress_domain = '''', cfg_public_ingress_ipv4 = ''''\<rparr>"

section \<open>Lookups by primary key\<close>

definition get_server :: "database \<Rightarrow> uuid \<Rightarrow> server option" where
  "get_server db i = get_row srv_id i (db_servers db)"

definition get_node :: "database \<Rightarrow> uuid \<Rightarrow> node option" where
  "get_node db i = get_row nd_id i (db_nodes db)"

definition get_plan :: "database \<Rightarrow> string \<Rightarrow> plan option" where
  "get_plan db i = get_row bp_id i (db_plans db)"

definition get_user :: "database \<Rightarrow> uuid \<Rightarrow> user option" where
  "get_user db i = get_row usr_id i (db_users db)"

definition get_deployment :: "database \<Rightarrow> uuid \<Rightarrow> deployment option" where
  "get_deployment db i = get_row dep_id i (db_deployments db)"

definition get_subscription :: "database \<Rightarrow> uuid \<Rightarrow> subscription option" where
  "get_subscription db i = get_row sub_id i (db_subscriptions db)"

definition upd_user :: "uuid \<Rightarrow> (user \<Rightarrow> user) \<Rightarrow> database \<Rightarrow> database" where
  "upd_user i f db = db\<lparr>db_users := modify_row usr_id i f (db_users db)\<rparr>"

definition upd_server :: "uuid \<Rightarrow> (server \<Rightarrow> server) \<Rightarrow> database \<Rightarrow> database" where
  "upd_server i f db = db\<lparr>db_servers := modify_row srv_id i f (db_servers db)\<rparr>"

definition upd_node :: "uuid \<Rightarrow> (node \<Rightarrow> node) \<Rightarrow> database \<Rightarrow> database" where
  "upd_node i f db = db\<lparr>db_nodes := modify_row nd_id i f (db_nodes db)\<rparr>"

definition upd_deployment :: "uuid \<Rightarrow> (deployment \<Rightarrow> deployment) \<Rightarrow> database \<Rightarrow> database" where
  "upd_deployment i f db = db\<lparr>db_deployments := modify_row dep_id i f (db_deployments db)\<rparr>"

text \<open>Primary keys are unique.\<close>

definition keys_ok :: "database \<Rightarrow> bool" where
  "keys_ok db \<longleftrightarrow>
     distinct (map srv_id (db_servers db)) \<and> distinct (map nd_id (db_nodes db)) \<and>
     distinct (map bp_id (db_plans db)) \<and> distinct (map sub_id (db_subscriptions db)) \<and>
     distinct (map tx_id (db_transactions db)) \<and> distinct (map dep_id (db_deployments db))"

lemma upd_server_sel [simp]:
  "db_servers (upd_server i f db) = modify_row srv_id i f (db_servers db)"
  "db_nodes (upd_server i f db) = db_nodes db"
  "db_subscriptions (upd_server i f db) = db_subscriptions db"
  "db_plans (upd_server i f db) = db_plans db"
  "db_deployments (upd_server i f db) = db_deployments db"
  "db_transactions (upd_server i f db) = db_transactions db"
  by (simp_all add: upd_server_def)

lemma upd_node_sel [simp]:
  "db_nodes (upd_node i f db) = modify_row nd_id i f (db_nodes db)"
  "db_servers (upd_node i f db) = db_servers db"
  "db_subscriptions (upd_node i f db) = db_subscriptions db"
  "db_plans (upd_node i f db) = db_plans db"
  "db_deployments (upd_node i f db) = db_deployments db"
  by (simp_all add: upd_node_def)

lemma upd_deployment_sel [simp]:
  "db_deployments (upd_deployment i f db) = modify_row dep_id i f (db_deployments db)"
  "db_servers (upd_deployment i f db) = db_servers db"
  "db_nodes (upd_deployment i f db) = db_nodes db"
  "db_subscriptions (upd_deployment i f db) = db_subscriptions db"
  "db_plans (upd_deployment i f db) = db_plans db"
  by (simp_all add: upd_deployment_def)

lemma get_server_upd_server [table_simps]:
  assumes "\<And>r. srv_id (f r) = srv_id r"
  shows "get_server (upd_server i f db) j =
    (if j = i then map_option f (get_server db j) else get_server db j)"
  unfolding get_server_def upd_server_sel by (rule get_row_modify_row) (rule assms)

lemma get_node_upd_node [table_simps]:
  assumes "\<And>r. nd_id (f r) = nd_id r"
  shows "get_node (upd_node i f db) j =
    (if j = i then map_option f (get_node db j) else get_node db j)"
  unfolding get_node_def upd_node_sel by (rule get_row_modify_row) (rule assms)

lemma get_server_SomeD: "get_server db i = Some s \<Longrightarrow> s \<in> set (db_servers db) \<and> srv_id s = i"
  unfolding get_server_def by (rule get_row_SomeD)

lemma get_node_SomeD: "get_node db i = Some n \<Longrightarrow> n \<in> set (db_nodes db) \<and> nd_id n = i"
  unfolding get_node_def by (rule get_row_SomeD)

end
