(* ===== verification/Samples.thy ===== *)
theory Samples
  imports Schema
begin

text \<open>
  Concrete rows, from which the witnesses build the databases they evaluate the operations on.
\<close>

definition sample_user :: user where
  "sample_user = \<lparr>usr_id = 1, usr_email = ''a@b.c'', usr_nickname = ''a'',
     usr_is_admin = False, usr_auth_hash = ''h'', usr_referrer_code = ''r1'', usr_referred_by_id = None,
     usr_blockcoin_balance = 0, usr_google_sub = None, usr_auth_provider = ''local'',
     usr_email_verified_at = None, usr_otp_hash = None, usr_otp_expires_at = None,
     usr_deleted_at = None\<rparr>"

definition sample_server :: server where
  "sample_server = \<lparr>srv_id = 10, srv_node_id = Some 20, srv_owner_id = 1, srv_world_name = ''w'',
     srv_state = ServerState.suspended, srv_vm_provider = VMProvider.local_bedrock,
     srv_vm_id = None, srv_vm_ipv4 = None, srv_vm_port = 19132, srv_proxy_port = None,
     srv_mc_config = [], srv_last_activity = 0, srv_players_online = 0,
     srv_flavor = ServerFlavor.BEDROCK, srv_mc_version = None, srv_java_version = None,
     srv_last_backup_at = None, srv_backup_count = 0\<rparr>"

definition sample_plan :: plan where
  "sample_plan = \<lparr>bp_id = ''basic'', bp_name = ''Basic'', bp_ram_mb = 512, bp_cpu_limit = 50,
     bp_storage_mb = 2048, bp_player_limit = 10, bp_price = 19900, bp_duration_days = 30,
     bp_active = True, bp_provider_price_id = Some ''pri_1''\<rparr>"

definition sample_subscription :: subscription where
  "sample_subscription = \<lparr>sub_id = 30, sub_user_id = 1, sub_server_id = Some 10,
     sub_resource_type = None, sub_resource_id = None, sub_plan_id = ''basic'',
     sub_starts_at = 0, sub_expires_at = 1000, sub_status = BillingSubscriptionStatus.active,
     sub_provider_subscription_id = None, sub_created_at = 0, sub_updated_at = 0\<rparr>"

definition sample_transaction :: transaction where
  "sample_transaction = \<lparr>tx_id = 40, tx_user_id = 1, tx_server_id = Some 10,
     tx_resource_type = None, tx_resource_id = None, tx_subscription_id = None,
     tx_provider = ''razorpay'', tx_provider_order_id = ''order_1'',
     tx_provider_payment_id = None, tx_amount = 19900, tx_currency = ''INR'',
     tx_status = BillingTransactionStatus.pending, tx_completed_at = None,
     tx_target_plan_id = ''basic''\<rparr>"

definition sample_node :: node where
  "sample_node = \<lparr>nd_id = 20, nd_name = ''n'', nd_ip_address = ''10.0.0.1'', nd_agent_port = 8001,
     nd_status = NodeState.online, nd_status_updated_at = 0, nd_approved = True,
     nd_agent_token_hash = None, nd_tier = NodeTier.shared, nd_provider = None,
     nd_provider_instance_id = None, nd_total_ram_mb = 8192, nd_used_ram_mb = 0,
     nd_last_heartbeat = None\<rparr>"

definition sample_deployment :: deployment where
  "sample_deployment = \<lparr>dep_id = 50, dep_owner_id = 1, dep_node_id = Some 20,
     dep_docker_image = ''i'', dep_internal_port = 80, dep_host_port = None,
     dep_state = DeploymentState.running, dep_container_id = None, dep_ram_limit_mb = 512,
     dep_last_network_rx = None, dep_github_repo_url = None, dep_restart_count = 0,
     dep_health_status = HealthStatus.healthy, dep_error_message = None,
     dep_env_vars = [], dep_github_branch = ''main'', dep_webhook_token = None\<rparr>"

text \<open>A user's server with a pending payment for the basic plan, and that payment settled.\<close>

definition sample_db :: database where
  "sample_db = empty_db\<lparr>db_users := [sample_user], db_servers := [sample_server],
     db_plans := [sample_plan], db_transactions := [sample_transaction],
     db_nodes := [sample_node]\<rparr>"

lemmas sample_rows = sample_user_def sample_server_def sample_plan_def sample_subscription_def
  sample_transaction_def sample_node_def sample_deployment_def

lemmas sample_defs = sample_rows sample_db_def empty_db_def

end
