(* ===== verification/Resources.thy ===== *)
theory Resources
  imports Samples
begin

text \<open>
  \<open>orchestrator/resources.py\<close> and \<open>services/plan_limits.py\<close>: the catalogue of plans and its
  seeding, the subscription that is in force for a server, the resource limits it gives, and
  the player limit derived from them.
\<close>

section \<open>Plans\<close>

record limits =
  lim_ram_mb :: int
  lim_cpu_quota_pct :: int
  lim_storage_mb :: int
  lim_player_limit :: int

definition UNPAID_SERVER_LIMITS :: limits where
  "UNPAID_SERVER_LIMITS =
     \<lparr>lim_ram_mb = 0, lim_cpu_quota_pct = 0, lim_storage_mb = 0, lim_player_limit = 0\<rparr>"

definition DEFAULT_BILLING_PLANS :: "plan list" where
  "DEFAULT_BILLING_PLANS = [
     \<lparr>bp_id = ''basic'', bp_name = ''Basic'', bp_ram_mb = 512, bp_cpu_limit = 50,
      bp_storage_mb = 2048, bp_player_limit = 10, bp_price = 19900,
      bp_duration_days = 30, bp_active = True,
      bp_provider_price_id = Some ''pri_01m2a30sd71pwp2rpqxjqzdbay''\<rparr>,
     \<lparr>bp_id = ''pro'', bp_name = ''Pro'', bp_ram_mb = 1024, bp_cpu_limit = 100,
      bp_storage_mb = 10240, bp_player_limit = 25, bp_price = 39900,
      bp_duration_days = 30, bp_active = True,
      bp_provider_price_id = Some ''pri_01m2a2z6s8j3h1e6jmpg6z8ay4''\<rparr>,
     \<lparr>bp_id = ''ultra'', bp_name = ''Ultra'', bp_ram_mb = 2048, bp_cpu_limit = 200,
      bp_storage_mb = 20480, bp_player_limit = 50, bp_price = 79900,
      bp_duration_days = 30, bp_active = True,
      bp_provider_price_id = Some ''pri_01m2a2w94p4ptb9pkktfsxaymm''\<rparr>,
     \<lparr>bp_id = ''mega'', bp_name = ''Mega'', bp_ram_mb = 4096, bp_cpu_limit = 300,
      bp_storage_mb = 40960, bp_player_limit = 75, bp_price = 149900,
      bp_duration_days = 30, bp_active = True,
      bp_provider_price_id = Some ''pri_01m28wxe05yva8az0vb6jymxmz''\<rparr>,
     \<lparr>bp_id = ''titan'', bp_name = ''Titan'', bp_ram_mb = 8192, bp_cpu_limit = 400,
      bp_storage_mb = 81920, bp_player_limit = 100, bp_price = 249900,
      bp_duration_days = 30, bp_active = True,
      bp_provider_price_id = Some ''pri_01m2a32b1e7tayar7w8vej83hg''\<rparr>]"

text \<open>
  One step of the seeding loop: a missing plan is added, a present one gets every field but
  its key from the catalogue.
\<close>

definition seed_plan :: "plan \<Rightarrow> plan list \<Rightarrow> plan list" where
  "seed_plan p rows =
     (case get_row bp_id (bp_id p) rows of
        None \<Rightarrow> rows @ [p]
      | Some _ \<Rightarrow> modify_row bp_id (bp_id p) (\<lambda>_. p) rows)"

definition seed_default_billing_plans :: "database \<Rightarrow> database" where
  "seed_default_billing_plans db = db\<lparr>db_plans := fold seed_plan DEFAULT_BILLING_PLANS (db_plans db)\<rparr>"

lemma get_seed_plan:
  "get_row bp_id k (seed_plan p rows) =
     (if k = bp_id p then Some p else get_row bp_id k rows)"
proof (cases "get_row bp_id (bp_id p) rows")
  case None
  then show ?thesis
    by (induction rows) (auto simp: seed_plan_def get_row_def)
next
  case (Some q)
  have "get_row bp_id k (modify_row bp_id (bp_id p) (\<lambda>_. p) rows) =
      (if k = bp_id p then map_option (\<lambda>_. p) (get_row bp_id k rows) else get_row bp_id k rows)"
    by (induction rows) (auto simp: get_row_def modify_row_def)
  with Some show ?thesis by (simp add: seed_plan_def)
qed

lemma get_fold_seed:
  "distinct (map bp_id ps) \<Longrightarrow>
   get_row bp_id k (fold seed_plan ps rows) =
     (case get_row bp_id k ps of Some p \<Rightarrow> Some p | None \<Rightarrow> get_row bp_id k rows)"
proof (induction ps arbitrary: rows)
  case Nil
  then show ?case by (simp add: get_row_def)
next
  case (Cons p ps)
  then have notin: "get_row bp_id (bp_id p) ps = None"
    by (auto simp: get_row_None)
  have "get_row bp_id k (fold seed_plan (p # ps) rows) =
      (case get_row bp_id k ps of Some q \<Rightarrow> Some q | None \<Rightarrow> get_row bp_id k (seed_plan p rows))"
    using Cons by simp
  with notin show ?case
    by (cases "get_row bp_id k ps") (auto simp: get_seed_plan)
qed

lemma seed_plan_id:
  assumes "get_row bp_id (bp_id p) rows = Some p" "distinct (map bp_id rows)"
  shows "seed_plan p rows = rows"
proof -
  have "modify_row bp_id (bp_id p) (\<lambda>_. p) rows = rows"
    unfolding modify_row_def
  proof (rule map_idI)
    fix r assume r: "r \<in> set rows"
    show "(if bp_id r = bp_id p then p else r) = r"
    proof (cases "bp_id r = bp_id p")
      case True
      with get_row_unique [OF assms(2) r] assms(1) have "Some r = Some p" by (simp only:)
      then show ?thesis by simp
    qed simp
  qed
  with assms(1) show ?thesis by (simp add: seed_plan_def)
qed

lemma distinct_seed_plan:
  "distinct (map bp_id rows) \<Longrightarrow> distinct (map bp_id (seed_plan p rows))"
proof (cases "get_row bp_id (bp_id p) rows")
  case None
  assume "distinct (map bp_id rows)"
  moreover have "bp_id p \<notin> bp_id ` set rows" using None by (simp add: get_row_None)
  ultimately show ?thesis using None by (simp add: seed_plan_def)
next
  case (Some q)
  assume d: "distinct (map bp_id rows)"
  have "map bp_id (modify_row bp_id (bp_id p) (\<lambda>_. p) rows) = map bp_id rows"
    by (induction rows) (auto simp: modify_row_def)
  with d Some show ?thesis by (simp add: seed_plan_def)
qed

lemma distinct_fold_seed:
  "distinct (map bp_id rows) \<Longrightarrow> distinct (map bp_id (fold seed_plan ps rows))"
  by (induction ps arbitrary: rows) (simp_all add: distinct_seed_plan)

lemma fold_seed_id:
  "\<lbrakk>\<forall>p \<in> set ps. get_row bp_id (bp_id p) rows = Some p; distinct (map bp_id rows)\<rbrakk>
   \<Longrightarrow> fold seed_plan ps rows = rows"
  by (induction ps) (simp_all add: seed_plan_id)

lemma default_plans_distinct: "distinct (map bp_id DEFAULT_BILLING_PLANS)"
  by (simp add: DEFAULT_BILLING_PLANS_def)

section \<open>The subscription in force\<close>

definition grace_delta :: "settings \<Rightarrow> int" where
  "grace_delta cfg = days (max 0 (cfg_subscription_grace_period_days cfg))"

lemma grace_delta_nonneg: "0 \<le> grace_delta cfg"
  by (simp add: grace_delta_def)

text \<open>The \<open>where\<close> clause of \<open>active_subscription_for_server\<close>.\<close>

definition in_force :: "settings \<Rightarrow> instant \<Rightarrow> subscription \<Rightarrow> bool" where
  "in_force cfg now s \<longleftrightarrow>
     sub_status s = BillingSubscriptionStatus.active \<and> sub_expires_at s > now \<or>
     sub_status s = BillingSubscriptionStatus.grace_period \<and>
       sub_expires_at s + grace_delta cfg > now"

definition active_subscription_for_server ::
  "settings \<Rightarrow> instant \<Rightarrow> database \<Rightarrow> uuid \<Rightarrow> subscription option" where
  "active_subscription_for_server cfg now db server_id =
     first_row (sort_key (\<lambda>s. - sub_expires_at s)
       (filter (\<lambda>s. sub_server_id s = Some server_id \<and> in_force cfg now s) (db_subscriptions db)))"

definition limits_of_plan :: "plan \<Rightarrow> limits" where
  "limits_of_plan p =
     \<lparr>lim_ram_mb = bp_ram_mb p, lim_cpu_quota_pct = bp_cpu_limit p,
      lim_storage_mb = bp_storage_mb p, lim_player_limit = bp_player_limit p\<rparr>"

definition get_effective_server_resource_limits ::
  "settings \<Rightarrow> instant \<Rightarrow> database option \<Rightarrow> server \<Rightarrow> limits" where
  "get_effective_server_resource_limits cfg now mdb server =
     (case mdb of
        None \<Rightarrow> UNPAID_SERVER_LIMITS
      | Some db \<Rightarrow>
          (case active_subscription_for_server cfg now db (srv_id server) of
             None \<Rightarrow> UNPAID_SERVER_LIMITS
           | Some s \<Rightarrow>
               (case get_plan db (sub_plan_id s) of
                  None \<Rightarrow> UNPAID_SERVER_LIMITS
                | Some p \<Rightarrow> limits_of_plan p)))"

lemma first_of_sort_key:
  fixes f :: "'a \<Rightarrow> int"
  assumes "first_row (sort_key f xs) = Some x"
  shows "x \<in> set xs \<and> (\<forall>y \<in> set xs. f x \<le> f y)"
proof -
  from assms obtain rest where eq: "sort_key f xs = x # rest"
    by (cases "sort_key f xs") auto
  have "sorted (map f (sort_key f xs))" by (rule sorted_sort_key)
  then have "\<forall>y \<in> set (x # rest). f x \<le> f y" unfolding eq by auto
  moreover have "set (x # rest) = set xs" using eq set_sort [of f xs] by simp
  ultimately show ?thesis by auto
qed

lemma active_subscription_SomeD:
  assumes "active_subscription_for_server cfg now db sid = Some s"
  shows "s \<in> set (db_subscriptions db) \<and> sub_server_id s = Some sid \<and> in_force cfg now s \<and>
    (\<forall>t \<in> set (db_subscriptions db).
       sub_server_id t = Some sid \<and> in_force cfg now t \<longrightarrow> sub_expires_at t \<le> sub_expires_at s)"
  using first_of_sort_key [OF assms [unfolded active_subscription_for_server_def]] by auto

lemma active_subscription_None:
  "active_subscription_for_server cfg now db sid = None \<longleftrightarrow>
     (\<forall>s \<in> set (db_subscriptions db). sub_server_id s = Some sid \<longrightarrow> \<not> in_force cfg now s)"
proof -
  have "active_subscription_for_server cfg now db sid = None \<longleftrightarrow>
      set (sort_key (\<lambda>s. - sub_expires_at s)
       (filter (\<lambda>s. sub_server_id s = Some sid \<and> in_force cfg now s) (db_subscriptions db))) = {}"
    unfolding active_subscription_for_server_def first_row_None set_empty ..
  then show ?thesis by auto
qed

lemma active_subscription_cong:
  assumes "filter (\<lambda>s. sub_server_id s = Some sid) (db_subscriptions db) =
    filter (\<lambda>s. sub_server_id s = Some sid) (db_subscriptions db')"
  shows "active_subscription_for_server cfg now db sid = active_subscription_for_server cfg now db' sid"
proof -
  have "filter (\<lambda>s. sub_server_id s = Some sid \<and> in_force cfg now s) xs =
      filter (in_force cfg now) (filter (\<lambda>s. sub_server_id s = Some sid) xs)" for xs
    by (simp only: filter_filter)
  then show ?thesis unfolding active_subscription_for_server_def by (simp only: assms)
qed

lemma limits_depend_on:
  assumes "db_subscriptions db' = db_subscriptions db" "db_plans db' = db_plans db"
    "srv_id s' = srv_id s"
  shows "get_effective_server_resource_limits cfg now (Some db') s' =
    get_effective_server_resource_limits cfg now (Some db) s"
proof -
  have "get_plan db' = get_plan db" by (rule ext) (simp add: get_plan_def assms)
  moreover have "active_subscription_for_server cfg now db' = active_subscription_for_server cfg now db"
    by (rule ext) (simp add: active_subscription_for_server_def assms)
  ultimately show ?thesis 
    by (simp add: get_effective_server_resource_limits_def assms cong: option.case_cong)
qed

section \<open>The player limit\<close>

definition plan_player_limit :: "settings \<Rightarrow> instant \<Rightarrow> database option \<Rightarrow> server \<Rightarrow> int" where
  "plan_player_limit cfg now mdb server =
     max 0 (lim_player_limit (get_effective_server_resource_limits cfg now mdb server))"

definition clamp_max_players ::
  "settings \<Rightarrow> instant \<Rightarrow> int option \<Rightarrow> database option \<Rightarrow> server \<Rightarrow> int option \<Rightarrow> int option" where
  "clamp_max_players cfg now requested mdb server dflt =
     (let limit = plan_player_limit cfg now mdb server in
      if limit \<le> 0 then None
      else (case (if requested \<noteq> None then requested else dflt) of
              None \<Rightarrow> Some limit
            | Some base \<Rightarrow> Some (max 1 (min base limit))))"


section \<open>Properties\<close>

text \<open>
  The limits of a server are those of the plan of its longest-lasting subscription in force,
  and nothing when it has none: either some subscription of the server is in force, no other one
  in force expires later, and the limits are its plan's (nothing if the plan is gone), or none is
  in force and every limit is zero.
\<close>

theorem effective_limits_spec:
  "(\<exists>s \<in> set (db_subscriptions db). sub_server_id s = Some (srv_id v) \<and> in_force cfg now s \<and>
      \<not> (\<exists>t \<in> set (db_subscriptions db). sub_server_id t = Some (srv_id v) \<and> in_force cfg now t \<and>
         sub_expires_at s < sub_expires_at t) \<and>
      get_effective_server_resource_limits cfg now (Some db) v =
        (case get_plan db (sub_plan_id s) of None \<Rightarrow> UNPAID_SERVER_LIMITS | Some p \<Rightarrow> limits_of_plan p)) \<or>
   (\<exists>s \<in> set (db_subscriptions db). sub_server_id s = Some (srv_id v) \<and> in_force cfg now s) = False \<and>
      get_effective_server_resource_limits cfg now (Some db) v = UNPAID_SERVER_LIMITS"
proof (cases "active_subscription_for_server cfg now db (srv_id v)")
  case None
  then show ?thesis
    using active_subscription_None [of cfg now db "srv_id v"]
    by (auto simp: get_effective_server_resource_limits_def)
next
  case (Some s)
  show ?thesis
    using active_subscription_SomeD [OF Some] Some
    by (intro disjI1 bexI [of _ s]) (auto simp: get_effective_server_resource_limits_def not_less)
qed

text \<open>
  Seeding makes every catalogue plan present with the catalogue's fields, leaves every other
  plan alone, and repeating it changes nothing.
\<close>

theorem seeding_complete_and_idempotent:
  assumes "distinct (map bp_id (db_plans db))"
  shows "get_plan (seed_default_billing_plans db) k =
      (case get_row bp_id k DEFAULT_BILLING_PLANS of Some p \<Rightarrow> Some p | None \<Rightarrow> get_plan db k) \<and>
    seed_default_billing_plans (seed_default_billing_plans db) = seed_default_billing_plans db \<and>
    distinct (map bp_id (db_plans (seed_default_billing_plans db)))"
proof (intro conjI)
  let ?rows = "fold seed_plan DEFAULT_BILLING_PLANS (db_plans db)"
  have look: "get_row bp_id k ?rows = (case get_row bp_id k DEFAULT_BILLING_PLANS of
      Some p \<Rightarrow> Some p | None \<Rightarrow> get_row bp_id k (db_plans db))" for k
    by (rule get_fold_seed [OF default_plans_distinct])
  then show "get_plan (seed_default_billing_plans db) k =
      (case get_row bp_id k DEFAULT_BILLING_PLANS of Some p \<Rightarrow> Some p | None \<Rightarrow> get_plan db k)"
    by (simp add: get_plan_def seed_default_billing_plans_def split: option.split)
  show d: "distinct (map bp_id (db_plans (seed_default_billing_plans db)))"
    by (simp add: seed_default_billing_plans_def distinct_fold_seed assms)
  have "\<forall>p \<in> set DEFAULT_BILLING_PLANS. get_row bp_id (bp_id p) ?rows = Some p"
    using get_row_unique [OF default_plans_distinct] by (simp add: look)
  then show "seed_default_billing_plans (seed_default_billing_plans db) = seed_default_billing_plans db"
    by (simp add: seed_default_billing_plans_def fold_seed_id distinct_fold_seed assms)
qed

theorem seeding_complete_and_idempotent_witness:
  "map_option bp_ram_mb (get_plan (seed_default_billing_plans sample_db) ''titan'') = Some 8192"
proof -
  have "distinct (map bp_id (db_plans sample_db))" by (simp add: sample_defs)
  from seeding_complete_and_idempotent [OF this, of "''titan''"] show ?thesis
    by (simp add: DEFAULT_BILLING_PLANS_def)
qed

lemma clamp_max_players_bounds:
  "case clamp_max_players cfg now req mdb v dflt of
     None \<Rightarrow> plan_player_limit cfg now mdb v \<le> 0
   | Some n \<Rightarrow> 1 \<le> n \<and> n \<le> plan_player_limit cfg now mdb v \<and>
       clamp_max_players cfg now (Some n) mdb v dflt = Some n"
  by (auto simp: clamp_max_players_def Let_def split: option.split)

end
