(* ===== verification/PyText.thy ===== *)
theory PyText
  imports Prelude
begin

text \<open>
  The operations of Python's \<open>str\<close> and \<open>bytes\<close> that the modelled code uses.  Text is a list of
  bytes, so the functions below treat the ASCII range as Python does; the non-ASCII digits and
  spaces that Python also recognises are outside the model.
\<close>

section \<open>Character classes\<close>

definition is_digit :: "char \<Rightarrow> bool" where
  "is_digit c \<longleftrightarrow> (let n = of_char c :: nat in 48 \<le> n \<and> n \<le> 57)"

definition is_space :: "char \<Rightarrow> bool" where
  "is_space c \<longleftrightarrow> (let n = of_char c :: nat in 9 \<le> n \<and> n \<le> 13 \<or> 28 \<le> n \<and> n \<le> 32)"

definition lower_char :: "char \<Rightarrow> char" where
  "lower_char c = (let n = of_char c :: nat in if 65 \<le> n \<and> n \<le> 90 then char_of (n + 32) else c)"

definition upper_char :: "char \<Rightarrow> char" where
  "upper_char c = (let n = of_char c :: nat in if 97 \<le> n \<and> n \<le> 122 then char_of (n - 32) else c)"

definition py_lower :: "string \<Rightarrow> string" where
  "py_lower s = map lower_char s"

definition py_upper :: "string \<Rightarrow> string" where
  "py_upper s = map upper_char s"

section \<open>Stripping, prefixes\<close>

definition lstrip_where :: "(char \<Rightarrow> bool) \<Rightarrow> string \<Rightarrow> string" where
  "lstrip_where p s = dropWhile p s"

definition rstrip_where :: "(char \<Rightarrow> bool) \<Rightarrow> string \<Rightarrow> string" where
  "rstrip_where p s = rev (dropWhile p (rev s))"

definition py_strip :: "string \<Rightarrow> string" where
  "py_strip s = rstrip_where is_space (lstrip_where is_space s)"

definition py_startswith :: "string \<Rightarrow> string \<Rightarrow> bool" where
  "py_startswith s p \<longleftrightarrow> take (length p) s = p"

definition py_isdigit :: "string \<Rightarrow> bool" where
  "py_isdigit s \<longleftrightarrow> s \<noteq> [] \<and> (\<forall>c \<in> set s. is_digit c)"

lemma dropWhile_none: "(\<forall>c \<in> set s. \<not> p c) \<Longrightarrow> dropWhile p s = s"
  by (cases s) auto

lemma py_strip_none: "(\<forall>c \<in> set s. \<not> is_space c) \<Longrightarrow> py_strip s = s"
  by (simp add: py_strip_def lstrip_where_def rstrip_where_def dropWhile_none)

lemma rstrip_where_append:
  "rstrip_where p (s @ t) = (if \<forall>c \<in> set t. p c then rstrip_where p s else s @ rstrip_where p t)"
proof (induction t rule: rev_induct)
  case Nil
  then show ?case by simp
next
  case (snoc c t)
  then show ?case by (simp add: rstrip_where_def)
qed

lemma py_strip_ends:
  "py_strip s = [] \<or> (\<not> is_space (hd (py_strip s)) \<and> \<not> is_space (last (py_strip s)))"
proof (cases "py_strip s = []")
  case False
  let ?t = "dropWhile is_space s"
  have ne: "dropWhile is_space (rev ?t) \<noteq> []"
    using False unfolding py_strip_def rstrip_where_def lstrip_where_def
    by (metis rev.simps(1))
  have l: "\<not> is_space (last (py_strip s))"
    using hd_dropWhile [OF ne] by (simp add: py_strip_def rstrip_where_def lstrip_where_def last_rev)
  have tne: "?t \<noteq> []" using ne by (metis dropWhile.simps(1) rev.simps(1))
  obtain u where u: "?t = rev (dropWhile is_space (rev ?t)) @ u"
    by (metis rev_append rev_rev_ident takeWhile_dropWhile_id)
  then have "hd ?t = hd (rev (dropWhile is_space (rev ?t)))"
    using ne by (metis hd_append2 rev_is_Nil_conv)
  then have "\<not> is_space (hd (py_strip s))"
    using hd_dropWhile [OF tne] by (simp add: py_strip_def rstrip_where_def lstrip_where_def)
  with l show ?thesis by simp
qed simp

section \<open>Splitting and joining\<close>

text \<open>\<open>s.split(c)\<close> with a one-character separator, and \<open>c.join(parts)\<close>.\<close>

fun py_split :: "char \<Rightarrow> string \<Rightarrow> string list" where
  "py_split c [] = [[]]"
| "py_split c (x # xs) =
     (if x = c then [] # py_split c xs
      else (case py_split c xs of [] \<Rightarrow> [[x]] | p # ps \<Rightarrow> (x # p) # ps))"

fun py_join :: "char \<Rightarrow> string list \<Rightarrow> string" where
  "py_join c [] = []"
| "py_join c [p] = p"
| "py_join c (p # q # ps) = p @ c # py_join c (q # ps)"

text \<open>\<open>s.split(c, 1)\<close>: at most one split.\<close>

definition py_split_once :: "char \<Rightarrow> string \<Rightarrow> string list" where
  "py_split_once c s =
     (if c \<in> set s then [takeWhile (\<lambda>x. x \<noteq> c) s, tl (dropWhile (\<lambda>x. x \<noteq> c) s)] else [s])"

lemma py_split_nonempty [simp]: "py_split c s \<noteq> []"
  by (induction s) (auto split: list.splits)

lemma py_join_Cons: "ps \<noteq> [] \<Longrightarrow> py_join c (p # ps) = p @ c # py_join c ps"
  by (cases ps) auto

lemma py_join_split: "py_join c (py_split c s) = s"
proof (induction s)
  case (Cons x xs)
  obtain p ps where ps: "py_split c xs = p # ps"
    by (cases "py_split c xs") auto
  with Cons show ?case by (cases ps) auto
qed simp

lemma py_split_no_sep: "c \<notin> set s \<Longrightarrow> py_split c s = [s]"
  by (induction s) auto

lemma py_split_append_sep:
  "c \<notin> set p \<Longrightarrow> py_split c (p @ c # s) = p # py_split c s"
  by (induction p) auto

lemma py_split_join:
  "ps \<noteq> [] \<Longrightarrow> (\<forall>p \<in> set ps. c \<notin> set p) \<Longrightarrow> py_split c (py_join c ps) = ps"
proof (induction ps)
  case (Cons p ps)
  show ?case
  proof (cases ps)
    case Nil
    with Cons.prems show ?thesis by (simp add: py_split_no_sep)
  next
    case (Cons q qs)
    with Cons.IH Cons.prems show ?thesis by (simp add: py_split_append_sep)
  qed
qed simp

lemma py_split_parts_free: "\<forall>p \<in> set (py_split c s). c \<notin> set p"
proof (induction s)
  case (Cons x xs)
  then show ?case by (cases "py_split c xs") auto
qed simp

section \<open>Decimal numbers\<close>

definition digit_char :: "nat \<Rightarrow> char" where
  "digit_char d = char_of (48 + d)"

definition digit_val :: "char \<Rightarrow> nat" where
  "digit_val c = of_char c - 48"

fun nat_to_str :: "nat \<Rightarrow> string" where
  "nat_to_str n = (if n < 10 then [digit_char n] else nat_to_str (n div 10) @ [digit_char (n mod 10)])"

declare nat_to_str.simps [simp del]

text \<open>\<open>str(n)\<close> of an integer.\<close>

definition py_str_int :: "int \<Rightarrow> string" where
  "py_str_int n = (if n < 0 then CHR ''-'' # nat_to_str (nat (- n)) else nat_to_str (nat n))"

text \<open>
  \<open>int(s)\<close>: surrounding white space, an optional sign, digits with single underscores between
  them, at most 4300 digits; \<open>None\<close> is the \<open>ValueError\<close>.
\<close>

fun parse_digits :: "string \<Rightarrow> bool \<Rightarrow> nat \<Rightarrow> nat option" where
  "parse_digits [] after_digit acc = (if after_digit then Some acc else None)"
| "parse_digits (c # cs) after_digit acc =
     (if is_digit c then parse_digits cs True (acc * 10 + digit_val c)
      else if c = CHR ''_'' \<and> after_digit then parse_digits cs False acc
      else None)"

definition py_int :: "string \<Rightarrow> int option" where
  "py_int s =
     (let t = py_strip s in
      if length (filter is_digit t) > 4300 then None
      else (case t of
              [] \<Rightarrow> None
            | c # cs \<Rightarrow>
                if c = CHR ''-'' then map_option (\<lambda>n. - int n) (parse_digits cs False 0)
                else if c = CHR ''+'' then map_option int (parse_digits cs False 0)
                else map_option int (parse_digits t False 0)))"

lemma of_char_digit_char: "d < 10 \<Longrightarrow> (of_char (digit_char d) :: nat) = 48 + d"
  by (simp add: digit_char_def)

lemma is_digit_digit_char [simp]: "d < 10 \<Longrightarrow> is_digit (digit_char d)"
  by (simp add: is_digit_def of_char_digit_char)

lemma digit_val_digit_char [simp]: "d < 10 \<Longrightarrow> digit_val (digit_char d) = d"
  by (simp add: digit_val_def of_char_digit_char)

lemma is_digit_not_space: "is_digit c \<Longrightarrow> \<not> is_space c"
  by (auto simp: is_digit_def is_space_def Let_def)

lemma nat_to_str_digits: "\<forall>c \<in> set (nat_to_str n). is_digit c"
proof (induction n rule: nat_to_str.induct)
  case (1 n)
  then show ?case by (subst nat_to_str.simps) auto
qed

lemma nat_to_str_nonempty [simp]: "nat_to_str n \<noteq> []"
  by (subst nat_to_str.simps) simp

lemma parse_digits_append:
  "\<forall>c \<in> set xs. is_digit c \<Longrightarrow>
   parse_digits (xs @ ys) b acc =
     (if xs = [] then parse_digits ys b acc
      else parse_digits ys True (foldl (\<lambda>a c. a * 10 + digit_val c) acc xs))"
  by (induction xs arbitrary: acc b) auto

lemma foldl_nat_to_str: "foldl (\<lambda>a c. a * 10 + digit_val c) 0 (nat_to_str n) = n"
proof (induction n rule: nat_to_str.induct)
  case (1 n)
  show ?case
  proof (cases "n < 10")
    case True
    then show ?thesis by (subst nat_to_str.simps) simp
  next
    case False
    with 1 show ?thesis by (subst nat_to_str.simps) simp
  qed
qed

lemma parse_nat_to_str: "parse_digits (nat_to_str n) False 0 = Some n"
  using parse_digits_append [OF nat_to_str_digits, of n "[]" False 0]
  by (simp add: foldl_nat_to_str)

lemma length_nat_to_str_bound: "n < 10 ^ Suc k \<Longrightarrow> length (nat_to_str n) \<le> Suc k"
proof (induction k arbitrary: n)
  case 0
  then show ?case by (subst nat_to_str.simps) simp
next
  case (Suc k)
  show ?case
  proof (cases "n < 10")
    case True
    then show ?thesis by (subst nat_to_str.simps) simp
  next
    case False
    from Suc.prems have "n div 10 < 10 ^ Suc k"
      by (simp add: less_mult_imp_div_less mult.commute)
    then have "length (nat_to_str (n div 10)) \<le> Suc k" by (rule Suc.IH)
    with False show ?thesis by (subst nat_to_str.simps) simp
  qed
qed

lemma nat_to_str_no_space: "py_strip (nat_to_str n) = nat_to_str n"
  using nat_to_str_digits is_digit_not_space by (blast intro: py_strip_none)

lemma not_is_digit_minus [simp]: "\<not> is_digit (CHR ''-'')" "\<not> is_digit (CHR ''+'')"
  "\<not> is_digit (CHR '';'')" "\<not> is_digit (CHR ''_'')"
  by (simp_all add: is_digit_def)

lemma py_int_nat_to_str:
  assumes "length (nat_to_str n) \<le> 4300"
  shows "py_int (nat_to_str n) = Some (int n)"
proof -
  have f: "filter is_digit (nat_to_str n) = nat_to_str n"
    using nat_to_str_digits by simp
  obtain c cs where s: "nat_to_str n = c # cs" by (cases "nat_to_str n") auto
  have "is_digit c" using nat_to_str_digits [of n] s by simp
  then have "c \<noteq> CHR ''-''" "c \<noteq> CHR ''+''" by auto
  then have "(case nat_to_str n of [] \<Rightarrow> None
      | c # cs \<Rightarrow>
          if c = CHR ''-'' then map_option (\<lambda>n. - int n) (parse_digits cs False 0)
          else if c = CHR ''+'' then map_option int (parse_digits cs False 0)
          else map_option int (parse_digits (nat_to_str n) False 0)) =
      map_option int (parse_digits (nat_to_str n) False 0)"
    by (simp only: s list.case if_False)
  then show ?thesis
    using assms unfolding py_int_def Let_def nat_to_str_no_space f parse_nat_to_str by simp
qed

section \<open>UUID strings\<close>

text \<open>\<open>s.replace(p, "")\<close>: every occurrence from the left, without overlap.\<close>

function py_remove :: "string \<Rightarrow> string \<Rightarrow> string" where
  "py_remove p s =
     (case s of
        [] \<Rightarrow> []
      | c # cs \<Rightarrow>
          (if p \<noteq> [] \<and> py_startswith s p then py_remove p (drop (length p) s)
           else c # py_remove p cs))"
  by pat_completeness auto
termination
  by (relation "measure (\<lambda>(p, s). length s)") auto

declare py_remove.simps [simp del]

definition hex_val :: "char \<Rightarrow> nat option" where
  "hex_val c =
     (let n = of_char c :: nat in
      if 48 \<le> n \<and> n \<le> 57 then Some (n - 48)
      else if 97 \<le> n \<and> n \<le> 102 then Some (n - 87)
      else if 65 \<le> n \<and> n \<le> 70 then Some (n - 55)
      else None)"

fun parse_hex :: "string \<Rightarrow> bool \<Rightarrow> nat \<Rightarrow> nat option" where
  "parse_hex [] after_digit acc = (if after_digit then Some acc else None)"
| "parse_hex (c # cs) after_digit acc =
     (case hex_val c of
        Some d \<Rightarrow> parse_hex cs True (acc * 16 + d)
      | None \<Rightarrow> if c = CHR ''_'' \<and> after_digit then parse_hex cs False acc else None)"

text \<open>\<open>int(s, 16)\<close> of a string without a minus sign, which \<open>uuid.UUID\<close> has removed.\<close>

definition py_int16 :: "string \<Rightarrow> nat option" where
  "py_int16 s =
     (let t = py_strip s;
          u = (case t of c # cs \<Rightarrow> (if c = CHR ''+'' then cs else t) | [] \<Rightarrow> t) in
      if py_startswith (py_lower u) ''0x'' then
        (let v = drop 2 u in
         case v of c # cs \<Rightarrow> (if c = CHR ''_'' then parse_hex cs False 0 else parse_hex v False 0)
                 | [] \<Rightarrow> None)
      else parse_hex u False 0)"

text \<open>\<open>uuid.UUID(s)\<close>; \<open>None\<close> is the \<open>ValueError\<close>.\<close>

definition parse_uuid :: "string \<Rightarrow> uuid option" where
  "parse_uuid s =
     (let brace = (\<lambda>c. c = CHR ''{'' \<or> c = CHR ''}'');
          a = py_remove ''uuid:'' (py_remove ''urn:'' s);
          h = py_remove ''-'' (rstrip_where brace (lstrip_where brace a)) in
      if length h \<noteq> 32 then None else py_int16 h)"

end
