(* ===== verification/Billing.thy ===== *)
theory Billing
  imports Resources PyText
begin

text \<open>
  \<open>services/billing.py\<close>: orders, the activation of a subscription by a payment (from the client
  or from the provider's webhook), the guards a start has to pass, and the periodic pass that
  moves expired subscriptions to their grace period and then suspends them.

  An operation takes the committed database and returns a result with the committed database
  it leaves; a raise before the commit leaves the database it was given.  \<open>razorpay_create\<close>
  (create an order, \<open>None\<close> for its error) and \<open>signature_ok\<close> stand for the Razorpay client.  A
  UUID or an instant stored in a JSON column is kept as its number.
\<close>

section \<open>Orders\<close>

record provider_order =
  po_provider :: string
  po_provider_order_id :: string
  po_amount :: int
  po_currency :: string

text \<open>The provider takes paise: \<open>int(amount * 100)\<close>, which is the amount in hundredths.\<close>

definition create_provider_order ::
  "(int \<Rightarrow> string \<Rightarrow> string option) \<Rightarrow> int \<Rightarrow> string \<Rightarrow> exn + provider_order" where
  "create_provider_order razorpay_create amount currency =
     (case razorpay_create amount (py_upper currency) of
        None \<Rightarrow> Inl (BillingError ''razorpay_order_failed'')
      | Some order_id \<Rightarrow>
          Inr \<lparr>po_provider = ''razorpay'', po_provider_order_id = order_id, po_amount = amount,
               po_currency = py_upper currency\<rparr>)"

definition apply_plan_limits_to_server :: "plan \<Rightarrow> server \<Rightarrow> server" where
  "apply_plan_limits_to_server plan server =
     server\<lparr>srv_mc_config :=
       dict_set ''resource_limits''
         (JObj [(''ram_mb'', JInt (bp_ram_mb plan)),
                (''cpu_quota_pct'', JInt (bp_cpu_limit plan)),
                (''storage_mb'', JInt (bp_storage_mb plan)),
                (''player_limit'', JInt (bp_player_limit plan))])
         (dict_set ''billing_plan_id'' (JStr (bp_id plan)) (srv_mc_config server))\<rparr>"

definition create_upgrade_transaction ::
  "(int \<Rightarrow> string \<Rightarrow> string option) \<Rightarrow> uuid \<Rightarrow> database \<Rightarrow> user \<Rightarrow> uuid \<Rightarrow> string \<Rightarrow> string \<Rightarrow>
   (exn + transaction \<times> provider_order) \<times> database" where
  "create_upgrade_transaction razorpay_create new_id db user server_id target_plan_id currency =
     (case get_server db server_id of
        None \<Rightarrow> (Inl (BillingError ''server_not_found''), db)
      | Some server \<Rightarrow>
          if srv_owner_id server \<noteq> usr_id user then (Inl (BillingError ''server_not_found''), db)
          else (case get_plan db target_plan_id of
             None \<Rightarrow> (Inl (BillingError ''plan_not_found''), db)
           | Some plan \<Rightarrow>
               if \<not> bp_active plan then (Inl (BillingError ''plan_not_found''), db)
               else (case create_provider_order razorpay_create (bp_price plan) currency of
                  Inl e \<Rightarrow> (Inl e, db)
                | Inr order \<Rightarrow>
                    let tx = \<lparr>tx_id = new_id, tx_user_id = usr_id user,
                              tx_server_id = Some (srv_id server),
                              tx_resource_type = None, tx_resource_id = None,
                              tx_subscription_id = None,
                              tx_provider = po_provider order,
                              tx_provider_order_id = po_provider_order_id order,
                              tx_provider_payment_id = None,
                              tx_amount = po_amount order, tx_currency = po_currency order,
                              tx_status = BillingTransactionStatus.pending,
                              tx_completed_at = None, tx_target_plan_id = bp_id plan\<rparr> in
                    if po_provider_order_id order \<in> tx_provider_order_id ` set (db_transactions db)
                    then (Inl IntegrityError, db)
                    else (Inr (tx, order), db\<lparr>db_transactions := db_transactions db @ [tx]\<rparr>))))"

section \<open>Activation\<close>

definition is_current :: "subscription \<Rightarrow> bool" where
  "is_current s \<longleftrightarrow> sub_status s = BillingSubscriptionStatus.active \<or>
     sub_status s = BillingSubscriptionStatus.grace_period"

text \<open>
  The body of the \<open>try\<close> of \<open>_activate_subscription\<close>, up to the commit.  The new row's key is
  \<open>new_id\<close>.
\<close>

definition activation_db ::
  "instant \<Rightarrow> uuid \<Rightarrow> database \<Rightarrow> transaction \<Rightarrow> string \<Rightarrow> server \<Rightarrow> plan \<Rightarrow>
   transaction \<times> subscription \<times> database" where
  "activation_db now new_id db tx payment_id server plan =
     (let cancelled_subs = modify_where
            (\<lambda>s. sub_server_id s = tx_server_id tx \<and> is_current s)
            (\<lambda>s. s\<lparr>sub_status := BillingSubscriptionStatus.cancelled, sub_updated_at := now\<rparr>)
            (db_subscriptions db);
          subscription = \<lparr>sub_id = new_id, sub_user_id = tx_user_id tx,
            sub_server_id = tx_server_id tx, sub_resource_type = None, sub_resource_id = None,
            sub_plan_id = bp_id plan, sub_starts_at = now,
            sub_expires_at = now + days (bp_duration_days plan),
            sub_status = BillingSubscriptionStatus.active,
            sub_provider_subscription_id = None,
            sub_created_at = now, sub_updated_at = now\<rparr>;
          tx' = tx\<lparr>tx_status := BillingTransactionStatus.paid,
            tx_provider_payment_id := Some payment_id,
            tx_subscription_id := Some new_id, tx_completed_at := Some now\<rparr>;
          audit = \<lparr>aud_user_id = tx_user_id tx, aud_server_id = tx_server_id tx,
            aud_transaction_id = Some (tx_id tx), aud_action = ''subscription_upgraded'',
            aud_details = [(''plan_id'', JStr (bp_id plan)),
              (''provider'', JStr (tx_provider tx)),
              (''provider_order_id'', JStr (tx_provider_order_id tx)),
              (''provider_payment_id'', JStr payment_id)]\<rparr>
      in (tx', subscription,
          upd_server (srv_id server) (apply_plan_limits_to_server plan)
            (db\<lparr>db_subscriptions := cancelled_subs @ [subscription],
                db_transactions := modify_row tx_id (tx_id tx) (\<lambda>_. tx') (db_transactions db),
                db_audit_logs := db_audit_logs db @ [audit]\<rparr>)))"

text \<open>The unique constraint on \<open>transactions.provider_payment_id\<close>, checked at the commit.\<close>

definition payment_id_taken :: "database \<Rightarrow> transaction \<Rightarrow> string \<Rightarrow> bool" where
  "payment_id_taken db tx payment_id \<longleftrightarrow>
     (\<exists>t \<in> set (db_transactions db).
        tx_id t \<noteq> tx_id tx \<and> tx_provider_payment_id t = Some payment_id)"

definition activate_subscription ::
  "instant \<Rightarrow> uuid \<Rightarrow> database \<Rightarrow> transaction \<Rightarrow> string \<Rightarrow>
   (exn + transaction \<times> subscription) \<times> database" where
  "activate_subscription now new_id db tx payment_id =
     (if tx_status tx = BillingTransactionStatus.paid then
        (case Option.bind (tx_subscription_id tx) (get_subscription db) of
           None \<Rightarrow> (Inl (BillingError ''transaction_inconsistent''), db)
         | Some s \<Rightarrow> (Inr (tx, s), db))
      else if tx_status tx \<noteq> BillingTransactionStatus.pending then
        (Inl (BillingError ''transaction_not_pending''), db)
      else (case (Option.bind (tx_server_id tx) (get_server db), get_plan db (tx_target_plan_id tx)) of
         (Some server, Some plan) \<Rightarrow>
           if \<not> bp_active plan then (Inl (BillingError ''upgrade_target_missing''), db)
           else if payment_id_taken db tx payment_id then
             (Inl (BillingError ''payment_id_reused''), db)
           else (let (tx', s, db') = activation_db now new_id db tx payment_id server plan
                 in (Inr (tx', s), db'))
       | _ \<Rightarrow> (Inl (BillingError ''upgrade_target_missing''), db)))"

definition verify_upgrade_payment ::
  "(string \<Rightarrow> string \<Rightarrow> string \<Rightarrow> bool) \<Rightarrow> instant \<Rightarrow> uuid \<Rightarrow> database \<Rightarrow> uuid \<Rightarrow> string \<Rightarrow> string \<Rightarrow> string \<Rightarrow>
   (exn + transaction \<times> subscription) \<times> database" where
  "verify_upgrade_payment signature_ok now new_id db user_id order_id payment_id signature =
     (case one_or_none (filter (\<lambda>t. tx_provider_order_id t = order_id) (db_transactions db)) of
        Inl e \<Rightarrow> (Inl e, db)
      | Inr None \<Rightarrow> (Inl (BillingError ''order_not_found''), db)
      | Inr (Some tx) \<Rightarrow>
          if tx_user_id tx \<noteq> user_id then (Inl (BillingError ''unauthorized''), db)
          else if tx_status tx = BillingTransactionStatus.paid then
            activate_subscription now new_id db tx payment_id
          else if \<not> signature_ok order_id payment_id signature then
            (Inl (BillingError ''invalid_signature''), db)
          else activate_subscription now new_id db tx payment_id)"

definition fulfill_webhook_payment ::
  "instant \<Rightarrow> uuid \<Rightarrow> database \<Rightarrow> string \<Rightarrow> string \<Rightarrow>
   (exn + (transaction \<times> subscription) option) \<times> database" where
  "fulfill_webhook_payment now new_id db order_id payment_id =
     (case one_or_none (filter (\<lambda>t. tx_provider_order_id t = order_id \<and>
                tx_status t = BillingTransactionStatus.pending) (db_transactions db)) of
        Inl e \<Rightarrow> (Inl e, db)
      | Inr None \<Rightarrow> (Inr None, db)
      | Inr (Some tx) \<Rightarrow>
          (case activate_subscription now new_id db tx payment_id of
             (Inl e, db') \<Rightarrow> (Inl e, db')
           | (Inr r, db') \<Rightarrow> (Inr (Some r), db')))"

section \<open>Guards of a start\<close>

definition ensure_server_not_billing_suspended :: "database \<Rightarrow> server \<Rightarrow> exn + unit" where
  "ensure_server_not_billing_suspended db server =
     (case first_row (filter (\<lambda>s. sub_server_id s = Some (srv_id server) \<and>
              sub_status s = BillingSubscriptionStatus.suspended) (db_subscriptions db)) of
        None \<Rightarrow> Inr ()
      | Some _ \<Rightarrow> Inl (BillingError ''subscription_suspended''))"

definition ensure_active_subscription_for_start ::
  "settings \<Rightarrow> instant \<Rightarrow> database \<Rightarrow> server \<Rightarrow> exn + unit" where
  "ensure_active_subscription_for_start cfg now db server =
     (case ensure_server_not_billing_suspended db server of
        Inl e \<Rightarrow> Inl e
      | Inr _ \<Rightarrow>
          (case active_subscription_for_server cfg now db (srv_id server) of
             None \<Rightarrow> Inl (BillingError ''subscription_required'')
           | Some s \<Rightarrow>
               (case get_plan db (sub_plan_id s) of
                  None \<Rightarrow> Inl (BillingError ''subscription_invalid'')
                | Some p \<Rightarrow> if bp_ram_mb p \<le> 0 then Inl (BillingError ''subscription_invalid'')
                            else Inr ())))"

section \<open>The expiration pass\<close>

text \<open>
  Both queries run against the database as the pass found it: the session does not autoflush
  (\<open>SessionLocal\<close> in \<open>database/db.py\<close>), so the rows the first loop moves to the grace period
  are not rows of the second query.  \<open>locked\<close> are the subscriptions another transaction holds,
  which \<open>FOR UPDATE SKIP LOCKED\<close> passes over.  Stopping the server may fail; the failure is
  logged and nothing below depends on it.
\<close>

definition grace_step :: "instant \<Rightarrow> subscription \<Rightarrow> database \<Rightarrow> database" where
  "grace_step now s db = db\<lparr>db_subscriptions := modify_row sub_id (sub_id s)
     (\<lambda>r. r\<lparr>sub_status := BillingSubscriptionStatus.grace_period, sub_updated_at := now\<rparr>)
     (db_subscriptions db)\<rparr>"

definition clear_billing_config :: "server \<Rightarrow> server" where
  "clear_billing_config r = r\<lparr>srv_state := ServerState.suspended,
     srv_mc_config := dict_pop ''billing_plan_id'' (dict_pop ''resource_limits'' (srv_mc_config r))\<rparr>"

definition suspend_step :: "instant \<Rightarrow> subscription \<Rightarrow> database \<Rightarrow> database" where
  "suspend_step now s db =
     (let db1 = db\<lparr>db_subscriptions := modify_row sub_id (sub_id s)
            (\<lambda>r. r\<lparr>sub_status := BillingSubscriptionStatus.suspended, sub_updated_at := now\<rparr>)
            (db_subscriptions db)\<rparr>;
          db2 = (case Option.bind (sub_server_id s) (get_server db1) of
                   None \<Rightarrow> db1
                 | Some server \<Rightarrow> upd_server (srv_id server) clear_billing_config db1)
      in db2\<lparr>db_audit_logs := db_audit_logs db2 @
           [\<lparr>aud_user_id = sub_user_id s, aud_server_id = sub_server_id s,
             aud_transaction_id = None, aud_action = ''subscription_suspended'',
             aud_details = [(''subscription_id'', JInt (int (sub_id s))),
               (''expired_at'', JInt (sub_expires_at s))]\<rparr>]\<rparr>)"

record expiration_result =
  exr_grace_period :: nat
  exr_suspended :: nat
  exr_invalidated :: "(uuid \<times> uuid option) list"

definition expired_active :: "instant \<Rightarrow> uuid list \<Rightarrow> database \<Rightarrow> subscription list" where
  "expired_active now locked db = filter (\<lambda>s. sub_status s = BillingSubscriptionStatus.active \<and>
     sub_expires_at s \<le> now \<and> sub_id s \<notin> set locked) (db_subscriptions db)"

definition expired_grace :: "settings \<Rightarrow> instant \<Rightarrow> uuid list \<Rightarrow> database \<Rightarrow> subscription list" where
  "expired_grace cfg now locked db =
     filter (\<lambda>s. sub_status s = BillingSubscriptionStatus.grace_period \<and>
       sub_expires_at s + grace_delta cfg \<le> now \<and> sub_id s \<notin> set locked) (db_subscriptions db)"

definition process_subscription_expirations ::
  "settings \<Rightarrow> instant \<Rightarrow> uuid list \<Rightarrow> database \<Rightarrow> expiration_result \<times> database" where
  "process_subscription_expirations cfg now locked db =
     (let to_grace = expired_active now locked db;
          to_suspend = expired_grace cfg now locked db;
          db1 = fold (grace_step now) to_grace db;
          db2 = fold (suspend_step now) to_suspend db1
      in (\<lparr>exr_grace_period = length to_grace, exr_suspended = length to_suspend,
           exr_invalidated =
             remdups (map (\<lambda>s. (sub_user_id s, sub_server_id s)) (to_grace @ to_suspend))\<rparr>, db2))"

section \<open>Lemmas\<close>

lemma activate_error_keeps_db:
  "activate_subscription now new_id db tx pid = (Inl e, db') \<Longrightarrow> db' = db"
  by (auto simp: activate_subscription_def Let_def split: if_splits option.splits prod.splits)

lemma activate_paid:
  "tx_status tx = BillingTransactionStatus.paid \<Longrightarrow>
   activate_subscription now new_id db tx pid =
     (case Option.bind (tx_subscription_id tx) (get_subscription db) of
        None \<Rightarrow> (Inl (BillingError ''transaction_inconsistent''), db)
      | Some s \<Rightarrow> (Inr (tx, s), db))"
  by (simp add: activate_subscription_def)

lemma activate_pending_success:
  assumes "activate_subscription now new_id db tx pid = (Inr (tx', s), db')"
    and "tx_status tx = BillingTransactionStatus.pending"
  obtains sid server plan where "tx_server_id tx = Some sid" "get_server db sid = Some server"
    "get_plan db (tx_target_plan_id tx) = Some plan" "bp_active plan"
    "\<not> payment_id_taken db tx pid"
    "activation_db now new_id db tx pid server plan = (tx', s, db')"
proof -
  obtain sid where sid: "tx_server_id tx = Some sid"
    using assms by (cases "tx_server_id tx") (auto simp: activate_subscription_def)
  obtain server where server: "get_server db sid = Some server"
    using assms sid by (cases "get_server db sid") (auto simp: activate_subscription_def)
  obtain plan where plan: "get_plan db (tx_target_plan_id tx) = Some plan"
    using assms sid server
    by (cases "get_plan db (tx_target_plan_id tx)") (auto simp: activate_subscription_def)
  have "bp_active plan" "\<not> payment_id_taken db tx pid"
    "activation_db now new_id db tx pid server plan = (tx', s, db')"
    using assms sid server plan
    by (auto simp: activate_subscription_def split: if_splits prod.splits)
  with sid server plan show ?thesis by (rule that)
qed

lemma activation_db_fields:
  assumes "activation_db now new_id db tx pid server plan = (tx', s, db')"
  shows "db_subscriptions db' =
      modify_where (\<lambda>s. sub_server_id s = tx_server_id tx \<and> is_current s)
        (\<lambda>s. s\<lparr>sub_status := BillingSubscriptionStatus.cancelled, sub_updated_at := now\<rparr>)
        (db_subscriptions db) @ [s]"
    and "sub_id s = new_id" "sub_server_id s = tx_server_id tx"
    and "sub_status s = BillingSubscriptionStatus.active" "sub_plan_id s = bp_id plan"
    and "sub_expires_at s = now + days (bp_duration_days plan)"
    and "tx_status tx' = BillingTransactionStatus.paid" "tx_subscription_id tx' = Some new_id"
    and "tx_id tx' = tx_id tx" "tx_user_id tx' = tx_user_id tx"
    and "tx_provider_order_id tx' = tx_provider_order_id tx"
    and "db_transactions db' = modify_row tx_id (tx_id tx) (\<lambda>_. tx') (db_transactions db)"
    and "db_plans db' = db_plans db"
    and "db_servers db' = modify_row srv_id (srv_id server) (apply_plan_limits_to_server plan) (db_servers db)"
  using assms by (auto simp: activation_db_def Let_def)

lemma filter_current_cancelled:
  "filter (\<lambda>s. sub_server_id s = Some sid \<and> is_current s)
     (modify_where (\<lambda>s. sub_server_id s = Some sid \<and> is_current s)
        (\<lambda>s. s\<lparr>sub_status := BillingSubscriptionStatus.cancelled, sub_updated_at := now\<rparr>) rows) = []"
  by (induction rows) (auto simp: modify_where_def is_current_def)

lemma filter_other_cancelled:
  "filter (\<lambda>s. sub_server_id s \<noteq> Some sid)
     (modify_where (\<lambda>s. sub_server_id s = Some sid \<and> is_current s)
        (\<lambda>s. s\<lparr>sub_status := BillingSubscriptionStatus.cancelled, sub_updated_at := now\<rparr>) rows) =
   filter (\<lambda>s. sub_server_id s \<noteq> Some sid) rows"
  by (induction rows) (auto simp: modify_where_def)

lemma in_force_is_current: "in_force cfg now s \<Longrightarrow> is_current s"
  by (auto simp: in_force_def is_current_def)

lemma sole_current_in_force:
  assumes "filter (\<lambda>s. sub_server_id s = Some sid \<and> is_current s) (db_subscriptions db) = [s]"
    "in_force cfg now s"
  shows "active_subscription_for_server cfg now db sid = Some s"
proof -
  have "filter (\<lambda>s. sub_server_id s = Some sid \<and> in_force cfg now s) (db_subscriptions db) =
      filter (in_force cfg now)
        (filter (\<lambda>s. sub_server_id s = Some sid \<and> is_current s) (db_subscriptions db))"
    using in_force_is_current by (auto intro!: filter_cong)
  also have "\<dots> = [s]" using assms by simp
  finally show ?thesis by (simp add: active_subscription_for_server_def)
qed

lemma get_plan_bp_id: "get_plan db k = Some p \<Longrightarrow> bp_id p = k"
  using get_row_SomeD [of bp_id k "db_plans db" p] by (simp add: get_plan_def)

lemma suspended_blocks_start:
  assumes "r \<in> set (db_subscriptions db)" "sub_server_id r = Some (srv_id server)"
    "sub_status r = BillingSubscriptionStatus.suspended"
  shows "ensure_server_not_billing_suspended db server = Inl (BillingError ''subscription_suspended'')"
proof -
  have "r \<in> set (filter (\<lambda>s. sub_server_id s = Some (srv_id server) \<and>
      sub_status s = BillingSubscriptionStatus.suspended) (db_subscriptions db))"
    using assms by simp
  then obtain q where "first_row (filter (\<lambda>s. sub_server_id s = Some (srv_id server) \<and>
      sub_status s = BillingSubscriptionStatus.suspended) (db_subscriptions db)) = Some q"
    by (metis (no_types, lifting) empty_iff first_row_None list.set(1) not_None_eq)
  then show ?thesis by (simp add: ensure_server_not_billing_suspended_def)
qed


lemma clear_billing_idem [simp]: "clear_billing_config (clear_billing_config r) = clear_billing_config r"
  by (simp add: clear_billing_config_def dict_pop_def delete_idem delete_twist)

lemma suspend_step_subscriptions:
  "db_subscriptions (suspend_step now s db) = modify_row sub_id (sub_id s)
     (\<lambda>r. r\<lparr>sub_status := BillingSubscriptionStatus.suspended, sub_updated_at := now\<rparr>)
     (db_subscriptions db)"
  by (simp add: suspend_step_def Let_def upd_server_def split: option.split)

lemma suspend_step_servers:
  "db_servers (suspend_step now s db) =
     map (\<lambda>v. if sub_server_id s = Some (srv_id v) then clear_billing_config v else v) (db_servers db)"
proof (cases "Option.bind (sub_server_id s) (get_server db)")
  case None
  then have "\<And>v. v \<in> set (db_servers db) \<Longrightarrow> sub_server_id s \<noteq> Some (srv_id v)"
    by (auto simp: get_server_def bind_eq_None_conv get_row_None)
  then have "map (\<lambda>v. if sub_server_id s = Some (srv_id v) then clear_billing_config v else v)
      (db_servers db) = db_servers db"
    by (intro map_idI) auto
  moreover have "Option.bind (sub_server_id s) (get_server
      (db\<lparr>db_subscriptions := modify_row sub_id (sub_id s)
            (\<lambda>r. r\<lparr>sub_status := BillingSubscriptionStatus.suspended, sub_updated_at := now\<rparr>)
            (db_subscriptions db)\<rparr>)) = None"
    using None by (cases "sub_server_id s") (simp_all add: get_server_def)
  ultimately show ?thesis
    by (simp add: suspend_step_def Let_def cong: option.case_cong)
next
  case (Some v)
  then obtain i where i: "sub_server_id s = Some i" "get_server db i = Some v" "srv_id v = i"
    by (auto simp: bind_eq_Some_conv dest: get_server_SomeD)
  have "Option.bind (sub_server_id s) (get_server
      (db\<lparr>db_subscriptions := modify_row sub_id (sub_id s)
            (\<lambda>r. r\<lparr>sub_status := BillingSubscriptionStatus.suspended, sub_updated_at := now\<rparr>)
            (db_subscriptions db)\<rparr>)) = Some v"
    using i by (simp add: get_server_def)
  then have "db_servers (suspend_step now s db) = modify_row srv_id i clear_billing_config (db_servers db)"
    using i by (simp add: suspend_step_def Let_def cong: option.case_cong)
  with i show ?thesis by (auto simp: modify_row_def)
qed

lemma fold_suspend_subscriptions:
  "db_subscriptions (fold (suspend_step now) xs db) = fold (\<lambda>s. modify_row sub_id (sub_id s)
     (\<lambda>r. r\<lparr>sub_status := BillingSubscriptionStatus.suspended, sub_updated_at := now\<rparr>))
     xs (db_subscriptions db)"
  by (induction xs arbitrary: db) (simp_all add: suspend_step_subscriptions)

lemma fold_suspend_servers:
  "db_servers (fold (suspend_step now) xs db) =
     map (\<lambda>v. if Some (srv_id v) \<in> sub_server_id ` set xs then clear_billing_config v else v)
       (db_servers db)"
proof (induction xs arbitrary: db)
  case Nil
  then show ?case by (simp cong: map_cong)
next
  case (Cons s xs)
  have id: "srv_id (clear_billing_config v) = srv_id v" for v by (simp add: clear_billing_config_def)
  show ?case by (auto simp: Cons.IH suspend_step_servers id)
qed

lemma fold_grace_subscriptions:
  "db_subscriptions (fold (grace_step now) xs db) = fold (\<lambda>s. modify_row sub_id (sub_id s)
     (\<lambda>r. r\<lparr>sub_status := BillingSubscriptionStatus.grace_period, sub_updated_at := now\<rparr>))
     xs (db_subscriptions db)"
  by (induction xs arbitrary: db) (simp_all add: grace_step_def)

lemma fold_grace_servers: "db_servers (fold (grace_step now) xs db) = db_servers db"
  by (induction xs arbitrary: db) (simp_all add: grace_step_def)

text \<open>What the pass does to one subscription.\<close>

definition expire_row :: "settings \<Rightarrow> instant \<Rightarrow> uuid list \<Rightarrow> subscription \<Rightarrow> subscription" where
  "expire_row cfg now locked s =
     (if sub_id s \<in> set locked then s
      else if sub_status s = BillingSubscriptionStatus.active \<and> sub_expires_at s \<le> now
      then s\<lparr>sub_status := BillingSubscriptionStatus.grace_period, sub_updated_at := now\<rparr>
      else if sub_status s = BillingSubscriptionStatus.grace_period \<and>
              sub_expires_at s + grace_delta cfg \<le> now
      then s\<lparr>sub_status := BillingSubscriptionStatus.suspended, sub_updated_at := now\<rparr>
      else s)"

lemma expiration_subscriptions:
  assumes "distinct (map sub_id (db_subscriptions db))"
  shows "db_subscriptions (snd (process_subscription_expirations cfg now locked db)) =
    map (expire_row cfg now locked) (db_subscriptions db)"
proof -
  let ?P = "\<lambda>s. sub_status s = BillingSubscriptionStatus.active \<and> sub_expires_at s \<le> now \<and>
     sub_id s \<notin> set locked"
  let ?Q = "\<lambda>s. sub_status s = BillingSubscriptionStatus.grace_period \<and>
       sub_expires_at s + grace_delta cfg \<le> now \<and> sub_id s \<notin> set locked"
  let ?rows = "db_subscriptions db"
  let ?f = "\<lambda>r::subscription. r\<lparr>sub_status := BillingSubscriptionStatus.grace_period, sub_updated_at := now\<rparr>"
  let ?g = "\<lambda>r::subscription. r\<lparr>sub_status := BillingSubscriptionStatus.suspended, sub_updated_at := now\<rparr>"
  have d: "distinct (map sub_id (filter ?Q ?rows))" using assms by (rule distinct_map_filter)
  have "db_subscriptions (snd (process_subscription_expirations cfg now locked db)) =
      fold (\<lambda>s. modify_row sub_id (sub_id s) ?g) (filter ?Q ?rows)
        (fold (\<lambda>s. modify_row sub_id (sub_id s) ?f) (filter ?P ?rows) ?rows)"
    by (simp add: process_subscription_expirations_def Let_def fold_suspend_subscriptions
        fold_grace_subscriptions expired_active_def expired_grace_def)
  also have "\<dots> = map (\<lambda>r. if sub_id r \<in> sub_id ` set (filter ?Q ?rows) then ?g r else r)
      (modify_where ?P ?f ?rows)"
    by (subst fold_modify_filter [OF assms]) (simp, subst fold_modify_row [OF d], simp_all)
  also have "\<dots> = map (expire_row cfg now locked) ?rows"
    unfolding modify_where_def map_map
  proof (rule map_cong [OF refl])
    fix r assume r: "r \<in> set ?rows"
    have iff: "sub_id r \<in> sub_id ` set (filter ?Q ?rows) \<longleftrightarrow> ?Q r"
      using assms r by (rule key_in_filter)
    show "((\<lambda>r. if sub_id r \<in> sub_id ` set (filter ?Q ?rows) then ?g r else r) \<circ>
        (\<lambda>r. if ?P r then ?f r else r)) r = expire_row cfg now locked r"
      using iff by (auto simp: expire_row_def simp del: set_filter)
  qed
  finally show ?thesis .
qed

lemma one_pending_order:
  assumes "filter (\<lambda>t. tx_provider_order_id t = order) (db_transactions db) = [tx]"
  shows "filter (\<lambda>t. tx_provider_order_id t = order \<and> tx_status t = BillingTransactionStatus.pending)
      (db_transactions db) = (if tx_status tx = BillingTransactionStatus.pending then [tx] else [])"
proof -
  have "filter (\<lambda>t. tx_provider_order_id t = order \<and> tx_status t = BillingTransactionStatus.pending)
      (db_transactions db) = filter (\<lambda>t. tx_status t = BillingTransactionStatus.pending)
        (filter (\<lambda>t. tx_provider_order_id t = order) (db_transactions db))"
    by (simp only: filter_filter)
  then show ?thesis by (simp add: assms)
qed

lemma filter_order_modified:
  assumes "filter (\<lambda>t. tx_provider_order_id t = order) rows = [tx]"
    and "distinct (map tx_id rows)"
    and "tx_id tx' = tx_id tx" "tx_provider_order_id tx' = order"
  shows "filter (\<lambda>t. tx_provider_order_id t = order) (modify_row tx_id (tx_id tx) (\<lambda>_. tx') rows) = [tx']"
proof -
  from assms(1) have tx: "tx \<in> set rows" "tx_provider_order_id tx = order"
    using filter_singletonD [OF assms(1)] by simp_all
  have same: "t \<in> set rows \<Longrightarrow> tx_id t = tx_id tx \<Longrightarrow> t = tx" for t
    using assms(2) tx by (auto simp: distinct_map inj_on_def)
  let ?f = "\<lambda>r. if tx_id r = tx_id tx then tx' else r"
  have "filter (\<lambda>t. tx_provider_order_id t = order) (modify_row tx_id (tx_id tx) (\<lambda>_. tx') rows) =
      map ?f (filter (\<lambda>t. tx_provider_order_id (?f t) = order) rows)"
    by (simp add: modify_row_def filter_map comp_def)
  also have "filter (\<lambda>t. tx_provider_order_id (?f t) = order) rows =
      filter (\<lambda>t. tx_provider_order_id t = order) rows"
    using same tx(2) assms(4) by (intro filter_cong) auto
  finally show ?thesis by (simp add: assms(1))
qed

lemma cancelled_ids:
  "sub_id ` set (modify_where p (\<lambda>s. s\<lparr>sub_status := st, sub_updated_at := now\<rparr>) rows) = sub_id ` set rows"
  unfolding set_modify_where image_image by (rule image_cong) simp_all

lemma activate_keeps_or_succeeds:
  "snd (activate_subscription now new_id db tx pid) \<noteq> db \<Longrightarrow>
   \<not> isl (fst (activate_subscription now new_id db tx pid))"
  by (cases "activate_subscription now new_id db tx pid")
    (auto simp: isl_def dest: activate_error_keeps_db)

lemma filter_singleton_only: "filter P xs = [x] \<Longrightarrow> y \<in> set xs \<Longrightarrow> P y \<Longrightarrow> y = x"
  by (drule arg_cong [where f = set], auto)

lemma get_row_append_new:
  "key r = k \<Longrightarrow> k \<notin> key ` set rows \<Longrightarrow> get_row key k (rows @ [r]) = Some r"
  by (induction rows) auto

section \<open>Properties\<close>

lemma activation_limits:
  assumes "filter (\<lambda>s. sub_server_id s = Some sid \<and> is_current s) (db_subscriptions db) = [s]"
    "sub_status s = BillingSubscriptionStatus.active" "now < sub_expires_at s"
    "get_plan db (sub_plan_id s) = Some plan" "srv_id server = sid"
  shows "get_effective_server_resource_limits cfg now (Some db) server = limits_of_plan plan"
proof -
  have "active_subscription_for_server cfg now db sid = Some s"
    using assms by (intro sole_current_in_force) (simp_all add: in_force_def)
  with assms show ?thesis
    by (simp add: get_effective_server_resource_limits_def cong: option.case_cong)
qed

lemma activation_sole_current:
  assumes "activation_db now new_id db tx pid server plan = (tx', s, db')" "tx_server_id tx = Some sid"
  shows "filter (\<lambda>s. sub_server_id s = Some sid \<and> is_current s) (db_subscriptions db') = [s]"
    and "filter (\<lambda>s. sub_server_id s \<noteq> Some sid) (db_subscriptions db') =
      filter (\<lambda>s. sub_server_id s \<noteq> Some sid) (db_subscriptions db)"
proof -
  note fields = activation_db_fields [OF assms(1)]
  have "is_current s" using fields by (simp add: is_current_def)
  with fields assms(2)
  show "filter (\<lambda>s. sub_server_id s = Some sid \<and> is_current s) (db_subscriptions db') = [s]"
    and "filter (\<lambda>s. sub_server_id s \<noteq> Some sid) (db_subscriptions db') =
      filter (\<lambda>s. sub_server_id s \<noteq> Some sid) (db_subscriptions db)"
    by (simp_all add: filter_current_cancelled filter_other_cancelled)
qed

text \<open>
  C1: A payment that activates a subscription leaves the server with exactly one current
  subscription, the new one; marks the transaction paid and links it; leaves the subscriptions
  of every other server as they were; and from that instant the server's effective resource
  limits are those of the plan that was bought, provided the plan lasts at least a day.
\<close>

theorem activation_grants_the_plan:
  assumes "activate_subscription now new_id db tx pid = (Inr (tx', s), db')"
    and "tx_status tx = BillingTransactionStatus.pending" "tx_server_id tx = Some sid"
  shows "filter (\<lambda>s. sub_server_id s = Some sid \<and> is_current s) (db_subscriptions db') = [s] \<and>
    filter (\<lambda>s. sub_server_id s \<noteq> Some sid) (db_subscriptions db') =
      filter (\<lambda>s. sub_server_id s \<noteq> Some sid) (db_subscriptions db) \<and>
    tx_status tx' = BillingTransactionStatus.paid \<and> tx_subscription_id tx' = Some (sub_id s) \<and>
    (\<exists>server plan. get_server db sid = Some server \<and> get_plan db (tx_target_plan_id tx) = Some plan \<and>
       get_server db' sid = Some (apply_plan_limits_to_server plan server) \<and>
       (0 < bp_duration_days plan \<longrightarrow>
        get_effective_server_resource_limits cfg now (Some db') server = limits_of_plan plan))"
proof -
  from assms(1,2) obtain sid' server plan where "tx_server_id tx = Some sid'"
    and server0: "get_server db sid' = Some server" and plan: "get_plan db (tx_target_plan_id tx) = Some plan"
    and act: "activation_db now new_id db tx pid server plan = (tx', s, db')"
    by (rule activate_pending_success)
  with assms(3) have server: "get_server db sid = Some server" by simp
  note fields = activation_db_fields [OF act] and sole = activation_sole_current [OF act assms(3)]
  have id: "srv_id server = sid" using get_server_SomeD [OF server] by simp
  have "get_plan db' (sub_plan_id s) = Some plan"
    using fields plan get_plan_bp_id [OF plan] by (simp add: get_plan_def)
  then have limits: "0 < bp_duration_days plan \<longrightarrow>
      get_effective_server_resource_limits cfg now (Some db') server = limits_of_plan plan"
    using fields by (auto intro!: activation_limits [OF sole(1)] simp: id)
  have "get_server db' sid = Some (apply_plan_limits_to_server plan server)"
    using server fields id
    by (simp add: get_server_def get_row_modify_row apply_plan_limits_to_server_def)
  with sole fields server plan limits show ?thesis by blast
qed

definition activated_sample :: "transaction \<times> subscription \<times> database" where
  "activated_sample = activation_db 5000 99 sample_db sample_transaction ''pay_1'' sample_server sample_plan"

lemma sample_activation:
  "activate_subscription 5000 99 sample_db sample_transaction ''pay_1'' =
     (Inr (fst activated_sample, fst (snd activated_sample)), snd (snd activated_sample))"
  by (simp add: activate_subscription_def activated_sample_def payment_id_taken_def get_server_def
      get_plan_def sample_defs split: prod.split)

theorem activation_grants_the_plan_witness:
  "filter (\<lambda>s. sub_server_id s = Some 10 \<and> is_current s)
     (db_subscriptions (snd (snd activated_sample))) = [fst (snd activated_sample)]"
  using activation_grants_the_plan [OF sample_activation, of 10] by (simp add: sample_transaction_def)

text \<open>
  C2: Payments are idempotent across the two paths that deliver them.  Once the webhook has
  fulfilled an order, the client's verification of the same order (whatever payment id and
  signature it sends) returns the same subscription and changes nothing, a second webhook
  delivery is ignored, and neither creates a second subscription.
\<close>

theorem payment_is_fulfilled_once:
  assumes "fulfill_webhook_payment now new_id db order pid = (Inr (Some (tx', s)), db')"
    and "filter (\<lambda>t. tx_provider_order_id t = order) (db_transactions db) = [tx]"
    and "distinct (map tx_id (db_transactions db))"
    and "new_id \<notin> sub_id ` set (db_subscriptions db)"
  shows "verify_upgrade_payment sig now2 new2 db' (tx_user_id tx) order pid2 signature =
      (Inr (tx', s), db') \<and>
    fulfill_webhook_payment now2 new2 db' order pid2 = (Inr None, db')"
proof -
  have pend: "tx_status tx = BillingTransactionStatus.pending"
    and act: "activate_subscription now new_id db tx pid = (Inr (tx', s), db')"
    using assms(1) one_pending_order [OF assms(2)]
    by (auto simp: fulfill_webhook_payment_def split: if_splits prod.splits sum.splits)
  obtain server plan where db: "activation_db now new_id db tx pid server plan = (tx', s, db')"
    using activate_pending_success [OF act pend] by metis
  note fields = activation_db_fields [OF db]
  have tx: "tx \<in> set (db_transactions db)" "tx_provider_order_id tx = order"
    using filter_singletonD [OF assms(2)] by simp_all
  have "filter (\<lambda>t. tx_provider_order_id t = order) (db_transactions db') = [tx']"
    unfolding fields(12)
    using fields(9,11) tx by (intro filter_order_modified assms) simp_all
  moreover have "get_subscription db' new_id = Some s"
    using fields assms(4) by (simp add: get_subscription_def get_row_append_new cancelled_ids)
  ultimately show ?thesis
    using fields one_pending_order [of order db' tx']
    by (simp add: verify_upgrade_payment_def fulfill_webhook_payment_def activate_paid)
qed


theorem payment_is_fulfilled_once_witness:
  "verify_upgrade_payment (\<lambda>_ _ _. False) 6000 100 (snd (snd activated_sample)) 1 ''order_1'' ''x'' ''y'' =
     (Inr (fst activated_sample, fst (snd activated_sample)), snd (snd activated_sample))"
proof -
  have "fulfill_webhook_payment 5000 99 sample_db ''order_1'' ''pay_1'' =
      (Inr (Some (fst activated_sample, fst (snd activated_sample))), snd (snd activated_sample))"
    using sample_activation by (simp add: fulfill_webhook_payment_def sample_defs)
  from payment_is_fulfilled_once [OF this, of sample_transaction "\<lambda>_ _ _. False" 6000 100 "''x''" "''y''"]
  show ?thesis by (simp add: sample_defs)
qed

text \<open>
  No payment operation leaves a trace when it fails: whichever error the creation of an
  order, the client's verification or the webhook's fulfilment ends with, the committed database
  is the one it started from; and a verification that is not signed by the provider never
  activates anything.
\<close>

theorem failed_payment_changes_nothing:
  "(snd (verify_upgrade_payment sig now new_id db uid order pid signature) \<noteq> db \<longrightarrow>
      isl (fst (verify_upgrade_payment sig now new_id db uid order pid signature)) = False \<and>
      sig order pid signature) \<and>
   (isl (fst (fulfill_webhook_payment now new_id db order pid)) \<longrightarrow>
      snd (fulfill_webhook_payment now new_id db order pid) = db) \<and>
   (isl (fst (create_upgrade_transaction rz new_id db user sid target cur)) \<longrightarrow>
      snd (create_upgrade_transaction rz new_id db user sid target cur) = db)"
proof (intro conjI)
  show "snd (verify_upgrade_payment sig now new_id db uid order pid signature) \<noteq> db \<longrightarrow>
      isl (fst (verify_upgrade_payment sig now new_id db uid order pid signature)) = False \<and>
      sig order pid signature"
    by (auto simp: verify_upgrade_payment_def activate_paid activate_keeps_or_succeeds
        split: sum.splits option.splits if_splits)
  show "isl (fst (fulfill_webhook_payment now new_id db order pid)) \<longrightarrow>
      snd (fulfill_webhook_payment now new_id db order pid) = db"
    by (auto simp: fulfill_webhook_payment_def dest: activate_error_keeps_db
        split: sum.splits option.splits prod.splits)
  show "isl (fst (create_upgrade_transaction rz new_id db user sid target cur)) \<longrightarrow>
      snd (create_upgrade_transaction rz new_id db user sid target cur) = db"
    by (auto simp: create_upgrade_transaction_def Let_def split: sum.splits option.splits if_splits)
qed

theorem failed_payment_changes_nothing_witness:
  "snd (verify_upgrade_payment (\<lambda>_ _ _. False) 5000 99 sample_db 1 ''order_1'' ''p'' ''s'') = sample_db \<and>
   snd (fulfill_webhook_payment 5000 99 (sample_db\<lparr>db_plans := []\<rparr>) ''order_1'' ''p'') =
     sample_db\<lparr>db_plans := []\<rparr>"
proof -
  have "isl (fst (fulfill_webhook_payment 5000 99 (sample_db\<lparr>db_plans := []\<rparr>) ''order_1'' ''p''))"
    by (simp add: fulfill_webhook_payment_def activate_subscription_def get_server_def get_plan_def
        sample_defs)
  with failed_payment_changes_nothing [of "\<lambda>_ _ _. False" 5000 99 sample_db 1 "''order_1''" "''p''" "''s''"]
    failed_payment_changes_nothing [of "\<lambda>_ _ _. False" 5000 99 "sample_db\<lparr>db_plans := []\<rparr>" 1 "''order_1''" "''p''" "''s''"]
  show ?thesis by blast
qed

text \<open>
  C3: The expiration pass, row by row: an unlocked active subscription past its expiry moves to
  its grace period and no further; one in its grace period whose grace has run out is suspended;
  every other row is untouched.  The servers of exactly the suspended subscriptions end
  suspended, without the limits and the plan a payment had written to their configuration.
\<close>

theorem expiration_pass_effect:
  assumes "distinct (map sub_id (db_subscriptions db))"
  shows "db_subscriptions (snd (process_subscription_expirations cfg now locked db)) =
      map (expire_row cfg now locked) (db_subscriptions db) \<and>
    db_servers (snd (process_subscription_expirations cfg now locked db)) =
      map (\<lambda>v. if \<exists>s \<in> set (db_subscriptions db). sub_server_id s = Some (srv_id v) \<and>
                    sub_status s \<noteq> BillingSubscriptionStatus.suspended \<and>
                    sub_status (expire_row cfg now locked s) = BillingSubscriptionStatus.suspended
               then clear_billing_config v else v) (db_servers db)"
proof (rule conjI [OF expiration_subscriptions [OF assms]])
  have iff: "Some i \<in> sub_server_id ` set (expired_grace cfg now locked db) \<longleftrightarrow>
      (\<exists>s \<in> set (db_subscriptions db). sub_server_id s = Some i \<and>
        sub_status s \<noteq> BillingSubscriptionStatus.suspended \<and>
        sub_status (expire_row cfg now locked s) = BillingSubscriptionStatus.suspended)" for i
    by (force simp: expired_grace_def expire_row_def image_iff split: if_splits)
  show "db_servers (snd (process_subscription_expirations cfg now locked db)) =
      map (\<lambda>v. if \<exists>s \<in> set (db_subscriptions db). sub_server_id s = Some (srv_id v) \<and>
                    sub_status s \<noteq> BillingSubscriptionStatus.suspended \<and>
                    sub_status (expire_row cfg now locked s) = BillingSubscriptionStatus.suspended
               then clear_billing_config v else v) (db_servers db)"
    by (simp add: process_subscription_expirations_def Let_def fold_suspend_servers
        fold_grace_servers iff)
qed

text \<open>
  A suspended subscription is never lifted by a payment.  When a server has a suspended
  subscription and a new payment for it is activated, the next start of the server is still
  refused with \<open>subscription_suspended\<close>: activation cancels only active and grace-period rows,
  although the message asks the owner to renew.
\<close>

theorem renewal_leaves_server_suspended:
  assumes "activate_subscription now new_id db tx pid = (Inr (tx', s), db')"
    and "tx_status tx = BillingTransactionStatus.pending"
    and "r \<in> set (db_subscriptions db)" "sub_server_id r = Some (srv_id server)"
    and "sub_status r = BillingSubscriptionStatus.suspended"
  shows "ensure_active_subscription_for_start cfg now' db' server =
    Inl (BillingError ''subscription_suspended'')"
proof -
  obtain v plan where "activation_db now new_id db tx pid v plan = (tx', s, db')"
    using activate_pending_success [OF assms(1,2)] by metis
  then have "db_subscriptions db' = modify_where (\<lambda>s. sub_server_id s = tx_server_id tx \<and> is_current s)
        (\<lambda>s. s\<lparr>sub_status := BillingSubscriptionStatus.cancelled, sub_updated_at := now\<rparr>)
        (db_subscriptions db) @ [s]" by (rule activation_db_fields)
  then have "r \<in> set (db_subscriptions db')"
    using assms(3,5) by (force simp: set_modify_where is_current_def)
  then have "ensure_server_not_billing_suspended db' server = Inl (BillingError ''subscription_suspended'')"
    using assms(4,5) by (rule suspended_blocks_start)
  then show ?thesis by (simp add: ensure_active_subscription_for_start_def)
qed

definition expiring_sample :: database where
  "expiring_sample = sample_db\<lparr>db_servers := [sample_server\<lparr>srv_state := ServerState.running,
       srv_mc_config := [(''billing_plan_id'', JStr ''basic'')]\<rparr>],
     db_subscriptions := [sample_subscription\<lparr>sub_status := BillingSubscriptionStatus.grace_period\<rparr>,
       sample_subscription\<lparr>sub_id := 31, sub_server_id := Some 11\<rparr>]\<rparr>"

theorem expiration_pass_effect_witness:
  "map sub_status (db_subscriptions
       (snd (process_subscription_expirations default_settings (days 4) [] expiring_sample))) =
     [BillingSubscriptionStatus.suspended, BillingSubscriptionStatus.grace_period] \<and>
   map srv_state (db_servers
       (snd (process_subscription_expirations default_settings (days 4) [] expiring_sample))) =
     [ServerState.suspended]"
proof -
  have "distinct (map sub_id (db_subscriptions expiring_sample))"
    by (simp add: expiring_sample_def sample_subscription_def)
  from expiration_pass_effect [OF this, of default_settings "days 4" "[]"] show ?thesis
    by (simp add: expiring_sample_def sample_defs expire_row_def grace_delta_def duration_defs
        default_settings_def clear_billing_config_def)
qed

theorem renewal_leaves_server_suspended_witness:
  "\<exists>db'. ensure_active_subscription_for_start default_settings 6000 db' sample_server =
    Inl (BillingError ''subscription_suspended'')"
proof -
  let ?r = "sample_subscription\<lparr>sub_status := BillingSubscriptionStatus.suspended\<rparr>"
  let ?db = "sample_db\<lparr>db_subscriptions := [?r]\<rparr>"
  obtain tx' s db' where "activate_subscription 5000 99 ?db sample_transaction ''pay_1'' = (Inr (tx', s), db')"
    by (cases "activation_db 5000 99 ?db sample_transaction ''pay_1'' sample_server sample_plan")
      (simp add: activate_subscription_def payment_id_taken_def get_server_def get_plan_def sample_defs)
  from renewal_leaves_server_suspended [OF this, of ?r sample_server default_settings 6000]
  show ?thesis by (auto simp: sample_defs)
qed

lemma limits_without_subscription:
  "active_subscription_for_server cfg now db (srv_id v) = None \<Longrightarrow>
   get_effective_server_resource_limits cfg now (Some db) v = UNPAID_SERVER_LIMITS"
  by (simp add: get_effective_server_resource_limits_def)

lemma expiration_keeps_plans:
  "db_plans (snd (process_subscription_expirations cfg now locked db)) = db_plans db"
proof -
  have g: "db_plans (fold (grace_step now) xs d) = db_plans d" for xs d
    by (induction xs arbitrary: d) (simp_all add: grace_step_def)
  have "db_plans (fold (suspend_step now) xs d) = db_plans d" for xs d
    by (induction xs arbitrary: d)
      (simp_all add: suspend_step_def Let_def split: option.split)
  with g show ?thesis by (simp add: process_subscription_expirations_def Let_def)
qed

text \<open>
  Between the expiry of a subscription and the next expiration pass its server is treated as
  unpaid, although a grace period is configured and the pass at the very same instant would give
  the limits of the plan back: an active row counts only until its expiry, a grace-period row
  until the end of the grace.
\<close>

theorem expired_subscription_unpaid_until_pass:
  assumes "filter (\<lambda>s. sub_server_id s = Some (srv_id v) \<and> is_current s) (db_subscriptions db) = [s]"
    and "sub_status s = BillingSubscriptionStatus.active"
    and "sub_expires_at s \<le> now" "now < sub_expires_at s + grace_delta cfg"
    and "get_plan db (sub_plan_id s) = Some plan" "distinct (map sub_id (db_subscriptions db))"
  shows "get_effective_server_resource_limits cfg now (Some db) v = UNPAID_SERVER_LIMITS \<and>
    get_effective_server_resource_limits cfg now
      (Some (snd (process_subscription_expirations cfg now [] db))) v = limits_of_plan plan"
proof
  have only: "t = s" if "t \<in> set (db_subscriptions db)" "sub_server_id t = Some (srv_id v)" "is_current t" for t
    using that assms(1) by (metis (mono_tags, lifting) filter_singleton_only)
  have "active_subscription_for_server cfg now db (srv_id v) = None"
    unfolding active_subscription_None
    using only assms(2,3) by (auto simp: in_force_def is_current_def)
  then show "get_effective_server_resource_limits cfg now (Some db) v = UNPAID_SERVER_LIMITS"
    by (rule limits_without_subscription)
  let ?db = "snd (process_subscription_expirations cfg now [] db)"
  let ?s = "expire_row cfg now [] s"
  have row: "is_current (expire_row cfg now [] t) \<Longrightarrow> is_current t" for t
    by (auto simp: expire_row_def is_current_def split: if_splits)
  have s: "sub_status ?s = BillingSubscriptionStatus.grace_period" "sub_expires_at ?s = sub_expires_at s"
    "sub_plan_id ?s = sub_plan_id s"
    using assms(2,3) by (simp_all add: expire_row_def)
  have "filter (\<lambda>s. sub_server_id s = Some (srv_id v) \<and> is_current s) (db_subscriptions ?db) =
      map (expire_row cfg now []) (filter (\<lambda>s. sub_server_id s = Some (srv_id v) \<and> is_current s) (db_subscriptions db))"
  proof -
    have "sub_server_id (expire_row cfg now [] t) = Some (srv_id v) \<and> is_current (expire_row cfg now [] t) \<longleftrightarrow>
        sub_server_id t = Some (srv_id v) \<and> is_current t" if "t \<in> set (db_subscriptions db)" for t
      using only [OF that] row [of t] s(1) by (auto simp: is_current_def expire_row_def split: if_splits)
    then show ?thesis
      unfolding expiration_subscriptions [OF assms(6)] filter_map comp_def
      by (intro arg_cong [where f = "map _"] filter_cong) auto
  qed
  then have "active_subscription_for_server cfg now ?db (srv_id v) = Some ?s"
    unfolding assms(1) using s assms(4) by (intro sole_current_in_force) (simp_all add: in_force_def)
  moreover have "get_plan ?db (sub_plan_id ?s) = Some plan"
    using assms(5) by (simp add: s get_plan_def expiration_keeps_plans)
  ultimately show "get_effective_server_resource_limits cfg now (Some ?db) v = limits_of_plan plan"
    by (simp add: get_effective_server_resource_limits_def cong: option.case_cong)
qed

theorem expired_subscription_unpaid_until_pass_witness:
  "get_effective_server_resource_limits default_settings 2000
     (Some (sample_db\<lparr>db_subscriptions := [sample_subscription]\<rparr>)) sample_server = UNPAID_SERVER_LIMITS"
  using expired_subscription_unpaid_until_pass
    [of sample_server "sample_db\<lparr>db_subscriptions := [sample_subscription]\<rparr>" sample_subscription
      2000 default_settings sample_plan]
  by (simp add: sample_defs is_current_def get_plan_def grace_delta_def duration_defs default_settings_def)

end
