(* ===== verification/Ports.thy ===== *)
theory Ports
  imports Samples
begin

text \<open>
  Port allocation: the free-port searches of \<open>minecraft/port_alloc.py\<close> and their clients in
  \<open>api/servers.py\<close> (reserved ports, validation of the recorded assignments, allocation of a
  game port on a node and of a proxy port).  What a bind attempt answers is a parameter.  The
  locale \<open>port_picker\<close> is the contract between a search and an allocation; it is interpreted
  for the UDP, the TCP and the proxy search.
\<close>

section \<open>Searches\<close>

record port_range =
  pr_start :: int
  pr_end :: int

text \<open>The outcome of binding a port: true when \<open>bind\<close> returns, false when it raises \<open>OSError\<close>.\<close>

record socket_api =
  bind_udp6 :: "int \<Rightarrow> bool"
  bind_tcp6 :: "int \<Rightarrow> bool"
  bind_udp4 :: "int \<Rightarrow> bool"
  bind_tcp4 :: "int \<Rightarrow> bool"

definition is_udp_port_free :: "socket_api \<Rightarrow> int \<Rightarrow> bool" where
  "is_udp_port_free net port =
     (if bind_udp6 net port \<and> bind_tcp6 net port then True
      else if bind_udp4 net port \<and> bind_tcp4 net port then True
      else False)"

definition is_tcp_port_free :: "socket_api \<Rightarrow> int \<Rightarrow> bool" where
  "is_tcp_port_free net port = bind_tcp4 net port"

fun first_udp :: "socket_api \<Rightarrow> port_range \<Rightarrow> int set \<Rightarrow> int list \<Rightarrow> exn + int" where
  "first_udp net r used [] = Inl RuntimeError"
| "first_udp net r used (port # ports) =
     (let ipv6_port = port + 1 in
      if ipv6_port > pr_end r then first_udp net r used ports
      else if port \<in> used \<or> ipv6_port \<in> used then first_udp net r used ports
      else if \<not> is_udp_port_free net port then first_udp net r used ports
      else if \<not> is_udp_port_free net ipv6_port then first_udp net r used ports
      else Inr port)"

definition pick_free_udp_port :: "socket_api \<Rightarrow> port_range \<Rightarrow> int set \<Rightarrow> exn + int" where
  "pick_free_udp_port net r used =
     (if pr_end r < pr_start r then Inl ValueError
      else first_udp net r used [pr_start r..pr_end r])"

fun first_tcp :: "socket_api \<Rightarrow> int set \<Rightarrow> int list \<Rightarrow> exn + int" where
  "first_tcp net used [] = Inl RuntimeError"
| "first_tcp net used (port # ports) =
     (if port \<in> used then first_tcp net used ports
      else if is_tcp_port_free net port then Inr port
      else first_tcp net used ports)"

definition pick_free_tcp_port :: "socket_api \<Rightarrow> port_range \<Rightarrow> int set \<Rightarrow> exn + int" where
  "pick_free_tcp_port net r used =
     (if pr_end r < pr_start r then Inl ValueError
      else first_tcp net used [pr_start r..pr_end r])"

section \<open>Reserved ports and their validation\<close>

definition is_bedrock :: "ServerFlavor \<Rightarrow> bool" where
  "is_bedrock f \<longleftrightarrow> f = ServerFlavor.BEDROCK"

text \<open>The rows of the query both functions start with.\<close>

definition port_rows :: "database \<Rightarrow> port_range \<Rightarrow> uuid option \<Rightarrow> server list" where
  "port_rows db r node_id =
     filter (\<lambda>s. pr_start r \<le> srv_vm_port s \<and> srv_vm_port s \<le> pr_end r \<and>
                 (node_id = None \<or> srv_node_id s = node_id)) (db_servers db)"

definition collect_reserved_ports :: "database \<Rightarrow> port_range \<Rightarrow> uuid option \<Rightarrow> int set" where
  "collect_reserved_ports db r node_id =
     fold (\<lambda>s reserved.
        let port = srv_vm_port s; reserved = insert port reserved in
        if is_bedrock (srv_flavor s) \<and> port + 1 \<le> pr_end r then insert (port + 1) reserved
        else reserved) (port_rows db r node_id) {}"

type_synonym port_map = "(int \<times> uuid list) list"

text \<open>\<open>port_map.setdefault(p, []).append(server_id)\<close>.\<close>

definition port_map_add :: "uuid \<Rightarrow> int \<Rightarrow> port_map \<Rightarrow> port_map" where
  "port_map_add sid p m =
     (case map_of m p of None \<Rightarrow> m @ [(p, [sid])] | Some sids \<Rightarrow> AList.update p (sids @ [sid]) m)"

text \<open>The body of the loop over the rows: the port map and the number of errors.\<close>

definition validate_row :: "port_range \<Rightarrow> server \<Rightarrow> port_map \<times> nat \<Rightarrow> port_map \<times> nat" where
  "validate_row r s acc =
     (let (port_map, errors) = acc;
          port = srv_vm_port s;
          errors = (if port < pr_start r \<or> port > pr_end r then Suc errors else errors);
          (ports_to_check, errors) =
            (if is_bedrock (srv_flavor s) then
               ([port, port + 1], if port + 1 > pr_end r then Suc errors else errors)
             else ([port], errors))
      in (fold (\<lambda>p m. if p \<le> pr_end r then port_map_add (srv_id s) p m else m) ports_to_check port_map,
          errors))"

definition validate_server_port_pairs :: "database \<Rightarrow> port_range \<Rightarrow> uuid option \<Rightarrow> exn + unit" where
  "validate_server_port_pairs db r node_id =
     (let (port_map, errors) = fold (validate_row r) (port_rows db r node_id) ([], 0);
          errors = errors + length (filter (\<lambda>(p, sids). length sids > 1) port_map)
      in if errors > 0 then Inl RuntimeError else Inr ())"

section \<open>Allocation\<close>

definition game_port_range :: "settings \<Rightarrow> ServerFlavor \<Rightarrow> port_range" where
  "game_port_range cfg flavor =
     (if is_bedrock flavor
      then \<lparr>pr_start = cfg_bedrock_port_range_start cfg, pr_end = cfg_bedrock_port_range_end cfg\<rparr>
      else \<lparr>pr_start = cfg_java_port_range_start cfg, pr_end = cfg_java_port_range_end cfg\<rparr>)"

definition allocate_port ::
  "socket_api \<Rightarrow> settings \<Rightarrow> database \<Rightarrow> ServerFlavor \<Rightarrow> uuid option \<Rightarrow> exn + int" where
  "allocate_port net cfg db flavor node_id =
     (let r = game_port_range cfg flavor in
      case validate_server_port_pairs db r node_id of
        Inl e \<Rightarrow> Inl e
      | Inr _ \<Rightarrow>
          let used = collect_reserved_ports db r node_id in
          if is_bedrock flavor then pick_free_udp_port net r used
          else pick_free_tcp_port net r used)"

fun first_unused :: "int set \<Rightarrow> int list \<Rightarrow> exn + int" where
  "first_unused used [] = Inl RuntimeError"
| "first_unused used (candidate # cs) =
     (if candidate \<notin> used then Inr candidate else first_unused used cs)"

definition used_proxy_ports :: "database \<Rightarrow> port_range \<Rightarrow> int set" where
  "used_proxy_ports db r =
     set (List.map_filter srv_proxy_port (filter (\<lambda>s. case srv_proxy_port s of None \<Rightarrow> False
            | Some p \<Rightarrow> pr_start r \<le> p \<and> p \<le> pr_end r) (db_servers db)))"

definition allocate_proxy_port :: "settings \<Rightarrow> database \<Rightarrow> exn + int option" where
  "allocate_proxy_port cfg db =
     (if \<not> cfg_proxy_enabled cfg then Inr None
      else (let r = \<lparr>pr_start = cfg_proxy_port_range_start cfg, pr_end = cfg_proxy_port_range_end cfg\<rparr>
            in case first_unused (used_proxy_ports db r) [pr_start r..pr_end r] of
                 Inl e \<Rightarrow> Inl e
               | Inr p \<Rightarrow> Inr (Some p)))"

section \<open>The contract of a search\<close>

text \<open>
  A search returns the least port whose whole footprint (the ports a server on it occupies) lies
  in the range, is unused and is free on the host, and fails only when there is none.
\<close>

locale port_picker =
  fixes pick :: "port_range \<Rightarrow> int set \<Rightarrow> exn + int"
    and footprint :: "int \<Rightarrow> int list"
    and free :: "int \<Rightarrow> bool"
  assumes own: "p \<in> set (footprint p)" and footprint_distinct: "distinct (footprint p)"
    and sound: "pick r used = Inr p \<Longrightarrow>
      \<forall>q \<in> set (footprint p). pr_start r \<le> q \<and> q \<le> pr_end r \<and> q \<notin> used \<and> free q"
    and complete: "isl (pick r used) \<Longrightarrow>
      \<exists>q \<in> set (footprint p). q < pr_start r \<or> pr_end r < q \<or> q \<in> used \<or> \<not> free q"
begin

text \<open>Adding the picked footprint to disjoint claims inside \<open>used\<close> keeps them disjoint.\<close>

lemma claims_stay_distinct:
  assumes "pick r used = Inr p" "distinct (xs @ ys)" "set xs \<subseteq> used" "set ys \<subseteq> used"
  shows "distinct (xs @ footprint p @ ys)"
proof -
  have "set (footprint p) \<inter> used = {}" using sound [OF assms(1)] by auto
  with assms footprint_distinct [of p] show ?thesis by auto
qed

lemma available_found:
  assumes "\<forall>q \<in> set (footprint p). pr_start r \<le> q \<and> q \<le> pr_end r \<and> q \<notin> used \<and> free q"
  shows "\<exists>p'. pick r used = Inr p'"
proof (cases "pick r used")
  case (Inl e)
  then have "isl (pick r used)" by simp
  from complete [OF this, of p] assms show ?thesis by (auto simp: not_less)
qed simp

end

lemma first_udp_Inr:
  "first_udp net r used ports = Inr p \<Longrightarrow> p \<in> set ports \<and> p + 1 \<le> pr_end r \<and> p \<notin> used \<and>
     p + 1 \<notin> used \<and> is_udp_port_free net p \<and> is_udp_port_free net (p + 1)"
  by (induction ports) (auto simp: Let_def split: if_splits)

lemma first_udp_Inl:
  "first_udp net r used ports = Inl e \<Longrightarrow> \<forall>p \<in> set ports. p + 1 > pr_end r \<or> p \<in> used \<or>
     p + 1 \<in> used \<or> \<not> is_udp_port_free net p \<or> \<not> is_udp_port_free net (p + 1)"
  by (induction ports) (auto simp: Let_def split: if_splits)

lemma first_tcp_Inr:
  "first_tcp net used ports = Inr p \<Longrightarrow> p \<in> set ports \<and> p \<notin> used \<and> is_tcp_port_free net p"
  by (induction ports) (auto split: if_splits)

lemma first_tcp_Inl:
  "first_tcp net used ports = Inl e \<Longrightarrow> \<forall>p \<in> set ports. p \<in> used \<or> \<not> is_tcp_port_free net p"
  by (induction ports) (auto split: if_splits)

lemma first_unused_Inr:
  "first_unused used ports = Inr p \<Longrightarrow> p \<in> set ports \<and> p \<notin> used"
  by (induction ports) (auto split: if_splits)

lemma first_unused_Inl: "first_unused used ports = Inl e \<Longrightarrow> set ports \<subseteq> used"
  by (induction ports) (auto split: if_splits)

interpretation udp: port_picker "pick_free_udp_port net" "\<lambda>p. [p, p + 1]" "is_udp_port_free net"
  for net
proof (unfold_locales, goal_cases)
  case (3 r used p)
  then show ?case
    by (auto simp: pick_free_udp_port_def dest!: first_udp_Inr split: if_splits)
next
  case (4 r used p)
  then obtain e where "pick_free_udp_port net r used = Inl e" by (cases "pick_free_udp_port net r used") auto
  then show ?case
    by (cases "p \<in> {pr_start r..pr_end r}")
      (auto simp: pick_free_udp_port_def dest!: first_udp_Inl split: if_splits)
qed auto

interpretation tcp: port_picker "pick_free_tcp_port net" "\<lambda>p. [p]" "is_tcp_port_free net"
  for net
proof (unfold_locales, goal_cases)
  case (3 r used p)
  then show ?case
    by (auto simp: pick_free_tcp_port_def dest!: first_tcp_Inr split: if_splits)
next
  case (4 r used p)
  then obtain e where "pick_free_tcp_port net r used = Inl e" by (cases "pick_free_tcp_port net r used") auto
  then show ?case
    by (cases "p \<in> {pr_start r..pr_end r}")
      (auto simp: pick_free_tcp_port_def dest!: first_tcp_Inl split: if_splits)
qed auto

interpretation proxy: port_picker "\<lambda>r used. first_unused used [pr_start r..pr_end r]" "\<lambda>p. [p]" "\<lambda>_. True"
proof (unfold_locales, goal_cases)
  case (3 r used p)
  then show ?case by (auto dest!: first_unused_Inr)
next
  case (4 r used p)
  then obtain e where "first_unused used [pr_start r..pr_end r] = Inl e"
    by (cases "first_unused used [pr_start r..pr_end r]") auto
  then show ?case
    by (cases "p \<in> {pr_start r..pr_end r}") (auto dest!: first_unused_Inl)
qed auto

section \<open>What validation decides\<close>

text \<open>The ports a row claims, those past the end of the range left out.\<close>

definition claims :: "port_range \<Rightarrow> server \<Rightarrow> int list" where
  "claims r s = filter (\<lambda>p. p \<le> pr_end r)
     (if is_bedrock (srv_flavor s) then [srv_vm_port s, srv_vm_port s + 1] else [srv_vm_port s])"

definition claim_pairs :: "port_range \<Rightarrow> server \<Rightarrow> (int \<times> uuid) list" where
  "claim_pairs r s = map (\<lambda>p. (p, srv_id s)) (claims r s)"

definition overflows :: "port_range \<Rightarrow> server \<Rightarrow> bool" where
  "overflows r s \<longleftrightarrow> is_bedrock (srv_flavor s) \<and> srv_vm_port s + 1 > pr_end r"

definition port_map_ok :: "(int \<times> uuid) list \<Rightarrow> port_map \<Rightarrow> bool" where
  "port_map_ok pairs m \<longleftrightarrow> distinct (map fst m) \<and>
     (\<forall>p. map_of m p = (if p \<in> fst ` set pairs then Some (map snd (filter (\<lambda>x. fst x = p) pairs))
                       else None))"

lemma port_map_okD:
  assumes "port_map_ok pairs m"
  shows "distinct (map fst m)"
    "map_of m p = (if p \<in> fst ` set pairs then Some (map snd (filter (\<lambda>x. fst x = p) pairs)) else None)"
  using assms unfolding port_map_ok_def by blast+

lemma map_of_port_map_add:
  "map_of (port_map_add sid p m) q =
     (if q = p then Some ((case map_of m p of None \<Rightarrow> [] | Some l \<Rightarrow> l) @ [sid]) else map_of m q)"
  by (cases "map_of m p")
    (auto simp: port_map_add_def map_add_def update_conv' split: option.split)

lemma distinct_port_map_add:
  "distinct (map fst m) \<Longrightarrow> distinct (map fst (port_map_add sid p m))"
  using map_of_eq_None_iff [of m p]
  by (cases "map_of m p") (auto simp: port_map_add_def distinct_update)

lemma port_map_ok_add:
  assumes "port_map_ok pairs m"
  shows "port_map_ok (pairs @ [(p, sid)]) (port_map_add sid p m)"
proof -
  have "filter (\<lambda>x. fst x = p) pairs = []" if "p \<notin> fst ` set pairs"
    using that by (auto simp: filter_empty_conv)
  then have "map_of (port_map_add sid p m) q =
      (if q \<in> fst ` set (pairs @ [(p, sid)])
       then Some (map snd (filter (\<lambda>x. fst x = q) (pairs @ [(p, sid)]))) else None)" for q
    by (simp add: map_of_port_map_add port_map_okD(2) [OF assms])
  with distinct_port_map_add [OF port_map_okD(1) [OF assms]] show ?thesis
    unfolding port_map_ok_def by blast
qed

lemma port_map_ok_fold:
  "port_map_ok pairs m \<Longrightarrow>
   port_map_ok (pairs @ map (\<lambda>p. (p, sid)) (filter P ps))
     (fold (\<lambda>p m. if P p then port_map_add sid p m else m) ps m)"
proof (induction ps arbitrary: pairs m)
  case Nil
  then show ?case by simp
next
  case (Cons q ps)
  then show ?case using Cons.IH [OF port_map_ok_add [OF Cons.prems, of q sid]] by simp
qed

lemma validate_row_step:
  assumes "port_map_ok pairs m" "pr_start r \<le> srv_vm_port s" "srv_vm_port s \<le> pr_end r"
  shows "\<exists>m'. validate_row r s (m, n) = (m', if overflows r s then Suc n else n) \<and>
    port_map_ok (pairs @ claim_pairs r s) m'"
  using assms port_map_ok_fold [OF assms(1), of "srv_id s" "\<lambda>p. p \<le> pr_end r" "[srv_vm_port s, srv_vm_port s + 1]"]
    port_map_ok_fold [OF assms(1), of "srv_id s" "\<lambda>p. p \<le> pr_end r" "[srv_vm_port s]"]
  by (auto simp: validate_row_def claim_pairs_def claims_def overflows_def Let_def)

lemma validate_rows:
  assumes "port_map_ok pairs m" "\<forall>s \<in> set rows. pr_start r \<le> srv_vm_port s \<and> srv_vm_port s \<le> pr_end r"
  shows "\<exists>m'. fold (validate_row r) rows (m, n) = (m', n + length (filter (overflows r) rows)) \<and>
    port_map_ok (pairs @ concat (map (claim_pairs r) rows)) m'"
  using assms
proof (induction rows arbitrary: pairs m n)
  case Nil
  then show ?case by simp
next
  case (Cons s rows)
  obtain m1 where m1: "validate_row r s (m, n) = (m1, if overflows r s then Suc n else n)"
    "port_map_ok (pairs @ claim_pairs r s) m1"
    using validate_row_step [of pairs m r s n] Cons.prems by auto
  show ?case
    using Cons.IH [OF m1(2), of "if overflows r s then Suc n else n"] Cons.prems m1(1) by auto
qed

lemma distinct_map_count:
  "distinct (map f xs) \<longleftrightarrow> (\<forall>k \<in> f ` set xs. length (filter (\<lambda>x. f x = k) xs) \<le> 1)"
proof (induction xs)
  case Nil
  then show ?case by simp
next
  case (Cons x xs)
  have z: "filter (\<lambda>y. f y = f x) xs = [] \<longleftrightarrow> f x \<notin> f ` set xs"
    unfolding filter_empty_conv image_iff by metis
  show ?case
  proof (cases "f x \<in> f ` set xs")
    case True
    with z have "\<not> length (filter (\<lambda>y. f y = f x) (x # xs)) \<le> 1" by simp
    with True show ?thesis by auto
  next
    case False
    then have "length (filter (\<lambda>y. f y = k) (x # xs)) = length (filter (\<lambda>y. f y = k) xs)"
      if "k \<in> f ` set xs" for k using that by auto
    then have "(\<forall>k \<in> f ` set (x # xs). length (filter (\<lambda>y. f y = k) (x # xs)) \<le> 1) \<longleftrightarrow>
        (\<forall>k \<in> f ` set xs. length (filter (\<lambda>y. f y = k) xs) \<le> 1)"
      using False z by simp
    with Cons.IH False show ?thesis by simp
  qed
qed

lemma port_map_no_clash:
  assumes "port_map_ok pairs m"
  shows "filter (\<lambda>(p, sids). length sids > 1) m = [] \<longleftrightarrow> distinct (map fst pairs)"
proof -
  have "filter (\<lambda>(p, sids). length sids > 1) m = [] \<longleftrightarrow>
      (\<forall>p sids. map_of m p = Some sids \<longrightarrow> length sids \<le> 1)"
    unfolding map_of_eq_Some_iff [OF port_map_okD(1) [OF assms]]
    by (fastforce simp: filter_empty_conv not_less)
  also have "\<dots> \<longleftrightarrow> (\<forall>p \<in> fst ` set pairs. length (filter (\<lambda>x. fst x = p) pairs) \<le> 1)"
    by (simp add: port_map_okD(2) [OF assms] Ball_def del: One_nat_def)
  also have "\<dots> \<longleftrightarrow> distinct (map fst pairs)" by (rule distinct_map_count [symmetric])
  finally show ?thesis .
qed

lemma validate_iff:
  "validate_server_port_pairs db r node_id = Inr () \<longleftrightarrow>
     (\<forall>s \<in> set (port_rows db r node_id). \<not> overflows r s) \<and>
     distinct (concat (map (claims r) (port_rows db r node_id)))"
proof -
  let ?rows = "port_rows db r node_id"
  have "port_map_ok [] []" by (simp add: port_map_ok_def)
  moreover have "\<forall>s \<in> set ?rows. pr_start r \<le> srv_vm_port s \<and> srv_vm_port s \<le> pr_end r"
    by (simp add: port_rows_def)
  ultimately obtain m where
    m: "fold (validate_row r) ?rows ([], 0) = (m, length (filter (overflows r) ?rows))"
      "port_map_ok (concat (map (claim_pairs r) ?rows)) m"
    using validate_rows [of "[]" "[]" ?rows r 0] by auto
  have "map fst (concat (map (claim_pairs r) ?rows)) = concat (map (claims r) ?rows)"
    by (simp add: map_concat comp_def claim_pairs_def)
  with port_map_no_clash [OF m(2)] m(1) show ?thesis
    by (auto simp: validate_server_port_pairs_def filter_empty_conv)
qed

lemma validate_cases:
  "validate_server_port_pairs db r node_id = Inr () \<or>
   validate_server_port_pairs db r node_id = Inl RuntimeError"
  by (auto simp: validate_server_port_pairs_def Let_def split: prod.split)

lemma collect_reserved_eq:
  "collect_reserved_ports db r node_id = set (concat (map (claims r) (port_rows db r node_id)))"
proof -
  have "fold (\<lambda>s reserved.
        let port = srv_vm_port s; reserved = insert port reserved in
        if is_bedrock (srv_flavor s) \<and> port + 1 \<le> pr_end r then insert (port + 1) reserved
        else reserved) rows acc = acc \<union> set (concat (map (claims r) rows))"
    if "\<forall>s \<in> set rows. srv_vm_port s \<le> pr_end r" for rows acc
    using that by (induction rows arbitrary: acc) (auto simp: Let_def claims_def)
  then show ?thesis by (simp add: collect_reserved_ports_def port_rows_def)
qed

section \<open>Properties\<close>

text \<open>The ports a server of a flavor occupies when its game port is the given one.\<close>

definition footprint_of :: "ServerFlavor \<Rightarrow> int \<Rightarrow> int list" where
  "footprint_of flavor p = (if is_bedrock flavor then [p, p + 1] else [p])"

definition host_free :: "socket_api \<Rightarrow> ServerFlavor \<Rightarrow> int \<Rightarrow> bool" where
  "host_free net flavor = (if is_bedrock flavor then is_udp_port_free net else is_tcp_port_free net)"

lemma allocate_port_InrD:
  assumes "allocate_port net cfg db flavor node_id = Inr p"
  shows "validate_server_port_pairs db (game_port_range cfg flavor) node_id = Inr ()"
    "is_bedrock flavor \<Longrightarrow> pick_free_udp_port net (game_port_range cfg flavor)
       (collect_reserved_ports db (game_port_range cfg flavor) node_id) = Inr p"
    "\<not> is_bedrock flavor \<Longrightarrow> pick_free_tcp_port net (game_port_range cfg flavor)
       (collect_reserved_ports db (game_port_range cfg flavor) node_id) = Inr p"
  using assms by (auto simp: allocate_port_def Let_def split: sum.splits)

lemma allocate_port_fresh:
  assumes "allocate_port net cfg db flavor node_id = Inr p" "r = game_port_range cfg flavor"
  shows "\<forall>q \<in> set (footprint_of flavor p). pr_start r \<le> q \<and> q \<le> pr_end r \<and> host_free net flavor q \<and>
    q \<notin> set (concat (map (claims r) (port_rows db r node_id)))"
  using udp.sound [OF allocate_port_InrD(2) [OF assms(1)]] tcp.sound [OF allocate_port_InrD(3) [OF assms(1)]]
  unfolding collect_reserved_eq assms(2) footprint_of_def host_free_def
  by (cases "is_bedrock flavor") simp_all

lemma allocate_port_claims:
  assumes "allocate_port net cfg db flavor node_id = Inr p" "r = game_port_range cfg flavor"
    "srv_flavor s = flavor" "srv_vm_port s = p"
  shows "claims r s = footprint_of flavor p" "\<not> overflows r s"
proof -
  have "\<forall>q \<in> set (footprint_of flavor p). q \<le> pr_end r"
    using allocate_port_fresh [OF assms(1,2)] by blast
  then show "claims r s = footprint_of flavor p" "\<not> overflows r s"
    using assms(3,4) by (auto simp: claims_def overflows_def footprint_of_def)
qed

text \<open>
  C4: Port allocation keeps the assignments of a node valid.  Giving an allocated port to the
  server it was allocated for (one that had no port in the range before) leaves every server of
  the node with ports of its own: validation, which every later allocation starts with, still
  accepts the node.
\<close>

theorem allocation_keeps_pairs_valid:
  assumes "allocate_port net cfg db (srv_flavor s) node_id = Inr p"
    and "db_servers db = xs @ s # ys" "r = game_port_range cfg (srv_flavor s)"
    and "srv_vm_port s < pr_start r" "node_id = None \<or> srv_node_id s = node_id"
  shows "validate_server_port_pairs (db\<lparr>db_servers := xs @ s\<lparr>srv_vm_port := p\<rparr> # ys\<rparr>) r node_id = Inr ()"
proof -
  let ?s = "s\<lparr>srv_vm_port := p\<rparr>" and ?db = "db\<lparr>db_servers := xs @ s\<lparr>srv_vm_port := p\<rparr> # ys\<rparr>"
  let ?P = "\<lambda>s. pr_start r \<le> srv_vm_port s \<and> srv_vm_port s \<le> pr_end r \<and>
     (node_id = None \<or> srv_node_id s = node_id)"
  let ?c = "\<lambda>rows. concat (map (claims r) (filter ?P rows))"
  have foot: "claims r ?s = footprint_of (srv_flavor s) p" "\<not> overflows r ?s"
    by (rule allocate_port_claims [OF assms(1,3)]; simp)+
  have p: "pr_start r \<le> p \<and> p \<le> pr_end r"
    using allocate_port_fresh [OF assms(1,3)] by (simp add: footprint_of_def split: if_splits)
  have rows: "port_rows db r node_id = filter ?P xs @ filter ?P ys"
    "port_rows ?db r node_id = filter ?P xs @ ?s # filter ?P ys"
    using assms(2,4,5) p by (simp_all add: port_rows_def)
  have old: "\<forall>s \<in> set (port_rows db r node_id). \<not> overflows r s" "distinct (?c xs @ ?c ys)"
    using allocate_port_InrD(1) [OF assms(1)] by (simp_all add: validate_iff assms(3) [symmetric] rows)
  have used: "set (?c xs) \<subseteq> collect_reserved_ports db r node_id" "set (?c ys) \<subseteq> collect_reserved_ports db r node_id"
    unfolding collect_reserved_eq rows by auto
  have "distinct (?c xs @ footprint_of (srv_flavor s) p @ ?c ys)"
  proof (cases "is_bedrock (srv_flavor s)")
    case True
    from udp.claims_stay_distinct [OF allocate_port_InrD(2) [OF assms(1) True, folded assms(3)] old(2) used]
    show ?thesis by (simp add: footprint_of_def True)
  next
    case False
    from tcp.claims_stay_distinct [OF allocate_port_InrD(3) [OF assms(1) False, folded assms(3)] old(2) used]
    show ?thesis by (simp add: footprint_of_def False)
  qed
  then show ?thesis
    unfolding validate_iff rows(2) using old(1) foot by (simp add: rows(1) foot)
qed

text \<open>
  C5: An allocation fails only for cause: when the node's recorded assignments are valid, the
  range is not empty and some port has its whole footprint inside the range, unclaimed by the
  node's servers and free on the host, the allocation returns a port.  A host where every bind
  succeeds therefore serves a node as long as its range has room.
\<close>

theorem allocation_complete:
  assumes "validate_server_port_pairs db (game_port_range cfg flavor) node_id = Inr ()"
    and "r = game_port_range cfg flavor"
    and "\<forall>q \<in> set (footprint_of flavor p). pr_start r \<le> q \<and> q \<le> pr_end r \<and> host_free net flavor q"
    and "set (footprint_of flavor p) \<inter> set (concat (map (claims r) (port_rows db r node_id))) = {}"
  shows "\<exists>p'. allocate_port net cfg db flavor node_id = Inr p'"
proof -
  let ?used = "collect_reserved_ports db r node_id"
  have ok: "\<forall>q \<in> set (footprint_of flavor p). pr_start r \<le> q \<and> q \<le> pr_end r \<and> q \<notin> ?used \<and> host_free net flavor q"
    using assms(3,4) unfolding collect_reserved_eq by blast
  show ?thesis
  proof (cases "is_bedrock flavor")
    case True
    with udp.available_found [of p r ?used net] ok assms(1,2) show ?thesis
      by (auto simp: allocate_port_def footprint_of_def host_free_def Let_def)
  next
    case False
    with tcp.available_found [of p r ?used net] ok assms(1,2) show ?thesis
      by (auto simp: allocate_port_def footprint_of_def host_free_def Let_def)
  qed
qed

lemma used_proxy_ports_iff:
  "p \<in> used_proxy_ports db r \<longleftrightarrow>
     (\<exists>s \<in> set (db_servers db). srv_proxy_port s = Some p) \<and> pr_start r \<le> p \<and> p \<le> pr_end r"
  by (force simp: used_proxy_ports_def List.map_filter_def split: option.splits)

text \<open>
  With the proxy enabled, a proxy port is returned exactly when the range has one that no server
  of the fleet holds, and then it is such a port.
\<close>

lemma proxy_port_unique:
  assumes "cfg_proxy_enabled cfg"
  shows "case allocate_proxy_port cfg db of
      Inl e \<Rightarrow> \<forall>p \<in> {cfg_proxy_port_range_start cfg..cfg_proxy_port_range_end cfg}.
        \<exists>s \<in> set (db_servers db). srv_proxy_port s = Some p
    | Inr None \<Rightarrow> False
    | Inr (Some p) \<Rightarrow> cfg_proxy_port_range_start cfg \<le> p \<and> p \<le> cfg_proxy_port_range_end cfg \<and>
        (\<forall>s \<in> set (db_servers db). srv_proxy_port s \<noteq> Some p)"
proof -
  let ?r = "\<lparr>pr_start = cfg_proxy_port_range_start cfg, pr_end = cfg_proxy_port_range_end cfg\<rparr>"
  show ?thesis
  proof (cases "first_unused (used_proxy_ports db ?r) [pr_start ?r..pr_end ?r]")
    case (Inl e)
    with proxy.available_found [of _ ?r "used_proxy_ports db ?r"] assms show ?thesis
      by (fastforce simp: allocate_proxy_port_def used_proxy_ports_iff)
  next
    case (Inr p)
    from proxy.sound [OF this] Inr assms show ?thesis
      by (auto simp: allocate_proxy_port_def used_proxy_ports_iff)
  qed
qed

definition open_sockets :: socket_api where
  "open_sockets = \<lparr>bind_udp6 = (\<lambda>p. p \<noteq> 19134), bind_tcp6 = (\<lambda>_. True), bind_udp4 = (\<lambda>p. p \<noteq> 19134),
     bind_tcp4 = (\<lambda>_. True)\<rparr>"

definition ports_sample :: database where
  "ports_sample = sample_db\<lparr>db_servers :=
     [sample_server\<lparr>srv_id := 11\<rparr>, sample_server\<lparr>srv_vm_port := 0\<rparr>]\<rparr>"

lemma ports_sample_rows:
  "port_rows ports_sample (game_port_range default_settings ServerFlavor.BEDROCK) (Some 20) =
     [sample_server\<lparr>srv_id := 11\<rparr>]"
  by (simp add: port_rows_def ports_sample_def game_port_range_def default_settings_def is_bedrock_def
      sample_defs)

lemma ports_sample_alloc:
  "allocate_port open_sockets default_settings ports_sample ServerFlavor.BEDROCK (Some 20) = Inr 19135"
proof -
  let ?r = "game_port_range default_settings ServerFlavor.BEDROCK"
  have r: "pr_start ?r = 19132" "pr_end ?r = 19232"
    by (simp_all add: game_port_range_def default_settings_def is_bedrock_def)
  have "validate_server_port_pairs ports_sample ?r (Some 20) = Inr ()"
    unfolding validate_iff ports_sample_rows
    by (simp add: overflows_def claims_def is_bedrock_def sample_server_def r)
  moreover have "collect_reserved_ports ports_sample ?r (Some 20) = {19132, 19133}"
    unfolding collect_reserved_eq ports_sample_rows by (simp add: claims_def is_bedrock_def sample_server_def r)
  moreover have "[19132..19232] = [19132, 19133, 19134, 19135] @ [19136..19232::int]"
    by (simp add: upto_rec1 del: upto_rec_numeral)
  ultimately show ?thesis
    by (simp add: allocate_port_def pick_free_udp_port_def is_bedrock_def r Let_def is_udp_port_free_def
        open_sockets_def del: upto_rec_numeral)
qed

theorem allocation_keeps_pairs_valid_witness:
  "validate_server_port_pairs (ports_sample\<lparr>db_servers :=
       [sample_server\<lparr>srv_id := 11\<rparr>, sample_server\<lparr>srv_vm_port := 19135\<rparr>]\<rparr>)
     (game_port_range default_settings ServerFlavor.BEDROCK) (Some 20) = Inr ()"
  using allocation_keeps_pairs_valid [of open_sockets default_settings ports_sample
      "sample_server\<lparr>srv_vm_port := 0\<rparr>" "Some 20" 19135 "[sample_server\<lparr>srv_id := 11\<rparr>]" "[]"]
    ports_sample_alloc
  by (simp add: ports_sample_def sample_defs game_port_range_def default_settings_def is_bedrock_def)

theorem allocation_complete_witness:
  "\<exists>p. allocate_port open_sockets default_settings ports_sample ServerFlavor.BEDROCK (Some 20) = Inr p"
proof (rule allocation_complete [where p = 19140 and r = "game_port_range default_settings ServerFlavor.BEDROCK"])
  let ?r = "game_port_range default_settings ServerFlavor.BEDROCK"
  have r: "pr_start ?r = 19132" "pr_end ?r = 19232"
    by (simp_all add: game_port_range_def default_settings_def is_bedrock_def)
  show "validate_server_port_pairs ports_sample ?r (Some 20) = Inr ()"
    unfolding validate_iff ports_sample_rows
    by (simp add: overflows_def claims_def is_bedrock_def sample_server_def r)
  show "\<forall>q \<in> set (footprint_of ServerFlavor.BEDROCK 19140). pr_start ?r \<le> q \<and> q \<le> pr_end ?r \<and>
      host_free open_sockets ServerFlavor.BEDROCK q"
    by (simp add: footprint_of_def host_free_def is_bedrock_def r is_udp_port_free_def open_sockets_def)
  show "set (footprint_of ServerFlavor.BEDROCK 19140) \<inter>
      set (concat (map (claims ?r) (port_rows ports_sample ?r (Some 20)))) = {}"
    unfolding ports_sample_rows
    by (simp add: footprint_of_def claims_def is_bedrock_def sample_server_def r)
qed simp

end
