(* ===== verification/Windows.thy ===== *)
theory Windows
  imports Samples PyText
begin

text \<open>
  Rate limits: the hourly budget of migrations and the per-server cooldown
  (\<open>services/migration_guards.py\<close>), and the request limiter (\<open>services/rate_limit.py\<close>) with its
  in-process queue and its Redis counter.  The locale \<open>sliding_window\<close> is the contract of a
  queue of admission times, interpreted for the migration budget and for the request buckets.
\<close>

section \<open>The migration budget\<close>

text \<open>The result and the new \<open>_migration_times\<close>.\<close>

definition can_run_migration_now ::
  "settings \<Rightarrow> bool \<Rightarrow> instant \<Rightarrow> instant list \<Rightarrow> bool \<times> instant list" where
  "can_run_migration_now cfg do_record now migration_times =
     (let limit = max 0 (cfg_max_migrations_per_hour cfg) in
      if limit \<le> 0 then (True, migration_times)
      else
        let cutoff = now - hours 1;
            migration_times = dropWhile (\<lambda>t. t < cutoff) migration_times
        in if int (length migration_times) \<ge> limit then (False, migration_times)
           else if do_record then (True, migration_times @ [now])
           else (True, migration_times))"

definition record_migration :: "settings \<Rightarrow> instant \<Rightarrow> instant list \<Rightarrow> instant list" where
  "record_migration cfg now migration_times = snd (can_run_migration_now cfg True now migration_times)"

section \<open>The cooldown of a server\<close>

definition LAST_MIGRATED_KEY :: string where
  "LAST_MIGRATED_KEY = ''last_migrated_at''"

text \<open>
  \<open>fromisoformat\<close> and \<open>isoformat\<close> are the parameters that stand for the methods of
  \<open>datetime\<close>; a parsed value without a zone is read as UTC.
\<close>

definition replace_zulu :: "string \<Rightarrow> string" where
  "replace_zulu s = concat (map (\<lambda>c. if c = CHR ''Z'' then ''+00:00'' else [c]) s)"

definition parse_iso :: "(string \<Rightarrow> instant option) \<Rightarrow> json option \<Rightarrow> instant option" where
  "parse_iso fromisoformat value =
     (case value of
        Some (JStr s) \<Rightarrow> if py_strip s = [] then None else fromisoformat (replace_zulu s)
      | _ \<Rightarrow> None)"

definition server_last_migrated_at :: "(string \<Rightarrow> instant option) \<Rightarrow> server \<Rightarrow> instant option" where
  "server_last_migrated_at fromisoformat server =
     parse_iso fromisoformat (dict_get (srv_mc_config server) LAST_MIGRATED_KEY)"

definition mark_server_migrated :: "(instant \<Rightarrow> string) \<Rightarrow> instant \<Rightarrow> server \<Rightarrow> server" where
  "mark_server_migrated isoformat now server =
     server\<lparr>srv_mc_config := dict_set LAST_MIGRATED_KEY (JStr (isoformat now)) (srv_mc_config server)\<rparr>"

definition server_in_migration_cooldown ::
  "(string \<Rightarrow> instant option) \<Rightarrow> settings \<Rightarrow> instant \<Rightarrow> server \<Rightarrow> bool" where
  "server_in_migration_cooldown fromisoformat cfg now server =
     (let cooldown = max 0 (cfg_migration_cooldown_seconds cfg) in
      if cooldown \<le> 0 then False
      else case server_last_migrated_at fromisoformat server of
             None \<Rightarrow> False
           | Some last_at \<Rightarrow> now - last_at < seconds cooldown)"

lemma cooldown_after_migration:
  assumes "fromisoformat (replace_zulu (isoformat t)) = Some t" "py_strip (isoformat t) \<noteq> []"
  shows "server_in_migration_cooldown fromisoformat cfg now (mark_server_migrated isoformat t server) \<longleftrightarrow>
    now < t + seconds (max 0 (cfg_migration_cooldown_seconds cfg)) \<and> 0 < cfg_migration_cooldown_seconds cfg"
  using assms
  by (auto simp: server_in_migration_cooldown_def mark_server_migrated_def server_last_migrated_at_def
      parse_iso_def Let_def max_def)

section \<open>The request limiter\<close>

type_synonym buckets = "instant list dict"

definition local_check :: "instant \<Rightarrow> string \<Rightarrow> int \<Rightarrow> int \<Rightarrow> buckets \<Rightarrow> bool \<times> buckets" where
  "local_check now key limit window_seconds bs =
     (let cutoff = now - seconds window_seconds;
          bucket = (case dict_get bs key of None \<Rightarrow> [] | Some b \<Rightarrow> b);
          bucket = dropWhile (\<lambda>t. t \<le> cutoff) bucket
      in if int (length bucket) \<ge> limit then (False, dict_set key bucket bs)
         else (True, dict_set key (bucket @ [now]) bs))"

text \<open>
  \<open>pipe\<close> stands for the pipeline \<open>INCR key; EXPIRE key window\<close>: the count it answers and the
  server's state after it, or nothing when Redis cannot be used.
\<close>

definition redis_check ::
  "(instant \<Rightarrow> 'r \<Rightarrow> (int \<times> 'r) option) \<Rightarrow> instant \<Rightarrow> int \<Rightarrow> 'r \<Rightarrow> bool option \<times> 'r" where
  "redis_check pipe now limit r =
     (case pipe now r of None \<Rightarrow> (None, r) | Some (count, r') \<Rightarrow> (Some (count \<le> limit), r'))"

definition check_rate_limit ::
  "(instant \<Rightarrow> 'r \<Rightarrow> (int \<times> 'r) option) \<Rightarrow> instant \<Rightarrow> string \<Rightarrow> int \<Rightarrow> int \<Rightarrow> 'r \<times> buckets \<Rightarrow>
   (exn + unit) \<times> 'r \<times> buckets" where
  "check_rate_limit pipe now key limit window_seconds st =
     (let (r, bs) = st;
          (allowed, r) = redis_check pipe now limit r;
          (allowed, bs) = (case allowed of
              None \<Rightarrow> local_check now key limit window_seconds bs
            | Some b \<Rightarrow> (b, bs))
      in (if \<not> allowed then Inl (HTTPException 429) else Inr (), r, bs))"

section \<open>The contract of a sliding window\<close>

text \<open>
  The admitted times of a run of a limiter over a sequence of arrivals.
\<close>

fun admitted :: "(instant \<Rightarrow> 'q \<Rightarrow> bool \<times> 'q) \<Rightarrow> instant list \<Rightarrow> 'q \<Rightarrow> instant list" where
  "admitted admit [] q = []"
| "admitted admit (t # ts) q =
     (let (b, q') = admit t q in (if b then [t] else []) @ admitted admit ts q')"

text \<open>How many of the times fall in the interval of the given width that starts at \<open>a\<close>.\<close>

definition in_window :: "instant \<Rightarrow> int \<Rightarrow> instant list \<Rightarrow> nat" where
  "in_window a width ts = length (filter (\<lambda>t. a \<le> t \<and> t < a + width) ts)"

locale sliding_window =
  fixes admit :: "instant \<Rightarrow> 'q \<Rightarrow> bool \<times> 'q"
    and times :: "'q \<Rightarrow> instant list"
    and expired :: "instant \<Rightarrow> instant \<Rightarrow> bool"
    and width :: int
    and limit :: nat
  assumes width_pos: "0 < width"
    and expired_old: "expired now t \<Longrightarrow> width \<le> now - t"
    and expired_mono: "expired now t \<Longrightarrow> now \<le> now' \<Longrightarrow> expired now' t"
    and admit_True: "admit now q = (True, q') \<Longrightarrow>
      length (dropWhile (expired now) (times q)) < limit \<and>
      times q' = dropWhile (expired now) (times q) @ [now]"
    and admit_False: "admit now q = (False, q') \<Longrightarrow>
      limit \<le> length (dropWhile (expired now) (times q)) \<and>
      times q' = dropWhile (expired now) (times q)"
begin

text \<open>
  The invariant: what was admitted so far is some expired times followed by the queue, none of
  it lies in the future, and no interval holds more than the limit.
\<close>

definition window_inv :: "instant \<Rightarrow> instant list \<Rightarrow> 'q \<Rightarrow> bool" where
  "window_inv now past q \<longleftrightarrow>
     (\<exists>old. past = old @ times q \<and> (\<forall>t \<in> set old. expired now t)) \<and>
     (\<forall>t \<in> set past. t \<le> now) \<and> (\<forall>a. in_window a width past \<le> limit)"

lemma window_inv_mono: "window_inv now past q \<Longrightarrow> now \<le> now' \<Longrightarrow> window_inv now' past q"
  unfolding window_inv_def using expired_mono by fastforce

lemma window_inv_drop:
  assumes "window_inv now past q"
  shows "\<exists>old. past = old @ dropWhile (expired now) (times q) \<and> (\<forall>t \<in> set old. expired now t)"
proof -
  obtain old where "past = old @ times q" "\<forall>t \<in> set old. expired now t"
    using assms unfolding window_inv_def by blast
  then show ?thesis
    by (intro exI [of _ "old @ takeWhile (expired now) (times q)"]) (auto dest: set_takeWhileD)
qed

lemma window_inv_step:
  assumes inv: "window_inv now past q" and step: "admit now q = (b, q')"
  shows "window_inv now (past @ (if b then [now] else [])) q'"
proof -
  obtain old where past: "past = old @ dropWhile (expired now) (times q)"
    and old: "\<forall>t \<in> set old. expired now t"
    using window_inv_drop [OF inv] by blast
  show ?thesis
  proof (cases b)
    case False
    with step admit_False past old inv show ?thesis by (auto simp: window_inv_def)
  next
    case True
    with step have q': "times q' = dropWhile (expired now) (times q) @ [now]"
      and small: "length (dropWhile (expired now) (times q)) < limit"
      using admit_True by auto
    have "in_window a width (past @ [now]) \<le> limit" for a
    proof (cases "a \<le> now \<and> now < a + width")
      case False
      then show ?thesis using inv by (auto simp: in_window_def window_inv_def)
    next
      case True
      have "filter (\<lambda>t. a \<le> t \<and> t < a + width) old = []"
        unfolding filter_empty_conv
      proof
        fix t assume "t \<in> set old"
        then have "width \<le> now - t" using old expired_old by blast
        with True show "\<not> (a \<le> t \<and> t < a + width)" by linarith
      qed
      then have "in_window a width (past @ [now]) \<le> Suc (length (dropWhile (expired now) (times q)))"
        unfolding past by (simp add: in_window_def True)
      with small show ?thesis by simp
    qed
    moreover have "\<forall>t \<in> set (past @ [now]). t \<le> now" using inv by (auto simp: window_inv_def)
    moreover have "past @ [now] = old @ times q'" unfolding past q' by simp
    ultimately show ?thesis using old True unfolding window_inv_def by auto
  qed
qed

lemma window_inv_run:
  "\<lbrakk>window_inv now past q; sorted ts; \<forall>t \<in> set ts. now \<le> t\<rbrakk> \<Longrightarrow>
   \<forall>a. in_window a width (past @ admitted admit ts q) \<le> limit"
proof (induction ts arbitrary: now past q)
  case Nil
  then show ?case by (simp add: window_inv_def)
next
  case (Cons t ts)
  obtain b q' where step: "admit t q = (b, q')" by fastforce
  have "window_inv t past q" using Cons.prems window_inv_mono by auto
  then have "window_inv t (past @ (if b then [t] else [])) q'" using step by (rule window_inv_step)
  from Cons.IH [OF this] Cons.prems(2) step show ?case by auto
qed

text \<open>No interval of the window's width admits more than the limit.\<close>

lemma admitted_bounded:
  assumes "sorted ts" "times q = []"
  shows "in_window a width (admitted admit ts q) \<le> limit"
proof (cases ts)
  case Nil
  then show ?thesis by (simp add: in_window_def)
next
  case (Cons t ts')
  have "window_inv t [] q" using assms(2) by (simp add: window_inv_def in_window_def)
  from window_inv_run [OF this, of ts] assms(1) Cons show ?thesis by auto
qed

end

section \<open>The two windows of the program\<close>

definition bucket_of :: "string \<Rightarrow> buckets \<Rightarrow> instant list" where
  "bucket_of key bs = (case dict_get bs key of None \<Rightarrow> [] | Some b \<Rightarrow> b)"

interpretation migrations: sliding_window
  "can_run_migration_now (cfg\<lparr>cfg_max_migrations_per_hour := int (Suc n)\<rparr>) True" "\<lambda>q. q"
  "\<lambda>now t. t < now - hours 1" "hours 1" "Suc n" for cfg n
  by unfold_locales (auto simp: can_run_migration_now_def Let_def duration_defs split: if_splits)

interpretation requests: sliding_window
  "\<lambda>now. local_check now key limit (int (Suc w))" "bucket_of key"
  "\<lambda>now t. t \<le> now - seconds (int (Suc w))" "seconds (int (Suc w))" "nat limit" for key limit w
  by unfold_locales
    (auto simp: local_check_def bucket_of_def Let_def seconds_def split: if_splits)

text \<open>The requests admitted in an interleaved run over many keys.\<close>

fun served :: "int \<Rightarrow> int \<Rightarrow> (string \<times> instant) list \<Rightarrow> buckets \<Rightarrow> (string \<times> instant) list" where
  "served limit w [] bs = []"
| "served limit w ((key, now) # rs) bs =
     (let (b, bs') = local_check now key limit w bs
      in (if b then [(key, now)] else []) @ served limit w rs bs')"

lemma local_check_other_key:
  "local_check now key limit w bs = (b, bs') \<Longrightarrow> k \<noteq> key \<Longrightarrow> bucket_of k bs' = bucket_of k bs"
  by (auto simp: local_check_def bucket_of_def Let_def split: if_splits)

lemma local_check_same_bucket:
  assumes "bucket_of key bs = bucket_of key cs"
  shows "fst (local_check now key limit w bs) = fst (local_check now key limit w cs)"
    "bucket_of key (snd (local_check now key limit w bs)) = bucket_of key (snd (local_check now key limit w cs))"
  using assms by (auto simp: local_check_def bucket_of_def Let_def split: if_splits)

lemma admitted_same_bucket:
  "bucket_of key bs = bucket_of key cs \<Longrightarrow>
   admitted (\<lambda>now. local_check now key limit w) ts bs = admitted (\<lambda>now. local_check now key limit w) ts cs"
proof (induction ts arbitrary: bs cs)
  case Nil
  then show ?case by simp
next
  case (Cons t ts)
  note same = local_check_same_bucket [OF Cons.prems, of t limit w]
  show ?case
    using Cons.IH [OF same(2)] same(1) by (simp add: Let_def case_prod_beta)
qed

text \<open>The keys do not interfere: what a key is served is what it would be served alone.\<close>

lemma served_per_key:
  "map snd (filter (\<lambda>r. fst r = key) (served limit w rs bs)) =
     admitted (\<lambda>now. local_check now key limit w) (map snd (filter (\<lambda>r. fst r = key) rs)) bs"
proof (induction rs arbitrary: bs)
  case Nil
  then show ?case by simp
next
  case (Cons r rs)
  obtain k now where r: "r = (k, now)" by fastforce
  obtain b bs' where step: "local_check now k limit w bs = (b, bs')" by fastforce
  show ?case
  proof (cases "k = key")
    case True
    with Cons.IH [of bs'] step r show ?thesis by auto
  next
    case False
    with step have "bucket_of key bs' = bucket_of key bs"
      using local_check_other_key by metis
    from admitted_same_bucket [OF this] Cons.IH [of bs'] step r False show ?thesis by auto
  qed
qed

section \<open>Properties\<close>



text \<open>
  The migration budget: with a positive cap, the migrations recorded in any hour are at most
  the cap, and a refusal means that the queue holds at least that many, none older than an hour.
\<close>

theorem migration_budget_holds:
  assumes "0 < cfg_max_migrations_per_hour cfg" "sorted ts"
  shows "int (in_window a (hours 1) (admitted (can_run_migration_now cfg True) ts [])) \<le>
      cfg_max_migrations_per_hour cfg \<and>
    (\<forall>q now q'. sorted q \<longrightarrow> can_run_migration_now cfg record now q = (False, q') \<longrightarrow>
       cfg_max_migrations_per_hour cfg \<le> int (length q') \<and> (\<forall>t \<in> set q'. now - hours 1 \<le> t))"
proof
  obtain n where n: "cfg_max_migrations_per_hour cfg = int (Suc n)"
    using assms(1) by (metis pos_int_cases Suc_pred')
  then have cfg: "cfg\<lparr>cfg_max_migrations_per_hour := int (Suc n)\<rparr> = cfg" by simp
  from migrations.admitted_bounded [OF assms(2) refl, where a = a and cfg = cfg and n = n] n
  show "int (in_window a (hours 1) (admitted (can_run_migration_now cfg True) ts [])) \<le>
      cfg_max_migrations_per_hour cfg" unfolding cfg by linarith
  have drop: "\<forall>t \<in> set (dropWhile (\<lambda>t. t < c) q). c \<le> t" if "sorted q" for c :: int and q
    using that by (induction q) auto
  show "\<forall>q now q'. sorted q \<longrightarrow> can_run_migration_now cfg record now q = (False, q') \<longrightarrow>
       cfg_max_migrations_per_hour cfg \<le> int (length q') \<and> (\<forall>t \<in> set q'. now - hours 1 \<le> t)"
    using assms(1) drop by (auto simp: can_run_migration_now_def Let_def split: if_splits)
qed

theorem migration_budget_holds_witness:
  "int (in_window 0 (hours 1) (admitted (can_run_migration_now default_settings True)
     [0, 1, 2, 3, 4, 5, 6, 7, 8, 9, 10, 11] [])) \<le> 10"
  using migration_budget_holds [of default_settings "[0, 1, 2, 3, 4, 5, 6, 7, 8, 9, 10, 11]" 0 True]
  by (simp add: default_settings_def)

text \<open>
  Checking and recording are two calls, with the migration in between: two workers that both
  pass the check with one place left both migrate, and only one is recorded.
\<close>

lemma check_then_record_race:
  assumes "0 < cfg_max_migrations_per_hour cfg" "sorted q" "\<forall>t \<in> set q. now - hours 1 \<le> t"
    and "int (length q) = cfg_max_migrations_per_hour cfg - 1"
  shows "fst (can_run_migration_now cfg False now q)" "fst (can_run_migration_now cfg False now q)"
    "record_migration cfg now (record_migration cfg now q) = q @ [now]"
proof -
  have "dropWhile (\<lambda>t. t < now - hours 1) q = q" using assms(3) by (cases q) auto
  moreover have "dropWhile (\<lambda>t. t < now - hours 1) (q @ [now]) = q @ [now]"
    using assms(3) by (cases q) (auto simp: duration_defs)
  ultimately show "fst (can_run_migration_now cfg False now q)" "fst (can_run_migration_now cfg False now q)"
    "record_migration cfg now (record_migration cfg now q) = q @ [now]"
    using assms(1,4) by (simp_all add: record_migration_def can_run_migration_now_def Let_def)
qed

text \<open>
  The requests a Redis-backed key refuses, with \<open>count\<close> and \<open>deadline\<close> the value and the expiry
  of the key in the state \<open>r\<close>.
\<close>

fun refused_all ::
  "(instant \<Rightarrow> 'r \<Rightarrow> (int \<times> 'r) option) \<Rightarrow> string \<Rightarrow> int \<Rightarrow> int \<Rightarrow> instant list \<Rightarrow> 'r \<times> buckets \<Rightarrow> bool" where
  "refused_all pipe key limit w [] st = True"
| "refused_all pipe key limit w (t # ts) st =
     (case check_rate_limit pipe t key limit w st of
        (Inl e, st') \<Rightarrow> refused_all pipe key limit w ts st'
      | (Inr _, st') \<Rightarrow> False)"

text \<open>
  With Redis the window does not slide.  \<open>INCR\<close> adds one to a live key (and starts an expired
  one at one) and \<open>EXPIRE\<close> moves its expiry to the end of a new window, also for a refused
  request: so once a key has reached its limit, a client whose requests are spaced by anything
  less than the window is refused for ever, however few requests any one window holds.
\<close>

theorem redis_limit_never_slides:
  assumes incr_expire: "\<And>now r. \<exists>r'. pipe now r = Some ((if now < deadline r then count r + 1 else 1), r') \<and>
      count r' = (if now < deadline r then count r + 1 else 1) \<and> deadline r' = now + seconds w"
    and "limit \<le> count r" "t0 < deadline r"
    and gaps: "successively (\<lambda>t u. u < t + seconds w) (t0 # ts)"
  shows "refused_all pipe key limit w (t0 # ts) (r, bs)"
  using assms(2-4)
proof (induction ts arbitrary: t0 r bs)
  case Nil
  obtain r' where "pipe t0 r = Some (count r + 1, r')" using incr_expire [of t0 r] Nil by auto
  with Nil show ?case by (simp add: check_rate_limit_def redis_check_def)
next
  case (Cons u us)
  obtain r' where r': "pipe t0 r = Some (count r + 1, r')" "count r' = count r + 1"
    "deadline r' = t0 + seconds w"
    using incr_expire [of t0 r] Cons.prems by auto
  have "refused_all pipe key limit w (u # us) (r', bs)"
    using Cons.prems r' by (intro Cons.IH) simp_all
  with r' Cons.prems(1) show ?case by (simp add: check_rate_limit_def redis_check_def)
qed

theorem redis_limit_never_slides_witness:
  "refused_all (\<lambda>now (c, d). Some (if now < d then c + 1 else 1, (if now < d then c + 1 else 1, now + seconds 60)))
     ''login'' 10 60 (map seconds [0, 50, 100, 150, 200]) ((10, seconds 1), [])"
  using redis_limit_never_slides [where pipe = "\<lambda>now (c, d). Some (if now < d then c + 1 else 1,
      (if now < d then c + 1 else 1, now + seconds 60))" and count = fst and deadline = snd and w = 60
      and r = "(10, seconds 1)" and ?t0.0 = 0 and ts = "map seconds [50, 100, 150, 200]" and limit = 10
      and bs = "[]" and key = "''login''"]
  by (simp add: seconds_def split_beta)

end
