(* ===== verification/Session.thy ===== *)
theory Session
  imports Samples
begin

text \<open>
  A SQLAlchemy session as \<open>database/db.py\<close> configures it (\<open>autocommit=False\<close>,
  \<open>autoflush=False\<close>).  It sees the database at three levels: what is committed, what its
  transaction has written, and the objects in memory with the attributes the program has set.
  A query selects rows by what the transaction has written and never flushes first; \<open>db.get\<close>
  answers the object in memory; a bulk \<open>update(...)\<close> writes through to the transaction and to the
  objects; \<open>flush\<close> writes the objects to the transaction, where the unique constraints of the
  schema are checked; \<open>commit\<close> flushes and commits; \<open>rollback\<close> (and closing the session) forgets
  everything uncommitted.
\<close>

record session =
  ses_committed :: database
  ses_flushed :: database
  ses_objects :: database

definition open_session :: "database \<Rightarrow> session" where
  "open_session db = \<lparr>ses_committed = db, ses_flushed = db, ses_objects = db\<rparr>"

text \<open>
  The unique constraints of the tables the modelled code writes.  A null is distinct from every
  value, so rows with one in the constraint do not count.  They are checked on the state a flush
  leaves.
\<close>

definition constraints_ok :: "database \<Rightarrow> bool" where
  "constraints_ok db \<longleftrightarrow>
     distinct (List.map_filter (\<lambda>s. map_option (\<lambda>n. (n, srv_vm_port s)) (srv_node_id s)) (db_servers db)) \<and>
     distinct (List.map_filter srv_proxy_port (db_servers db)) \<and>
     distinct (map (\<lambda>b. (ban_server_id b, ban_xuid b, ban_active b)) (db_bans db)) \<and>
     distinct (map tx_provider_order_id (db_transactions db)) \<and>
     distinct (List.map_filter tx_provider_payment_id (db_transactions db)) \<and>
     distinct (List.map_filter sub_provider_subscription_id (db_subscriptions db)) \<and>
     distinct (map usr_email (db_users db)) \<and>
     distinct (map usr_referrer_code (db_users db)) \<and>
     distinct (List.map_filter usr_google_sub (db_users db)) \<and>
     distinct (map rt_jti (db_refresh_tokens db)) \<and>
     distinct (map (\<lambda>c. (col_server_id c, col_user_id c)) (db_collaborators db)) \<and>
     distinct (map dom_domain (db_domains db))"

text \<open>Setting attributes, or adding and deleting objects.\<close>

definition set_objects :: "(database \<Rightarrow> database) \<Rightarrow> session \<Rightarrow> session" where
  "set_objects f s = s\<lparr>ses_objects := f (ses_objects s)\<rparr>"

text \<open>\<open>db.execute(update(...))\<close>.\<close>

definition bulk_update :: "(database \<Rightarrow> database) \<Rightarrow> session \<Rightarrow> session" where
  "bulk_update f s = s\<lparr>ses_flushed := f (ses_flushed s), ses_objects := f (ses_objects s)\<rparr>"

definition flush :: "session \<Rightarrow> exn + session" where
  "flush s = (if constraints_ok (ses_objects s) then Inr (s\<lparr>ses_flushed := ses_objects s\<rparr>)
              else Inl IntegrityError)"

definition commit :: "session \<Rightarrow> exn + session" where
  "commit s = (if constraints_ok (ses_objects s) then Inr (open_session (ses_objects s))
               else Inl IntegrityError)"

definition rollback :: "session \<Rightarrow> session" where
  "rollback s = open_session (ses_committed s)"

text \<open>
  The objects of a query: the rows the condition selects in the transaction, as they are in
  memory.
\<close>

definition query_servers :: "(server \<Rightarrow> bool) \<Rightarrow> session \<Rightarrow> server list" where
  "query_servers p s =
     map (\<lambda>r. case get_server (ses_objects s) (srv_id r) of None \<Rightarrow> r | Some r' \<Rightarrow> r')
       (filter p (db_servers (ses_flushed s)))"

definition query_nodes :: "(node \<Rightarrow> bool) \<Rightarrow> session \<Rightarrow> node list" where
  "query_nodes p s =
     map (\<lambda>r. case get_node (ses_objects s) (nd_id r) of None \<Rightarrow> r | Some r' \<Rightarrow> r')
       (filter p (db_nodes (ses_flushed s)))"

definition query_deployments :: "(deployment \<Rightarrow> bool) \<Rightarrow> session \<Rightarrow> deployment list" where
  "query_deployments p s =
     map (\<lambda>r. case get_deployment (ses_objects s) (dep_id r) of None \<Rightarrow> r | Some r' \<Rightarrow> r')
       (filter p (db_deployments (ses_flushed s)))"

definition query_users :: "(user \<Rightarrow> bool) \<Rightarrow> session \<Rightarrow> user list" where
  "query_users p s =
     map (\<lambda>r. case get_user (ses_objects s) (usr_id r) of None \<Rightarrow> r | Some r' \<Rightarrow> r')
       (filter p (db_users (ses_flushed s)))"

definition query_revisions :: "(revision \<Rightarrow> bool) \<Rightarrow> session \<Rightarrow> revision list" where
  "query_revisions p s =
     map (\<lambda>r. case get_row rev_id (rev_id r) (db_revisions (ses_objects s)) of None \<Rightarrow> r | Some r' \<Rightarrow> r')
       (filter p (db_revisions (ses_flushed s)))"

section \<open>Lemmas\<close>

lemma open_session_simps [simp]:
  "ses_committed (open_session db) = db" "ses_flushed (open_session db) = db"
  "ses_objects (open_session db) = db"
  by (simp_all add: open_session_def)

lemma set_objects_simps [simp]:
  "ses_committed (set_objects f s) = ses_committed s" "ses_flushed (set_objects f s) = ses_flushed s"
  "ses_objects (set_objects f s) = f (ses_objects s)"
  by (simp_all add: set_objects_def)

lemma bulk_update_simps [simp]:
  "ses_committed (bulk_update f s) = ses_committed s"
  "ses_flushed (bulk_update f s) = f (ses_flushed s)"
  "ses_objects (bulk_update f s) = f (ses_objects s)"
  by (simp_all add: bulk_update_def)

lemma rollback_simps [simp]:
  "ses_committed (rollback s) = ses_committed s" "rollback (rollback s) = rollback s"
  "rollback (open_session db) = open_session db" "rollback (set_objects f s) = rollback s"
  "rollback (bulk_update f s) = rollback s"
  by (simp_all add: rollback_def)

lemma commit_InrD: "commit s = Inr s' \<Longrightarrow> s' = open_session (ses_objects s) \<and> constraints_ok (ses_objects s)"
  by (simp add: commit_def split: if_splits)

lemma commit_InlD: "commit s = Inl e \<Longrightarrow> e = IntegrityError \<and> \<not> constraints_ok (ses_objects s)"
  by (simp add: commit_def split: if_splits)

lemma flush_InrD: "flush s = Inr s' \<Longrightarrow> s' = s\<lparr>ses_flushed := ses_objects s\<rparr> \<and> constraints_ok (ses_objects s)"
  by (simp add: flush_def split: if_splits)

lemma query_servers_flushed:
  "distinct (map srv_id (db_servers db)) \<Longrightarrow>
   query_servers p (open_session db) = filter p (db_servers db)"
  unfolding query_servers_def open_session_simps
  by (rule map_idI) (simp add: get_server_def get_row_unique)

lemma query_nodes_flushed:
  "distinct (map nd_id (db_nodes db)) \<Longrightarrow> query_nodes p (open_session db) = filter p (db_nodes db)"
  unfolding query_nodes_def open_session_simps
  by (rule map_idI) (simp add: get_node_def get_row_unique)

lemma query_deployments_flushed:
  "distinct (map dep_id (db_deployments db)) \<Longrightarrow>
   query_deployments p (open_session db) = filter p (db_deployments db)"
  unfolding query_deployments_def open_session_simps
  by (rule map_idI) (simp add: get_deployment_def get_row_unique)

lemma query_users_flushed:
  "distinct (map usr_id (db_users db)) \<Longrightarrow> query_users p (open_session db) = filter p (db_users db)"
  unfolding query_users_def open_session_simps
  by (rule map_idI) (simp add: get_user_def get_row_unique)

end
