(* ===== verification/Node_Capacity.thy ===== *)
theory Node_Capacity
  imports Resources Session
begin

text \<open>
  \<open>services/node_capacity.py\<close>: what a node has reserved, the placement of a workload, waking an
  offline node, and taking nodes with stale heartbeats offline.  The locale \<open>node_choice\<close> is the
  contract of the four places of the program that choose the node with the most free RAM.
\<close>

section \<open>Reserved RAM\<close>

definition HEARTBEAT_STALE_SECONDS :: int where
  "HEARTBEAT_STALE_SECONDS = 120"

definition RAM_RESERVING_STATES :: "ServerState list" where
  "RAM_RESERVING_STATES = [ServerState.provisioning, ServerState.running, ServerState.syncing]"

definition ACTIVE_DEPLOYMENT_STATES :: "DeploymentState list" where
  "ACTIVE_DEPLOYMENT_STATES = [DeploymentState.building, DeploymentState.running]"

definition is_node_heartbeat_fresh :: "instant \<Rightarrow> node \<Rightarrow> bool" where
  "is_node_heartbeat_fresh now node =
     (case nd_last_heartbeat node of
        None \<Rightarrow> False
      | Some last_heartbeat \<Rightarrow> now - last_heartbeat \<le> seconds HEARTBEAT_STALE_SECONDS)"

definition server_ram_mb :: "settings \<Rightarrow> instant \<Rightarrow> database \<Rightarrow> server \<Rightarrow> int" where
  "server_ram_mb cfg now db server = lim_ram_mb (get_effective_server_resource_limits cfg now (Some db) server)"

definition servers_ram :: "settings \<Rightarrow> instant \<Rightarrow> database \<Rightarrow> ServerState list \<Rightarrow> uuid \<Rightarrow> int" where
  "servers_ram cfg now db states node_id =
     sum_of (server_ram_mb cfg now db)
       (filter (\<lambda>s. srv_node_id s = Some node_id \<and> srv_state s \<in> set states) (db_servers db))"

definition deployments_ram :: "database \<Rightarrow> uuid \<Rightarrow> int" where
  "deployments_ram db node_id =
     sum_of dep_ram_limit_mb
       (filter (\<lambda>d. dep_node_id d = Some node_id \<and> dep_state d \<in> set ACTIVE_DEPLOYMENT_STATES)
          (db_deployments db))"

text \<open>The sums are over what the session's transaction has written.\<close>

definition compute_node_allocated_ram_mb :: "settings \<Rightarrow> instant \<Rightarrow> database \<Rightarrow> uuid \<Rightarrow> int" where
  "compute_node_allocated_ram_mb cfg now db node_id =
     servers_ram cfg now db RAM_RESERVING_STATES node_id + deployments_ram db node_id"

definition refresh_node_allocated_ram :: "settings \<Rightarrow> instant \<Rightarrow> uuid \<Rightarrow> session \<Rightarrow> session" where
  "refresh_node_allocated_ram cfg now node_id s =
     (case get_node (ses_objects s) node_id of
        None \<Rightarrow> s
      | Some node \<Rightarrow>
          set_objects (upd_node node_id (\<lambda>n. n\<lparr>nd_used_ram_mb :=
            compute_node_allocated_ram_mb cfg now (ses_flushed s) node_id\<rparr>)) s)"

definition refresh_all_nodes_allocated_ram :: "settings \<Rightarrow> instant \<Rightarrow> session \<Rightarrow> session" where
  "refresh_all_nodes_allocated_ram cfg now s =
     fold (refresh_node_allocated_ram cfg now) (map nd_id (db_nodes (ses_flushed s))) s"

section \<open>Placement\<close>

definition free_active_ram :: "settings \<Rightarrow> instant \<Rightarrow> database \<Rightarrow> node \<Rightarrow> int" where
  "free_active_ram cfg now db node =
     nd_total_ram_mb node -
     (servers_ram cfg now db [ServerState.running, ServerState.provisioning] (nd_id node) +
      deployments_ram db (nd_id node))"

definition best_node ::
  "settings \<Rightarrow> instant \<Rightarrow> database \<Rightarrow> int \<Rightarrow> node list \<Rightarrow> node option" where
  "best_node cfg now db required_ram_mb candidates =
     (let (best, best_free) = best_loop
            (\<lambda>n. is_node_heartbeat_fresh now n \<and> free_active_ram cfg now db n \<ge> required_ram_mb)
            (free_active_ram cfg now db) candidates None (- 1)
      in if best_free < 512 then None else best)"

definition select_best_node ::
  "settings \<Rightarrow> instant \<Rightarrow> database \<Rightarrow> int \<Rightarrow> NodeTier \<Rightarrow> node option" where
  "select_best_node cfg now db required_ram_mb required_tier =
     best_node cfg now db required_ram_mb
       (filter (\<lambda>n. nd_status n = NodeState.online \<and> nd_tier n = required_tier) (db_nodes db))"

text \<open>
  \<open>cloud_start node\<close> is whether starting the node's cloud instance returns; it raises when the
  provider is unknown or its API fails.
\<close>

definition auto_wakeup_offline_node ::
  "(node \<Rightarrow> bool) \<Rightarrow> instant \<Rightarrow> session \<Rightarrow> bool \<times> session" where
  "auto_wakeup_offline_node cloud_start now s =
     (if query_nodes (\<lambda>n. nd_status n = NodeState.starting) s \<noteq> [] then (True, s)
      else case first_row (query_nodes (\<lambda>n. nd_status n = NodeState.offline \<and>
                 nd_provider n \<noteq> None \<and> nd_provider_instance_id n \<noteq> None) s) of
             None \<Rightarrow> (False, s)
           | Some offline_node \<Rightarrow>
               if \<not> cloud_start offline_node then (False, s)
               else (let s1 = set_objects (upd_node (nd_id offline_node)
                       (\<lambda>n. n\<lparr>nd_status := NodeState.starting, nd_status_updated_at := now\<rparr>)) s
                     in case commit s1 of Inl _ \<Rightarrow> (False, s1) | Inr s2 \<Rightarrow> (True, s2)))"

section \<open>Failover\<close>

text \<open>The functions that \<open>orchestrator/lifecycle_manager.py\<close> defines.\<close>

definition lifecycle_manager_exports :: "string list" where
  "lifecycle_manager_exports = [''get_server_lifecycle_orchestrator'']"

definition suspend_server :: "server \<Rightarrow> server" where
  "suspend_server s = s\<lparr>srv_state := ServerState.suspended\<rparr>"

text \<open>
  The import inside the function fails when the module lacks one of the two names.  A server ends
  suspended whether or not its stop succeeds; \<open>stop_deployment\<close> stands for the deployment
  orchestrator, \<open>None\<close> for its raise.
\<close>

definition suspend_running_servers_on_node ::
  "string list \<Rightarrow> (deployment \<Rightarrow> deployment option) \<Rightarrow> uuid \<Rightarrow> session \<Rightarrow> exn + uuid list \<times> session" where
  "suspend_running_servers_on_node exports stop_deployment node_id s =
     (let running_servers = query_servers
            (\<lambda>r. srv_node_id r = Some node_id \<and> srv_state r = ServerState.running) s in
      if running_servers = [] then Inr ([], s)
      else if \<not> {''get_server_lifecycle_orchestrator'', ''get_deployment_lifecycle_orchestrator''}
                \<subseteq> set exports then Inl ImportError
      else
        let s1 = fold (\<lambda>r. set_objects (upd_server (srv_id r) suspend_server)) running_servers s;
            active_deployments = query_deployments
              (\<lambda>d. dep_node_id d = Some node_id \<and> dep_state d \<in> set ACTIVE_DEPLOYMENT_STATES) s1;
            s2 = fold (\<lambda>d. set_objects (upd_deployment (dep_id d)
                   (\<lambda>d. case stop_deployment d of
                          None \<Rightarrow> d\<lparr>dep_state := DeploymentState.suspended\<rparr> | Some d' \<Rightarrow> d')))
                   active_deployments s1
        in Inr (map srv_id running_servers, s2))"

definition set_node_offline :: "instant \<Rightarrow> uuid \<Rightarrow> session \<Rightarrow> session" where
  "set_node_offline now node_id =
     set_objects (upd_node node_id (\<lambda>n. n\<lparr>nd_status := NodeState.offline, nd_status_updated_at := now\<rparr>))"

fun offline_loop ::
  "string list \<Rightarrow> (deployment \<Rightarrow> deployment option) \<Rightarrow> instant \<Rightarrow> node list \<Rightarrow> session \<Rightarrow>
   exn + uuid list \<times> session" where
  "offline_loop exports stop_deployment now [] s = Inr ([], s)"
| "offline_loop exports stop_deployment now (node # nodes) s =
     (case suspend_running_servers_on_node exports stop_deployment (nd_id node)
             (set_node_offline now (nd_id node) s) of
        Inl e \<Rightarrow> Inl e
      | Inr (_, s1) \<Rightarrow>
          (case offline_loop exports stop_deployment now nodes s1 of
             Inl e \<Rightarrow> Inl e
           | Inr (affected, s2) \<Rightarrow> Inr (nd_id node # affected, s2)))"

definition is_stale :: "instant \<Rightarrow> node \<Rightarrow> bool" where
  "is_stale now n \<longleftrightarrow> nd_status n = NodeState.online \<and>
     (case nd_last_heartbeat n of None \<Rightarrow> False
      | Some t \<Rightarrow> t < now - seconds HEARTBEAT_STALE_SECONDS)"

definition is_stuck :: "instant \<Rightarrow> node \<Rightarrow> bool" where
  "is_stuck now n \<longleftrightarrow> nd_status n = NodeState.starting \<and> nd_status_updated_at n < now - minutes 5"

definition mark_stale_nodes_offline ::
  "string list \<Rightarrow> (deployment \<Rightarrow> deployment option) \<Rightarrow> instant \<Rightarrow> session \<Rightarrow> exn + uuid list \<times> session" where
  "mark_stale_nodes_offline exports stop_deployment now s =
     (case offline_loop exports stop_deployment now (query_nodes (is_stale now) s) s of
        Inl e \<Rightarrow> Inl e
      | Inr (affected, s1) \<Rightarrow>
          let stuck_nodes = query_nodes (is_stuck now) s1;
              s2 = fold (\<lambda>n. set_node_offline now (nd_id n)) stuck_nodes s1;
              affected = affected @ map nd_id stuck_nodes
          in if affected = [] then Inr (affected, s2)
             else case commit s2 of Inl e \<Rightarrow> Inl e | Inr s3 \<Rightarrow> Inr (affected, s3))"

text \<open>
  One turn of the watchdog: the pass runs in a session of its own, and whatever it raises is
  logged, with nothing committed.
\<close>

definition watchdog_pass ::
  "string list \<Rightarrow> (deployment \<Rightarrow> deployment option) \<Rightarrow> instant \<Rightarrow> database \<Rightarrow> database" where
  "watchdog_pass exports stop_deployment now db =
     (case mark_stale_nodes_offline exports stop_deployment now (open_session db) of
        Inl e \<Rightarrow> db
      | Inr (_, s) \<Rightarrow> ses_committed s)"

section \<open>The contract of choosing a node\<close>

text \<open>
  A chosen candidate is eligible, has at least \<open>least_free\<close> MB, and no eligible candidate has
  more; none is chosen only when no eligible candidate reaches \<open>least_free\<close>.
\<close>

locale node_choice =
  fixes pick :: "'n list \<Rightarrow> 'n option"
    and eligible :: "'n \<Rightarrow> bool"
    and free :: "'n \<Rightarrow> int"
    and least_free :: int
  assumes choose_Some: "pick ns = Some n \<Longrightarrow> n \<in> set ns \<and> eligible n \<and> least_free \<le> free n \<and>
      (\<forall>m \<in> set ns. eligible m \<longrightarrow> free m \<le> free n)"
    and choose_None: "pick ns = None \<Longrightarrow> m \<in> set ns \<Longrightarrow> eligible m \<Longrightarrow> free m < least_free"
begin

lemma chooses_iff_room: "pick ns \<noteq> None \<longleftrightarrow> (\<exists>m \<in> set ns. eligible m \<and> least_free \<le> free m)"
  using choose_Some choose_None by (cases "pick ns") (auto simp: not_less [symmetric])

text \<open>More candidates never make the choice worse, and their order does not matter.\<close>

lemma choice_monotone:
  assumes "pick ns = Some n" "set ns \<subseteq> set ms"
  shows "\<exists>m. pick ms = Some m \<and> free n \<le> free m"
proof -
  from choose_Some [OF assms(1)] assms(2) have n: "n \<in> set ms" "eligible n" "least_free \<le> free n" by auto
  then obtain m where m: "pick ms = Some m" using chooses_iff_room [of ms] by auto
  with choose_Some [OF m] n show ?thesis by auto
qed

lemma choice_order_irrelevant:
  assumes "set ns = set ms"
  shows "map_option free (pick ns) = map_option free (pick ms)"
proof (cases "pick ns")
  case None
  with chooses_iff_room [of ns] chooses_iff_room [of ms] assms show ?thesis by auto
next
  case (Some n)
  then obtain m where m: "pick ms = Some m" "free n \<le> free m"
    using choice_monotone [of ns n ms] assms by auto
  moreover have "free m \<le> free n"
    using choose_Some [OF m(1)] choose_Some [OF Some] assms by auto
  ultimately show ?thesis using Some by simp
qed

end

text \<open>The loop starts below zero, so what it keeps is not negative.\<close>

lemma best_loop_choice:
  assumes "best_loop ok score ns None (- 1) = (b, f)"
  shows "b = Some n \<Longrightarrow> n \<in> set ns \<and> ok n \<and> 0 \<le> score n \<and> f = score n \<and>
      (\<forall>m \<in> set ns. ok m \<longrightarrow> score m \<le> score n)"
    and "b = None \<Longrightarrow> f = - 1 \<and> (\<forall>m \<in> set ns. ok m \<longrightarrow> score m < 0)"
  using best_loop_start [OF assms] by (auto simp: best_inv_def)

interpretation placement: node_choice "best_node cfg now db required"
  "\<lambda>n. is_node_heartbeat_fresh now n \<and> free_active_ram cfg now db n \<ge> required"
  "free_active_ram cfg now db" 512 for cfg now db required
proof (unfold_locales, goal_cases)
  case (1 ns n)
  obtain b f where loop: "best_loop
      (\<lambda>n. is_node_heartbeat_fresh now n \<and> free_active_ram cfg now db n \<ge> required)
      (free_active_ram cfg now db) ns None (- 1) = (b, f)" by fastforce
  with 1 have "b = Some n" "512 \<le> f" by (auto simp: best_node_def split: if_splits)
  with best_loop_choice(1) [OF loop] show ?case by auto
next
  case (2 ns m)
  obtain b f where loop: "best_loop
      (\<lambda>n. is_node_heartbeat_fresh now n \<and> free_active_ram cfg now db n \<ge> required)
      (free_active_ram cfg now db) ns None (- 1) = (b, f)" by fastforce
  with 2(1) have "f < 512 \<or> b = None" by (auto simp: best_node_def split: if_splits)
  with best_loop_choice [OF loop] 2 show ?case by (cases b) force+
qed

section \<open>Lemmas\<close>

lemma server_ram_cong:
  assumes "db_subscriptions db' = db_subscriptions db" "db_plans db' = db_plans db" "srv_id r' = srv_id r"
  shows "server_ram_mb cfg now db' r' = server_ram_mb cfg now db r"
  using limits_depend_on [OF assms] by (simp add: server_ram_mb_def)

lemma sum_filter_modify:
  assumes "distinct (map key rows)" "r \<in> set rows" "key r = k" "\<not> P r" "P (f r)" "g (f r) = g r"
  shows "sum_of g (filter P (modify_row key k f rows)) = sum_of g (filter P rows) + g r"
  using assms(1,2)
proof (induction rows)
  case Nil
  then show ?case by simp
next
  case (Cons x rows)
  show ?case
  proof (cases "x = r")
    case True
    then have "k \<notin> key ` set rows" using Cons.prems assms(3) by auto
    then have "modify_row key k f (x # rows) = f r # rows"
      using True assms(3) by (simp add: modify_row_def modify_row_absent [unfolded modify_row_def])
    then show ?thesis using True assms(4-6) by simp
  next
    case False
    with Cons.prems have r: "r \<in> set rows" by simp
    then have "key x \<noteq> k" using Cons.prems(1) assms(3) by (auto simp: rev_image_eqI)
    then have "modify_row key k f (x # rows) = x # modify_row key k f rows" by (simp add: modify_row_def)
    with Cons.IH Cons.prems r show ?thesis by simp
  qed
qed

lemma fold_nodes_offline:
  "fold (\<lambda>n. set_node_offline now (nd_id n)) ns s =
     set_objects (\<lambda>db. db\<lparr>db_nodes := fold (\<lambda>n. modify_row nd_id (nd_id n)
       (\<lambda>n. n\<lparr>nd_status := NodeState.offline, nd_status_updated_at := now\<rparr>)) ns (db_nodes db)\<rparr>) s"
  by (induction ns arbitrary: s) (simp_all add: set_node_offline_def set_objects_def upd_node_def)

lemma constraints_ok_nodes [simp]: "constraints_ok (db\<lparr>db_nodes := ns\<rparr>) = constraints_ok db"
  by (simp add: constraints_ok_def)

lemma query_servers_Nil: "query_servers p s = [] \<longleftrightarrow> (\<forall>r \<in> set (db_servers (ses_flushed s)). \<not> p r)"
  by (auto simp: query_servers_def filter_empty_conv)

lemma query_nodes_ids:
  "map nd_id (query_nodes p s) = map nd_id (filter p (db_nodes (ses_flushed s)))"
  unfolding query_nodes_def map_map
  by (rule map_cong) (auto split: option.split dest: get_node_SomeD)

lemma fold_on_ids: "fold (\<lambda>n. F (nd_id n)) ns s = fold F (map nd_id ns) s"
  by (induction ns arbitrary: s) simp_all

definition hosts_running :: "database \<Rightarrow> uuid \<Rightarrow> bool" where
  "hosts_running db node_id \<longleftrightarrow>
     (\<exists>r \<in> set (db_servers db). srv_node_id r = Some node_id \<and> srv_state r = ServerState.running)"

lemma suspend_none:
  "\<not> hosts_running (ses_flushed s) node_id \<Longrightarrow>
   suspend_running_servers_on_node exports sd node_id s = Inr ([], s)"
  using query_servers_Nil [of "\<lambda>r. srv_node_id r = Some node_id \<and> srv_state r = ServerState.running" s]
  by (simp add: suspend_running_servers_on_node_def Let_def hosts_running_def)

lemma suspend_missing_export:
  "hosts_running (ses_flushed s) node_id \<Longrightarrow>
   suspend_running_servers_on_node lifecycle_manager_exports sd node_id s = Inl ImportError"
  using query_servers_Nil [of "\<lambda>r. srv_node_id r = Some node_id \<and> srv_state r = ServerState.running" s]
  by (auto simp: suspend_running_servers_on_node_def Let_def hosts_running_def lifecycle_manager_exports_def)

lemma set_node_offline_flushed [simp]:
  "ses_flushed (set_node_offline now i s) = ses_flushed s"
  "ses_committed (set_node_offline now i s) = ses_committed s"
  by (simp_all add: set_node_offline_def)

lemma offline_loop_import:
  "offline_loop lifecycle_manager_exports sd now ns s =
     (if \<exists>n \<in> set ns. hosts_running (ses_flushed s) (nd_id n) then Inl ImportError
      else Inr (map nd_id ns, fold (\<lambda>n. set_node_offline now (nd_id n)) ns s))"
proof (induction ns arbitrary: s)
  case Nil
  then show ?case by simp
next
  case (Cons n ns)
  show ?case
  proof (cases "hosts_running (ses_flushed s) (nd_id n)")
    case True
    with suspend_missing_export [of "set_node_offline now (nd_id n) s" "nd_id n" sd] show ?thesis by simp
  next
    case False
    with suspend_none [of "set_node_offline now (nd_id n) s" "nd_id n" lifecycle_manager_exports sd]
      Cons.IH [of "set_node_offline now (nd_id n) s"]
    show ?thesis by simp
  qed
qed

lemma stale_not_stuck: "is_stale now n \<Longrightarrow> \<not> is_stuck now n"
  by (simp add: is_stale_def is_stuck_def)

lemma watchdog_nodes_offline:
  assumes "distinct (map nd_id (db_nodes db))"
  shows "db_nodes (ses_objects (fold (\<lambda>n. set_node_offline now (nd_id n)) (filter (is_stuck now) (db_nodes db))
      (fold (\<lambda>n. set_node_offline now (nd_id n)) (filter (is_stale now) (db_nodes db)) (open_session db)))) =
    modify_where (\<lambda>n. is_stale now n \<or> is_stuck now n)
      (\<lambda>n. n\<lparr>nd_status := NodeState.offline, nd_status_updated_at := now\<rparr>) (db_nodes db)"
proof -
  let ?f = "\<lambda>n::node. n\<lparr>nd_status := NodeState.offline, nd_status_updated_at := now\<rparr>"
  let ?rows = "db_nodes db" and ?Q = "is_stuck now"
  have d: "distinct (map nd_id (filter ?Q ?rows))" using assms by (rule distinct_map_filter)
  have "fold (\<lambda>n. modify_row nd_id (nd_id n) ?f) (filter ?Q ?rows)
      (fold (\<lambda>n. modify_row nd_id (nd_id n) ?f) (filter (is_stale now) ?rows) ?rows) =
      map (\<lambda>r. if nd_id r \<in> nd_id ` set (filter ?Q ?rows) then ?f r else r)
        (modify_where (is_stale now) ?f ?rows)"
    by (subst fold_modify_filter [OF assms]) (simp, subst fold_modify_row [OF d], simp_all)
  also have "\<dots> = modify_where (\<lambda>n. is_stale now n \<or> ?Q n) ?f ?rows"
    unfolding modify_where_def map_map
  proof (rule map_cong [OF refl])
    fix r assume r: "r \<in> set ?rows"
    have iff: "nd_id r \<in> nd_id ` set (filter ?Q ?rows) \<longleftrightarrow> ?Q r" using assms r by (rule key_in_filter)
    show "((\<lambda>r. if nd_id r \<in> nd_id ` set (filter ?Q ?rows) then ?f r else r) \<circ>
        (\<lambda>r. if is_stale now r then ?f r else r)) r = (if is_stale now r \<or> ?Q r then ?f r else r)"
      using iff by (auto simp del: set_filter)
  qed
  finally show ?thesis by (simp add: fold_nodes_offline)
qed

section \<open>Properties\<close>

lemma select_best_node_SomeD:
  assumes "select_best_node cfg now db required tier = Some n"
  shows "n \<in> set (db_nodes db) \<and> nd_status n = NodeState.online \<and> nd_tier n = tier \<and>
    is_node_heartbeat_fresh now n \<and> max required 512 \<le> free_active_ram cfg now db n"
  using placement.choose_Some [OF assms [unfolded select_best_node_def]] by auto

text \<open>
  Placement.  A node is found exactly when some online node of the tier has a fresh heartbeat
  and both the requested RAM and 512 MB free; the node found is such a node and none of them has
  more RAM free.
\<close>

theorem placement_is_best:
  "case select_best_node cfg now db required tier of
     None \<Rightarrow> \<not> (\<exists>m \<in> set (db_nodes db). nd_status m = NodeState.online \<and> nd_tier m = tier \<and>
       is_node_heartbeat_fresh now m \<and> max required 512 \<le> free_active_ram cfg now db m)
   | Some n \<Rightarrow> n \<in> set (db_nodes db) \<and> nd_status n = NodeState.online \<and> nd_tier n = tier \<and>
       is_node_heartbeat_fresh now n \<and> max required 512 \<le> free_active_ram cfg now db n \<and>
       \<not> (\<exists>m \<in> set (db_nodes db). nd_status m = NodeState.online \<and> nd_tier m = tier \<and>
         is_node_heartbeat_fresh now m \<and> required \<le> free_active_ram cfg now db m \<and>
         free_active_ram cfg now db n < free_active_ram cfg now db m)"
proof (cases "select_best_node cfg now db required tier")
  case None
  from placement.choose_None [OF None [unfolded select_best_node_def]] None show ?thesis
    by fastforce
next
  case (Some n)
  from placement.choose_Some [OF Some [unfolded select_best_node_def]] Some show ?thesis
    by fastforce
qed

text \<open>
  C7: Placement never overcommits.  When a server that was not counted on the chosen node is moved
  there and set running, and its plan needs no more RAM than was requested, the RAM of the node's
  running and provisioning servers and of its active deployments still fits in the node.
\<close>

theorem placement_never_overcommits:
  assumes "select_best_node cfg now db required tier = Some n"
    and "r \<in> set (db_servers db)" "server_ram_mb cfg now db r \<le> required"
    and "srv_node_id r \<noteq> Some (nd_id n) \<or> srv_state r \<notin> {ServerState.running, ServerState.provisioning}"
    and "distinct (map srv_id (db_servers db))"
  shows "0 \<le> free_active_ram cfg now
    (upd_server (srv_id r) (\<lambda>r. r\<lparr>srv_node_id := Some (nd_id n), srv_state := ServerState.running\<rparr>) db) n"
proof -
  let ?f = "\<lambda>r. r\<lparr>srv_node_id := Some (nd_id n), srv_state := ServerState.running\<rparr>"
  let ?db = "upd_server (srv_id r) ?f db"
  let ?P = "\<lambda>s. srv_node_id s = Some (nd_id n) \<and> srv_state s \<in> set [ServerState.running, ServerState.provisioning]"
  have ram: "server_ram_mb cfg now ?db = server_ram_mb cfg now db"
    by (rule ext) (rule server_ram_cong; simp)
  have "sum_of (server_ram_mb cfg now db) (filter ?P (modify_row srv_id (srv_id r) ?f (db_servers db))) =
      sum_of (server_ram_mb cfg now db) (filter ?P (db_servers db)) + server_ram_mb cfg now db r"
    using assms(2,4,5) by (intro sum_filter_modify server_ram_cong) auto
  then have "free_active_ram cfg now ?db n = free_active_ram cfg now db n - server_ram_mb cfg now db r"
    by (simp add: free_active_ram_def servers_ram_def deployments_ram_def ram)
  with select_best_node_SomeD [OF assms(1)] assms(3) show ?thesis by simp
qed

definition placement_sample :: database where
  "placement_sample = sample_db\<lparr>db_nodes := [sample_node\<lparr>nd_last_heartbeat := Some 0\<rparr>],
     db_subscriptions := [sample_subscription]\<rparr>"

lemma placement_sample_node:
  "select_best_node default_settings 5 placement_sample 512 NodeTier.shared =
     Some (sample_node\<lparr>nd_last_heartbeat := Some 0\<rparr>)"
  by (simp add: select_best_node_def best_node_def placement_sample_def sample_defs
      is_node_heartbeat_fresh_def free_active_ram_def servers_ram_def deployments_ram_def
      HEARTBEAT_STALE_SECONDS_def seconds_def)

theorem placement_never_overcommits_witness:
  "0 \<le> free_active_ram default_settings 5
    (upd_server 10 (\<lambda>r. r\<lparr>srv_node_id := Some 20, srv_state := ServerState.running\<rparr>) placement_sample)
    (sample_node\<lparr>nd_last_heartbeat := Some 0\<rparr>)"
proof -
  have "server_ram_mb default_settings 5 placement_sample sample_server \<le> 512"
    by (simp add: server_ram_mb_def get_effective_server_resource_limits_def placement_sample_def
        active_subscription_for_server_def in_force_def sample_defs get_plan_def limits_of_plan_def
        UNPAID_SERVER_LIMITS_def)
  with placement_never_overcommits [OF placement_sample_node, of sample_server]
  show ?thesis by (simp add: placement_sample_def sample_defs)
qed

text \<open>
  A dead node that still hosts a running server is never taken offline.  The failover imports
  \<open>get_deployment_lifecycle_orchestrator\<close>, which \<open>lifecycle_manager.py\<close> does not define, so the
  pass raises before it commits: as long as one stale node hosts a running server, the watchdog
  changes nothing at all, for that node or any other.
\<close>

theorem watchdog_blocked_by_running_server:
  assumes "distinct (map nd_id (db_nodes db))"
    and "n \<in> set (db_nodes db)" "is_stale now n" "hosts_running db (nd_id n)"
  shows "mark_stale_nodes_offline lifecycle_manager_exports stop_deployment now (open_session db) = Inl ImportError \<and>
    watchdog_pass lifecycle_manager_exports stop_deployment now db = db"
proof -
  have "query_nodes (is_stale now) (open_session db) = filter (is_stale now) (db_nodes db)"
    using assms(1) by (rule query_nodes_flushed)
  moreover have "\<exists>n \<in> set (filter (is_stale now) (db_nodes db)). hosts_running db (nd_id n)"
    using assms(2-4) by auto
  ultimately have "mark_stale_nodes_offline lifecycle_manager_exports stop_deployment now (open_session db) = Inl ImportError"
    by (simp add: mark_stale_nodes_offline_def offline_loop_import)
  then show ?thesis by (simp add: watchdog_pass_def)
qed

theorem watchdog_blocked_by_running_server_witness:
  "watchdog_pass lifecycle_manager_exports (\<lambda>_. None) (hours 1)
     (sample_db\<lparr>db_nodes := [sample_node\<lparr>nd_last_heartbeat := Some 0\<rparr>],
        db_servers := [sample_server\<lparr>srv_state := ServerState.running\<rparr>]\<rparr>) =
   sample_db\<lparr>db_nodes := [sample_node\<lparr>nd_last_heartbeat := Some 0\<rparr>],
        db_servers := [sample_server\<lparr>srv_state := ServerState.running\<rparr>]\<rparr>"
  using watchdog_blocked_by_running_server
    [of "sample_db\<lparr>db_nodes := [sample_node\<lparr>nd_last_heartbeat := Some 0\<rparr>],
        db_servers := [sample_server\<lparr>srv_state := ServerState.running\<rparr>]\<rparr>"
      "sample_node\<lparr>nd_last_heartbeat := Some 0\<rparr>" "hours 1" "\<lambda>_. None"]
  by (simp add: is_stale_def hosts_running_def HEARTBEAT_STALE_SECONDS_def duration_defs sample_rows)

lemma mark_stale_quiet:
  assumes "distinct (map nd_id (db_nodes db))"
    and "\<forall>n \<in> set (db_nodes db). is_stale now n \<longrightarrow> \<not> hosts_running db (nd_id n)"
  obtains s ids where "ids = map nd_id (filter (is_stale now) (db_nodes db)) @ map nd_id (filter (is_stuck now) (db_nodes db))"
    "ses_objects s = db\<lparr>db_nodes := modify_where (\<lambda>n. is_stale now n \<or> is_stuck now n)
      (\<lambda>n. n\<lparr>nd_status := NodeState.offline, nd_status_updated_at := now\<rparr>) (db_nodes db)\<rparr>"
    "ses_committed s = db"
    "mark_stale_nodes_offline lifecycle_manager_exports stop_deployment now (open_session db) =
      (if ids = [] then Inr ([], s) else case commit s of Inl e \<Rightarrow> Inl e | Inr s3 \<Rightarrow> Inr (ids, s3))"
proof -
  define stale stuck where "stale = filter (is_stale now) (db_nodes db)"
    and "stuck = filter (is_stuck now) (db_nodes db)"
  define s1 s2 where "s1 = fold (\<lambda>n. set_node_offline now (nd_id n)) stale (open_session db)"
    and "s2 = fold (\<lambda>n. set_node_offline now (nd_id n)) stuck s1"
  have q: "query_nodes (is_stale now) (open_session db) = stale"
    unfolding stale_def using assms(1) by (rule query_nodes_flushed)
  have "\<not> (\<exists>n \<in> set stale. hosts_running (ses_flushed (open_session db)) (nd_id n))"
    using assms(2) by (auto simp: stale_def)
  then have loop: "offline_loop lifecycle_manager_exports stop_deployment now stale (open_session db) =
      Inr (map nd_id stale, s1)"
    unfolding offline_loop_import s1_def by (simp only: if_False)
  have fl: "ses_flushed s1 = db" by (simp add: s1_def fold_nodes_offline)
  have ids: "map nd_id (query_nodes (is_stuck now) s1) = map nd_id stuck"
    unfolding query_nodes_ids fl stuck_def ..
  have s2: "fold (\<lambda>n. set_node_offline now (nd_id n)) (query_nodes (is_stuck now) s1) s1 = s2"
    unfolding s2_def fold_on_ids ids ..
  have "ses_objects s2 = db\<lparr>db_nodes := db_nodes (ses_objects s2)\<rparr>" "ses_committed s2 = db"
    by (simp_all add: s1_def s2_def fold_nodes_offline)
  moreover have "db_nodes (ses_objects s2) = modify_where (\<lambda>n. is_stale now n \<or> is_stuck now n)
      (\<lambda>n. n\<lparr>nd_status := NodeState.offline, nd_status_updated_at := now\<rparr>) (db_nodes db)"
    unfolding s1_def s2_def stale_def stuck_def by (rule watchdog_nodes_offline [OF assms(1)])
  moreover have "mark_stale_nodes_offline lifecycle_manager_exports stop_deployment now (open_session db) =
      (if map nd_id stale @ map nd_id stuck = [] then Inr ([], s2)
       else case commit s2 of Inl e \<Rightarrow> Inl e | Inr s3 \<Rightarrow> Inr (map nd_id stale @ map nd_id stuck, s3))"
    unfolding mark_stale_nodes_offline_def q loop Let_def sum.case prod.case s2 ids by simp
  ultimately show ?thesis
    using that [OF refl, of s2] by (simp only: stale_def stuck_def)
qed

text \<open>
  When no stale node hosts a running server the watchdog takes offline exactly the online nodes
  whose heartbeat is older than the limit and the nodes that have been starting for more than five
  minutes; no other node and no server changes.
\<close>

theorem watchdog_effect:
  assumes "distinct (map nd_id (db_nodes db))" "constraints_ok db"
    and "\<forall>n \<in> set (db_nodes db). is_stale now n \<longrightarrow> \<not> hosts_running db (nd_id n)"
  shows "watchdog_pass lifecycle_manager_exports stop_deployment now db =
    db\<lparr>db_nodes := modify_where (\<lambda>n. is_stale now n \<or> is_stuck now n)
      (\<lambda>n. n\<lparr>nd_status := NodeState.offline, nd_status_updated_at := now\<rparr>) (db_nodes db)\<rparr>"
proof -
  let ?new = "db\<lparr>db_nodes := modify_where (\<lambda>n. is_stale now n \<or> is_stuck now n)
      (\<lambda>n. n\<lparr>nd_status := NodeState.offline, nd_status_updated_at := now\<rparr>) (db_nodes db)\<rparr>"
  obtain s ids where
    ids: "ids = map nd_id (filter (is_stale now) (db_nodes db)) @ map nd_id (filter (is_stuck now) (db_nodes db))"
    and s: "ses_objects s = ?new" "ses_committed s = db"
    and mark: "mark_stale_nodes_offline lifecycle_manager_exports stop_deployment now (open_session db) =
      (if ids = [] then Inr ([], s) else case commit s of Inl e \<Rightarrow> Inl e | Inr s3 \<Rightarrow> Inr (ids, s3))"
    by (rule mark_stale_quiet [OF assms(1,3)])
  show ?thesis
  proof (cases "ids = []")
    case True
    then have "\<forall>n \<in> set (db_nodes db). \<not> is_stale now n \<and> \<not> is_stuck now n"
      by (auto simp: ids filter_empty_conv)
    then have "?new = db" by (simp add: modify_where_def cong: map_cong)
    with True s(2) show ?thesis unfolding watchdog_pass_def mark by simp
  next
    case False
    have "commit s = Inr (open_session ?new)" unfolding commit_def s using assms(2) by simp
    with False show ?thesis unfolding watchdog_pass_def mark by simp
  qed
qed

theorem watchdog_effect_witness:
  "map nd_status (db_nodes (watchdog_pass lifecycle_manager_exports (\<lambda>_. None) (hours 1)
     (sample_db\<lparr>db_nodes := [sample_node\<lparr>nd_last_heartbeat := Some 0\<rparr>, sample_node\<lparr>nd_id := 21\<rparr>]\<rparr>))) =
   [NodeState.offline, NodeState.online]"
  using watchdog_effect [of "sample_db\<lparr>db_nodes := [sample_node\<lparr>nd_last_heartbeat := Some 0\<rparr>, sample_node\<lparr>nd_id := 21\<rparr>]\<rparr>"
      "hours 1" "\<lambda>_. None"]
  by (simp add: is_stale_def is_stuck_def hosts_running_def HEARTBEAT_STALE_SECONDS_def duration_defs
      sample_defs constraints_ok_def modify_where_def List.map_filter_def)

end
