(* ===== verification/Node_Agent.thy ===== *)
theory Node_Agent
  imports Node_Capacity PyText
begin

text \<open>
  The connection of a node's agent (\<open>node_agent_websocket\<close> in \<open>api/nodes.py\<close>) with the token
  check of \<open>services/node_auth.py\<close>: the registration handshake, a heartbeat, and the clean-up that
  runs when the connection ends, in whatever way.  A message is its JSON object.  \<open>sha256\<close> is the
  hash, \<open>halt_all\<close> whether the agent at an address confirms that it has halted its processes.
\<close>

section \<open>Agent tokens\<close>

definition verify_node_agent_token :: "(string \<Rightarrow> string) \<Rightarrow> settings \<Rightarrow> node \<Rightarrow> string \<Rightarrow> bool" where
  "verify_node_agent_token sha256 cfg node token =
     (if token = [] then False
      else case nd_agent_token_hash node of
        Some expected \<Rightarrow>
          if expected \<noteq> [] then sha256 token = expected
          else nd_approved node \<and> token = cfg_worker_agent_token cfg
      | None \<Rightarrow> nd_approved node \<and> token = cfg_worker_agent_token cfg)"

section \<open>The handshake\<close>

text \<open>\<open>Some None\<close> is a key with a falsy value; the text of a value that is not a string is not modelled.\<close>

definition resolve_node_ip :: "json dict \<Rightarrow> string option \<Rightarrow> string" where
  "resolve_node_ip register_data client_host =
     (let reported_ip = (case dict_get register_data ''ip_address'' of
            Some (JStr s) \<Rightarrow> py_strip s | _ \<Rightarrow> [])
      in if reported_ip \<noteq> [] then reported_ip
         else case client_host of
                Some h \<Rightarrow> if h \<noteq> [] then h else ''127.0.0.1''
              | None \<Rightarrow> ''127.0.0.1'')"

text \<open>\<open>int(register_data.get("agent_port") or 9000)\<close>; \<open>None\<close> when it raises.\<close>

definition agent_port_of :: "json dict \<Rightarrow> int option" where
  "agent_port_of register_data =
     (case dict_get register_data ''agent_port'' of
        None \<Rightarrow> Some 9000
      | Some v \<Rightarrow>
          if \<not> json_truthy v then Some 9000
          else (case v of JInt n \<Rightarrow> Some n | JStr s \<Rightarrow> py_int s | JBool b \<Rightarrow> Some 1 | _ \<Rightarrow> None))"

datatype handshake_result =
    Closed nat
  | Connected uuid

definition active_on_node :: "uuid \<Rightarrow> server \<Rightarrow> bool" where
  "active_on_node node_id r \<longleftrightarrow> srv_node_id r = Some node_id \<and>
     srv_state r \<in> {ServerState.running, ServerState.provisioning, ServerState.syncing}"

definition suspend_where :: "(server \<Rightarrow> bool) \<Rightarrow> session \<Rightarrow> session" where
  "suspend_where p = bulk_update (\<lambda>db. db\<lparr>db_servers := modify_where p suspend_server (db_servers db)\<rparr>)"

definition find_node_named :: "string \<Rightarrow> session \<Rightarrow> node option" where
  "find_node_named name s = first_row (query_nodes (\<lambda>n. nd_name n = name) s)"

definition new_node :: "uuid \<Rightarrow> instant \<Rightarrow> string \<Rightarrow> string \<Rightarrow> int \<Rightarrow> bool \<Rightarrow> string option \<Rightarrow> node" where
  "new_node new_id now name ip port is_approved token_hash =
     \<lparr>nd_id = new_id, nd_name = name, nd_ip_address = ip, nd_agent_port = port,
      nd_status = NodeState.offline, nd_status_updated_at = now, nd_approved = is_approved,
      nd_agent_token_hash = token_hash, nd_tier = NodeTier.shared, nd_provider = None,
      nd_provider_instance_id = None, nd_total_ram_mb = 0, nd_used_ram_mb = 0, nd_last_heartbeat = None\<rparr>"

text \<open>
  Finding or creating the node of a registration.  Both commits of the code that create a node
  are one here, since nothing else is pending.
\<close>

definition lookup_or_register ::
  "settings \<Rightarrow> instant \<Rightarrow> uuid \<Rightarrow> string \<Rightarrow> string \<Rightarrow> int \<Rightarrow> session \<Rightarrow> (exn + (uuid \<times> session) option)" where
  "lookup_or_register cfg now new_id name ip port s =
     (case find_node_named name s of
        None \<Rightarrow>
          if \<not> cfg_allow_auto_node_registration cfg then Inr None
          else (case commit (set_objects (\<lambda>db. db\<lparr>db_nodes := db_nodes db @
                   [new_node new_id now name ip port True None]\<rparr>) s) of
                  Inl e \<Rightarrow> Inl e | Inr s1 \<Rightarrow> Inr (Some (new_id, s1)))
      | Some node \<Rightarrow>
          let s1 = (if nd_ip_address node \<noteq> ip then
                bulk_update (\<lambda>db. db\<lparr>db_servers := modify_where (\<lambda>r. srv_node_id r = Some (nd_id node))
                    (\<lambda>r. r\<lparr>srv_vm_ipv4 := Some ip\<rparr>) (db_servers db)\<rparr>)
                  (set_objects (upd_node (nd_id node) (\<lambda>n. n\<lparr>nd_ip_address := ip\<rparr>)) s)
              else s)
          in Inr (Some (nd_id node, set_objects (upd_node (nd_id node) (\<lambda>n. n\<lparr>nd_agent_port := port\<rparr>)) s1)))"

definition bring_online :: "settings \<Rightarrow> instant \<Rightarrow> uuid \<Rightarrow> session \<Rightarrow> exn + session" where
  "bring_online cfg now node_id s =
     (case commit (set_objects (upd_node node_id (\<lambda>n. n\<lparr>nd_status := NodeState.online,
               nd_status_updated_at := now, nd_last_heartbeat := Some now\<rparr>)) s) of
        Inl e \<Rightarrow> Inl e
      | Inr s1 \<Rightarrow> commit (refresh_node_allocated_ram cfg now node_id s1))"

text \<open>
  What follows once name, address and port of the registration are read.  The second result is
  the committed database when the block of the session is left.
\<close>

definition admit_node ::
  "(string \<Rightarrow> string) \<Rightarrow> (string \<Rightarrow> int \<Rightarrow> bool) \<Rightarrow> settings \<Rightarrow> instant \<Rightarrow> uuid \<Rightarrow> string \<Rightarrow> string \<Rightarrow> string \<Rightarrow>
   int \<Rightarrow> database \<Rightarrow> (exn + handshake_result) \<times> database" where
  "admit_node sha256 halt_all cfg now new_id token name ip port db =
     (case lookup_or_register cfg now new_id name ip port (open_session db) of
        Inl e \<Rightarrow> (Inl e, db)
      | Inr None \<Rightarrow> (Inr (Closed 4003), db)
      | Inr (Some (node_id, s)) \<Rightarrow>
          (case get_node (ses_objects s) node_id of
             None \<Rightarrow> (Inl AttributeError, ses_committed s)
           | Some node \<Rightarrow>
               if \<not> verify_node_agent_token sha256 cfg node token then (Inr (Closed 1008), ses_committed s)
               else if \<not> nd_approved node then (Inr (Closed 4003), ses_committed s)
               else if nd_status node = NodeState.offline \<and> \<not> halt_all ip port then
                 (Inr (Closed 4003), ses_committed s)
               else
                 let s1 = (if nd_status node = NodeState.offline
                           then suspend_where (active_on_node node_id) s else s)
                 in case bring_online cfg now node_id s1 of
                      Inl e \<Rightarrow> (Inl e, ses_committed s1)
                    | Inr s2 \<Rightarrow> (Inr (Connected node_id), ses_committed s2)))"

text \<open>
  The first message.  The result says under which name the clean-up will look for the node:
  \<open>node_name\<close> is set from the message before anything about it is checked.
\<close>

definition register_data_of :: "json dict \<Rightarrow> json dict option" where
  "register_data_of msg =
     (case dict_get msg ''data'' of
        None \<Rightarrow> Some []
      | Some (JObj d) \<Rightarrow> Some d
      | Some v \<Rightarrow> if json_truthy v then None else Some [])"

definition node_handshake ::
  "(string \<Rightarrow> string) \<Rightarrow> (string \<Rightarrow> int \<Rightarrow> bool) \<Rightarrow> settings \<Rightarrow> instant \<Rightarrow> uuid \<Rightarrow> string \<Rightarrow> string option \<Rightarrow>
   json dict \<Rightarrow> database \<Rightarrow> (exn + handshake_result) \<times> json \<times> database" where
  "node_handshake sha256 halt_all cfg now new_id token client_host msg db =
     (if dict_get msg ''type'' \<noteq> Some (JStr ''register'') then (Inr (Closed 4001), JStr ''unknown'', db)
      else if register_data_of msg = None then (Inl AttributeError, JStr ''unknown'', db)
      else
        let register_data = the (register_data_of msg);
            node_name = (case dict_get register_data ''name'' of None \<Rightarrow> JNull | Some v \<Rightarrow> v)
        in case node_name of
             JStr name \<Rightarrow>
               if name = [] then (Inr (Closed 4001), node_name, db)
               else (case agent_port_of register_data of
                  None \<Rightarrow> (Inr (Closed 4001), node_name, db)
                | Some node_port \<Rightarrow>
                    if node_port < 1 \<or> node_port > 65535 then (Inr (Closed 4001), node_name, db)
                    else (let (r, db') = admit_node sha256 halt_all cfg now new_id token name
                                (resolve_node_ip register_data client_host) node_port db
                          in (r, node_name, db')))
           | _ \<Rightarrow> (if json_truthy node_name then Inl TypeError else Inr (Closed 4001), node_name, db))"

section \<open>The clean-up\<close>

definition node_cleanup ::
  "string list \<Rightarrow> (deployment \<Rightarrow> deployment option) \<Rightarrow> json \<Rightarrow> database \<Rightarrow> database" where
  "node_cleanup exports stop_deployment node_name db =
     (case node_name of
        JStr name \<Rightarrow>
          (let s = open_session db in
           case find_node_named name s of
             None \<Rightarrow> db
           | Some node \<Rightarrow>
               let s1 = set_objects (upd_node (nd_id node) (\<lambda>n. n\<lparr>nd_status := NodeState.offline\<rparr>)) s
               in (case suspend_running_servers_on_node exports stop_deployment (nd_id node) s1 of
                     Inl e \<Rightarrow> db
                   | Inr (_, s2) \<Rightarrow> (case commit s2 of Inl e \<Rightarrow> db | Inr s3 \<Rightarrow> ses_committed s3)))
      | _ \<Rightarrow> db)"

text \<open>A connection that the handshake turns away: the token is only required to be there.\<close>

definition rejected_connection ::
  "(string \<Rightarrow> string) \<Rightarrow> (string \<Rightarrow> int \<Rightarrow> bool) \<Rightarrow> settings \<Rightarrow> instant \<Rightarrow> uuid \<Rightarrow> string list \<Rightarrow>
   (deployment \<Rightarrow> deployment option) \<Rightarrow> string \<Rightarrow> string option \<Rightarrow> json dict \<Rightarrow> database \<Rightarrow> database" where
  "rejected_connection sha256 halt_all cfg now new_id exports stop_deployment token client_host msg db =
     (if token = [] then db
      else (let (r, node_name, db1) = node_handshake sha256 halt_all cfg now new_id token client_host msg db
            in case r of Inr (Connected _) \<Rightarrow> db1
               | _ \<Rightarrow> node_cleanup exports stop_deployment node_name db1))"

section \<open>A heartbeat\<close>

record health_report =
  hr_status :: string
  hr_restart_count :: int

record heartbeat =
  hb_total_ram_mb :: int
  hb_running_servers :: "(string \<times> int) list"
  hb_deployment_health :: "(string \<times> health_report) list"

text \<open>The player counts; entries whose key is not a UUID are skipped.\<close>

definition report_players :: "instant \<Rightarrow> string \<times> int \<Rightarrow> session \<Rightarrow> session" where
  "report_players now entry s =
     (let (sid, count) = entry in
      case parse_uuid sid of
        None \<Rightarrow> s
      | Some server_uuid \<Rightarrow>
          if count > 0 then bulk_update (upd_server server_uuid
            (\<lambda>r. r\<lparr>srv_players_online := count, srv_last_activity := now\<rparr>)) s
          else bulk_update (upd_server server_uuid (\<lambda>r. r\<lparr>srv_players_online := 0\<rparr>)) s)"

definition running_uuids :: "heartbeat \<Rightarrow> uuid list" where
  "running_uuids hb = List.map_filter (\<lambda>(sid, _). parse_uuid sid) (hb_running_servers hb)"

definition apply_health :: "health_report \<Rightarrow> deployment \<Rightarrow> deployment" where
  "apply_health h dep =
     (let dep = (if hr_status h = ''healthy'' then dep\<lparr>dep_health_status := HealthStatus.healthy\<rparr>
                 else if hr_status h = ''unhealthy'' then dep\<lparr>dep_health_status := HealthStatus.unhealthy\<rparr>
                 else if hr_status h = ''crash_loop'' then
                   dep\<lparr>dep_health_status := HealthStatus.crash_loop, dep_state := DeploymentState.crash_loop\<rparr>
                 else if hr_status h = ''quota_exceeded'' then
                   dep\<lparr>dep_health_status := HealthStatus.quota_exceeded,
                       dep_state := DeploymentState.quota_exceeded\<rparr>
                 else dep)
      in dep\<lparr>dep_restart_count := hr_restart_count h\<rparr>)"

definition report_health :: "uuid \<Rightarrow> string \<times> health_report \<Rightarrow> session \<Rightarrow> session" where
  "report_health node_id entry s =
     (let (did, h) = entry in
      case parse_uuid did of
        None \<Rightarrow> s
      | Some dep_uuid \<Rightarrow>
          (case get_deployment (ses_objects s) dep_uuid of
             None \<Rightarrow> s
           | Some dep \<Rightarrow>
               if dep_node_id dep = Some node_id
               then set_objects (upd_deployment dep_uuid (apply_health h)) s else s))"

definition reconcile_servers :: "instant \<Rightarrow> uuid \<Rightarrow> heartbeat \<Rightarrow> session \<Rightarrow> session" where
  "reconcile_servers now node_id hb s =
     (let s1 = bulk_update (\<lambda>db. db\<lparr>db_servers := modify_where (\<lambda>r. srv_node_id r = Some node_id)
            (\<lambda>r. r\<lparr>srv_players_online := 0\<rparr>) (db_servers db)\<rparr>) s;
          s2 = fold (report_players now) (hb_running_servers hb) s1
      in suspend_where (\<lambda>r. active_on_node node_id r \<and> srv_id r \<notin> set (running_uuids hb)) s2)"

text \<open>The answer is whether the loop goes on; \<open>Inl\<close> is a raise that ends the connection.\<close>

definition node_heartbeat ::
  "settings \<Rightarrow> instant \<Rightarrow> uuid \<Rightarrow> heartbeat \<Rightarrow> database \<Rightarrow> (exn + bool) \<times> database" where
  "node_heartbeat cfg now node_id hb db =
     (let s = open_session db in
      case get_node (ses_objects s) node_id of
        None \<Rightarrow> (Inr True, db)
      | Some node \<Rightarrow>
          if nd_status node = NodeState.offline then (Inr False, db)
          else
            let s1 = set_objects (upd_node node_id (\<lambda>n. n\<lparr>nd_total_ram_mb := hb_total_ram_mb hb,
                       nd_last_heartbeat := Some now\<rparr>)) s;
                s2 = refresh_node_allocated_ram cfg now node_id (reconcile_servers now node_id hb s1);
                s3 = fold (report_health node_id) (hb_deployment_health hb) s2
            in case commit s3 of
                 Inl e \<Rightarrow> (Inl e, db)
               | Inr s4 \<Rightarrow> (Inr True, ses_committed s4))"

section \<open>Lemmas\<close>

text \<open>What the reconciliation does to the server table, at both levels.\<close>

definition reconciled :: "instant \<Rightarrow> uuid \<Rightarrow> heartbeat \<Rightarrow> server list \<Rightarrow> server list" where
  "reconciled now node_id hb rows =
     modify_where (\<lambda>r. active_on_node node_id r \<and> srv_id r \<notin> set (running_uuids hb)) suspend_server
       (fold (\<lambda>(sid, count) rows. case parse_uuid sid of None \<Rightarrow> rows
              | Some i \<Rightarrow> modify_row srv_id i (if count > 0
                   then (\<lambda>r. r\<lparr>srv_players_online := count, srv_last_activity := now\<rparr>)
                   else (\<lambda>r. r\<lparr>srv_players_online := 0\<rparr>)) rows)
          (hb_running_servers hb)
          (modify_where (\<lambda>r. srv_node_id r = Some node_id) (\<lambda>r. r\<lparr>srv_players_online := 0\<rparr>) rows))"

lemma report_players_bulk:
  "report_players now e s = bulk_update (\<lambda>db. db\<lparr>db_servers :=
     (\<lambda>(sid, count) rows. case parse_uuid sid of None \<Rightarrow> rows
              | Some i \<Rightarrow> modify_row srv_id i (if count > 0
                   then (\<lambda>r. r\<lparr>srv_players_online := count, srv_last_activity := now\<rparr>)
                   else (\<lambda>r. r\<lparr>srv_players_online := 0\<rparr>)) rows) e (db_servers db)\<rparr>) s"
  by (cases e) (auto simp: report_players_def bulk_update_def upd_server_def split: option.split)

lemma fold_report_players:
  "fold (report_players now) es s = bulk_update (\<lambda>db. db\<lparr>db_servers :=
     fold (\<lambda>(sid, count) rows. case parse_uuid sid of None \<Rightarrow> rows
              | Some i \<Rightarrow> modify_row srv_id i (if count > 0
                   then (\<lambda>r. r\<lparr>srv_players_online := count, srv_last_activity := now\<rparr>)
                   else (\<lambda>r. r\<lparr>srv_players_online := 0\<rparr>)) rows) es (db_servers db)\<rparr>) s"
proof (induction es arbitrary: s)
  case Nil
  then show ?case by (simp add: bulk_update_def)
next
  case (Cons e es)
  show ?case unfolding fold_simps Cons.IH report_players_bulk [of now e s] by (simp add: bulk_update_def)
qed

lemma reconcile_servers_eq:
  "reconcile_servers now node_id hb s =
     bulk_update (\<lambda>db. db\<lparr>db_servers := reconciled now node_id hb (db_servers db)\<rparr>) s"
  by (simp add: reconcile_servers_def fold_report_players suspend_where_def bulk_update_def reconciled_def)

text \<open>The reconciliation decides each row's state from the row itself.\<close>

lemma players_keep:
  "\<exists>ps. fold (\<lambda>(sid, count) rows. case parse_uuid sid of None \<Rightarrow> rows
              | Some i \<Rightarrow> modify_row srv_id i (if count > 0
                   then (\<lambda>r. r\<lparr>srv_players_online := count, srv_last_activity := now\<rparr>)
                   else (\<lambda>r. r\<lparr>srv_players_online := 0\<rparr>)) rows) es (rows :: server list) = map ps rows \<and>
     (\<forall>r. \<exists>n t. ps r = r\<lparr>srv_players_online := n, srv_last_activity := t\<rparr>)"
proof (induction es arbitrary: rows)
  case Nil
  have "\<forall>r::server. \<exists>n t. id r = r\<lparr>srv_players_online := n, srv_last_activity := t\<rparr>"
    by (metis id_apply server.surjective server.update_convs(12,13))
  then show ?case by (intro exI [of _ id]) simp
next
  case (Cons e es)
  obtain sid count where e: "e = (sid, count)" by fastforce
  define f where "f = (\<lambda>r::server. case parse_uuid sid of None \<Rightarrow> r
      | Some i \<Rightarrow> if srv_id r = i then (if count > 0
                   then r\<lparr>srv_players_online := count, srv_last_activity := now\<rparr>
                   else r\<lparr>srv_players_online := 0\<rparr>) else r)"
  have step: "(case parse_uuid sid of None \<Rightarrow> rows
              | Some i \<Rightarrow> modify_row srv_id i (if count > 0
                   then (\<lambda>r. r\<lparr>srv_players_online := count, srv_last_activity := now\<rparr>)
                   else (\<lambda>r. r\<lparr>srv_players_online := 0\<rparr>)) rows) = map f rows"
    by (auto simp: f_def modify_row_def split: option.split)
  have f: "\<exists>n t. f r = r\<lparr>srv_players_online := n, srv_last_activity := t\<rparr>" for r
  proof -
    have "f r = r\<lparr>srv_players_online := srv_players_online (f r), srv_last_activity := srv_last_activity (f r)\<rparr>"
      by (auto simp: f_def split: option.split)
    then show ?thesis by blast
  qed
  obtain ps where ps: "fold (\<lambda>(sid, count) rows. case parse_uuid sid of None \<Rightarrow> rows
              | Some i \<Rightarrow> modify_row srv_id i (if count > 0
                   then (\<lambda>r. r\<lparr>srv_players_online := count, srv_last_activity := now\<rparr>)
                   else (\<lambda>r. r\<lparr>srv_players_online := 0\<rparr>)) rows) es (map f rows) = map ps (map f rows)"
    "\<forall>r. \<exists>n t. ps r = r\<lparr>srv_players_online := n, srv_last_activity := t\<rparr>"
    using Cons.IH [of "map f rows"] by blast
  have "\<exists>n t. (ps \<circ> f) r = r\<lparr>srv_players_online := n, srv_last_activity := t\<rparr>" for r
  proof -
    obtain n t where a: "f r = r\<lparr>srv_players_online := n, srv_last_activity := t\<rparr>" using f by blast
    obtain n' t' where "ps (f r) = (f r)\<lparr>srv_players_online := n', srv_last_activity := t'\<rparr>" using ps(2) by blast
    then have "(ps \<circ> f) r = r\<lparr>srv_players_online := n', srv_last_activity := t'\<rparr>" by (simp add: a)
    then show ?thesis by blast
  qed
  then show ?case using ps(1) by (intro exI [of _ "ps \<circ> f"]) (simp add: e step)
qed

lemma reconciled_rows:
  "\<exists>g. reconciled now node_id hb rows = map g rows \<and>
     (\<forall>r. srv_id (g r) = srv_id r \<and> srv_node_id (g r) = srv_node_id r \<and> srv_vm_port (g r) = srv_vm_port r \<and>
        srv_proxy_port (g r) = srv_proxy_port r \<and>
        srv_state (g r) = (if active_on_node node_id r \<and> srv_id r \<notin> set (running_uuids hb)
                           then ServerState.suspended else srv_state r))"
proof -
  let ?zero = "\<lambda>r. if srv_node_id r = Some node_id then r\<lparr>srv_players_online := 0\<rparr> else r"
  let ?susp = "\<lambda>r. if active_on_node node_id r \<and> srv_id r \<notin> set (running_uuids hb) then suspend_server r else r"
  obtain ps where ps: "fold (\<lambda>(sid, count) rows. case parse_uuid sid of None \<Rightarrow> rows
              | Some i \<Rightarrow> modify_row srv_id i (if count > 0
                   then (\<lambda>r. r\<lparr>srv_players_online := count, srv_last_activity := now\<rparr>)
                   else (\<lambda>r. r\<lparr>srv_players_online := 0\<rparr>)) rows) (hb_running_servers hb) (map ?zero rows) =
      map ps (map ?zero rows)"
    and keep: "\<forall>r. \<exists>n t. ps r = r\<lparr>srv_players_online := n, srv_last_activity := t\<rparr>"
    using players_keep by blast
  have sel: "srv_id (ps r) = srv_id r" "srv_node_id (ps r) = srv_node_id r" "srv_vm_port (ps r) = srv_vm_port r"
    "srv_proxy_port (ps r) = srv_proxy_port r" "srv_state (ps r) = srv_state r" for r
    using keep [rule_format, of r] by auto
  show ?thesis
    using ps by (intro exI [of _ "?susp \<circ> ps \<circ> ?zero"])
      (auto simp: reconciled_def modify_where_def sel active_on_node_def suspend_server_def)
qed

lemma map_filter_via_map:
  "map h xs = map h ys \<Longrightarrow> List.map_filter (\<lambda>x. g (h x)) xs = List.map_filter (\<lambda>x. g (h x)) ys"
proof -
  have "List.map_filter (\<lambda>x. g (h x)) zs = List.map_filter g (map h zs)" for zs
    by (induction zs) (simp_all add: List.map_filter_def)
  then show "map h xs = map h ys \<Longrightarrow> List.map_filter (\<lambda>x. g (h x)) xs = List.map_filter (\<lambda>x. g (h x)) ys"
    by metis
qed

lemma constraints_ok_servers:
  assumes "map (\<lambda>s. (srv_node_id s, srv_vm_port s, srv_proxy_port s)) (db_servers db') =
      map (\<lambda>s. (srv_node_id s, srv_vm_port s, srv_proxy_port s)) (db_servers db)"
    and "db_bans db' = db_bans db" "db_transactions db' = db_transactions db"
    "db_subscriptions db' = db_subscriptions db" "db_users db' = db_users db"
    "db_refresh_tokens db' = db_refresh_tokens db" "db_collaborators db' = db_collaborators db"
    "db_domains db' = db_domains db"
  shows "constraints_ok db' = constraints_ok db"
  using map_filter_via_map [OF assms(1), of "\<lambda>(n, p, q). map_option (\<lambda>n. (n, p)) n"]
    map_filter_via_map [OF assms(1), of "\<lambda>(n, p, q). q"] assms(2-8)
  by (simp add: constraints_ok_def)

lemma fold_report_health:
  "\<exists>f. fold (report_health node_id) es s =
     set_objects (\<lambda>db. db\<lparr>db_deployments := f (db_deployments db)\<rparr>) s"
proof (induction es arbitrary: s)
  case Nil
  show ?case by (intro exI [of _ id]) (simp add: set_objects_def)
next
  case (Cons e es)
  obtain g where g: "report_health node_id e s = set_objects (\<lambda>db. db\<lparr>db_deployments := g (db_deployments db)\<rparr>) s"
  proof -
    have "report_health node_id e s = s \<or> (\<exists>i h. report_health node_id e s = set_objects (upd_deployment i h) s)"
      by (auto simp: report_health_def split: prod.split option.split)
    then show ?thesis
    proof
      assume "report_health node_id e s = s"
      then show ?thesis by (intro that [of id]) (simp add: set_objects_def)
    next
      assume "\<exists>i h. report_health node_id e s = set_objects (upd_deployment i h) s"
      then obtain i h where "report_health node_id e s = set_objects (upd_deployment i h) s" by blast
      then show ?thesis by (intro that [of "modify_row dep_id i h"]) (simp add: set_objects_def upd_deployment_def)
    qed
  qed
  obtain f where "fold (report_health node_id) es (report_health node_id e s) =
      set_objects (\<lambda>db. db\<lparr>db_deployments := f (db_deployments db)\<rparr>) (report_health node_id e s)"
    using Cons.IH by blast
  then show ?case by (intro exI [of _ "f \<circ> g"]) (simp add: g set_objects_def)
qed

lemma heartbeat_db:
  assumes "get_node db node_id = Some node" "nd_status node \<noteq> NodeState.offline" "constraints_ok db"
  obtains f where "node_heartbeat cfg now node_id hb db = (Inr True, upd_node node_id
      (\<lambda>n. n\<lparr>nd_total_ram_mb := hb_total_ram_mb hb, nd_last_heartbeat := Some now,
        nd_used_ram_mb := compute_node_allocated_ram_mb cfg now
          (db\<lparr>db_servers := reconciled now node_id hb (db_servers db)\<rparr>) node_id\<rparr>)
      (db\<lparr>db_servers := reconciled now node_id hb (db_servers db),
          db_deployments := f (db_deployments db)\<rparr>))"
proof -
  let ?hb = "\<lambda>n. n\<lparr>nd_total_ram_mb := hb_total_ram_mb hb, nd_last_heartbeat := Some now\<rparr>"
  define s1 where "s1 = set_objects (upd_node node_id ?hb) (open_session db)"
  define s2 where "s2 = refresh_node_allocated_ram cfg now node_id (reconcile_servers now node_id hb s1)"
  obtain f where f: "fold (report_health node_id) (hb_deployment_health hb) s2 =
      set_objects (\<lambda>db. db\<lparr>db_deployments := f (db_deployments db)\<rparr>) s2"
    using fold_report_health by blast
  obtain g where g: "reconciled now node_id hb (db_servers db) = map g (db_servers db)"
    "\<forall>r. srv_id (g r) = srv_id r \<and> srv_node_id (g r) = srv_node_id r \<and> srv_vm_port (g r) = srv_vm_port r \<and>
        srv_proxy_port (g r) = srv_proxy_port r"
    using reconciled_rows [of now node_id hb "db_servers db"] by blast
  let ?new = "upd_node node_id
      (\<lambda>n. n\<lparr>nd_total_ram_mb := hb_total_ram_mb hb, nd_last_heartbeat := Some now,
        nd_used_ram_mb := compute_node_allocated_ram_mb cfg now
          (db\<lparr>db_servers := reconciled now node_id hb (db_servers db)\<rparr>) node_id\<rparr>)
      (db\<lparr>db_servers := reconciled now node_id hb (db_servers db),
          db_deployments := f (db_deployments db)\<rparr>)"
  have node: "get_node (ses_objects (reconcile_servers now node_id hb s1)) node_id = Some (?hb node)"
    using assms(1) by (simp add: reconcile_servers_eq s1_def get_node_def get_row_modify_row)
  have obj2: "ses_objects s2 = upd_node node_id
      (\<lambda>n. n\<lparr>nd_total_ram_mb := hb_total_ram_mb hb, nd_last_heartbeat := Some now,
        nd_used_ram_mb := compute_node_allocated_ram_mb cfg now
          (db\<lparr>db_servers := reconciled now node_id hb (db_servers db)\<rparr>) node_id\<rparr>)
      (db\<lparr>db_servers := reconciled now node_id hb (db_servers db)\<rparr>)"
    unfolding s2_def refresh_node_allocated_ram_def node option.case
    by (simp add: reconcile_servers_eq s1_def upd_node_def modify_row_def)
  have obj: "ses_objects (fold (report_health node_id) (hb_deployment_health hb) s2) = ?new"
    unfolding f set_objects_simps obj2 by (simp add: upd_node_def)
  have "constraints_ok ?new = constraints_ok db"
    by (rule constraints_ok_servers) (use g in \<open>simp_all add: upd_node_def\<close>)
  then have "commit (fold (report_health node_id) (hb_deployment_health hb) s2) = Inr (open_session ?new)"
    unfolding commit_def obj using assms(3) by (simp only: if_True)
  then have "node_heartbeat cfg now node_id hb db = (Inr True, ?new)"
    unfolding node_heartbeat_def Let_def
    using assms(1,2) by (simp add: s1_def [symmetric] s2_def [symmetric])
  then show ?thesis by (rule that)
qed

section \<open>Properties\<close>

text \<open>
  C8: A heartbeat reconciles the database with the node.  After it, every server the database holds
  active on the node is one the agent reported running; the servers of other nodes keep their
  states; and the node's used RAM is the RAM of exactly those servers still active on it, plus that
  of the deployments that were active when the heartbeat arrived.
\<close>

theorem heartbeat_reconciles:
  assumes "get_node db node_id = Some node" "nd_status node \<noteq> NodeState.offline" "constraints_ok db"
  shows "\<exists>db' n'. node_heartbeat cfg now node_id hb db = (Inr True, db') \<and>
    (\<forall>r \<in> set (db_servers db'). active_on_node node_id r \<longrightarrow> srv_id r \<in> set (running_uuids hb)) \<and>
    map srv_state (filter (\<lambda>r. srv_node_id r \<noteq> Some node_id) (db_servers db')) =
      map srv_state (filter (\<lambda>r. srv_node_id r \<noteq> Some node_id) (db_servers db)) \<and>
    get_node db' node_id = Some n' \<and> nd_last_heartbeat n' = Some now \<and>
    nd_used_ram_mb n' = servers_ram cfg now db' RAM_RESERVING_STATES node_id + deployments_ram db node_id"
proof -
  obtain f where hb: "node_heartbeat cfg now node_id hb db = (Inr True, upd_node node_id
      (\<lambda>n. n\<lparr>nd_total_ram_mb := hb_total_ram_mb hb, nd_last_heartbeat := Some now,
        nd_used_ram_mb := compute_node_allocated_ram_mb cfg now
          (db\<lparr>db_servers := reconciled now node_id hb (db_servers db)\<rparr>) node_id\<rparr>)
      (db\<lparr>db_servers := reconciled now node_id hb (db_servers db),
          db_deployments := f (db_deployments db)\<rparr>))"
    using heartbeat_db [OF assms] by blast
  define db' where "db' = snd (node_heartbeat cfg now node_id hb db)"
  obtain g where g: "reconciled now node_id hb (db_servers db) = map g (db_servers db)"
    "\<And>r. srv_id (g r) = srv_id r" "\<And>r. srv_node_id (g r) = srv_node_id r"
    "\<And>r. srv_state (g r) = (if active_on_node node_id r \<and> srv_id r \<notin> set (running_uuids hb)
                           then ServerState.suspended else srv_state r)"
    using reconciled_rows [of now node_id hb "db_servers db"] by blast
  have servers: "db_servers db' = map g (db_servers db)" by (simp add: db'_def hb g(1))
  have act: "active_on_node node_id (g r) \<Longrightarrow> srv_id r \<in> set (running_uuids hb)" for r
    by (auto simp: active_on_node_def g split: if_splits)
  have others: "map srv_state (filter (\<lambda>r. srv_node_id r \<noteq> Some node_id) (map g rows)) =
      map srv_state (filter (\<lambda>r. srv_node_id r \<noteq> Some node_id) rows)" for rows
    by (induction rows) (auto simp: g active_on_node_def)
  have ram: "server_ram_mb cfg now db' = server_ram_mb cfg now (db\<lparr>db_servers := map g (db_servers db)\<rparr>)"
    by (rule ext, rule server_ram_cong) (simp_all add: db'_def hb)
  have alloc: "compute_node_allocated_ram_mb cfg now (db\<lparr>db_servers := map g (db_servers db)\<rparr>) node_id =
      servers_ram cfg now db' RAM_RESERVING_STATES node_id + deployments_ram db node_id"
    by (simp add: compute_node_allocated_ram_mb_def servers_ram_def deployments_ram_def ram servers)
  let ?n' = "node\<lparr>nd_total_ram_mb := hb_total_ram_mb hb, nd_last_heartbeat := Some now,
      nd_used_ram_mb := servers_ram cfg now db' RAM_RESERVING_STATES node_id + deployments_ram db node_id\<rparr>"
  have upd: "db_nodes db' = modify_row nd_id node_id (\<lambda>n. n\<lparr>nd_total_ram_mb := hb_total_ram_mb hb,
      nd_last_heartbeat := Some now, nd_used_ram_mb := servers_ram cfg now db' RAM_RESERVING_STATES node_id +
        deployments_ram db node_id\<rparr>) (db_nodes db)"
    unfolding alloc [symmetric] by (simp add: db'_def hb g(1))
  have node': "get_node db' node_id = Some ?n'"
    using assms(1) unfolding get_node_def upd by (simp add: get_row_modify_row)
  have res: "node_heartbeat cfg now node_id hb db = (Inr True, db')" by (simp add: db'_def hb)
  show ?thesis
    by (intro exI [of _ db'] exI [of _ ?n'] conjI res node') (use act others in \<open>auto simp: servers g(2)\<close>)
qed

theorem heartbeat_reconciles_witness:
  "\<exists>db'. node_heartbeat default_settings 7 20 \<lparr>hb_total_ram_mb = 4096, hb_running_servers = [],
      hb_deployment_health = []\<rparr> (sample_db\<lparr>db_servers := [sample_server\<lparr>srv_state := ServerState.running\<rparr>]\<rparr>) =
    (Inr True, db') \<and> (\<forall>r \<in> set (db_servers db'). \<not> active_on_node 20 r)"
proof -
  let ?db = "sample_db\<lparr>db_servers := [sample_server\<lparr>srv_state := ServerState.running\<rparr>]\<rparr>"
  have "get_node ?db 20 = Some sample_node" "nd_status sample_node \<noteq> NodeState.offline" "constraints_ok ?db"
    by (simp_all add: get_node_def sample_defs constraints_ok_def List.map_filter_def)
  from heartbeat_reconciles [OF this, of default_settings 7 "\<lparr>hb_total_ram_mb = 4096,
      hb_running_servers = [], hb_deployment_health = []\<rparr>"]
  show ?thesis by (auto simp: running_uuids_def List.map_filter_def)
qed


lemma lookup_named:
  assumes "distinct (map nd_id (db_nodes db))" "find_node_named name (open_session db) = Some node"
  shows "\<exists>s. lookup_or_register cfg now new_id name ip port (open_session db) = Inr (Some (nd_id node, s)) \<and>
    ses_committed s = db \<and> get_node (ses_objects s) (nd_id node) =
      Some (node\<lparr>nd_ip_address := ip, nd_agent_port := port\<rparr>)"
proof -
  have "node \<in> set (db_nodes db)"
    using assms by (auto simp: find_node_named_def query_nodes_flushed dest!: first_row_SomeD)
  with assms(1) have g: "get_row nd_id (nd_id node) (db_nodes db) = Some node" by (rule get_row_unique)
  have same: "nd_ip_address node = ip \<Longrightarrow> node\<lparr>nd_ip_address := ip\<rparr> = node" by simp
  show ?thesis
    using assms(2) g same
    by (auto simp: lookup_or_register_def Let_def get_node_def get_row_modify_row)
qed

text \<open>
  A client that knows only the name of a node takes it offline.  A registration with a wrong
  token is turned away, but the clean-up of the connection runs for the name it sent: the named
  node, when it hosts no running server, is committed as offline.
\<close>

theorem rejected_client_takes_node_offline:
  assumes "distinct (map nd_id (db_nodes db))" "constraints_ok db"
    and "find_node_named name (open_session db) = Some node" "\<not> hosts_running db (nd_id node)"
    and "\<not> verify_node_agent_token sha256 cfg node token" "token \<noteq> []" "name \<noteq> []"
  shows "rejected_connection sha256 halt_all cfg now new_id exports stop_deployment token client_host
      [(''type'', JStr ''register''), (''data'', JObj [(''name'', JStr name)])] db =
    upd_node (nd_id node) (\<lambda>n. n\<lparr>nd_status := NodeState.offline\<rparr>) db"
proof -
  let ?msg = "[(''type'', JStr ''register''), (''data'', JObj [(''name'', JStr name)])]"
  have data: "dict_get ?msg ''type'' = Some (JStr ''register'')" "register_data_of ?msg = Some [(''name'', JStr name)]"
    by (simp_all add: dict_get_def register_data_of_def)
  have port: "agent_port_of [(''name'', JStr name)] = Some 9000"
    by (simp add: agent_port_of_def dict_get_def)
  have nm: "dict_get [(''name'', JStr name)] ''name'' = Some (JStr name)" by (simp add: dict_get_def)
  have rej: "admit_node sha256 halt_all cfg now new_id token name ip 9000 db = (Inr (Closed 1008), db)" for ip
  proof -
    obtain s where s: "lookup_or_register cfg now new_id name ip 9000 (open_session db) = Inr (Some (nd_id node, s))"
      "ses_committed s = db" "get_node (ses_objects s) (nd_id node) =
        Some (node\<lparr>nd_ip_address := ip, nd_agent_port := 9000\<rparr>)"
      using lookup_named [OF assms(1,3)] by blast
    have "\<not> verify_node_agent_token sha256 cfg (node\<lparr>nd_ip_address := ip, nd_agent_port := 9000\<rparr>) token"
      using assms(5) by (auto simp: verify_node_agent_token_def split: if_splits option.splits)
    with s show ?thesis by (simp add: admit_node_def)
  qed
  have hs: "node_handshake sha256 halt_all cfg now new_id token client_host ?msg db =
      (Inr (Closed 1008), JStr name, db)"
    unfolding node_handshake_def data using assms(7) by (simp add: nm port rej)
  define s1 where "s1 = set_objects (upd_node (nd_id node) (\<lambda>n. n\<lparr>nd_status := NodeState.offline\<rparr>)) (open_session db)"
  have "suspend_running_servers_on_node exports stop_deployment (nd_id node) s1 = Inr ([], s1)"
    using assms(4) by (intro suspend_none) (simp add: s1_def)
  moreover have "commit s1 = Inr (open_session (upd_node (nd_id node) (\<lambda>n. n\<lparr>nd_status := NodeState.offline\<rparr>) db))"
    using assms(2) by (simp add: commit_def s1_def upd_node_def)
  ultimately have "node_cleanup exports stop_deployment (JStr name) db =
      upd_node (nd_id node) (\<lambda>n. n\<lparr>nd_status := NodeState.offline\<rparr>) db"
    using assms(3) by (simp add: node_cleanup_def s1_def [symmetric])
  then show ?thesis using assms(6) by (simp add: rejected_connection_def hs)
qed


theorem rejected_client_takes_node_offline_witness:
  "map nd_status (db_nodes (rejected_connection id (\<lambda>_ _. False) default_settings 5 99 lifecycle_manager_exports
      (\<lambda>_. None) ''guess'' None [(''type'', JStr ''register''), (''data'', JObj [(''name'', JStr ''n'')])] sample_db)) =
   [NodeState.offline]"
proof -
  have "rejected_connection id (\<lambda>_ _. False) default_settings 5 99 lifecycle_manager_exports
      (\<lambda>_. None) ''guess'' None [(''type'', JStr ''register''), (''data'', JObj [(''name'', JStr ''n'')])] sample_db =
    upd_node (nd_id sample_node) (\<lambda>n. n\<lparr>nd_status := NodeState.offline\<rparr>) sample_db"
    by (rule rejected_client_takes_node_offline)
      (simp_all add: find_node_named_def query_nodes_flushed sample_defs constraints_ok_def
        hosts_running_def verify_node_agent_token_def default_settings_def List.map_filter_def
        query_nodes_def open_session_def get_node_def)
  then show ?thesis by (simp add: sample_defs modify_row_def)
qed

end
