(* ===== verification/Ops.thy ===== *)
theory Ops
  imports Session
begin

text \<open>
  Programs over a session: what a request handler or a background pass does is a function from the
  session to a result and a session, where an exception ends the program with the session as it is.
  The second half is the calculus the proofs about such programs use: a triple with one
  postcondition for a normal end and one for an exception, and a rule for each combinator.
\<close>

section \<open>Programs\<close>

type_synonym 'a op = "session \<Rightarrow> (exn + 'a) \<times> session"

definition return_op :: "'a \<Rightarrow> 'a op" where
  "return_op a s = (Inr a, s)"

definition raise_op :: "exn \<Rightarrow> 'a op" where
  "raise_op e s = (Inl e, s)"

definition bind_op :: "'a op \<Rightarrow> ('a \<Rightarrow> 'b op) \<Rightarrow> 'b op" where
  "bind_op m k s = (case m s of (Inl e, s') \<Rightarrow> (Inl e, s') | (Inr a, s') \<Rightarrow> k a s')"

definition lift_op :: "exn + 'a \<Rightarrow> 'a op" where
  "lift_op r s = (r, s)"

definition modify_op :: "(session \<Rightarrow> session) \<Rightarrow> unit op" where
  "modify_op f s = (Inr (), f s)"

definition commit_op :: "unit op" where
  "commit_op s = (case commit s of Inl e \<Rightarrow> (Inl e, s) | Inr s' \<Rightarrow> (Inr (), s'))"

definition flush_op :: "unit op" where
  "flush_op s = (case flush s of Inl e \<Rightarrow> (Inl e, s) | Inr s' \<Rightarrow> (Inr (), s'))"

text \<open>Reading the session.\<close>

definition get_op :: "(session \<Rightarrow> 'a) \<Rightarrow> 'a op" where
  "get_op f s = (Inr (f s), s)"

text \<open>The handler of an \<open>except\<close> clause.\<close>

definition catch_op :: "'a op \<Rightarrow> (exn \<Rightarrow> 'a op) \<Rightarrow> 'a op" where
  "catch_op m h s = (case m s of (Inl e, s') \<Rightarrow> h e s' | (Inr a, s') \<Rightarrow> (Inr a, s'))"

text \<open>The server object, which its caller has loaded, and writing its attributes.\<close>

definition with_server :: "uuid \<Rightarrow> (server \<Rightarrow> 'a op) \<Rightarrow> 'a op" where
  "with_server sid k s =
     (case get_server (ses_objects s) sid of None \<Rightarrow> (Inl AttributeError, s) | Some r \<Rightarrow> k r s)"

definition set_server :: "uuid \<Rightarrow> (server \<Rightarrow> server) \<Rightarrow> unit op" where
  "set_server sid f = modify_op (set_objects (upd_server sid f))"

text \<open>The same for a deployment.\<close>

definition with_deployment :: "uuid \<Rightarrow> (deployment \<Rightarrow> 'a op) \<Rightarrow> 'a op" where
  "with_deployment i k s =
     (case get_deployment (ses_objects s) i of None \<Rightarrow> (Inl AttributeError, s) | Some r \<Rightarrow> k r s)"

definition set_deployment :: "uuid \<Rightarrow> (deployment \<Rightarrow> deployment) \<Rightarrow> unit op" where
  "set_deployment i f = modify_op (set_objects (upd_deployment i f))"

text \<open>A \<open>for\<close> loop.\<close>

primrec for_op :: "('a \<Rightarrow> unit op) \<Rightarrow> 'a list \<Rightarrow> unit op" where
  "for_op f [] = return_op ()"
| "for_op f (x # xs) = bind_op (f x) (\<lambda>_. for_op f xs)"

text \<open>A request: its result and what is committed when its session closes.\<close>

definition run_request :: "'a op \<Rightarrow> database \<Rightarrow> (exn + 'a) \<times> database" where
  "run_request m db = (let (r, s) = m (open_session db) in (r, ses_committed s))"

lemmas op_defs = return_op_def raise_op_def bind_op_def lift_op_def get_op_def modify_op_def commit_op_def
  flush_op_def catch_op_def with_server_def set_server_def

text \<open>Sequencing is associative and commutes with the branches.\<close>

lemma bind_op_assoc: "bind_op (bind_op m f) g = bind_op m (\<lambda>a. bind_op (f a) g)"
  by (rule ext) (simp add: bind_op_def split: prod.split sum.split)

lemma bind_return_op [simp]: "bind_op (return_op a) f = f a"
  by (rule ext) (simp add: bind_op_def return_op_def)

lemma bind_raise_op [simp]: "bind_op (raise_op e) f = raise_op e"
  by (rule ext) (simp add: bind_op_def raise_op_def)

text \<open>One step of a program.\<close>

lemma bind_lift_op: "bind_op (lift_op (Inr a)) f = f a" "bind_op (lift_op (Inl e)) f = raise_op e"
  by (rule ext, simp add: bind_op_def lift_op_def raise_op_def)+

lemma bind_get_op: "bind_op (get_op f) g s = g (f s) s"
  by (simp add: bind_op_def get_op_def)

lemma bind_modify_op: "bind_op (modify_op f) g s = g () (f s)"
  by (simp add: bind_op_def modify_op_def)

lemma bind_step: "m s = (Inr a, s') \<Longrightarrow> bind_op m g s = g a s'"
  by (simp add: bind_op_def)

lemmas op_steps = bind_op_assoc bind_lift_op bind_get_op bind_modify_op

lemma bind_with_server: "bind_op (with_server i k) g = with_server i (\<lambda>r. bind_op (k r) g)"
  by (rule ext) (simp add: bind_op_def with_server_def split: option.split)

lemma bind_case_sum:
  "bind_op (case x of Inl e \<Rightarrow> f e | Inr a \<Rightarrow> h a) g = (case x of Inl e \<Rightarrow> bind_op (f e) g | Inr a \<Rightarrow> bind_op (h a) g)"
  by (cases x) simp_all

section \<open>Triples\<close>

named_theorems op_rules

definition triple :: "(session \<Rightarrow> bool) \<Rightarrow> 'a op \<Rightarrow> ('a \<Rightarrow> session \<Rightarrow> bool) \<Rightarrow> (exn \<Rightarrow> session \<Rightarrow> bool) \<Rightarrow> bool" where
  "triple P m Q R \<longleftrightarrow>
     (\<forall>s. P s \<longrightarrow> (case m s of (Inl e, s') \<Rightarrow> R e s' | (Inr a, s') \<Rightarrow> Q a s'))"

text \<open>A program that keeps a property of the session on every path.\<close>

definition keeps :: "(session \<Rightarrow> bool) \<Rightarrow> 'a op \<Rightarrow> bool" where
  "keeps P m \<longleftrightarrow> triple P m (\<lambda>_. P) (\<lambda>_. P)"

lemma tripleI:
  "\<lbrakk>\<And>s a s'. P s \<Longrightarrow> m s = (Inr a, s') \<Longrightarrow> Q a s'; \<And>s e s'. P s \<Longrightarrow> m s = (Inl e, s') \<Longrightarrow> R e s'\<rbrakk> \<Longrightarrow> triple P m Q R"
  unfolding triple_def by (auto split: prod.split sum.split)

lemma triple_Inr: "triple P m Q R \<Longrightarrow> P s \<Longrightarrow> m s = (Inr a, s') \<Longrightarrow> Q a s'"
  unfolding triple_def by fastforce

lemma triple_Inl: "triple P m Q R \<Longrightarrow> P s \<Longrightarrow> m s = (Inl e, s') \<Longrightarrow> R e s'"
  unfolding triple_def by fastforce

lemma triple_weaken:
  "\<lbrakk>triple P m Q R; \<And>s. P' s \<Longrightarrow> P s; \<And>a s. Q a s \<Longrightarrow> Q' a s; \<And>e s. R e s \<Longrightarrow> R' e s\<rbrakk> \<Longrightarrow> triple P' m Q' R'"
  unfolding triple_def by (fastforce split: prod.splits sum.splits)

lemma triple_bind:
  "\<lbrakk>triple P m Q R; \<And>a. triple (Q a) (k a) Q' R\<rbrakk> \<Longrightarrow> triple P (bind_op m k) Q' R"
  unfolding triple_def bind_op_def by (fastforce split: prod.splits sum.splits)

lemma triple_catch:
  "\<lbrakk>triple P m Q R; \<And>e. triple (R e) (h e) Q R'\<rbrakk> \<Longrightarrow> triple P (catch_op m h) Q R'"
  unfolding triple_def catch_op_def by (fastforce split: prod.splits sum.splits)

lemma triple_with_server:
  "\<lbrakk>\<And>r. triple (\<lambda>s. P s \<and> get_server (ses_objects s) sid = Some r) (k r) Q R; \<And>s. P s \<Longrightarrow> R AttributeError s\<rbrakk>
   \<Longrightarrow> triple P (with_server sid k) Q R"
  unfolding triple_def with_server_def by (auto split: option.split)

lemma keeps_return [op_rules]: "keeps P (return_op a)"
  by (simp add: keeps_def triple_def return_op_def)

lemma keeps_raise [op_rules]: "keeps P (raise_op e)"
  by (simp add: keeps_def triple_def raise_op_def)

lemma keeps_lift [op_rules]: "keeps P (lift_op r)"
  by (cases r) (simp_all add: keeps_def triple_def lift_op_def)

lemma keeps_modify: "(\<And>s. P s \<Longrightarrow> P (f s)) \<Longrightarrow> keeps P (modify_op f)"
  by (simp add: keeps_def triple_def modify_op_def)

lemma keeps_bind [op_rules]: "keeps P m \<Longrightarrow> (\<And>a. keeps P (k a)) \<Longrightarrow> keeps P (bind_op m k)"
  unfolding keeps_def by (rule triple_bind)

lemma keeps_catch [op_rules]: "keeps P m \<Longrightarrow> (\<And>e. keeps P (h e)) \<Longrightarrow> keeps P (catch_op m h)"
  unfolding keeps_def by (rule triple_catch)

lemma keeps_with_server [op_rules]: "(\<And>r. keeps P (k r)) \<Longrightarrow> keeps P (with_server sid k)"
  unfolding keeps_def triple_def with_server_def by (auto split: option.split)

lemma keeps_with_deployment [op_rules]: "(\<And>r. keeps P (k r)) \<Longrightarrow> keeps P (with_deployment i k)"
  unfolding keeps_def triple_def with_deployment_def by (auto split: option.split)

lemma keeps_set_deployment: "(\<And>s. P s \<Longrightarrow> P (set_objects (upd_deployment i f) s)) \<Longrightarrow> keeps P (set_deployment i f)"
  by (simp add: keeps_def triple_def modify_op_def set_deployment_def)

lemma keeps_commit: "(\<And>s. P s \<Longrightarrow> P (open_session (ses_objects s))) \<Longrightarrow> keeps P commit_op"
  by (auto simp: keeps_def triple_def commit_op_def split: sum.split dest: commit_InrD)

lemma keeps_set_server: "(\<And>s. P s \<Longrightarrow> P (set_objects (upd_server sid f) s)) \<Longrightarrow> keeps P (set_server sid f)"
  unfolding set_server_def by (rule keeps_modify)

lemma keeps_if [op_rules]: "keeps P m \<Longrightarrow> keeps P m' \<Longrightarrow> keeps P (if b then m else m')"
  by simp

lemma keeps_get [op_rules]: "keeps P (get_op f)"
  by (simp add: keeps_def triple_def get_op_def)

lemma keeps_for [op_rules]: "(\<And>x. x \<in> set xs \<Longrightarrow> keeps P (f x)) \<Longrightarrow> keeps P (for_op f xs)"
  by (induction xs) (auto intro: keeps_return keeps_bind)

lemma triple_for:
  assumes "\<And>x. x \<in> set xs \<Longrightarrow> triple P (f x) (\<lambda>_. P) R"
  shows "triple P (for_op f xs) (\<lambda>_. P) R"
  using assms
proof (induction xs)
  case Nil
  show ?case by (simp add: triple_def return_op_def)
next
  case (Cons x xs)
  then show ?case by (auto intro!: triple_bind)
qed

text \<open>Triples of the primitive programs.\<close>

lemma triple_return: "(\<And>s. P s \<Longrightarrow> Q a s) \<Longrightarrow> triple P (return_op a) Q R"
  by (simp add: triple_def return_op_def)

lemma triple_raise: "(\<And>s. P s \<Longrightarrow> R e s) \<Longrightarrow> triple P (raise_op e) Q R"
  by (simp add: triple_def raise_op_def)

lemma triple_modify: "(\<And>s. P s \<Longrightarrow> Q () (f s)) \<Longrightarrow> triple P (modify_op f) Q R"
  by (simp add: triple_def modify_op_def)

lemma triple_get: "(\<And>s. P s \<Longrightarrow> Q (f s) s) \<Longrightarrow> triple P (get_op f) Q R"
  by (simp add: triple_def get_op_def)

lemma triple_get_bind:
  "(\<And>a. triple (\<lambda>s. P s \<and> f s = a) (k a) Q R) \<Longrightarrow> triple P (bind_op (get_op f) k) Q R"
  by (auto simp: triple_def get_op_def bind_op_def)

lemma triple_lift: "(\<And>a s. P s \<Longrightarrow> r = Inr a \<Longrightarrow> Q a s) \<Longrightarrow> (\<And>e s. P s \<Longrightarrow> r = Inl e \<Longrightarrow> R e s) \<Longrightarrow> triple P (lift_op r) Q R"
  by (cases r) (auto simp: triple_def lift_op_def)

lemma triple_commit:
  assumes "\<And>s. P s \<Longrightarrow> Q () (open_session (ses_objects s))" "\<And>s. P s \<Longrightarrow> R IntegrityError s"
  shows "triple P commit_op Q R"
  using assms by (auto simp: triple_def commit_op_def split: sum.split dest!: commit_InrD commit_InlD)

lemma triple_flush:
  assumes "\<And>s. P s \<Longrightarrow> Q () (s\<lparr>ses_flushed := ses_objects s\<rparr>)" "\<And>s. P s \<Longrightarrow> R IntegrityError s"
  shows "triple P flush_op Q R"
  using assms by (auto simp: triple_def flush_op_def flush_def split: sum.split)

lemma triple_set_server:
  "(\<And>s. P s \<Longrightarrow> Q () (set_objects (upd_server sid f) s)) \<Longrightarrow> triple P (set_server sid f) Q R"
  unfolding set_server_def by (rule triple_modify)

lemma triple_keeps: "keeps P m \<Longrightarrow> triple P m (\<lambda>_. P) (\<lambda>_. P)"
  by (simp add: keeps_def)

lemma triple_pre: "triple P m Q R \<Longrightarrow> (\<And>s. P' s \<Longrightarrow> P s) \<Longrightarrow> triple P' m Q R"
  by (rule triple_weaken)

lemma keeps_case_sum [op_rules]:
  "(\<And>e. keeps P (f e)) \<Longrightarrow> (\<And>a. keeps P (g a)) \<Longrightarrow> keeps P (case x of Inl e \<Rightarrow> f e | Inr a \<Rightarrow> g a)"
  by (cases x) simp_all

lemma keeps_case_option [op_rules]:
  "keeps P f \<Longrightarrow> (\<And>a. keeps P (g a)) \<Longrightarrow> keeps P (case x of None \<Rightarrow> f | Some a \<Rightarrow> g a)"
  by (cases x) simp_all

text \<open>A program whose steps keep what its end needs.\<close>

lemma triple_keeps_bind:
  "\<lbrakk>keeps P m; \<And>e s. P s \<Longrightarrow> R e s; \<And>a. triple P (k a) Q R\<rbrakk> \<Longrightarrow> triple P (bind_op m k) Q R"
  unfolding keeps_def by (rule triple_bind) (auto elim: triple_weaken)

lemma triple_if: "triple P m Q R \<Longrightarrow> triple P m' Q R \<Longrightarrow> triple P (if b then m else m') Q R"
  by simp

lemma triple_case_option:
  "triple P f Q R \<Longrightarrow> (\<And>a. triple P (g a) Q R) \<Longrightarrow> triple P (case x of None \<Rightarrow> f | Some a \<Rightarrow> g a) Q R"
  by (cases x) simp_all

lemmas triple_steps = triple_keeps_bind triple_if triple_case_option

lemma triple_run:
  assumes "triple P m Q R" "P (open_session db)" "run_request m db = (Inr a, db')"
  obtains s where "Q a s" "db' = ses_committed s"
proof -
  obtain r s where s: "m (open_session db) = (r, s)" by (cases "m (open_session db)") simp
  with assms(3) have "m (open_session db) = (Inr a, s)" "db' = ses_committed s"
    by (simp_all add: run_request_def)
  with that [of s] triple_Inr [OF assms(1,2)] show ?thesis by blast
qed

lemma keepsI: "(\<And>s r s'. P s \<Longrightarrow> m s = (r, s') \<Longrightarrow> P s') \<Longrightarrow> keeps P m"
  unfolding keeps_def triple_def by (fastforce split: prod.split sum.split)

lemma keepsD: "keeps P m \<Longrightarrow> P s \<Longrightarrow> m s = (r, s') \<Longrightarrow> P s'"
  unfolding keeps_def triple_def by (cases r) fastforce+

lemma keeps_run:
  assumes "keeps P m" "P (open_session db)" "run_request m db = (r, db')"
  obtains s where "P s" "db' = ses_committed s"
proof -
  obtain r' s where s: "m (open_session db) = (r', s)" by (cases "m (open_session db)") simp
  with that [of s] assms keepsD [OF assms(1,2) s] show ?thesis by (simp add: run_request_def)
qed

lemma bind_op_InrE:
  assumes "bind_op m k s = (Inr b, s')"
  obtains a s1 where "m s = (Inr a, s1)" "k a s1 = (Inr b, s')"
  using assms by (auto simp: bind_op_def split: prod.splits sum.splits)

lemma catch_raise_InrE:
  assumes "catch_op m h s = (Inr b, s')" "\<And>e t. isl (fst (h e t))"
  shows "m s = (Inr b, s')"
proof (cases "m s")
  case (Pair r t)
  show ?thesis
  proof (cases r)
    case (Inl e)
    then have "h e t = (Inr b, s')" using assms(1) Pair by (simp add: catch_op_def)
    with assms(2) [of e t] show ?thesis by simp
  next
    case (Inr a)
    then show ?thesis using assms(1) Pair by (simp add: catch_op_def)
  qed
qed

lemma with_server_InrE:
  assumes "with_server sid k s = (Inr b, s')"
  obtains r where "get_server (ses_objects s) sid = Some r" "k r s = (Inr b, s')"
  using assms by (auto simp: with_server_def split: option.splits)

end
