(* ===== verification/Versions.thy ===== *)
theory Versions
  imports Samples PyText "HOL-Library.Product_Lexorder" "HOL-Library.List_Lexorder" "HOL-Library.Char_ord"
begin

text \<open>
  Versions and flavors: the Java a Minecraft release needs and its protocol number
  (\<open>minecraft/java_compat.py\<close>), the check of a requested Bedrock version (\<open>api/servers.py\<close>), the
  choice of a version directory (\<open>runtime/bedrock_process.py\<close>) and the Modrinth profile of a flavor
  (\<open>minecraft/modrinth_compat.py\<close>).
\<close>

section \<open>Java releases\<close>

definition is_java_flavor :: "ServerFlavor \<Rightarrow> bool" where
  "is_java_flavor flavor \<longleftrightarrow> flavor \<noteq> ServerFlavor.BEDROCK"

definition is_supported_java_flavor :: "ServerFlavor \<Rightarrow> bool" where
  "is_supported_java_flavor flavor \<longleftrightarrow>
     flavor \<in> {ServerFlavor.JAVA_VANILLA, ServerFlavor.PAPER, ServerFlavor.PURPUR}"

text \<open>The digits of an all-digit part, as \<open>int\<close> reads them.\<close>

definition digits_val :: "string \<Rightarrow> nat" where
  "digits_val s = foldl (\<lambda>n c. 10 * n + (of_char c - 48)) 0 s"

definition version_parts :: "string \<Rightarrow> nat list" where
  "version_parts mc_version =
     (let parts = map digits_val (filter py_isdigit (take 3 (py_split (CHR ''.'') mc_version)))
      in parts @ replicate (3 - length parts) 0)"

definition required_java_version :: "string \<Rightarrow> nat" where
  "required_java_version mc_version =
     (let parts = version_parts mc_version; major = parts ! 0; minor = parts ! 1 in
      if major > 1 \<or> (major = 1 \<and> minor \<ge> 21) then 21
      else if major = 1 \<and> minor \<ge> 18 then 17
      else if major = 1 \<and> minor = 17 then 16
      else 8)"

definition KNOWN_PROTOCOL_VERSIONS :: "(string \<times> nat) list" where
  "KNOWN_PROTOCOL_VERSIONS =
     [(''1.18'', 757), (''1.18.1'', 757), (''1.18.2'', 758), (''1.19'', 759), (''1.19.1'', 760),
      (''1.19.2'', 760), (''1.19.3'', 761), (''1.19.4'', 762), (''1.20'', 763), (''1.20.1'', 763),
      (''1.20.2'', 764), (''1.20.3'', 765), (''1.20.4'', 765), (''1.20.5'', 766), (''1.20.6'', 766),
      (''1.21'', 767), (''1.21.1'', 767), (''1.21.2'', 768), (''1.21.3'', 768), (''1.21.4'', 769),
      (''1.21.5'', 770)]"

definition normalize_mc_version :: "string \<Rightarrow> string" where
  "normalize_mc_version mc_version = lstrip_where (\<lambda>c. c = CHR ''v'') (py_strip mc_version)"

text \<open>The text that \<open>(\d+\.\d+(?:\.\d+)?)\<close> matches at the start.\<close>

definition version_prefix :: "string \<Rightarrow> string option" where
  "version_prefix s =
     (let a = takeWhile is_digit s; r = dropWhile is_digit s in
      if a = [] \<or> r = [] \<or> hd r \<noteq> CHR ''.'' then None
      else let b = takeWhile is_digit (tl r); r2 = dropWhile is_digit (tl r) in
        if b = [] then None
        else if r2 \<noteq> [] \<and> hd r2 = CHR ''.'' \<and> takeWhile is_digit (tl r2) \<noteq> []
        then Some (a @ CHR ''.'' # b @ CHR ''.'' # takeWhile is_digit (tl r2))
        else Some (a @ CHR ''.'' # b))"

definition protocol_from_local_table :: "string \<Rightarrow> nat option" where
  "protocol_from_local_table mc_version =
     (let version = normalize_mc_version mc_version in
      case map_of KNOWN_PROTOCOL_VERSIONS version of
        Some p \<Rightarrow> Some p
      | None \<Rightarrow> Option.bind (version_prefix version) (map_of KNOWN_PROTOCOL_VERSIONS))"

text \<open>\<open>remote\<close> is what the Mojang manifest gives, \<open>None\<close> also for a failed request.\<close>

definition get_protocol_version :: "(string \<Rightarrow> nat option) \<Rightarrow> string \<Rightarrow> nat" where
  "get_protocol_version remote mc_version =
     (case protocol_from_local_table mc_version of
        Some p \<Rightarrow> p
      | None \<Rightarrow> (case remote mc_version of Some p \<Rightarrow> p | None \<Rightarrow> 765))"

section \<open>Requested versions\<close>

text \<open>\<open>^[0-9]+(?:\.[0-9]+)*$\<close> of a text without a final line break: numbers separated by dots.\<close>

definition matches_version_re :: "string \<Rightarrow> bool" where
  "matches_version_re v \<longleftrightarrow> (\<forall>p \<in> set (py_split (CHR ''.'') v). py_isdigit p)"

definition VERSION_SENTINELS :: "string list" where
  "VERSION_SENTINELS = [''LATEST'', ''PREVIEW'', ''RECOMMENDED'', ''DEFAULT'']"

definition sanitize_version :: "string option \<Rightarrow> exn + string option" where
  "sanitize_version version =
     (case version of
        None \<Rightarrow> Inr None
      | Some s \<Rightarrow>
          let v = py_strip s in
          if v = [] then Inr None
          else if py_upper v \<in> set VERSION_SENTINELS then Inr (Some v)
          else if \<not> matches_version_re v then Inl ValueError
          else Inr (Some v))"

text \<open>\<open>remote_versions\<close> is the published list, newest first.\<close>

definition normalize_requested_version :: "string list \<Rightarrow> string option \<Rightarrow> exn + string option" where
  "normalize_requested_version remote_versions requested_version =
     (case requested_version of
        None \<Rightarrow> Inr None
      | Some s \<Rightarrow>
          if py_strip s = [] then Inr None
          else (case sanitize_version (Some (py_strip s)) of
             Inl e \<Rightarrow> Inl e
           | Inr None \<Rightarrow> Inr None
           | Inr (Some rv) \<Rightarrow>
               if py_lower rv \<in> {''recommended'', ''default''} then
                 Inr (Some (case remote_versions of [] \<Rightarrow> ''1.21'' | r # _ \<Rightarrow> r))
               else Inr (Some rv)))"

section \<open>Version directories\<close>

text \<open>
  The key the candidates are sorted by: \<open>(item[0] is None, item[0] or (0, 0, 0), item[1])\<close>, compared
  as Python compares tuples.
\<close>

datatype version_key = Version_Key (vk_other: bool) (vk_release: "nat \<times> nat \<times> nat") (vk_name: string)

definition key_tuple :: "version_key \<Rightarrow> bool \<times> (nat \<times> nat \<times> nat) \<times> string" where
  "key_tuple k = (vk_other k, vk_release k, vk_name k)"

lemma key_tuple_inj: "key_tuple k = key_tuple k' \<Longrightarrow> k = k'"
  by (cases k; cases k') (simp add: key_tuple_def)

instantiation version_key :: linorder
begin

definition less_eq_version_key :: "version_key \<Rightarrow> version_key \<Rightarrow> bool" where
  "less_eq_version_key k k' \<longleftrightarrow> key_tuple k \<le> key_tuple k'"

definition less_version_key :: "version_key \<Rightarrow> version_key \<Rightarrow> bool" where
  "less_version_key k k' \<longleftrightarrow> key_tuple k < key_tuple k'"

instance
  by standard
    (auto simp: less_eq_version_key_def less_version_key_def intro: key_tuple_inj)

end

text \<open>
  The release that \<open>^(\d+)\.(\d+)\.(\d+)(?:[.-].*)?$\<close> finds in a directory name (one without line
  breaks).
\<close>

definition semver_of :: "string \<Rightarrow> (nat \<times> nat \<times> nat) option" where
  "semver_of s =
     (let a = takeWhile is_digit s; r = dropWhile is_digit s in
      if a = [] \<or> r = [] \<or> hd r \<noteq> CHR ''.'' then None
      else let b = takeWhile is_digit (tl r); r2 = dropWhile is_digit (tl r) in
        if b = [] \<or> r2 = [] \<or> hd r2 \<noteq> CHR ''.'' then None
        else let c = takeWhile is_digit (tl r2); r3 = dropWhile is_digit (tl r2) in
          if c = [] then None
          else if r3 = [] \<or> hd r3 = CHR ''.'' \<or> hd r3 = CHR ''-''
          then Some (digits_val a, digits_val b, digits_val c) else None)"

definition version_key_of :: "string \<Rightarrow> version_key" where
  "version_key_of name =
     Version_Key (semver_of name = None)
       (case semver_of name of None \<Rightarrow> (0, 0, 0) | Some v \<Rightarrow> v) name"

text \<open>\<open>dirs\<close> are the names of the directories in \<open>versions_dir\<close>.\<close>

definition resolve_version_dir :: "string list \<Rightarrow> string option \<Rightarrow> exn + string" where
  "resolve_version_dir dirs requested =
     (let latest = (if dirs = [] then Inl OSError else Inr (last (sort_key version_key_of dirs))) in
      case requested of
        None \<Rightarrow> latest
      | Some s \<Rightarrow>
          if s \<noteq> [] \<and> py_strip s \<noteq> [] \<and> py_upper (py_strip s) \<notin> {''LATEST'', ''PREVIEW''}
          then (if py_strip s \<in> set dirs then Inr (py_strip s) else Inl OSError)
          else latest)"

section \<open>Modrinth profiles\<close>

record loader_profile =
  lp_loaders :: "string list"
  lp_project_types :: "string list"
  lp_install_subdir :: string
  lp_supported :: bool
  lp_coming_soon :: bool

fun get_loader_profile :: "ServerFlavor \<Rightarrow> loader_profile" where
  "get_loader_profile FABRIC = \<lparr>lp_loaders = [''fabric''], lp_project_types = [''mod''],
     lp_install_subdir = ''mods'', lp_supported = True, lp_coming_soon = False\<rparr>"
| "get_loader_profile PAPER = \<lparr>lp_loaders = [''paper''], lp_project_types = [''plugin''],
     lp_install_subdir = ''plugins'', lp_supported = True, lp_coming_soon = False\<rparr>"
| "get_loader_profile PURPUR = \<lparr>lp_loaders = [''purpur'', ''paper''], lp_project_types = [''plugin''],
     lp_install_subdir = ''plugins'', lp_supported = True, lp_coming_soon = False\<rparr>"
| "get_loader_profile FORGE = \<lparr>lp_loaders = [''forge''], lp_project_types = [''mod''],
     lp_install_subdir = ''mods'', lp_supported = False, lp_coming_soon = True\<rparr>"
| "get_loader_profile NEOFORGE = \<lparr>lp_loaders = [''neoforge''], lp_project_types = [''mod''],
     lp_install_subdir = ''mods'', lp_supported = False, lp_coming_soon = True\<rparr>"
| "get_loader_profile JAVA_VANILLA = \<lparr>lp_loaders = [], lp_project_types = [],
     lp_install_subdir = [], lp_supported = False, lp_coming_soon = False\<rparr>"
| "get_loader_profile BEDROCK = \<lparr>lp_loaders = [], lp_project_types = [],
     lp_install_subdir = [], lp_supported = False, lp_coming_soon = False\<rparr>"

definition is_mod_capable :: "ServerFlavor \<Rightarrow> bool" where
  "is_mod_capable flavor = lp_supported (get_loader_profile flavor)"

definition get_install_subdir :: "ServerFlavor \<Rightarrow> string" where
  "get_install_subdir flavor = lp_install_subdir (get_loader_profile flavor)"

text \<open>
  Plugins and mods are never crossed: a supported flavor installs plugins in \<open>plugins\<close> and mods
  in \<open>mods\<close>, and only a Fabric server takes mods.
\<close>

lemma loader_profiles_sound:
  "is_mod_capable f \<Longrightarrow> lp_loaders (get_loader_profile f) \<noteq> [] \<and>
     (lp_project_types (get_loader_profile f) = [''plugin''] \<and> get_install_subdir f = ''plugins'' \<or>
      lp_project_types (get_loader_profile f) = [''mod''] \<and> get_install_subdir f = ''mods'' \<and> f = FABRIC)"
  by (cases f) (simp_all add: is_mod_capable_def get_install_subdir_def)

section \<open>Lemmas\<close>

lemma last_sort_key:
  fixes f :: "'a \<Rightarrow> 'b::linorder"
  assumes "xs \<noteq> []"
  shows "last (sort_key f xs) \<in> set xs" "\<forall>x \<in> set xs. f x \<le> f (last (sort_key f xs))"
proof -
  let ?ys = "sort_key f xs"
  have "length ?ys = length xs" by simp
  with assms have ne: "?ys \<noteq> []" by (metis length_0_conv)
  show "last ?ys \<in> set xs" using last_in_set [OF ne] by simp
  have s: "sorted (map f ?ys)" by (rule sorted_sort_key)
  obtain zs where zs: "?ys = zs @ [last ?ys]" using ne by (metis append_butlast_last_id)
  have "sorted (map f zs @ [f (last ?ys)])" using s zs by (metis list.simps(8,9) map_append)
  then have "\<forall>x \<in> set zs. f x \<le> f (last ?ys)" by (simp add: sorted_append)
  moreover have "set xs = insert (last ?ys) (set zs)"
    using arg_cong [OF zs, of set] by simp
  ultimately show "\<forall>x \<in> set xs. f x \<le> f (last ?ys)" by simp
qed

lemma version_key_le:
  "version_key_of a \<le> version_key_of b \<longleftrightarrow>
     (case (semver_of a, semver_of b) of
        (None, None) \<Rightarrow> a \<le> b
      | (None, Some _) \<Rightarrow> False
      | (Some _, None) \<Rightarrow> True
      | (Some v, Some w) \<Rightarrow> v < w \<or> v = w \<and> a \<le> b)"
  by (auto simp: less_eq_version_key_def key_tuple_def version_key_of_def split: option.split)

lemma py_strip_chars: "set (py_strip s) \<subseteq> set s"
  by (auto simp: py_strip_def rstrip_where_def lstrip_where_def dest!: set_dropWhileD)

lemma py_split_chars: "x \<in> set s \<Longrightarrow> x = c \<or> (\<exists>p \<in> set (py_split c s). x \<in> set p)"
proof (induction s)
  case Nil
  then show ?case by simp
next
  case (Cons y ys)
  obtain p ps where "py_split c ys = p # ps" by (cases "py_split c ys") auto
  with Cons show ?case by auto
qed

lemma matches_version_chars: "matches_version_re t \<Longrightarrow> x \<in> set t \<Longrightarrow> is_digit x \<or> x = CHR ''.''"
  using py_split_chars [of x t "CHR ''.''"] unfolding matches_version_re_def py_isdigit_def by blast

definition is_letter :: "char \<Rightarrow> bool" where
  "is_letter c \<longleftrightarrow> (let n = of_char c :: nat in 65 \<le> n \<and> n \<le> 90 \<or> 97 \<le> n \<and> n \<le> 122)"

lemma upper_char_letter: "is_letter (upper_char c) \<Longrightarrow> is_letter c"
  by (cases "is_letter c") (simp_all add: is_letter_def upper_char_def Let_def split: if_splits)

lemma sentinel_letters: "v \<in> set VERSION_SENTINELS \<Longrightarrow> c \<in> set v \<Longrightarrow> is_letter c"
  by (auto simp: VERSION_SENTINELS_def is_letter_def)

lemma version_text:
  assumes "ns \<noteq> []"
  shows "py_strip (py_join (CHR ''.'') (map nat_to_str ns)) = py_join (CHR ''.'') (map nat_to_str ns)"
    "matches_version_re (py_join (CHR ''.'') (map nat_to_str ns))"
    "py_join (CHR ''.'') (map nat_to_str ns) \<noteq> []"
proof -
  let ?v = "py_join (CHR ''.'') (map nat_to_str ns)"
  have digits: "\<forall>p \<in> set (map nat_to_str ns). p \<noteq> [] \<and> (\<forall>c \<in> set p. is_digit c)"
    using nat_to_str_digits by simp
  have "\<not> is_digit (CHR ''.'')" by (simp add: is_digit_def)
  then have "\<forall>p \<in> set (map nat_to_str ns). CHR ''.'' \<notin> set p" using digits by blast
  then have split: "py_split (CHR ''.'') ?v = map nat_to_str ns"
    using assms by (intro py_split_join) simp_all
  show re: "matches_version_re ?v"
    unfolding matches_version_re_def split using digits by (simp add: py_isdigit_def)
  show "?v \<noteq> []"
  proof
    assume "?v = []"
    then have "py_split (CHR ''.'') ?v = [[]]" by simp
    then have "[] \<in> set (map nat_to_str ns)" unfolding split by simp
    with digits show False by blast
  qed
  have "\<forall>c \<in> set ?v. is_digit c \<or> c = CHR ''.''" using matches_version_chars [OF re] by blast
  moreover have "\<not> is_space (CHR ''.'')" by (simp add: is_space_def)
  ultimately have "\<forall>c \<in> set ?v. \<not> is_space c" using is_digit_not_space by blast
  then show "py_strip ?v = ?v" by (rule py_strip_none)
qed

section \<open>Properties\<close>

text \<open>
  A sanitised version is inert text: it consists of ASCII digits and dots, or of ASCII letters
  alone (one of the four keywords, in any case), so no quoting, path separator or shell character
  survives; and a version of digits and dots, with every part non-empty, is accepted unchanged.
\<close>

theorem sanitize_version_inert:
  "(case sanitize_version v of
      Inr (Some s) \<Rightarrow> s \<noteq> [] \<and> ((\<forall>c \<in> set s. is_digit c \<or> c = CHR ''.'') \<or> (\<forall>c \<in> set s. is_letter c))
    | Inr None \<Rightarrow> v = None \<or> (\<exists>s. v = Some s \<and> py_strip s = [])
    | Inl e \<Rightarrow> e = ValueError) \<and>
   (\<forall>ns. ns \<noteq> [] \<longrightarrow> sanitize_version (Some (py_join (CHR ''.'') (map nat_to_str ns))) =
      Inr (Some (py_join (CHR ''.'') (map nat_to_str ns))))"
proof
  show "case sanitize_version v of
      Inr (Some s) \<Rightarrow> s \<noteq> [] \<and> ((\<forall>c \<in> set s. is_digit c \<or> c = CHR ''.'') \<or> (\<forall>c \<in> set s. is_letter c))
    | Inr None \<Rightarrow> v = None \<or> (\<exists>s. v = Some s \<and> py_strip s = [])
    | Inl e \<Rightarrow> e = ValueError"
  proof (cases v)
    case None
    then show ?thesis by (simp add: sanitize_version_def)
  next
    case (Some s)
    have re: "\<forall>c \<in> set t. is_digit c \<or> c = CHR ''.''" if "matches_version_re t" for t
      using matches_version_chars [OF that] by blast
    have kw: "\<forall>c \<in> set t. is_letter c" if "py_upper t \<in> set VERSION_SENTINELS" for t
      using sentinel_letters [OF that] upper_char_letter by (auto simp: py_upper_def)
    show ?thesis using re kw Some by (simp add: sanitize_version_def Let_def)
  qed
next
  show "\<forall>ns. ns \<noteq> [] \<longrightarrow> sanitize_version (Some (py_join (CHR ''.'') (map nat_to_str ns))) =
      Inr (Some (py_join (CHR ''.'') (map nat_to_str ns)))"
    using version_text by (simp add: sanitize_version_def Let_def)
qed

text \<open>
  Without a concrete request the directory chosen is the last by release number, but only when
  every directory is named like a release: any other directory counts as newer than every release,
  although the code calls its order a fallback.
\<close>

theorem latest_version_choice:
  assumes "dirs \<noteq> []"
  shows "\<exists>d \<in> set dirs. resolve_version_dir dirs None = Inr d \<and>
    ((\<forall>e \<in> set dirs. semver_of e \<noteq> None) \<longrightarrow> (\<forall>e \<in> set dirs. the (semver_of e) \<le> the (semver_of d))) \<and>
    ((\<exists>e \<in> set dirs. semver_of e = None) \<longrightarrow> semver_of d = None)"
proof -
  let ?d = "last (sort_key version_key_of dirs)"
  have mem: "?d \<in> set dirs" and le: "\<forall>e \<in> set dirs. version_key_of e \<le> version_key_of ?d"
    using last_sort_key [OF assms, of version_key_of] by blast+
  have "resolve_version_dir dirs None = Inr ?d" using assms by (simp add: resolve_version_dir_def)
  moreover have "the (semver_of e) \<le> the (semver_of ?d)"
    if "\<forall>e \<in> set dirs. semver_of e \<noteq> None" "e \<in> set dirs" for e
  proof -
    have "semver_of e \<noteq> None" "semver_of ?d \<noteq> None" using that mem by blast+
    then obtain v w where "semver_of e = Some v" "semver_of ?d = Some w" by blast
    with le that(2) version_key_le [of e ?d] show ?thesis by auto
  qed
  moreover have "semver_of ?d = None" if "e \<in> set dirs" "semver_of e = None" for e
    using le that version_key_le [of e ?d] by (auto split: option.splits)
  ultimately show ?thesis using mem by blast
qed

theorem sanitize_version_inert_witness:
  "sanitize_version (Some (py_join (CHR ''.'') (map nat_to_str [1, 21, 0]))) =
     Inr (Some (py_join (CHR ''.'') (map nat_to_str [1, 21, 0])))"
  using sanitize_version_inert [of None] by blast

theorem latest_version_choice_witness:
  "resolve_version_dir [''1.21.0.3'', ''backup'', ''1.9.7''] None = Inr ''backup''"
proof -
  have s: "semver_of ''1.21.0.3'' = Some (1, 21, 0)" "semver_of ''backup'' = None" "semver_of ''1.9.7'' = Some (1, 9, 7)"
    by (simp_all add: semver_of_def is_digit_def digits_val_def)
  have "[''1.21.0.3'', ''backup'', ''1.9.7''] \<noteq> []" by simp
  from latest_version_choice [OF this] s show ?thesis by auto
qed

end
