(* ===== verification/Lifecycle.thy ===== *)
theory Lifecycle
  imports Ops Node_Capacity Ports Billing Versions
begin

text \<open>
  The life of a server: starting (\<open>_do_start_server\<close> in \<open>api/servers.py\<close> over \<open>start_server\<close> of
  \<open>orchestrator/server_lifecycle.py\<close>), stopping, toggling and deleting.  The operations are programs over a session that may raise; when a request
  ends, what its session has committed stays.  The runtime (systemd or a remote agent), the sockets,
  the cloud and the file system are parameters, collected in \<open>start_env\<close>.
\<close>

section \<open>The runtime\<close>

record start_request =
  req_server_id :: uuid
  req_port :: int
  req_requested_version :: string
  req_ram_mb :: int
  req_cpu_quota_pct :: int
  req_storage_mb :: int
  req_flavor :: ServerFlavor
  req_jar_download_url :: "string option"
  req_jdk_path :: "string option"

record start_result =
  res_runtime_id :: string
  res_actual_version :: "string option"
  res_port :: int

record start_env =
  env_now :: instant
  env_net :: socket_api
  env_cloud_start :: "node \<Rightarrow> bool"
  env_server_dir :: "uuid \<Rightarrow> string"
  env_dir_inside_root :: "string \<Rightarrow> bool"
  env_resolve_jar_url :: "ServerFlavor \<Rightarrow> string \<Rightarrow> exn + string"
  env_resolve_jdk_path :: "server \<Rightarrow> exn + string option"
  env_runtime_start :: "start_request \<Rightarrow> exn + start_result"
  env_runtime_stop :: "uuid \<Rightarrow> exn + unit"
  env_runtime_running :: "uuid \<Rightarrow> bool"
  env_remote_versions :: "string list"

definition json_str :: "json option \<Rightarrow> string" where
  "json_str v = (case v of Some (JStr s) \<Rightarrow> s | _ \<Rightarrow> [])"

definition requested_version_of :: "server \<Rightarrow> string" where
  "requested_version_of server =
     (let v = (if is_java_flavor (srv_flavor server)
               then (case srv_mc_version server of None \<Rightarrow> [] | Some s \<Rightarrow> s)
               else json_str (dict_get (srv_mc_config server) ''template_version''))
      in if v \<noteq> [] then v
         else if is_java_flavor (srv_flavor server) then ''1.21.4'' else ''recommended'')"

text \<open>The attributes after a successful start.\<close>

definition apply_start_result :: "settings \<Rightarrow> start_result \<Rightarrow> server \<Rightarrow> server" where
  "apply_start_result cfg res server =
     (let requested = json_str (dict_get (srv_mc_config server) ''template_version'');
          server = (case res_actual_version res of
              Some v \<Rightarrow>
                if \<not> is_java_flavor (srv_flavor server) \<and> v \<noteq> [] \<and> requested \<noteq> [] \<and> v \<noteq> requested
                then server\<lparr>srv_mc_config := dict_set ''template_version'' (JStr v) (srv_mc_config server)\<rparr>
                else server
            | None \<Rightarrow> server)
      in server\<lparr>srv_vm_id := Some (res_runtime_id res),
           srv_vm_ipv4 := (case (srv_node_id server, srv_vm_ipv4 server) of
               (Some _, Some ip) \<Rightarrow> if ip \<noteq> [] then Some ip else Some (cfg_minecraft_public_host cfg)
             | _ \<Rightarrow> Some (cfg_minecraft_public_host cfg)),
           srv_vm_port := res_port res, srv_state := ServerState.running\<rparr>)"

text \<open>\<open>ServerLifecycleOrchestrator.start_server\<close>; the queries of the guard see what is flushed.\<close>

definition jar_url_for :: "start_env \<Rightarrow> server \<Rightarrow> exn + string option" where
  "jar_url_for env server =
     (if is_java_flavor (srv_flavor server)
      then map_sum id Some (env_resolve_jar_url env (srv_flavor server) (requested_version_of server))
      else Inr None)"

definition start_request_for :: "uuid \<Rightarrow> server \<Rightarrow> limits \<Rightarrow> string option \<Rightarrow> string option \<Rightarrow> start_request" where
  "start_request_for sid server lim jar_url jdk =
     \<lparr>req_server_id = sid, req_port = srv_vm_port server,
      req_requested_version = requested_version_of server, req_ram_mb = lim_ram_mb lim,
      req_cpu_quota_pct = lim_cpu_quota_pct lim, req_storage_mb = lim_storage_mb lim,
      req_flavor = srv_flavor server, req_jar_download_url = jar_url, req_jdk_path = jdk\<rparr>"

definition require_op :: "bool \<Rightarrow> exn \<Rightarrow> unit op" where
  "require_op b e = (if b then return_op () else raise_op e)"

definition orchestrator_start :: "settings \<Rightarrow> start_env \<Rightarrow> uuid \<Rightarrow> unit op" where
  "orchestrator_start cfg env sid = with_server sid (\<lambda>server.
     bind_op (get_op ses_flushed) (\<lambda>db.
     bind_op (lift_op (ensure_active_subscription_for_start cfg (env_now env) db server)) (\<lambda>_.
     bind_op (require_op (srv_vm_port server \<noteq> 0) RuntimeError) (\<lambda>_.
     bind_op (require_op (json_str (dict_get (srv_mc_config server) ''server_dir'') \<noteq> []) RuntimeError) (\<lambda>_.
     bind_op (require_op (env_dir_inside_root env
         (json_str (dict_get (srv_mc_config server) ''server_dir''))) ValueError) (\<lambda>_.
     bind_op (lift_op (jar_url_for env server)) (\<lambda>jar_url.
     bind_op (lift_op (env_resolve_jdk_path env server)) (\<lambda>jdk.
     bind_op (lift_op (env_runtime_start env (start_request_for sid server
         (get_effective_server_resource_limits cfg (env_now env) (Some db) server) jar_url jdk))) (\<lambda>res.
     set_server sid (apply_start_result cfg res))))))))))"

definition orchestrator_stop :: "start_env \<Rightarrow> uuid \<Rightarrow> unit op" where
  "orchestrator_stop env sid =
     bind_op (lift_op (env_runtime_stop env sid)) (\<lambda>_. set_server sid suspend_server)"

section \<open>Starting a server\<close>

definition is_billing_error :: "exn \<Rightarrow> bool" where
  "is_billing_error e \<longleftrightarrow> (case e of BillingError _ \<Rightarrow> True | _ \<Rightarrow> False)"

text \<open>The subscription is checked first; the state set on refusal is only in memory.\<close>

definition check_subscription :: "settings \<Rightarrow> start_env \<Rightarrow> uuid \<Rightarrow> unit op" where
  "check_subscription cfg env sid = with_server sid (\<lambda>server.
     bind_op (get_op (\<lambda>s. ensure_active_subscription_for_start cfg (env_now env) (ses_flushed s) server)) (\<lambda>r.
     case r of
       Inl e \<Rightarrow> bind_op (set_server sid suspend_server) (\<lambda>_. raise_op (HTTPException 402))
     | Inr _ \<Rightarrow> return_op ()))"

definition required_ram :: "settings \<Rightarrow> start_env \<Rightarrow> server \<Rightarrow> session \<Rightarrow> int" where
  "required_ram cfg env server s = server_ram_mb cfg (env_now env) (ses_flushed s) server"

text \<open>Whether the node the server is on is dead or too full.\<close>

definition node_unusable :: "settings \<Rightarrow> start_env \<Rightarrow> server \<Rightarrow> uuid \<Rightarrow> session \<Rightarrow> bool" where
  "node_unusable cfg env server node_id s =
     (case get_node (ses_objects s) node_id of
        None \<Rightarrow> True
      | Some node \<Rightarrow>
          nd_status node \<in> {NodeState.offline, NodeState.starting} \<or>
          nd_total_ram_mb node - compute_node_allocated_ram_mb cfg (env_now env) (ses_flushed s) node_id
            < required_ram cfg env server s)"

text \<open>Leaving such a node; the result is whether a node has to be found.\<close>

definition detach_server :: "settings \<Rightarrow> start_env \<Rightarrow> uuid \<Rightarrow> bool op" where
  "detach_server cfg env sid = with_server sid (\<lambda>server.
     case srv_node_id server of
       None \<Rightarrow> return_op True
     | Some node_id \<Rightarrow>
         bind_op (get_op (node_unusable cfg env server node_id)) (\<lambda>unusable.
         if unusable then
           bind_op (set_server sid (\<lambda>r. r\<lparr>srv_node_id := None, srv_vm_ipv4 := None\<rparr>)) (\<lambda>_.
           bind_op commit_op (\<lambda>_. return_op True))
         else return_op False))"

definition move_to_node :: "int \<Rightarrow> node \<Rightarrow> server \<Rightarrow> server" where
  "move_to_node new_port new_node r =
     r\<lparr>srv_vm_port := new_port, srv_node_id := Some (nd_id new_node),
       srv_vm_ipv4 := Some (nd_ip_address new_node), srv_state := ServerState.provisioning\<rparr>"

text \<open>Waking a node, whose result only selects the text of the 503.\<close>

definition wake_node :: "start_env \<Rightarrow> unit op" where
  "wake_node env = modify_op (\<lambda>s. snd (auto_wakeup_offline_node (env_cloud_start env) (env_now env) s))"

definition assign_node :: "settings \<Rightarrow> start_env \<Rightarrow> uuid \<Rightarrow> unit op" where
  "assign_node cfg env sid = with_server sid (\<lambda>server.
     bind_op (get_op (\<lambda>s. select_best_node cfg (env_now env) (ses_flushed s) (required_ram cfg env server s)
         NodeTier.shared)) (\<lambda>found.
     case found of
       Some new_node \<Rightarrow>
         bind_op (get_op (\<lambda>s. allocate_port (env_net env) cfg (ses_flushed s) (srv_flavor server)
             (Some (nd_id new_node)))) (\<lambda>port.
         case port of
           Inl e \<Rightarrow> raise_op (HTTPException 503)
         | Inr new_port \<Rightarrow>
             bind_op (set_server sid (move_to_node new_port new_node)) (\<lambda>_.
             bind_op (modify_op (refresh_node_allocated_ram cfg (env_now env) (nd_id new_node))) (\<lambda>_.
             commit_op)))
     | None \<Rightarrow>
         if cfg_production_mode cfg
         then bind_op (wake_node env) (\<lambda>_. raise_op (HTTPException 503))
         else return_op ()))"

definition allocate_missing_port :: "settings \<Rightarrow> start_env \<Rightarrow> ServerFlavor \<Rightarrow> uuid \<Rightarrow> unit op" where
  "allocate_missing_port cfg env flavor sid = with_server sid (\<lambda>server.
     if srv_vm_port server \<noteq> 0 then return_op ()
     else bind_op (get_op (\<lambda>s. allocate_port (env_net env) cfg (ses_flushed s) flavor (srv_node_id server))) (\<lambda>port.
       case port of
         Inl e \<Rightarrow> raise_op (HTTPException 503)
       | Inr p \<Rightarrow> set_server sid (\<lambda>r. r\<lparr>srv_vm_port := p\<rparr>)))"

definition prepare_java_server_for_start :: "settings \<Rightarrow> start_env \<Rightarrow> uuid \<Rightarrow> unit op" where
  "prepare_java_server_for_start cfg env sid = with_server sid (\<lambda>server.
     if srv_state server = ServerState.provisioning then raise_op (HTTPException 409)
     else bind_op (allocate_missing_port cfg env (srv_flavor server) sid) (\<lambda>_.
       bind_op (set_server sid (\<lambda>r. r\<lparr>srv_mc_config :=
           dict_set ''server_dir'' (JStr (env_server_dir env sid))
             (dict_set ''runtime_mode'' (JStr ''process'') (srv_mc_config r))\<rparr>)) (\<lambda>_. commit_op)))"

definition prepare_bedrock_server_for_start :: "settings \<Rightarrow> start_env \<Rightarrow> uuid \<Rightarrow> unit op" where
  "prepare_bedrock_server_for_start cfg env sid =
     bind_op (allocate_missing_port cfg env ServerFlavor.BEDROCK sid) (\<lambda>_. with_server sid (\<lambda>server.
       bind_op (lift_op (normalize_requested_version (env_remote_versions env)
           (case dict_get (srv_mc_config server) ''bedrock_version'' of Some (JStr v) \<Rightarrow> Some v | _ \<Rightarrow> None)))
         (\<lambda>requested.
       bind_op (set_server sid (\<lambda>r. r\<lparr>srv_mc_config :=
           dict_set ''server_dir'' (JStr (env_server_dir env sid))
             (dict_set ''template_version''
               (JStr (case requested of Some v \<Rightarrow> if v \<noteq> [] then v else ''latest'' | None \<Rightarrow> ''latest''))
               (dict_set ''runtime_mode'' (JStr ''process'') (srv_mc_config r)))\<rparr>)) (\<lambda>_. commit_op))))"

text \<open>Any error of the preparation other than an HTTP one becomes a 503.\<close>

definition prepare_error :: "exn \<Rightarrow> exn" where
  "prepare_error e = (case e of HTTPException c \<Rightarrow> HTTPException c | _ \<Rightarrow> HTTPException 503)"

definition prepare_for_start :: "settings \<Rightarrow> start_env \<Rightarrow> uuid \<Rightarrow> unit op" where
  "prepare_for_start cfg env sid = with_server sid (\<lambda>server.
     catch_op
       (if is_java_flavor (srv_flavor server) then prepare_java_server_for_start cfg env sid
        else bind_op (set_server sid (\<lambda>r. r\<lparr>srv_vm_provider := VMProvider.local_bedrock\<rparr>))
               (\<lambda>_. prepare_bedrock_server_for_start cfg env sid))
       (\<lambda>e. raise_op (prepare_error e)))"

definition start_process :: "settings \<Rightarrow> start_env \<Rightarrow> uuid \<Rightarrow> unit op" where
  "start_process cfg env sid =
     catch_op (orchestrator_start cfg env sid)
       (\<lambda>e. bind_op (set_server sid suspend_server)
              (\<lambda>_. raise_op (HTTPException (if is_billing_error e then 402 else 503))))"

definition do_start_server :: "settings \<Rightarrow> start_env \<Rightarrow> uuid \<Rightarrow> unit op" where
  "do_start_server cfg env sid =
     bind_op (check_subscription cfg env sid) (\<lambda>_.
     bind_op (detach_server cfg env sid) (\<lambda>needs_node_assignment.
     bind_op (if needs_node_assignment then assign_node cfg env sid else return_op ()) (\<lambda>_.
     bind_op (prepare_for_start cfg env sid) (\<lambda>_.
     bind_op (set_server sid (\<lambda>r. r\<lparr>srv_last_activity := env_now env\<rparr>)) (\<lambda>_.
     bind_op commit_op (\<lambda>_. start_process cfg env sid))))))"

section \<open>The endpoints\<close>

definition refresh_and_commit :: "settings \<Rightarrow> start_env \<Rightarrow> uuid option \<Rightarrow> unit op" where
  "refresh_and_commit cfg env node_id =
     (case node_id of
        None \<Rightarrow> return_op ()
      | Some i \<Rightarrow> bind_op (modify_op (refresh_node_allocated_ram cfg (env_now env) i)) (\<lambda>_. commit_op))"

definition is_actually_running :: "start_env \<Rightarrow> server \<Rightarrow> bool" where
  "is_actually_running env server \<longleftrightarrow>
     srv_state server = ServerState.running \<and> env_runtime_running env (srv_id server)"

definition start_guarded :: "settings \<Rightarrow> start_env \<Rightarrow> uuid \<Rightarrow> unit op" where
  "start_guarded cfg env sid =
     catch_op (do_start_server cfg env sid)
       (\<lambda>e. if e = IntegrityError then bind_op (modify_op rollback) (\<lambda>_. raise_op (HTTPException 409))
            else raise_op e)"

definition start_endpoint :: "settings \<Rightarrow> start_env \<Rightarrow> uuid \<Rightarrow> unit op" where
  "start_endpoint cfg env sid = with_server sid (\<lambda>server.
     if is_actually_running env server then return_op ()
     else bind_op (start_guarded cfg env sid) (\<lambda>_. bind_op commit_op (\<lambda>_.
       with_server sid (\<lambda>server. refresh_and_commit cfg env (srv_node_id server)))))"

definition stop_endpoint :: "settings \<Rightarrow> start_env \<Rightarrow> uuid \<Rightarrow> unit op" where
  "stop_endpoint cfg env sid =
     bind_op (orchestrator_stop env sid) (\<lambda>_. bind_op commit_op (\<lambda>_.
       with_server sid (\<lambda>server. refresh_and_commit cfg env (srv_node_id server))))"

definition toggle_endpoint :: "settings \<Rightarrow> start_env \<Rightarrow> uuid \<Rightarrow> unit op" where
  "toggle_endpoint cfg env sid = with_server sid (\<lambda>server.
     bind_op (if is_actually_running env server then orchestrator_stop env sid
              else start_guarded cfg env sid) (\<lambda>_. commit_op))"

text \<open>
  Rows of other tables that refer to the server by a foreign key and are not deleted with it (its
  bans and collaborators are).  SQLite, as the engine is configured, does not enforce foreign keys;
  PostgreSQL does.
\<close>

definition server_references :: "database \<Rightarrow> uuid \<Rightarrow> bool" where
  "server_references db sid \<longleftrightarrow>
     (\<exists>s \<in> set (db_subscriptions db). sub_server_id s = Some sid) \<or>
     (\<exists>t \<in> set (db_transactions db). tx_server_id t = Some sid) \<or>
     (\<exists>a \<in> set (db_audit_logs db). aud_server_id a = Some sid) \<or>
     (\<exists>b \<in> set (db_backups db). bk_server_id b = sid) \<or>
     (\<exists>j \<in> set (db_backup_jobs db). bj_server_id j = sid) \<or>
     (\<exists>j \<in> set (db_restore_jobs db). rj_server_id j = sid) \<or>
     (\<exists>c \<in> set (db_backup_schedules db). sch_server_id c = sid)"

definition foreign_keys_enforced :: "settings \<Rightarrow> bool" where
  "foreign_keys_enforced cfg \<longleftrightarrow> \<not> py_startswith (cfg_database_url cfg) ''sqlite''"

definition remove_server :: "settings \<Rightarrow> uuid \<Rightarrow> unit op" where
  "remove_server cfg sid =
     bind_op (get_op (\<lambda>s. foreign_keys_enforced cfg \<and> server_references (ses_objects s) sid)) (\<lambda>blocked.
     bind_op (require_op (\<not> blocked) IntegrityError) (\<lambda>_.
     bind_op (modify_op (set_objects (\<lambda>db. db\<lparr>db_servers := delete_row srv_id sid (db_servers db),
         db_bans := filter (\<lambda>b. ban_server_id b \<noteq> sid) (db_bans db),
         db_collaborators := filter (\<lambda>c. col_server_id c \<noteq> sid) (db_collaborators db)\<rparr>))) (\<lambda>_.
     commit_op)))"

text \<open>The first result is the node that was told to purge the server's files.\<close>

definition delete_endpoint :: "settings \<Rightarrow> start_env \<Rightarrow> uuid \<Rightarrow> session \<Rightarrow> uuid option \<times> (exn + unit) \<times> session" where
  "delete_endpoint cfg env sid s =
     (case get_server (ses_objects s) sid of
        None \<Rightarrow> (None, Inl AttributeError, s)
      | Some server \<Rightarrow>
          let (_, s1) = (if srv_state server = ServerState.running
                then catch_op (orchestrator_stop env sid) (\<lambda>_. return_op ()) s else (Inr (), s));
              purged = Option.bind (srv_node_id server) (\<lambda>i. Option.bind (get_node (ses_objects s1) i)
                (\<lambda>n. if nd_ip_address n \<noteq> [] then Some i else None))
          in (purged, bind_op (remove_server cfg sid)
                (\<lambda>_. refresh_and_commit cfg env (srv_node_id server)) s1))"

section \<open>Lemmas\<close>

lemma keeps_require [op_rules]: "keeps P (require_op b e)"
  unfolding require_op_def by (intro op_rules)

text \<open>The tables that decide what a server may use do not change while it is started.\<close>

definition billing_tables :: "subscription list \<Rightarrow> plan list \<Rightarrow> session \<Rightarrow> bool" where
  "billing_tables subs plans s \<longleftrightarrow>
     db_subscriptions (ses_committed s) = subs \<and> db_plans (ses_committed s) = plans \<and>
     db_subscriptions (ses_flushed s) = subs \<and> db_plans (ses_flushed s) = plans \<and>
     db_subscriptions (ses_objects s) = subs \<and> db_plans (ses_objects s) = plans"

lemma wakeup_cases:
  "snd (auto_wakeup_offline_node cloud now s) = s \<or>
   (\<exists>i f. snd (auto_wakeup_offline_node cloud now s) = set_objects (upd_node i f) s) \<or>
   (\<exists>i f. snd (auto_wakeup_offline_node cloud now s) = open_session (upd_node i f (ses_objects s)))"
  unfolding auto_wakeup_offline_node_def Let_def
  by (fastforce split: option.split sum.split dest: commit_InrD)

lemma billing_tables_ops [op_rules]:
  "keeps (billing_tables subs plans) commit_op"
  "keeps (billing_tables subs plans) (set_server sid f)"
  "keeps (billing_tables subs plans) (modify_op (refresh_node_allocated_ram cfg now i))"
  "keeps (billing_tables subs plans) (modify_op rollback)"
  by (auto intro!: keeps_commit keeps_set_server keeps_modify
      simp: billing_tables_def refresh_node_allocated_ram_def rollback_def split: option.split)

lemma billing_tables_wake [op_rules]: "keeps (billing_tables subs plans) (wake_node env)"
  unfolding wake_node_def
proof (rule keeps_modify)
  fix s assume "billing_tables subs plans s"
  with wakeup_cases [of "env_cloud_start env" "env_now env" s]
  show "billing_tables subs plans (snd (auto_wakeup_offline_node (env_cloud_start env) (env_now env) s))"
    by (auto simp: billing_tables_def)
qed

lemma billing_tables_start:
  "keeps (billing_tables subs plans) (check_subscription cfg env sid)"
  "keeps (billing_tables subs plans) (detach_server cfg env sid)"
  "keeps (billing_tables subs plans) (assign_node cfg env sid)"
  "keeps (billing_tables subs plans) (prepare_for_start cfg env sid)"
  "keeps (billing_tables subs plans) (orchestrator_start cfg env sid)"
  unfolding check_subscription_def detach_server_def assign_node_def prepare_for_start_def
    prepare_java_server_for_start_def prepare_bedrock_server_for_start_def allocate_missing_port_def
    orchestrator_start_def
  by (intro op_rules)+

lemma InrD_start_process:
  assumes "start_process cfg env sid s = (Inr (), s')"
  shows "orchestrator_start cfg env sid s = (Inr (), s')"
  using assms unfolding start_process_def
  by (rule catch_raise_InrE) (simp add: op_defs)

lemma orchestrator_start_InrE:
  assumes "orchestrator_start cfg env sid s = (Inr (), s')"
  obtains server jar jdk res where "get_server (ses_objects s) sid = Some server"
    "ensure_active_subscription_for_start cfg (env_now env) (ses_flushed s) server = Inr ()"
    "env_runtime_start env (start_request_for sid server
       (get_effective_server_resource_limits cfg (env_now env) (Some (ses_flushed s)) server) jar jdk) = Inr res"
    "s' = set_objects (upd_server sid (apply_start_result cfg res)) s"
  using assms unfolding orchestrator_start_def
  by (elim with_server_InrE bind_op_InrE)
    (auto simp: op_defs require_op_def split: if_splits)

lemma ensure_start_InrD:
  assumes "ensure_active_subscription_for_start cfg now db server = Inr ()"
  obtains s p where "active_subscription_for_server cfg now db (srv_id server) = Some s"
    "get_plan db (sub_plan_id s) = Some p" "0 < bp_ram_mb p"
    "\<forall>t \<in> set (db_subscriptions db). sub_server_id t = Some (srv_id server) \<longrightarrow>
       sub_status t \<noteq> BillingSubscriptionStatus.suspended"
proof -
  have ok: "ensure_server_not_billing_suspended db server = Inr ()"
    using assms by (auto simp: ensure_active_subscription_for_start_def split: sum.splits)
  have "\<forall>t \<in> set (db_subscriptions db). sub_server_id t = Some (srv_id server) \<longrightarrow>
       sub_status t \<noteq> BillingSubscriptionStatus.suspended"
    using suspended_blocks_start [of _ db server] ok by auto
  with assms ok that show ?thesis
    by (auto simp: ensure_active_subscription_for_start_def split: option.splits if_splits)
qed

lemma get_plan_cong: "db_plans db' = db_plans db \<Longrightarrow> get_plan db' = get_plan db"
  by (rule ext) (simp add: get_plan_def)

lemma active_subscription_same:
  "db_subscriptions db' = db_subscriptions db \<Longrightarrow>
   active_subscription_for_server cfg now db' = active_subscription_for_server cfg now db"
  by (rule ext) (simp add: active_subscription_for_server_def)

lemma start_guarded_InrD:
  assumes "start_guarded cfg env sid s = (Inr (), s')"
  shows "do_start_server cfg env sid s = (Inr (), s')"
  using assms unfolding start_guarded_def
  by (rule catch_raise_InrE) (simp add: op_defs)

text \<open>A start that succeeds ends with the orchestrator's start, on the billing tables it began with.\<close>

lemma do_start_server_InrE:
  assumes "do_start_server cfg env sid (open_session db) = (Inr (), s')"
  obtains s where "billing_tables (db_subscriptions db) (db_plans db) s"
    "orchestrator_start cfg env sid s = (Inr (), s')"
proof -
  let ?B = "billing_tables (db_subscriptions db) (db_plans db)"
  obtain s1 b s2 s3 s4 s5 s6 where steps: "check_subscription cfg env sid (open_session db) = (Inr (), s1)"
    "detach_server cfg env sid s1 = (Inr b, s2)"
    "(if b then assign_node cfg env sid else return_op ()) s2 = (Inr (), s3)"
    "prepare_for_start cfg env sid s3 = (Inr (), s4)"
    "set_server sid (\<lambda>r. r\<lparr>srv_last_activity := env_now env\<rparr>) s4 = (Inr (), s5)"
    "commit_op s5 = (Inr (), s6)" "start_process cfg env sid s6 = (Inr (), s')"
    using assms unfolding do_start_server_def by (elim bind_op_InrE) simp
  have "?B (open_session db)" by (simp add: billing_tables_def)
  then have "?B s1" by (rule keepsD [OF billing_tables_start(1) _ steps(1)])
  then have "?B s2" by (rule keepsD [OF billing_tables_start(2) _ steps(2)])
  moreover have "keeps ?B (if b then assign_node cfg env sid else return_op ())"
    by (intro op_rules billing_tables_start)
  ultimately have "?B s3" using steps(3) keepsD by blast
  then have "?B s4" by (rule keepsD [OF billing_tables_start(4) _ steps(4)])
  then have "?B s5" by (rule keepsD [OF billing_tables_ops(2) _ steps(5)])
  then have "?B s6" by (rule keepsD [OF billing_tables_ops(1) _ steps(6)])
  with steps(7) show ?thesis using InrD_start_process that by blast
qed

lemma commit_op_InrD: "commit_op s = (Inr (), s') \<Longrightarrow> s' = open_session (ses_objects s)"
  by (auto simp: commit_op_def split: sum.splits dest: commit_InrD)

lemma refresh_and_commit_server:
  assumes "refresh_and_commit cfg env node_id (open_session db) = (Inr (), s')"
  shows "get_server (ses_committed s') i = get_server db i"
proof (cases node_id)
  case None
  with assms show ?thesis by (auto simp: refresh_and_commit_def return_op_def)
next
  case (Some n)
  have "ses_committed s' = ses_objects (refresh_node_allocated_ram cfg (env_now env) n (open_session db))"
    using assms Some by (auto simp: refresh_and_commit_def bind_op_def modify_op_def dest: commit_op_InrD)
  then show ?thesis
    by (simp add: refresh_node_allocated_ram_def get_server_def split: option.split)
qed

lemma apply_start_result_id [simp]: "srv_id (apply_start_result cfg res r) = srv_id r"
  "srv_state (apply_start_result cfg res r) = ServerState.running"
  by (simp_all add: apply_start_result_def Let_def split: option.split)

section \<open>Properties\<close>

text \<open>
  C10: A server is only ever started on a paid plan.  When a start request for a server that is not
  already running succeeds, the server has a subscription in force and none suspended, the
  subscription's plan grants RAM, the runtime was asked to start this server with exactly the RAM
  and CPU of that plan, and the server is committed as running.
\<close>

theorem start_success_is_paid:
  assumes "run_request (start_endpoint cfg env sid) db = (Inr (), db')"
    and "get_server db sid = Some server" "\<not> is_actually_running env server"
  shows "\<exists>s p req res r'. active_subscription_for_server cfg (env_now env) db sid = Some s \<and>
    get_plan db (sub_plan_id s) = Some p \<and> 0 < bp_ram_mb p \<and>
    (\<forall>t \<in> set (db_subscriptions db). sub_server_id t = Some sid \<longrightarrow>
       sub_status t \<noteq> BillingSubscriptionStatus.suspended) \<and>
    env_runtime_start env req = Inr res \<and> req_server_id req = sid \<and>
    req_ram_mb req = bp_ram_mb p \<and> req_cpu_quota_pct req = bp_cpu_limit p \<and>
    get_server db' sid = Some r' \<and> srv_state r' = ServerState.running"
proof -
  obtain s9 where run: "start_endpoint cfg env sid (open_session db) = (Inr (), s9)" "db' = ses_committed s9"
    using assms(1) by (auto simp: run_request_def split: prod.splits)
  from run(1) obtain s7 s8 where go: "start_guarded cfg env sid (open_session db) = (Inr (), s7)"
    "commit_op s7 = (Inr (), s8)"
    "with_server sid (\<lambda>server. refresh_and_commit cfg env (srv_node_id server)) s8 = (Inr (), s9)"
    using assms(2,3) unfolding start_endpoint_def
    by (elim with_server_InrE) (auto elim!: bind_op_InrE)
  obtain s6 where s6: "billing_tables (db_subscriptions db) (db_plans db) s6"
    "orchestrator_start cfg env sid s6 = (Inr (), s7)"
    using do_start_server_InrE [OF start_guarded_InrD [OF go(1)]] .
  obtain v jar jdk res where v: "get_server (ses_objects s6) sid = Some v"
    "ensure_active_subscription_for_start cfg (env_now env) (ses_flushed s6) v = Inr ()"
    "env_runtime_start env (start_request_for sid v
       (get_effective_server_resource_limits cfg (env_now env) (Some (ses_flushed s6)) v) jar jdk) = Inr res"
    "s7 = set_objects (upd_server sid (apply_start_result cfg res)) s6"
    using orchestrator_start_InrE [OF s6(2)] .
  have vid: "srv_id v = sid" using get_server_SomeD [OF v(1)] by simp
  obtain s p where sp: "active_subscription_for_server cfg (env_now env) (ses_flushed s6) sid = Some s"
    "get_plan (ses_flushed s6) (sub_plan_id s) = Some p" "0 < bp_ram_mb p"
    "\<forall>t \<in> set (db_subscriptions (ses_flushed s6)). sub_server_id t = Some sid \<longrightarrow>
       sub_status t \<noteq> BillingSubscriptionStatus.suspended"
    using ensure_start_InrD [OF v(2)] unfolding vid .
  have lim: "get_effective_server_resource_limits cfg (env_now env) (Some (ses_flushed s6)) v = limits_of_plan p"
    using sp(1,2) by (simp add: get_effective_server_resource_limits_def vid)
  have tables: "db_subscriptions (ses_flushed s6) = db_subscriptions db" "db_plans (ses_flushed s6) = db_plans db"
    using s6(1) by (simp_all add: billing_tables_def)
  have "get_server db' sid = Some (apply_start_result cfg res v)"
  proof -
    obtain r8 :: server where "refresh_and_commit cfg env (srv_node_id r8) s8 = (Inr (), s9)"
      using with_server_InrE [OF go(3)] by blast
    moreover have "s8 = open_session (ses_objects s7)" using go(2) by (rule commit_op_InrD)
    ultimately have "get_server db' sid = get_server (ses_objects s7) sid"
      unfolding run(2) using refresh_and_commit_server by blast
    then show ?thesis using v(1,4) by (simp add: get_server_upd_server)
  qed
  then show ?thesis
    using sp lim v(3) unfolding tables(1) active_subscription_same [OF tables(1)] get_plan_cong [OF tables(2)]
    by (intro exI [of _ s] exI [of _ p] exI [of _ "start_request_for sid v (limits_of_plan p) jar jdk"])
      (auto simp: start_request_for_def limits_of_plan_def)
qed

definition sample_env :: start_env where
  "sample_env = \<lparr>env_now = 5,
     env_net = \<lparr>bind_udp6 = (\<lambda>_. True), bind_tcp6 = (\<lambda>_. True), bind_udp4 = (\<lambda>_. True), bind_tcp4 = (\<lambda>_. True)\<rparr>,
     env_cloud_start = (\<lambda>_. False), env_server_dir = (\<lambda>_. ''servers/10''), env_dir_inside_root = (\<lambda>_. True),
     env_resolve_jar_url = (\<lambda>_ _. Inr ''jar''), env_resolve_jdk_path = (\<lambda>_. Inr None),
     env_runtime_start = (\<lambda>req. Inr \<lparr>res_runtime_id = ''unit'', res_actual_version = None,
       res_port = req_port req\<rparr>),
     env_runtime_stop = (\<lambda>_. Inr ()), env_runtime_running = (\<lambda>_. False), env_remote_versions = []\<rparr>"

definition start_sample :: database where
  "start_sample = sample_db\<lparr>db_nodes := [sample_node\<lparr>nd_last_heartbeat := Some 0\<rparr>],
     db_subscriptions := [sample_subscription]\<rparr>"

lemma start_sample_runs: "fst (run_request (start_endpoint default_settings sample_env 10) start_sample) = Inr ()"
  by code_simp

theorem start_success_is_paid_witness:
  "\<exists>(req :: start_request) res. env_runtime_start sample_env req = Inr res \<and> req_ram_mb req = 512"
proof -
  have run: "run_request (start_endpoint default_settings sample_env 10) start_sample =
      (Inr (), snd (run_request (start_endpoint default_settings sample_env 10) start_sample))"
    using start_sample_runs by (simp add: prod_eq_iff)
  have server: "get_server start_sample 10 = Some sample_server" by code_simp
  have "\<not> is_actually_running sample_env sample_server" by code_simp
  from start_success_is_paid [OF run server this] obtain s p req res where
    "active_subscription_for_server default_settings (env_now sample_env) start_sample 10 = Some s"
    "get_plan start_sample (sub_plan_id s) = Some p" "env_runtime_start sample_env req = Inr res"
    "req_ram_mb req = bp_ram_mb p" by blast
  moreover have "active_subscription_for_server default_settings (env_now sample_env) start_sample 10 =
      Some sample_subscription" by code_simp
  moreover have "get_plan start_sample ''basic'' = Some sample_plan" by code_simp
  ultimately have "req_ram_mb req = 512" by (auto simp: sample_subscription_def sample_plan_def)
  with \<open>env_runtime_start sample_env req = Inr res\<close> show ?thesis by blast
qed

subsection \<open>Failed starts\<close>

text \<open>
  What a failed start may leave: every other server as it was, and the server itself in a state of
  the given set.
\<close>

definition pinned :: "database \<Rightarrow> uuid \<Rightarrow> ServerState set \<Rightarrow> database \<Rightarrow> bool" where
  "pinned db sid states db' \<longleftrightarrow>
     (\<forall>i. i \<noteq> sid \<longrightarrow> get_server db' i = get_server db i) \<and>
     (\<exists>r. get_server db' sid = Some r \<and> srv_state r \<in> states)"

definition pinned_committed :: "database \<Rightarrow> uuid \<Rightarrow> ServerState set \<Rightarrow> session \<Rightarrow> bool" where
  "pinned_committed db sid states s \<longleftrightarrow> pinned db sid states (ses_committed s)"

definition pinned_both :: "database \<Rightarrow> uuid \<Rightarrow> ServerState set \<Rightarrow> session \<Rightarrow> bool" where
  "pinned_both db sid states s \<longleftrightarrow>
     pinned db sid states (ses_committed s) \<and> pinned db sid states (ses_objects s)"

lemma pinned_update:
  assumes "pinned db sid states db'" "\<And>r. srv_id (f r) = srv_id r"
    "\<And>r. srv_state r \<in> states \<Longrightarrow> srv_state (f r) \<in> states"
  shows "pinned db sid states (upd_server sid f db')"
  using assms by (auto simp: pinned_def get_server_upd_server)

lemma pinned_nodes [simp]: "pinned db sid states (upd_node i f db') = pinned db sid states db'"
  by (simp add: pinned_def get_server_def)

lemma pinned_set_server:
  assumes "\<And>r. srv_id (f r) = srv_id r" "\<And>r. srv_state r \<in> states \<Longrightarrow> srv_state (f r) \<in> states"
  shows "keeps (pinned_both db sid states) (set_server sid f)"
  by (rule keeps_set_server) (simp add: pinned_both_def pinned_update assms)

lemma pinned_ops [op_rules]:
  "keeps (pinned_both db sid states) commit_op"
  "keeps (pinned_both db sid states) (modify_op (refresh_node_allocated_ram cfg now i))"
  "keeps (pinned_both db sid states) (wake_node env)"
  "keeps (pinned_committed db sid states) (set_server i f)"
proof -
  show "keeps (pinned_both db sid states) commit_op"
    by (rule keeps_commit) (simp add: pinned_both_def)
  show "keeps (pinned_both db sid states) (modify_op (refresh_node_allocated_ram cfg now i))"
    by (rule keeps_modify) (simp add: pinned_both_def refresh_node_allocated_ram_def split: option.split)
  show "keeps (pinned_both db sid states) (wake_node env)"
    unfolding wake_node_def
  proof (rule keeps_modify)
    fix s assume "pinned_both db sid states s"
    with wakeup_cases [of "env_cloud_start env" "env_now env" s]
    show "pinned_both db sid states (snd (auto_wakeup_offline_node (env_cloud_start env) (env_now env) s))"
      by (auto simp: pinned_both_def)
  qed
  show "keeps (pinned_committed db sid states) (set_server i f)"
    by (rule keeps_set_server) (simp add: pinned_committed_def)
qed

text \<open>The steps before the process is started keep the server in its state or make it provisioning.\<close>

lemma pinned_steps:
  assumes "ServerState.provisioning \<in> states"
  shows "keeps (pinned_both db sid states) (detach_server cfg env sid)"
    "keeps (pinned_both db sid states) (assign_node cfg env sid)"
    "keeps (pinned_both db sid states) (prepare_for_start cfg env sid)"
  unfolding detach_server_def assign_node_def prepare_for_start_def prepare_java_server_for_start_def
    prepare_bedrock_server_for_start_def allocate_missing_port_def move_to_node_def
  by (intro op_rules pinned_set_server; simp add: assms)+

lemma pinned_both_committed: "pinned_both db sid states s \<Longrightarrow> pinned_committed db sid states s"
  by (simp add: pinned_both_def pinned_committed_def)

lemma keeps_both_triple:
  "keeps (pinned_both db sid states) m \<Longrightarrow>
   triple (pinned_both db sid states) m (\<lambda>_. pinned_both db sid states) (\<lambda>_. pinned_committed db sid states)"
  unfolding keeps_def by (erule triple_weaken) (simp_all add: pinned_both_committed)

lemma pinned_check:
  "triple (pinned_both db sid states) (check_subscription cfg env sid)
     (\<lambda>_. pinned_both db sid states) (\<lambda>_. pinned_committed db sid states)"
  by (rule tripleI)
    (auto simp: check_subscription_def op_defs pinned_both_def pinned_committed_def
      split: option.splits sum.splits)

lemma pinned_process:
  "triple (pinned_both db sid states) (start_process cfg env sid)
     (\<lambda>_. pinned_committed db sid states) (\<lambda>_. pinned_committed db sid states)"
proof -
  have "keeps (pinned_committed db sid states) (start_process cfg env sid)"
    unfolding start_process_def orchestrator_start_def by (intro op_rules)+
  then show ?thesis
    unfolding keeps_def by (rule triple_weaken) (simp_all add: pinned_both_committed)
qed

lemma pinned_do_start:
  assumes "ServerState.provisioning \<in> states"
  shows "triple (pinned_both db sid states) (do_start_server cfg env sid)
    (\<lambda>_. pinned_committed db sid states) (\<lambda>_. pinned_committed db sid states)"
proof -
  let ?P = "pinned_both db sid states"
  have assign: "keeps ?P (if b then assign_node cfg env sid else return_op ())" for b
    by (intro op_rules pinned_steps assms)
  have touch: "keeps ?P (set_server sid (\<lambda>r. r\<lparr>srv_last_activity := env_now env\<rparr>))"
    by (rule pinned_set_server) simp_all
  show ?thesis
    unfolding do_start_server_def
    by (rule triple_bind [OF pinned_check], rule triple_bind [OF keeps_both_triple [OF pinned_steps(1) [OF assms]]],
        rule triple_bind [OF keeps_both_triple [OF assign]],
        rule triple_bind [OF keeps_both_triple [OF pinned_steps(3) [OF assms]]],
        rule triple_bind [OF keeps_both_triple [OF touch]],
        rule triple_bind [OF keeps_both_triple [OF pinned_ops(1)]], rule pinned_process)
qed

text \<open>
  A start that fails, at whatever step, commits no change to any other server, and leaves the
  server itself in the state it had or as provisioning.  In particular the \<open>suspended\<close> that the code
  assigns when the subscription check or the runtime refuses is never committed: a server recorded
  as running whose process cannot be started is still recorded as running.
\<close>

theorem failed_start_commits:
  assumes "get_server db sid = Some server"
    and "do_start_server cfg env sid (open_session db) = (Inl e, s')"
  shows "(\<forall>i. i \<noteq> sid \<longrightarrow> get_server (ses_committed s') i = get_server db i) \<and>
    (\<exists>r. get_server (ses_committed s') sid = Some r \<and>
       srv_state r \<in> {srv_state server, ServerState.provisioning})"
proof -
  let ?states = "{srv_state server, ServerState.provisioning}"
  have "pinned_both db sid ?states (open_session db)"
    using assms(1) by (simp add: pinned_both_def pinned_def)
  then have "pinned_committed db sid ?states s'"
    by (rule triple_Inl [OF pinned_do_start _ assms(2), rotated]) simp
  then show ?thesis by (simp add: pinned_committed_def pinned_def)
qed

text \<open>
  The first start of a Java server that needs a node always fails.  Once a node and a port are
  found, the server is committed on the new node as provisioning; the preparation of a Java server
  then refuses a provisioning server, so the request answers 409 and leaves it there.
\<close>

theorem java_assignment_conflict:
  assumes server: "get_server db sid = Some server" "is_java_flavor (srv_flavor server)"
    "srv_node_id server = None" "\<not> is_actually_running env server"
    and paid: "ensure_active_subscription_for_start cfg (env_now env) db server = Inr ()"
    and node: "select_best_node cfg (env_now env) db (server_ram_mb cfg (env_now env) db server) NodeTier.shared = Some n"
    and port: "allocate_port (env_net env) cfg db (srv_flavor server) (Some (nd_id n)) = Inr p"
    and uniq: "constraints_ok (upd_server sid (move_to_node p n) db)"
  shows "\<exists>db'. run_request (start_endpoint cfg env sid) db = (Inl (HTTPException 409), db') \<and>
    get_server db' sid = Some (move_to_node p n server)"
proof -
  define s1 where "s1 = set_objects (upd_server sid (move_to_node p n)) (open_session db)"
  define s2 where "s2 = refresh_node_allocated_ram cfg (env_now env) (nd_id n) s1"
  have obj: "db_servers (ses_objects s2) = modify_row srv_id sid (move_to_node p n) (db_servers db) \<and>
      constraints_ok (ses_objects s2)"
    using uniq by (simp add: s2_def s1_def refresh_node_allocated_ram_def upd_node_def split: option.split)
  have commit: "commit_op s2 = (Inr (), open_session (ses_objects s2))"
    using obj by (simp add: commit_op_def commit_def)
  have moved: "get_server (ses_objects s2) sid = Some (move_to_node p n server)"
    using obj server(1) by (simp add: get_server_def get_row_modify_row move_to_node_def)
  have assign: "assign_node cfg env sid (open_session db) = (Inr (), open_session (ses_objects s2))"
    using server(1) node port commit
    by (simp add: assign_node_def with_server_def bind_op_def get_op_def set_server_def modify_op_def
        required_ram_def s1_def [symmetric] s2_def [symmetric])
  have "do_start_server cfg env sid (open_session db) = (Inl (HTTPException 409), open_session (ses_objects s2))"
    using server paid moved
    by (simp add: do_start_server_def check_subscription_def detach_server_def bind_op_def with_server_def
        get_op_def return_op_def assign prepare_for_start_def prepare_java_server_for_start_def catch_op_def
        raise_op_def prepare_error_def move_to_node_def)
  then have "run_request (start_endpoint cfg env sid) db = (Inl (HTTPException 409), ses_objects s2)"
    using server(1,4)
    by (simp add: run_request_def start_endpoint_def start_guarded_def with_server_def bind_op_def catch_op_def raise_op_def)
  with moved show ?thesis by blast
qed

lemma distinct_map_filter_filter:
  "distinct (List.map_filter f xs) \<Longrightarrow> distinct (List.map_filter f (filter P xs))"
proof (induction xs)
  case Nil
  then show ?case by simp
next
  case (Cons x xs)
  have "set (List.map_filter f (filter P ys)) \<subseteq> set (List.map_filter f ys)" for ys
    by (induction ys) (auto simp: map_filter_simps split: option.splits)
  with Cons show ?case by (fastforce simp: map_filter_simps split: option.splits)
qed

lemma constraints_ok_deleted:
  "constraints_ok db \<Longrightarrow> constraints_ok (db\<lparr>db_servers := delete_row srv_id sid (db_servers db),
         db_bans := filter (\<lambda>b. ban_server_id b \<noteq> sid) (db_bans db),
         db_collaborators := filter (\<lambda>c. col_server_id c \<noteq> sid) (db_collaborators db)\<rparr>)"
  by (simp add: constraints_ok_def delete_row_def distinct_map_filter_filter distinct_map_filter)

text \<open>Two databases that may differ in their nodes only.\<close>

definition same_but_nodes :: "database \<Rightarrow> database \<Rightarrow> bool" where
  "same_but_nodes db db' \<longleftrightarrow> db\<lparr>db_nodes := []\<rparr> = db'\<lparr>db_nodes := []\<rparr>"

lemma same_but_nodes_tables:
  assumes "same_but_nodes db db'"
  shows "db_servers db = db_servers db'" "db_bans db = db_bans db'" "db_collaborators db = db_collaborators db'"
  using arg_cong [OF assms [unfolded same_but_nodes_def], of db_servers]
    arg_cong [OF assms [unfolded same_but_nodes_def], of db_bans]
    arg_cong [OF assms [unfolded same_but_nodes_def], of db_collaborators] by simp_all

lemma refresh_and_commit_committed:
  assumes "refresh_and_commit cfg env node_id (open_session db) = (r, s)"
  shows "same_but_nodes (ses_committed s) db"
proof (cases node_id)
  case None
  with assms show ?thesis by (auto simp: refresh_and_commit_def return_op_def same_but_nodes_def)
next
  case (Some n)
  define s1 where "s1 = refresh_node_allocated_ram cfg (env_now env) n (open_session db)"
  have "same_but_nodes (ses_objects s1) db" "ses_committed s1 = db"
    by (simp_all add: s1_def refresh_node_allocated_ram_def same_but_nodes_def upd_node_def split: option.split)
  moreover have "ses_committed s = ses_objects s1 \<or> ses_committed s = ses_committed s1"
    using assms Some by (auto simp: refresh_and_commit_def bind_op_def modify_op_def commit_op_def s1_def
        split: sum.splits dest: commit_InrD)
  ultimately show ?thesis by (auto simp: same_but_nodes_def)
qed


theorem failed_start_commits_witness:
  "\<exists>s'. do_start_server default_settings (sample_env\<lparr>env_runtime_start := \<lambda>_. Inl RuntimeError\<rparr>) 10
      (open_session (start_sample\<lparr>db_servers := [sample_server\<lparr>srv_state := ServerState.running\<rparr>]\<rparr>)) =
      (Inl (HTTPException 503), s') \<and>
    (\<exists>r. get_server (ses_committed s') 10 = Some r \<and>
       srv_state r \<in> {ServerState.running, ServerState.provisioning})"
proof -
  let ?db = "start_sample\<lparr>db_servers := [sample_server\<lparr>srv_state := ServerState.running\<rparr>]\<rparr>"
  let ?env = "sample_env\<lparr>env_runtime_start := \<lambda>_. Inl RuntimeError\<rparr>"
  have "fst (do_start_server default_settings ?env 10 (open_session ?db)) = Inl (HTTPException 503)"
    by code_simp
  then obtain s' where s': "do_start_server default_settings ?env 10 (open_session ?db) = (Inl (HTTPException 503), s')"
    by (metis prod.collapse)
  have server: "get_server ?db 10 = Some (sample_server\<lparr>srv_state := ServerState.running\<rparr>)" by code_simp
  from failed_start_commits [OF server s'] s' show ?thesis by auto
qed

definition unassigned_java :: database where
  "unassigned_java = start_sample\<lparr>db_servers := [sample_server\<lparr>srv_flavor := ServerFlavor.PAPER,
     srv_node_id := None\<rparr>], db_nodes := [sample_node\<lparr>nd_last_heartbeat := Some 0\<rparr>]\<rparr>"

theorem java_assignment_conflict_witness:
  "fst (run_request (start_endpoint default_settings sample_env 10) unassigned_java) = Inl (HTTPException 409)"
proof -
  let ?r = "sample_server\<lparr>srv_flavor := ServerFlavor.PAPER, srv_node_id := None\<rparr>"
  let ?n = "sample_node\<lparr>nd_last_heartbeat := Some 0\<rparr>"
  have a: "get_server unassigned_java 10 = Some ?r" "is_java_flavor (srv_flavor ?r)" "srv_node_id ?r = None"
    "\<not> is_actually_running sample_env ?r" by code_simp+
  have b: "ensure_active_subscription_for_start default_settings (env_now sample_env) unassigned_java ?r = Inr ()"
    by code_simp
  have c: "select_best_node default_settings (env_now sample_env) unassigned_java
      (server_ram_mb default_settings (env_now sample_env) unassigned_java ?r) NodeTier.shared = Some ?n"
    by code_simp
  have d: "allocate_port (env_net sample_env) default_settings unassigned_java (srv_flavor ?r) (Some (nd_id ?n)) = Inr 25565"
    by code_simp
  have "constraints_ok (upd_server 10 (move_to_node 25565 ?n) unassigned_java)" by code_simp
  from java_assignment_conflict [OF a b c d this] show ?thesis by auto
qed


end
