(* ===== verification/Creation.thy ===== *)
theory Creation
  imports Lifecycle
begin

text \<open>
  \<open>create_server\<close> in \<open>api/servers.py\<close>: the quota, the choice of a node, the ports, the new row and
  the free trial.  The keys of the new rows are parameters; the join code, the text of the
  response and the caches are not modelled.
\<close>

record create_request =
  cs_world_name :: string
  cs_flavor :: ServerFlavor
  cs_mc_version :: "string option"
  cs_config :: "json dict"

definition owned_servers :: "database \<Rightarrow> uuid \<Rightarrow> int" where
  "owned_servers db user_id = int (length (filter (\<lambda>r. srv_owner_id r = user_id) (db_servers db)))"

text \<open>The client's configuration with the version checked.\<close>

definition sanitized_config :: "json dict \<Rightarrow> exn + json dict" where
  "sanitized_config config =
     (let config = dict_pop ''bedrock_image'' config;
          raw = (case dict_get config ''bedrock_version'' of Some (JStr v) \<Rightarrow> Some v | _ \<Rightarrow> None)
      in case sanitize_version raw of
           Inl e \<Rightarrow> Inl (HTTPException 422)
         | Inr v \<Rightarrow> Inr (dict_set ''bedrock_version'' (case v of None \<Rightarrow> JNull | Some s \<Rightarrow> JStr s) config))"

definition choose_node :: "settings \<Rightarrow> start_env \<Rightarrow> node option op" where
  "choose_node cfg env =
     bind_op (get_op (\<lambda>s. select_best_node cfg (env_now env) (ses_flushed s) 0 NodeTier.shared)) (\<lambda>found.
     case found of
       Some n \<Rightarrow> return_op (Some n)
     | None \<Rightarrow>
         bind_op (get_op (\<lambda>s. fst (auto_wakeup_offline_node (env_cloud_start env) (env_now env) s))) (\<lambda>woken.
         bind_op (wake_node env) (\<lambda>_.
         if woken then raise_op (HTTPException 202)
         else if cfg_production_mode cfg then raise_op (HTTPException 503)
         else return_op None)))"

definition new_server ::
  "uuid \<Rightarrow> instant \<Rightarrow> uuid \<Rightarrow> create_request \<Rightarrow> json dict \<Rightarrow> node option \<Rightarrow> int \<Rightarrow> int option \<Rightarrow> server" where
  "new_server new_id now user_id payload config node port proxy_port =
     \<lparr>srv_id = new_id, srv_node_id = map_option nd_id node, srv_owner_id = user_id,
      srv_world_name = cs_world_name payload, srv_state = ServerState.created,
      srv_vm_provider = (if cs_flavor payload = ServerFlavor.BEDROCK then VMProvider.local_bedrock
                         else VMProvider.local_java),
      srv_vm_id = None, srv_vm_ipv4 = map_option nd_ip_address node, srv_vm_port = port,
      srv_proxy_port = proxy_port, srv_mc_config = config, srv_last_activity = now,
      srv_players_online = 0, srv_flavor = cs_flavor payload, srv_mc_version = cs_mc_version payload,
      srv_java_version = (if is_java_flavor (cs_flavor payload)
        then Some (int (required_java_version (case cs_mc_version payload of None \<Rightarrow> [] | Some v \<Rightarrow> v)))
        else None), srv_last_backup_at = None, srv_backup_count = 0\<rparr>"

text \<open>The runtime entries of the configuration; an error rolls back and answers 503.\<close>

definition runtime_config :: "start_env \<Rightarrow> uuid \<Rightarrow> ServerFlavor \<Rightarrow> json dict \<Rightarrow> exn + json dict" where
  "runtime_config env sid flavor cfg =
     (if flavor = ServerFlavor.BEDROCK then
        map_sum id (\<lambda>requested.
          dict_set ''server_dir'' (JStr (env_server_dir env sid))
            (dict_set ''template_version''
              (JStr (case requested of Some v \<Rightarrow> if v \<noteq> [] then v else ''latest'' | None \<Rightarrow> ''latest''))
              (dict_set ''runtime_mode'' (JStr ''process'') cfg)))
          (normalize_requested_version (env_remote_versions env)
             (case dict_get cfg ''bedrock_version'' of Some (JStr v) \<Rightarrow> Some v | _ \<Rightarrow> None))
      else Inr (dict_set ''server_dir'' (JStr (env_server_dir env sid))
                 (dict_set ''runtime_mode'' (JStr ''process'') cfg)))"

definition free_plan :: "database \<Rightarrow> plan option" where
  "free_plan db = first_row (filter (\<lambda>p. bp_price p = 0 \<and> bp_active p) (db_plans db))"

definition trial_subscription :: "uuid \<Rightarrow> instant \<Rightarrow> uuid \<Rightarrow> uuid \<Rightarrow> plan \<Rightarrow> subscription" where
  "trial_subscription new_id now user_id sid p =
     \<lparr>sub_id = new_id, sub_user_id = user_id, sub_server_id = Some sid, sub_resource_type = None,
      sub_resource_id = None, sub_plan_id = bp_id p, sub_starts_at = now,
      sub_expires_at = now + days 7, sub_status = BillingSubscriptionStatus.active,
      sub_provider_subscription_id = None, sub_created_at = now, sub_updated_at = now\<rparr>"

text \<open>The free trial: a commit happens in it only.\<close>

definition grant_trial :: "start_env \<Rightarrow> uuid \<Rightarrow> uuid \<Rightarrow> uuid \<Rightarrow> unit op" where
  "grant_trial env trial_id user_id sid =
     bind_op (get_op (\<lambda>s. free_plan (ses_flushed s))) (\<lambda>found.
     case found of
       None \<Rightarrow> return_op ()
     | Some p \<Rightarrow>
         bind_op (modify_op (set_objects (\<lambda>db. db\<lparr>db_subscriptions := db_subscriptions db @
             [trial_subscription trial_id (env_now env) user_id sid p]\<rparr>))) (\<lambda>_.
         bind_op flush_op (\<lambda>_.
         bind_op (set_server sid (apply_plan_limits_to_server p)) (\<lambda>_. commit_op))))"

definition create_server ::
  "settings \<Rightarrow> start_env \<Rightarrow> bool \<Rightarrow> uuid \<Rightarrow> uuid \<Rightarrow> uuid \<Rightarrow> create_request \<Rightarrow> uuid op" where
  "create_server cfg env disk_safe new_id trial_id user_id payload =
     bind_op (require_op disk_safe (HTTPException 503)) (\<lambda>_.
     bind_op (get_op (\<lambda>s. owned_servers (ses_flushed s) user_id)) (\<lambda>owned.
     bind_op (require_op (\<not> (cfg_max_servers_per_user cfg > 0 \<and> owned \<ge> cfg_max_servers_per_user cfg))
         (HTTPException 403)) (\<lambda>_.
     bind_op (lift_op (sanitized_config (cs_config payload))) (\<lambda>config.
     bind_op (choose_node cfg env) (\<lambda>node.
     bind_op (get_op (\<lambda>s. allocate_port (env_net env) cfg (ses_flushed s) (cs_flavor payload)
         (map_option nd_id node))) (\<lambda>port.
     case port of
       Inl e \<Rightarrow> raise_op (HTTPException 503)
     | Inr p \<Rightarrow>
     bind_op (get_op (\<lambda>s. allocate_proxy_port cfg (ses_flushed s))) (\<lambda>proxy.
     bind_op (lift_op proxy) (\<lambda>proxy_port.
     bind_op (modify_op (set_objects (\<lambda>db. db\<lparr>db_servers := db_servers db @
         [new_server new_id (env_now env) user_id payload config node p proxy_port]\<rparr>))) (\<lambda>_.
     bind_op flush_op (\<lambda>_.
     case runtime_config env new_id (cs_flavor payload) config of
       Inl e \<Rightarrow> bind_op (modify_op rollback) (\<lambda>_. raise_op (HTTPException 503))
     | Inr rc \<Rightarrow>
     bind_op (set_server new_id (\<lambda>r. r\<lparr>srv_mc_config := rc\<rparr>)) (\<lambda>_.
     bind_op (grant_trial env trial_id user_id new_id) (\<lambda>_.
     bind_op (refresh_and_commit cfg env (map_option nd_id node)) (\<lambda>_.
     return_op new_id)))))))))))))"

section \<open>Lemmas\<close>

lemma choose_node_InrD:
  assumes "choose_node cfg env (open_session db) = (Inr node, s)" "constraints_ok db"
  shows "s = open_session db \<and> node = select_best_node cfg (env_now env) db 0 NodeTier.shared"
proof (cases "select_best_node cfg (env_now env) db 0 NodeTier.shared")
  case (Some n)
  with assms(1) show ?thesis by (auto simp: choose_node_def op_defs)
next
  case None
  let ?w = "auto_wakeup_offline_node (env_cloud_start env) (env_now env) (open_session db)"
  have "\<not> fst ?w \<Longrightarrow> snd ?w = open_session db"
    using assms(2)
    by (auto simp: auto_wakeup_offline_node_def Let_def commit_def upd_node_def split: option.splits if_splits)
  with None assms(1) show ?thesis
    by (auto simp: choose_node_def op_defs wake_node_def split: if_splits)
qed

lemma flush_op_InrD: "flush_op s = (Inr (), s') \<Longrightarrow> s' = s\<lparr>ses_flushed := ses_objects s\<rparr>"
  by (auto simp: flush_op_def split: sum.splits dest: flush_InrD)

text \<open>What a successful creation runs, from the choice of the node on.\<close>

lemma create_server_InrE:
  assumes "create_server cfg env disk_safe new_id trial_id user_id payload (open_session db) = (Inr sid, s)"
    and "constraints_ok db"
  obtains config p proxy_port rc s1 where
    "allocate_port (env_net env) cfg db (cs_flavor payload)
       (map_option nd_id (select_best_node cfg (env_now env) db 0 NodeTier.shared)) = Inr p"
    "allocate_proxy_port cfg db = Inr proxy_port" "sid = new_id"
    "bind_op (grant_trial env trial_id user_id new_id)
       (\<lambda>_. refresh_and_commit cfg env (map_option nd_id (select_best_node cfg (env_now env) db 0 NodeTier.shared))) s1 = (Inr (), s)"
    "ses_committed s1 = db"
    "ses_flushed s1 = db\<lparr>db_servers := db_servers db @ [new_server new_id (env_now env) user_id payload config
        (select_best_node cfg (env_now env) db 0 NodeTier.shared) p proxy_port]\<rparr>"
    "ses_objects s1 = upd_server new_id (\<lambda>r. r\<lparr>srv_mc_config := rc\<rparr>) (ses_flushed s1)"
proof -
  obtain config node s0 where c: "choose_node cfg env (open_session db) = (Inr node, s0)"
    and rest: "(bind_op (get_op (\<lambda>s. allocate_port (env_net env) cfg (ses_flushed s) (cs_flavor payload)
         (map_option nd_id node))) (\<lambda>port.
     case port of
       Inl e \<Rightarrow> raise_op (HTTPException 503)
     | Inr p \<Rightarrow>
     bind_op (get_op (\<lambda>s. allocate_proxy_port cfg (ses_flushed s))) (\<lambda>proxy.
     bind_op (lift_op proxy) (\<lambda>proxy_port.
     bind_op (modify_op (set_objects (\<lambda>db. db\<lparr>db_servers := db_servers db @
         [new_server new_id (env_now env) user_id payload config node p proxy_port]\<rparr>))) (\<lambda>_.
     bind_op flush_op (\<lambda>_.
     case runtime_config env new_id (cs_flavor payload) config of
       Inl e \<Rightarrow> bind_op (modify_op rollback) (\<lambda>_. raise_op (HTTPException 503))
     | Inr rc \<Rightarrow>
     bind_op (set_server new_id (\<lambda>r. r\<lparr>srv_mc_config := rc\<rparr>)) (\<lambda>_.
     bind_op (grant_trial env trial_id user_id new_id) (\<lambda>_.
     bind_op (refresh_and_commit cfg env (map_option nd_id node)) (\<lambda>_.
     return_op new_id))))))))) s0 = (Inr sid, s)"
    using assms(1) unfolding create_server_def
    by (elim bind_op_InrE) (auto simp: require_op_def get_op_def lift_op_def op_defs split: if_splits)
  note cn = choose_node_InrD [OF c assms(2)]
  obtain p where p: "allocate_port (env_net env) cfg db (cs_flavor payload) (map_option nd_id node) = Inr p"
    using rest cn by (cases "allocate_port (env_net env) cfg db (cs_flavor payload) (map_option nd_id node)")
      (simp_all add: bind_op_def get_op_def raise_op_def)
  obtain q where q: "allocate_proxy_port cfg db = Inr q"
    using rest cn p by (cases "allocate_proxy_port cfg db") (simp_all add: bind_op_def get_op_def lift_op_def)
  let ?db1 = "db\<lparr>db_servers := db_servers db @ [new_server new_id (env_now env) user_id payload config node p q]\<rparr>"
  let ?sa = "set_objects (\<lambda>_. ?db1) (open_session db)"
  let ?sb = "?sa\<lparr>ses_flushed := ?db1\<rparr>"
  have fl: "flush_op ?sa = (Inr (), ?sb)"
    using rest cn p q by (simp add: bind_op_def get_op_def lift_op_def modify_op_def flush_op_def flush_def
        set_objects_def split: if_splits)
  obtain rc where rc: "runtime_config env new_id (cs_flavor payload) config = Inr rc"
    using rest cn p q fl by (cases "runtime_config env new_id (cs_flavor payload) config")
      (simp_all add: bind_op_def get_op_def lift_op_def modify_op_def set_objects_def raise_op_def)
  let ?s1 = "set_objects (upd_server new_id (\<lambda>r. r\<lparr>srv_mc_config := rc\<rparr>)) ?sb"
  have "bind_op (grant_trial env trial_id user_id new_id)
       (\<lambda>_. bind_op (refresh_and_commit cfg env (map_option nd_id node)) (\<lambda>_. return_op new_id)) ?s1 = (Inr sid, s)"
    using rest cn p q fl rc by (simp add: bind_op_def get_op_def lift_op_def modify_op_def set_server_def
        set_objects_def)
  then have "sid = new_id" "bind_op (grant_trial env trial_id user_id new_id)
       (\<lambda>_. refresh_and_commit cfg env (map_option nd_id node)) ?s1 = (Inr (), s)"
    by (auto simp: bind_op_def return_op_def split: prod.splits sum.splits)
  with p q cn show ?thesis
    by (intro that [of p q ?s1 config rc]) simp_all
qed

lemma refresh_and_commit_InrD:
  assumes "refresh_and_commit cfg env node_id s = (Inr (), s')"
  shows "if node_id = None then s' = s else same_but_nodes (ses_committed s') (ses_objects s)"
proof (cases node_id)
  case None
  with assms show ?thesis by (simp add: refresh_and_commit_def return_op_def)
next
  case (Some n)
  have "ses_committed s' = ses_objects (refresh_node_allocated_ram cfg (env_now env) n s)"
    using assms Some by (auto simp: refresh_and_commit_def bind_op_def modify_op_def dest: commit_op_InrD)
  with Some show ?thesis
    by (simp add: refresh_node_allocated_ram_def same_but_nodes_def upd_node_def split: option.split)
qed

lemma same_but_nodes_rows:
  assumes "same_but_nodes db db'"
  shows "get_server db = get_server db'" "db_subscriptions db = db_subscriptions db'"
  using same_but_nodes_tables(1) [OF assms] arg_cong [OF assms [unfolded same_but_nodes_def], of db_subscriptions]
  by (simp_all add: get_server_def fun_eq_iff)

lemma grant_trial_InrD:
  assumes "grant_trial env trial_id user_id sid s = (Inr (), s')"
  shows "case free_plan (ses_flushed s) of
      None \<Rightarrow> s' = s
    | Some p \<Rightarrow> s' = open_session (upd_server sid (apply_plan_limits_to_server p)
        ((ses_objects s)\<lparr>db_subscriptions := db_subscriptions (ses_objects s) @
           [trial_subscription trial_id (env_now env) user_id sid p]\<rparr>))"
proof (cases "free_plan (ses_flushed s)")
  case None
  with assms show ?thesis by (simp add: grant_trial_def op_defs)
next
  case (Some p)
  let ?s1 = "set_objects (\<lambda>db. db\<lparr>db_subscriptions := db_subscriptions db @
             [trial_subscription trial_id (env_now env) user_id sid p]\<rparr>) s"
  have "bind_op flush_op (\<lambda>_. bind_op (set_server sid (apply_plan_limits_to_server p)) (\<lambda>_. commit_op)) ?s1 = (Inr (), s')"
    using assms Some by (simp add: grant_trial_def bind_op_def [of "get_op _"] bind_op_def [of "modify_op _"]
        get_op_def modify_op_def)
  then obtain s2 s3 where "flush_op ?s1 = (Inr (), s2)" "set_server sid (apply_plan_limits_to_server p) s2 = (Inr (), s3)"
    "commit_op s3 = (Inr (), s')"
    by (elim bind_op_InrE) simp
  with Some show ?thesis
    by (auto simp: set_server_def modify_op_def dest!: flush_op_InrD commit_op_InrD)
qed

section \<open>Properties\<close>

text \<open>
  C12: A creation that answers success stores the server, except when it stores nothing.  When a
  node was found or a free plan exists, the server is committed for its owner as created, on that
  node, with the port and the proxy port the allocations gave, and with a trial subscription exactly
  when there is a free plan.  Without a node (possible outside production mode) and without a free
  plan no commit is ever reached: the request succeeds and the database is unchanged.
\<close>

theorem creation_commits:
  assumes "run_request (create_server cfg env disk_safe new_id trial_id user_id payload) db = (Inr sid, db')"
    and "constraints_ok db" "new_id \<notin> srv_id ` set (db_servers db)"
    and "node = select_best_node cfg (env_now env) db 0 NodeTier.shared"
  shows "sid = new_id \<and>
    (if node = None \<and> free_plan db = None then db' = db
     else \<exists>r. get_server db' new_id = Some r \<and> srv_owner_id r = user_id \<and>
       srv_state r = ServerState.created \<and> srv_node_id r = map_option nd_id node \<and>
       allocate_port (env_net env) cfg db (cs_flavor payload) (map_option nd_id node) = Inr (srv_vm_port r) \<and>
       allocate_proxy_port cfg db = Inr (srv_proxy_port r) \<and>
       db_subscriptions db' = db_subscriptions db @ (case free_plan db of None \<Rightarrow> []
         | Some p \<Rightarrow> [trial_subscription trial_id (env_now env) user_id new_id p]))"
proof -
  obtain s where run: "create_server cfg env disk_safe new_id trial_id user_id payload (open_session db) = (Inr sid, s)"
    "db' = ses_committed s"
    using assms(1) by (auto simp: run_request_def split: prod.splits)
  obtain config p q rc s1 where p: "allocate_port (env_net env) cfg db (cs_flavor payload) (map_option nd_id node) = Inr p"
    and q: "allocate_proxy_port cfg db = Inr q" and sid: "sid = new_id"
    and go: "bind_op (grant_trial env trial_id user_id new_id)
       (\<lambda>_. refresh_and_commit cfg env (map_option nd_id node)) s1 = (Inr (), s)"
    and s1: "ses_committed s1 = db"
      "ses_flushed s1 = db\<lparr>db_servers := db_servers db @ [new_server new_id (env_now env) user_id payload config node p q]\<rparr>"
      "ses_objects s1 = upd_server new_id (\<lambda>r. r\<lparr>srv_mc_config := rc\<rparr>) (ses_flushed s1)"
    using create_server_InrE [OF run(1) assms(2)] unfolding assms(4) [symmetric] .
  obtain s2 where s2: "grant_trial env trial_id user_id new_id s1 = (Inr (), s2)"
    "refresh_and_commit cfg env (map_option nd_id node) s2 = (Inr (), s)"
    using go by (rule bind_op_InrE) simp
  let ?new = "new_server new_id (env_now env) user_id payload config node p q"
  have row: "get_server (ses_objects s1) new_id = Some (?new\<lparr>srv_mc_config := rc\<rparr>)"
    using assms(3) by (simp add: s1 get_server_upd_server)
      (simp add: get_server_def get_row_append_new new_server_def)
  have subs: "db_subscriptions (ses_objects s1) = db_subscriptions db" by (simp add: s1)
  have fp: "free_plan (ses_flushed s1) = free_plan db" by (simp add: s1 free_plan_def)
  note trial = grant_trial_InrD [OF s2(1), unfolded fp] and refresh = refresh_and_commit_InrD [OF s2(2)]
  have final: "\<exists>r. get_server d new_id = Some r \<and> srv_owner_id r = user_id \<and>
       srv_state r = ServerState.created \<and> srv_node_id r = map_option nd_id node \<and>
       srv_vm_port r = p \<and> srv_proxy_port r = q"
    if "get_server d new_id = Some (f (?new\<lparr>srv_mc_config := rc\<rparr>))"
      "f = id \<or> (\<exists>pl. f = apply_plan_limits_to_server pl)" for d and f :: "server \<Rightarrow> server"
    using that by (auto simp: new_server_def apply_plan_limits_to_server_def)
  show ?thesis
  proof (cases "free_plan db")
    case None
    then have eq: "s2 = s1" using trial by simp
    show ?thesis
    proof (cases node)
      case None
      then have "db' = db" using refresh eq s1(1) run(2) by simp
      with None \<open>free_plan db = None\<close> sid show ?thesis by simp
    next
      case (Some n)
      then have "same_but_nodes db' (ses_objects s1)" using refresh eq run(2) by simp
      from same_but_nodes_rows [OF this] row subs final [of db' id] None Some sid p q show ?thesis by auto
    qed
  next
    case (Some pl)
    let ?d = "upd_server new_id (apply_plan_limits_to_server pl)
        ((ses_objects s1)\<lparr>db_subscriptions := db_subscriptions (ses_objects s1) @
           [trial_subscription trial_id (env_now env) user_id new_id pl]\<rparr>)"
    have s2d: "s2 = open_session ?d" using trial Some by simp
    have "get_server db' = get_server ?d \<and> db_subscriptions db' = db_subscriptions ?d"
    proof (cases node)
      case None
      then show ?thesis using refresh s2d run(2) by simp
    next
      case (Some n)
      then have "same_but_nodes db' ?d" using refresh s2d run(2) by simp
      from same_but_nodes_rows [OF this] show ?thesis by simp
    qed
    moreover have "get_server ?d new_id = Some (apply_plan_limits_to_server pl (?new\<lparr>srv_mc_config := rc\<rparr>))"
      using row by (simp add: get_server_upd_server apply_plan_limits_to_server_def) (simp add: get_server_def)
    ultimately have db': "get_server db' new_id = Some (apply_plan_limits_to_server pl (?new\<lparr>srv_mc_config := rc\<rparr>))"
      "db_subscriptions db' = db_subscriptions db @ [trial_subscription trial_id (env_now env) user_id new_id pl]"
      using subs by simp_all
    have "apply_plan_limits_to_server pl = id \<or> (\<exists>pl'. apply_plan_limits_to_server pl = apply_plan_limits_to_server pl')"
      by blast
    from final [OF db'(1) this] show ?thesis using db'(2) Some sid p q by auto
  qed
qed

definition create_sample :: create_request where
  "create_sample = \<lparr>cs_world_name = ''w'', cs_flavor = ServerFlavor.BEDROCK, cs_mc_version = None, cs_config = []\<rparr>"

theorem creation_commits_witness:
  "run_request (create_server default_settings sample_env True 77 78 1 create_sample) (sample_db\<lparr>db_nodes := []\<rparr>) =
     (Inr 77, sample_db\<lparr>db_nodes := []\<rparr>)"
proof -
  let ?m = "create_server default_settings sample_env True 77 78 1 create_sample" and ?db = "sample_db\<lparr>db_nodes := []\<rparr>"
  have "fst (run_request ?m ?db) = Inr 77" by code_simp
  then have run: "run_request ?m ?db = (Inr 77, snd (run_request ?m ?db))" by (simp add: prod_eq_iff)
  have "constraints_ok ?db" "77 \<notin> srv_id ` set (db_servers ?db)" by code_simp+
  moreover have "select_best_node default_settings (env_now sample_env) ?db 0 NodeTier.shared = None"
    "free_plan ?db = None" by code_simp+
  ultimately have "snd (run_request ?m ?db) = ?db"
    using creation_commits [OF run] by simp
  with run show ?thesis by simp
qed

end
