(* ===== verification/Rebalancer.thy ===== *)
theory Rebalancer
  imports Lifecycle Windows
begin

text \<open>
  \<open>services/node_rebalancer.py\<close> and \<open>api/servers_migration.py\<close>: rescuing servers from dead nodes,
  consolidating and relieving nodes by migrating one server per cycle, and shutting down idle nodes;
  and the migration a user asks for.  Both migrations and both rebalancing choices pick the node
  with the most free RAM and are instances of \<open>node_choice\<close>.
\<close>

section \<open>Environment\<close>

text \<open>
  What a migration meets beside the runtime: the date functions, the cloud, the object store and
  the agents.  A stop of the old process that fails is only logged, so it has no parameter.
\<close>

record migration_env =
  mig_start :: start_env
  mig_fromisoformat :: "string \<Rightarrow> instant option"
  mig_isoformat :: "instant \<Rightarrow> string"
  mig_cloud_stop :: "node \<Rightarrow> bool"
  mig_s3_configured :: bool
  mig_backup :: "uuid \<Rightarrow> node \<Rightarrow> bool"
  mig_restore :: "uuid \<Rightarrow> node \<Rightarrow> bool"

abbreviation mig_now :: "migration_env \<Rightarrow> instant" where
  "mig_now env \<equiv> env_now (mig_start env)"

section \<open>Queries\<close>

definition node_active_ram_mb :: "settings \<Rightarrow> instant \<Rightarrow> database \<Rightarrow> uuid \<Rightarrow> int" where
  "node_active_ram_mb cfg now db node_id =
     servers_ram cfg now db [ServerState.running, ServerState.provisioning, ServerState.syncing] node_id +
     deployments_ram db node_id"

definition free_ram :: "settings \<Rightarrow> instant \<Rightarrow> database \<Rightarrow> node \<Rightarrow> int" where
  "free_ram cfg now db node = nd_total_ram_mb node - node_active_ram_mb cfg now db (nd_id node)"

text \<open>
  Whether \<open>_node_active_ram_ratio\<close> is below a percentage.  The ratio is a float; both sides are
  compared exactly here, which gives the same answer, because a quotient of two integers below
  \<open>2 ^ 40\<close> that is not the hundredth itself differs from it by far more than a float's rounding.
\<close>

definition node_ratio_below :: "settings \<Rightarrow> instant \<Rightarrow> database \<Rightarrow> node \<Rightarrow> int \<Rightarrow> bool" where
  "node_ratio_below cfg now db node percent \<longleftrightarrow>
     (if nd_total_ram_mb node \<le> 0 then 100 < percent
      else 100 * node_active_ram_mb cfg now db (nd_id node) < percent * nd_total_ram_mb node)"

definition NODE_OVERLOADED_PERCENT :: int where
  "NODE_OVERLOADED_PERCENT = 85"

definition healthy_online_nodes :: "instant \<Rightarrow> session \<Rightarrow> node list" where
  "healthy_online_nodes now s =
     filter (is_node_heartbeat_fresh now) (query_nodes (\<lambda>n. nd_status n = NodeState.online) s)"

text \<open>A query of servers in the order of their last activity.\<close>

definition query_least_active :: "(server \<Rightarrow> bool) \<Rightarrow> session \<Rightarrow> server list" where
  "query_least_active p s =
     map (\<lambda>r. case get_server (ses_objects s) (srv_id r) of None \<Rightarrow> r | Some r' \<Rightarrow> r')
       (sort_key srv_last_activity (filter p (db_servers (ses_flushed s))))"

definition running_servers_on_node :: "uuid \<Rightarrow> session \<Rightarrow> server list" where
  "running_servers_on_node node_id =
     query_least_active (\<lambda>r. srv_node_id r = Some node_id \<and> srv_state r = ServerState.running)"

definition all_servers_on_node :: "uuid \<Rightarrow> session \<Rightarrow> server list" where
  "all_servers_on_node node_id = query_least_active (\<lambda>r. srv_node_id r = Some node_id)"

section \<open>Choosing a target\<close>

definition consolidation_target ::
  "settings \<Rightarrow> instant \<Rightarrow> database \<Rightarrow> uuid \<Rightarrow> int \<Rightarrow> node list \<Rightarrow> node option" where
  "consolidation_target cfg now db source_id server_ram candidates =
     fst (best_loop (\<lambda>n. nd_id n \<noteq> source_id \<and> free_ram cfg now db n \<ge> server_ram)
            (free_ram cfg now db) candidates None (- 1))"

definition overflow_target :: "settings \<Rightarrow> instant \<Rightarrow> database \<Rightarrow> uuid \<Rightarrow> node list \<Rightarrow> node option" where
  "overflow_target cfg now db node_id candidates =
     fst (best_loop (\<lambda>n. nd_id n \<noteq> node_id \<and> node_ratio_below cfg now db n NODE_OVERLOADED_PERCENT)
            (free_ram cfg now db) candidates None (- 1))"

text \<open>The user's migration goes by the recorded figure and asks for no fresh heartbeat.\<close>

definition recorded_free :: "node \<Rightarrow> int" where
  "recorded_free n = nd_total_ram_mb n - nd_used_ram_mb n"

definition migration_target :: "int \<Rightarrow> node list \<Rightarrow> node option" where
  "migration_target needed candidates =
     fst (best_loop (\<lambda>n. recorded_free n \<ge> needed) recorded_free candidates None (- 1))"

section \<open>Migrating a server\<close>

definition place_on :: "node \<Rightarrow> server \<Rightarrow> server" where
  "place_on node r = r\<lparr>srv_node_id := Some (nd_id node), srv_vm_ipv4 := Some (nd_ip_address node)\<rparr>"

definition set_port :: "int \<Rightarrow> server \<Rightarrow> server" where
  "set_port p r = r\<lparr>srv_vm_port := p\<rparr>"

definition start_migrated :: "settings \<Rightarrow> migration_env \<Rightarrow> uuid \<Rightarrow> unit op" where
  "start_migrated cfg env sid =
     bind_op (do_start_server cfg (mig_start env) sid) (\<lambda>_.
     bind_op (set_server sid (mark_server_migrated (mig_isoformat env) (mig_now env))) (\<lambda>_. commit_op))"

text \<open>Starting on the new node a server that was running.\<close>

definition finish_migration :: "settings \<Rightarrow> migration_env \<Rightarrow> uuid \<Rightarrow> bool \<Rightarrow> bool op" where
  "finish_migration cfg env sid was_running =
     (if was_running then
        catch_op (bind_op (start_migrated cfg env sid) (\<lambda>_. return_op True)) (\<lambda>_. return_op False)
      else
        bind_op (set_server sid (\<lambda>r. mark_server_migrated (mig_isoformat env) (mig_now env) (suspend_server r))) (\<lambda>_.
        bind_op commit_op (\<lambda>_. return_op True)))"

text \<open>Reassigning \<open>server\<close>, as it was before, with a fresh port on the new node.\<close>

definition reassign_server :: "settings \<Rightarrow> migration_env \<Rightarrow> uuid \<Rightarrow> node \<Rightarrow> server \<Rightarrow> bool op" where
  "reassign_server cfg env sid to_node server =
     bind_op (set_server sid (place_on to_node)) (\<lambda>_.
     bind_op (get_op (\<lambda>s. allocate_port (env_net (mig_start env)) cfg (ses_flushed s) (srv_flavor server)
         (Some (nd_id to_node)))) (\<lambda>port.
     case port of
       Inl e \<Rightarrow>
         bind_op (set_server sid (\<lambda>r. r\<lparr>srv_node_id := srv_node_id server, srv_vm_ipv4 := srv_vm_ipv4 server\<rparr>)) (\<lambda>_.
         bind_op commit_op (\<lambda>_. return_op False))
     | Inr p \<Rightarrow>
         bind_op (set_server sid (set_port p)) (\<lambda>_.
         bind_op commit_op (\<lambda>_. finish_migration cfg env sid (srv_state server = ServerState.running)))))"

text \<open>\<open>_migrate_server\<close>; the caller records a migration when the result is true.\<close>

definition migrate_server :: "settings \<Rightarrow> migration_env \<Rightarrow> uuid \<Rightarrow> node \<Rightarrow> bool op" where
  "migrate_server cfg env sid to_node = with_server sid (\<lambda>server.
     bind_op (set_server sid suspend_server) (\<lambda>_.
     bind_op commit_op (\<lambda>_. reassign_server cfg env sid to_node server)))"

fun pick_migratable_server :: "settings \<Rightarrow> migration_env \<Rightarrow> server list \<Rightarrow> server option" where
  "pick_migratable_server cfg env [] = None"
| "pick_migratable_server cfg env (server # servers) =
     (if server_in_migration_cooldown (mig_fromisoformat env) cfg (mig_now env) server
      then pick_migratable_server cfg env servers else Some server)"

section \<open>Phase 0: rescue\<close>

text \<open>The result counts the servers rescued, as the code counts them.\<close>

fun rescue_loop :: "settings \<Rightarrow> migration_env \<Rightarrow> node \<Rightarrow> uuid list \<Rightarrow> nat \<Rightarrow> nat op" where
  "rescue_loop cfg env online_node [] rescued = return_op rescued"
| "rescue_loop cfg env online_node (sid # sids) rescued = with_server sid (\<lambda>server.
     bind_op (set_server sid (place_on online_node)) (\<lambda>_.
     bind_op (get_op (\<lambda>s. allocate_port (env_net (mig_start env)) cfg (ses_flushed s) (srv_flavor server)
         (Some (nd_id online_node)))) (\<lambda>port.
     case port of
       Inl e \<Rightarrow> bind_op (modify_op rollback) (\<lambda>_. rescue_loop cfg env online_node sids rescued)
     | Inr p \<Rightarrow>
         bind_op (set_server sid (set_port p)) (\<lambda>_.
         bind_op flush_op (\<lambda>_. rescue_loop cfg env online_node sids (rescued + 1))))))"

definition offline_node_ids :: "session \<Rightarrow> uuid list" where
  "offline_node_ids s = map nd_id (query_nodes (\<lambda>n. nd_status n \<noteq> NodeState.online) s)"

definition orphaned_servers :: "session \<Rightarrow> uuid list" where
  "orphaned_servers s =
     map srv_id (query_servers (\<lambda>r. case srv_node_id r of None \<Rightarrow> True
       | Some i \<Rightarrow> i \<in> set (offline_node_ids s)) s)"

definition orphaned_deployments :: "session \<Rightarrow> uuid list" where
  "orphaned_deployments s =
     map dep_id (query_deployments (\<lambda>d. case dep_node_id d of None \<Rightarrow> True
       | Some i \<Rightarrow> i \<in> set (offline_node_ids s)) s)"

definition rescue_servers :: "settings \<Rightarrow> migration_env \<Rightarrow> node \<Rightarrow> unit op" where
  "rescue_servers cfg env online_node =
     bind_op (get_op orphaned_servers) (\<lambda>orphaned.
     bind_op (rescue_loop cfg env online_node orphaned 0) (\<lambda>rescued.
     if rescued > 0 then commit_op else return_op ()))"

definition move_deployments :: "uuid \<Rightarrow> uuid list \<Rightarrow> unit op" where
  "move_deployments node_id ids =
     for_op (\<lambda>i. modify_op (set_objects (upd_deployment i (\<lambda>d. d\<lparr>dep_node_id := Some node_id\<rparr>)))) ids"

definition rescue_deployments :: "node \<Rightarrow> unit op" where
  "rescue_deployments online_node =
     bind_op (get_op orphaned_deployments) (\<lambda>orphaned_deps.
     if orphaned_deps = [] then return_op ()
     else bind_op (move_deployments (nd_id online_node) orphaned_deps) (\<lambda>_. commit_op))"

section \<open>Phases 1 and 2: migrations\<close>

text \<open>A phase lets the cycle go on, or ends it, with a migration to record or without.\<close>

datatype phase_outcome = Proceed | Finish bool

fun consolidate_loop ::
  "settings \<Rightarrow> migration_env \<Rightarrow> node \<Rightarrow> node list \<Rightarrow> server list \<Rightarrow> phase_outcome op" where
  "consolidate_loop cfg env source_node nodes [] = return_op Proceed"
| "consolidate_loop cfg env source_node nodes (server # servers) =
     (if server_in_migration_cooldown (mig_fromisoformat env) cfg (mig_now env) server
      then consolidate_loop cfg env source_node nodes servers
      else bind_op (get_op (\<lambda>s. consolidation_target cfg (mig_now env) (ses_flushed s) (nd_id source_node)
             (server_ram_mb cfg (mig_now env) (ses_flushed s) server) nodes)) (\<lambda>target.
        case target of
          None \<Rightarrow> consolidate_loop cfg env source_node nodes servers
        | Some t \<Rightarrow> bind_op (migrate_server cfg env (srv_id server) t) (\<lambda>b. return_op (Finish b))))"

definition consolidate :: "settings \<Rightarrow> migration_env \<Rightarrow> node list \<Rightarrow> phase_outcome op" where
  "consolidate cfg env nodes =
     bind_op (get_op (\<lambda>s. sort_key (\<lambda>n. node_active_ram_mb cfg (mig_now env) (ses_flushed s) (nd_id n)) nodes))
       (\<lambda>sorted_nodes.
     case sorted_nodes of
       [] \<Rightarrow> return_op Proceed
     | source_node # _ \<Rightarrow>
         bind_op (get_op (running_servers_on_node (nd_id source_node)))
           (consolidate_loop cfg env source_node sorted_nodes))"

fun relieve_loop :: "settings \<Rightarrow> migration_env \<Rightarrow> node list \<Rightarrow> node list \<Rightarrow> phase_outcome op" where
  "relieve_loop cfg env nodes [] = return_op Proceed"
| "relieve_loop cfg env nodes (node # rest) =
     bind_op (get_op (\<lambda>s. node_ratio_below cfg (mig_now env) (ses_flushed s) node NODE_OVERLOADED_PERCENT)) (\<lambda>below.
     if below then relieve_loop cfg env nodes rest
     else bind_op (get_op (\<lambda>s. overflow_target cfg (mig_now env) (ses_flushed s) (nd_id node) nodes)) (\<lambda>target.
       case target of
         None \<Rightarrow> bind_op (wake_node (mig_start env)) (\<lambda>_. return_op (Finish False))
       | Some t \<Rightarrow>
           bind_op (get_op (\<lambda>s. pick_migratable_server cfg env (running_servers_on_node (nd_id node) s))) (\<lambda>victim.
           case victim of
             None \<Rightarrow> relieve_loop cfg env nodes rest
           | Some v \<Rightarrow> bind_op (migrate_server cfg env (srv_id v) t) (\<lambda>b. return_op (Finish b)))))"

section \<open>Phase 3: shutdown\<close>

text \<open>The result is whether every server got a port on the target.\<close>

fun reassign_loop :: "settings \<Rightarrow> migration_env \<Rightarrow> node \<Rightarrow> uuid list \<Rightarrow> bool op" where
  "reassign_loop cfg env target_node [] = return_op True"
| "reassign_loop cfg env target_node (sid # sids) = with_server sid (\<lambda>server.
     bind_op (set_server sid (place_on target_node)) (\<lambda>_.
     bind_op (get_op (\<lambda>s. allocate_port (env_net (mig_start env)) cfg (ses_flushed s) (srv_flavor server)
         (Some (nd_id target_node)))) (\<lambda>port.
     case port of
       Inl e \<Rightarrow> return_op False
     | Inr p \<Rightarrow>
         bind_op (set_server sid (set_port p)) (\<lambda>_.
         bind_op flush_op (\<lambda>_. reassign_loop cfg env target_node sids)))))"

definition node_has_workloads :: "uuid \<Rightarrow> session \<Rightarrow> bool" where
  "node_has_workloads node_id s \<longleftrightarrow>
     running_servers_on_node node_id s \<noteq> [] \<or>
     query_deployments (\<lambda>d. dep_node_id d = Some node_id \<and> dep_state d \<in> set ACTIVE_DEPLOYMENT_STATES) s \<noteq> []"

definition still_online :: "session \<Rightarrow> uuid \<Rightarrow> bool" where
  "still_online s i \<longleftrightarrow> (case get_node (ses_objects s) i of
     Some n \<Rightarrow> nd_status n = NodeState.online | None \<Rightarrow> False)"

definition remaining_nodes :: "uuid list \<Rightarrow> uuid \<Rightarrow> session \<Rightarrow> node list" where
  "remaining_nodes all_online node_id s =
     List.map_filter (get_node (ses_objects s)) (filter (\<lambda>i. still_online s i \<and> i \<noteq> node_id) all_online)"

definition power_off :: "migration_env \<Rightarrow> node \<Rightarrow> unit op" where
  "power_off env node =
     (if mig_cloud_stop env node then
        catch_op (bind_op (modify_op (set_objects (upd_node (nd_id node) (\<lambda>n. n\<lparr>nd_status := NodeState.offline\<rparr>))))
            (\<lambda>_. commit_op))
          (\<lambda>_. modify_op rollback)
      else modify_op rollback)"

definition empty_node :: "settings \<Rightarrow> migration_env \<Rightarrow> node \<Rightarrow> node \<Rightarrow> unit op" where
  "empty_node cfg env node target_node =
     bind_op (get_op (\<lambda>s. map srv_id (all_servers_on_node (nd_id node) s))) (\<lambda>suspended.
     bind_op (get_op (\<lambda>s. map dep_id (query_deployments (\<lambda>d. dep_node_id d = Some (nd_id node)) s))) (\<lambda>deps.
     bind_op (reassign_loop cfg env target_node suspended) (\<lambda>ok.
     bind_op (move_deployments (nd_id target_node) deps) (\<lambda>_.
     if ok then power_off env node else modify_op rollback))))"

definition has_instance :: "node \<Rightarrow> bool" where
  "has_instance node \<longleftrightarrow>
     (case (nd_provider node, nd_provider_instance_id node) of
        (Some p, Some i) \<Rightarrow> p \<noteq> [] \<and> i \<noteq> [] | _ \<Rightarrow> False)"

definition shutdown_node :: "settings \<Rightarrow> migration_env \<Rightarrow> uuid list \<Rightarrow> uuid \<Rightarrow> unit op" where
  "shutdown_node cfg env all_online node_id =
     bind_op (get_op (\<lambda>s. get_node (ses_objects s) node_id)) (\<lambda>found.
     case found of
       None \<Rightarrow> return_op ()
     | Some node \<Rightarrow>
         if \<not> has_instance node then return_op ()
         else bind_op (get_op (node_has_workloads node_id)) (\<lambda>busy.
           if busy then return_op ()
           else bind_op (get_op (remaining_nodes all_online node_id)) (\<lambda>remaining.
             case remaining of
               [] \<Rightarrow> return_op ()
             | target_node # _ \<Rightarrow> empty_node cfg env node target_node)))"

definition shutdown_phase :: "settings \<Rightarrow> migration_env \<Rightarrow> unit op" where
  "shutdown_phase cfg env =
     bind_op (get_op (\<lambda>s. map nd_id (query_nodes (\<lambda>n. nd_status n = NodeState.online) s))) (\<lambda>all_online.
     for_op (shutdown_node cfg env all_online) all_online)"

section \<open>The cycle\<close>

text \<open>The result is the new \<open>_migration_times\<close>; the session is the cycle's own.\<close>

definition relieve_and_shut_down ::
  "settings \<Rightarrow> migration_env \<Rightarrow> node list \<Rightarrow> instant list \<Rightarrow> instant list op" where
  "relieve_and_shut_down cfg env nodes recent =
     (let (allowed, recent) = can_run_migration_now cfg False (mig_now env) recent in
      bind_op (if allowed then relieve_loop cfg env nodes nodes else return_op Proceed) (\<lambda>outcome.
      case outcome of
        Finish b \<Rightarrow> return_op (if b then record_migration cfg (mig_now env) recent else recent)
      | Proceed \<Rightarrow> bind_op (shutdown_phase cfg env) (\<lambda>_. return_op recent)))"

definition rebalance_cycle :: "settings \<Rightarrow> migration_env \<Rightarrow> instant list \<Rightarrow> instant list op" where
  "rebalance_cycle cfg env recent =
     bind_op (get_op (healthy_online_nodes (mig_now env))) (\<lambda>nodes.
     case nodes of
       [] \<Rightarrow> return_op recent
     | online_node # others \<Rightarrow>
         bind_op (rescue_servers cfg env online_node) (\<lambda>_.
         bind_op (rescue_deployments online_node) (\<lambda>_.
         let (allowed, recent) = (if others = [] then (False, recent)
               else can_run_migration_now cfg False (mig_now env) recent)
         in bind_op (if allowed then consolidate cfg env nodes else return_op Proceed) (\<lambda>outcome.
            case outcome of
              Finish b \<Rightarrow> return_op (if b then record_migration cfg (mig_now env) recent else recent)
            | Proceed \<Rightarrow> relieve_and_shut_down cfg env nodes recent))))"

section \<open>The user's migration\<close>

definition migrate_checks :: "settings \<Rightarrow> migration_env \<Rightarrow> instant list \<Rightarrow> server \<Rightarrow> exn + unit" where
  "migrate_checks cfg env recent server =
     (if \<not> mig_s3_configured env then Inl (HTTPException 503)
      else if \<not> fst (can_run_migration_now cfg False (mig_now env) recent) then Inl (HTTPException 429)
      else if server_in_migration_cooldown (mig_fromisoformat env) cfg (mig_now env) server
      then Inl (HTTPException 429)
      else Inr ())"

definition migrate_error :: "exn \<Rightarrow> exn" where
  "migrate_error e = (case e of HTTPException c \<Rightarrow> HTTPException c | _ \<Rightarrow> HTTPException 503)"

definition restore_on :: "migration_env \<Rightarrow> uuid \<Rightarrow> node \<Rightarrow> node \<Rightarrow> unit op" where
  "restore_on env sid old_node new_node =
     (if mig_restore env sid new_node then return_op ()
      else bind_op (set_server sid (place_on old_node)) (\<lambda>_.
           bind_op commit_op (\<lambda>_. raise_op (HTTPException 502))))"

definition migrate_endpoint :: "settings \<Rightarrow> migration_env \<Rightarrow> instant list \<Rightarrow> uuid \<Rightarrow> instant list op" where
  "migrate_endpoint cfg env recent sid = with_server sid (\<lambda>server.
     bind_op (lift_op (migrate_checks cfg env recent server)) (\<lambda>_.
     bind_op (get_op (\<lambda>s. Option.bind (srv_node_id server) (get_node (ses_objects s)))) (\<lambda>old.
     case old of
       None \<Rightarrow> raise_op (HTTPException 400)
     | Some old_node \<Rightarrow>
         bind_op (set_server sid suspend_server) (\<lambda>_.
         bind_op commit_op (\<lambda>_.
         bind_op (require_op (mig_backup env sid old_node) (HTTPException 502)) (\<lambda>_.
         bind_op (get_op (\<lambda>s. migration_target (server_ram_mb cfg (mig_now env) (ses_flushed s) server)
             (query_nodes (\<lambda>n. nd_id n \<noteq> nd_id old_node \<and> nd_status n = NodeState.online) s))) (\<lambda>target.
         case target of
           None \<Rightarrow> raise_op (HTTPException 503)
         | Some new_node \<Rightarrow>
             bind_op (set_server sid (place_on new_node)) (\<lambda>_.
             bind_op commit_op (\<lambda>_.
             bind_op (restore_on env sid old_node new_node) (\<lambda>_.
             bind_op (catch_op (start_migrated cfg env sid) (\<lambda>e. raise_op (migrate_error e))) (\<lambda>_.
             return_op (record_migration cfg (mig_now env)
               (snd (can_run_migration_now cfg False (mig_now env) recent))))))))))))))"

section \<open>The choices meet the contract\<close>

lemma fst_best_loop:
  "fst (best_loop ok score ns None (- 1)) = Some n \<Longrightarrow>
     n \<in> set ns \<and> ok n \<and> 0 \<le> score n \<and> (\<forall>m \<in> set ns. ok m \<longrightarrow> score m \<le> score n)"
  "fst (best_loop ok score ns None (- 1)) = None \<Longrightarrow> m \<in> set ns \<Longrightarrow> ok m \<Longrightarrow> score m < 0"
  using best_loop_choice [of ok score ns] by (metis prod.collapse)+

interpretation consolidation: node_choice "consolidation_target cfg now db source_id server_ram"
  "\<lambda>n. nd_id n \<noteq> source_id \<and> free_ram cfg now db n \<ge> server_ram" "free_ram cfg now db" 0
  for cfg now db source_id server_ram
  unfolding consolidation_target_def by unfold_locales (rule fst_best_loop, assumption+)+

interpretation overflow: node_choice "overflow_target cfg now db node_id"
  "\<lambda>n. nd_id n \<noteq> node_id \<and> node_ratio_below cfg now db n NODE_OVERLOADED_PERCENT" "free_ram cfg now db" 0
  for cfg now db node_id
  unfolding overflow_target_def by unfold_locales (rule fst_best_loop, assumption+)+

interpretation migration: node_choice "migration_target needed" "\<lambda>n. recorded_free n \<ge> needed" recorded_free 0
  for needed
  unfolding migration_target_def by unfold_locales (rule fst_best_loop, assumption+)+

section \<open>Lemmas\<close>

lemma place_on_sel [simp]:
  "srv_id (place_on n r) = srv_id r" "srv_node_id (place_on n r) = Some (nd_id n)"
  "srv_state (place_on n r) = srv_state r" "srv_flavor (place_on n r) = srv_flavor r"
  "srv_id (set_port p r) = srv_id r" "srv_node_id (set_port p r) = srv_node_id r"
  "srv_state (set_port p r) = srv_state r"
  by (simp_all add: place_on_def set_port_def)

lemma mark_migrated_sel [simp]:
  "srv_id (mark_server_migrated fmt now r) = srv_id r"
  "srv_state (mark_server_migrated fmt now r) = srv_state r"
  by (simp_all add: mark_server_migrated_def)

lemma suspend_server_sel [simp]:
  "srv_id (suspend_server r) = srv_id r" "srv_state (suspend_server r) = ServerState.suspended"
  by (simp_all add: suspend_server_def)

subsection \<open>Failed migrations\<close>

abbreviation down_states :: "ServerState set" where
  "down_states \<equiv> {ServerState.suspended, ServerState.provisioning}"

text \<open>What follows the commit that suspends the server: until the last commit the server is down.\<close>

lemma start_migrated_pinned:
  "triple (pinned_both db sid down_states) (start_migrated cfg env sid)
     (\<lambda>_ _. True) (\<lambda>_. pinned_committed db sid down_states)"
  unfolding start_migrated_def
  by (rule triple_bind [OF pinned_do_start], simp, rule triple_bind [OF triple_keeps [OF pinned_ops(4)]],
      rule triple_commit) simp_all

lemma finish_migration_pinned:
  "triple (pinned_both db sid down_states) (finish_migration cfg env sid was_running)
     (\<lambda>b s. \<not> b \<longrightarrow> pinned_committed db sid down_states s) (\<lambda>_. pinned_committed db sid down_states)"
proof (cases was_running)
  case True
  then show ?thesis unfolding finish_migration_def
    by simp (rule triple_catch, rule triple_bind [OF start_migrated_pinned]; rule triple_return; simp)
next
  case False
  have "keeps (pinned_both db sid down_states)
      (set_server sid (\<lambda>r. mark_server_migrated (mig_isoformat env) (mig_now env) (suspend_server r)))"
    by (rule pinned_set_server) simp_all
  with False show ?thesis unfolding finish_migration_def
    by simp (rule triple_bind [OF keeps_both_triple], assumption,
        rule triple_bind [OF keeps_both_triple [OF pinned_ops(1)]], rule triple_return, simp)
qed

lemma reassign_server_pinned:
  "triple (pinned_both db sid down_states) (reassign_server cfg env sid to_node server)
     (\<lambda>b s. \<not> b \<longrightarrow> pinned_committed db sid down_states s) (\<lambda>_. pinned_committed db sid down_states)"
  (is "triple ?B _ ?Q ?R")
proof -
  have set: "triple ?B (set_server sid f) (\<lambda>_. ?B) ?R"
    if "\<And>r. srv_id (f r) = srv_id r" "\<And>r. srv_state (f r) = srv_state r" for f
    by (rule keeps_both_triple, rule pinned_set_server) (simp_all add: that)
  have com: "triple ?B commit_op (\<lambda>_. ?B) ?R" by (rule keeps_both_triple [OF pinned_ops(1)])
  have put_back: "triple ?B (bind_op (set_server sid f) (\<lambda>_. bind_op commit_op (\<lambda>_. return_op False))) ?Q ?R"
    if "\<And>r. srv_id (f r) = srv_id r" "\<And>r. srv_state (f r) = srv_state r" for f
    by (rule triple_bind [OF set [OF that]], rule triple_bind [OF com],
        rule triple_return) (simp add: pinned_both_committed)
  have go_on: "triple ?B (bind_op (set_server sid (set_port p)) (\<lambda>_. bind_op commit_op (\<lambda>_. finish_migration cfg env sid b))) ?Q ?R" for p b
    by (rule triple_bind [OF set]; (rule triple_bind [OF com finish_migration_pinned])?; simp)
  show ?thesis unfolding reassign_server_def
    by (rule triple_bind [OF set], simp, simp, rule triple_get_bind, rule triple_pre [of ?B])
      (auto split: sum.split intro: put_back go_on)
qed

subsection \<open>Rescues\<close>

lemma rescue_loop_append:
  "rescue_loop cfg env n (xs @ ys) k = bind_op (rescue_loop cfg env n xs k) (rescue_loop cfg env n ys)"
proof (induction xs arbitrary: k)
  case Nil
  then show ?case by simp
next
  case (Cons x xs)
  show ?case by (simp add: Cons.IH bind_op_assoc bind_with_server bind_case_sum cong: sum.case_cong)
qed

lemma rescue_loop_uncommitted: "keeps (\<lambda>s. ses_committed s = db) (rescue_loop cfg env n xs k)"
proof (induction xs arbitrary: k)
  case Nil
  show ?case unfolding rescue_loop.simps by (intro op_rules)
next
  case (Cons x xs)
  have "keeps (\<lambda>s. ses_committed s = db) flush_op" "keeps (\<lambda>s. ses_committed s = db) (modify_op rollback)"
    "keeps (\<lambda>s. ses_committed s = db) (set_server i f)" for i f
    by (rule keepsI; auto simp: op_defs flush_def split: sum.splits if_splits)+
  then show ?case unfolding rescue_loop.simps by (intro op_rules Cons.IH)
qed

subsection \<open>Shutdowns\<close>

text \<open>Nothing is left on a node.\<close>

definition vacated :: "database \<Rightarrow> uuid \<Rightarrow> bool" where
  "vacated db i \<longleftrightarrow>
     (\<forall>r \<in> set (db_servers db). srv_node_id r \<noteq> Some i) \<and>
     (\<forall>d \<in> set (db_deployments db). dep_node_id d \<noteq> Some i)"

text \<open>
  What the shutdown phase keeps, for the nodes that were online and the servers that were running
  when it began.
\<close>

definition node_online :: "database \<Rightarrow> uuid \<Rightarrow> bool" where
  "node_online db i \<longleftrightarrow> (\<exists>n. get_node db i = Some n \<and> nd_status n = NodeState.online)"

definition shutdown_safe :: "uuid set \<Rightarrow> server set \<Rightarrow> database \<Rightarrow> bool" where
  "shutdown_safe up busy db \<longleftrightarrow>
     distinct (map srv_id (db_servers db)) \<and>
     (\<forall>i \<in> up. node_online db i \<or> vacated db i) \<and>
     (\<exists>i \<in> up. node_online db i) \<and>
     (\<forall>r \<in> busy. r \<in> set (db_servers db) \<and> srv_state r = ServerState.running)"

text \<open>The state while the servers with the ids \<open>ids\<close> are still to be moved off a node.\<close>

definition moving :: "database \<Rightarrow> uuid \<Rightarrow> uuid \<Rightarrow> uuid set \<Rightarrow> session \<Rightarrow> bool" where
  "moving db node_id target ids s \<longleftrightarrow>
     ses_committed s = db \<and> db_nodes (ses_objects s) = db_nodes db \<and>
     db_deployments (ses_objects s) = db_deployments db \<and>
     map srv_id (db_servers (ses_objects s)) = map srv_id (db_servers db) \<and>
     (\<forall>r \<in> set (db_servers (ses_objects s)).
        srv_node_id r = Some node_id \<and> srv_id r \<in> ids \<or>
        srv_node_id r \<noteq> Some node_id \<and>
          (srv_node_id r = Some target \<or> srv_node_id r \<in> srv_node_id ` set (db_servers db))) \<and>
     (\<forall>r \<in> set (db_servers db). srv_node_id r \<noteq> Some node_id \<longrightarrow> r \<in> set (db_servers (ses_objects s)))"

lemma modify_row_off:
  "key r \<noteq> k \<Longrightarrow> r \<in> set rows \<Longrightarrow> r \<in> set (modify_row key k f rows)"
  by (auto simp: modify_row_def image_iff)

lemma in_modify_rowE:
  assumes "r \<in> set (modify_row key k f rows)"
  obtains "r \<in> set rows" "key r \<noteq> k" | r0 where "r0 \<in> set rows" "key r0 = k" "r = f r0"
  using assms by (auto simp: modify_row_def split: if_splits)

lemma moving_update:
  assumes "moving db node_id target ids s" "\<And>r. srv_id (f r) = srv_id r"
    and off: "\<forall>r \<in> set (db_servers db). srv_node_id r \<noteq> Some node_id \<longrightarrow> srv_id r \<noteq> sid"
    and rows: "\<And>r. r \<in> set (modify_row srv_id sid f (db_servers (ses_objects s))) \<Longrightarrow>
      srv_node_id r = Some node_id \<and> srv_id r \<in> ids' \<or>
      srv_node_id r \<noteq> Some node_id \<and>
        (srv_node_id r = Some target \<or> srv_node_id r \<in> srv_node_id ` set (db_servers db))"
  shows "moving db node_id target ids' (set_objects (upd_server sid f) s)"
proof -
  have "map srv_id (modify_row srv_id sid f (db_servers (ses_objects s))) = map srv_id (db_servers db)"
    using assms(1,2) by (simp add: moving_def map_key_modify_row)
  moreover have "r \<in> set (modify_row srv_id sid f (db_servers (ses_objects s)))"
    if "r \<in> set (db_servers db)" "srv_node_id r \<noteq> Some node_id" for r
    using that off assms(1) by (intro modify_row_off) (auto simp: moving_def)
  ultimately show ?thesis using assms(1) rows by (simp add: moving_def)
qed

lemma moving_place:
  assumes "moving db node_id (nd_id target) (insert sid ids) s" "nd_id target \<noteq> node_id"
    "\<forall>r \<in> set (db_servers db). srv_node_id r \<noteq> Some node_id \<longrightarrow> srv_id r \<noteq> sid"
  shows "moving db node_id (nd_id target) ids (set_objects (upd_server sid (place_on target)) s)"
proof (rule moving_update [OF assms(1) _ assms(3)])
  fix r assume "r \<in> set (modify_row srv_id sid (place_on target) (db_servers (ses_objects s)))"
  then show "srv_node_id r = Some node_id \<and> srv_id r \<in> ids \<or>
      srv_node_id r \<noteq> Some node_id \<and>
        (srv_node_id r = Some (nd_id target) \<or> srv_node_id r \<in> srv_node_id ` set (db_servers db))"
  proof (cases rule: in_modify_rowE)
    case 1
    with assms(1) show ?thesis unfolding moving_def by blast
  qed (use assms(2) in simp)
qed simp

lemma moving_port:
  assumes "moving db node_id target ids s"
    "\<forall>r \<in> set (db_servers db). srv_node_id r \<noteq> Some node_id \<longrightarrow> srv_id r \<noteq> sid"
  shows "moving db node_id target ids (set_objects (upd_server sid (set_port p)) s)"
proof (rule moving_update [OF assms(1) _ assms(2)])
  fix r assume "r \<in> set (modify_row srv_id sid (set_port p) (db_servers (ses_objects s)))"
  then obtain r0 where "r0 \<in> set (db_servers (ses_objects s))" "srv_id r = srv_id r0" "srv_node_id r = srv_node_id r0"
    by (elim in_modify_rowE) auto
  with assms(1) show "srv_node_id r = Some node_id \<and> srv_id r \<in> ids \<or>
      srv_node_id r \<noteq> Some node_id \<and>
        (srv_node_id r = Some target \<or> srv_node_id r \<in> srv_node_id ` set (db_servers db))"
    unfolding moving_def by metis
qed simp

lemma moving_flush [simp]: "moving db i t ids (s\<lparr>ses_flushed := d\<rparr>) = moving db i t ids s"
  by (simp add: moving_def)

lemma triple_case_sum:
  "(\<And>e. triple P (f e) Q R) \<Longrightarrow> (\<And>a. triple P (g a) Q R) \<Longrightarrow> triple P (case x of Inl e \<Rightarrow> f e | Inr a \<Rightarrow> g a) Q R"
  by (cases x) simp_all

lemma moving_committed: "moving db i t ids s \<Longrightarrow> ses_committed s = db"
  unfolding moving_def by blast

lemma reassign_loop_moving:
  assumes "nd_id target \<noteq> node_id"
    "\<forall>r \<in> set (db_servers db). srv_node_id r \<noteq> Some node_id \<longrightarrow> srv_id r \<notin> set ids"
  shows "triple (moving db node_id (nd_id target) (set ids)) (reassign_loop cfg env target ids)
    (\<lambda>ok s. ses_committed s = db \<and> (ok \<longrightarrow> moving db node_id (nd_id target) {} s))
    (\<lambda>_ s. ses_committed s = db)"
  using assms(2)
proof (induction ids)
  case Nil
  show ?case unfolding reassign_loop.simps by (rule triple_return) (use moving_committed in auto)
next
  case (Cons sid ids)
  let ?M = "moving db node_id (nd_id target)" and ?Q = "\<lambda>ok s. ses_committed s = db \<and> (ok \<longrightarrow> moving db node_id (nd_id target) {} s)"
  let ?R = "\<lambda>(_::exn) s. ses_committed s = db"
  note com = moving_committed [of db node_id "nd_id target"]
  have off: "\<forall>r \<in> set (db_servers db). srv_node_id r \<noteq> Some node_id \<longrightarrow> srv_id r \<noteq> sid"
    using Cons.prems by auto
  have place: "triple (?M (set (sid # ids))) (set_server sid (place_on target)) (\<lambda>_. ?M (set ids)) ?R"
    by (rule triple_set_server, rule moving_place [OF _ assms(1) off]) (simp only: list.set)
  have port: "triple (?M (set ids)) (set_server sid (set_port p)) (\<lambda>_. ?M (set ids)) ?R" for p
    by (rule triple_set_server) (rule moving_port [OF _ off])
  have flush: "triple (?M (set ids)) flush_op (\<lambda>_. ?M (set ids)) ?R"
    by (rule triple_flush, simp only: moving_flush, erule com)
  have rest: "triple (?M (set ids)) (reassign_loop cfg env target ids) ?Q ?R"
    by (rule Cons.IH) (use Cons.prems in simp)
  have go_on: "triple (?M (set ids)) (bind_op (set_server sid (set_port p)) (\<lambda>_. bind_op flush_op
      (\<lambda>_. reassign_loop cfg env target ids))) ?Q ?R" for p
    by (rule triple_bind [OF port triple_bind [OF flush rest]])
  have stop: "triple (?M (set ids)) (return_op False) ?Q ?R"
    by (rule triple_return) (blast intro: com)
  show ?case unfolding reassign_loop.simps
  proof (rule triple_with_server)
    show "\<And>s. ?M (set (sid # ids)) s \<Longrightarrow> ses_committed s = db" by (rule com)
    fix r
    show "triple (\<lambda>s. ?M (set (sid # ids)) s \<and> get_server (ses_objects s) sid = Some r)
      (bind_op (set_server sid (place_on target)) (\<lambda>_.
       bind_op (get_op (\<lambda>s. allocate_port (env_net (mig_start env)) cfg (ses_flushed s) (srv_flavor r)
         (Some (nd_id target)))) (\<lambda>port.
       case port of Inl e \<Rightarrow> return_op False
       | Inr p \<Rightarrow> bind_op (set_server sid (set_port p)) (\<lambda>_.
           bind_op flush_op (\<lambda>_. reassign_loop cfg env target ids))))) ?Q ?R"
      by (rule triple_pre, rule triple_bind [OF place], rule triple_get_bind, rule triple_case_sum,
          rule triple_pre, rule stop, blast, rule triple_pre, rule go_on, blast, blast)
  qed
qed

lemma move_deployments_eq:
  "move_deployments t ids s = (Inr (), set_objects (\<lambda>db. db\<lparr>db_deployments :=
     map (\<lambda>d. if dep_id d \<in> set ids then d\<lparr>dep_node_id := Some t\<rparr> else d) (db_deployments db)\<rparr>) s)"
proof (induction ids arbitrary: s)
  case Nil
  show ?case by (simp add: move_deployments_def return_op_def set_objects_def)
next
  case (Cons i ids)
  show ?case using Cons.IH
    by (simp add: move_deployments_def bind_op_def modify_op_def set_objects_def upd_deployment_def
        modify_row_def comp_def)
qed

lemma moved_off_is_safe:
  assumes safe: "shutdown_safe up busy db" and moving: "moving db i t {} s"
    and t: "t \<in> up" "node_online db t" "t \<noteq> i" and busy: "\<forall>r \<in> busy. srv_node_id r \<noteq> Some i"
    and deps: "\<forall>d \<in> set (db_deployments db). dep_node_id d = Some i \<longrightarrow> dep_id d \<in> ids"
  shows "shutdown_safe up busy (upd_node i (\<lambda>n. n\<lparr>nd_status := NodeState.offline\<rparr>)
    ((ses_objects s)\<lparr>db_deployments :=
      map (\<lambda>d. if dep_id d \<in> ids then d\<lparr>dep_node_id := Some t\<rparr> else d) (db_deployments (ses_objects s))\<rparr>))"
    (is "shutdown_safe up busy ?db'")
proof -
  have servers: "db_servers ?db' = db_servers (ses_objects s)" by simp
  have deployments: "db_deployments ?db' =
      map (\<lambda>d. if dep_id d \<in> ids then d\<lparr>dep_node_id := Some t\<rparr> else d) (db_deployments db)"
    using moving by (simp add: moving_def)
  have online: "node_online ?db' j" if "node_online db j" "j \<noteq> i" for j
  proof -
    have "get_node ?db' j = get_node (ses_objects s) j"
      using that(2) by (simp add: get_node_upd_node) (simp add: get_node_def)
    with that(1) moving show ?thesis by (simp add: node_online_def moving_def get_node_def)
  qed
  have "vacated ?db' i"
    using moving deps t(3) by (auto simp: vacated_def servers deployments moving_def)
  moreover have "vacated ?db' j" if "vacated db j" "j \<noteq> t" for j
    using moving that by (auto simp: vacated_def servers deployments moving_def)
  moreover have "node_online ?db' j \<or> vacated ?db' j" if "j \<in> up" for j
    using safe that online calculation t by (cases "node_online db j"; cases "j = i"; auto simp: shutdown_safe_def)
  ultimately show ?thesis
    using safe moving busy t online [OF t(2,3)] unfolding shutdown_safe_def servers
    by (auto simp: moving_def)
qed

lemma all_servers_ids:
  "set (map srv_id (all_servers_on_node i s)) =
     srv_id ` {r \<in> set (db_servers (ses_flushed s)). srv_node_id r = Some i}"
proof -
  have "srv_id (case get_server (ses_objects s) (srv_id r) of None \<Rightarrow> r | Some r' \<Rightarrow> r') = srv_id r" for r
    by (auto split: option.split dest: get_server_SomeD)
  then show ?thesis
    by (simp add: all_servers_on_node_def query_least_active_def comp_def image_image)
qed

lemma query_deployments_ids:
  "set (map dep_id (query_deployments p s)) = dep_id ` {d \<in> set (db_deployments (ses_flushed s)). p d}"
proof -
  have "dep_id (case get_deployment (ses_objects s) (dep_id d) of None \<Rightarrow> d | Some d' \<Rightarrow> d') = dep_id d" for d
    by (auto split: option.split simp: get_deployment_def dest: get_row_SomeD)
  then show ?thesis
    by (simp add: query_deployments_def comp_def image_image)
qed

abbreviation settled :: "uuid set \<Rightarrow> server set \<Rightarrow> session \<Rightarrow> bool" where
  "settled up busy s \<equiv> s = open_session (ses_committed s) \<and> shutdown_safe up busy (ses_committed s)"

abbreviation committed_safe :: "uuid set \<Rightarrow> server set \<Rightarrow> exn \<Rightarrow> session \<Rightarrow> bool" where
  "committed_safe up busy e s \<equiv> shutdown_safe up busy (ses_committed s)"

lemma rollback_settled:
  "shutdown_safe up busy db \<Longrightarrow>
   triple (\<lambda>s. ses_committed s = db) (modify_op rollback) (\<lambda>_. settled up busy) (committed_safe up busy)"
  by (rule triple_modify) (simp add: rollback_def)

lemma power_off_safe:
  assumes "shutdown_safe up busy db"
  shows "triple (\<lambda>s. ses_committed s = db \<and>
      shutdown_safe up busy (upd_node (nd_id node) (\<lambda>n. n\<lparr>nd_status := NodeState.offline\<rparr>) (ses_objects s)))
    (power_off env node) (\<lambda>_. settled up busy) (committed_safe up busy)" (is "triple ?P _ ?Q ?R")
proof -
  let ?off = "modify_op (set_objects (upd_node (nd_id node) (\<lambda>n. n\<lparr>nd_status := NodeState.offline\<rparr>)))"
  let ?P1 = "\<lambda>s. ses_committed s = db \<and> shutdown_safe up busy (ses_objects s)"
  have "triple ?P ?off (\<lambda>_. ?P1) (\<lambda>_ s. ses_committed s = db)" by (rule triple_modify) simp
  moreover have "triple ?P1 commit_op ?Q (\<lambda>_ s. ses_committed s = db)" by (rule triple_commit) simp_all
  ultimately have "triple ?P (bind_op ?off (\<lambda>_. commit_op)) ?Q (\<lambda>_ s. ses_committed s = db)"
    by (rule triple_bind)
  then have on: "triple ?P (catch_op (bind_op ?off (\<lambda>_. commit_op)) (\<lambda>_. modify_op rollback)) ?Q ?R"
    by (rule triple_catch) (rule rollback_settled [OF assms])
  have "triple ?P (modify_op rollback) ?Q ?R"
    by (rule triple_pre [OF rollback_settled [OF assms]]) simp
  with on show ?thesis by (simp add: power_off_def)
qed

lemma empty_node_safe:
  assumes safe: "shutdown_safe up busy db"
    and t: "nd_id target \<in> up" "node_online db (nd_id target)" "nd_id target \<noteq> nd_id node"
    and busy: "\<forall>r \<in> busy. srv_node_id r \<noteq> Some (nd_id node)"
  shows "triple (\<lambda>s. s = open_session db) (empty_node cfg env node target)
    (\<lambda>_. settled up busy) (committed_safe up busy)" (is "triple _ _ ?Q ?R")
proof -
  let ?i = "nd_id node" and ?t = "nd_id target" and ?s0 = "open_session db"
  let ?sids = "map srv_id (all_servers_on_node ?i ?s0)"
  let ?dids = "map dep_id (query_deployments (\<lambda>d. dep_node_id d = Some ?i) ?s0)"
  let ?M = "\<lambda>ok s. ses_committed s = db \<and> (ok \<longrightarrow> moving db ?i ?t {} s)"
  let ?P = "\<lambda>ok s. ses_committed s = db \<and> (ok \<longrightarrow> shutdown_safe up busy
      (upd_node ?i (\<lambda>n. n\<lparr>nd_status := NodeState.offline\<rparr>) (ses_objects s)))"
  have dist: "distinct (map srv_id (db_servers db))" using safe by (simp add: shutdown_safe_def)
  have off: "srv_id r \<notin> set ?sids" if "r \<in> set (db_servers db)" "srv_node_id r \<noteq> Some ?i" for r
    using that dist unfolding all_servers_ids by (auto simp: distinct_map inj_on_def)
  have "moving db ?i ?t (set ?sids) ?s0"
    unfolding moving_def all_servers_ids by auto
  then have loop: "triple (\<lambda>s. s = ?s0) (reassign_loop cfg env target ?sids) ?M ?R"
    by - (rule triple_weaken [OF reassign_loop_moving [OF t(3), of db ?sids cfg env]], use off safe in auto)
  have deps: "\<forall>d \<in> set (db_deployments db). dep_node_id d = Some ?i \<longrightarrow> dep_id d \<in> set ?dids"
    unfolding query_deployments_ids by auto
  have moved: "triple (?M ok) (move_deployments ?t ?dids) (\<lambda>_. ?P ok) ?R" for ok
    using moved_off_is_safe [OF safe _ t busy deps]
    by (intro tripleI) (auto simp: move_deployments_eq)
  have finish: "triple (?P ok) (if ok then power_off env node else modify_op rollback) ?Q ?R" for ok
  proof (cases ok)
    case True
    then show ?thesis by (simp add: power_off_safe [OF safe])
  next
    case False
    then show ?thesis by (simp add: rollback_settled [OF safe])
  qed
  have "triple (\<lambda>s. s = ?s0) (bind_op (reassign_loop cfg env target ?sids) (\<lambda>ok.
      bind_op (move_deployments ?t ?dids) (\<lambda>_. if ok then power_off env node else modify_op rollback))) ?Q ?R"
    by (rule triple_bind [OF loop triple_bind [OF moved finish]])
  then show ?thesis
    by (auto simp: triple_def empty_node_def bind_op_def get_op_def)
qed

lemma remaining_nodes_mem:
  assumes "target \<in> set (remaining_nodes ids i (open_session db))"
  shows "nd_id target \<in> set ids \<and> node_online db (nd_id target) \<and> nd_id target \<noteq> i"
proof -
  from assms obtain j where "j \<in> set ids" "still_online (open_session db) j" "j \<noteq> i" "get_node db j = Some target"
    by (auto simp: remaining_nodes_def map_filter_def)
  then show ?thesis
    using get_node_SomeD [of db j target]
    by (auto simp: still_online_def node_online_def split: option.splits)
qed

lemma idle_node_not_busy:
  assumes "\<not> node_has_workloads i (open_session db)" "shutdown_safe up busy db" "r \<in> busy"
  shows "srv_node_id r \<noteq> Some i"
proof -
  have "\<not> (r \<in> set (db_servers db) \<and> srv_node_id r = Some i \<and> srv_state r = ServerState.running)"
    using assms(1) unfolding node_has_workloads_def running_servers_on_node_def query_least_active_def
    by (auto simp: filter_empty_conv dest!: arg_cong [where f = set])
  with assms(2,3) show ?thesis by (auto simp: shutdown_safe_def)
qed

lemma shutdown_node_safe:
  assumes "set ids \<subseteq> up"
  shows "triple (settled up busy) (shutdown_node cfg env ids i) (\<lambda>_. settled up busy) (committed_safe up busy)"
proof -
  have "case shutdown_node cfg env ids i (open_session db) of
      (Inl e, s) \<Rightarrow> committed_safe up busy e s | (Inr _, s) \<Rightarrow> settled up busy s"
    if safe: "shutdown_safe up busy db" for db
  proof (cases "shutdown_node cfg env ids i (open_session db) = (Inr (), open_session db)")
    case True
    with safe show ?thesis by simp
  next
    case False
    then obtain node target rest where node: "get_node db i = Some node"
      and idle: "\<not> node_has_workloads i (open_session db)"
      and target: "remaining_nodes ids i (open_session db) = target # rest"
      and run: "shutdown_node cfg env ids i (open_session db) = empty_node cfg env node target (open_session db)"
      by (auto simp: shutdown_node_def bind_op_def get_op_def return_op_def split: option.splits list.splits if_splits)
    have i: "nd_id node = i" using node get_node_SomeD by blast
    from remaining_nodes_mem [of target ids i db] target assms
    have "nd_id target \<in> up" "node_online db (nd_id target)" "nd_id target \<noteq> nd_id node" unfolding i by auto
    from empty_node_safe [OF safe this, of cfg env] idle_node_not_busy [OF idle safe] run
    show ?thesis unfolding triple_def i by (auto split: prod.splits sum.splits)
  qed
  note step = this
  show ?thesis unfolding triple_def
  proof (intro allI impI)
    fix s assume s: "settled up busy s"
    then obtain db where "s = open_session db" "shutdown_safe up busy db" by blast
    with step [of db] show "case shutdown_node cfg env ids i s of
      (Inl e, s) \<Rightarrow> committed_safe up busy e s | (Inr _, s) \<Rightarrow> settled up busy s" by simp
  qed
qed

section \<open>Properties\<close>

text \<open>
  A migration that does not succeed takes the server down.  When \<open>_migrate_server\<close> answers
  false (no port on the target, or the start failed there), the server, running before, is committed
  as suspended or provisioning; no other server is changed.
\<close>

theorem failed_migration_takes_server_down:
  assumes "get_server db sid = Some server"
    and "migrate_server cfg env sid to_node (open_session db) = (Inr False, s)"
  shows "(\<forall>i. i \<noteq> sid \<longrightarrow> get_server (ses_committed s) i = get_server db i) \<and>
    (\<exists>r. get_server (ses_committed s) sid = Some r \<and>
       srv_state r \<in> {ServerState.suspended, ServerState.provisioning})"
proof -
  obtain s1 s2 where s1: "set_server sid suspend_server (open_session db) = (Inr (), s1)"
    and s2: "commit_op s1 = (Inr (), s2)"
    and rest: "reassign_server cfg env sid to_node server s2 = (Inr False, s)"
    using assms(2) unfolding migrate_server_def
    by (elim with_server_InrE bind_op_InrE) (simp add: assms(1))
  have "pinned db sid down_states (upd_server sid suspend_server db)"
    using assms(1) by (simp add: pinned_def get_server_upd_server)
  then have "pinned_both db sid down_states s2"
    using s1 s2 by (auto simp: set_server_def modify_op_def pinned_both_def dest!: commit_op_InrD)
  from triple_Inr [OF reassign_server_pinned this rest]
  show ?thesis by (simp add: pinned_committed_def pinned_def)
qed

text \<open>
  A failed rescue undoes the rescues before it.  When no port is found for an orphaned server
  the session is rolled back, and the servers moved earlier in the same pass, flushed but not yet
  committed, are back where they were: the pass goes on as if it had begun behind the failure.  Only
  the count of rescued servers, which is logged, remembers them.
\<close>

theorem failed_rescue_undoes_earlier:
  assumes "rescue_loop cfg env online_node xs 0 (open_session db) = (Inr rescued, s)"
    and "get_server (ses_objects s) sid = Some server"
    and "allocate_port (env_net (mig_start env)) cfg (ses_flushed s) (srv_flavor server)
      (Some (nd_id online_node)) = Inl e"
  shows "rescue_loop cfg env online_node (xs @ sid # ys) 0 (open_session db) =
    rescue_loop cfg env online_node ys rescued (open_session db)"
proof -
  have "ses_committed s = db"
    by (rule keepsD [OF rescue_loop_uncommitted _ assms(1)]) simp
  then have "rollback s = open_session db" by (simp add: rollback_def)
  with assms(2,3) have "rescue_loop cfg env online_node (sid # ys) rescued s =
      rescue_loop cfg env online_node ys rescued (open_session db)"
    by (simp add: with_server_def bind_op_def get_op_def modify_op_def set_server_def)
  with assms(1) show ?thesis
    by (simp only: rescue_loop_append) (simp add: bind_op_def)
qed

text \<open>
  C13: Shutting down idle nodes is safe.  When some node is online, the shutdown phase leaves, at
  whatever point it stops, at least one of the nodes that were online online; a node it takes offline
  hosts no server and no deployment any more; and a server that was running is exactly as it was.
\<close>

theorem shutdown_phase_is_safe:
  assumes "keys_ok db" "\<exists>n \<in> set (db_nodes db). nd_status n = NodeState.online"
    and "run_request (shutdown_phase cfg env) db = (r, db')"
  shows "(\<exists>n \<in> set (db_nodes db). nd_status n = NodeState.online \<and> node_online db' (nd_id n)) \<and>
    (\<forall>n \<in> set (db_nodes db). nd_status n = NodeState.online \<longrightarrow>
       node_online db' (nd_id n) \<or> vacated db' (nd_id n)) \<and>
    (\<forall>s \<in> set (db_servers db). srv_state s = ServerState.running \<longrightarrow> s \<in> set (db_servers db'))"
proof -
  let ?on = "filter (\<lambda>n. nd_status n = NodeState.online) (db_nodes db)"
  let ?up = "nd_id ` set ?on" and ?busy = "{s \<in> set (db_servers db). srv_state s = ServerState.running}"
  have dist: "distinct (map nd_id (db_nodes db))" "distinct (map srv_id (db_servers db))"
    using assms(1) by (simp_all add: keys_ok_def)
  have online: "node_online db (nd_id n)" if "n \<in> set ?on" for n
    using that dist(1) by (auto simp: node_online_def get_node_def get_row_unique)
  have safe: "shutdown_safe ?up ?busy db"
    using dist(2) online assms(2) by (auto simp: shutdown_safe_def)
  have query: "query_nodes (\<lambda>n. nd_status n = NodeState.online) (open_session db) = ?on"
    by (rule query_nodes_flushed [OF dist(1)])
  have loop: "triple (settled ?up ?busy) (for_op (shutdown_node cfg env (map nd_id ?on)) (map nd_id ?on))
      (\<lambda>_. settled ?up ?busy) (committed_safe ?up ?busy)"
    by (rule triple_for, rule shutdown_node_safe) simp
  obtain s' where s': "shutdown_phase cfg env (open_session db) = (r, s')" "db' = ses_committed s'"
    using assms(3) by (auto simp: run_request_def split: prod.splits)
  then have run: "for_op (shutdown_node cfg env (map nd_id ?on)) (map nd_id ?on) (open_session db) = (r, s')"
    by (simp add: shutdown_phase_def bind_op_def get_op_def query)
  have "settled ?up ?busy (open_session db)" using safe by simp
  then have "shutdown_safe ?up ?busy db'"
    using loop run s'(2) by (cases r) (blast dest: triple_Inl triple_Inr)+
  then show ?thesis by (auto simp: shutdown_safe_def)
qed

section \<open>Witnesses\<close>

definition sample_mig_env :: migration_env where
  "sample_mig_env = \<lparr>mig_start = sample_env, mig_fromisoformat = (\<lambda>_. None), mig_isoformat = (\<lambda>_. ''t''),
     mig_cloud_stop = (\<lambda>_. True), mig_s3_configured = True, mig_backup = (\<lambda>_ _. True), mig_restore = (\<lambda>_ _. True)\<rparr>"

definition sample_node2 :: node where
  "sample_node2 = sample_node\<lparr>nd_id := 21, nd_ip_address := ''10.0.0.2'', nd_last_heartbeat := Some 0,
     nd_provider := Some ''aws'', nd_provider_instance_id := Some ''i-1''\<rparr>"

definition two_nodes :: database where
  "two_nodes = start_sample\<lparr>db_nodes := [sample_node\<lparr>nd_last_heartbeat := Some 0\<rparr>, sample_node2]\<rparr>"

definition migration_sample :: database where
  "migration_sample = two_nodes\<lparr>db_servers := [sample_server\<lparr>srv_state := ServerState.running\<rparr>]\<rparr>"

theorem failed_migration_takes_server_down_witness:
  "\<exists>s. migrate_server default_settings
      (sample_mig_env\<lparr>mig_start := sample_env\<lparr>env_runtime_start := \<lambda>_. Inl RuntimeError\<rparr>\<rparr>) 10 sample_node2
      (open_session migration_sample) = (Inr False, s) \<and>
    (\<exists>r. get_server (ses_committed s) 10 = Some r \<and>
       srv_state r \<in> {ServerState.suspended, ServerState.provisioning})"
proof -
  let ?env = "sample_mig_env\<lparr>mig_start := sample_env\<lparr>env_runtime_start := \<lambda>_. Inl RuntimeError\<rparr>\<rparr>"
  have "fst (migrate_server default_settings ?env 10 sample_node2 (open_session migration_sample)) = Inr False"
    by code_simp
  then obtain s where s: "migrate_server default_settings ?env 10 sample_node2 (open_session migration_sample) = (Inr False, s)"
    by (metis prod.collapse)
  have "get_server migration_sample 10 = Some (sample_server\<lparr>srv_state := ServerState.running\<rparr>)" by code_simp
  from failed_migration_takes_server_down [OF this s] s show ?thesis by blast
qed

text \<open>One port is left for two orphans: the second takes the first one's rescue with it.\<close>

definition narrow_settings :: settings where
  "narrow_settings = default_settings\<lparr>cfg_bedrock_port_range_start := 19132, cfg_bedrock_port_range_end := 19133\<rparr>"

definition rescue_sample :: database where
  "rescue_sample = two_nodes\<lparr>db_servers := [sample_server\<lparr>srv_node_id := None\<rparr>,
     sample_server\<lparr>srv_id := 11, srv_node_id := None\<rparr>]\<rparr>"

theorem failed_rescue_undoes_earlier_witness:
  "rescue_loop narrow_settings sample_mig_env sample_node2 ([10] @ [11]) 0 (open_session rescue_sample) =
     (Inr 1, open_session rescue_sample)"
proof -
  let ?run = "rescue_loop narrow_settings sample_mig_env sample_node2 [10] 0 (open_session rescue_sample)"
  have "fst ?run = Inr 1" by code_simp
  then have run: "?run = (Inr 1, snd ?run)" by (simp add: prod_eq_iff)
  have srv: "get_server (ses_objects (snd ?run)) 11 = Some (sample_server\<lparr>srv_id := 11, srv_node_id := None\<rparr>)"
    by code_simp
  have port: "allocate_port (env_net (mig_start sample_mig_env)) narrow_settings (ses_flushed (snd ?run))
      (srv_flavor (sample_server\<lparr>srv_id := 11, srv_node_id := None\<rparr>)) (Some (nd_id sample_node2)) = Inl RuntimeError"
    by code_simp
  from failed_rescue_undoes_earlier [OF run srv port, of "[]"] show ?thesis
    by (simp only: rescue_loop.simps return_op_def)
qed

theorem shutdown_phase_is_safe_witness:
  "\<not> node_online (snd (run_request (shutdown_phase default_settings sample_mig_env) two_nodes)) 21 \<and>
   vacated (snd (run_request (shutdown_phase default_settings sample_mig_env) two_nodes)) 21"
proof -
  let ?db' = "snd (run_request (shutdown_phase default_settings sample_mig_env) two_nodes)"
  have keys: "keys_ok two_nodes" by code_simp
  have up: "\<exists>n \<in> set (db_nodes two_nodes). nd_status n = NodeState.online" by code_simp
  have "sample_node2 \<in> set (db_nodes two_nodes)" "nd_status sample_node2 = NodeState.online" "nd_id sample_node2 = 21"
    by (simp_all add: two_nodes_def sample_node2_def sample_node_def)
  with shutdown_phase_is_safe [OF keys up prod.collapse [symmetric]]
  have "node_online ?db' 21 \<or> vacated ?db' 21" by metis
  moreover have "map_option nd_status (get_node ?db' 21) = Some NodeState.offline" by code_simp
  then have "\<not> node_online ?db' 21" by (auto simp: node_online_def)
  ultimately show ?thesis by blast
qed

end
