(* ===== verification/Wire.thy ===== *)
theory Wire
  imports Prelude "HOL-Library.Word"
begin

text \<open>
  The byte formats the backend speaks: the variable-length integers of the Java protocol, written
  by the status ping (\<open>minecraft/java_ping.py\<close>) and by the proxy's disconnect packet
  (\<open>services/game_proxy.py\<close>), and the packets of the remote console (\<open>minecraft/rcon_client.py\<close>).
  Bytes are 8-bit words.  A stream is what will still arrive on it before its end; \<open>None\<close> stands
  for the exception of a read that meets the end.
\<close>

unbundle bit_operations_syntax

type_synonym byte = "8 word"
type_synonym bytes = "byte list"

section \<open>Variable-length integers\<close>

text \<open>
  Python's integers are unbounded and \<open>>>\<close> keeps the sign, so the loop of a negative value never
  ends: \<open>None\<close> is a call that does not return.
\<close>

partial_function (option) write_varint :: "int \<Rightarrow> bytes option" where
  "write_varint val =
     (let b = val AND 0x7F; val = drop_bit 7 val in
      if val \<noteq> 0 then Option.bind (write_varint val) (\<lambda>out. Some (word_of_int (b OR 0x80) # out))
      else Some [word_of_int b])"

partial_function (option) encode_varint :: "int \<Rightarrow> bytes option" where
  "encode_varint value =
     (let temp = value AND 0x7F;
          value = drop_bit 7 value;
          temp = (if value \<noteq> 0 then temp OR 0x80 else temp)
      in if value = 0 then Some [word_of_int temp]
         else Option.bind (encode_varint value) (\<lambda>out. Some (word_of_int temp # out)))"

declare write_varint.simps [code] encode_varint.simps [code]

text \<open>The loop of the reader: at most five bytes, the last of them without a check.\<close>

fun read_varint_from :: "nat \<Rightarrow> int \<Rightarrow> bytes \<Rightarrow> (int \<times> bytes) option" where
  "read_varint_from i val s =
     (if i \<ge> 5 then Some (val, s)
      else case s of
        [] \<Rightarrow> None
      | b # s \<Rightarrow>
          let val = val OR push_bit (7 * i) (uint (b AND 0x7F))
          in if b AND 0x80 = 0 then Some (val, s) else read_varint_from (i + 1) val s)"

declare read_varint_from.simps [simp del]

definition read_varint :: "bytes \<Rightarrow> (int \<times> bytes) option" where
  "read_varint s = read_varint_from 0 0 s"

definition read_exactly :: "int \<Rightarrow> bytes \<Rightarrow> (bytes \<times> bytes) option" where
  "read_exactly n s =
     (if n < 0 \<or> int (length s) < n then None else Some (take (nat n) s, drop (nat n) s))"

definition write_string :: "bytes \<Rightarrow> bytes option" where
  "write_string b = map_option (\<lambda>l. l @ b) (write_varint (int (length b)))"

definition encode_string :: "bytes \<Rightarrow> bytes option" where
  "encode_string encoded = map_option (\<lambda>l. l @ encoded) (encode_varint (int (length encoded)))"

section \<open>The status ping\<close>

text \<open>\<open>struct.pack(">H", n)\<close>, an error outside 16 bits.\<close>

definition pack_H :: "int \<Rightarrow> bytes option" where
  "pack_H n = (if 0 \<le> n \<and> n < 0x10000 then Some [word_of_int (drop_bit 8 n), word_of_int n] else None)"

definition length_prefixed :: "bytes \<Rightarrow> bytes option" where
  "length_prefixed p = map_option (\<lambda>l. l @ p) (write_varint (int (length p)))"

text \<open>The two packets sent; \<open>host\<close> is its UTF-8 encoding.\<close>

definition ping_request :: "bytes \<Rightarrow> int \<Rightarrow> int option \<Rightarrow> bytes option" where
  "ping_request host port protocol_version =
     Option.bind (write_varint 0) (\<lambda>packet_id.
     Option.bind (write_varint (case protocol_version of Some v \<Rightarrow> v | None \<Rightarrow> 765)) (\<lambda>version.
     Option.bind (write_string host) (\<lambda>h.
     Option.bind (pack_H port) (\<lambda>p.
     Option.bind (write_varint 1) (\<lambda>next_state.
     Option.bind (length_prefixed (packet_id @ version @ h @ p @ next_state)) (\<lambda>p1.
     Option.bind (length_prefixed packet_id) (\<lambda>p2. Some (p1 @ p2))))))))"

text \<open>The text of the answer; \<open>None\<close> is any exception, which makes the ping answer \<open>{}\<close>.\<close>

definition read_status :: "bytes \<Rightarrow> bytes option" where
  "read_status s =
     Option.bind (read_varint s) (\<lambda>(_, s).
     Option.bind (read_varint s) (\<lambda>(packet_id, s).
     if packet_id \<noteq> 0 then None
     else Option.bind (read_varint s) (\<lambda>(json_len, s).
       map_option fst (read_exactly json_len s))))"

text \<open>The packet the proxy sends to a client of a sleeping server; \<open>message\<close> is its JSON text.\<close>

definition disconnect_packet :: "bytes \<Rightarrow> bytes option" where
  "disconnect_packet message =
     Option.bind (encode_string message) (\<lambda>m.
     let payload = 0 # m in
     map_option (\<lambda>l. l @ payload) (encode_varint (int (length payload))))"

section \<open>The remote console\<close>

text \<open>\<open>struct.pack("<i", n)\<close> and its inverse.\<close>

definition bytes_of_i32 :: "32 word \<Rightarrow> bytes" where
  "bytes_of_i32 w = [ucast w, ucast (drop_bit 8 w), ucast (drop_bit 16 w), ucast (drop_bit 24 w)]"

definition pack_i32 :: "int \<Rightarrow> bytes option" where
  "pack_i32 n = (if - (2 ^ 31) \<le> n \<and> n < 2 ^ 31 then Some (bytes_of_i32 (word_of_int n)) else None)"

definition unpack_i32 :: "bytes \<Rightarrow> int option" where
  "unpack_i32 bs = (case bs of
       [a, b, c, d] \<Rightarrow> Some (sint (ucast a OR push_bit 8 (ucast b) OR push_bit 16 (ucast c) OR
         push_bit 24 (ucast d) :: 32 word))
     | _ \<Rightarrow> None)"

text \<open>The error of a short or malformed packet and the end of the connection are told apart.\<close>

datatype rcon_error = RconError | StructError | SocketTimeout

definition rcon_packet :: "int \<Rightarrow> int \<Rightarrow> bytes \<Rightarrow> rcon_error + bytes" where
  "rcon_packet req_id packet_type payload =
     (case (pack_i32 (10 + int (length payload)), pack_i32 req_id, pack_i32 packet_type) of
        (Some l, Some i, Some t) \<Rightarrow> Inr (l @ i @ t @ payload @ [0, 0])
      | _ \<Rightarrow> Inl StructError)"

text \<open>
  A socket delivers chunks of its own choosing; an empty one is the end of the connection.  When
  none is left, the next \<open>recv\<close> times out.
\<close>

type_synonym chunks = "bytes list"

fun recv :: "nat \<Rightarrow> chunks \<Rightarrow> (bytes \<times> chunks) option" where
  "recv n [] = None"
| "recv n (c # cs) = Some (take n c, if c = [] then c # cs else if length c \<le> n then cs else drop n c # cs)"

function read_exact :: "nat \<Rightarrow> bytes \<Rightarrow> chunks \<Rightarrow> (bytes \<times> chunks) option" where
  "read_exact sz data cs =
     (if length data \<ge> sz then Some (data, cs)
      else case recv (sz - length data) cs of
        None \<Rightarrow> None
      | Some ([], cs) \<Rightarrow> Some (data, cs)
      | Some (chunk, cs) \<Rightarrow> read_exact sz (data @ chunk) cs)"
  by pat_completeness auto
termination
  by (relation "measure (\<lambda>(n, data, cs). n - length data)") auto

declare read_exact.simps [simp del]

definition rcon_recv :: "chunks \<Rightarrow> (rcon_error + int \<times> int \<times> bytes) \<times> chunks" where
  "rcon_recv cs =
     (case read_exact 4 [] cs of
        None \<Rightarrow> (Inl SocketTimeout, cs)
      | Some (length_bytes, cs) \<Rightarrow>
          if length_bytes = [] then (Inl RconError, cs)
          else case unpack_i32 length_bytes of
            None \<Rightarrow> (Inl StructError, cs)
          | Some packet_len \<Rightarrow>
              if packet_len < 10 \<or> packet_len > 4096 then (Inl RconError, cs)
              else case read_exact (nat packet_len) [] cs of
                None \<Rightarrow> (Inl SocketTimeout, cs)
              | Some (packet_data, cs) \<Rightarrow>
                  (case (unpack_i32 (take 4 packet_data), unpack_i32 (take 4 (drop 4 packet_data))) of
                     (Some req_id, Some packet_type) \<Rightarrow>
                       (Inr (req_id, packet_type, take (length packet_data - 10) (drop 8 packet_data)), cs)
                   | _ \<Rightarrow> (Inl StructError, cs)))"

definition SERVERDATA_AUTH :: int where "SERVERDATA_AUTH = 3"
definition SERVERDATA_EXECCOMMAND :: int where "SERVERDATA_EXECCOMMAND = 2"

text \<open>Connecting: the packet sent and whether the answer accepts the password.\<close>

definition rcon_connect :: "bytes \<Rightarrow> chunks \<Rightarrow> (rcon_error + bytes) \<times> chunks" where
  "rcon_connect password cs =
     (case rcon_packet 1 SERVERDATA_AUTH password of
        Inl e \<Rightarrow> (Inl e, cs)
      | Inr packet \<Rightarrow>
          (case rcon_recv cs of
             (Inl e, cs) \<Rightarrow> (Inl e, cs)
           | (Inr (resp_id, _, _), cs) \<Rightarrow> if resp_id = -1 then (Inl RconError, cs) else (Inr packet, cs)))"

lemma recv_concat: "recv n cs = Some (d, cs') \<Longrightarrow> d @ concat cs' = concat cs"
  by (cases cs) (auto split: if_splits)

lemma read_exact_concat: "read_exact sz data cs = Some (d, cs') \<Longrightarrow> d @ concat cs' = data @ concat cs"
proof (induction sz data cs rule: read_exact.induct)
  case (1 sz data cs)
  show ?case
  proof (cases "length data \<ge> sz")
    case True
    with "1.prems" show ?thesis by (simp add: read_exact.simps [of sz data cs])
  next
    case False
    with "1.prems" obtain chunk cs1 where r: "recv (sz - length data) cs = Some (chunk, cs1)"
      by (auto simp: read_exact.simps [of sz data cs] split: option.splits)
    show ?thesis
    proof (cases chunk)
      case Nil
      with "1.prems" False r recv_concat [OF r] show ?thesis by (simp add: read_exact.simps [of sz data cs])
    next
      case (Cons b bs)
      with "1.prems" False r have "read_exact sz (data @ chunk) cs1 = Some (d, cs')"
        by (simp add: read_exact.simps [of sz data cs])
      from "1.IH" [OF False r _ Cons, of cs1] this Cons recv_concat [OF r] show ?thesis by simp
    qed
  qed
qed

text \<open>A packet received takes at least four bytes off the stream, so reading on ends.\<close>

lemma unpack_i32_length: "unpack_i32 bs = Some n \<Longrightarrow> length bs = 4"
  by (auto simp: unpack_i32_def split: list.splits)

lemma rcon_recv_consumes:
  assumes "rcon_recv cs = (Inr x, cs')"
  shows "length (concat cs') + 4 \<le> length (concat cs)"
proof -
  obtain l cs1 n d where "read_exact 4 [] cs = Some (l, cs1)" "unpack_i32 l = Some n"
    "read_exact (nat n) [] cs1 = Some (d, cs')"
    using assms by (auto simp: rcon_recv_def split: option.splits if_splits)
  then show ?thesis
    using read_exact_concat [of 4 "[]" cs l cs1] read_exact_concat [of "nat n" "[]" cs1 d cs']
      unpack_i32_length [of l n] by (metis append_Nil le_add2 length_append add.commute add_le_mono1)
qed

text \<open>
  \<open>command\<close>: the first answer and what follows it; a timeout or an \<open>RconError\<close> ends the
  reading, any other error of a packet is raised.
\<close>

function rcon_rest :: "bytes \<Rightarrow> chunks \<Rightarrow> rcon_error + bytes" where
  "rcon_rest payload cs =
     (case rcon_recv cs of
        (Inl StructError, _) \<Rightarrow> Inl StructError
      | (Inl _, _) \<Rightarrow> Inr payload
      | (Inr (_, _, extra_payload), cs') \<Rightarrow> rcon_rest (payload @ extra_payload) cs')"
  by pat_completeness auto
termination
  by (relation "measure (\<lambda>(_, cs). length (concat cs))")
    (auto dest!: rcon_recv_consumes [OF sym] simp del: length_concat)

declare rcon_rest.simps [simp del]

definition rcon_command :: "int \<Rightarrow> bytes \<Rightarrow> chunks \<Rightarrow> rcon_error + bytes" where
  "rcon_command req_id cmd cs =
     (case rcon_packet req_id SERVERDATA_EXECCOMMAND cmd of
        Inl e \<Rightarrow> Inl e
      | Inr _ \<Rightarrow>
          (case rcon_recv cs of
             (Inl e, _) \<Rightarrow> Inl e
           | (Inr (_, _, payload), cs) \<Rightarrow> rcon_rest payload cs))"

section \<open>Lemmas\<close>

lemma and_127: "(v::int) AND 127 = v mod 128"
proof -
  have "v AND mask 7 = take_bit 7 v" by (simp add: take_bit_eq_mask)
  then show ?thesis by (simp add: take_bit_eq_mod mask_eq_exp_minus_1)
qed

lemma drop_7: "drop_bit 7 (v::int) = v div 128"
  by (simp add: drop_bit_eq_div)

text \<open>Adding at a place above all the bits of a number is setting them.\<close>

lemma or_push_bit:
  fixes a b :: int
  assumes "0 \<le> a" "a < 2 ^ n"
  shows "a OR push_bit n b = a + b * 2 ^ n"
proof -
  have "take_bit n a = a" using assms by (simp add: take_bit_eq_mod)
  then have "\<not> bit a k" if "k \<ge> n" for k using that bit_take_bit_iff [of n a k] by simp
  then have "a + push_bit n b = a OR push_bit n b"
    by (intro disjunctive_add) (auto simp: bit_push_bit_iff not_le)
  then show ?thesis by (simp add: push_bit_eq_mult)
qed

lemma or_128: "0 \<le> b \<Longrightarrow> b < 128 \<Longrightarrow> b OR 128 = b + (128::int)"
  using or_push_bit [of b 7 1] by (simp add: push_bit_eq_mult)

text \<open>What the reader makes of a byte the writer produced.\<close>

lemma group_byte:
  assumes "0 \<le> x" "x < 256"
  shows "uint ((word_of_int x :: byte) AND 0x7F) = x mod 128"
    and "(word_of_int x :: byte) AND 0x80 = 0 \<longleftrightarrow> x < 128"
proof -
  have u: "uint (word_of_int x :: byte) = x" using assms by (simp add: uint_word_of_int_eq take_bit_eq_mod)
  then show "uint ((word_of_int x :: byte) AND 0x7F) = x mod 128"
    by (simp only: uint_and) (simp add: and_127)
  have "(word_of_int x :: byte) AND 0x80 = 0 \<longleftrightarrow> \<not> bit (word_of_int x :: byte) 7"
    using and_exp_eq_0_iff_not_bit [of "word_of_int x :: byte" 7] by simp
  also have "\<dots> \<longleftrightarrow> \<not> bit x 7" by (simp add: bit_word_of_int_iff)
  also have "\<dots> \<longleftrightarrow> x < 128"
  proof (cases "x < 128")
    case True
    with assms have "x div 128 = 0" by simp
    with True show ?thesis by (simp add: bit_iff_odd)
  next
    case False
    have "x div 128 = 1" by (rule int_div_pos_eq [of x 128 1 "x - 128"]) (use assms False in simp_all)
    with False show ?thesis by (simp add: bit_iff_odd)
  qed
  finally show "(word_of_int x :: byte) AND 0x80 = 0 \<longleftrightarrow> x < 128" .
qed

lemma write_varint_unfold:
  assumes "0 \<le> v"
  shows "write_varint v = (if v < 128 then Some [word_of_int v]
    else Option.bind (write_varint (v div 128)) (\<lambda>out. Some (word_of_int (v mod 128 + 128) # out)))"
proof -
  have "v div 128 = 0 \<longleftrightarrow> v < 128" using assms by presburger
  then show ?thesis
    using assms by (subst write_varint.simps) (auto simp: Let_def and_127 drop_7 or_128)
qed

lemma read_varint_step:
  assumes "i < 5" "0 \<le> acc" "acc < 2 ^ (7 * i)" "0 \<le> x" "x < 256"
  shows "read_varint_from i acc (word_of_int x # s) =
    (if x < 128 then Some (acc + x * 2 ^ (7 * i), s)
     else read_varint_from (i + 1) (acc + (x mod 128) * 2 ^ (7 * i)) s)"
  using assms by (subst read_varint_from.simps) (simp add: group_byte or_push_bit)

lemma varint_round:
  assumes "0 \<le> v" "v < 2 ^ (7 * k)" "0 < k" "i + k \<le> 5"
  shows "\<exists>bs. write_varint v = Some bs \<and> length bs \<le> k \<and> (\<forall>acc s. 0 \<le> acc \<longrightarrow> acc < 2 ^ (7 * i) \<longrightarrow>
    read_varint_from i acc (bs @ s) = Some (acc + v * 2 ^ (7 * i), s))"
  using assms
proof (induction k arbitrary: v i)
  case 0
  then show ?case by simp
next
  case (Suc k)
  show ?case
  proof (cases "v < 128")
    case True
    then show ?thesis
      using Suc.prems by (auto simp: write_varint_unfold [of v] read_varint_step)
  next
    case False
    have "v div 128 < 2 ^ (7 * k)" using Suc.prems(2) by (auto simp: power_add)
    moreover have "0 < k" using Suc.prems(2) False by (cases k) auto
    ultimately obtain bs where bs: "write_varint (v div 128) = Some bs" "length bs \<le> k"
      "\<And>acc s. 0 \<le> acc \<Longrightarrow> acc < 2 ^ (7 * Suc i) \<Longrightarrow>
         read_varint_from (Suc i) acc (bs @ s) = Some (acc + v div 128 * 2 ^ (7 * Suc i), s)"
      using Suc.IH [of "v div 128" "Suc i"] Suc.prems by (auto simp: pos_imp_zdiv_nonneg_iff)
    have "read_varint_from i acc ((word_of_int (v mod 128 + 128) # bs) @ s) = Some (acc + v * 2 ^ (7 * i), s)"
      if acc: "0 \<le> acc" "acc < 2 ^ (7 * i)" for acc s
    proof -
      have pow: "(2::int) ^ (7 * Suc i) = 128 * 2 ^ (7 * i)" by (simp add: power_add)
      have small: "0 \<le> v mod 128" "v mod 128 < 128" by simp_all
      have "(v mod 128 + 128) mod 128 = v mod 128" by simp
      moreover have not_neg: "(v mod 128 < 0) = False" by (simp add: not_less)
      ultimately have "read_varint_from i acc ((word_of_int (v mod 128 + 128) # bs) @ s) =
          read_varint_from (Suc i) (acc + v mod 128 * 2 ^ (7 * i)) (bs @ s)"
        using acc small Suc.prems(4) read_varint_step [of i acc "v mod 128 + 128" "bs @ s"] by (simp add: not_neg)
      also have "acc + v mod 128 * 2 ^ (7 * i) < 2 ^ (7 * Suc i)"
      proof -
        have "v mod 128 * 2 ^ (7 * i) \<le> 127 * 2 ^ (7 * i)" using small by (intro mult_right_mono) auto
        then show ?thesis using acc(2) pow by linarith
      qed
      then have "read_varint_from (Suc i) (acc + v mod 128 * 2 ^ (7 * i)) (bs @ s) =
          Some (acc + v mod 128 * 2 ^ (7 * i) + v div 128 * 2 ^ (7 * Suc i), s)"
        using acc small by (intro bs(3)) auto
      also have "acc + v mod 128 * 2 ^ (7 * i) + v div 128 * 2 ^ (7 * Suc i) =
          acc + (v mod 128 + v div 128 * 128) * 2 ^ (7 * i)"
        by (simp only: pow distrib_right mult.assoc add.assoc)
      finally show ?thesis by simp
    qed
    with bs(1,2) False Suc.prems(1) show ?thesis
      by (auto simp: write_varint_unfold [of v])
  qed
qed

text \<open>Both writers are the same function, and neither returns for a negative value.\<close>

lemma div_128_nonneg: "0 \<le> v div 128 \<longleftrightarrow> 0 \<le> (v::int)"
  by presburger

lemma write_varint_nonneg:
  assumes "write_varint v = Some bs"
  shows "0 \<le> v"
proof (rule write_varint.raw_induct [where P = "\<lambda>v _. 0 \<le> v", OF _ assms])
  fix self v out
  assume IH: "\<And>x y. self x = Some y \<Longrightarrow> (0::int) \<le> x"
    and body: "(let b = v AND 0x7F; val = drop_bit 7 v in
      if val \<noteq> 0 then Option.bind (self val) (\<lambda>out. Some (word_of_int (b OR 0x80) # out))
      else Some [word_of_int b :: byte]) = Some out"
  show "0 \<le> v"
  proof (cases "v div 128 = 0")
    case True
    then show ?thesis by presburger
  next
    case False
    with body obtain y where "self (v div 128) = Some y"
      by (auto simp: Let_def drop_7 split: bind_splits)
    from IH [OF this] show ?thesis by (simp only: div_128_nonneg)
  qed
qed

lemma encode_varint_nonneg:
  assumes "encode_varint v = Some bs"
  shows "0 \<le> v"
proof (rule encode_varint.raw_induct [where P = "\<lambda>v _. 0 \<le> v", OF _ assms])
  fix self v out
  assume IH: "\<And>x y. self x = Some y \<Longrightarrow> (0::int) \<le> x"
    and body: "(let temp = v AND 0x7F; value = drop_bit 7 v;
          temp = (if value \<noteq> 0 then temp OR 0x80 else temp)
      in if value = 0 then Some [word_of_int temp :: byte]
         else Option.bind (self value) (\<lambda>out. Some (word_of_int temp # out))) = Some out"
  show "0 \<le> v"
  proof (cases "v div 128 = 0")
    case True
    then show ?thesis by presburger
  next
    case False
    with body obtain y where "self (v div 128) = Some y"
      by (auto simp: Let_def drop_7 split: bind_splits)
    from IH [OF this] show ?thesis by (simp only: div_128_nonneg)
  qed
qed

lemma write_varint_returns: "0 \<le> v \<Longrightarrow> \<exists>bs. write_varint v = Some bs \<and> encode_varint v = Some bs"
proof (induction "nat v" arbitrary: v rule: less_induct)
  case less
  show ?case
  proof (cases "v < 128")
    case True
    with less.prems have "v div 128 = 0" by simp
    with less.prems True show ?thesis
      by (subst write_varint.simps, subst encode_varint.simps) (simp add: Let_def and_127 drop_7)
  next
    case False
    then have "nat (v div 128) < nat v" "v div 128 \<noteq> 0" using less.prems by auto
    then obtain bs where "write_varint (v div 128) = Some bs" "encode_varint (v div 128) = Some bs"
      using less.hyps [of "v div 128"] less.prems div_128_nonneg [of v] by blast
    with \<open>v div 128 \<noteq> 0\<close> show ?thesis
      by (subst write_varint.simps, subst encode_varint.simps) (simp add: Let_def and_127 drop_7)
  qed
qed

lemma encode_is_write: "encode_varint v = write_varint v"
proof (cases "0 \<le> v")
  case True
  then show ?thesis using write_varint_returns by fastforce
next
  case False
  then show ?thesis using write_varint_nonneg encode_varint_nonneg by (metis not_Some_eq)
qed

subsection \<open>Console packets\<close>

lemma bytes_of_i32_length [simp]: "length (bytes_of_i32 w) = 4"
  by (simp add: bytes_of_i32_def)

lemma i32_bits:
  "(ucast (ucast w :: byte) OR push_bit 8 (ucast (ucast (drop_bit 8 w) :: byte)) OR
    push_bit 16 (ucast (ucast (drop_bit 16 w) :: byte)) OR
    push_bit 24 (ucast (ucast (drop_bit 24 w) :: byte)) :: 32 word) = w" for w :: "32 word"
proof (rule bit_word_eqI)
  fix n assume "n < LENGTH(32)"
  then have "n < 8 \<or> 8 \<le> n \<and> n < 16 \<or> 16 \<le> n \<and> n < 24 \<or> 24 \<le> n \<and> n < 32" by auto
  then show "bit (ucast (ucast w :: byte) OR push_bit 8 (ucast (ucast (drop_bit 8 w) :: byte)) OR
    push_bit 16 (ucast (ucast (drop_bit 16 w) :: byte)) OR
    push_bit 24 (ucast (ucast (drop_bit 24 w) :: byte)) :: 32 word) n = bit w n"
    by (auto simp: bit_or_iff bit_push_bit_iff bit_ucast_iff bit_drop_bit_eq)
qed

lemma unpack_bytes_of_i32: "unpack_i32 (bytes_of_i32 w) = Some (sint w)"
  by (simp add: unpack_i32_def bytes_of_i32_def i32_bits)

lemma pack_i32_round:
  assumes "pack_i32 n = Some bs"
  shows "length bs = 4 \<and> unpack_i32 bs = Some n"
proof -
  from assms have n: "- (2 ^ 31) \<le> n" "n < 2 ^ 31" and bs: "bs = bytes_of_i32 (word_of_int n)"
    by (auto simp: pack_i32_def split: if_splits)
  have "sint (word_of_int n :: 32 word) = n"
    using n by (simp add: signed_of_int signed_take_bit_int_eq_self)
  then show ?thesis by (simp add: bs unpack_bytes_of_i32)
qed

text \<open>How a socket cuts its stream into chunks does not matter.\<close>

lemma read_exact_stream:
  assumes "[] \<notin> set cs" "length data \<le> sz" "sz - length data \<le> length (concat cs)"
  shows "\<exists>cs'. read_exact sz data cs = Some (data @ take (sz - length data) (concat cs), cs') \<and>
    concat cs' = drop (sz - length data) (concat cs) \<and> [] \<notin> set cs'"
  using assms
proof (induction sz data cs rule: read_exact.induct)
  case (1 sz data cs)
  show ?case
  proof (cases "sz \<le> length data")
    case True
    with "1.prems" show ?thesis by (simp add: read_exact.simps [of sz data cs])
  next
    case False
    with "1.prems"(3) obtain c cs1 where cs: "cs = c # cs1" by (cases cs) auto
    with "1.prems"(1) have c: "c \<noteq> []" by auto
    let ?n = "sz - length data"
    let ?rest = "if length c \<le> ?n then cs1 else drop ?n c # cs1"
    have r: "recv ?n cs = Some (take ?n c, ?rest)" using cs c by simp
    obtain b bs where t: "take ?n c = b # bs" using c False by (cases "take ?n c") auto
    have rest: "[] \<notin> set ?rest" "length (data @ take ?n c) \<le> sz"
      "sz - length (data @ take ?n c) \<le> length (concat ?rest)"
      using "1.prems" cs c False by auto
    from "1.IH" [OF False r _ t] rest t obtain cs' where cs':
      "read_exact sz (data @ take ?n c) ?rest =
         Some ((data @ take ?n c) @ take (sz - length (data @ take ?n c)) (concat ?rest), cs')"
      "concat cs' = drop (sz - length (data @ take ?n c)) (concat ?rest)" "[] \<notin> set cs'"
      by (metis (no_types, lifting))
    have "read_exact sz data cs = read_exact sz (data @ take ?n c) ?rest"
      using False r t by (subst read_exact.simps) (simp del: recv.simps)
    with cs' show ?thesis using cs False by auto
  qed
qed

section \<open>Properties\<close>

text \<open>
  C14: Variable-length integers round-trip.  A value of at most 35 bits is written in at most five
  bytes, and the reader of the status ping gives it back and leaves what follows it on the stream.
\<close>

theorem varint_roundtrip:
  assumes "0 \<le> v" "v < 2 ^ 35"
  shows "\<exists>bs. write_varint v = Some bs \<and> length bs \<le> 5 \<and> read_varint (bs @ s) = Some (v, s)"
  using varint_round [of v 5 0] assms by (fastforce simp: read_varint_def)

text \<open>
  C15: The writer of the status ping and the writer of the proxy are the same function, and they
  return exactly for the values that are not negative: the loop over a negative value, whose sign
  the shift keeps, never ends.
\<close>

theorem varint_writers_agree_and_return:
  "encode_varint v = write_varint v \<and> ((\<exists>bs. write_varint v = Some bs) \<longleftrightarrow> 0 \<le> v)"
  using encode_is_write write_varint_returns write_varint_nonneg by blast

text \<open>
  The packet the proxy sends to the client of a sleeping server is well formed: the reader of
  the status ping, given the packet and anything behind it, finds exactly the message.
\<close>

theorem disconnect_packet_is_readable:
  assumes "length message < 2 ^ 34"
  shows "\<exists>p. disconnect_packet message = Some p \<and> read_status (p @ s) = Some message"
proof -
  have read: "\<exists>bs. write_varint v = Some bs \<and> length bs \<le> 5 \<and> (\<forall>s. read_varint (bs @ s) = Some (v, s))"
    if "0 \<le> v" "v < 2 ^ 35" for v
    using varint_round [of v 5 0] that by (fastforce simp: read_varint_def)
  obtain l where l: "write_varint (int (length message)) = Some l" "length l \<le> 5"
    "\<And>s. read_varint (l @ s) = Some (int (length message), s)"
    using read [of "int (length message)"] assms by auto
  let ?payload = "0 # l @ message"
  obtain k where k: "write_varint (int (length ?payload)) = Some k"
    "\<And>s. read_varint (k @ s) = Some (int (length ?payload), s)"
    using read [of "int (length ?payload)"] assms l(2) by auto
  have "read_varint (0 # s) = Some (0, s)" for s
    by (simp add: read_varint_def read_varint_from.simps [of 0])
  then have "read_status ((k @ ?payload) @ s) = Some message"
    by (simp add: read_status_def k l read_exactly_def)
  then show ?thesis
    using k(1) l(1) by (simp add: disconnect_packet_def encode_string_def encode_is_write)
qed

text \<open>
  A console packet arrives as it was sent, however the socket cuts the stream into chunks:
  request id, type and payload are read back and the rest of the stream is left.  The receiver
  takes payloads of up to 4086 bytes; the sender has no such limit.
\<close>

theorem rcon_packet_arrives:
  assumes "rcon_packet req_id packet_type payload = Inr p" "length payload \<le> 4086"
    and "[] \<notin> set cs" "concat cs = p @ rest"
  shows "\<exists>cs'. rcon_recv cs = (Inr (req_id, packet_type, payload), cs') \<and> concat cs' = rest"
proof -
  obtain l i ty where l: "pack_i32 (10 + int (length payload)) = Some l" and i: "pack_i32 req_id = Some i"
    and ty: "pack_i32 packet_type = Some ty" and p: "p = l @ i @ ty @ payload @ [0, 0]"
    using assms(1) by (auto simp: rcon_packet_def split: option.splits)
  note round = pack_i32_round [OF l] pack_i32_round [OF i] pack_i32_round [OF ty]
  obtain cs1 where cs1: "read_exact 4 [] cs = Some (l, cs1)"
    "concat cs1 = i @ ty @ payload @ [0, 0] @ rest" "[] \<notin> set cs1"
    using read_exact_stream [OF assms(3), of "[]" 4] round assms(4) p by auto
  obtain cs2 where cs2: "read_exact (10 + length payload) [] cs1 = Some (i @ ty @ payload @ [0, 0], cs2)"
    "concat cs2 = rest"
    using read_exact_stream [OF cs1(3), of "[]" "10 + length payload"] round cs1(2) by auto
  have "nat (10 + int (length payload)) = 10 + length payload" by simp
  then have "rcon_recv cs = (Inr (req_id, packet_type, payload), cs2)"
    using cs1 cs2 round assms(2) by (auto simp: rcon_recv_def)
  with cs2 show ?thesis by blast
qed

section \<open>Witnesses\<close>

theorem varint_roundtrip_witness:
  "\<exists>bs. write_varint 25565 = Some bs \<and> read_varint (bs @ [7]) = Some (25565, [7])"
  using varint_roundtrip [of 25565 "[7]"] by auto

theorem disconnect_packet_is_readable_witness:
  "\<exists>p. disconnect_packet [104, 105] = Some p \<and> read_status (p @ [1]) = Some [104, 105]"
  using disconnect_packet_is_readable [of "[104, 105]" "[1]"] by simp

theorem rcon_packet_arrives_witness:
  "\<exists>cs'. rcon_recv [[14, 0], [0, 0, 1, 0, 0, 0, 2], [0, 0, 0, 108, 105, 115, 116, 0, 0, 9]] =
     (Inr (1, 2, [108, 105, 115, 116]), cs') \<and> concat cs' = [9]"
proof -
  have "rcon_packet 1 2 [108, 105, 115, 116] = Inr [14, 0, 0, 0, 1, 0, 0, 0, 2, 0, 0, 0, 108, 105, 115, 116, 0, 0]"
    by code_simp
  from rcon_packet_arrives [OF this, of "[[14, 0], [0, 0, 1, 0, 0, 0, 2], [0, 0, 0, 108, 105, 115, 116, 0, 0, 9]]" "[9]"]
  show ?thesis by simp
qed

end
