(* ===== verification/Pong.thy ===== *)
theory Pong
  imports PyText
begin

text \<open>
  The unconnected ping of Bedrock (\<open>minecraft/bedrock_ping.py\<close>): building the ping, reading the
  pong, parsing its text and rewriting the ports it advertises.  A datagram is a list of
  characters, one for each byte, so that its text needs no conversion: splitting UTF-8 at the
  ASCII character \<open>;\<close> and joining it again does on the bytes what it does on the text.
\<close>

section \<open>Bytes\<close>

text \<open>\<open>struct.pack\<close> and \<open>unpack\<close>, big endian.\<close>

definition pack_u16 :: "nat \<Rightarrow> exn + string" where
  "pack_u16 n = (if n < 65536 then Inr [char_of (n div 256), char_of (n mod 256)] else Inl StructError)"

definition unpack_be :: "string \<Rightarrow> nat" where
  "unpack_be s = foldl (\<lambda>n c. 256 * n + of_char c) 0 s"

definition RAKNET_MAGIC :: string where
  "RAKNET_MAGIC = map char_of [0x00, 0xff, 0xff, 0x00, 0xfe, 0xfe, 0xfe, 0xfe, 0xfd, 0xfd, 0xfd, 0xfd,
     0x12, 0x34, 0x56, 0x78 :: nat]"

definition pack_u64 :: "nat \<Rightarrow> string" where
  "pack_u64 n = map (\<lambda>i. char_of (n div 256 ^ i mod 256)) [7, 6, 5, 4, 3, 2, 1, 0]"

definition unconnected_ping :: "nat \<Rightarrow> nat \<Rightarrow> string" where
  "unconnected_ping timestamp_ms client_guid =
     CHR 0x01 # pack_u64 timestamp_ms @ RAKNET_MAGIC @ pack_u64 client_guid"

text \<open>Whether a byte string is UTF-8, as the strict decoder has it.\<close>

definition utf8_lead :: "nat \<Rightarrow> (nat \<times> nat) list option" where
  "utf8_lead a =
     (if a < 0x80 then Some []
      else if 0xC2 \<le> a \<and> a \<le> 0xDF then Some [(0x80, 0xBF)]
      else if 0xE0 \<le> a \<and> a \<le> 0xEF then
        Some [(if a = 0xE0 then 0xA0 else 0x80, if a = 0xED then 0x9F else 0xBF), (0x80, 0xBF)]
      else if 0xF0 \<le> a \<and> a \<le> 0xF4 then
        Some [(if a = 0xF0 then 0x90 else 0x80, if a = 0xF4 then 0x8F else 0xBF), (0x80, 0xBF), (0x80, 0xBF)]
      else None)"

text \<open>The list holds the ranges of the continuation bytes still due.\<close>

fun utf8_run :: "(nat \<times> nat) list \<Rightarrow> string \<Rightarrow> bool" where
  "utf8_run rs [] \<longleftrightarrow> rs = []"
| "utf8_run ((lo, hi) # rs) (c # s) \<longleftrightarrow> lo \<le> of_char c \<and> of_char c \<le> hi \<and> utf8_run rs s"
| "utf8_run [] (c # s) \<longleftrightarrow> (case utf8_lead (of_char c) of None \<Rightarrow> False | Some rs \<Rightarrow> utf8_run rs s)"

definition utf8_ok :: "string \<Rightarrow> bool" where
  "utf8_ok = utf8_run []"

section \<open>Reading a pong\<close>

text \<open>
  The guid and the text of a pong.  The text is what is there, also when less than its announced
  length is; bytes of it that are not UTF-8 are kept here, where the code replaces them.
\<close>

definition read_unconnected_pong :: "string \<Rightarrow> exn + nat \<times> string" where
  "read_unconnected_pong data =
     (if data = [] \<or> hd data \<noteq> CHR 0x1C then Inl ValueError
      else if length data < 1 + 8 + 8 + 16 + 2 then Inl ValueError
      else
        let server_guid = unpack_be (take 8 (drop 9 data));
            magic = take 16 (drop 17 data)
        in if magic \<noteq> RAKNET_MAGIC then Inl ValueError
           else let payload_len = unpack_be (take 2 (drop 33 data))
                in Inr (server_guid, take payload_len (drop 35 data)))"

definition str_or_none :: "string \<Rightarrow> json" where
  "str_or_none s = (if s = [] then JNull else JStr s)"

definition to_int :: "string \<Rightarrow> json" where
  "to_int s = (case py_int s of Some n \<Rightarrow> JInt n | None \<Rightarrow> JNull)"

definition parse_bedrock_pong_payload :: "string \<Rightarrow> json dict" where
  "parse_bedrock_pong_payload payload =
     (let parts = py_split (CHR '';'') payload in
      if length parts < 6 then [(''raw'', JStr payload)]
      else
        [(''edition'', str_or_none (parts ! 0)), (''motd'', str_or_none (parts ! 1)),
         (''protocol'', to_int (parts ! 2)), (''version'', str_or_none (parts ! 3)),
         (''players_online'', to_int (parts ! 4)), (''players_max'', to_int (parts ! 5))] @
        (if length parts > 6 then [(''server_id'', to_int (parts ! 6))] else []) @
        (if length parts > 7 then [(''motd2'', str_or_none (parts ! 7))] else []) @
        (if length parts > 8 then [(''gamemode'', str_or_none (parts ! 8))] else []) @
        (if length parts > 10 then [(''port_v4'', to_int (parts ! 10))] else []) @
        (if length parts > 11 then [(''port_v6'', to_int (parts ! 11))] else []))"

section \<open>Rewriting a pong\<close>

definition rewrite_parts :: "string list \<Rightarrow> int \<Rightarrow> string list" where
  "rewrite_parts parts advertised_port =
     (let port_str = py_str_int advertised_port;
          parts = parts[10 := port_str]
      in if length parts \<ge> 12 then parts[11 := port_str] else parts)"

definition rewrite_bedrock_pong_ports :: "string \<Rightarrow> int \<Rightarrow> exn + string" where
  "rewrite_bedrock_pong_ports data advertised_port =
     (if data = [] \<or> hd data \<noteq> CHR 0x1C then Inr data
      else let header_len = 1 + 8 + 8 + 16 in
      if length data < header_len + 2 then Inr data
      else
        let payload_len = unpack_be (take 2 (drop header_len data));
            payload_start = header_len + 2;
            payload_end = payload_start + payload_len
        in if payload_end > length data then Inr data
           else
             let payload = take payload_len (drop payload_start data) in
             if \<not> utf8_ok payload then Inr data
             else
               let parts = py_split (CHR '';'') payload in
               if length parts < 11 \<or> parts ! 0 \<notin> {''MCPE'', ''MCEE''} then Inr data
               else
                 let new_payload = py_join (CHR '';'') (rewrite_parts parts advertised_port)
                 in map_sum id (\<lambda>l. take header_len data @ l @ new_payload @ drop payload_end data)
                      (pack_u16 (length new_payload)))"

section \<open>Lemmas\<close>

lemma pack_u16_round: "pack_u16 n = Inr l \<Longrightarrow> length l = 2 \<and> unpack_be l = n"
  by (auto simp: pack_u16_def unpack_be_def split: if_splits)

lemma utf8_lead_ranges: "utf8_lead a = Some rs \<Longrightarrow> \<forall>(lo, hi) \<in> set rs. 128 \<le> lo"
  by (auto simp: utf8_lead_def split: if_splits)

lemma utf8_run_ascii_append:
  assumes "(of_char x :: nat) < 128" "\<forall>(lo, hi) \<in> set rs. 128 \<le> lo"
  shows "utf8_run rs (s @ x # t) \<longleftrightarrow> utf8_run rs s \<and> utf8_run [] t"
  using assms(2)
proof (induction rs s rule: utf8_run.induct)
  case (1 rs)
  show ?case
  proof (cases rs)
    case Nil
    then show ?thesis using assms(1) by (simp add: utf8_lead_def)
  next
    case (Cons r rs)
    then show ?thesis using 1 assms(1) by (cases r) auto
  qed
next
  case (2 lo hi rs c s)
  then show ?case by auto
next
  case (3 c s)
  then show ?case using utf8_lead_ranges by (auto split: option.split)
qed

lemma utf8_ascii_append:
  "(of_char x :: nat) < 128 \<Longrightarrow> utf8_ok (s @ x # t) \<longleftrightarrow> utf8_ok s \<and> utf8_ok t"
  using utf8_run_ascii_append [of x "[]" s t] by (simp add: utf8_ok_def)

lemma utf8_join:
  assumes "(of_char sep :: nat) < 128"
  shows "utf8_ok (py_join sep ps) \<longleftrightarrow> (\<forall>p \<in> set ps. utf8_ok p)"
  using assms
proof (induction sep ps rule: py_join.induct)
  case (1 c)
  then show ?case by (simp add: utf8_ok_def)
next
  case (2 c p)
  then show ?case by simp
next
  case (3 c p q ps)
  then show ?case by (simp add: utf8_ascii_append)
qed

lemma utf8_digits: "\<forall>c \<in> set s. is_digit c \<Longrightarrow> utf8_ok s"
  unfolding utf8_ok_def by (induction s) (auto simp: is_digit_def Let_def utf8_lead_def)

lemma port_text:
  assumes "0 \<le> port" "port < 65536"
  shows "CHR '';'' \<notin> set (py_str_int port)" "utf8_ok (py_str_int port)" "to_int (py_str_int port) = JInt port"
proof -
  have s: "py_str_int port = nat_to_str (nat port)" using assms(1) by (simp add: py_str_int_def)
  show "utf8_ok (py_str_int port)" unfolding s by (rule utf8_digits) (rule nat_to_str_digits)
  show "CHR '';'' \<notin> set (py_str_int port)" using nat_to_str_digits [of "nat port"] s by auto
  have "length (nat_to_str (nat port)) \<le> Suc 4" by (rule length_nat_to_str_bound) (use assms in simp)
  then show "to_int (py_str_int port) = JInt port"
    using py_int_nat_to_str [of "nat port"] assms(1) by (simp add: s to_int_def)
qed

text \<open>A pong, taken apart.\<close>

lemma rewrite_pong:
  assumes "length header = 33" "hd header = CHR 0x1C" "pack_u16 (length payload) = Inr l"
    and "utf8_ok payload" "length (py_split (CHR '';'') payload) \<ge> 11"
    and "py_split (CHR '';'') payload ! 0 \<in> {''MCPE'', ''MCEE''}"
  shows "rewrite_bedrock_pong_ports (header @ l @ payload @ rest) port =
    (let p = py_join (CHR '';'') (rewrite_parts (py_split (CHR '';'') payload) port)
     in map_sum id (\<lambda>l. header @ l @ p @ rest) (pack_u16 (length p)))"
proof -
  note l = pack_u16_round [OF assms(3)]
  obtain h where h: "header = CHR 0x1C # h" "length h = 32"
    using assms(1,2) by (cases header) auto
  define data where "data = header @ l @ payload @ rest"
  have data: "data \<noteq> []" "hd data = CHR 0x1C" "length data = 35 + length payload + length rest"
    "take 2 (drop 33 data) = l" "drop 35 data = payload @ rest"
    "take 33 data = header"
    using h l by (simp_all add: data_def)
  have "drop (length (header @ l @ payload)) data = rest" by (simp add: data_def)
  then have behind: "drop (35 + length payload) data = rest" using h l by simp
  have "rewrite_bedrock_pong_ports data port =
    (let p = py_join (CHR '';'') (rewrite_parts (py_split (CHR '';'') payload) port)
     in map_sum id (\<lambda>l. header @ l @ p @ rest) (pack_u16 (length p)))"
    using assms(4-6) data behind l
    by (elim insertE emptyE) (simp_all add: rewrite_bedrock_pong_ports_def Let_def)
  then show ?thesis by (simp add: data_def)
qed

lemma rewrite_parts_props:
  assumes "0 \<le> port" "port < 65536" "ps = py_split (CHR '';'') payload" "length ps \<ge> 11"
    "p = py_join (CHR '';'') (rewrite_parts ps port)" "utf8_ok payload"
  shows "py_split (CHR '';'') p = rewrite_parts ps port" "utf8_ok p"
    "rewrite_parts (rewrite_parts ps port) port = rewrite_parts ps port"
    "length (rewrite_parts ps port) = length ps"
    "\<And>i. i < length ps \<Longrightarrow> rewrite_parts ps port ! i = (if i = 10 \<or> i = 11 then py_str_int port else ps ! i)"
proof -
  note port = port_text [OF assms(1,2)]
  have mem: "q \<in> set ps \<or> q = py_str_int port" if "q \<in> set (rewrite_parts ps port)" for q
    using that by (auto simp: rewrite_parts_def Let_def split: if_splits dest!: set_update_subset_insert [THEN subsetD])
  show len: "length (rewrite_parts ps port) = length ps" by (simp add: rewrite_parts_def Let_def)
  have free: "\<forall>q \<in> set ps. CHR '';'' \<notin> set q" using py_split_parts_free assms(3) by simp
  have "rewrite_parts ps port \<noteq> []" using len assms(4) by auto
  then show "py_split (CHR '';'') p = rewrite_parts ps port"
    unfolding assms(5) using mem free port(1) by (intro py_split_join) auto
  have sep: "(of_char (CHR '';'') :: nat) < 128" by simp
  have "utf8_ok (py_join (CHR '';'') ps)" using assms(3,6) by (simp add: py_join_split)
  then have "\<forall>q \<in> set ps. utf8_ok q" by (simp only: utf8_join [OF sep])
  then show "utf8_ok p" unfolding assms(5) utf8_join [OF sep] using mem port(2) by auto
  show "rewrite_parts (rewrite_parts ps port) port = rewrite_parts ps port"
    by (simp add: rewrite_parts_def Let_def list_update_swap)
  show "rewrite_parts ps port ! i = (if i = 10 \<or> i = 11 then py_str_int port else ps ! i)" if "i < length ps" for i
    using that assms(4) by (auto simp: rewrite_parts_def Let_def nth_list_update)
qed

section \<open>Properties\<close>

text \<open>
  A rewritten pong advertises the proxy and is otherwise the same.  For a Bedrock pong the
  rewriting either fails because the text outgrew its 16-bit length, or gives a pong with the same
  header and the same bytes behind the text, whose text parses to the given port for IPv4 (and for
  IPv6 when the server advertised one) and to the same values for every other field.  Rewriting it
  again changes nothing.
\<close>

theorem rewritten_pong_advertises_proxy:
  assumes "length header = 33" "hd header = CHR 0x1C" "pack_u16 (length payload) = Inr l"
    and "utf8_ok payload" "length (py_split (CHR '';'') payload) \<ge> 11"
    and "py_split (CHR '';'') payload ! 0 \<in> {''MCPE'', ''MCEE''}" "0 \<le> port" "port < 65536"
  shows "case rewrite_bedrock_pong_ports (header @ l @ payload @ rest) port of
      Inl e \<Rightarrow> e = StructError
    | Inr data \<Rightarrow> \<exists>p l'. data = header @ l' @ p @ rest \<and> pack_u16 (length p) = Inr l' \<and>
        dict_get (parse_bedrock_pong_payload p) ''port_v4'' = Some (JInt port) \<and>
        (12 \<le> length (py_split (CHR '';'') payload) \<longrightarrow>
          dict_get (parse_bedrock_pong_payload p) ''port_v6'' = Some (JInt port)) \<and>
        (\<forall>k. k \<noteq> ''port_v4'' \<longrightarrow> k \<noteq> ''port_v6'' \<longrightarrow>
          dict_get (parse_bedrock_pong_payload p) k = dict_get (parse_bedrock_pong_payload payload) k) \<and>
        rewrite_bedrock_pong_ports data port = Inr data"
proof -
  let ?ps = "py_split (CHR '';'') payload"
  define p where "p = py_join (CHR '';'') (rewrite_parts ?ps port)"
  note props = rewrite_parts_props [OF assms(7,8) refl assms(5) p_def assms(4)]
  have run: "rewrite_bedrock_pong_ports (header @ l @ payload @ rest) port =
      map_sum id (\<lambda>l. header @ l @ p @ rest) (pack_u16 (length p))"
    using rewrite_pong [OF assms(1-6)] by (simp add: p_def Let_def)
  show ?thesis
  proof (cases "pack_u16 (length p)")
    case (Inl e)
    then show ?thesis by (simp add: run pack_u16_def split: if_splits)
  next
    case (Inr l')
    have "rewrite_bedrock_pong_ports (header @ l' @ p @ rest) port = Inr (header @ l' @ p @ rest)"
      using rewrite_pong [OF assms(1,2) Inr props(2)] props assms(5,6) Inr
      by (simp add: p_def Let_def)
    moreover have "dict_get (parse_bedrock_pong_payload p) ''port_v4'' = Some (JInt port)"
      "12 \<le> length ?ps \<Longrightarrow> dict_get (parse_bedrock_pong_payload p) ''port_v6'' = Some (JInt port)"
      using assms(5) props port_text(3) [OF assms(7,8)]
      by (simp_all add: parse_bedrock_pong_payload_def Let_def dict_get_def)
    moreover have "dict_get (parse_bedrock_pong_payload p) k = dict_get (parse_bedrock_pong_payload payload) k"
      if "k \<noteq> ''port_v4''" "k \<noteq> ''port_v6''" for k
      using assms(5) props that by (simp add: parse_bedrock_pong_payload_def Let_def dict_get_def map_add_def)
    ultimately show ?thesis using Inr by (auto simp: run)
  qed
qed

definition pong_text :: string where
  "pong_text = ''MCPE;w;503;1.20;0;9;1;x;S;1;19132;19''"

lemma pong_text_parts:
  "py_split (CHR '';'') pong_text =
     [''MCPE'', ''w'', ''503'', ''1.20'', ''0'', ''9'', ''1'', ''x'', ''S'', ''1'', ''19132'', ''19'']"
  by (simp add: pong_text_def)

lemma pong_text_facts: "pack_u16 (length pong_text) = Inr [CHR 0x00, CHR 0x24]" "utf8_ok pong_text"
proof -
  have "length pong_text = 36" by (simp add: pong_text_def)
  moreover have "pack_u16 36 = Inr [CHR 0x00, CHR 0x24]" by (simp add: pack_u16_def char_of_def bit_0)
  ultimately show "pack_u16 (length pong_text) = Inr [CHR 0x00, CHR 0x24]" by simp
  show "utf8_ok pong_text" by (simp add: utf8_ok_def pong_text_def utf8_lead_def)
qed

lemma port_30001: "py_str_int 30001 = ''30001''"
  by (simp add: py_str_int_def nat_to_str.simps digit_char_def char_of_def bit_0)

theorem rewritten_pong_advertises_proxy_witness:
  "\<exists>data. rewrite_bedrock_pong_ports
      ((CHR 0x1C # replicate 32 CHR 0x00) @ [CHR 0x00, CHR 0x24] @ pong_text @ []) 30001 = Inr data \<and>
    rewrite_bedrock_pong_ports data 30001 = Inr data"
proof -
  let ?header = "CHR 0x1C # replicate 32 CHR 0x00"
  let ?run = "rewrite_bedrock_pong_ports (?header @ [CHR 0x00, CHR 0x24] @ pong_text @ []) 30001"
  have a: "length ?header = 33" "hd ?header = CHR 0x1C" by simp_all
  have b: "length (py_split (CHR '';'') pong_text) \<ge> 11" "py_split (CHR '';'') pong_text ! 0 \<in> {''MCPE'', ''MCEE''}"
    by (simp_all add: pong_text_parts)
  have "\<exists>data. ?run = Inr data"
    unfolding rewrite_pong [OF a pong_text_facts b]
    by (simp add: pong_text_parts rewrite_parts_def port_30001 pack_u16_def Let_def)
  then obtain data where run: "?run = Inr data" by blast
  from rewritten_pong_advertises_proxy [OF a pong_text_facts b, of 30001 "[]"]
  have "rewrite_bedrock_pong_ports data 30001 = Inr data"
    unfolding run sum.case by fastforce
  with run show ?thesis by blast
qed

end
