(* ===== verification/Game_Proxy.thy ===== *)
theory Game_Proxy
  imports Lifecycle Wire Pong "HOL-Library.AList"
begin

text \<open>
  \<open>services/game_proxy.py\<close>: the routing table read from the database, the listeners that follow it,
  what a TCP connection and a datagram lead to, and waking a sleeping server.  The event loop is
  modelled by its callbacks; whether a port can be bound and a backend connected are parameters.
\<close>

section \<open>Routes\<close>

record route =
  rt_backend_ip :: string
  rt_backend_port :: int
  rt_flavor :: ServerFlavor
  rt_server_id :: uuid
  rt_is_suspended :: bool

type_synonym routes = "(int \<times> route) list"

text \<open>The row of a server joined with its node, if there is one.\<close>

definition route_ip :: "database \<Rightarrow> server \<Rightarrow> string" where
  "route_ip db r =
     (let node_ip = (case Option.bind (srv_node_id r) (get_node db) of Some n \<Rightarrow> nd_ip_address n | None \<Rightarrow> [])
      in if node_ip \<noteq> [] then node_ip else (case srv_vm_ipv4 r of Some ip \<Rightarrow> ip | None \<Rightarrow> []))"

definition route_of :: "database \<Rightarrow> server \<Rightarrow> (int \<times> route) option" where
  "route_of db r =
     (case srv_proxy_port r of
        None \<Rightarrow> None
      | Some proxy_port \<Rightarrow>
          if srv_state r \<notin> {ServerState.running, ServerState.suspended} then None
          else if route_ip db r = [] \<or> srv_vm_port r = 0 \<or> proxy_port = 0 then None
          else Some (proxy_port, \<lparr>rt_backend_ip = route_ip db r, rt_backend_port = srv_vm_port r,
            rt_flavor = srv_flavor r, rt_server_id = srv_id r,
            rt_is_suspended = (srv_state r = ServerState.suspended)\<rparr>))"

definition load_routing_table :: "database \<Rightarrow> routes" where
  "load_routing_table db =
     fold (\<lambda>(p, r). AList.update p r) (List.map_filter (route_of db) (db_servers db)) []"

section \<open>Listeners\<close>

record game_proxy =
  gp_routing_table :: routes
  gp_tcp_servers :: "int set"
  gp_udp_transports :: "int set"

definition new_proxy :: game_proxy where
  "new_proxy = \<lparr>gp_routing_table = [], gp_tcp_servers = {}, gp_udp_transports = {}\<rparr>"

definition ports_of :: "routes \<Rightarrow> int list" where
  "ports_of rs = map fst rs"

text \<open>\<open>binds tcp p\<close> tells whether the port can be bound now.\<close>

definition start_listeners :: "(bool \<Rightarrow> int \<Rightarrow> bool) \<Rightarrow> int \<Rightarrow> game_proxy \<Rightarrow> game_proxy" where
  "start_listeners binds p gp =
     (let gp = (if p \<notin> gp_tcp_servers gp \<and> binds True p
                then gp\<lparr>gp_tcp_servers := insert p (gp_tcp_servers gp)\<rparr> else gp)
      in if p \<notin> gp_udp_transports gp \<and> binds False p
         then gp\<lparr>gp_udp_transports := insert p (gp_udp_transports gp)\<rparr> else gp)"

definition stop_listeners :: "int \<Rightarrow> game_proxy \<Rightarrow> game_proxy" where
  "stop_listeners p gp =
     gp\<lparr>gp_tcp_servers := gp_tcp_servers gp - {p}, gp_udp_transports := gp_udp_transports gp - {p}\<rparr>"

definition start_proxy :: "(bool \<Rightarrow> int \<Rightarrow> bool) \<Rightarrow> routes \<Rightarrow> game_proxy" where
  "start_proxy binds table =
     fold (start_listeners binds) (ports_of table) (new_proxy\<lparr>gp_routing_table := table\<rparr>)"

text \<open>One turn of the refresh loop; a table that cannot be read changes nothing.\<close>

definition refresh_proxy :: "(bool \<Rightarrow> int \<Rightarrow> bool) \<Rightarrow> routes option \<Rightarrow> game_proxy \<Rightarrow> game_proxy" where
  "refresh_proxy binds table gp =
     (case table of
        None \<Rightarrow> gp
      | Some new_routes \<Rightarrow>
          let old = ports_of (gp_routing_table gp);
              new_ports = filter (\<lambda>p. p \<notin> set old) (ports_of new_routes);
              removed_ports = filter (\<lambda>p. p \<notin> set (ports_of new_routes)) old;
              gp = fold (start_listeners binds) new_ports gp;
              gp = fold stop_listeners removed_ports gp
          in gp\<lparr>gp_routing_table := new_routes\<rparr>)"

definition shutdown_proxy :: "game_proxy \<Rightarrow> game_proxy" where
  "shutdown_proxy gp = gp\<lparr>gp_tcp_servers := {}, gp_udp_transports := {}\<rparr>"

text \<open>The states the proxy can be in while it runs.\<close>

inductive proxy_reachable :: "game_proxy \<Rightarrow> bool" where
  started: "proxy_reachable (start_proxy binds table)"
| refreshed: "proxy_reachable gp \<Longrightarrow> proxy_reachable (refresh_proxy binds table gp)"

section \<open>Waking a sleeping server\<close>

definition WAKE_COOLDOWN_SECONDS :: int where
  "WAKE_COOLDOWN_SECONDS = 60"

type_synonym waking = "(uuid \<times> instant) list"

definition wake_server :: "settings \<Rightarrow> start_env \<Rightarrow> uuid \<Rightarrow> unit op" where
  "wake_server cfg env sid =
     bind_op (get_op (\<lambda>s. get_server (ses_objects s) sid)) (\<lambda>found.
     case found of
       None \<Rightarrow> return_op ()
     | Some r \<Rightarrow>
         if srv_state r = ServerState.suspended
         then bind_op (do_start_server cfg env sid) (\<lambda>_. commit_op)
         else return_op ())"

text \<open>\<open>now\<close> is the monotonic clock; an exception of the start is only logged.\<close>

definition trigger_wakeup ::
  "settings \<Rightarrow> start_env \<Rightarrow> instant \<Rightarrow> uuid \<Rightarrow> waking \<times> database \<Rightarrow> waking \<times> database" where
  "trigger_wakeup cfg env now sid = (\<lambda>(waking, db).
     let last_attempt = (case map_of waking sid of Some t \<Rightarrow> t | None \<Rightarrow> 0) in
     if now - last_attempt < seconds WAKE_COOLDOWN_SECONDS then (waking, db)
     else (AList.update sid now waking, snd (run_request (wake_server cfg env sid) db)))"

section \<open>TCP clients\<close>

text \<open>
  The text of the disconnect message, as \<open>json.dumps\<close> writes it; \<open>uuid_str\<close> is \<open>str\<close> of an id,
  and the pieces \<open>q\<close> and \<open>nl\<close> are the quote and the escaped line break.
\<close>

definition json_field :: "string \<Rightarrow> string \<Rightarrow> string" where
  "json_field key text = (let q = CHR 0x22 in q # key @ [q] @ '': '' @ [q] @ text @ [q])"

fun comma_separated :: "string list \<Rightarrow> string" where
  "comma_separated [] = []"
| "comma_separated [f] = f"
| "comma_separated (f # g # fs) = f @ '', '' @ comma_separated (g # fs)"

definition json_record :: "string list \<Rightarrow> string" where
  "json_record fs = ''{'' @ comma_separated fs @ ''}''"

definition wake_message :: "string \<Rightarrow> string" where
  "wake_message server_id =
     (let q = CHR 0x22; nl = [CHR 0x5C, CHR ''n''];
          key = (\<lambda>k. q # k @ [q] @ '': '');
          click = json_record [json_field ''action'' ''open_url'',
            json_field ''value'' (''https://panel.blockhost.app/servers/'' @ server_id)];
          hover = json_record [json_field ''action'' ''show_text'', json_field ''value'' ''Click to open panel''];
          first = json_record [json_field ''text'' (''Server is waking up!'' @ nl @ ''Click here to view progress: ''),
            json_field ''color'' ''yellow''];
          second = json_record [json_field ''text'' (''panel.blockhost.app/servers/'' @ server_id),
            json_field ''color'' ''aqua'', key ''clickEvent'' @ click, key ''hoverEvent'' @ hover]
      in json_record [json_field ''text'' [], key ''extra'' @ ''['' @ first @ '', '' @ second @ '']''])"

datatype tcp_outcome =
    TcpNoRoute
  | TcpWake uuid "bytes option"
  | TcpRefused
  | TcpPipe string int

definition handle_tcp_client ::
  "(uuid \<Rightarrow> string) \<Rightarrow> (string \<Rightarrow> int \<Rightarrow> bool) \<Rightarrow> int \<Rightarrow> routes \<Rightarrow> tcp_outcome" where
  "handle_tcp_client uuid_str connects proxy_port routing_table =
     (case map_of routing_table proxy_port of
        None \<Rightarrow> TcpNoRoute
      | Some r \<Rightarrow>
          if rt_is_suspended r then
            TcpWake (rt_server_id r)
              (disconnect_packet (map (\<lambda>c. word_of_nat (of_char c)) (wake_message (uuid_str (rt_server_id r)))))
          else if \<not> connects (rt_backend_ip r) (rt_backend_port r) then TcpRefused
          else TcpPipe (rt_backend_ip r) (rt_backend_port r))"

section \<open>Datagrams\<close>

text \<open>A client's address, and the backend each known client's socket is connected to.\<close>

type_synonym client_addr = "string \<times> int"

record udp_proxy =
  up_proxy_port :: int
  up_client_sessions :: "(client_addr \<times> (string \<times> int)) list"

datatype udp_action =
    UdpDrop
  | UdpWake uuid "string option"
  | UdpSend "string \<times> int" string

definition fake_pong_text :: "int \<Rightarrow> string" where
  "fake_pong_text proxy_port =
     ''MCPE;Server Waking Up...;503;1.20;0;0;1;Wait 15s...;Survival;1;'' @ py_str_int proxy_port @ '';'' @
       py_str_int proxy_port"

text \<open>The length is that of a short text, so packing it does not fail.\<close>

definition fake_pong :: "string \<Rightarrow> int \<Rightarrow> string" where
  "fake_pong data proxy_port =
     (let timestamp = take 8 (drop 1 data);
          magic = take 16 (drop 9 data);
          server_guid = map char_of [0, 0, 0, 0, 0, 0, 0, 1 :: nat];
          payload = fake_pong_text proxy_port;
          payload_len = [char_of (length payload div 256), char_of (length payload mod 256)]
      in CHR 0x1C # timestamp @ server_guid @ magic @ payload_len @ payload)"

text \<open>
  \<open>datagram_received\<close> with \<open>_forward_new_client\<close>: a client without a session gets one, when the
  socket to the backend can be made, and its datagram is sent on it.
\<close>

definition datagram_received ::
  "(string \<times> int \<Rightarrow> bool) \<Rightarrow> routes \<Rightarrow> string \<Rightarrow> client_addr \<Rightarrow> udp_proxy \<Rightarrow> udp_action \<times> udp_proxy" where
  "datagram_received opens routing_table data addr up =
     (case map_of routing_table (up_proxy_port up) of
        None \<Rightarrow> (UdpDrop, up)
      | Some r \<Rightarrow>
          if rt_is_suspended r then
            (UdpWake (rt_server_id r)
               (if length data \<ge> 33 \<and> hd data = CHR 0x01 then Some (fake_pong data (up_proxy_port up)) else None), up)
          else
            (case map_of (up_client_sessions up) addr of
               Some backend \<Rightarrow> (UdpSend backend data, up)
             | None \<Rightarrow>
                 let backend = (rt_backend_ip r, rt_backend_port r) in
                 if opens backend
                 then (UdpSend backend data,
                       up\<lparr>up_client_sessions := AList.update addr backend (up_client_sessions up)\<rparr>)
                 else (UdpDrop, up)))"

text \<open>What a backend answers goes to the client with its ports rewritten; an error drops it.\<close>

definition backend_datagram :: "udp_proxy \<Rightarrow> string \<Rightarrow> string option" where
  "backend_datagram up data =
     (case rewrite_bedrock_pong_ports data (up_proxy_port up) of Inl e \<Rightarrow> None | Inr d \<Rightarrow> Some d)"

section \<open>Lemmas\<close>

lemma start_listeners_sel [simp]:
  "gp_routing_table (start_listeners binds p gp) = gp_routing_table gp"
  "gp_tcp_servers (start_listeners binds p gp) =
     gp_tcp_servers gp \<union> (if binds True p then {p} else {})"
  "gp_udp_transports (start_listeners binds p gp) =
     gp_udp_transports gp \<union> (if binds False p then {p} else {})"
  by (auto simp: start_listeners_def Let_def)

lemma fold_start_listeners:
  "gp_routing_table (fold (start_listeners binds) ps gp) = gp_routing_table gp"
  "gp_tcp_servers (fold (start_listeners binds) ps gp) = gp_tcp_servers gp \<union> {p \<in> set ps. binds True p}"
  "gp_udp_transports (fold (start_listeners binds) ps gp) = gp_udp_transports gp \<union> {p \<in> set ps. binds False p}"
  by (induction ps arbitrary: gp) auto

lemma fold_stop_listeners:
  "gp_tcp_servers (fold stop_listeners ps gp) = gp_tcp_servers gp - set ps"
  "gp_udp_transports (fold stop_listeners ps gp) = gp_udp_transports gp - set ps"
  by (induction ps arbitrary: gp) (auto simp: stop_listeners_def)

lemma start_proxy_sel:
  "set (ports_of (gp_routing_table (start_proxy binds table))) = set (ports_of table)"
  "gp_tcp_servers (start_proxy binds table) = {p \<in> set (ports_of table). binds True p}"
  "gp_udp_transports (start_proxy binds table) = {p \<in> set (ports_of table). binds False p}"
  by (auto simp: start_proxy_def fold_start_listeners new_proxy_def)

lemma refresh_proxy_sel:
  assumes "gp_tcp_servers gp \<subseteq> set (ports_of (gp_routing_table gp))"
    "gp_udp_transports gp \<subseteq> set (ports_of (gp_routing_table gp))"
  shows "gp_routing_table (refresh_proxy binds (Some table) gp) = table"
    "gp_tcp_servers (refresh_proxy binds (Some table) gp) =
       {p \<in> set (ports_of table). p \<in> gp_tcp_servers gp \<or>
          p \<notin> set (ports_of (gp_routing_table gp)) \<and> binds True p}"
    "gp_udp_transports (refresh_proxy binds (Some table) gp) =
       {p \<in> set (ports_of table). p \<in> gp_udp_transports gp \<or>
          p \<notin> set (ports_of (gp_routing_table gp)) \<and> binds False p}"
  using assms by (auto simp: refresh_proxy_def Let_def fold_start_listeners fold_stop_listeners)

lemma reachable_listeners:
  "proxy_reachable gp \<Longrightarrow> gp_tcp_servers gp \<subseteq> set (ports_of (gp_routing_table gp)) \<and>
     gp_udp_transports gp \<subseteq> set (ports_of (gp_routing_table gp))"
proof (induction rule: proxy_reachable.induct)
  case (started binds table)
  show ?case by (auto simp: start_proxy_sel)
next
  case (refreshed gp binds table)
  then show ?case
    by (cases table) (auto simp: refresh_proxy_sel refresh_proxy_def [of _ None])
qed

lemma length_fake_pong_text:
  assumes "0 \<le> port" "port < 65536"
  shows "length (fake_pong_text port) < 256 \<and> 0 < length (fake_pong_text port)"
proof -
  have "length (nat_to_str (nat port)) \<le> Suc 4" by (rule length_nat_to_str_bound) (use assms in simp)
  then show ?thesis using assms by (simp add: fake_pong_text_def py_str_int_def)
qed

lemma fake_pong_text_parts:
  assumes "0 \<le> port" "port < 65536"
  shows "py_split (CHR '';'') (fake_pong_text port) =
    [''MCPE'', ''Server Waking Up...'', ''503'', ''1.20'', ''0'', ''0'', ''1'', ''Wait 15s...'', ''Survival'', ''1'',
     py_str_int port, py_str_int port]"
proof -
  let ?parts = "[''MCPE'', ''Server Waking Up...'', ''503'', ''1.20'', ''0'', ''0'', ''1'', ''Wait 15s...'', ''Survival'', ''1'',
     py_str_int port, py_str_int port]"
  have "fake_pong_text port = py_join (CHR '';'') ?parts" by (simp add: fake_pong_text_def)
  moreover have free: "\<forall>p \<in> set ?parts. CHR '';'' \<notin> set p" using port_text(1) [OF assms] by simp
  have "?parts \<noteq> []" by simp
  from py_split_join [OF this free] have "py_split (CHR '';'') (py_join (CHR '';'') ?parts) = ?parts" .
  ultimately show ?thesis by (simp only:)
qed

section \<open>Properties\<close>


text \<open>
  A client of a migrated server keeps talking to the old node.  Once a client has a session,
  its datagrams go to the backend the session was made for, whatever route the table has for the
  port by then (as long as there is one and the server is not suspended).
\<close>

theorem udp_sessions_outlive_routes:
  assumes "map_of (up_client_sessions up) addr = Some backend"
    and "map_of table (up_proxy_port up) = Some r" "\<not> rt_is_suspended r"
  shows "datagram_received opens table data addr up = (UdpSend backend data, up)"
  using assms by (simp add: datagram_received_def)

text \<open>
  A sleeping server answers the pings of the backend's own client.  The pong the proxy makes
  up for an unconnected ping passes every check of the reader, and its text advertises the proxy's
  port for IPv4 and IPv6.
\<close>

theorem fake_pong_is_read:
  assumes "0 \<le> port" "port < 65536"
  shows "read_unconnected_pong (fake_pong (unconnected_ping timestamp_ms guid) port) = Inr (1, fake_pong_text port) \<and>
    dict_get (parse_bedrock_pong_payload (fake_pong_text port)) ''port_v4'' = Some (JInt port) \<and>
    dict_get (parse_bedrock_pong_payload (fake_pong_text port)) ''port_v6'' = Some (JInt port)"
proof -
  let ?text = "fake_pong_text port" and ?ping = "unconnected_ping timestamp_ms guid"
  let ?len = "[char_of (length ?text div 256), char_of (length ?text mod 256)] :: string"
  have magic: "length RAKNET_MAGIC = 16" by (simp add: RAKNET_MAGIC_def)
  have u64: "length (pack_u64 n) = 8" for n by (simp add: pack_u64_def)
  have ping: "take 8 (drop 1 ?ping) = pack_u64 timestamp_ms" "take 16 (drop 9 ?ping) = RAKNET_MAGIC"
    unfolding unconnected_ping_def using u64 magic by simp_all
  define g :: string where "g = map char_of [0, 0, 0, 0, 0, 0, 0, 1 :: nat]"
  have g: "length g = 8" "unpack_be g = 1" by (simp_all add: g_def unpack_be_def)
  have pong: "fake_pong ?ping port = CHR 0x1C # pack_u64 timestamp_ms @ g @ RAKNET_MAGIC @ ?len @ ?text"
    by (simp only: fake_pong_def ping g_def Let_def)
  have len: "unpack_be ?len = length ?text"
    using length_fake_pong_text [OF assms] by (simp add: unpack_be_def)
  have "read_unconnected_pong (fake_pong ?ping port) = Inr (1, ?text)"
    unfolding pong by (simp add: read_unconnected_pong_def u64 magic g len [simplified])
  moreover have "dict_get (parse_bedrock_pong_payload ?text) ''port_v4'' = Some (JInt port)"
    "dict_get (parse_bedrock_pong_payload ?text) ''port_v6'' = Some (JInt port)"
    using port_text(3) [OF assms] by (simp_all add: parse_bedrock_pong_payload_def fake_pong_text_parts [OF assms] dict_get_def)
  ultimately show ?thesis by blast
qed

section \<open>Witnesses\<close>

definition sample_route :: route where
  "sample_route = \<lparr>rt_backend_ip = ''10.0.0.2'', rt_backend_port = 19132, rt_flavor = ServerFlavor.BEDROCK,
     rt_server_id = 10, rt_is_suspended = False\<rparr>"


theorem udp_sessions_outlive_routes_witness:
  "datagram_received (\<lambda>_. True) [(30001, sample_route)] ''x'' (''1.2.3.4'', 5)
      \<lparr>up_proxy_port = 30001, up_client_sessions = [((''1.2.3.4'', 5), (''10.0.0.1'', 19140))]\<rparr> =
    (UdpSend (''10.0.0.1'', 19140) ''x'',
      \<lparr>up_proxy_port = 30001, up_client_sessions = [((''1.2.3.4'', 5), (''10.0.0.1'', 19140))]\<rparr>)"
  by (rule udp_sessions_outlive_routes [where r = sample_route]) (simp_all add: sample_route_def)

theorem fake_pong_is_read_witness:
  "read_unconnected_pong (fake_pong (unconnected_ping 7 9) 30001) = Inr (1, fake_pong_text 30001)"
  using fake_pong_is_read [of 30001 7 9] by simp

end
