(* ===== verification/Tokens.thy ===== *)
theory Tokens
  imports PyText Ops Windows
begin

text \<open>
  Signed tokens and who a request comes from (\<open>core/security.py\<close>, \<open>services/auth_tokens.py\<close>,
  \<open>api/deps.py\<close>).  The JWT library, the password hash and Google's verifier are the fields of a
  record the definitions take; what is assumed of them is stated where it is used.
\<close>

section \<open>UUIDs as text\<close>

definition hex_char :: "nat \<Rightarrow> char" where
  "hex_char d = (if d < 10 then char_of (48 + d) else char_of (87 + d))"

lemma hex_char_code [code]: "hex_char d = (if d < 16 then ''0123456789abcdef'' ! d else char_of (87 + d))"
proof -
  have "list_all (\<lambda>d. hex_char d = ''0123456789abcdef'' ! d) [0..<16]" by code_simp
  then show ?thesis by (auto simp: list_all_iff hex_char_def)
qed

primrec hex_digits :: "nat \<Rightarrow> nat \<Rightarrow> string" where
  "hex_digits 0 n = []"
| "hex_digits (Suc k) n = hex_digits k (n div 16) @ [hex_char (n mod 16)]"

text \<open>\<open>str(u)\<close> of a \<open>uuid.UUID\<close>: 32 digits in groups of 8, 4, 4, 4 and 12.\<close>

definition str_uuid :: "uuid \<Rightarrow> string" where
  "str_uuid u = (let h = hex_digits 32 u in
     take 8 h @ CHR ''-'' # take 4 (drop 8 h) @ CHR ''-'' # take 4 (drop 12 h) @ CHR ''-'' #
     take 4 (drop 16 h) @ CHR ''-'' # drop 20 h)"

lemma hex_val_hex_char: "d < 16 \<Longrightarrow> hex_val (hex_char d) = Some d"
  by (auto simp: hex_val_def hex_char_def Let_def)

lemma hex_digits_chars: "c \<in> set (hex_digits k n) \<Longrightarrow> \<exists>d < 16. c = hex_char d"
  by (induction k arbitrary: n) force+

lemma length_hex_digits [simp]: "length (hex_digits k n) = k"
  by (induction k arbitrary: n) auto

lemma parse_hex_append:
  "\<forall>c \<in> set xs. hex_val c \<noteq> None \<Longrightarrow>
   parse_hex (xs @ ys) b acc =
     (if xs = [] then parse_hex ys b acc
      else parse_hex ys True (foldl (\<lambda>a c. a * 16 + the (hex_val c)) acc xs))"
  by (induction xs arbitrary: acc b) auto

lemma foldl_hex_digits:
  "foldl (\<lambda>a c. a * 16 + the (hex_val c)) 0 (hex_digits k n) = n mod 16 ^ k"
proof (induction k arbitrary: n)
  case (Suc k)
  have "n mod 16 ^ Suc k = n div 16 mod 16 ^ k * 16 + n mod 16"
    by (simp add: mod_mult2_eq)
  with Suc show ?case by (simp add: hex_val_hex_char)
qed simp

lemma py_remove_absent: "p \<noteq> [] \<Longrightarrow> hd p \<notin> set s \<Longrightarrow> py_remove p s = s"
proof (induction s)
  case Nil
  then show ?case by (simp add: py_remove.simps)
next
  case (Cons c cs)
  then have "\<not> py_startswith (c # cs) p"
    by (cases p) (auto simp: py_startswith_def)
  with Cons show ?case by (simp add: py_remove.simps [of p "c # cs"])
qed

lemma py_remove_char: "py_remove [a] s = filter (\<lambda>c. c \<noteq> a) s"
proof (induction s)
  case Nil
  then show ?case by (simp add: py_remove.simps)
next
  case (Cons c cs)
  have "py_startswith (c # cs) [a] \<longleftrightarrow> c = a" by (simp add: py_startswith_def)
  with Cons show ?case by (simp add: py_remove.simps [of "[a]" "c # cs"])
qed

lemma hex_char_cases: "d < 16 \<Longrightarrow> hex_char d \<in> set ''0123456789abcdef''"
proof -
  assume "d < 16"
  then have "d \<in> set [0..<16]" by simp
  moreover have "\<forall>d \<in> set [0..<16]. hex_char d \<in> set ''0123456789abcdef''" by code_simp
  ultimately show ?thesis by blast
qed

lemma hex_digits_all: "c \<in> set (hex_digits k n) \<Longrightarrow> list_all P ''0123456789abcdef'' \<Longrightarrow> P c"
  using hex_digits_chars [of c k n] hex_char_cases unfolding list_all_iff by blast

lemma hex_digits_absent: "c \<notin> set ''0123456789abcdef'' \<Longrightarrow> c \<notin> set (hex_digits k n)"
  using hex_digits_chars [of c k n] hex_char_cases by blast

lemma str_uuid_chars: "c \<in> set (str_uuid u) \<Longrightarrow> c = CHR ''-'' \<or> c \<in> set (hex_digits 32 u)"
proof -
  define h where "h = hex_digits 32 u"
  show "c \<in> set (str_uuid u) \<Longrightarrow> c = CHR ''-'' \<or> c \<in> set (hex_digits 32 u)"
    unfolding str_uuid_def Let_def h_def [symmetric] by (auto dest: in_set_takeD in_set_dropD)
qed

lemma split_groups:
  "take 8 h @ take 4 (drop 8 h) @ take 4 (drop 12 h) @ take 4 (drop 16 h) @ drop 20 h = h"
proof -
  have "take 4 (drop n h) @ drop (n + 4) h = drop n h" for n
    by (metis append_take_drop_id drop_drop add.commute)
  from this [of 16] this [of 12] this [of 8] show ?thesis by simp
qed

lemma filter_str_uuid: "filter (\<lambda>c. c \<noteq> CHR ''-'') (str_uuid u) = hex_digits 32 u"
proof -
  define h where "h = hex_digits 32 u"
  have "CHR ''-'' \<notin> set h" unfolding h_def by (rule hex_digits_absent) simp
  then have "filter (\<lambda>c. c \<noteq> CHR ''-'') (take n (drop m h)) = take n (drop m h)"
    "filter (\<lambda>c. c \<noteq> CHR ''-'') (take n h) = take n h"
    "filter (\<lambda>c. c \<noteq> CHR ''-'') (drop m h) = drop m h" for n m
    by (auto simp: filter_id_conv dest!: in_set_takeD in_set_dropD)
  then show ?thesis
    unfolding str_uuid_def Let_def h_def [symmetric] by (simp add: split_groups)
qed

lemma py_int16_hex: "py_int16 (hex_digits 32 u) = Some (u mod 16 ^ 32)"
proof -
  define h where "h = hex_digits 32 u"
  have "\<forall>c \<in> set h. \<not> is_space c"
    unfolding h_def by (rule ballI, erule hex_digits_all) code_simp
  then have strip: "py_strip h = h" by (rule py_strip_none)
  have "length h = Suc (Suc 30)" by (simp add: h_def)
  then obtain a b cs where h: "h = a # b # cs" by (metis length_Suc_conv)
  have ab: "a \<noteq> CHR ''+''" "lower_char b \<noteq> CHR ''x''"
  proof -
    have "\<forall>c \<in> set h. c \<noteq> CHR ''+'' \<and> lower_char c \<noteq> CHR ''x''"
      unfolding h_def by (rule ballI, erule hex_digits_all) code_simp
    then show "a \<noteq> CHR ''+''" "lower_char b \<noteq> CHR ''x''" using h by auto
  qed
  have "\<forall>c \<in> set h. hex_val c \<noteq> None"
    using hex_digits_chars [of _ 32 u] hex_val_hex_char unfolding h_def by fastforce
  from parse_hex_append [OF this, of "[]" False 0] have "parse_hex h False 0 = Some (u mod 16 ^ 32)"
    using foldl_hex_digits [of 32 u] h by (simp only: h_def [symmetric]) simp
  then show ?thesis
    using ab strip unfolding h_def [symmetric] py_int16_def Let_def strip h
    by (simp add: py_startswith_def py_lower_def)
qed

text \<open>The text of every UUID is parsed back as that UUID.\<close>

theorem parse_str_uuid:
  assumes "u < 2 ^ 128"
  shows "parse_uuid (str_uuid u) = Some u"
proof -
  have no: "CHR ''u'' \<notin> set (str_uuid u)" "CHR ''{'' \<notin> set (str_uuid u)" "CHR ''}'' \<notin> set (str_uuid u)"
    using str_uuid_chars [of _ u] hex_digits_absent [of _ 32 u] by force+
  define brace where "brace = (\<lambda>c. c = CHR ''{'' \<or> c = CHR ''}'')"
  have "\<forall>c \<in> set (str_uuid u). \<not> brace c" using no by (auto simp: brace_def)
  then have "rstrip_where brace (lstrip_where brace (str_uuid u)) = str_uuid u"
    by (simp add: rstrip_where_def lstrip_where_def dropWhile_none)
  moreover have "u mod 16 ^ 32 = u" using assms by simp
  ultimately show ?thesis
    using no py_int16_hex [of u]
    unfolding parse_uuid_def Let_def brace_def [symmetric]
    by (simp add: py_remove_absent py_remove_char filter_str_uuid)
qed

section \<open>Signing and passwords\<close>

text \<open>
  The claims of a JWT.  The library refuses a subject or an identifier that is not a string and an
  expiry that is not a number; a \<open>type\<close> that is not a string differs from every type asked for.
\<close>

record claims =
  cl_sub :: "string option"
  cl_type :: "string option"
  cl_iat :: "int option"
  cl_exp :: "int option"
  cl_jti :: "string option"

text \<open>
  What a request finds outside the code: the clock, the JWT library (\<open>None\<close> is \<open>JWTError\<close>), the
  password hash (whose check may raise), SHA-256, the random values drawn while it runs, and
  Google's token verifier (\<open>None\<close> is its exception).
\<close>

record auth_env =
  ae_now :: instant
  ae_encode :: "claims \<Rightarrow> string \<Rightarrow> string"
  ae_decode :: "instant \<Rightarrow> string \<Rightarrow> string \<Rightarrow> claims option"
  ae_hash :: "string \<Rightarrow> string"
  ae_verify :: "string \<Rightarrow> string \<Rightarrow> exn + bool"
  ae_sha256 :: "string \<Rightarrow> string"
  ae_otp :: nat
  ae_jti_access :: string
  ae_jti_refresh :: string
  ae_new_user_id :: uuid
  ae_codes :: "nat \<Rightarrow> string"
  ae_google :: "string \<Rightarrow> json dict option"

definition verify_password :: "auth_env \<Rightarrow> string \<Rightarrow> string \<Rightarrow> bool" where
  "verify_password env password password_hash =
     (if password_hash = [] then False
      else case ae_verify env password password_hash of Inl _ \<Rightarrow> False | Inr b \<Rightarrow> b)"

text \<open>\<open>int(t.timestamp())\<close> of a time after the epoch.\<close>

definition unix_time :: "instant \<Rightarrow> int" where
  "unix_time t = t div seconds 1"

definition token_claims :: "instant \<Rightarrow> string \<Rightarrow> string \<Rightarrow> int \<Rightarrow> string \<Rightarrow> claims" where
  "token_claims now jti subject expires_seconds token_type =
     \<lparr>cl_sub = Some subject, cl_type = Some token_type, cl_iat = Some (unix_time now),
      cl_exp = Some (unix_time (now + seconds expires_seconds)), cl_jti = Some jti\<rparr>"

definition create_token :: "settings \<Rightarrow> auth_env \<Rightarrow> string \<Rightarrow> string \<Rightarrow> int \<Rightarrow> string \<Rightarrow> string" where
  "create_token cfg env jti subject expires_seconds token_type =
     ae_encode env (token_claims (ae_now env) jti subject expires_seconds token_type)
       (cfg_jwt_secret_key cfg)"

definition create_access_token :: "settings \<Rightarrow> auth_env \<Rightarrow> string \<Rightarrow> int \<Rightarrow> string" where
  "create_access_token cfg env subject expires_seconds =
     create_token cfg env (ae_jti_access env) subject expires_seconds ''access''"

definition create_refresh_token :: "settings \<Rightarrow> auth_env \<Rightarrow> string \<Rightarrow> int \<Rightarrow> string" where
  "create_refresh_token cfg env subject expires_seconds =
     create_token cfg env (ae_jti_refresh env) subject expires_seconds ''refresh''"

definition decode_token :: "settings \<Rightarrow> auth_env \<Rightarrow> string \<Rightarrow> string \<Rightarrow> exn + claims" where
  "decode_token cfg env token expected_type =
     (case ae_decode env (ae_now env) token (cfg_jwt_secret_key cfg) of
        None \<Rightarrow> Inl (TokenError ''Invalid token'')
      | Some payload \<Rightarrow>
          if cl_type payload \<noteq> Some expected_type then Inl (TokenError ''Invalid token type'')
          else if cl_sub payload = None \<or> cl_sub payload = Some [] then Inl (TokenError ''Missing subject'')
          else Inr payload)"

section \<open>Refresh tokens\<close>

text \<open>\<open>decoded["jti"]\<close> and \<open>decoded["exp"]\<close>.\<close>

definition claim :: "'a option \<Rightarrow> exn + 'a" where
  "claim x = (case x of None \<Rightarrow> Inl KeyError | Some v \<Rightarrow> Inr v)"

definition store_refresh_token :: "uuid \<Rightarrow> string \<Rightarrow> instant \<Rightarrow> unit op" where
  "store_refresh_token user_id jti expires_at =
     modify_op (set_objects (\<lambda>db. db\<lparr>db_refresh_tokens := db_refresh_tokens db @
       [\<lparr>rt_user_id = user_id, rt_jti = jti, rt_expires_at = expires_at, rt_revoked_at = None\<rparr>]\<rparr>))"

definition issue_refresh_token :: "settings \<Rightarrow> auth_env \<Rightarrow> uuid \<Rightarrow> string op" where
  "issue_refresh_token cfg env user_id =
     (let token = create_refresh_token cfg env (str_uuid user_id)
            (cfg_jwt_refresh_token_expire_seconds cfg) in
      bind_op (lift_op (decode_token cfg env token ''refresh'')) (\<lambda>decoded.
      bind_op (lift_op (claim (cl_exp decoded))) (\<lambda>exp.
      bind_op (lift_op (claim (cl_jti decoded))) (\<lambda>jti.
      bind_op (store_refresh_token user_id jti (seconds exp)) (\<lambda>_.
      return_op token)))))"

text \<open>The rows of a query, as they are in memory.\<close>

definition query_tokens :: "string \<Rightarrow> session \<Rightarrow> refresh_token list" where
  "query_tokens jti s =
     map (\<lambda>r. case get_row rt_jti (rt_jti r) (db_refresh_tokens (ses_objects s)) of None \<Rightarrow> r | Some r' \<Rightarrow> r')
       (filter (\<lambda>r. rt_jti r = jti) (db_refresh_tokens (ses_flushed s)))"

definition find_token :: "string \<Rightarrow> refresh_token option op" where
  "find_token jti = bind_op (get_op (query_tokens jti)) (\<lambda>rows. lift_op (one_or_none rows))"

definition validate_refresh_token :: "settings \<Rightarrow> auth_env \<Rightarrow> string \<Rightarrow> user op" where
  "validate_refresh_token cfg env token =
     bind_op (case decode_token cfg env token ''refresh'' of
                Inl _ \<Rightarrow> raise_op (TokenError ''Invalid refresh token'')
              | Inr decoded \<Rightarrow> return_op decoded) (\<lambda>decoded.
     bind_op (lift_op (claim (cl_jti decoded))) (\<lambda>jti.
     bind_op (find_token jti) (\<lambda>found.
     case found of
       None \<Rightarrow> raise_op (TokenError ''Refresh token revoked or unknown'')
     | Some row \<Rightarrow>
         if rt_revoked_at row \<noteq> None then raise_op (TokenError ''Refresh token revoked or unknown'')
         else if rt_expires_at row \<le> ae_now env then raise_op (TokenError ''Refresh token expired'')
         else bind_op (get_op (\<lambda>s. get_user (ses_objects s) (rt_user_id row))) (\<lambda>user.
           case user of
             None \<Rightarrow> raise_op (TokenError ''User not found'')
           | Some u \<Rightarrow> if usr_deleted_at u \<noteq> None then raise_op (TokenError ''User not found'')
                      else return_op u))))"

definition revoke_refresh_token :: "settings \<Rightarrow> auth_env \<Rightarrow> string \<Rightarrow> unit op" where
  "revoke_refresh_token cfg env token =
     (case decode_token cfg env token ''refresh'' of
        Inl _ \<Rightarrow> return_op ()
      | Inr decoded \<Rightarrow>
          bind_op (lift_op (claim (cl_jti decoded))) (\<lambda>jti.
          bind_op (find_token jti) (\<lambda>found.
          case found of
            None \<Rightarrow> return_op ()
          | Some row \<Rightarrow>
              if rt_revoked_at row \<noteq> None then return_op ()
              else modify_op (set_objects (\<lambda>db. db\<lparr>db_refresh_tokens :=
                modify_row rt_jti (rt_jti row) (\<lambda>r. r\<lparr>rt_revoked_at := Some (ae_now env)\<rparr>)
                  (db_refresh_tokens db)\<rparr>)))))"

definition live_of :: "uuid \<Rightarrow> refresh_token \<Rightarrow> bool" where
  "live_of user_id r \<longleftrightarrow> rt_user_id r = user_id \<and> rt_revoked_at r = None"

definition revoke_all_refresh_tokens :: "auth_env \<Rightarrow> uuid \<Rightarrow> nat op" where
  "revoke_all_refresh_tokens env user_id =
     bind_op (get_op (\<lambda>s. length (filter (live_of user_id) (db_refresh_tokens (ses_flushed s))))) (\<lambda>n.
     bind_op (modify_op (bulk_update (\<lambda>db. db\<lparr>db_refresh_tokens :=
       modify_where (live_of user_id) (\<lambda>r. r\<lparr>rt_revoked_at := Some (ae_now env)\<rparr>)
         (db_refresh_tokens db)\<rparr>))) (\<lambda>_. return_op n))"

section \<open>Who a request comes from\<close>

definition user_of_token :: "settings \<Rightarrow> auth_env \<Rightarrow> string \<Rightarrow> uuid option" where
  "user_of_token cfg env token =
     (case decode_token cfg env token ''access'' of
        Inl _ \<Rightarrow> None
      | Inr payload \<Rightarrow> Option.bind (cl_sub payload) parse_uuid)"

definition get_current_user :: "settings \<Rightarrow> auth_env \<Rightarrow> string option \<Rightarrow> string option \<Rightarrow> user op" where
  "get_current_user cfg env creds token =
     (let raw_token = (case creds of Some c \<Rightarrow> Some c | None \<Rightarrow> token) in
      case raw_token of
        None \<Rightarrow> raise_op (HTTPException 401)
      | Some raw \<Rightarrow>
          if raw = [] then raise_op (HTTPException 401)
          else (case user_of_token cfg env raw of
              None \<Rightarrow> raise_op (HTTPException 401)
            | Some user_id \<Rightarrow> bind_op (get_op (\<lambda>s. get_user (ses_objects s) user_id)) (\<lambda>user.
                case user of
                  None \<Rightarrow> raise_op (HTTPException 401)
                | Some u \<Rightarrow> if usr_deleted_at u \<noteq> None then raise_op (HTTPException 401)
                           else return_op u)))"

definition authenticate_ws_user :: "settings \<Rightarrow> auth_env \<Rightarrow> string option \<Rightarrow> user option op" where
  "authenticate_ws_user cfg env token =
     (case token of
        None \<Rightarrow> return_op None
      | Some raw \<Rightarrow>
          if raw = [] then return_op None
          else (case user_of_token cfg env raw of
              None \<Rightarrow> return_op None
            | Some user_id \<Rightarrow> bind_op (get_op (\<lambda>s. get_user (ses_objects s) user_id)) (\<lambda>user.
                case user of
                  None \<Rightarrow> return_op None
                | Some u \<Rightarrow> if usr_deleted_at u \<noteq> None then return_op None else return_op (Some u))))"

definition get_ws_user :: "settings \<Rightarrow> auth_env \<Rightarrow> string option \<Rightarrow> user op" where
  "get_ws_user cfg env token =
     bind_op (authenticate_ws_user cfg env token) (\<lambda>user.
     case user of None \<Rightarrow> raise_op (HTTPException 401) | Some u \<Rightarrow> return_op u)"

definition get_admin_user :: "settings \<Rightarrow> auth_env \<Rightarrow> string option \<Rightarrow> string option \<Rightarrow> user op" where
  "get_admin_user cfg env creds token =
     bind_op (get_current_user cfg env creds token) (\<lambda>user.
     if \<not> usr_is_admin user then raise_op (HTTPException 403) else return_op user)"

text \<open>The address requests are counted under, and the two limits on it.\<close>

definition client_ip :: "string option \<Rightarrow> string option \<Rightarrow> string" where
  "client_ip xff host =
     (case xff of
        Some (c # cs) \<Rightarrow> py_strip (hd (py_split (CHR '','') (c # cs)))
      | _ \<Rightarrow> (case host of Some h \<Rightarrow> h | None \<Rightarrow> ''unknown''))"

definition auth_rate_limit ::
  "(instant \<Rightarrow> 'r \<Rightarrow> (int \<times> 'r) option) \<Rightarrow> instant \<Rightarrow> int \<Rightarrow> string option \<Rightarrow> string option \<Rightarrow>
   'r \<times> buckets \<Rightarrow> (exn + unit) \<times> 'r \<times> buckets" where
  "auth_rate_limit pipe now rate_limit_auth_per_minute xff host =
     check_rate_limit pipe now (''rl:auth:'' @ client_ip xff host) rate_limit_auth_per_minute 60"

definition upload_rate_limit ::
  "(instant \<Rightarrow> 'r \<Rightarrow> (int \<times> 'r) option) \<Rightarrow> instant \<Rightarrow> int \<Rightarrow> string option \<Rightarrow> string option \<Rightarrow>
   'r \<times> buckets \<Rightarrow> (exn + unit) \<times> 'r \<times> buckets" where
  "upload_rate_limit pipe now rate_limit_upload_per_minute xff host =
     check_rate_limit pipe now (''rl:upload:'' @ client_ip xff host) rate_limit_upload_per_minute 60"

end
