(* ===== verification/Auth.thy ===== *)
theory Auth
  imports Tokens
begin

text \<open>
  Accounts and sign-in (\<open>api/auth.py\<close>): signing up, the password login, the verification of the
  address by a one-time code, the exchange and revocation of refresh tokens and the sign-in with
  Google.  Every handler is a program over the session of its request; the mails it queues are left
  out.
\<close>

section \<open>Handlers\<close>

definition find_user :: "(user \<Rightarrow> bool) \<Rightarrow> user option op" where
  "find_user p = bind_op (get_op (query_users p)) (\<lambda>rows. lift_op (one_or_none rows))"

definition set_user :: "uuid \<Rightarrow> (user \<Rightarrow> user) \<Rightarrow> unit op" where
  "set_user i f = modify_op (set_objects (upd_user i f))"

definition with_user :: "uuid \<Rightarrow> (user \<Rightarrow> 'a op) \<Rightarrow> 'a op" where
  "with_user i k = bind_op (get_op (\<lambda>s. get_user (ses_objects s) i))
     (\<lambda>u. case u of None \<Rightarrow> raise_op AttributeError | Some u \<Rightarrow> k u)"

fun first_free_code :: "string list \<Rightarrow> string op" where
  "first_free_code [] = raise_op RuntimeError"
| "first_free_code (code # codes) =
     bind_op (find_user (\<lambda>u. usr_referrer_code u = code)) (\<lambda>exists.
     case exists of None \<Rightarrow> return_op code | Some _ \<Rightarrow> first_free_code codes)"

definition unique_referrer_code :: "auth_env \<Rightarrow> string op" where
  "unique_referrer_code env = first_free_code (map (ae_codes env) [0..<20])"

record user_out =
  uo_id :: uuid
  uo_email :: string
  uo_nickname :: string
  uo_referrer_code :: string
  uo_blockcoin_balance :: int
  uo_email_verified :: bool

definition user_out :: "user \<Rightarrow> user_out" where
  "user_out u = \<lparr>uo_id = usr_id u, uo_email = usr_email u, uo_nickname = usr_nickname u,
     uo_referrer_code = usr_referrer_code u, uo_blockcoin_balance = usr_blockcoin_balance u,
     uo_email_verified = (usr_email_verified_at u \<noteq> None)\<rparr>"

record auth_response =
  ar_access_token :: string
  ar_refresh_token :: string
  ar_user :: user_out

text \<open>\<open>f"{n:06d}"\<close> of the drawn number, and the stored hash of a code.\<close>

definition otp_text :: "nat \<Rightarrow> string" where
  "otp_text n = replicate (6 - length (nat_to_str n)) (CHR ''0'') @ nat_to_str n"

definition verification_otp_hash :: "auth_env \<Rightarrow> string \<Rightarrow> string \<Rightarrow> string" where
  "verification_otp_hash env email otp = ae_sha256 env (py_strip (py_lower email) @ CHR '':'' # otp)"

definition issue_email_verification :: "settings \<Rightarrow> auth_env \<Rightarrow> user \<Rightarrow> unit op" where
  "issue_email_verification cfg env user =
     set_user (usr_id user) (\<lambda>u. u\<lparr>
       usr_otp_hash := Some (verification_otp_hash env (usr_email user) (otp_text (ae_otp env))),
       usr_otp_expires_at :=
         Some (ae_now env + seconds (cfg_email_verification_otp_expire_seconds cfg))\<rparr>)"

definition issue_auth_response :: "settings \<Rightarrow> auth_env \<Rightarrow> uuid \<Rightarrow> auth_response op" where
  "issue_auth_response cfg env user_id =
     (let access_token = create_access_token cfg env (str_uuid user_id)
            (cfg_jwt_access_token_expire_seconds cfg) in
      bind_op (issue_refresh_token cfg env user_id) (\<lambda>refresh_token.
      with_user user_id (\<lambda>user. return_op
        \<lparr>ar_access_token = access_token, ar_refresh_token = refresh_token, ar_user = user_out user\<rparr>)))"

definition is_expired :: "instant \<Rightarrow> instant option \<Rightarrow> bool" where
  "is_expired now expires_at = (case expires_at of None \<Rightarrow> True | Some t \<Rightarrow> t < now)"

text \<open>The account a referrer code belongs to, and the coins a referred account starts with.\<close>

definition find_referrer :: "string option \<Rightarrow> uuid option op" where
  "find_referrer code =
     (case code of
        Some (c # cs) \<Rightarrow> bind_op (find_user (\<lambda>u. usr_referrer_code u = c # cs))
          (\<lambda>r. return_op (map_option usr_id r))
      | _ \<Rightarrow> return_op None)"

definition add_user :: "user \<Rightarrow> unit op" where
  "add_user u = bind_op (modify_op (set_objects (\<lambda>db. db\<lparr>db_users := db_users db @ [u]\<rparr>))) (\<lambda>_. flush_op)"

definition grant_referral :: "uuid \<Rightarrow> uuid option \<Rightarrow> unit op" where
  "grant_referral user_id referred_by_id =
     (case referred_by_id of
        None \<Rightarrow> return_op ()
      | Some r \<Rightarrow> modify_op (set_objects (\<lambda>db. upd_user user_id
          (\<lambda>u. u\<lparr>usr_blockcoin_balance := usr_blockcoin_balance u + 100\<rparr>)
          (db\<lparr>db_coin_transactions := db_coin_transactions db @
             [\<lparr>coin_user_id = user_id, coin_amount = 100, coin_reason = BlockcoinReason.referral,
               coin_meta = [(''referred_by'', JStr (str_uuid r))]\<rparr>]\<rparr>))))"

record signup_request =
  su_email :: string
  su_nickname :: string
  su_password :: string
  su_referrer_code :: "string option"

definition signup :: "settings \<Rightarrow> auth_env \<Rightarrow> signup_request \<Rightarrow> string op" where
  "signup cfg env payload =
     (let email = py_lower (su_email payload) in
      bind_op (find_user (\<lambda>u. usr_email u = email)) (\<lambda>existing.
      if existing \<noteq> None then raise_op (HTTPException 409)
      else
        bind_op (find_referrer (su_referrer_code payload)) (\<lambda>referred_by_id.
        bind_op (unique_referrer_code env) (\<lambda>code.
        let user = \<lparr>usr_id = ae_new_user_id env, usr_email = email, usr_nickname = su_nickname payload,
              usr_is_admin = False, usr_auth_hash = ae_hash env (su_password payload),
              usr_referrer_code = code, usr_referred_by_id = referred_by_id,
              usr_blockcoin_balance = 0, usr_google_sub = None, usr_auth_provider = ''local'',
              usr_email_verified_at = None, usr_otp_hash = None, usr_otp_expires_at = None,
              usr_deleted_at = None\<rparr> in
        bind_op (add_user user) (\<lambda>_.
        bind_op (issue_email_verification cfg env user) (\<lambda>_.
        bind_op (grant_referral (usr_id user) referred_by_id) (\<lambda>_.
        bind_op commit_op (\<lambda>_. return_op email))))))))"

definition login :: "settings \<Rightarrow> auth_env \<Rightarrow> string \<Rightarrow> string \<Rightarrow> auth_response op" where
  "login cfg env email password =
     bind_op (find_user (\<lambda>u. usr_email u = py_lower email)) (\<lambda>found.
     case found of
       None \<Rightarrow> raise_op (HTTPException 401)
     | Some user \<Rightarrow>
         if usr_deleted_at user \<noteq> None then raise_op (HTTPException 401)
         else if \<not> verify_password env password (usr_auth_hash user) then raise_op (HTTPException 401)
         else if usr_auth_provider user = ''local'' \<and> usr_email_verified_at user = None then
           bind_op (issue_email_verification cfg env user) (\<lambda>_.
           bind_op commit_op (\<lambda>_. raise_op (HTTPException 403)))
         else
           bind_op (issue_auth_response cfg env (usr_id user)) (\<lambda>response.
           bind_op commit_op (\<lambda>_. return_op response)))"

definition verify_email :: "settings \<Rightarrow> auth_env \<Rightarrow> string \<Rightarrow> string \<Rightarrow> auth_response op" where
  "verify_email cfg env address otp =
     (let email = py_lower address in
      bind_op (find_user (\<lambda>u. usr_email u = email)) (\<lambda>found.
      case found of
        None \<Rightarrow> raise_op (HTTPException 400)
      | Some user \<Rightarrow>
          if usr_deleted_at user \<noteq> None then raise_op (HTTPException 400)
          else if usr_otp_hash user \<noteq> Some (verification_otp_hash env email otp)
          then raise_op (HTTPException 400)
          else if is_expired (ae_now env) (usr_otp_expires_at user) then raise_op (HTTPException 400)
          else
            bind_op (set_user (usr_id user) (\<lambda>u. u\<lparr>usr_email_verified_at := Some (ae_now env),
              usr_otp_hash := None, usr_otp_expires_at := None\<rparr>)) (\<lambda>_.
            bind_op (issue_auth_response cfg env (usr_id user)) (\<lambda>response.
            bind_op commit_op (\<lambda>_. return_op response)))))"

definition resend_verification :: "settings \<Rightarrow> auth_env \<Rightarrow> string \<Rightarrow> unit op" where
  "resend_verification cfg env address =
     bind_op (find_user (\<lambda>u. usr_email u = py_lower address)) (\<lambda>found.
     case found of
       None \<Rightarrow> return_op ()
     | Some user \<Rightarrow>
         if usr_deleted_at user = None \<and> usr_auth_provider user = ''local'' \<and>
            usr_email_verified_at user = None
         then bind_op (issue_email_verification cfg env user) (\<lambda>_. commit_op)
         else return_op ())"

definition refresh :: "settings \<Rightarrow> auth_env \<Rightarrow> string \<Rightarrow> string op" where
  "refresh cfg env refresh_token =
     bind_op (catch_op (validate_refresh_token cfg env refresh_token)
       (\<lambda>e. case e of TokenError _ \<Rightarrow> raise_op (HTTPException 401) | _ \<Rightarrow> raise_op e)) (\<lambda>user.
     return_op (create_access_token cfg env (str_uuid (usr_id user))
       (cfg_jwt_access_token_expire_seconds cfg)))"

definition logout :: "settings \<Rightarrow> auth_env \<Rightarrow> string \<Rightarrow> unit op" where
  "logout cfg env refresh_token =
     bind_op (revoke_refresh_token cfg env refresh_token) (\<lambda>_. commit_op)"

definition logout_all :: "settings \<Rightarrow> auth_env \<Rightarrow> string option \<Rightarrow> string option \<Rightarrow> nat op" where
  "logout_all cfg env creds token =
     bind_op (get_current_user cfg env creds token) (\<lambda>user.
     bind_op (revoke_all_refresh_tokens env (usr_id user)) (\<lambda>n.
     bind_op commit_op (\<lambda>_. return_op n)))"

section \<open>Sign-in with Google\<close>

text \<open>The claims of the verified identity token are strings.\<close>

definition claim_text :: "json option \<Rightarrow> string" where
  "claim_text v = (case v of Some (JStr s) \<Rightarrow> s | _ \<Rightarrow> [])"

definition google_nickname :: "json dict \<Rightarrow> string \<Rightarrow> string" where
  "google_nickname info email =
     (let name = claim_text (dict_get info ''name'') in
      if name = [] then hd (py_split (CHR ''@'') email) else name)"

definition verified_at :: "instant \<Rightarrow> user \<Rightarrow> user" where
  "verified_at now u = u\<lparr>usr_email_verified_at :=
     (case usr_email_verified_at u of Some t \<Rightarrow> Some t | None \<Rightarrow> Some now)\<rparr>"

definition link_or_create :: "auth_env \<Rightarrow> string \<Rightarrow> string \<Rightarrow> string \<Rightarrow> string option \<Rightarrow> uuid op" where
  "link_or_create env email google_sub nickname referrer =
     bind_op (find_user (\<lambda>u. usr_email u = email)) (\<lambda>found.
     case found of
       Some user \<Rightarrow>
         bind_op (set_user (usr_id user) (\<lambda>u. verified_at (ae_now env)
           (u\<lparr>usr_google_sub := Some google_sub, usr_auth_provider := ''google''\<rparr>))) (\<lambda>_.
         bind_op commit_op (\<lambda>_. return_op (usr_id user)))
     | None \<Rightarrow>
         bind_op (find_referrer referrer) (\<lambda>referred_by_id.
         bind_op (unique_referrer_code env) (\<lambda>code.
         let user = \<lparr>usr_id = ae_new_user_id env, usr_email = email, usr_nickname = nickname,
               usr_is_admin = False, usr_auth_hash = [], usr_referrer_code = code,
               usr_referred_by_id = referred_by_id, usr_blockcoin_balance = 0,
               usr_google_sub = Some google_sub, usr_auth_provider = ''google'',
               usr_email_verified_at = Some (ae_now env), usr_otp_hash = None,
               usr_otp_expires_at = None, usr_deleted_at = None\<rparr> in
         bind_op (add_user user) (\<lambda>_.
         bind_op (grant_referral (usr_id user) referred_by_id) (\<lambda>_.
         bind_op commit_op (\<lambda>_. return_op (usr_id user)))))))"

definition google_login :: "settings \<Rightarrow> auth_env \<Rightarrow> string \<Rightarrow> string option \<Rightarrow> auth_response op" where
  "google_login cfg env id_token referrer =
     (case ae_google env id_token of
        None \<Rightarrow> raise_op (HTTPException 401)
      | Some info \<Rightarrow>
          if dict_get info ''sub'' = None \<or> dict_get info ''email'' = None
          then raise_op (HTTPException 401)
          else if \<not> json_truthy (case dict_get info ''email_verified'' of None \<Rightarrow> JBool False | Some v \<Rightarrow> v)
          then raise_op (HTTPException 401)
          else
            (let email = py_lower (claim_text (dict_get info ''email''));
                 google_sub = claim_text (dict_get info ''sub'') in
             bind_op (find_user (\<lambda>u. usr_google_sub u = Some google_sub)) (\<lambda>found.
             bind_op (case found of
                 Some user \<Rightarrow> return_op (usr_id user)
               | None \<Rightarrow> link_or_create env email google_sub (google_nickname info email) referrer) (\<lambda>uid.
             with_user uid (\<lambda>user.
             if usr_deleted_at user \<noteq> None then raise_op (HTTPException 403)
             else
               bind_op (set_user uid (verified_at (ae_now env))) (\<lambda>_.
               bind_op (issue_auth_response cfg env uid) (\<lambda>response.
               bind_op commit_op (\<lambda>_. return_op response))))))))"

section \<open>Issuing tokens\<close>

text \<open>The claims of the refresh token a sign-in issues, and the row stored for it.\<close>

definition refresh_claims :: "settings \<Rightarrow> auth_env \<Rightarrow> uuid \<Rightarrow> claims" where
  "refresh_claims cfg env uid = token_claims (ae_now env) (ae_jti_refresh env) (str_uuid uid)
     (cfg_jwt_refresh_token_expire_seconds cfg) ''refresh''"

definition access_claims :: "settings \<Rightarrow> auth_env \<Rightarrow> uuid \<Rightarrow> claims" where
  "access_claims cfg env uid = token_claims (ae_now env) (ae_jti_access env) (str_uuid uid)
     (cfg_jwt_access_token_expire_seconds cfg) ''access''"

definition sign :: "settings \<Rightarrow> auth_env \<Rightarrow> claims \<Rightarrow> string" where
  "sign cfg env c = ae_encode env c (cfg_jwt_secret_key cfg)"

text \<open>At its time, a library accepts a token signed by another request as what was signed.\<close>

definition accepts :: "settings \<Rightarrow> auth_env \<Rightarrow> auth_env \<Rightarrow> claims \<Rightarrow> bool" where
  "accepts cfg env signer c \<longleftrightarrow>
     ae_decode env (ae_now env) (sign cfg signer c) (cfg_jwt_secret_key cfg) = Some c"

definition refresh_row :: "settings \<Rightarrow> auth_env \<Rightarrow> uuid \<Rightarrow> refresh_token" where
  "refresh_row cfg env uid = \<lparr>rt_user_id = uid, rt_jti = ae_jti_refresh env,
     rt_expires_at = seconds (unix_time (ae_now env + seconds (cfg_jwt_refresh_token_expire_seconds cfg))),
     rt_revoked_at = None\<rparr>"

definition add_token :: "refresh_token \<Rightarrow> database \<Rightarrow> database" where
  "add_token r db = db\<lparr>db_refresh_tokens := db_refresh_tokens db @ [r]\<rparr>"

definition reply :: "settings \<Rightarrow> auth_env \<Rightarrow> user \<Rightarrow> auth_response" where
  "reply cfg env u = \<lparr>ar_access_token = sign cfg env (access_claims cfg env (usr_id u)),
     ar_refresh_token = sign cfg env (refresh_claims cfg env (usr_id u)), ar_user = user_out u\<rparr>"

lemma str_uuid_nonempty [simp]: "str_uuid u \<noteq> []"
  by (simp add: str_uuid_def Let_def)

lemma decode_accepted:
  "accepts cfg env signer c \<Longrightarrow> cl_type c = Some t \<Longrightarrow> cl_sub c = Some (str_uuid u) \<Longrightarrow>
   decode_token cfg env (sign cfg signer c) t = Inr c"
  by (simp add: decode_token_def accepts_def)

lemma claims_simps [simp]:
  "cl_type (refresh_claims cfg env u) = Some ''refresh''" "cl_sub (refresh_claims cfg env u) = Some (str_uuid u)"
  "cl_jti (refresh_claims cfg env u) = Some (ae_jti_refresh env)"
  "cl_type (access_claims cfg env u) = Some ''access''" "cl_sub (access_claims cfg env u) = Some (str_uuid u)"
  "cl_exp (refresh_claims cfg env u) =
     Some (unix_time (ae_now env + seconds (cfg_jwt_refresh_token_expire_seconds cfg)))"
  by (simp_all add: refresh_claims_def access_claims_def token_claims_def)

lemma get_user_add_token [simp]: "get_user (add_token r db) i = get_user db i"
  by (simp add: get_user_def add_token_def)

lemma issue_auth_response_eq:
  assumes "accepts cfg env env (refresh_claims cfg env (usr_id u))"
    and "get_user (ses_objects s) (usr_id u) = Some u"
  shows "issue_auth_response cfg env (usr_id u) s =
    (Inr (reply cfg env u), set_objects (add_token (refresh_row cfg env (usr_id u))) s)"
proof -
  let ?c = "refresh_claims cfg env (usr_id u)"
  have t: "create_refresh_token cfg env (str_uuid (usr_id u)) (cfg_jwt_refresh_token_expire_seconds cfg) =
      sign cfg env ?c"
    by (simp add: create_refresh_token_def create_token_def sign_def refresh_claims_def)
  have "decode_token cfg env (sign cfg env ?c) ''refresh'' = Inr ?c"
    using decode_accepted [OF assms(1), of "''refresh''" "usr_id u"] by simp
  then show ?thesis
    using assms(2) unfolding issue_auth_response_def issue_refresh_token_def t Let_def
    by (simp add: op_defs claim_def store_refresh_token_def with_user_def reply_def refresh_row_def
        add_token_def get_user_def sign_def access_claims_def create_access_token_def create_token_def)
qed

section \<open>Looking users up\<close>

definition users_ok :: "database \<Rightarrow> bool" where
  "users_ok db \<longleftrightarrow> constraints_ok db \<and> distinct (map usr_id (db_users db))"

lemma get_user_member: "users_ok db \<Longrightarrow> u \<in> set (db_users db) \<Longrightarrow> get_user db (usr_id u) = Some u"
  by (simp add: users_ok_def get_user_def get_row_unique)

lemma find_user_open:
  "users_ok db \<Longrightarrow> find_user p (open_session db) = (one_or_none (filter p (db_users db)), open_session db)"
  by (simp add: find_user_def op_defs users_ok_def query_users_flushed)

lemma find_user_email:
  assumes "users_ok db" "u \<in> set (db_users db)"
  shows "find_user (\<lambda>y. usr_email y = usr_email u) (open_session db) = (Inr (Some u), open_session db)"
proof -
  have "distinct (map usr_email (db_users db))"
    using assms(1) by (simp add: users_ok_def constraints_ok_def)
  from filter_key_unique [OF this assms(2)] show ?thesis by (simp add: find_user_open assms(1))
qed

lemma users_ok_add_token:
  "users_ok db \<Longrightarrow> rt_jti r \<notin> rt_jti ` set (db_refresh_tokens db) \<Longrightarrow> users_ok (add_token r db)"
  by (simp add: users_ok_def constraints_ok_def add_token_def)

text \<open>The password login of an account that may sign in.\<close>

definition may_sign_in :: "auth_env \<Rightarrow> string \<Rightarrow> user \<Rightarrow> bool" where
  "may_sign_in env password u \<longleftrightarrow> usr_deleted_at u = None \<and> verify_password env password (usr_auth_hash u) \<and>
     (usr_auth_provider u = ''local'' \<longrightarrow> usr_email_verified_at u \<noteq> None)"

lemma login_eq:
  assumes "users_ok db" "u \<in> set (db_users db)" "usr_email u = py_lower email"
    and "may_sign_in env password u" "accepts cfg env env (refresh_claims cfg env (usr_id u))"
    and "ae_jti_refresh env \<notin> rt_jti ` set (db_refresh_tokens db)"
  shows "run_request (login cfg env email password) db =
    (Inr (reply cfg env u), add_token (refresh_row cfg env (usr_id u)) db)"
proof -
  have "users_ok (add_token (refresh_row cfg env (usr_id u)) db)"
    using assms(1,6) by (intro users_ok_add_token) (simp_all add: refresh_row_def)
  then have c: "constraints_ok (add_token (refresh_row cfg env (usr_id u)) db)"
    by (simp add: users_ok_def)
  have "find_user (\<lambda>y. usr_email y = py_lower email) (open_session db) = (Inr (Some u), open_session db)"
    using find_user_email [OF assms(1,2)] assms(3) by simp
  moreover have "issue_auth_response cfg env (usr_id u) (open_session db) =
      (Inr (reply cfg env u), set_objects (add_token (refresh_row cfg env (usr_id u))) (open_session db))"
    using assms(5) get_user_member [OF assms(1,2)] by (intro issue_auth_response_eq) simp_all
  ultimately show ?thesis
    using assms(4) c
    by (auto simp: run_request_def login_def bind_op_def may_sign_in_def commit_op_def commit_def return_op_def)
qed

lemma login_InrD:
  assumes "users_ok db" "run_request (login cfg env email password) db = (Inr resp, db')"
  obtains u where "u \<in> set (db_users db)" "usr_email u = py_lower email" "may_sign_in env password u"
proof -
  have d: "distinct (map usr_email (db_users db))" using assms(1) by (simp add: users_ok_def constraints_ok_def)
  obtain s where s: "login cfg env email password (open_session db) = (Inr resp, s)"
    using assms(2) by (cases "login cfg env email password (open_session db)") (simp add: run_request_def)
  then obtain u where "one_or_none (filter (\<lambda>u. usr_email u = py_lower email) (db_users db)) = Inr (Some u)"
    and ok: "may_sign_in env password u"
    by (auto simp: login_def bind_op_def find_user_open assms(1) may_sign_in_def raise_op_def
        issue_email_verification_def set_user_def modify_op_def commit_op_def
        split: sum.splits option.splits if_splits)
  then have "filter (\<lambda>u. usr_email u = py_lower email) (db_users db) = [u]" by (intro one_or_none_InrD)
  then have "u \<in> set (db_users db) \<and> usr_email u = py_lower email" by (rule filter_singletonD)
  with ok that show ?thesis by blast
qed

section \<open>Signed in\<close>

lemma get_current_user_eq:
  assumes "accepts cfg env signer (access_claims cfg signer i)" "i < 2 ^ 128"
    and "sign cfg signer (access_claims cfg signer i) \<noteq> []"
  shows "get_current_user cfg env (Some (sign cfg signer (access_claims cfg signer i))) token s =
    (case get_user (ses_objects s) i of
       None \<Rightarrow> (Inl (HTTPException 401), s)
     | Some u \<Rightarrow> if usr_deleted_at u \<noteq> None then (Inl (HTTPException 401), s) else (Inr u, s))"
proof -
  have "user_of_token cfg env (sign cfg signer (access_claims cfg signer i)) = Some i"
    using decode_accepted [OF assms(1), of "''access''" i] parse_str_uuid [OF assms(2)]
    by (simp add: user_of_token_def)
  with assms(3) show ?thesis
    by (simp add: get_current_user_def op_defs split: option.split)
qed

lemma query_tokens_single:
  assumes "distinct (map rt_jti (db_refresh_tokens db))" "r \<in> set (db_refresh_tokens db)"
  shows "query_tokens (rt_jti r) (open_session db) = [r]"
  using filter_key_unique [OF assms] get_row_unique [OF assms] by (simp add: query_tokens_def)

lemma refresh_eq:
  assumes "accepts cfg env signer (refresh_claims cfg signer i)"
    and "constraints_ok db" "r \<in> set (db_refresh_tokens db)" "rt_jti r = ae_jti_refresh signer"
    and "rt_revoked_at r = None" "ae_now env < rt_expires_at r"
    and "get_user db (rt_user_id r) = Some u" "usr_deleted_at u = None"
  shows "fst (run_request (refresh cfg env (sign cfg signer (refresh_claims cfg signer i))) db) =
    Inr (sign cfg env (access_claims cfg env (usr_id u)))"
proof -
  have "query_tokens (ae_jti_refresh signer) (open_session db) = [r]"
    using query_tokens_single [OF _ assms(3)] assms(2,4) by (simp add: constraints_ok_def)
  with assms decode_accepted [OF assms(1), of "''refresh''" i] show ?thesis
    by (simp add: run_request_def refresh_def validate_refresh_token_def find_token_def op_defs claim_def
        sign_def access_claims_def create_access_token_def create_token_def)
qed

text \<open>
  C17: Whoever signs in with a password has an account with that address, a live one whose password
  it is and whose address is verified if it is a local account.  The access token of the answer then
  identifies that account, and until it expires the refresh token is exchanged for a new access
  token of the same account.  What is assumed is that the library decodes what it has signed, and
  that the identifier drawn for the refresh token is new.
\<close>

theorem login_tokens_work:
  assumes ok: "users_ok db" "\<forall>u \<in> set (db_users db). usr_id u < 2 ^ 128"
    and codec: "\<And>i. accepts cfg env env (refresh_claims cfg env i)"
      "\<And>i. accepts cfg later env (refresh_claims cfg env i)"
      "\<And>i. accepts cfg later env (access_claims cfg env i) \<and> sign cfg env (access_claims cfg env i) \<noteq> []"
    and fresh: "ae_jti_refresh env \<notin> rt_jti ` set (db_refresh_tokens db)"
    and login: "run_request (login cfg env email password) db = (Inr resp, db')"
    and time: "ae_now later < rt_expires_at (refresh_row cfg env (uo_id (ar_user resp)))"
  shows "\<exists>u \<in> set (db_users db). usr_email u = py_lower email \<and> may_sign_in env password u \<and>
    fst (run_request (get_current_user cfg later (Some (ar_access_token resp)) None) db') = Inr u \<and>
    fst (run_request (refresh cfg later (ar_refresh_token resp)) db') =
      Inr (sign cfg later (access_claims cfg later (usr_id u)))"
proof -
  obtain u where u: "u \<in> set (db_users db)" "usr_email u = py_lower email" "may_sign_in env password u"
    using ok(1) login by (rule login_InrD)
  let ?r = "refresh_row cfg env (usr_id u)"
  have eq: "resp = reply cfg env u" "db' = add_token ?r db"
    using login login_eq [OF ok(1) u codec(1) fresh] by simp_all
  have ok': "users_ok db'" using ok(1) fresh unfolding eq by (intro users_ok_add_token) (simp_all add: refresh_row_def)
  have live: "usr_deleted_at u = None" using u(3) by (simp add: may_sign_in_def)
  have get: "get_user db' (usr_id u) = Some u" using get_user_member [OF ok(1) u(1)] by (simp add: eq)
  have "fst (run_request (get_current_user cfg later (Some (ar_access_token resp)) None) db') = Inr u"
    using codec(3) [of "usr_id u"] ok(2) u(1) get live
    by (simp add: eq reply_def get_current_user_eq run_request_def)
  moreover have "fst (run_request (refresh cfg later (ar_refresh_token resp)) db') =
      Inr (sign cfg later (access_claims cfg later (usr_id u)))"
    using ok' codec(2) [of "usr_id u"] get live time unfolding eq(1) reply_def auth_response.simps
    by (intro refresh_eq [of _ _ _ _ _ ?r])
      (simp_all add: eq add_token_def users_ok_def refresh_row_def reply_def user_out_def)
  ultimately show ?thesis using u by blast
qed

text \<open>A library that tells the two tokens of the sample account apart by their text.\<close>

definition sample_env :: auth_env where
  "sample_env = \<lparr>ae_now = seconds 1000, ae_encode = (\<lambda>c k. case cl_type c of Some t \<Rightarrow> t @ (case cl_sub c of Some u \<Rightarrow> u | None \<Rightarrow> []) | None \<Rightarrow> []),
     ae_decode = (\<lambda>now t k.
       if py_startswith t ''refresh'' then Some (token_claims (seconds 1000) ''j2'' (drop 7 t) 2592000 ''refresh'')
       else if py_startswith t ''access'' then Some (token_claims (seconds 1000) ''j1'' (drop 6 t) 86400 ''access'')
       else None),
     ae_hash = (\<lambda>p. ''h''), ae_verify = (\<lambda>p h. Inr (p = ''pw'' \<and> h = ''h'')), ae_sha256 = (\<lambda>s. s),
     ae_otp = 0, ae_jti_access = ''j1'', ae_jti_refresh = ''j2'', ae_new_user_id = 2,
     ae_codes = (\<lambda>n. nat_to_str n),
     ae_google = (\<lambda>t. Some [(''sub'', JStr ''g1''), (''email'', JStr ''a@b.c''), (''email_verified'', JBool True)])\<rparr>"

lemma sample_codec:
  "accepts default_settings sample_env sample_env (refresh_claims default_settings sample_env i)"
  "accepts default_settings sample_env sample_env (access_claims default_settings sample_env i)"
  "sign default_settings sample_env (access_claims default_settings sample_env i) \<noteq> []"
  by (simp_all add: accepts_def sign_def sample_env_def refresh_claims_def access_claims_def
      token_claims_def py_startswith_def default_settings_def)

definition verified_db :: database where
  "verified_db = sample_db\<lparr>db_users := [sample_user\<lparr>usr_email_verified_at := Some 0\<rparr>]\<rparr>"

lemma verified_db_ok: "users_ok verified_db" "\<forall>u \<in> set (db_users verified_db). usr_id u < 2 ^ 128"
  by (code_simp, simp add: verified_db_def sample_user_def)

lemma login_tokens_work_witness:
  "\<exists>resp db'. run_request (login default_settings sample_env ''A@b.c'' ''pw'') verified_db = (Inr resp, db') \<and>
     (\<exists>u \<in> set (db_users verified_db).
        fst (run_request (get_current_user default_settings sample_env (Some (ar_access_token resp)) None) db') = Inr u)"
proof -
  let ?u = "sample_user\<lparr>usr_email_verified_at := Some 0\<rparr>"
  have login: "run_request (login default_settings sample_env ''A@b.c'' ''pw'') verified_db =
      (Inr (reply default_settings sample_env ?u), add_token (refresh_row default_settings sample_env 1) verified_db)"
  proof -
    have "?u \<in> set (db_users verified_db)" by (simp add: verified_db_def)
    moreover have "usr_email ?u = py_lower ''A@b.c''" by code_simp
    moreover have "may_sign_in sample_env ''pw'' ?u"
      by (simp add: may_sign_in_def verify_password_def sample_env_def sample_user_def)
    moreover have "ae_jti_refresh sample_env \<notin> rt_jti ` set (db_refresh_tokens verified_db)"
      by (simp add: verified_db_def sample_db_def empty_db_def)
    moreover have "usr_id ?u = 1" by (simp add: sample_user_def)
    ultimately show ?thesis
      using login_eq [OF verified_db_ok(1), of ?u "''A@b.c''" sample_env "''pw''" default_settings] sample_codec(1) [of 1]
      by simp
  qed
  have "ae_now sample_env < rt_expires_at (refresh_row default_settings sample_env 1)"
    by (simp add: sample_env_def refresh_row_def unix_time_def seconds_def default_settings_def)
  moreover have "ae_jti_refresh sample_env \<notin> rt_jti ` set (db_refresh_tokens verified_db)"
    by (simp add: verified_db_def sample_db_def empty_db_def)
  moreover have "uo_id (ar_user (reply default_settings sample_env ?u)) = 1"
    by (simp add: reply_def user_out_def sample_user_def)
  ultimately show ?thesis
    using login login_tokens_work [OF verified_db_ok sample_codec(1) sample_codec(1)
        conjI [OF sample_codec(2,3)] _ login] by auto
qed

section \<open>Revoked tokens\<close>

definition revoked_in :: "string \<Rightarrow> database \<Rightarrow> bool" where
  "revoked_in jti db \<longleftrightarrow> (\<exists>r \<in> set (db_refresh_tokens db). rt_jti r = jti \<and> rt_revoked_at r \<noteq> None)"

definition dead :: "string \<Rightarrow> session \<Rightarrow> bool" where
  "dead jti s \<longleftrightarrow> revoked_in jti (ses_committed s) \<and> revoked_in jti (ses_flushed s) \<and> revoked_in jti (ses_objects s)"

lemma keeps_dead_objects:
  "(\<And>db. revoked_in jti db \<Longrightarrow> revoked_in jti (f db)) \<Longrightarrow> keeps (dead jti) (modify_op (set_objects f))"
  by (rule keeps_modify) (simp add: dead_def)

lemma keeps_dead_commit [op_rules]: "keeps (dead jti) commit_op"
  by (rule keeps_commit) (simp add: dead_def)

lemma keeps_dead_flush [op_rules]: "keeps (dead jti) flush_op"
  by (auto simp: keeps_def dead_def intro!: triple_flush)

lemma keeps_dead_set_user [op_rules]: "keeps (dead jti) (set_user i f)"
  unfolding set_user_def by (rule keeps_dead_objects) (simp add: revoked_in_def upd_user_def)

lemma keeps_dead_find_user [op_rules]: "keeps P (find_user p)"
  unfolding find_user_def by (intro op_rules)

lemma keeps_with_user [op_rules]: "(\<And>u. keeps P (k u)) \<Longrightarrow> keeps P (with_user i k)"
  unfolding with_user_def by (intro op_rules)

lemma keeps_first_free_code: "keeps P (first_free_code codes)"
  by (induction codes) (auto intro!: op_rules)

lemma keeps_referral_parts [op_rules]:
  "keeps P (unique_referrer_code env)" "keeps P (find_referrer code)"
  "keeps (dead jti) (add_user u)" "keeps (dead jti) (grant_referral i r)"
proof -
  show "keeps P (unique_referrer_code env)"
    unfolding unique_referrer_code_def by (rule keeps_first_free_code)
  show "keeps P (find_referrer code)"
    unfolding find_referrer_def by (auto intro!: op_rules split: option.split list.split)
  show "keeps (dead jti) (add_user u)"
    unfolding add_user_def by (intro op_rules keeps_dead_objects) (simp add: revoked_in_def)
  show "keeps (dead jti) (grant_referral i r)"
    unfolding grant_referral_def
    by (intro op_rules keeps_dead_objects) (simp add: revoked_in_def upd_user_def)
qed

lemma keeps_dead_issue [op_rules]:
  "keeps (dead jti) (issue_email_verification cfg env u)" "keeps (dead jti) (issue_auth_response cfg env i)"
proof -
  show "keeps (dead jti) (issue_email_verification cfg env u)"
    unfolding issue_email_verification_def by (intro op_rules)
  show "keeps (dead jti) (issue_auth_response cfg env i)"
    unfolding issue_auth_response_def issue_refresh_token_def store_refresh_token_def Let_def
    by (intro op_rules keeps_dead_objects) (auto simp: revoked_in_def)
qed

lemma revoked_in_map:
  assumes "revoked_in jti db" "\<And>r. rt_jti (f r) = rt_jti r" "\<And>r. rt_revoked_at r \<noteq> None \<Longrightarrow> rt_revoked_at (f r) \<noteq> None"
  shows "revoked_in jti (db\<lparr>db_refresh_tokens := map f (db_refresh_tokens db)\<rparr>)"
  using assms unfolding revoked_in_def by fastforce

lemma keeps_find_token [op_rules]: "keeps P (find_token jti)"
  unfolding find_token_def by (intro op_rules)

lemma keeps_dead_revoke [op_rules]:
  "keeps (dead jti) (revoke_refresh_token cfg env token)" "keeps (dead jti) (revoke_all_refresh_tokens env i)"
proof -
  show "keeps (dead jti) (revoke_refresh_token cfg env token)"
    unfolding revoke_refresh_token_def modify_row_def
    by (intro op_rules keeps_dead_objects revoked_in_map) auto
  show "keeps (dead jti) (revoke_all_refresh_tokens env i)"
    unfolding revoke_all_refresh_tokens_def modify_where_def
    by (intro op_rules keeps_modify) (auto simp: dead_def intro!: revoked_in_map)
qed

lemma keeps_get_current_user [op_rules]: "keeps P (get_current_user cfg env creds token)"
  unfolding get_current_user_def Let_def by (intro op_rules)

lemma keeps_validate [op_rules]: "keeps P (validate_refresh_token cfg env token)"
  unfolding validate_refresh_token_def by (intro op_rules)

text \<open>The requests to the account service, one rule for each route.\<close>

inductive auth_step :: "settings \<Rightarrow> database \<Rightarrow> database \<Rightarrow> bool" for cfg where
  signup: "run_request (signup cfg env payload) db = (r, db') \<Longrightarrow> auth_step cfg db db'"
| login: "run_request (login cfg env email password) db = (r, db') \<Longrightarrow> auth_step cfg db db'"
| verify_email: "run_request (verify_email cfg env email otp) db = (r, db') \<Longrightarrow> auth_step cfg db db'"
| resend: "run_request (resend_verification cfg env email) db = (r, db') \<Longrightarrow> auth_step cfg db db'"
| refresh: "run_request (refresh cfg env token) db = (r, db') \<Longrightarrow> auth_step cfg db db'"
| logout: "run_request (logout cfg env token) db = (r, db') \<Longrightarrow> auth_step cfg db db'"
| logout_all: "run_request (logout_all cfg env creds token) db = (r, db') \<Longrightarrow> auth_step cfg db db'"
| google: "run_request (google_login cfg env id_token referrer) db = (r, db') \<Longrightarrow> auth_step cfg db db'"

lemma run_request_dead:
  "keeps (dead jti) m \<Longrightarrow> run_request m db = (r, db') \<Longrightarrow> revoked_in jti db \<Longrightarrow> revoked_in jti db'"
  unfolding run_request_def
  by (cases "m (open_session db)") (auto simp: dead_def dest: keepsD [of "dead jti" m "open_session db"])

lemma keeps_dead_sign_up_in:
  "keeps (dead jti) (signup cfg env payload)" "keeps (dead jti) (login cfg env email password)"
  "keeps (dead jti) (google_login cfg env id_token referrer)"
  unfolding signup_def login_def google_login_def link_or_create_def Let_def by (intro op_rules)+

lemma keeps_dead_tokens:
  "keeps (dead jti) (verify_email cfg env email otp)" "keeps (dead jti) (resend_verification cfg env email)"
  "keeps (dead jti) (logout cfg env token)" "keeps (dead jti) (logout_all cfg env creds token')"
  unfolding verify_email_def resend_verification_def logout_def logout_all_def Let_def
  by (intro op_rules)+

lemma keeps_dead_refresh: "keeps (dead jti) (refresh cfg env token)"
proof -
  have "keeps (dead jti) (case e of TokenError _ \<Rightarrow> raise_op (HTTPException 401) | _ \<Rightarrow> raise_op e)" for e
    by (cases e) (simp_all add: op_rules)
  then show ?thesis unfolding refresh_def by (intro op_rules)
qed

lemma auth_step_dead: "auth_step cfg db db' \<Longrightarrow> revoked_in jti db \<Longrightarrow> revoked_in jti db'"
  by (induction rule: auth_step.induct)
    (erule (1) run_request_dead [rotated], rule keeps_dead_sign_up_in keeps_dead_tokens keeps_dead_refresh)+

lemma get_row_filter: "filter (\<lambda>r. key r = k) rows = [x] \<Longrightarrow> get_row key k rows = Some x"
  by (induction rows) (auto split: if_splits simp: filter_empty_conv)

lemma revoked_token_found:
  assumes "revoked_in jti db" "one_or_none (query_tokens jti (open_session db)) = Inr (Some r)"
  shows "rt_revoked_at r \<noteq> None"
proof -
  have q: "query_tokens jti (open_session db) = [r]" using assms(2) by (rule one_or_none_InrD)
  then obtain x where x: "filter (\<lambda>r. rt_jti r = jti) (db_refresh_tokens db) = [x]"
    by (auto simp: query_tokens_def)
  from assms(1) obtain r0 where r0: "r0 \<in> set (db_refresh_tokens db)" "rt_jti r0 = jti" "rt_revoked_at r0 \<noteq> None"
    by (auto simp: revoked_in_def)
  then have "r0 \<in> set (filter (\<lambda>r. rt_jti r = jti) (db_refresh_tokens db))" by simp
  then have "x = r0" unfolding x by simp
  moreover have "r = x"
    using q get_row_filter [OF x] filter_singletonD [OF x] by (simp add: query_tokens_def x)
  ultimately show ?thesis using r0(3) by simp
qed

lemma revoked_not_exchanged:
  assumes "revoked_in jti db" "\<And>c. decode_token cfg env token ''refresh'' = Inr c \<Longrightarrow> cl_jti c = Some jti"
  shows "\<exists>e. fst (run_request (refresh cfg env token) db) = Inl e"
proof -
  have "isl (fst (validate_refresh_token cfg env token (open_session db)))"
  proof (cases "decode_token cfg env token ''refresh''")
    case (Inl e)
    then show ?thesis by (simp add: validate_refresh_token_def raise_op_def bind_op_def)
  next
    case (Inr c)
    from assms(2) [OF this] have "find_token jti (open_session db) =
        (one_or_none (query_tokens jti (open_session db)), open_session db)"
      by (simp add: find_token_def op_defs)
    moreover note revoked_token_found [OF assms(1)]
    ultimately show ?thesis
      using Inr assms(2) [OF Inr]
      by (cases "one_or_none (query_tokens jti (open_session db))")
        (auto simp: validate_refresh_token_def bind_op_def return_op_def lift_op_def claim_def raise_op_def
          split: option.split)
  qed
  then show ?thesis
    by (cases "validate_refresh_token cfg env token (open_session db)")
      (auto simp: run_request_def refresh_def op_defs split: sum.split exn.split)
qed

lemma revoked_in_image:
  "r \<in> set (db_refresh_tokens db) \<Longrightarrow> rt_jti (f r) = jti \<Longrightarrow> rt_revoked_at (f r) \<noteq> None \<Longrightarrow>
   revoked_in jti (db\<lparr>db_refresh_tokens := map f (db_refresh_tokens db)\<rparr>)"
  by (auto simp: revoked_in_def)

lemma logout_revokes:
  assumes "decode_token cfg env token ''refresh'' = Inr c" "cl_jti c = Some jti"
    and "r \<in> set (db_refresh_tokens db)" "rt_jti r = jti"
    and "run_request (logout cfg env token) db = (Inr (), db')"
  shows "revoked_in jti db'"
proof -
  have f: "find_token jti (open_session db) = (one_or_none (query_tokens jti (open_session db)), open_session db)"
    by (simp add: find_token_def op_defs)
  have ne: "query_tokens jti (open_session db) \<noteq> []"
    using assms(3,4) by (auto simp: query_tokens_def filter_empty_conv)
  show ?thesis
  proof (cases "one_or_none (query_tokens jti (open_session db))")
    case (Inl e)
    with f assms(1,2,5) show ?thesis
      by (simp add: run_request_def logout_def revoke_refresh_token_def bind_op_def lift_op_def claim_def)
  next
    case (Inr m)
    with ne obtain x where x: "m = Some x" by (cases m) (auto elim: one_or_none.elims)
    with Inr have q: "query_tokens jti (open_session db) = [x]" by (auto dest: one_or_none_InrD)
    then obtain y where y: "filter (\<lambda>r. rt_jti r = jti) (db_refresh_tokens db) = [y]"
      by (auto simp: query_tokens_def)
    have "x = y" using q get_row_filter [OF y] filter_singletonD [OF y] by (simp add: query_tokens_def y)
    then have x': "x \<in> set (db_refresh_tokens db)" "rt_jti x = jti" using filter_singletonD [OF y] by auto
    show ?thesis
    proof (cases "rt_revoked_at x")
      case None
      with f Inr x assms(1,2,5) have "db' = db\<lparr>db_refresh_tokens :=
          modify_row rt_jti (rt_jti x) (\<lambda>r. r\<lparr>rt_revoked_at := Some (ae_now env)\<rparr>) (db_refresh_tokens db)\<rparr>"
        by (simp add: run_request_def logout_def revoke_refresh_token_def bind_op_def lift_op_def
            claim_def modify_op_def commit_op_def commit_def split: if_splits)
      with x' show ?thesis by (auto simp: modify_row_def intro: revoked_in_image [of x])
    next
      case (Some t)
      with f Inr x assms(1,2,5) have "db' = db"
        by (simp add: run_request_def logout_def revoke_refresh_token_def bind_op_def lift_op_def
            claim_def return_op_def commit_op_def commit_def split: if_splits)
      with x' Some show ?thesis by (auto simp: revoked_in_def)
    qed
  qed
qed

lemma refresh_InrD:
  assumes "fst (run_request (refresh cfg env token) db) = Inr a"
    and "\<And>c. decode_token cfg env token ''refresh'' = Inr c \<Longrightarrow> cl_jti c = Some jti"
  shows "\<exists>r \<in> set (db_refresh_tokens db). rt_jti r = jti"
proof (rule ccontr)
  assume "\<not> ?thesis"
  then have "query_tokens jti (open_session db) = []"
    by (auto simp: query_tokens_def filter_empty_conv)
  then have f: "find_token jti (open_session db) = (Inr None, open_session db)"
    by (simp add: find_token_def op_defs)
  have "isl (fst (validate_refresh_token cfg env token (open_session db)))"
    using f assms(2) by (cases "decode_token cfg env token ''refresh''")
      (simp_all add: validate_refresh_token_def bind_op_def raise_op_def return_op_def lift_op_def claim_def)
  with assms(1) show False
    by (cases "validate_refresh_token cfg env token (open_session db)")
      (auto simp: run_request_def refresh_def op_defs split: sum.splits exn.splits)
qed

text \<open>
  C18: A refresh token that could be exchanged until its owner logged out is refused by every later
  exchange, whatever requests of any clients come between (sign-ups, sign-ins, verifications,
  refreshes, log-outs).
\<close>

theorem logged_out_for_good:
  assumes "fst (run_request (refresh cfg env1 token) db) = Inr a"
    and "run_request (logout cfg env2 token) db = (Inr (), db1)"
    and "(auth_step cfg)\<^sup>*\<^sup>* db1 db2"
    and same: "\<forall>env \<in> {env1, env2, env3}. \<forall>c. decode_token cfg env token ''refresh'' = Inr c \<longrightarrow> cl_jti c = Some jti"
    and "decode_token cfg env2 token ''refresh'' = Inr c2"
  shows "\<exists>e. fst (run_request (refresh cfg env3 token) db2) = Inl e"
proof -
  obtain r where "r \<in> set (db_refresh_tokens db)" "rt_jti r = jti"
    using refresh_InrD [OF assms(1), of jti] same by blast
  then have "revoked_in jti db1"
    using logout_revokes [OF assms(5) _ _ _ assms(2), of jti] same assms(5) by blast
  with assms(3) have "revoked_in jti db2"
    by (induction rule: rtranclp_induct) (auto intro: auth_step_dead)
  then show ?thesis by (rule revoked_not_exchanged) (use same in blast)
qed

lemma logout_all_revokes:
  assumes "run_request (logout_all cfg env creds token) db = (Inr n, db')"
  obtains u where "fst (run_request (get_current_user cfg env creds token) db) = Inr u"
    "\<forall>r \<in> set (db_refresh_tokens db). rt_user_id r = usr_id u \<longrightarrow> revoked_in (rt_jti r) db'"
proof -
  obtain u where u: "get_current_user cfg env creds token (open_session db) = (Inr u, open_session db)"
    using assms keepsD [OF keeps_get_current_user, of "\<lambda>s. s = open_session db"]
    by (cases "get_current_user cfg env creds token (open_session db)")
      (auto simp: run_request_def logout_all_def bind_op_def split: sum.splits)
  then have db': "db' = db\<lparr>db_refresh_tokens := modify_where (live_of (usr_id u))
      (\<lambda>r. r\<lparr>rt_revoked_at := Some (ae_now env)\<rparr>) (db_refresh_tokens db)\<rparr>"
    using assms by (simp add: run_request_def logout_all_def bind_op_def revoke_all_refresh_tokens_def
        get_op_def modify_op_def return_op_def commit_op_def commit_def split: if_splits)
  have "revoked_in (rt_jti r) db'" if "r \<in> set (db_refresh_tokens db)" "rt_user_id r = usr_id u" for r
    using that unfolding db' modify_where_def live_of_def
    by (cases "rt_revoked_at r") (auto intro: revoked_in_image [of r])
  with u that show ?thesis by (simp add: run_request_def)
qed

lemma sample_logout:
  "run_request (logout default_settings sample_env (sign default_settings sample_env
       (refresh_claims default_settings sample_env i)))
     (add_token (refresh_row default_settings sample_env i) verified_db) =
   (Inr (), add_token (refresh_row default_settings sample_env i\<lparr>rt_revoked_at := Some (seconds 1000)\<rparr>) verified_db)"
proof -
  have "users_ok (add_token (refresh_row default_settings sample_env i\<lparr>rt_revoked_at := Some (seconds 1000)\<rparr>) verified_db)"
    by (rule users_ok_add_token [OF verified_db_ok(1)]) (simp add: verified_db_def sample_db_def empty_db_def)
  then have c: "constraints_ok (add_token (refresh_row default_settings sample_env i\<lparr>rt_revoked_at := Some (seconds 1000)\<rparr>) verified_db)"
    by (simp add: users_ok_def)
  have d: "decode_token default_settings sample_env (sign default_settings sample_env
      (refresh_claims default_settings sample_env i)) ''refresh'' = Inr (refresh_claims default_settings sample_env i)"
    by (rule decode_accepted [OF sample_codec(1)]) simp_all
  have t: "db_refresh_tokens verified_db = []" "ae_now sample_env = seconds 1000"
    by (simp_all add: verified_db_def sample_db_def empty_db_def sample_env_def)
  show ?thesis
    using c by (simp add: run_request_def logout_def revoke_refresh_token_def d op_defs claim_def
        find_token_def query_tokens_def add_token_def t refresh_row_def modify_row_def commit_def)
qed

lemma logged_out_for_good_witness:
  "\<exists>e. fst (run_request (refresh default_settings sample_env (sign default_settings sample_env
       (refresh_claims default_settings sample_env 1)))
     (snd (run_request (login default_settings sample_env ''A@b.c'' ''pw'')
       (add_token (refresh_row default_settings sample_env 1\<lparr>rt_revoked_at := Some (seconds 1000)\<rparr>) verified_db)))) = Inl e"
proof -
  let ?c = "refresh_claims default_settings sample_env 1"
  let ?r = "refresh_row default_settings sample_env 1"
  have "users_ok (add_token ?r verified_db)"
    by (rule users_ok_add_token [OF verified_db_ok(1)]) (simp add: verified_db_def sample_db_def empty_db_def)
  then have good: "fst (run_request (refresh default_settings sample_env (sign default_settings sample_env ?c))
      (add_token ?r verified_db)) = Inr (sign default_settings sample_env (access_claims default_settings sample_env
        (usr_id (sample_user\<lparr>usr_email_verified_at := Some 0\<rparr>))))"
    by (intro refresh_eq [OF sample_codec(1), where r = ?r])
      (simp_all del: One_nat_def add: users_ok_def add_token_def refresh_row_def sample_env_def verified_db_def
        sample_user_def get_user_def unix_time_def seconds_def default_settings_def)
  have d: "decode_token default_settings sample_env (sign default_settings sample_env ?c) ''refresh'' = Inr ?c"
    by (rule decode_accepted [OF sample_codec(1)]) simp_all
  have step: "auth_step default_settings db (snd (run_request (login default_settings sample_env ''A@b.c'' ''pw'') db))" for db
    by (rule auth_step.login) (rule prod.collapse [symmetric])
  from logged_out_for_good [OF good sample_logout r_into_rtranclp [where r = "auth_step default_settings", OF step] _ d,
      of sample_env "ae_jti_refresh sample_env"] d show ?thesis by simp
qed

section \<open>Accounts linked to Google\<close>

text \<open>The account with Google's identifier and a verified address.\<close>

definition linked :: "instant \<Rightarrow> string \<Rightarrow> user \<Rightarrow> user" where
  "linked now google_sub u =
     verified_at now (u\<lparr>usr_google_sub := Some google_sub, usr_auth_provider := ''google''\<rparr>)"

lemma linked_simps [simp]:
  "usr_id (linked now g u) = usr_id u" "usr_email (linked now g u) = usr_email u"
  "usr_referrer_code (linked now g u) = usr_referrer_code u" "usr_auth_hash (linked now g u) = usr_auth_hash u"
  "usr_google_sub (linked now g u) = Some g" "usr_deleted_at (linked now g u) = usr_deleted_at u"
  "usr_auth_provider (linked now g u) = ''google''" "usr_email_verified_at (linked now g u) \<noteq> None"
  "verified_at now (linked now g u) = linked now g u"
  by (simp_all add: linked_def verified_at_def split: option.split)

lemma mem_map_filter: "y \<in> set (List.map_filter h xs) \<longleftrightarrow> (\<exists>x \<in> set xs. h x = Some y)"
  by (induction xs) (auto simp: map_filter_simps split: option.splits)

lemma distinct_map_filter_link:
  "distinct (List.map_filter h xs) \<Longrightarrow> distinct (map key xs) \<Longrightarrow> \<forall>x \<in> set xs. h x \<noteq> Some g \<Longrightarrow>
   (\<And>x. h (f x) = Some g) \<Longrightarrow> distinct (List.map_filter h (modify_row key k f xs))"
proof (induction xs)
  case Nil
  then show ?case by (simp add: modify_row_def map_filter_simps)
next
  case (Cons x xs)
  have tail: "distinct (List.map_filter h xs)" "g \<notin> set (List.map_filter h xs)"
    using Cons.prems by (auto simp: map_filter_simps mem_map_filter split: option.splits)
  show ?case
  proof (cases "key x = k")
    case True
    then have "modify_row key k f xs = xs"
      using Cons.prems(2) by (intro modify_row_absent) auto
    then show ?thesis
      using True tail Cons.prems(4) by (simp add: modify_row_def map_filter_simps)
  next
    case False
    have "y \<noteq> g \<Longrightarrow> y \<notin> set (List.map_filter h xs) \<Longrightarrow> y \<notin> set (List.map_filter h (modify_row key k f xs))" for y
      using Cons.prems(4) by (auto simp: mem_map_filter modify_row_def split: if_splits)
    moreover have "distinct (List.map_filter h (modify_row key k f xs))"
      using Cons tail(1) by simp
    ultimately show ?thesis
      using False Cons.prems(1,3) by (auto simp: modify_row_def map_filter_simps split: option.splits)
  qed
qed

lemma users_ok_linked:
  assumes "users_ok db" "\<forall>u \<in> set (db_users db). usr_google_sub u \<noteq> Some g"
  shows "users_ok (upd_user i (linked now g) db)"
proof -
  have "map usr_email (modify_row usr_id i (linked now g) us) = map usr_email us"
    "map usr_referrer_code (modify_row usr_id i (linked now g) us) = map usr_referrer_code us"
    "map usr_id (modify_row usr_id i (linked now g) us) = map usr_id us" for us
    by (simp_all add: modify_row_def)
  moreover have "distinct (List.map_filter usr_google_sub (modify_row usr_id i (linked now g) (db_users db)))"
    using assms by (intro distinct_map_filter_link [where g = g]) (simp_all add: users_ok_def constraints_ok_def)
  ultimately show ?thesis
    using assms(1) by (simp add: users_ok_def constraints_ok_def upd_user_def)
qed

lemma linked_fun:
  "(\<lambda>u. verified_at now (u\<lparr>usr_google_sub := Some g, usr_auth_provider := ''google''\<rparr>)) = linked now g"
  by (rule ext) (simp add: linked_def)

lemma users_ok_upd_user:
  assumes "users_ok db" and keep: "\<And>r. usr_id (f r) = usr_id r" "\<And>r. usr_email (f r) = usr_email r"
    "\<And>r. usr_referrer_code (f r) = usr_referrer_code r" "\<And>r. usr_google_sub (f r) = usr_google_sub r"
  shows "users_ok (upd_user i f db)"
proof -
  have "map usr_email (modify_row usr_id i f us) = map usr_email us"
    "map usr_referrer_code (modify_row usr_id i f us) = map usr_referrer_code us"
    "map usr_id (modify_row usr_id i f us) = map usr_id us" for us
    by (simp_all add: modify_row_def keep)
  with assms(1) show ?thesis
    by (simp add: users_ok_def constraints_ok_def upd_user_def map_filter_modify_row keep(4))
qed

lemma upd_user_absorb:
  "(\<And>r. f (g r) = g r) \<Longrightarrow> (\<And>r. usr_id (g r) = usr_id r) \<Longrightarrow> upd_user i f (upd_user i g db) = upd_user i g db"
  by (simp add: upd_user_def modify_row_def)

lemma get_user_upd_user:
  "(\<And>r. usr_id (f r) = usr_id r) \<Longrightarrow>
   get_user (upd_user i f db) j = (if j = i then map_option f (get_user db j) else get_user db j)"
  unfolding get_user_def upd_user_def by (simp add: get_row_modify_row)

definition google_identity :: "auth_env \<Rightarrow> string \<Rightarrow> string \<Rightarrow> string \<Rightarrow> bool" where
  "google_identity env id_token email g \<longleftrightarrow>
     (\<exists>info. ae_google env id_token = Some info \<and> dict_get info ''sub'' = Some (JStr g) \<and>
        dict_get info ''email'' = Some (JStr email) \<and>
        (\<exists>v. dict_get info ''email_verified'' = Some v \<and> json_truthy v))"

lemma google_login_links:
  assumes ok: "users_ok db" and u: "u \<in> set (db_users db)" "usr_email u = py_lower email" "usr_deleted_at u = None"
    and new: "\<forall>v \<in> set (db_users db). usr_google_sub v \<noteq> Some g"
    and id: "google_identity env id_token email g"
    and codec: "accepts cfg env env (refresh_claims cfg env (usr_id u))"
    and fresh: "ae_jti_refresh env \<notin> rt_jti ` set (db_refresh_tokens db)"
  shows "run_request (google_login cfg env id_token referrer) db =
    (Inr (reply cfg env (linked (ae_now env) g u)),
     add_token (refresh_row cfg env (usr_id u)) (upd_user (usr_id u) (linked (ae_now env) g) db))"
proof -
  let ?u = "linked (ae_now env) g u" and ?r = "refresh_row cfg env (usr_id u)"
  let ?db = "upd_user (usr_id u) (linked (ae_now env) g) db"
  have ok1: "users_ok ?db" by (rule users_ok_linked [OF ok new])
  have ok2: "users_ok (add_token ?r ?db)"
    using ok1 fresh by (intro users_ok_add_token) (simp_all add: upd_user_def refresh_row_def)
  have none: "find_user (\<lambda>y. usr_google_sub y = Some g) (open_session db) = (Inr None, open_session db)"
    using new by (simp add: find_user_open [OF ok] filter_empty_conv)
  have link: "link_or_create env (py_lower email) g nick referrer (open_session db) =
      (Inr (usr_id u), open_session ?db)" for nick
    using find_user_email [OF ok u(1)] ok1
    by (simp add: link_or_create_def bind_op_def set_user_def modify_op_def commit_op_def commit_def
        return_op_def users_ok_def u(2) linked_fun)
  have get: "get_user ?db (usr_id u) = Some ?u"
    using get_user_member [OF ok u(1)] by (simp add: get_user_upd_user)
  have same: "upd_user (usr_id u) (verified_at (ae_now env)) ?db = ?db"
    by (rule upd_user_absorb) simp_all
  have issue: "issue_auth_response cfg env (usr_id u) (set_objects (\<lambda>_. ?db) (open_session ?db)) =
      (Inr (reply cfg env ?u), set_objects (add_token ?r) (set_objects (\<lambda>_. ?db) (open_session ?db)))"
    using issue_auth_response_eq [of cfg env ?u "set_objects (\<lambda>_. ?db) (open_session ?db)"] codec get by simp
  have verify: "set_user (usr_id u) (verified_at (ae_now env)) (open_session ?db) =
      (Inr (), set_objects (\<lambda>_. ?db) (open_session ?db))"
    using same by (simp add: set_user_def modify_op_def set_objects_def)
  obtain info v where info: "ae_google env id_token = Some info" "dict_get info ''sub'' = Some (JStr g)"
    "dict_get info ''email'' = Some (JStr email)" "dict_get info ''email_verified'' = Some v" "json_truthy v"
    using id by (auto simp: google_identity_def)
  show ?thesis
    using none link get u(3) verify issue ok2
    by (simp add: run_request_def google_login_def info claim_text_def Let_def bind_op_def return_op_def
        with_user_def get_op_def commit_op_def commit_def users_ok_def)
qed

text \<open>
  C19: An account that someone has registered under an address they do not control, and whose
  password login is refused because the address is unverified, is taken over as it is when the
  owner of the address signs in with Google: from then on the password of whoever registered it
  signs in to the owner's account.
\<close>

theorem google_link_admits_old_password:
  assumes ok: "users_ok db" and u: "u \<in> set (db_users db)" "usr_email u = py_lower email" "usr_deleted_at u = None"
    and unverified: "usr_auth_provider u = ''local''" "usr_email_verified_at u = None"
    and password: "verify_password later password (usr_auth_hash u)"
    and new: "\<forall>v \<in> set (db_users db). usr_google_sub v \<noteq> Some g"
    and id: "google_identity env id_token email g"
    and codec: "accepts cfg env env (refresh_claims cfg env (usr_id u))"
      "accepts cfg later later (refresh_claims cfg later (usr_id u))"
    and fresh: "ae_jti_refresh env \<notin> rt_jti ` set (db_refresh_tokens db)"
      "ae_jti_refresh later \<notin> rt_jti ` set (db_refresh_tokens db)" "ae_jti_refresh later \<noteq> ae_jti_refresh env"
  shows "fst (run_request (login cfg later email password) db) = Inl (HTTPException 403) \<and>
    (\<exists>owner db'. run_request (google_login cfg env id_token referrer) db = (Inr owner, db') \<and>
       (\<exists>intruder. fst (run_request (login cfg later email password) db') = Inr intruder \<and>
          uo_id (ar_user intruder) = uo_id (ar_user owner)))"
proof
  let ?u = "linked (ae_now env) g u" and ?r = "refresh_row cfg env (usr_id u)"
  have "users_ok (upd_user (usr_id u) (\<lambda>x. x\<lparr>usr_otp_hash := h, usr_otp_expires_at := t\<rparr>) db)" for h t
    using ok by (rule users_ok_upd_user) simp_all
  with find_user_email [OF ok u(1)] u password unverified
  show "fst (run_request (login cfg later email password) db) = Inl (HTTPException 403)"
    by (simp add: run_request_def login_def bind_op_def issue_email_verification_def set_user_def modify_op_def
        commit_op_def commit_def raise_op_def users_ok_def)
  let ?db = "add_token ?r (upd_user (usr_id u) (linked (ae_now env) g) db)"
  have "users_ok ?db"
    using users_ok_linked [OF ok new] fresh by (intro users_ok_add_token) (simp_all add: upd_user_def refresh_row_def)
  moreover have "?u \<in> set (db_users ?db)"
    using u(1) by (auto simp: add_token_def upd_user_def modify_row_def)
  moreover have "may_sign_in later password ?u" using u(3) password by (simp add: may_sign_in_def)
  moreover have "ae_jti_refresh later \<notin> rt_jti ` set (db_refresh_tokens ?db)"
    using fresh by (simp add: add_token_def upd_user_def refresh_row_def)
  ultimately have "fst (run_request (login cfg later email password) ?db) = Inr (reply cfg later ?u)"
    using u(2) codec(2) by (simp add: login_eq [where u = ?u])
  with google_login_links [OF ok u new id codec(1) fresh(1)]
  show "\<exists>owner db'. run_request (google_login cfg env id_token referrer) db = (Inr owner, db') \<and>
      (\<exists>intruder. fst (run_request (login cfg later email password) db') = Inr intruder \<and>
         uo_id (ar_user intruder) = uo_id (ar_user owner))"
    by (auto simp: reply_def user_out_def)
qed

definition sample_later :: auth_env where
  "sample_later = sample_env\<lparr>ae_jti_refresh := ''j3'', ae_decode := (\<lambda>now t k.
     if py_startswith t ''refresh'' then Some (token_claims (seconds 1000) ''j3'' (drop 7 t) 2592000 ''refresh'')
     else None)\<rparr>"

lemma sample_later_codec:
  "accepts default_settings sample_later sample_later (refresh_claims default_settings sample_later i)"
  by (simp add: accepts_def sign_def sample_later_def sample_env_def refresh_claims_def token_claims_def
      py_startswith_def default_settings_def)

lemma google_link_admits_old_password_witness:
  "fst (run_request (login default_settings sample_later ''a@b.c'' ''pw'') sample_db) = Inl (HTTPException 403) \<and>
   (\<exists>owner db'. run_request (google_login default_settings sample_env ''token'' None) sample_db = (Inr owner, db') \<and>
     (\<exists>intruder. fst (run_request (login default_settings sample_later ''a@b.c'' ''pw'') db') = Inr intruder))"
proof -
  have "google_identity sample_env ''token'' ''a@b.c'' ''g1''"
    by (simp add: google_identity_def sample_env_def dict_get_def)
  moreover have "users_ok sample_db" by code_simp
  moreover have "usr_email sample_user = py_lower ''a@b.c''" by code_simp
  moreover have "verify_password sample_later ''pw'' (usr_auth_hash sample_user)"
    by (simp add: verify_password_def sample_later_def sample_env_def sample_user_def)
  ultimately show ?thesis
    using google_link_admits_old_password [of sample_db sample_user "''a@b.c''" sample_later "''pw''" "''g1''"
        sample_env "''token''" default_settings None] sample_codec(1) sample_later_codec
    by (fastforce simp: sample_db_def empty_db_def sample_user_def sample_later_def sample_env_def)
qed

end
