(* ===== verification/Properties_Files.thy ===== *)
theory Properties_Files
  imports PyText
begin

text \<open>
  The \<open>server.properties\<close> files of the game servers (\<open>minecraft/java_properties.py\<close>,
  \<open>minecraft/bedrock_properties.py\<close>): writing a new file, changing one property in place, reading
  the file back with type coercion, and the update of several properties by the agent and the
  local runtime.  A directory is a map from file names to their text; the text is UTF-8, of which
  the white space and the line boundaries outside ASCII are left out, as in \<open>PyText\<close>.
\<close>

section \<open>Files\<close>

type_synonym dir = "string \<Rightarrow> string option"

text \<open>\<open>s.splitlines()\<close>, which also undoes the translation of line ends by the text mode.\<close>

definition is_line_break :: "char \<Rightarrow> bool" where
  "is_line_break c \<longleftrightarrow> (let n = of_char c :: nat in 10 \<le> n \<and> n \<le> 13 \<or> 28 \<le> n \<and> n \<le> 30)"

fun py_splitlines :: "string \<Rightarrow> string list" where
  "py_splitlines [] = []"
| "py_splitlines (c # cs) =
     (if is_line_break c then
        [] # (if c = CHR 0x0D \<and> cs \<noteq> [] \<and> hd cs = CHR 0x0A then py_splitlines (tl cs)
              else py_splitlines cs)
      else (case py_splitlines cs of [] \<Rightarrow> [[c]] | l # ls \<Rightarrow> (c # l) # ls))"

text \<open>\<open>"\n".join(lines) + "\n"\<close>\<close>

definition unlines :: "string list \<Rightarrow> string" where
  "unlines lines = py_join (CHR 0x0A) lines @ [CHR 0x0A]"

text \<open>\<open>path.with_suffix(new)\<close>, on the name of the file.\<close>

definition with_suffix :: "string \<Rightarrow> string \<Rightarrow> string" where
  "with_suffix name new =
     (let ext = takeWhile (\<lambda>c. c \<noteq> CHR ''.'') (rev name);
          stem = take (length name - length ext - 1) name in
      if CHR ''.'' \<in> set name \<and> ext \<noteq> [] \<and> stem \<noteq> [] then stem @ new else name @ new)"

text \<open>The backup copy, the temporary file and the atomic replacement that end both writers.\<close>

definition replace_file :: "dir \<Rightarrow> string \<Rightarrow> string \<Rightarrow> dir" where
  "replace_file d path text =
     (let d1 = (case d path of None \<Rightarrow> d
                | Some old \<Rightarrow> d(with_suffix path ''.properties.bak'' \<mapsto> old));
          tmp_path = with_suffix path ''.tmp'';
          d2 = d1(tmp_path \<mapsto> text)
      in (d2(tmp_path := None))(path := d2 tmp_path))"

section \<open>Properties\<close>

datatype prop_value = PNone | PBool bool | PInt int | PStr string

definition text_of :: "prop_value \<Rightarrow> string" where
  "text_of v = (case v of
     PNone \<Rightarrow> ''None''
   | PBool b \<Rightarrow> if b then ''true'' else ''false''
   | PInt n \<Rightarrow> py_str_int n
   | PStr s \<Rightarrow> s)"

definition prop_line :: "string \<Rightarrow> prop_value \<Rightarrow> string" where
  "prop_line key v = key @ CHR ''='' # text_of v"

definition is_ignored :: "string \<Rightarrow> bool" where
  "is_ignored line \<longleftrightarrow>
     py_strip line = [] \<or> py_startswith (lstrip_where is_space line) ''#''"

definition line_key :: "string \<Rightarrow> string" where
  "line_key line = py_strip (hd (py_split_once (CHR ''='') line))"

text \<open>The loop of \<open>set_java_server_property\<close> over the lines of the file.\<close>

fun set_loop :: "string \<Rightarrow> prop_value \<Rightarrow> string list \<Rightarrow> string list \<Rightarrow> bool \<Rightarrow> string list \<times> bool" where
  "set_loop key v [] new_lines seen = (new_lines, seen)"
| "set_loop key v (line # lines) new_lines seen =
     (if is_ignored line then set_loop key v lines (new_lines @ [line]) seen
      else if line_key line = key
      then set_loop key v lines (new_lines @ [prop_line key v]) True
      else set_loop key v lines (new_lines @ [line]) seen)"

definition set_java_server_property :: "dir \<Rightarrow> string \<Rightarrow> string \<Rightarrow> prop_value \<Rightarrow> dir" where
  "set_java_server_property d path key v =
     (let d1 = (if d path = None then d(path \<mapsto> []) else d);
          (new_lines, seen) = set_loop key v (py_splitlines (the (d1 path))) [] False;
          lines = (if seen then new_lines else new_lines @ [prop_line key v])
      in replace_file d1 path (unlines lines))"

text \<open>The Bedrock copy of the function has the same loop, line by line.\<close>

definition set_bedrock_server_property :: "dir \<Rightarrow> string \<Rightarrow> string \<Rightarrow> prop_value \<Rightarrow> dir" where
  "set_bedrock_server_property d path key v =
     (let d1 = (if d path = None then d(path \<mapsto> []) else d);
          (new_lines, seen) = set_loop key v (py_splitlines (the (d1 path))) [] False;
          lines = (if seen then new_lines else new_lines @ [prop_line key v])
      in replace_file d1 path (unlines lines))"

text \<open>
  \<open>read_properties\<close>: every line that is not ignored and has an equals sign is an entry; a value of
  more than 4300 digits is a \<open>ValueError\<close> of \<open>int\<close>.
\<close>

definition coerce :: "string \<Rightarrow> exn + prop_value" where
  "coerce val =
     (if py_lower val = ''true'' then Inr (PBool True)
      else if py_lower val = ''false'' then Inr (PBool False)
      else if py_isdigit val then
        (case py_int val of None \<Rightarrow> Inl ValueError | Some n \<Rightarrow> Inr (PInt n))
      else Inr (PStr val))"

definition read_line :: "string \<Rightarrow> prop_value dict \<Rightarrow> exn + prop_value dict" where
  "read_line line props =
     (if is_ignored line \<or> CHR ''='' \<notin> set line then Inr props
      else case coerce (py_strip (py_split_once (CHR ''='') line ! 1)) of
             Inl e \<Rightarrow> Inl e
           | Inr w \<Rightarrow> Inr (dict_set (line_key line) w props))"

fun read_loop :: "string list \<Rightarrow> prop_value dict \<Rightarrow> exn + prop_value dict" where
  "read_loop [] props = Inr props"
| "read_loop (line # lines) props =
     (case read_line line props of Inl e \<Rightarrow> Inl e | Inr props \<Rightarrow> read_loop lines props)"

definition read_properties :: "dir \<Rightarrow> string \<Rightarrow> exn + prop_value dict" where
  "read_properties d path =
     (case d path of None \<Rightarrow> Inr [] | Some text \<Rightarrow> read_loop (py_splitlines text) [])"

section \<open>New files\<close>

record JavaServerProperties =
  jp_server_port :: int
  jp_max_players :: int
  jp_gamemode :: string
  jp_difficulty :: string
  jp_online_mode :: bool
  jp_level_name :: string
  jp_level_seed :: string
  jp_motd :: string
  jp_enable_rcon :: bool
  jp_spawn_protection :: int
  jp_view_distance :: int
  jp_simulation_distance :: int
  jp_enable_command_block :: bool
  jp_allow_flight :: bool
  jp_white_list :: bool
  jp_enforce_whitelist :: bool
  jp_max_tick_time :: int
  jp_network_compression_threshold :: int
  jp_prevent_proxy_connections :: bool
  jp_rcon_port :: int
  jp_rcon_password :: string

text \<open>\<open>put\<close> leaves out a property that is \<open>None\<close>.\<close>

definition put :: "string \<Rightarrow> prop_value \<Rightarrow> string list" where
  "put key v = (if v = PNone then [] else [prop_line key v])"

definition put_all :: "prop_value dict \<Rightarrow> string list" where
  "put_all kvs = concat (map (\<lambda>(key, v). put key v) kvs)"

definition java_entries :: "JavaServerProperties \<Rightarrow> prop_value dict" where
  "java_entries props =
     [(''server-port'', PInt (jp_server_port props)),
      (''max-players'', PInt (jp_max_players props)),
      (''gamemode'', PStr (jp_gamemode props)),
      (''difficulty'', PStr (jp_difficulty props)),
      (''online-mode'', PBool (jp_online_mode props)),
      (''level-name'', PStr (jp_level_name props)),
      (''level-seed'', PStr (jp_level_seed props)),
      (''motd'', PStr (jp_motd props)),
      (''enable-rcon'', PBool (jp_enable_rcon props)),
      (''rcon.port'', PInt (jp_rcon_port props)),
      (''rcon.password'', PStr (jp_rcon_password props)),
      (''spawn-protection'', PInt (jp_spawn_protection props)),
      (''view-distance'', PInt (jp_view_distance props)),
      (''simulation-distance'', PInt (jp_simulation_distance props)),
      (''enable-command-block'', PBool (jp_enable_command_block props)),
      (''allow-flight'', PBool (jp_allow_flight props)),
      (''white-list'', PBool (jp_white_list props)),
      (''enforce-whitelist'', PBool (jp_enforce_whitelist props)),
      (''max-tick-time'', PInt (jp_max_tick_time props)),
      (''network-compression-threshold'', PInt (jp_network_compression_threshold props)),
      (''prevent-proxy-connections'', PBool (jp_prevent_proxy_connections props))]"

definition write_java_server_properties :: "dir \<Rightarrow> string \<Rightarrow> JavaServerProperties \<Rightarrow> dir" where
  "write_java_server_properties d path props =
     replace_file d path (unlines (put_all (java_entries props)))"

record BedrockServerProperties =
  bp_server_name :: string
  bp_gamemode :: "string option"
  bp_difficulty :: "string option"
  bp_max_players :: "int option"
  bp_allow_cheats :: "bool option"
  bp_online_mode :: "bool option"
  bp_level_name :: "string option"
  bp_level_seed :: "string option"
  bp_enable_lan_visibility :: bool
  bp_server_port :: int

definition optional :: "('a \<Rightarrow> prop_value) \<Rightarrow> 'a option \<Rightarrow> prop_value" where
  "optional f x = (case x of None \<Rightarrow> PNone | Some y \<Rightarrow> f y)"

definition bedrock_entries :: "BedrockServerProperties \<Rightarrow> prop_value dict" where
  "bedrock_entries props =
     (let ipv4_port = bp_server_port props;
          ipv6_port = ipv4_port + 1;
          ipv6_port = (if ipv6_port = ipv4_port then ipv4_port + 1 else ipv6_port) in
      [(''server-name'', PStr (bp_server_name props)),
       (''gamemode'', optional PStr (bp_gamemode props)),
       (''difficulty'', optional PStr (bp_difficulty props)),
       (''max-players'', optional PInt (bp_max_players props)),
       (''allow-cheats'', optional PBool (bp_allow_cheats props)),
       (''online-mode'', optional PBool (bp_online_mode props)),
       (''level-name'', optional PStr (bp_level_name props)),
       (''level-seed'', optional PStr (bp_level_seed props)),
       (''server-port'', PInt ipv4_port),
       (''server-portv6'', PInt ipv6_port),
       (''enable-lan-visibility'', PBool (bp_enable_lan_visibility props))])"

definition write_server_properties :: "dir \<Rightarrow> string \<Rightarrow> BedrockServerProperties \<Rightarrow> dir" where
  "write_server_properties d path props =
     replace_file d path (unlines (put_all (bedrock_entries props)))"

section \<open>Several properties\<close>

text \<open>
  \<open>update_server_properties\<close> of the agent and \<open>update_properties\<close> of the local runtime; the
  directory of a Bedrock server holds a \<open>bedrock_server\<close>.
\<close>

definition update_properties :: "dir \<Rightarrow> prop_value dict \<Rightarrow> dir" where
  "update_properties server_dir props =
     (let setter = (if server_dir ''bedrock_server'' \<noteq> None then set_bedrock_server_property
                    else set_java_server_property)
      in fold (\<lambda>(k, v) d. setter d ''server.properties'' k v) props server_dir)"

definition get_properties :: "dir \<Rightarrow> exn + prop_value dict" where
  "get_properties server_dir = read_properties server_dir ''server.properties''"

text \<open>
  The part of the agent's \<open>create_server\<close> that writes the file: a new one from the dictionary of
  the request, else only the ports of the existing one.
\<close>

definition replace_char :: "char \<Rightarrow> char \<Rightarrow> string \<Rightarrow> string" where
  "replace_char a b s = map (\<lambda>c. if c = a then b else c) s"

definition provision_properties :: "dir \<Rightarrow> bool \<Rightarrow> int \<Rightarrow> prop_value dict option \<Rightarrow> dir" where
  "provision_properties server_dir is_java port properties_dict =
     (case properties_dict of
        None \<Rightarrow> server_dir
      | Some kvs \<Rightarrow>
          if server_dir ''server.properties'' = None then
            server_dir(''server.properties'' \<mapsto>
              unlines (map (\<lambda>(k, v). prop_line (replace_char (CHR ''_'') (CHR ''-'') k) v) kvs))
          else if is_java then
            set_java_server_property server_dir ''server.properties'' ''server-port'' (PInt port)
          else
            set_bedrock_server_property
              (set_bedrock_server_property server_dir ''server.properties'' ''server-port'' (PInt port))
              ''server.properties'' ''server-portv6'' (PInt (port + 1)))"

section \<open>Lines\<close>

definition one_line :: "string \<Rightarrow> bool" where
  "one_line s \<longleftrightarrow> (\<forall>c \<in> set s. \<not> is_line_break c)"

lemma one_line_simps [simp]:
  "one_line []" "one_line (c # s) \<longleftrightarrow> \<not> is_line_break c \<and> one_line s"
  "one_line (s @ t) \<longleftrightarrow> one_line s \<and> one_line t"
  by (auto simp: one_line_def)

lemma line_break_facts [simp]:
  "is_line_break (CHR 0x0A)" "\<not> is_line_break (CHR ''='')"
  "is_digit c \<Longrightarrow> \<not> is_line_break c" "\<not> is_line_break (CHR ''-'')"
  by (auto simp: is_line_break_def is_digit_def Let_def)

lemma line_break_space: "is_line_break c \<Longrightarrow> is_space c"
  by (auto simp: is_line_break_def is_space_def Let_def)

lemma splitlines_one_line: "l \<in> set (py_splitlines s) \<Longrightarrow> one_line l"
proof (induction s arbitrary: l rule: py_splitlines.induct)
  case (2 c cs)
  then show ?case
    by (auto split: if_splits list.splits)
qed simp

lemma splitlines_append_nl:
  "one_line l \<Longrightarrow> py_splitlines (l @ CHR 0x0A # s) = l # py_splitlines s"
  by (induction l) auto

lemma splitlines_unlines:
  "lines \<noteq> [] \<Longrightarrow> (\<forall>l \<in> set lines. one_line l) \<Longrightarrow> py_splitlines (unlines lines) = lines"
proof (induction lines)
  case (Cons l ls)
  show ?case
  proof (cases "ls = []")
    case True
    with Cons.prems splitlines_append_nl [of l "[]"] show ?thesis by (simp add: unlines_def)
  next
    case False
    with Cons splitlines_append_nl [of l "unlines ls"] show ?thesis
      by (simp add: unlines_def py_join_Cons)
  qed
qed simp

lemma replace_file_same [simp]: "replace_file d path text path = Some text"
  by (simp add: replace_file_def Let_def)

lemma replace_file_other:
  "q \<noteq> path \<Longrightarrow> q \<noteq> with_suffix path ''.properties.bak'' \<Longrightarrow> q \<noteq> with_suffix path ''.tmp'' \<Longrightarrow>
   replace_file d path text q = d q"
  by (simp add: replace_file_def Let_def split: option.split)

section \<open>Entries\<close>

text \<open>A key that survives being written and read: no space around it, no equals sign, one line.\<close>

definition plain_key :: "string \<Rightarrow> bool" where
  "plain_key key \<longleftrightarrow> py_strip key = key \<and> CHR ''='' \<notin> set key \<and> one_line key \<and>
     \<not> py_startswith key ''#''"

text \<open>What a written value is read back as.\<close>

definition stored :: "prop_value \<Rightarrow> prop_value option" where
  "stored v = (if one_line (text_of v) then
                 (case coerce (py_strip (text_of v)) of Inl _ \<Rightarrow> None | Inr w \<Rightarrow> Some w)
               else None)"

lemma split_once_prop_line:
  "CHR ''='' \<notin> set key \<Longrightarrow> py_split_once (CHR ''='') (prop_line key v) = [key, text_of v]"
proof -
  assume "CHR ''='' \<notin> set key"
  then have "\<And>x. x \<in> set key \<Longrightarrow> x \<noteq> CHR ''=''" by auto
  then show ?thesis
    by (simp add: py_split_once_def prop_line_def takeWhile_append2 dropWhile_append2)
qed

lemma py_strip_eq_hd:
  "py_strip key = key \<Longrightarrow> key \<noteq> [] \<Longrightarrow> \<not> is_space (hd key)"
  using py_strip_ends [of key] by auto

lemma not_space_eq [simp]: "\<not> is_space (CHR ''='')"
  by (simp add: is_space_def)

lemma lstrip_prop_line:
  "py_strip key = key \<Longrightarrow> lstrip_where is_space (prop_line key v) = prop_line key v"
  using py_strip_eq_hd [of key] by (cases key) (auto simp: lstrip_where_def prop_line_def)

lemma prop_line_not_blank: "py_strip (prop_line key v) \<noteq> []"
proof -
  have "\<exists>c \<in> set (prop_line key v). \<not> is_space c" by (auto simp: prop_line_def)
  then have "dropWhile is_space (prop_line key v) \<noteq> []" by (auto simp: dropWhile_eq_Nil_conv)
  then have "\<exists>c \<in> set (dropWhile is_space (prop_line key v)). \<not> is_space c"
    using hd_dropWhile hd_in_set by blast
  then show ?thesis
    by (simp add: py_strip_def lstrip_where_def rstrip_where_def dropWhile_eq_Nil_conv)
qed

lemma prop_line_facts:
  assumes "plain_key key"
  shows "\<not> is_ignored (prop_line key v)" "line_key (prop_line key v) = key"
    "CHR ''='' \<in> set (prop_line key v)"
proof -
  have "\<not> py_startswith (prop_line key v) ''#''"
    using assms by (cases key) (auto simp: plain_key_def py_startswith_def prop_line_def)
  with assms show "\<not> is_ignored (prop_line key v)"
    by (simp add: is_ignored_def prop_line_not_blank lstrip_prop_line plain_key_def)
  from assms show "line_key (prop_line key v) = key"
    by (simp add: line_key_def split_once_prop_line plain_key_def)
  show "CHR ''='' \<in> set (prop_line key v)" by (simp add: prop_line_def)
qed

lemma read_line_prop_line:
  assumes "plain_key key" "stored v = Some w"
  shows "read_line (prop_line key v) ps = Inr (dict_set key w ps)"
  using assms prop_line_facts [OF assms(1), of v]
  by (auto simp: read_line_def split_once_prop_line plain_key_def stored_def split: if_splits sum.splits)

lemma one_line_prop_line: "plain_key key \<Longrightarrow> stored v = Some w \<Longrightarrow> one_line (prop_line key v)"
  by (auto simp: plain_key_def stored_def prop_line_def split: if_splits)

section \<open>Changing one property\<close>

definition hit :: "string \<Rightarrow> string \<Rightarrow> bool" where
  "hit key line \<longleftrightarrow> \<not> is_ignored line \<and> line_key line = key"

lemma set_loop_eq:
  "set_loop key v lines acc seen =
     (acc @ map (\<lambda>l. if hit key l then prop_line key v else l) lines,
      seen \<or> (\<exists>l \<in> set lines. hit key l))"
  by (induction lines arbitrary: acc seen) (auto simp: hit_def)

definition with_line :: "string \<Rightarrow> prop_value \<Rightarrow> string list \<Rightarrow> string list" where
  "with_line key v lines = map (\<lambda>l. if hit key l then prop_line key v else l) lines @
     (if \<exists>l \<in> set lines. hit key l then [] else [prop_line key v])"

lemma set_property_text:
  "set_java_server_property d path key v path =
     Some (unlines (with_line key v (case d path of None \<Rightarrow> [] | Some t \<Rightarrow> py_splitlines t)))"
  "set_bedrock_server_property d path key v path =
     Some (unlines (with_line key v (case d path of None \<Rightarrow> [] | Some t \<Rightarrow> py_splitlines t)))"
  by (auto simp: set_java_server_property_def set_bedrock_server_property_def with_line_def
      set_loop_eq Let_def split: option.split)

definition agree_but :: "string \<Rightarrow> prop_value dict \<Rightarrow> prop_value dict \<Rightarrow> bool" where
  "agree_but key ps qs \<longleftrightarrow> (\<forall>k. k \<noteq> key \<longrightarrow> dict_get qs k = dict_get ps k)"

lemma read_with_line:
  assumes "plain_key key" "stored v = Some w"
  shows "read_loop lines ps = Inr ps' \<Longrightarrow> agree_but key ps qs \<Longrightarrow>
    \<exists>qs'. read_loop (map (\<lambda>l. if hit key l then prop_line key v else l) lines) qs = Inr qs' \<and>
      agree_but key ps' qs' \<and>
      ((\<exists>l \<in> set lines. hit key l) \<or> dict_get qs key = Some w \<longrightarrow> dict_get qs' key = Some w)"
proof (induction lines arbitrary: ps qs)
  case (Cons l ls)
  from Cons.prems obtain p1 where p1: "read_line l ps = Inr p1" "read_loop ls p1 = Inr ps'"
    by (auto split: sum.splits)
  show ?case
  proof (cases "hit key l")
    case True
    then have "agree_but key p1 (dict_set key w qs)"
      using p1(1) Cons.prems(2) by (auto simp: agree_but_def read_line_def hit_def split: if_splits sum.splits)
    from Cons.IH [OF p1(2) this] True show ?thesis
      by (auto simp: read_line_prop_line [OF assms])
  next
    case False
    have "\<exists>q1. read_line l qs = Inr q1 \<and> agree_but key p1 q1 \<and> dict_get q1 key = dict_get qs key"
      using p1(1) Cons.prems(2) False
      by (auto simp: agree_but_def read_line_def hit_def split: if_splits sum.splits)
    then obtain q1 where q1: "read_line l qs = Inr q1" "agree_but key p1 q1"
      "dict_get q1 key = dict_get qs key" by blast
    from Cons.IH [OF p1(2) q1(2)] q1 False show ?thesis by auto
  qed
qed simp

lemma read_loop_append:
  "read_loop (xs @ ys) ps = (case read_loop xs ps of Inl e \<Rightarrow> Inl e | Inr qs \<Rightarrow> read_loop ys qs)"
  by (induction xs arbitrary: ps) (auto split: sum.split)

lemma read_written:
  assumes k: "plain_key key" "stored v = Some w" and r: "read_loop lines [] = Inr ps"
  shows "\<exists>qs. read_loop (with_line key v lines) [] = Inr qs \<and>
    (\<forall>k'. dict_get qs k' = (if k' = key then Some w else dict_get ps k'))"
proof -
  have "agree_but key [] []" by (simp add: agree_but_def)
  from read_with_line [OF k r this] obtain qs' where
    q: "read_loop (map (\<lambda>l. if hit key l then prop_line key v else l) lines) [] = Inr qs'"
       "agree_but key ps qs'" "(\<exists>l \<in> set lines. hit key l) \<longrightarrow> dict_get qs' key = Some w" by blast
  show ?thesis
  proof (cases "\<exists>l \<in> set lines. hit key l")
    case True
    with q show ?thesis by (auto simp: with_line_def agree_but_def)
  next
    case False
    with q show ?thesis
      by (auto simp: with_line_def read_loop_append read_line_prop_line [OF k] agree_but_def)
  qed
qed

lemma with_line_ok:
  assumes "plain_key key" "stored v = Some w" "\<forall>l \<in> set lines. one_line l"
  shows "py_splitlines (unlines (with_line key v lines)) = with_line key v lines"
  using assms one_line_prop_line [OF assms(1,2)]
  by (intro splitlines_unlines) (auto simp: with_line_def)

section \<open>The interface of the two writers\<close>

text \<open>
  What the agent relies on, whichever of the two setters it has chosen: the file read back is the
  old one with the one entry replaced, and no file but the three of the writer changes.
\<close>

definition touched :: "string \<Rightarrow> string set" where
  "touched path = {path, with_suffix path ''.properties.bak'', with_suffix path ''.tmp''}"

locale property_setter =
  fixes set_property :: "dir \<Rightarrow> string \<Rightarrow> string \<Rightarrow> prop_value \<Rightarrow> dir"
  assumes read_set: "plain_key key \<Longrightarrow> stored v = Some w \<Longrightarrow> read_properties d path = Inr ps \<Longrightarrow>
      \<exists>qs. read_properties (set_property d path key v) path = Inr qs \<and>
        dict_get qs = (dict_get ps)(key \<mapsto> w)"
    and set_frame: "q \<notin> touched path \<Longrightarrow> set_property d path key v q = d q"
begin

definition set_all :: "string \<Rightarrow> prop_value dict \<Rightarrow> dir \<Rightarrow> dir" where
  "set_all path kvs d = fold (\<lambda>(k, v) d. set_property d path k v) kvs d"

lemma set_all_frame: "q \<notin> touched path \<Longrightarrow> set_all path kvs d q = d q"
  by (induction kvs arbitrary: d) (auto simp: set_all_def set_frame)

lemma read_set_all:
  "read_properties d path = Inr ps \<Longrightarrow> distinct (map fst kvs) \<Longrightarrow>
   \<forall>(k, v) \<in> set kvs. plain_key k \<and> stored v \<noteq> None \<Longrightarrow>
   \<exists>qs. read_properties (set_all path kvs d) path = Inr qs \<and>
     (\<forall>k. dict_get qs k = (case dict_get kvs k of Some v \<Rightarrow> stored v | None \<Rightarrow> dict_get ps k))"
proof (induction kvs arbitrary: d ps)
  case Nil
  then show ?case by (simp add: set_all_def dict_get_def)
next
  case (Cons kv kvs)
  obtain k v where kv: "kv = (k, v)" by (cases kv)
  with Cons.prems obtain w where w: "plain_key k" "stored v = Some w" by auto
  from read_set [OF w Cons.prems(1)] obtain ps1 where
    ps1: "read_properties (set_property d path k v) path = Inr ps1"
         "dict_get ps1 = (dict_get ps)(k \<mapsto> w)" by blast
  have "distinct (map fst kvs)" "\<forall>(k, v) \<in> set kvs. plain_key k \<and> stored v \<noteq> None"
    using Cons.prems by auto
  from Cons.IH [OF ps1(1) this] obtain qs where
    qs: "read_properties (set_all path kvs (set_property d path k v)) path = Inr qs"
        "\<forall>k'. dict_get qs k' = (case dict_get kvs k' of Some v \<Rightarrow> stored v | None \<Rightarrow> dict_get ps1 k')"
    by blast
  have "dict_get kvs k = None"
    using Cons.prems(2) kv by (force simp: dict_get_def map_of_eq_None_iff)
  with qs ps1(2) w kv show ?case
    by (auto simp: set_all_def dict_get_def split: option.split)
qed

end

lemma set_property_frame:
  assumes "q \<notin> touched path"
  shows "set_java_server_property d path key v q = d q"
    "set_bedrock_server_property d path key v q = d q"
  using assms
  by (auto simp: set_java_server_property_def set_bedrock_server_property_def touched_def
      replace_file_other Let_def split: prod.split)

lemma setters_ok: "property_setter set_java_server_property" "property_setter set_bedrock_server_property"
proof -
  { fix set_property :: "dir \<Rightarrow> string \<Rightarrow> string \<Rightarrow> prop_value \<Rightarrow> dir"
    assume new: "\<And>d path key v. set_property d path key v path =
        Some (unlines (with_line key v (case d path of None \<Rightarrow> [] | Some t \<Rightarrow> py_splitlines t)))"
      and frame: "\<And>d path key v q. q \<notin> touched path \<Longrightarrow> set_property d path key v q = d q"
    have "property_setter set_property"
    proof
      fix key v w d path ps
      assume k: "plain_key key" "stored v = Some w" and r: "read_properties d path = Inr ps"
      let ?lines = "case d path of None \<Rightarrow> [] | Some t \<Rightarrow> py_splitlines t"
      have "read_loop ?lines [] = Inr ps"
        using r by (auto simp: read_properties_def split: option.splits)
      from read_written [OF k this] obtain qs where
        qs: "read_loop (with_line key v ?lines) [] = Inr qs"
            "\<forall>k'. dict_get qs k' = (if k' = key then Some w else dict_get ps k')" by blast
      have "\<forall>l \<in> set ?lines. one_line l"
        by (auto split: option.split dest: splitlines_one_line)
      with k have "py_splitlines (unlines (with_line key v ?lines)) = with_line key v ?lines"
        by (rule with_line_ok)
      with qs show "\<exists>qs. read_properties (set_property d path key v) path = Inr qs \<and>
          dict_get qs = (dict_get ps)(key \<mapsto> w)"
        by (auto simp: read_properties_def new fun_upd_def)
    qed (rule frame) }
  note generic = this
  show "property_setter set_java_server_property"
    by (rule generic, rule set_property_text, erule set_property_frame)
  show "property_setter set_bedrock_server_property"
    by (rule generic, rule set_property_text, erule set_property_frame)
qed

interpretation java_file: property_setter set_java_server_property
  by (rule setters_ok)

interpretation bedrock_file: property_setter set_bedrock_server_property
  by (rule setters_ok)

lemma update_properties_set_all:
  "update_properties d kvs =
     (if d ''bedrock_server'' \<noteq> None then bedrock_file.set_all ''server.properties'' kvs d
      else java_file.set_all ''server.properties'' kvs d)"
  by (simp add: update_properties_def bedrock_file.set_all_def java_file.set_all_def)

lemma update_read_back:
  "get_properties d = Inr ps \<Longrightarrow> distinct (map fst kvs) \<Longrightarrow>
   \<forall>(k, v) \<in> set kvs. plain_key k \<and> stored v \<noteq> None \<Longrightarrow>
   \<exists>qs. get_properties (update_properties d kvs) = Inr qs \<and>
     (\<forall>k. dict_get qs k = (case dict_get kvs k of Some v \<Rightarrow> stored v | None \<Rightarrow> dict_get ps k))"
  unfolding get_properties_def update_properties_set_all
  by (auto intro: java_file.read_set_all bedrock_file.read_set_all)

text \<open>
  C21: Updating properties and reading the file back gives every updated property the value that
  was written, as the reader types it, and every other property the value it had; only the
  properties file, its backup copy and the temporary file of the writer are touched.
\<close>

theorem updated_properties_read_back:
  assumes "get_properties d = Inr ps" and "distinct (map fst kvs)"
    and "\<forall>(k, v) \<in> set kvs. plain_key k \<and> stored v \<noteq> None"
  shows "(\<exists>qs. get_properties (update_properties d kvs) = Inr qs \<and>
           (\<forall>k. dict_get qs k = (case dict_get kvs k of Some v \<Rightarrow> stored v | None \<Rightarrow> dict_get ps k))) \<and>
         (\<forall>q. q \<notin> touched ''server.properties'' \<longrightarrow> update_properties d kvs q = d q)"
  using update_read_back [OF assms]
  by (auto simp: update_properties_set_all java_file.set_all_frame bedrock_file.set_all_frame)

section \<open>Values that survive\<close>

lemma py_lower_digits: "(\<forall>c \<in> set s. is_digit c) \<Longrightarrow> py_lower s = s"
  by (induction s) (auto simp: py_lower_def lower_char_def is_digit_def Let_def)

lemma stored_PBool [simp]: "stored (PBool b) = Some (PBool b)"
  by (cases b) (simp_all add: stored_def text_of_def coerce_def py_strip_none is_space_def
      py_lower_def lower_char_def is_line_break_def)

lemma stored_PInt:
  assumes "0 \<le> n" "length (py_str_int n) \<le> 4300"
  shows "stored (PInt n) = Some (PInt n)"
proof -
  let ?s = "nat_to_str (nat n)"
  have s: "py_str_int n = ?s" using assms(1) by (simp add: py_str_int_def)
  have d: "\<forall>c \<in> set ?s. is_digit c" by (rule nat_to_str_digits)
  have "py_lower ?s = ?s" using d by (rule py_lower_digits)
  moreover have "?s \<noteq> ''true''" "?s \<noteq> ''false''"
    using d by (auto simp: is_digit_def dest: arg_cong [of _ _ set])
  moreover have "py_isdigit ?s" using d by (simp add: py_isdigit_def)
  moreover have "py_int ?s = Some n" using assms s by (simp add: py_int_nat_to_str)
  moreover have "one_line ?s" using d by (simp add: one_line_def)
  ultimately show ?thesis
    by (simp add: stored_def text_of_def s nat_to_str_no_space coerce_def)
qed

lemma stored_PStr:
  assumes "one_line s" "py_strip s = s" "\<not> py_isdigit s" "py_lower s \<noteq> ''true''" "py_lower s \<noteq> ''false''"
  shows "stored (PStr s) = Some (PStr s)"
  using assms by (simp add: stored_def text_of_def coerce_def)

section \<open>New files read back\<close>

lemma read_put_all:
  "\<forall>(k, v) \<in> set kvs. plain_key k \<and> (v \<noteq> PNone \<longrightarrow> stored v \<noteq> None) \<Longrightarrow> distinct (map fst ps @ map fst kvs) \<Longrightarrow>
   read_loop (put_all kvs) ps =
     Inr (ps @ map (\<lambda>(k, v). (k, the (stored v))) (filter (\<lambda>(k, v). v \<noteq> PNone) kvs))"
proof (induction kvs arbitrary: ps)
  case Nil
  then show ?case by (simp add: put_all_def)
next
  case (Cons kv kvs)
  obtain k v where kv: "kv = (k, v)" by (cases kv)
  show ?case
  proof (cases "v = PNone")
    case True
    with Cons kv show ?thesis by (simp add: put_all_def put_def)
  next
    case False
    with Cons.prems kv obtain w where w: "plain_key k" "stored v = Some w" by auto
    have "k \<notin> fst ` set ps" using Cons.prems(2) kv by auto
    then have "dict_set k w ps = ps @ [(k, w)]"
      unfolding dict_set_def by (induction ps) auto
    with Cons.IH [of "ps @ [(k, w)]"] Cons.prems kv False w show ?thesis
      by (simp add: put_all_def put_def read_line_prop_line [OF w])
  qed
qed

lemma one_line_put_all:
  assumes "\<forall>(k, v) \<in> set kvs. plain_key k \<and> (v \<noteq> PNone \<longrightarrow> stored v \<noteq> None)"
  shows "\<forall>l \<in> set (put_all kvs). one_line l"
proof
  fix l assume "l \<in> set (put_all kvs)"
  then obtain k v where "(k, v) \<in> set kvs" "v \<noteq> PNone" "l = prop_line k v"
    by (auto simp: put_all_def put_def split: if_splits)
  with assms show "one_line l" by (auto intro: one_line_prop_line)
qed

lemma read_written_file:
  assumes "\<forall>(k, v) \<in> set kvs. plain_key k \<and> (v \<noteq> PNone \<longrightarrow> stored v \<noteq> None)"
    and "distinct (map fst kvs)" and "put_all kvs \<noteq> []"
  shows "read_properties (replace_file d path (unlines (put_all kvs))) path =
    Inr (map (\<lambda>(k, v). (k, the (stored v))) (filter (\<lambda>(k, v). v \<noteq> PNone) kvs))"
  using read_put_all [OF assms(1), of "[]"] assms(2)
    splitlines_unlines [OF assms(3) one_line_put_all [OF assms(1)]]
  by (simp add: read_properties_def)

lemma plain_keyI:
  assumes "\<forall>c \<in> set key. \<not> is_space c \<and> c \<noteq> CHR ''=''" "key \<noteq> [] \<Longrightarrow> hd key \<noteq> CHR ''#''"
  shows "plain_key key"
  using assms py_strip_none [of key] line_break_space
  by (cases key) (auto simp: plain_key_def one_line_def py_startswith_def)

lemma java_keys_plain: "(k, v) \<in> set (java_entries props) \<Longrightarrow> plain_key k"
  by (intro plain_keyI; auto simp: java_entries_def is_space_def Let_def)

lemma bedrock_keys_plain: "(k, v) \<in> set (bedrock_entries props) \<Longrightarrow> plain_key k"
  by (intro plain_keyI; auto simp: bedrock_entries_def is_space_def Let_def)

text \<open>
  A file written from a configuration whose texts and numbers are storable reads back as
  exactly the properties of the configuration, in the order they were written, each with its name
  and its typed value: all twenty-one of a Java server, those that are set of a Bedrock server.
\<close>

theorem new_files_read_back:
  assumes "\<forall>(k, v) \<in> set (java_entries jp). stored v \<noteq> None"
    and "\<forall>(k, v) \<in> set (bedrock_entries bp). v \<noteq> PNone \<longrightarrow> stored v \<noteq> None"
  shows "read_properties (write_java_server_properties d path jp) path =
       Inr (map (\<lambda>(k, v). (k, the (stored v))) (java_entries jp)) \<and>
     read_properties (write_server_properties d path bp) path =
       Inr (map (\<lambda>(k, v). (k, the (stored v))) (filter (\<lambda>(k, v). v \<noteq> PNone) (bedrock_entries bp)))"
proof
  have ok: "\<forall>(k, v) \<in> set (java_entries jp). plain_key k \<and> (v \<noteq> PNone \<longrightarrow> stored v \<noteq> None)"
    using assms(1) java_keys_plain by blast
  have "distinct (map fst (java_entries jp))" "put_all (java_entries jp) \<noteq> []"
    by (simp_all add: java_entries_def put_all_def put_def)
  moreover have "filter (\<lambda>(k, v). v \<noteq> PNone) (java_entries jp) = java_entries jp"
    by (simp add: java_entries_def)
  ultimately show "read_properties (write_java_server_properties d path jp) path =
      Inr (map (\<lambda>(k, v). (k, the (stored v))) (java_entries jp))"
    unfolding write_java_server_properties_def using read_written_file [OF ok] by simp
  have "\<forall>(k, v) \<in> set (bedrock_entries bp). plain_key k \<and> (v \<noteq> PNone \<longrightarrow> stored v \<noteq> None)"
    using assms(2) bedrock_keys_plain by blast
  moreover have "distinct (map fst (bedrock_entries bp))" "put_all (bedrock_entries bp) \<noteq> []"
    by (simp_all add: bedrock_entries_def put_all_def put_def Let_def)
  ultimately show "read_properties (write_server_properties d path bp) path =
      Inr (map (\<lambda>(k, v). (k, the (stored v))) (filter (\<lambda>(k, v). v \<noteq> PNone) (bedrock_entries bp)))"
    unfolding write_server_properties_def by (rule read_written_file)
qed

definition java_sample :: JavaServerProperties where
  "java_sample = \<lparr>jp_server_port = 7, jp_max_players = 5, jp_gamemode = ''survival'',
     jp_difficulty = ''normal'', jp_online_mode = False, jp_level_name = ''world'',
     jp_level_seed = [], jp_motd = ''A Server'', jp_enable_rcon = True, jp_spawn_protection = 0,
     jp_view_distance = 8, jp_simulation_distance = 8, jp_enable_command_block = False,
     jp_allow_flight = True, jp_white_list = False, jp_enforce_whitelist = False,
     jp_max_tick_time = 6, jp_network_compression_threshold = 2,
     jp_prevent_proxy_connections = False, jp_rcon_port = 9, jp_rcon_password = ''pw''\<rparr>"

definition bedrock_sample :: BedrockServerProperties where
  "bedrock_sample = \<lparr>bp_server_name = ''srv'', bp_gamemode = Some ''survival'',
     bp_difficulty = None, bp_max_players = Some 5, bp_allow_cheats = Some False,
     bp_online_mode = Some False, bp_level_name = None, bp_level_seed = None,
     bp_enable_lan_visibility = False, bp_server_port = 7\<rparr>"

lemma length_small_int: "0 \<le> n \<Longrightarrow> n < 10 \<Longrightarrow> length (py_str_int n) \<le> 4300"
  by (simp add: py_str_int_def nat_to_str.simps)

lemma stored_digit: "0 \<le> n \<Longrightarrow> n < 10 \<Longrightarrow> stored (PInt n) = Some (PInt n)"
  by (simp add: stored_PInt length_small_int)

lemma sample_texts:
  "stored (PStr []) = Some (PStr [])" "stored (PStr ''survival'') = Some (PStr ''survival'')"
  "stored (PStr ''normal'') = Some (PStr ''normal'')" "stored (PStr ''world'') = Some (PStr ''world'')"
  "stored (PStr ''A Server'') = Some (PStr ''A Server'')" "stored (PStr ''pw'') = Some (PStr ''pw'')"
  "stored (PStr ''srv'') = Some (PStr ''srv'')"
  by code_simp+

lemma samples_stored:
  "\<forall>(k, v) \<in> set (java_entries java_sample). stored v \<noteq> None"
  "\<forall>(k, v) \<in> set (bedrock_entries bedrock_sample). v \<noteq> PNone \<longrightarrow> stored v \<noteq> None"
  by (simp_all add: java_entries_def java_sample_def bedrock_entries_def bedrock_sample_def
      optional_def Let_def sample_texts stored_digit)

text \<open>Two of the entries, as the reader returns them.\<close>

lemma new_files_read_back_witness:
  "\<exists>ps. read_properties (write_java_server_properties Map.empty ''server.properties'' java_sample)
     ''server.properties'' = Inr ps \<and> ps ! 1 = (''max-players'', PInt 5) \<and>
     ps ! 10 = (''rcon.password'', PStr ''pw'')"
  using new_files_read_back [OF samples_stored, of Map.empty "''server.properties''"]
  by (simp add: java_entries_def java_sample_def sample_texts stored_digit)

section \<open>Provisioning by the agent\<close>

text \<open>
  The dictionaries of a start request: the fields of the configuration under their Python names
  (\<open>dataclasses.asdict\<close>), without those that are \<open>None\<close>.
\<close>

definition java_asdict :: "JavaServerProperties \<Rightarrow> prop_value dict" where
  "java_asdict props =
     [(''server_port'', PInt (jp_server_port props)),
      (''max_players'', PInt (jp_max_players props)),
      (''gamemode'', PStr (jp_gamemode props)),
      (''difficulty'', PStr (jp_difficulty props)),
      (''online_mode'', PBool (jp_online_mode props)),
      (''level_name'', PStr (jp_level_name props)),
      (''level_seed'', PStr (jp_level_seed props)),
      (''motd'', PStr (jp_motd props)),
      (''enable_rcon'', PBool (jp_enable_rcon props)),
      (''spawn_protection'', PInt (jp_spawn_protection props)),
      (''view_distance'', PInt (jp_view_distance props)),
      (''simulation_distance'', PInt (jp_simulation_distance props)),
      (''enable_command_block'', PBool (jp_enable_command_block props)),
      (''allow_flight'', PBool (jp_allow_flight props)),
      (''white_list'', PBool (jp_white_list props)),
      (''enforce_whitelist'', PBool (jp_enforce_whitelist props)),
      (''max_tick_time'', PInt (jp_max_tick_time props)),
      (''network_compression_threshold'', PInt (jp_network_compression_threshold props)),
      (''prevent_proxy_connections'', PBool (jp_prevent_proxy_connections props)),
      (''rcon_port'', PInt (jp_rcon_port props)),
      (''rcon_password'', PStr (jp_rcon_password props))]"

definition bedrock_fields :: "BedrockServerProperties \<Rightarrow> prop_value dict" where
  "bedrock_fields props =
     [(''server_name'', PStr (bp_server_name props)),
      (''gamemode'', optional PStr (bp_gamemode props)),
      (''difficulty'', optional PStr (bp_difficulty props)),
      (''max_players'', optional PInt (bp_max_players props)),
      (''allow_cheats'', optional PBool (bp_allow_cheats props)),
      (''online_mode'', optional PBool (bp_online_mode props)),
      (''level_name'', optional PStr (bp_level_name props)),
      (''level_seed'', optional PStr (bp_level_seed props)),
      (''enable_lan_visibility'', PBool (bp_enable_lan_visibility props)),
      (''server_port'', PInt (bp_server_port props))]"

definition bedrock_asdict :: "BedrockServerProperties \<Rightarrow> prop_value dict" where
  "bedrock_asdict props = filter (\<lambda>(k, v). v \<noteq> PNone) (bedrock_fields props)"

definition hyphenated :: "prop_value dict \<Rightarrow> prop_value dict" where
  "hyphenated kvs = map (\<lambda>(k, v). (replace_char (CHR ''_'') (CHR ''-'') k, v)) kvs"

lemma provisioned_new_file:
  assumes "d ''server.properties'' = None"
    and "\<forall>(k, v) \<in> set (hyphenated kvs). plain_key k \<and> v \<noteq> PNone \<and> stored v \<noteq> None"
    and "distinct (map fst (hyphenated kvs))" and "kvs \<noteq> []"
  shows "get_properties (provision_properties d is_java port (Some kvs)) =
    Inr (map (\<lambda>(k, v). (k, the (stored v))) (hyphenated kvs))"
proof -
  have ok: "\<forall>(k, v) \<in> set (hyphenated kvs). plain_key k \<and> (v \<noteq> PNone \<longrightarrow> stored v \<noteq> None)"
    and all: "filter (\<lambda>(k, v). v \<noteq> PNone) (hyphenated kvs) = hyphenated kvs"
    using assms(2) by (auto simp: filter_id_conv)
  have put: "put_all (hyphenated kvs) =
      map (\<lambda>(k, v). prop_line (replace_char (CHR ''_'') (CHR ''-'') k) v) kvs"
    using assms(2) by (induction kvs) (auto simp: put_all_def put_def hyphenated_def)
  have "put_all (hyphenated kvs) \<noteq> []" using assms(4) by (simp add: put)
  from read_written_file [OF ok assms(3) this, of Map.empty "''server.properties''"] show ?thesis
    using assms(1) unfolding all
    by (simp add: get_properties_def provision_properties_def put read_properties_def)
qed

lemma stored_port:
  assumes "0 \<le> n" "n \<le> 65536"
  shows "stored (PInt n) = Some (PInt n)"
proof -
  have "nat n < 10 ^ Suc 4" using assms by simp
  then have "length (nat_to_str (nat n)) \<le> Suc 4" by (rule length_nat_to_str_bound)
  with assms show ?thesis by (intro stored_PInt) (auto simp: py_str_int_def)
qed

lemma bedrock_field_keys:
  "map fst (hyphenated (bedrock_fields bp)) =
     [''server-name'', ''gamemode'', ''difficulty'', ''max-players'', ''allow-cheats'', ''online-mode'',
      ''level-name'', ''level-seed'', ''enable-lan-visibility'', ''server-port'']"
  by (simp add: bedrock_fields_def hyphenated_def replace_char_def)

lemma bedrock_asdict_filter:
  "hyphenated (bedrock_asdict bp) = filter (\<lambda>(k, v). v \<noteq> PNone) (hyphenated (bedrock_fields bp))"
  by (simp add: bedrock_asdict_def hyphenated_def filter_map comp_def case_prod_unfold)

lemma bedrock_asdict_keys:
  "set (map fst (hyphenated (bedrock_asdict bp))) \<subseteq>
     {''server-name'', ''gamemode'', ''difficulty'', ''max-players'', ''allow-cheats'', ''online-mode'',
      ''level-name'', ''level-seed'', ''enable-lan-visibility'', ''server-port''}"
proof -
  have "set (map fst (hyphenated (bedrock_asdict bp))) \<subseteq> set (map fst (hyphenated (bedrock_fields bp)))"
    by (auto simp: bedrock_asdict_filter)
  then show ?thesis by (simp only: bedrock_field_keys) simp
qed

lemma bedrock_asdict_no_v6: "''server-portv6'' \<notin> set (map fst (hyphenated (bedrock_asdict bp)))"
  by (rule notI, drule subsetD [OF bedrock_asdict_keys]) simp

lemma plain_field_keys:
  "list_all plain_key [''server-name'', ''gamemode'', ''difficulty'', ''max-players'', ''allow-cheats'',
     ''online-mode'', ''level-name'', ''level-seed'', ''enable-lan-visibility'', ''server-port'',
     ''server-portv6'']"
  by code_simp

lemma bedrock_asdict_plain:
  "k \<in> set (map fst (hyphenated (bedrock_asdict bp))) \<Longrightarrow> plain_key k"
  by (drule subsetD [OF bedrock_asdict_keys]) (use plain_field_keys in \<open>simp, elim disjE; simp\<close>)

lemma bedrock_asdict_distinct: "distinct (map fst (hyphenated (bedrock_asdict bp)))"
proof -
  have "distinct (map fst (hyphenated (bedrock_fields bp)))" by (simp only: bedrock_field_keys) simp
  then show ?thesis unfolding bedrock_asdict_filter by (rule distinct_map_filter)
qed

lemma bedrock_asdict_port:
  "(''server-port'', PInt (bp_server_port bp)) \<in> set (hyphenated (bedrock_asdict bp))"
  by (simp add: bedrock_asdict_filter) (simp add: bedrock_fields_def hyphenated_def replace_char_def)

lemma bedrock_asdict_storable:
  assumes ok: "\<forall>(k, v) \<in> set (bedrock_asdict bp). stored v \<noteq> None"
    and kv: "(k, v) \<in> set (hyphenated (bedrock_asdict bp))"
  shows "plain_key k \<and> v \<noteq> PNone \<and> stored v \<noteq> None"
proof (intro conjI)
  have "k \<in> set (map fst (hyphenated (bedrock_asdict bp)))"
    using image_eqI [OF _ kv, of k fst] by simp
  then show "plain_key k" by (rule bedrock_asdict_plain)
  show "v \<noteq> PNone" using kv by (simp add: bedrock_asdict_filter)
  show "stored v \<noteq> None" using kv ok by (auto simp: hyphenated_def)
qed

text \<open>
  The file the agent writes at the first start of a Bedrock server has the allocated port but
  no IPv6 port, which is only added by the next start, from the port of the request.
\<close>

theorem bedrock_v6_port_waits_for_second_start:
  assumes new: "d ''server.properties'' = None" and port: "0 \<le> port" "port < 65536"
    and ok: "\<forall>(k, v) \<in> set (bedrock_asdict bp). stored v \<noteq> None"
    and bp: "bp_server_port bp = port"
  shows "let d1 = provision_properties d False port (Some (bedrock_asdict bp));
             d2 = provision_properties d1 False port (Some (bedrock_asdict bp))
         in (\<exists>ps. get_properties d1 = Inr ps \<and> dict_get ps ''server-port'' = Some (PInt port) \<and>
               dict_get ps ''server-portv6'' = None) \<and>
            (\<exists>qs. get_properties d2 = Inr qs \<and> dict_get qs ''server-port'' = Some (PInt port) \<and>
               dict_get qs ''server-portv6'' = Some (PInt (port + 1)))"
proof -
  let ?kvs = "bedrock_asdict bp"
  define d1 where "d1 = provision_properties d False port (Some ?kvs)"
  define ps where "ps = map (\<lambda>(k, v). (k, the (stored v))) (hyphenated ?kvs)"
  have "\<forall>(k, v) \<in> set (hyphenated ?kvs). plain_key k \<and> v \<noteq> PNone \<and> stored v \<noteq> None"
    using bedrock_asdict_storable [OF ok] by blast
  moreover have "?kvs \<noteq> []"
    using bedrock_asdict_port [of bp] by (auto simp: hyphenated_def)
  ultimately have read1: "get_properties d1 = Inr ps"
    unfolding d1_def ps_def using new bedrock_asdict_distinct by (intro provisioned_new_file)
  have "(''server-port'', PInt port) \<in> set ps"
    using imageI [OF bedrock_asdict_port [of bp], of "\<lambda>(k, v). (k, the (stored v))"] port bp
    by (simp add: ps_def stored_port)
  moreover have "map fst ps = map fst (hyphenated ?kvs)" by (simp add: ps_def case_prod_unfold)
  ultimately have port1: "dict_get ps ''server-port'' = Some (PInt port)"
    using bedrock_asdict_distinct [of bp] by (simp add: dict_get_def map_of_eq_Some_iff)
  have "''server-portv6'' \<notin> set (map fst ps)"
    unfolding \<open>map fst ps = map fst (hyphenated ?kvs)\<close> by (rule bedrock_asdict_no_v6)
  then have v61: "dict_get ps ''server-portv6'' = None" by (simp add: dict_get_def map_of_eq_None_iff)
  have keys: "plain_key ''server-port''" "plain_key ''server-portv6''"
    using plain_field_keys by simp_all
  have old: "d1 ''server.properties'' \<noteq> None"
    using new by (simp add: d1_def provision_properties_def)
  have st: "stored (PInt port) = Some (PInt port)" "stored (PInt (port + 1)) = Some (PInt (port + 1))"
    using port by (simp_all add: stored_port)
  from bedrock_file.read_set [OF keys(1) st(1) read1 [unfolded get_properties_def]] obtain qs1 where
    q1: "read_properties (set_bedrock_server_property d1 ''server.properties'' ''server-port'' (PInt port))
           ''server.properties'' = Inr qs1" "dict_get qs1 = (dict_get ps)(''server-port'' \<mapsto> PInt port)"
    by blast
  from bedrock_file.read_set [OF keys(2) st(2) q1(1)] obtain qs where
    q: "get_properties (provision_properties d1 False port (Some ?kvs)) = Inr qs"
       "dict_get qs = (dict_get qs1)(''server-portv6'' \<mapsto> PInt (port + 1))"
    using old by (auto simp: get_properties_def provision_properties_def)
  show ?thesis using read1 port1 v61 q q1(2) by (auto simp: Let_def d1_def)
qed

text \<open>
  The Java file of the agent has the port of the remote console under a name that the game does not
  know, where the back end's own writer has the right one.
\<close>

lemma java_rcon_port_misnamed:
  "dict_get (hyphenated (java_asdict jp)) ''rcon.port'' = None"
  "dict_get (hyphenated (java_asdict jp)) ''rcon-port'' = Some (PInt (jp_rcon_port jp))"
  "dict_get (java_entries jp) ''rcon.port'' = Some (PInt (jp_rcon_port jp))"
  by (simp_all add: dict_get_def hyphenated_def java_asdict_def replace_char_def java_entries_def)

lemma bedrock_v6_port_witness:
  "\<exists>ps. get_properties (provision_properties Map.empty False 7 (Some (bedrock_asdict bedrock_sample))) =
     Inr ps \<and> dict_get ps ''server-portv6'' = None"
  using bedrock_v6_port_waits_for_second_start [of Map.empty 7 bedrock_sample]
  by (auto simp: Let_def bedrock_asdict_def bedrock_fields_def bedrock_sample_def optional_def sample_texts stored_digit)

text \<open>A property is added to a file that has one, a comment and a line without an equals sign.\<close>

definition dir_sample :: dir where
  "dir_sample = Map.empty(''server.properties'' \<mapsto> ''#x'' @ CHR 0x0A # ''motd=hi'' @ CHR 0x0A # ''pvp'')"

lemma dir_sample_read: "get_properties dir_sample = Inr [(''motd'', PStr ''hi'')]"
  by code_simp

lemma updated_properties_read_back_witness:
  "\<exists>qs. get_properties (update_properties dir_sample [(''pvp'', PBool True)]) = Inr qs \<and>
     dict_get qs ''pvp'' = Some (PBool True) \<and> dict_get qs ''motd'' = Some (PStr ''hi'')"
proof -
  have "plain_key ''pvp''" by (rule plain_keyI) (auto simp: is_space_def)
  then show ?thesis
    using updated_properties_read_back [OF dir_sample_read, of "[(''pvp'', PBool True)]"]
    by (auto simp: dict_get_def)
qed

end
