(* ===== verification/Access.thy ===== *)
theory Access
  imports Auth Properties_Files Resources
begin

text \<open>
  Who may use a server (\<open>_get_server_for_user\<close> of \<open>api/servers.py\<close>), the collaborators its owner
  invites (\<open>api/servers_collaborators.py\<close>), and the route that changes the properties file of a
  server (\<open>update_server_properties\<close> of \<open>api/servers.py\<close>).
\<close>

section \<open>Servers of a user\<close>

definition query_collaborators :: "uuid \<Rightarrow> uuid \<Rightarrow> session \<Rightarrow> collaborator list" where
  "query_collaborators sid uid s =
     map (\<lambda>r. case get_row (\<lambda>c. (col_server_id c, col_user_id c)) (sid, uid) (db_collaborators (ses_objects s)) of
                None \<Rightarrow> r | Some r' \<Rightarrow> r')
       (filter (\<lambda>c. col_server_id c = sid \<and> col_user_id c = uid) (db_collaborators (ses_flushed s)))"

definition get_server_for_user :: "string \<Rightarrow> user \<Rightarrow> string option \<Rightarrow> server op" where
  "get_server_for_user server_id user required_permission =
     (case parse_uuid server_id of
        None \<Rightarrow> raise_op (HTTPException 404)
      | Some server_uuid \<Rightarrow> bind_op (get_op (\<lambda>s. get_server (ses_objects s) server_uuid)) (\<lambda>found.
          case found of
            None \<Rightarrow> raise_op (HTTPException 404)
          | Some server \<Rightarrow>
              if srv_owner_id server = usr_id user then return_op server
              else bind_op (get_op (\<lambda>s. first_row (query_collaborators (srv_id server) (usr_id user) s))) (\<lambda>collab.
                case collab of
                  None \<Rightarrow> raise_op (HTTPException 404)
                | Some c \<Rightarrow>
                    (case required_permission of
                       None \<Rightarrow> return_op server
                     | Some p \<Rightarrow> if p \<noteq> [] \<and> p \<notin> set (col_permissions c) then raise_op (HTTPException 403)
                                else return_op server))))"

section \<open>Collaborators\<close>

text \<open>The check all three routes begin with.\<close>

definition owned_server :: "string \<Rightarrow> user \<Rightarrow> server op" where
  "owned_server server_id user =
     (case parse_uuid server_id of
        None \<Rightarrow> raise_op (HTTPException 404)
      | Some server_uuid \<Rightarrow> bind_op (get_op (\<lambda>s. get_server (ses_objects s) server_uuid)) (\<lambda>found.
          case found of
            None \<Rightarrow> raise_op (HTTPException 403)
          | Some server \<Rightarrow> if srv_owner_id server \<noteq> usr_id user then raise_op (HTTPException 403)
                            else return_op server))"

definition upd_collaborator :: "uuid \<Rightarrow> uuid \<Rightarrow> (collaborator \<Rightarrow> collaborator) \<Rightarrow> database \<Rightarrow> database" where
  "upd_collaborator sid uid f db = db\<lparr>db_collaborators :=
     modify_row (\<lambda>c. (col_server_id c, col_user_id c)) (sid, uid) f (db_collaborators db)\<rparr>"

definition invite_collaborator :: "string \<Rightarrow> user \<Rightarrow> string \<Rightarrow> string list \<Rightarrow> unit op" where
  "invite_collaborator server_id user email permissions =
     bind_op (owned_server server_id user) (\<lambda>server.
     bind_op (get_op (\<lambda>s. first_row (query_users (\<lambda>u. usr_email u = email) s))) (\<lambda>target_user.
     case target_user of
       None \<Rightarrow> raise_op (HTTPException 404)
     | Some target \<Rightarrow>
         if usr_id target = usr_id user then raise_op (HTTPException 400)
         else bind_op (get_op (\<lambda>s. first_row (query_collaborators (srv_id server) (usr_id target) s))) (\<lambda>collab.
           bind_op (case collab of
               Some c \<Rightarrow> modify_op (set_objects (upd_collaborator (srv_id server) (usr_id target)
                 (\<lambda>c. c\<lparr>col_permissions := permissions\<rparr>)))
             | None \<Rightarrow> modify_op (set_objects (\<lambda>db. db\<lparr>db_collaborators := db_collaborators db @
                 [\<lparr>col_server_id = srv_id server, col_user_id = usr_id target, col_permissions = permissions\<rparr>]\<rparr>))) (\<lambda>_.
           commit_op))))"

definition list_collaborators :: "string \<Rightarrow> user \<Rightarrow> collaborator list op" where
  "list_collaborators server_id user =
     bind_op (owned_server server_id user) (\<lambda>server.
     get_op (\<lambda>s. filter (\<lambda>c. col_server_id c = srv_id server) (db_collaborators (ses_flushed s))))"

definition remove_collaborator :: "string \<Rightarrow> string \<Rightarrow> user \<Rightarrow> unit op" where
  "remove_collaborator server_id user_id user =
     (case parse_uuid user_id of
        None \<Rightarrow> raise_op (HTTPException 404)
      | Some target_uuid \<Rightarrow>
          bind_op (owned_server server_id user) (\<lambda>server.
          bind_op (get_op (\<lambda>s. first_row (query_collaborators (srv_id server) target_uuid s))) (\<lambda>collab.
          case collab of
            None \<Rightarrow> return_op ()
          | Some c \<Rightarrow>
              bind_op (modify_op (set_objects (\<lambda>db. db\<lparr>db_collaborators :=
                delete_row (\<lambda>c. (col_server_id c, col_user_id c)) (srv_id server, target_uuid)
                  (db_collaborators db)\<rparr>))) (\<lambda>_. commit_op))))"

section \<open>The properties route\<close>

definition BLOCKED_KEYS :: "string set" where
  "BLOCKED_KEYS = {''server-port'', ''server-portv6''}"

text \<open>\<open>int(value)\<close> of a property.\<close>

definition int_of_value :: "prop_value \<Rightarrow> int option" where
  "int_of_value v = (case v of
     PNone \<Rightarrow> None | PBool b \<Rightarrow> Some (if b then 1 else 0) | PInt n \<Rightarrow> Some n | PStr s \<Rightarrow> py_int s)"

definition cap_players ::
  "settings \<Rightarrow> instant \<Rightarrow> database \<Rightarrow> server \<Rightarrow> string \<Rightarrow> prop_value dict \<Rightarrow> exn + prop_value dict" where
  "cap_players cfg now db server key sanitized =
     (case dict_get sanitized key of
        None \<Rightarrow> Inr sanitized
      | Some v \<Rightarrow>
          (case int_of_value v of
             None \<Rightarrow> Inl (HTTPException 422)
           | Some requested \<Rightarrow>
               (case clamp_max_players cfg now (Some requested) (Some db) server None of
                  None \<Rightarrow> Inl (HTTPException 402)
                | Some capped \<Rightarrow> Inr (dict_set key (PInt capped) sanitized))))"

text \<open>
  \<open>reach\<close> is whether the node answers; the file is changed by \<open>update_properties\<close> there.
\<close>

definition update_server_properties ::
  "settings \<Rightarrow> instant \<Rightarrow> bool \<Rightarrow> string \<Rightarrow> user \<Rightarrow> prop_value dict \<Rightarrow> dir \<Rightarrow> dir op" where
  "update_server_properties cfg now reach server_id user props server_dir =
     (if BLOCKED_KEYS \<inter> fst ` set props \<noteq> {} then raise_op (HTTPException 400)
      else
        bind_op (get_server_for_user server_id user (Some ''config'')) (\<lambda>server.
        bind_op (get_op (\<lambda>s. cap_players cfg now (ses_flushed s) server ''max-players'' props)) (\<lambda>r.
        bind_op (lift_op r) (\<lambda>sanitized.
        bind_op (get_op (\<lambda>s. cap_players cfg now (ses_flushed s) server ''max_players'' sanitized)) (\<lambda>r.
        bind_op (lift_op r) (\<lambda>sanitized.
        if reach then return_op (update_properties server_dir sanitized)
        else raise_op (HTTPException 503)))))))"

section \<open>Access\<close>

text \<open>What the table of collaborators grants a user on a server.\<close>

definition granted :: "database \<Rightarrow> uuid \<Rightarrow> uuid \<Rightarrow> string list option" where
  "granted db sid uid = map_option col_permissions
     (get_row (\<lambda>c. (col_server_id c, col_user_id c)) (sid, uid) (db_collaborators db))"

lemma first_collaborator:
  "map_option col_permissions (first_row (query_collaborators sid uid (open_session db))) = granted db sid uid"
proof -
  let ?key = "\<lambda>c. (col_server_id c, col_user_id c)"
  have "get_row ?key (sid, uid) cs = first_row (filter (\<lambda>c. col_server_id c = sid \<and> col_user_id c = uid) cs)" for cs
    by (induction cs) (auto simp: first_row_def)
  from this [of "db_collaborators db"] show ?thesis
    by (cases "filter (\<lambda>c. col_server_id c = sid \<and> col_user_id c = uid) (db_collaborators db)")
      (auto simp: granted_def query_collaborators_def first_row_def split: option.splits)
qed

lemma access_eq:
  "fst (run_request (get_server_for_user server_id user perm) db) =
    (case Option.bind (parse_uuid server_id) (get_server db) of
       None \<Rightarrow> Inl (HTTPException 404)
     | Some server \<Rightarrow>
         if srv_owner_id server = usr_id user then Inr server
         else (case granted db (srv_id server) (usr_id user) of
             None \<Rightarrow> Inl (HTTPException 404)
           | Some ps \<Rightarrow> (case perm of
               None \<Rightarrow> Inr server
             | Some p \<Rightarrow> if p \<noteq> [] \<and> p \<notin> set ps then Inl (HTTPException 403) else Inr server)))"
proof -
  have g: "granted db i j = map_option col_permissions (first_row (query_collaborators i j (open_session db)))" for i j
    by (rule first_collaborator [symmetric])
  show ?thesis
    unfolding g run_request_def get_server_for_user_def
    by (auto simp: op_defs split: option.split)
qed

definition collab_key :: "collaborator \<Rightarrow> uuid \<times> uuid" where
  "collab_key c = (col_server_id c, col_user_id c)"

lemma granted_upd:
  "granted (upd_collaborator sid uid (\<lambda>c. c\<lparr>col_permissions := ps\<rparr>) db) sid uid =
     (if granted db sid uid = None then None else Some ps)"
  unfolding granted_def upd_collaborator_def by (auto simp: get_row_modify_row)

lemma granted_new:
  "granted db sid uid = None \<Longrightarrow>
   granted (db\<lparr>db_collaborators := db_collaborators db @
     [\<lparr>col_server_id = sid, col_user_id = uid, col_permissions = ps\<rparr>]\<rparr>) sid uid = Some ps"
proof -
  have "get_row (\<lambda>c. (col_server_id c, col_user_id c)) (sid, uid) cs = None \<Longrightarrow>
    get_row (\<lambda>c. (col_server_id c, col_user_id c)) (sid, uid) (cs @
     [\<lparr>col_server_id = sid, col_user_id = uid, col_permissions = ps\<rparr>]) =
      Some \<lparr>col_server_id = sid, col_user_id = uid, col_permissions = ps\<rparr>" for cs
    by (induction cs) auto
  then show "granted db sid uid = None \<Longrightarrow> ?thesis" by (simp add: granted_def)
qed

lemma granted_removed:
  "granted (db\<lparr>db_collaborators :=
     delete_row (\<lambda>c. (col_server_id c, col_user_id c)) (sid, uid) (db_collaborators db)\<rparr>) sid uid = None"
proof -
  have "get_row (\<lambda>c. (col_server_id c, col_user_id c)) (sid, uid)
      (delete_row (\<lambda>c. (col_server_id c, col_user_id c)) (sid, uid) cs) = None" for cs
    by (induction cs) (auto simp: delete_row_def)
  then show ?thesis by (simp add: granted_def)
qed

lemma owned_server_eq:
  "owned_server server_id user (open_session db) =
    ((case Option.bind (parse_uuid server_id) (get_server db) of
        None \<Rightarrow> Inl (HTTPException (if parse_uuid server_id = None then 404 else 403))
      | Some server \<Rightarrow> if srv_owner_id server \<noteq> usr_id user then Inl (HTTPException 403) else Inr server),
     open_session db)"
  by (auto simp: owned_server_def op_defs split: option.split)

lemma invite_InrD:
  assumes "run_request (invite_collaborator server_id user email permissions) db = (Inr (), db')"
    and "users_ok db"
  obtains server target where "parse_uuid server_id = Some (srv_id server)"
    "get_server db (srv_id server) = Some server" "srv_owner_id server = usr_id user"
    "target \<in> set (db_users db)" "usr_email target = email" "usr_id target \<noteq> usr_id user"
    "granted db' (srv_id server) (usr_id target) = Some permissions"
    "db_servers db' = db_servers db"
proof -
  obtain s where s: "invite_collaborator server_id user email permissions (open_session db) = (Inr (), s)"
    "db' = ses_committed s"
    using assms(1) by (cases "invite_collaborator server_id user email permissions (open_session db)")
      (auto simp: run_request_def)
  from s(1) obtain server where sv: "Option.bind (parse_uuid server_id) (get_server db) = Some server"
    "srv_owner_id server = usr_id user"
    by (auto simp: invite_collaborator_def bind_op_def owned_server_eq split: option.splits if_splits)
  let ?target = "first_row (filter (\<lambda>u. usr_email u = email) (db_users db))"
  have q: "query_users p (open_session db) = filter p (db_users db)" for p
    using assms(2) by (simp add: users_ok_def query_users_flushed)
  from s(1) sv obtain target where t: "?target = Some target" "usr_id target \<noteq> usr_id user"
    by (auto simp: invite_collaborator_def bind_op_def owned_server_eq get_op_def q raise_op_def
        split: option.splits if_splits)
  have id: "parse_uuid server_id = Some (srv_id server)" "get_server db (srv_id server) = Some server"
    using sv(1) by (auto simp: bind_eq_Some_conv dest: get_server_SomeD)
  let ?c = "first_row (query_collaborators (srv_id server) (usr_id target) (open_session db))"
  have fc: "map_option col_permissions ?c = granted db (srv_id server) (usr_id target)"
    by (rule first_collaborator)
  have "granted db' (srv_id server) (usr_id target) = Some permissions \<and> db_servers db' = db_servers db"
  proof (cases ?c)
    case None
    then have none: "granted db (srv_id server) (usr_id target) = None" using fc by simp
    have "db' = db\<lparr>db_collaborators := db_collaborators db @
        [\<lparr>col_server_id = srv_id server, col_user_id = usr_id target, col_permissions = permissions\<rparr>]\<rparr>"
      using s sv t None
      by (auto simp: invite_collaborator_def bind_op_def owned_server_eq get_op_def q modify_op_def
          commit_op_def commit_def split: if_splits)
    then show ?thesis using granted_new [OF none] by simp
  next
    case (Some c)
    then have "granted db (srv_id server) (usr_id target) \<noteq> None" using fc by (metis option.simps(3,9))
    moreover have "db' = upd_collaborator (srv_id server) (usr_id target) (\<lambda>c. c\<lparr>col_permissions := permissions\<rparr>) db"
      using s sv t Some
      by (auto simp: invite_collaborator_def bind_op_def owned_server_eq get_op_def q modify_op_def
          commit_op_def commit_def split: if_splits)
    ultimately show ?thesis by (simp add: granted_upd) (simp add: upd_collaborator_def)
  qed
  moreover have "target \<in> set (db_users db)" "usr_email target = email"
    using t(1) by (auto simp: first_row_def filter_eq_Cons_iff split: list.splits)
  ultimately show ?thesis using that id sv(2) t(2) by blast
qed

text \<open>
  C20: An invited collaborator may use the server for exactly the permissions of the invitation
  (an earlier invitation is replaced), the owner for everything, and after the removal the server
  does not exist for the collaborator any more.
\<close>

theorem invitation_grants_exactly:
  assumes ok: "users_ok db"
    and invited: "run_request (invite_collaborator server_id user email permissions) db = (Inr (), db')"
  shows "\<exists>target \<in> set (db_users db). usr_email target = email \<and> usr_id target \<noteq> usr_id user \<and>
    (\<forall>p. p \<noteq> [] \<longrightarrow>
       (case fst (run_request (get_server_for_user server_id target (Some p)) db') of
          Inr server \<Rightarrow> p \<in> set permissions \<and> parse_uuid server_id = Some (srv_id server)
        | Inl e \<Rightarrow> p \<notin> set permissions \<and> e = HTTPException 403) \<and>
       (\<exists>server. fst (run_request (get_server_for_user server_id user (Some p)) db') = Inr server)) \<and>
    (\<forall>user_id db''. parse_uuid user_id = Some (usr_id target) \<longrightarrow>
       run_request (remove_collaborator server_id user_id user) db' = (Inr (), db'') \<longrightarrow>
       (\<forall>perm. fst (run_request (get_server_for_user server_id target perm) db'') = Inl (HTTPException 404)))"
proof -
  obtain server target where sv: "parse_uuid server_id = Some (srv_id server)"
    "get_server db (srv_id server) = Some server" "srv_owner_id server = usr_id user"
    and t: "target \<in> set (db_users db)" "usr_email target = email" "usr_id target \<noteq> usr_id user"
    and g: "granted db' (srv_id server) (usr_id target) = Some permissions" "db_servers db' = db_servers db"
    using invite_InrD [OF invited ok] by metis
  have get': "get_server db' (srv_id server) = Some server" using sv(2) g(2) by (simp add: get_server_def)
  have "fst (run_request (get_server_for_user server_id target perm) db'') = Inl (HTTPException 404)"
    if id: "parse_uuid user_id = Some (usr_id target)"
      and removed: "run_request (remove_collaborator server_id user_id user) db' = (Inr (), db'')"
    for user_id db'' perm
  proof -
    let ?gone = "db'\<lparr>db_collaborators := delete_row (\<lambda>c. (col_server_id c, col_user_id c))
        (srv_id server, usr_id target) (db_collaborators db')\<rparr>"
    obtain c where "first_row (query_collaborators (srv_id server) (usr_id target) (open_session db')) = Some c"
      using first_collaborator [of "srv_id server" "usr_id target" db'] g(1) by auto
    with id removed sv get' have "db'' = ?gone"
      by (auto simp: run_request_def remove_collaborator_def bind_op_def owned_server_eq get_op_def
          modify_op_def commit_op_def commit_def split: if_splits)
    then show ?thesis
      using sv t(3) get' granted_removed [of "srv_id server" "usr_id target" db']
      by (auto simp: access_eq get_server_def split: option.split)
  qed
  then show ?thesis
    using sv t g get' by (intro bexI [of _ target]) (auto simp: access_eq)
qed

text \<open>
  Invitations are looked up with the address as typed, accounts are stored with theirs in lower
  case: an address with a capital letter is never found.
\<close>

definition lower_emails :: "database \<Rightarrow> bool" where
  "lower_emails db \<longleftrightarrow> (\<forall>u \<in> set (db_users db). usr_email u = py_lower (usr_email u))"

lemma capital_invitation_not_found:
  assumes "users_ok db" "lower_emails db" "email \<noteq> py_lower email"
    and "run_request (invite_collaborator server_id user email permissions) db = (r, db')"
  shows "\<exists>e. r = Inl e"
proof (cases r)
  case (Inr x)
  with assms(4) have "run_request (invite_collaborator server_id user email permissions) db = (Inr (), db')"
    by (cases x) simp
  then obtain target where "target \<in> set (db_users db)" "usr_email target = email"
    by (rule invite_InrD [OF _ assms(1)])
  with assms(2,3) show ?thesis by (auto simp: lower_emails_def)
qed simp

section \<open>The guard of the properties route\<close>

lemma line_key_ends: "line_key l \<noteq> base @ '' ''"
proof
  assume eq: "line_key l = base @ '' ''"
  then have "last (line_key l) = CHR '' ''" "line_key l \<noteq> []" by simp_all
  moreover have "\<not> is_space (last (line_key l))"
    using py_strip_ends [of "hd (py_split_once (CHR ''='') l)"] eq by (auto simp: line_key_def)
  ultimately show False by (simp add: is_space_def)
qed

lemma py_strip_snoc_space: "py_strip base = base \<Longrightarrow> base \<noteq> [] \<Longrightarrow> py_strip (base @ '' '') = base"
proof -
  assume b: "py_strip base = base" "base \<noteq> []"
  then have ends: "\<not> is_space (hd base)" "\<not> is_space (last base)" using py_strip_ends [of base] by auto
  with b(2) have "lstrip_where is_space (base @ '' '') = base @ '' ''"
    by (cases base) (auto simp: lstrip_where_def)
  moreover have "rstrip_where is_space (base @ '' '') = base"
    using ends b(2) by (cases base rule: rev_cases) (simp_all add: rstrip_where_def is_space_def)
  ultimately show ?thesis by (simp add: py_strip_def)
qed

lemma read_line_spaced:
  assumes "plain_key base" "base \<noteq> []" "stored v = Some w"
  shows "read_line (prop_line (base @ '' '') v) ps = Inr (dict_set base w ps)"
    "one_line (prop_line (base @ '' '') v)"
proof -
  have b: "py_strip base = base" "CHR ''='' \<notin> set base" "one_line base" "\<not> py_startswith base ''#''"
    using assms(1) by (simp_all add: plain_key_def)
  have "\<not> is_space (hd base)" using py_strip_ends [of base] b(1) assms(2) by auto
  then have "lstrip_where is_space (prop_line (base @ '' '') v) = prop_line (base @ '' '') v"
    using assms(2) by (cases base) (auto simp: lstrip_where_def prop_line_def)
  moreover have "\<not> py_startswith (prop_line (base @ '' '') v) ''#''"
    using b(4) assms(2) by (cases base) (auto simp: py_startswith_def prop_line_def)
  ultimately have "\<not> is_ignored (prop_line (base @ '' '') v)"
    by (simp add: is_ignored_def prop_line_not_blank)
  moreover have "py_split_once (CHR ''='') (prop_line (base @ '' '') v) = [base @ '' '', text_of v]"
    using b(2) by (intro split_once_prop_line) simp
  ultimately show "read_line (prop_line (base @ '' '') v) ps = Inr (dict_set base w ps)"
    using assms(3) by (auto simp: read_line_def line_key_def py_strip_snoc_space [OF b(1) assms(2)]
        stored_def prop_line_def split: if_splits sum.splits)
  show "one_line (prop_line (base @ '' '') v)"
    using b(3) assms(3) by (auto simp: prop_line_def stored_def is_line_break_def split: if_splits)
qed

lemma set_spaced_key:
  assumes base: "plain_key base" "base \<noteq> []" "stored v = Some w"
    and old: "read_properties d path = Inr ps"
    and set: "\<And>d path key v. set_property d path key v path =
        Some (unlines (with_line key v (case d path of None \<Rightarrow> [] | Some t \<Rightarrow> py_splitlines t)))"
  shows "\<exists>qs. read_properties (set_property d path (base @ '' '') v) path = Inr qs \<and>
    dict_get qs = (dict_get ps)(base \<mapsto> w)"
proof -
  let ?lines = "case d path of None \<Rightarrow> [] | Some t \<Rightarrow> py_splitlines t"
  have "read_loop ?lines [] = Inr ps" using old by (auto simp: read_properties_def split: option.splits)
  moreover have wl: "with_line (base @ '' '') v ?lines = ?lines @ [prop_line (base @ '' '') v]"
    using line_key_ends by (auto simp: with_line_def hit_def intro!: map_idI)
  moreover have "py_splitlines (unlines (with_line (base @ '' '') v ?lines)) = with_line (base @ '' '') v ?lines"
    using read_line_spaced(2) [OF base] unfolding wl
    by (intro splitlines_unlines) (auto split: option.splits dest: splitlines_one_line)
  ultimately show ?thesis
    using read_line_spaced(1) [OF base]
    by (simp add: read_properties_def set read_loop_append fun_upd_def fun_eq_iff)
qed

lemma update_spaced_key:
  assumes "plain_key base" "base \<noteq> []" "stored v = Some w" "get_properties d = Inr ps"
  shows "\<exists>qs. get_properties (update_properties d [(base @ '' '', v)]) = Inr qs \<and>
    dict_get qs = (dict_get ps)(base \<mapsto> w)"
  using set_spaced_key [OF assms(1-3), of d "''server.properties''" ps set_java_server_property]
    set_spaced_key [OF assms(1-3), of d "''server.properties''" ps set_bedrock_server_property] assms(4)
  by (simp add: update_properties_def get_properties_def set_property_text)

text \<open>
  The guard of the route compares the keys as they are given, the file is read with its keys
  stripped: with a blank behind the key, anyone who may edit the configuration sets the port that
  "must never be changed", and a number of players above the limit of the plan.
\<close>

theorem protected_properties_are_not_protected:
  assumes access: "fst (run_request (get_server_for_user server_id user (Some ''config'')) db) = Inr server"
    and old: "get_properties d = Inr ps" and n: "0 \<le> n" "n \<le> 65536"
    and key: "key \<in> {''server-port'', ''server-portv6'', ''max-players''}"
  shows "\<exists>d' qs. fst (run_request (update_server_properties cfg now True server_id user
      [(key @ '' '', PInt n)] d) db) = Inr d' \<and>
    get_properties d' = Inr qs \<and> dict_get qs = (dict_get ps)(key \<mapsto> PInt n)"
proof -
  have "list_all plain_key [''server-port'', ''server-portv6'', ''max-players'']" by code_simp
  with key have k: "plain_key key" "key \<noteq> []" by auto
  obtain qs where qs: "get_properties (update_properties d [(key @ '' '', PInt n)]) = Inr qs"
    "dict_get qs = (dict_get ps)(key \<mapsto> PInt n)"
    using update_spaced_key [OF k stored_port [OF n] old] by blast
  have free: "BLOCKED_KEYS \<inter> fst ` set [(key @ '' '', PInt n)] = {}"
    "dict_get [(key @ '' '', PInt n)] ''max-players'' = None"
    "dict_get [(key @ '' '', PInt n)] ''max_players'' = None"
    using key by (auto simp: BLOCKED_KEYS_def dict_get_def)
  have "\<exists>s. get_server_for_user server_id user (Some ''config'') (open_session db) = (Inr server, s)"
    using access by (cases "get_server_for_user server_id user (Some ''config'') (open_session db)")
      (auto simp: run_request_def)
  then have "fst (run_request (update_server_properties cfg now True server_id user
      [(key @ '' '', PInt n)] d) db) = Inr (update_properties d [(key @ '' '', PInt n)])"
    using free by (auto simp: run_request_def update_server_properties_def op_defs cap_players_def)
  with qs show ?thesis by blast
qed

lemma cap_players_InrD:
  assumes "cap_players cfg now db server key props = Inr sanitized"
  shows "map fst sanitized = map fst props"
    and "\<And>k. k \<noteq> key \<Longrightarrow> dict_get sanitized k = dict_get props k"
    and "case dict_get props key of
        None \<Rightarrow> sanitized = props
      | Some v \<Rightarrow> \<exists>n. dict_get sanitized key = Some (PInt n) \<and> 1 \<le> n \<and> n \<le> plan_player_limit cfg now (Some db) server"
proof -
  have keys: "map fst (dict_set k v ps) = map fst ps" if "dict_get ps k \<noteq> None" for k ps and v :: prop_value
    using that by (induction ps) (auto simp: dict_set_def dict_get_def)
  show "map fst sanitized = map fst props" "\<And>k. k \<noteq> key \<Longrightarrow> dict_get sanitized k = dict_get props k"
    using assms keys by (auto simp: cap_players_def split: option.splits)
  show "case dict_get props key of
        None \<Rightarrow> sanitized = props
      | Some v \<Rightarrow> \<exists>n. dict_get sanitized key = Some (PInt n) \<and> 1 \<le> n \<and> n \<le> plan_player_limit cfg now (Some db) server"
    using assms
    by (auto simp: cap_players_def clamp_max_players_def Let_def split: option.splits if_splits)
qed

lemma keeps_get_server_for_user [op_rules]: "keeps P (get_server_for_user server_id user perm)"
  unfolding get_server_for_user_def by (intro op_rules)

lemma access_run:
  assumes "fst (run_request (get_server_for_user server_id user perm) db) = Inr server"
  shows "get_server_for_user server_id user perm (open_session db) = (Inr server, open_session db)"
  using assms keepsD [OF keeps_get_server_for_user, of "\<lambda>s. s = open_session db" "open_session db" server_id user perm]
  by (cases "get_server_for_user server_id user perm (open_session db)") (auto simp: run_request_def)

lemma update_route_InrD:
  assumes "fst (run_request (update_server_properties cfg now True server_id user props d) db) = Inr d'"
    and "fst (run_request (get_server_for_user server_id user (Some ''config'')) db) = Inr server"
  obtains mid sanitized where "BLOCKED_KEYS \<inter> fst ` set props = {}"
    "cap_players cfg now db server ''max-players'' props = Inr mid"
    "cap_players cfg now db server ''max_players'' mid = Inr sanitized"
    "d' = update_properties d sanitized"
proof -
  have free: "BLOCKED_KEYS \<inter> fst ` set props = {}"
    using assms(1) by (auto simp: run_request_def update_server_properties_def raise_op_def split: if_splits)
  with assms(1) access_run [OF assms(2)] that show ?thesis
    by (cases "cap_players cfg now db server ''max-players'' props";
        cases "cap_players cfg now db server ''max_players'' (projr (cap_players cfg now db server ''max-players'' props))")
      (simp_all add: run_request_def update_server_properties_def bind_op_def get_op_def lift_op_def return_op_def)
qed

text \<open>What the two caps leave: the keys, and under each key the given value or a capped number.\<close>

lemma sanitized_values:
  assumes "cap_players cfg now db server ''max-players'' props = Inr mid"
    and "cap_players cfg now db server ''max_players'' mid = Inr sanitized"
  shows "map fst sanitized = map fst props"
    and "dict_get sanitized k = Some v \<Longrightarrow> dict_get props k = Some v \<or>
      (\<exists>n. v = PInt n \<and> 1 \<le> n \<and> n \<le> plan_player_limit cfg now (Some db) server)"
    and "dict_get props ''max-players'' \<noteq> None \<Longrightarrow> \<exists>n. dict_get sanitized ''max-players'' = Some (PInt n) \<and> 1 \<le> n \<and>
      n \<le> plan_player_limit cfg now (Some db) server"
proof -
  note c1 = cap_players_InrD [OF assms(1)] and c2 = cap_players_InrD [OF assms(2)]
  show "map fst sanitized = map fst props" using c1(1) c2(1) by simp
  have step: "dict_get a' k = Some v \<Longrightarrow> dict_get a k = Some v \<or>
      (\<exists>n. v = PInt n \<and> 1 \<le> n \<and> n \<le> plan_player_limit cfg now (Some db) server)"
    if "cap_players cfg now db server key a = Inr a'" for key a a'
    using cap_players_InrD(2,3) [OF that] by (cases "k = key") (auto split: option.splits)
  show "dict_get sanitized k = Some v \<Longrightarrow> dict_get props k = Some v \<or>
      (\<exists>n. v = PInt n \<and> 1 \<le> n \<and> n \<le> plan_player_limit cfg now (Some db) server)"
    using step [OF assms(1)] step [OF assms(2)] by blast
  show "dict_get props ''max-players'' \<noteq> None \<Longrightarrow> \<exists>n. dict_get sanitized ''max-players'' = Some (PInt n) \<and> 1 \<le> n \<and>
      n \<le> plan_player_limit cfg now (Some db) server"
    using c1(3) c2(2) [of "''max-players''"] by (auto split: option.splits)
qed

text \<open>
  For keys without blanks the guard works: whatever properties an accepted request sets, the
  ports in the file are as before, and a number of players it sets is at least one and within the
  limit of the plan in force.
\<close>

theorem guard_keeps_ports_and_caps_players:
  assumes accepted: "fst (run_request (update_server_properties cfg now True server_id user props d) db) = Inr d'"
    and old: "get_properties d = Inr ps"
    and keys: "distinct (map fst props)" "\<forall>(k, v) \<in> set props. plain_key k \<and> stored v \<noteq> None"
    and numbers: "\<forall>n. n \<le> plan_player_limit cfg now (Some db) server \<and> 1 \<le> n \<longrightarrow> stored (PInt n) = Some (PInt n)"
    and server: "fst (run_request (get_server_for_user server_id user (Some ''config'')) db) = Inr server"
  shows "\<exists>qs. get_properties d' = Inr qs \<and>
    (\<forall>k \<in> BLOCKED_KEYS. dict_get qs k = dict_get ps k) \<and>
    (dict_get props ''max-players'' \<noteq> None \<longrightarrow>
      (\<exists>n. dict_get qs ''max-players'' = Some (PInt n) \<and> 1 \<le> n \<and> n \<le> plan_player_limit cfg now (Some db) server))"
proof -
  obtain mid sanitized where
    c: "BLOCKED_KEYS \<inter> fst ` set props = {}" "cap_players cfg now db server ''max-players'' props = Inr mid"
       "cap_players cfg now db server ''max_players'' mid = Inr sanitized" "d' = update_properties d sanitized"
    using accepted server by (rule update_route_InrD)
  note sane = sanitized_values [OF c(2,3)]
  have distinct: "distinct (map fst sanitized)" using keys(1) sane(1) by simp
  have ok: "plain_key k \<and> stored v \<noteq> None" if kv: "(k, v) \<in> set sanitized" for k v
  proof
    have "k \<in> set (map fst props)" using imageI [OF kv, of fst] sane(1) [symmetric] by simp
    then show "plain_key k" using keys(2) by auto
    have "dict_get sanitized k = Some v" using kv distinct by (simp add: dict_get_def map_of_eq_Some_iff)
    from sane(2) [OF this] show "stored v \<noteq> None"
      using keys(2) numbers by (auto simp: dict_get_def dest!: map_of_SomeD)
  qed
  obtain qs where qs: "get_properties d' = Inr qs"
    "\<forall>k. dict_get qs k = (case dict_get sanitized k of Some v \<Rightarrow> stored v | None \<Rightarrow> dict_get ps k)"
    using update_read_back [OF old distinct] ok unfolding c(4) by blast
  have "dict_get sanitized k = None" if "k \<in> BLOCKED_KEYS" for k
  proof -
    have "k \<notin> set (map fst sanitized)" using c(1) that by (simp only: sane(1)) auto
    then show ?thesis by (simp add: dict_get_def map_of_eq_None_iff)
  qed
  then have "\<forall>k \<in> BLOCKED_KEYS. dict_get qs k = dict_get ps k" using qs(2) by simp
  moreover have "\<exists>n. dict_get qs ''max-players'' = Some (PInt n) \<and> 1 \<le> n \<and>
      n \<le> plan_player_limit cfg now (Some db) server" if "dict_get props ''max-players'' \<noteq> None"
    using sane(3) [OF that] qs(2) numbers by auto
  ultimately show ?thesis using qs(1) by blast
qed

section \<open>Witnesses\<close>

definition friend :: user where
  "friend = sample_user\<lparr>usr_id := 2, usr_email := ''b@b.c'', usr_referrer_code := ''r2''\<rparr>"

definition shared_db :: database where
  "shared_db = sample_db\<lparr>db_users := [sample_user, friend], db_subscriptions := [sample_subscription]\<rparr>"

lemma shared_db_ok: "users_ok shared_db"
  by code_simp

lemma sample_server_id: "parse_uuid (str_uuid 10) = Some 10"
  by (rule parse_str_uuid) simp

lemma shared_access: "fst (run_request (get_server_for_user (str_uuid 10) sample_user perm) shared_db) = Inr sample_server"
  by (simp add: access_eq sample_server_id get_server_def shared_db_def sample_defs)

lemma shared_invited:
  "run_request (invite_collaborator (str_uuid 10) sample_user ''b@b.c'' [''files'']) shared_db =
     (Inr (), shared_db\<lparr>db_collaborators := [\<lparr>col_server_id = 10, col_user_id = 2, col_permissions = [''files'']\<rparr>]\<rparr>)"
proof -
  have ok: "constraints_ok (shared_db\<lparr>db_collaborators := [\<lparr>col_server_id = 10, col_user_id = 2, col_permissions = [''files'']\<rparr>]\<rparr>)"
    by code_simp
  have own: "owned_server (str_uuid 10) sample_user (open_session shared_db) = (Inr sample_server, open_session shared_db)"
    by (simp add: owned_server_eq sample_server_id get_server_def shared_db_def sample_defs)
  have q: "query_users (\<lambda>u. usr_email u = ''b@b.c'') (open_session shared_db) = [friend]"
    using shared_db_ok by (simp add: users_ok_def query_users_flushed) (simp add: shared_db_def friend_def sample_user_def)
  have c: "query_collaborators 10 2 (open_session shared_db) = []" "db_collaborators shared_db = []"
    by (simp_all add: query_collaborators_def shared_db_def sample_db_def empty_db_def)
  have ids: "srv_id sample_server = 10" "usr_id friend = 2" "usr_id sample_user \<noteq> usr_id friend"
    by (simp_all add: sample_server_def friend_def sample_user_def)
  show ?thesis
    using ok ids by (simp add: run_request_def invite_collaborator_def bind_op_def own get_op_def q c modify_op_def
        commit_op_def commit_def)
qed

lemma invitation_grants_exactly_witness:
  "\<exists>target \<in> set (db_users shared_db). usr_email target = ''b@b.c'' \<and>
     fst (run_request (get_server_for_user (str_uuid 10) target (Some ''console''))
       (snd (run_request (invite_collaborator (str_uuid 10) sample_user ''b@b.c'' [''files'']) shared_db))) =
     Inl (HTTPException 403)"
proof -
  have "''console'' \<noteq> []" "''console'' \<notin> set [''files'']" by simp_all
  moreover obtain target where "target \<in> set (db_users shared_db)" "usr_email target = ''b@b.c''"
    "\<forall>p. p \<noteq> [] \<longrightarrow>
       (case fst (run_request (get_server_for_user (str_uuid 10) target (Some p))
          (snd (run_request (invite_collaborator (str_uuid 10) sample_user ''b@b.c'' [''files'']) shared_db))) of
          Inr server \<Rightarrow> p \<in> set [''files''] \<and> parse_uuid (str_uuid 10) = Some (srv_id server)
        | Inl e \<Rightarrow> p \<notin> set [''files''] \<and> e = HTTPException 403)"
    using invitation_grants_exactly [OF shared_db_ok shared_invited] unfolding shared_invited snd_conv by blast
  ultimately show ?thesis
    by (intro bexI [of _ target]) (auto dest!: spec [of _ "''console''"] split: sum.splits,
        metis sum.exhaust)
qed

lemma protected_properties_witness:
  "\<exists>d' qs. fst (run_request (update_server_properties default_settings 0 True (str_uuid 10) sample_user
       [(''server-port'' @ '' '', PInt 1)] dir_sample) shared_db) = Inr d' \<and>
     get_properties d' = Inr qs \<and> dict_get qs ''server-port'' = Some (PInt 1)"
  using protected_properties_are_not_protected [OF shared_access dir_sample_read, of 1 "''server-port''" default_settings 0]
  by auto

lemma shared_limit: "plan_player_limit default_settings 0 (Some shared_db) sample_server = 10"
  by code_simp

lemma guard_witness:
  "\<exists>d' qs n. fst (run_request (update_server_properties default_settings 0 True (str_uuid 10) sample_user
       [(''max-players'', PInt 50)] dir_sample) shared_db) = Inr d' \<and>
     get_properties d' = Inr qs \<and> dict_get qs ''max-players'' = Some (PInt n) \<and> n \<le> 10"
proof -
  have cap: "cap_players default_settings 0 shared_db sample_server ''max-players'' [(''max-players'', PInt 50)] =
      Inr [(''max-players'', PInt 10)]"
    by (simp add: cap_players_def dict_get_def dict_set_def int_of_value_def clamp_max_players_def shared_limit)
  have cap2: "cap_players default_settings 0 shared_db sample_server ''max_players'' [(''max-players'', PInt 10)] =
      Inr [(''max-players'', PInt 10)]"
    by (simp add: cap_players_def dict_get_def)
  have run: "fst (run_request (update_server_properties default_settings 0 True (str_uuid 10) sample_user
       [(''max-players'', PInt 50)] dir_sample) shared_db) =
      Inr (update_properties dir_sample [(''max-players'', PInt 10)])"
    by (simp add: run_request_def update_server_properties_def bind_op_def get_op_def lift_op_def return_op_def
        access_run [OF shared_access] cap cap2 BLOCKED_KEYS_def)
  have "plain_key ''max-players''" by code_simp
  then have "\<forall>(k, v) \<in> set [(''max-players'', PInt 50)]. plain_key k \<and> stored v \<noteq> None"
    by (simp add: stored_port)
  moreover have "\<forall>n. n \<le> plan_player_limit default_settings 0 (Some shared_db) sample_server \<and> 1 \<le> n \<longrightarrow>
      stored (PInt n) = Some (PInt n)"
    unfolding shared_limit by (auto intro: stored_port)
  ultimately show ?thesis
    using guard_keeps_ports_and_caps_players [OF run dir_sample_read _ _ _ shared_access] run
    by (simp add: shared_limit dict_get_def) blast
qed

end
