(* ===== verification/Bans.thy ===== *)
theory Bans
  imports Access
begin

text \<open>
  Bans of players (\<open>api/servers_bans.py\<close>) and their enforcement from the log of a running server
  (\<open>services/ban_service.py\<close>).  Commands sent to a server are what the functions return; the
  orchestrator's view of the players online is a parameter.
\<close>

section \<open>Kicking\<close>

definition kick_command :: "string \<Rightarrow> string option \<Rightarrow> string" where
  "kick_command player_name reason =
     ''kick '' @ CHR 0x22 # player_name @ CHR 0x22 # '' '' @ [CHR 0xC2, CHR 0xA7] @ ''cBanned: '' @
     (case reason of Some (c # cs) \<Rightarrow> c # cs | _ \<Rightarrow> ''You are banned.'')"

definition kick_player_if_online ::
  "bool \<Rightarrow> string option dict \<Rightarrow> string \<Rightarrow> string option \<Rightarrow> string option \<Rightarrow> string list" where
  "kick_player_if_online is_running online_players xuid player_name reason =
     (if \<not> is_running then []
      else (case List.find (\<lambda>(name, p_xuid). p_xuid = Some xuid \<or>
                py_lower name = py_lower (case player_name of None \<Rightarrow> [] | Some n \<Rightarrow> n)) online_players of
          None \<Rightarrow> []
        | Some (name, _) \<Rightarrow> [kick_command name reason]))"

section \<open>The routes\<close>

text \<open>
  The answer to a client is built from keyword arguments; a missing required field of the model is
  a \<open>ValidationError\<close>, an unknown one is ignored.  Times are given as numbers.
\<close>

definition BanOut_required :: "string list" where
  "BanOut_required = [''ban_id'', ''server_id'', ''xuid'', ''active'', ''banned_at'']"

definition BanOut_optional :: "string list" where
  "BanOut_optional = [''player_name'', ''reason'', ''expires_at'', ''unbanned_at'', ''created_by_user_id'',
     ''unbanned_by_user_id'']"

definition BanOut :: "json dict \<Rightarrow> exn + json dict" where
  "BanOut kwargs =
     (if \<forall>f \<in> set BanOut_required. dict_get kwargs f \<noteq> None
      then Inr (filter (\<lambda>(k, v). k \<in> set BanOut_required \<union> set BanOut_optional) kwargs)
      else Inl ValidationError)"

definition or_null :: "('a \<Rightarrow> json) \<Rightarrow> 'a option \<Rightarrow> json" where
  "or_null f x = (case x of None \<Rightarrow> JNull | Some y \<Rightarrow> f y)"

definition ban_to_out :: "ban \<Rightarrow> exn + json dict" where
  "ban_to_out b = BanOut
     [(''id'', JStr (str_uuid (ban_id b))), (''server_id'', JStr (str_uuid (ban_server_id b))),
      (''xuid'', JStr (ban_xuid b)), (''player_name'', or_null JStr (ban_player_name b)),
      (''reason'', or_null JStr (ban_reason b)), (''active'', JBool (ban_active b)),
      (''banned_at'', JInt (ban_banned_at b)), (''expires_at'', or_null JInt (ban_expires_at b)),
      (''unbanned_at'', or_null JInt (ban_unbanned_at b)),
      (''created_by_user_id'', or_null (JStr \<circ> str_uuid) (ban_created_by b)),
      (''unbanned_by_user_id'', or_null (JStr \<circ> str_uuid) (ban_unbanned_by b))]"

fun all_to_out :: "ban list \<Rightarrow> exn + json dict list" where
  "all_to_out [] = Inr []"
| "all_to_out (b # bs) =
     (case ban_to_out b of
        Inl e \<Rightarrow> Inl e
      | Inr out \<Rightarrow> (case all_to_out bs of Inl e \<Rightarrow> Inl e | Inr outs \<Rightarrow> Inr (out # outs)))"

definition query_bans :: "(ban \<Rightarrow> bool) \<Rightarrow> session \<Rightarrow> ban list" where
  "query_bans p s =
     map (\<lambda>r. case get_row ban_id (ban_id r) (db_bans (ses_objects s)) of None \<Rightarrow> r | Some r' \<Rightarrow> r')
       (filter p (db_bans (ses_flushed s)))"

definition upd_ban :: "uuid \<Rightarrow> (ban \<Rightarrow> ban) \<Rightarrow> database \<Rightarrow> database" where
  "upd_ban i f db = db\<lparr>db_bans := modify_row ban_id i f (db_bans db)\<rparr>"

definition active_ban :: "uuid \<Rightarrow> string \<Rightarrow> ban \<Rightarrow> bool" where
  "active_ban sid xuid b \<longleftrightarrow> ban_server_id b = sid \<and> ban_xuid b = xuid \<and> ban_active b"

definition has_expired :: "instant \<Rightarrow> ban \<Rightarrow> bool" where
  "has_expired now b \<longleftrightarrow> (case ban_expires_at b of None \<Rightarrow> False | Some t \<Rightarrow> t \<le> now)"

definition resolve_active_ban :: "instant \<Rightarrow> uuid \<Rightarrow> string \<Rightarrow> ban option op" where
  "resolve_active_ban now sid xuid =
     bind_op (get_op (\<lambda>s. first_row (query_bans (active_ban sid xuid) s))) (\<lambda>found.
     case found of
       None \<Rightarrow> return_op None
     | Some b \<Rightarrow>
         if has_expired now b then
           bind_op (modify_op (set_objects (upd_ban (ban_id b)
             (\<lambda>r. r\<lparr>ban_active := False, ban_unbanned_at := ban_expires_at r\<rparr>)))) (\<lambda>_.
           bind_op commit_op (\<lambda>_. return_op None))
         else return_op (Some b))"

text \<open>An \<open>update\<close> statement is refused when it breaks a unique constraint.\<close>

definition bulk_op :: "(database \<Rightarrow> database) \<Rightarrow> unit op" where
  "bulk_op f s = (if constraints_ok (f (ses_flushed s)) then (Inr (), bulk_update f s) else (Inl IntegrityError, s))"

definition overdue :: "instant \<Rightarrow> uuid \<Rightarrow> ban \<Rightarrow> bool" where
  "overdue now sid b \<longleftrightarrow> ban_server_id b = sid \<and> ban_active b \<and> has_expired now b"

definition expire_expired_bans :: "instant \<Rightarrow> uuid \<Rightarrow> unit op" where
  "expire_expired_bans now sid =
     bind_op (get_op (\<lambda>s. length (filter (overdue now sid) (db_bans (ses_flushed s))))) (\<lambda>rowcount.
     bind_op (bulk_op (\<lambda>db. db\<lparr>db_bans :=
       modify_where (overdue now sid) (\<lambda>b. b\<lparr>ban_active := False, ban_unbanned_at := Some now\<rparr>) (db_bans db)\<rparr>)) (\<lambda>_.
     if rowcount > 0 then commit_op else return_op ()))"

definition list_bans :: "instant \<Rightarrow> string \<Rightarrow> user \<Rightarrow> json dict list op" where
  "list_bans now server_id user =
     bind_op (get_server_for_user server_id user (Some ''console'')) (\<lambda>server.
     bind_op (expire_expired_bans now (srv_id server)) (\<lambda>_.
     bind_op (get_op (\<lambda>s. rev (sort_key ban_banned_at (rev
       (query_bans (\<lambda>b. ban_server_id b = srv_id server \<and> ban_active b) s))))) (\<lambda>bans.
     lift_op (all_to_out bans))))"

definition list_ban_history :: "instant \<Rightarrow> string \<Rightarrow> user \<Rightarrow> json dict list op" where
  "list_ban_history now server_id user =
     bind_op (get_server_for_user server_id user (Some ''console'')) (\<lambda>server.
     bind_op (expire_expired_bans now (srv_id server)) (\<lambda>_.
     bind_op (get_op (\<lambda>s. rev (sort_key ban_banned_at (rev
       (query_bans (\<lambda>b. ban_server_id b = srv_id server) s))))) (\<lambda>bans.
     lift_op (all_to_out bans))))"

definition check_ban :: "instant \<Rightarrow> string \<Rightarrow> string \<Rightarrow> user \<Rightarrow> ban option op" where
  "check_ban now server_id xuid user =
     bind_op (get_server_for_user server_id user (Some ''console'')) (\<lambda>server.
     resolve_active_ban now (srv_id server) xuid)"

record ban_request =
  br_xuid :: string
  br_player_name :: "string option"
  br_reason :: "string option"
  br_expires_at :: "instant option"
  br_duration_seconds :: "int option"

definition ban_expiry :: "instant \<Rightarrow> ban_request \<Rightarrow> instant option" where
  "ban_expiry now payload =
     (case br_expires_at payload of
        Some t \<Rightarrow> Some t
      | None \<Rightarrow> map_option (\<lambda>n. now + seconds n) (br_duration_seconds payload))"

text \<open>The row a request adds, up to its commit.\<close>

definition add_ban :: "instant \<Rightarrow> uuid \<Rightarrow> string \<Rightarrow> user \<Rightarrow> ban_request \<Rightarrow> ban op" where
  "add_ban now new_id server_id user payload =
     bind_op (get_server_for_user server_id user (Some ''console'')) (\<lambda>server.
     let expires_at = ban_expiry now payload in
     if expires_at \<noteq> None \<and> the expires_at \<le> now then raise_op (HTTPException 400)
     else
       bind_op (get_op (\<lambda>s. first_row (query_bans (active_ban (srv_id server) (br_xuid payload)) s))) (\<lambda>existing.
       if existing \<noteq> None then raise_op (HTTPException 409)
       else
         let ban = \<lparr>ban_id = new_id, ban_server_id = srv_id server, ban_xuid = br_xuid payload,
               ban_player_name = br_player_name payload, ban_reason = br_reason payload,
               ban_active = True, ban_banned_at = now, ban_expires_at = expires_at,
               ban_unbanned_at = None, ban_created_by = Some (usr_id user), ban_unbanned_by = None\<rparr> in
         bind_op (modify_op (set_objects (\<lambda>db. db\<lparr>db_bans := db_bans db @ [ban]\<rparr>))) (\<lambda>_.
         bind_op commit_op (\<lambda>_. return_op ban))))"

text \<open>
  The route returns the commands it has sent to the server and its answer, whose exception is that
  of the request.
\<close>

definition create_ban ::
  "instant \<Rightarrow> uuid \<Rightarrow> bool \<Rightarrow> string option dict \<Rightarrow> string \<Rightarrow> user \<Rightarrow> ban_request \<Rightarrow>
   (string list \<times> (exn + json dict)) op" where
  "create_ban now new_id is_running online_players server_id user payload =
     bind_op (add_ban now new_id server_id user payload) (\<lambda>ban. return_op
       (kick_player_if_online is_running online_players (br_xuid payload) (br_player_name payload) (br_reason payload),
        ban_to_out ban))"

definition delete_ban :: "instant \<Rightarrow> string \<Rightarrow> string \<Rightarrow> user \<Rightarrow> json dict op" where
  "delete_ban now server_id ban_id_text user =
     bind_op (get_server_for_user server_id user (Some ''console'')) (\<lambda>server.
     case parse_uuid ban_id_text of
       None \<Rightarrow> raise_op (HTTPException 404)
     | Some ban_uuid \<Rightarrow> bind_op (get_op (\<lambda>s. get_row ban_id ban_uuid (db_bans (ses_objects s)))) (\<lambda>found.
         case found of
           None \<Rightarrow> raise_op (HTTPException 404)
         | Some b \<Rightarrow>
             if ban_server_id b \<noteq> srv_id server then raise_op (HTTPException 404)
             else if ban_active b then
               (let lift = (\<lambda>r. r\<lparr>ban_active := False, ban_unbanned_at := Some now,
                     ban_unbanned_by := Some (usr_id user)\<rparr>) in
                bind_op (modify_op (set_objects (upd_ban ban_uuid lift))) (\<lambda>_.
                bind_op commit_op (\<lambda>_. lift_op (ban_to_out (lift b)))))
             else lift_op (ban_to_out b)))"

section \<open>Enforcement\<close>

text \<open>
  The log line of a player who joins.  \<open>joins_at\<close> is a match of the expression of
  \<open>_PLAYER_CONNECTED_RE\<close> at the start of a text: the stripped name, and the XUID if one follows.
\<close>

definition starts_ci :: "string \<Rightarrow> string \<Rightarrow> bool" where
  "starts_ci s p \<longleftrightarrow> py_startswith (py_lower s) (py_lower p)"

definition xuid_after :: "string \<Rightarrow> string option" where
  "xuid_after s =
     (case s of
        [] \<Rightarrow> None
      | c # cs \<Rightarrow>
          let t = dropWhile is_space cs in
          if c = CHR '','' \<and> starts_ci t ''xuid:'' then
            (let digits = takeWhile is_digit (dropWhile is_space (drop 5 t)) in
             if digits = [] then None else Some digits)
          else None)"

definition joins_at :: "string \<Rightarrow> (string \<times> string option) option" where
  "joins_at s =
     (let body = (if starts_ci s ''Player connected:'' then Some (drop 17 s)
                  else if starts_ci s ''Player Spawned:'' then Some (drop 15 s) else None) in
      case body of
        None \<Rightarrow> None
      | Some rest \<Rightarrow>
          let name = takeWhile (\<lambda>c. c \<noteq> CHR '','') rest in
          if name = [] then None
          else Some (py_strip name, xuid_after (dropWhile (\<lambda>c. c \<noteq> CHR '','') rest)))"

fun player_connected :: "string \<Rightarrow> (string \<times> string option) option" where
  "player_connected s =
     (case joins_at s of
        Some m \<Rightarrow> Some m
      | None \<Rightarrow> (case s of [] \<Rightarrow> None | c # cs \<Rightarrow> player_connected cs))"

definition TTL_SECONDS :: int where
  "TTL_SECONDS = 10"

definition clean_cache :: "instant \<Rightarrow> instant dict \<Rightarrow> instant dict" where
  "clean_cache now recent = filter (\<lambda>(k, v). \<not> (now - v > seconds TTL_SECONDS)) recent"

text \<open>The session of the check is its own; whatever it raises is logged.\<close>

definition enforce_ban :: "instant \<Rightarrow> uuid \<Rightarrow> string \<Rightarrow> string \<Rightarrow> string list op" where
  "enforce_ban now sid xuid player_name =
     bind_op (get_op (query_bans (active_ban sid xuid))) (\<lambda>rows.
     bind_op (lift_op (one_or_none rows)) (\<lambda>found.
     case found of
       None \<Rightarrow> return_op []
     | Some b \<Rightarrow>
         if has_expired now b then
           bind_op (modify_op (set_objects (upd_ban (ban_id b)
             (\<lambda>r. r\<lparr>ban_active := False, ban_unbanned_at := ban_expires_at r\<rparr>)))) (\<lambda>_.
           bind_op commit_op (\<lambda>_. return_op []))
         else return_op [kick_command player_name (ban_reason b)]))"

definition check_and_enforce_ban :: "instant \<Rightarrow> string \<Rightarrow> string \<Rightarrow> string \<Rightarrow> database \<Rightarrow> string list \<times> database" where
  "check_and_enforce_ban now server_id xuid player_name db =
     (case parse_uuid server_id of
        None \<Rightarrow> ([], db)
      | Some sid \<Rightarrow> (let (r, db') = run_request (enforce_ban now sid xuid player_name) db in
          (case r of Inl _ \<Rightarrow> [] | Inr sent \<Rightarrow> sent, db')))"

definition ban_listener ::
  "instant \<Rightarrow> instant \<Rightarrow> string \<Rightarrow> string \<Rightarrow> instant dict \<Rightarrow> database \<Rightarrow> string list \<times> instant dict \<times> database" where
  "ban_listener now clock server_id line recent db =
     (case player_connected line of
        Some (player_name, Some xuid) \<Rightarrow>
          (let recent = clean_cache clock recent in
           if dict_get recent xuid \<noteq> None then ([], recent, db)
           else let (sent, db) = check_and_enforce_ban now server_id xuid player_name db
                in (sent, dict_set xuid clock recent, db))
      | _ \<Rightarrow> ([], recent, db))"

section \<open>Lemmas\<close>

definition bans_ok :: "database \<Rightarrow> bool" where
  "bans_ok db \<longleftrightarrow> constraints_ok db \<and> distinct (map ban_id (db_bans db))"

lemma ban_to_out_fails: "ban_to_out b = Inl ValidationError"
  by (simp add: ban_to_out_def BanOut_def BanOut_required_def dict_get_def)

lemma all_to_out_fails: "all_to_out bs = (if bs = [] then Inr [] else Inl ValidationError)"
  by (cases bs) (simp_all add: ban_to_out_fails)

lemma query_bans_open:
  "bans_ok db \<Longrightarrow> query_bans p (open_session db) = filter p (db_bans db)"
  unfolding query_bans_def open_session_simps
  by (rule map_idI) (simp add: bans_ok_def get_row_unique)

lemma only_active_ban:
  assumes "bans_ok db" "b \<in> set (db_bans db)" "active_ban sid xuid b"
  shows "filter (active_ban sid xuid) (db_bans db) = [b]"
proof -
  let ?key = "\<lambda>b. (ban_server_id b, ban_xuid b, ban_active b)"
  have "distinct (map ?key (db_bans db))" using assms(1) by (simp add: bans_ok_def constraints_ok_def)
  from filter_key_unique [OF this assms(2)] show ?thesis
    using assms(3) by (simp add: active_ban_def [abs_def])
qed

lemma enforce_active:
  assumes "bans_ok db" "b \<in> set (db_bans db)" "active_ban sid xuid b" "\<not> has_expired now b"
  shows "run_request (enforce_ban now sid xuid name) db = (Inr [kick_command name (ban_reason b)], db)"
  using assms only_active_ban [OF assms(1-3)]
  by (simp add: run_request_def enforce_ban_def op_defs query_bans_open)

lemma add_ban_InrD:
  assumes "run_request (add_ban now new_id server_id user payload) db = (Inr b, db')"
    and "bans_ok db" "new_id \<notin> ban_id ` set (db_bans db)"
  obtains server where
    "fst (run_request (get_server_for_user server_id user (Some ''console'')) db) = Inr server"
    "db' = db\<lparr>db_bans := db_bans db @ [b]\<rparr>" "bans_ok db'" "active_ban (srv_id server) (br_xuid payload) b"
    "ban_reason b = br_reason payload" "ban_expires_at b = ban_expiry now payload" "\<not> has_expired now b"
proof -
  obtain s where s: "add_ban now new_id server_id user payload (open_session db) = (Inr b, s)" "db' = ses_committed s"
    using assms(1) by (cases "add_ban now new_id server_id user payload (open_session db)") (auto simp: run_request_def)
  have "\<exists>server. get_server_for_user server_id user (Some ''console'') (open_session db) = (Inr server, open_session db)"
    using s(1) keepsD [OF keeps_get_server_for_user, of "\<lambda>s. s = open_session db" "open_session db"]
    by (cases "get_server_for_user server_id user (Some ''console'') (open_session db)")
      (auto simp: add_ban_def bind_op_def split: sum.splits)
  then obtain server where g: "get_server_for_user server_id user (Some ''console'') (open_session db) =
      (Inr server, open_session db)" by blast
  define ban where "ban = \<lparr>ban_id = new_id, ban_server_id = srv_id server, ban_xuid = br_xuid payload,
      ban_player_name = br_player_name payload, ban_reason = br_reason payload,
      ban_active = True, ban_banned_at = now, ban_expires_at = ban_expiry now payload,
      ban_unbanned_at = None, ban_created_by = Some (usr_id user), ban_unbanned_by = None\<rparr>"
  from s(1) g have b: "b = ban \<and> s = open_session (db\<lparr>db_bans := db_bans db @ [ban]\<rparr>) \<and>
      constraints_ok (db\<lparr>db_bans := db_bans db @ [ban]\<rparr>) \<and> \<not> has_expired now ban"
    by (auto simp: add_ban_def bind_op_def Let_def raise_op_def get_op_def modify_op_def commit_op_def commit_def
        return_op_def ban_def has_expired_def split: if_splits option.splits)
  then have "bans_ok db'" using s(2) assms(2,3) by (auto simp: bans_ok_def ban_def)
  with b s(2) g that [of server] show ?thesis
    by (simp add: run_request_def ban_def active_ban_def)
qed

lemma sort_key_empty [simp]: "sort_key f xs = [] \<longleftrightarrow> xs = []"
  by (metis length_0_conv length_sort)

lemma clean_cache_keeps:
  "dict_get recent k = Some v \<Longrightarrow> clock \<le> v + seconds TTL_SECONDS \<Longrightarrow> dict_get (clean_cache clock recent) k = Some v"
  unfolding dict_get_def clean_cache_def by (induction recent) (auto split: if_splits)

lemma access_same_tables:
  assumes "db_servers db' = db_servers db" "db_collaborators db' = db_collaborators db"
  shows "fst (run_request (get_server_for_user server_id user perm) db') =
    fst (run_request (get_server_for_user server_id user perm) db)"
proof -
  have "get_server db' = get_server db" "granted db' = granted db"
    using assms by (auto simp: fun_eq_iff get_server_def granted_def)
  then show ?thesis by (simp only: access_eq)
qed

section \<open>Properties\<close>

text \<open>
  A ban that was created is enforced: until it expires, the log line of the player joining
  the server sends exactly one kick and leaves the table as it is.  But for ten seconds after any
  such line the player is not looked at again, on no server: whoever rejoins that fast stays.
\<close>

theorem ban_is_enforced_once:
  assumes ok: "bans_ok db" "new_id \<notin> ban_id ` set (db_bans db)"
    and created: "run_request (add_ban now new_id server_id user payload) db = (Inr b, db')"
    and join: "player_connected line = Some (name, Some (br_xuid payload))"
    and time: "case ban_expiry now payload of None \<Rightarrow> True | Some e \<Rightarrow> t < e"
    and unseen: "dict_get (clean_cache clock recent) (br_xuid payload) = None"
  shows "\<exists>recent'. ban_listener t clock server_id line recent db' =
      ([kick_command name (br_reason payload)], recent', db') \<and>
    (\<forall>t2 clock2 server2 line2 name2 db2. clock2 \<le> clock + seconds TTL_SECONDS \<longrightarrow>
       player_connected line2 = Some (name2, Some (br_xuid payload)) \<longrightarrow>
       fst (ban_listener t2 clock2 server2 line2 recent' db2) = [])"
proof -
  obtain server where g: "fst (run_request (get_server_for_user server_id user (Some ''console'')) db) = Inr server"
    and b: "db' = db\<lparr>db_bans := db_bans db @ [b]\<rparr>" "bans_ok db'" "active_ban (srv_id server) (br_xuid payload) b"
    "ban_reason b = br_reason payload" "ban_expires_at b = ban_expiry now payload"
    by (rule add_ban_InrD [OF created ok])
  have id: "parse_uuid server_id = Some (srv_id server)"
    using g by (auto simp: access_eq bind_eq_Some_conv dest: get_server_SomeD split: option.splits if_splits)
  have "b \<in> set (db_bans db')" "\<not> has_expired t b" using b(1,5) time by (auto simp: has_expired_def split: option.splits)
  with b have "run_request (enforce_ban t (srv_id server) (br_xuid payload) name) db' =
      (Inr [kick_command name (br_reason payload)], db')"
    using enforce_active [OF b(2) _ b(3)] by simp
  then have "ban_listener t clock server_id line recent db' =
      ([kick_command name (br_reason payload)], dict_set (br_xuid payload) clock (clean_cache clock recent), db')"
    using join unseen id by (simp add: ban_listener_def check_and_enforce_ban_def Let_def)
  moreover have "dict_get (clean_cache clock2 (dict_set (br_xuid payload) clock rs)) (br_xuid payload) = Some clock"
    if "clock2 \<le> clock + seconds TTL_SECONDS" for clock2 rs
    using that by (intro clean_cache_keeps) simp_all
  ultimately show ?thesis
    by (intro exI conjI) (auto simp: ban_listener_def Let_def)
qed

text \<open>
  Every answer that shows a ban fails: the model of the answer requires a field the routes do
  not give.  A ban is created and committed and the player kicked, and the request is answered with
  an error; the list of bans then fails as long as there is an active one.
\<close>

theorem ban_created_but_reported_as_failure:
  assumes "bans_ok db" "new_id \<notin> ban_id ` set (db_bans db)"
    and "run_request (create_ban now new_id r players server_id user payload) db = (Inr (sent, out), db')"
    and "case ban_expiry now payload of None \<Rightarrow> True | Some e \<Rightarrow> t < e"
  shows "out = Inl ValidationError \<and>
    (\<exists>server. Option.bind (parse_uuid server_id) (get_server db') = Some server \<and>
       (\<exists>b \<in> set (db_bans db'). active_ban (srv_id server) (br_xuid payload) b) \<and>
       (\<exists>e. fst (run_request (list_bans t server_id user) db') = Inl e))"
proof -
  obtain b where add: "run_request (add_ban now new_id server_id user payload) db = (Inr b, db')"
    and out: "out = ban_to_out b"
    using assms(3) by (cases "add_ban now new_id server_id user payload (open_session db)")
      (auto simp: run_request_def create_ban_def bind_op_def return_op_def split: sum.splits)
  obtain server where g: "fst (run_request (get_server_for_user server_id user (Some ''console'')) db) = Inr server"
    and b: "db' = db\<lparr>db_bans := db_bans db @ [b]\<rparr>" "bans_ok db'" "active_ban (srv_id server) (br_xuid payload) b"
    "ban_expires_at b = ban_expiry now payload"
    by (rule add_ban_InrD [OF add assms(1,2)])
  have g': "fst (run_request (get_server_for_user server_id user (Some ''console'')) db') = Inr server"
    using g access_same_tables [of db' db] by (simp add: b(1))
  have id: "Option.bind (parse_uuid server_id) (get_server db') = Some server"
    using g' by (auto simp: access_eq split: option.splits if_splits)
  have mem: "b \<in> set (db_bans db')" "\<not> overdue t (srv_id server) b"
    using b(1,4) assms(4) by (auto simp: overdue_def has_expired_def split: option.splits)
  have "\<exists>e. fst (run_request (list_bans t server_id user) db') = Inl e"
  proof (cases "expire_expired_bans t (srv_id server) (open_session db')")
    case (Pair r s)
    show ?thesis
    proof (cases r)
      case (Inl e)
      with Pair show ?thesis
        by (simp add: run_request_def list_bans_def bind_op_def access_run [OF g'])
    next
      case (Inr u)
      let ?f = "\<lambda>db. db\<lparr>db_bans := modify_where (overdue t (srv_id server))
        (\<lambda>b. b\<lparr>ban_active := False, ban_unbanned_at := Some t\<rparr>) (db_bans db)\<rparr>"
      have s: "ses_flushed s = ?f db' \<and> ses_objects s = ?f db'"
        using Pair Inr by (auto simp: expire_expired_bans_def bind_op_def get_op_def bulk_op_def
            commit_op_def commit_def return_op_def split: if_splits)
      have "b \<in> set (db_bans (?f db'))" using mem by (force simp: modify_where_def)
      then have "query_bans (\<lambda>b. ban_server_id b = srv_id server \<and> ban_active b) s \<noteq> []"
        using b(3) s by (auto simp: query_bans_def filter_empty_conv active_ban_def)
      with Pair Inr show ?thesis
        by (simp add: run_request_def list_bans_def bind_op_def access_run [OF g'] get_op_def lift_op_def all_to_out_fails)
    qed
  qed
  with out mem(1) b(3) id show ?thesis by (auto simp: ban_to_out_fails)
qed

lemma lifted_twice:
  assumes "b \<in> set (db_bans db)" "old \<in> set (db_bans db)" "ban_active b" "\<not> ban_active old"
    and "ban_server_id old = ban_server_id b" "ban_xuid old = ban_xuid b"
    and "f b = g b" "f old = old" "\<not> ban_active (g b)" "ban_server_id (g b) = ban_server_id b" "ban_xuid (g b) = ban_xuid b"
  shows "\<not> constraints_ok (db\<lparr>db_bans := map f (db_bans db)\<rparr>)"
proof
  let ?key = "\<lambda>b. (ban_server_id b, ban_xuid b, ban_active b)"
  assume "constraints_ok (db\<lparr>db_bans := map f (db_bans db)\<rparr>)"
  then have "distinct (map (?key \<circ> f) (db_bans db))" by (simp add: constraints_ok_def)
  then have "inj_on (?key \<circ> f) (set (db_bans db))" by (simp add: distinct_map)
  moreover have "(?key \<circ> f) b = (?key \<circ> f) old" using assms(4-11) by simp
  ultimately have "b = old" using assms(1,2) by (rule inj_onD)
  with assms(3,4) show False by simp
qed

text \<open>
  The unique constraint on server, player and activity allows one lifted ban per player and
  server.  A player who has been banned and unbanned before cannot be unbanned again: lifting the
  second ban fails and changes nothing, and once it has expired the list of bans and the check of
  the player fail too.
\<close>

theorem second_ban_cannot_be_lifted:
  assumes ok: "bans_ok db" and b: "b \<in> set (db_bans db)" "ban_active b"
    and old: "old \<in> set (db_bans db)" "\<not> ban_active old" "ban_server_id old = ban_server_id b" "ban_xuid old = ban_xuid b"
    and access: "fst (run_request (get_server_for_user server_id user (Some ''console'')) db) = Inr server"
    and server: "srv_id server = ban_server_id b" and id: "parse_uuid ban_text = Some (ban_id b)"
  shows "run_request (delete_ban now server_id ban_text user) db = (Inl IntegrityError, db) \<and>
    (has_expired now b \<longrightarrow>
       run_request (list_bans now server_id user) db = (Inl IntegrityError, db) \<and>
       run_request (check_ban now server_id (ban_xuid b) user) db = (Inl IntegrityError, db))"
proof (intro conjI impI)
  have neq: "ban_id old \<noteq> ban_id b"
    using ok b old(1,2) by (auto simp: bans_ok_def distinct_map dest: inj_onD)
  have get: "get_row ban_id (ban_id b) (db_bans db) = Some b"
    using ok b(1) by (simp add: bans_ok_def get_row_unique)
  have bad: "\<not> constraints_ok (upd_ban (ban_id b) g db)"
    if "\<And>r. \<not> ban_active (g r)" "\<And>r. ban_server_id (g r) = ban_server_id r" "\<And>r. ban_xuid (g r) = ban_xuid r" for g
    unfolding upd_ban_def modify_row_def
    using that b old neq by (intro lifted_twice [where b = b and old = old and g = g]) simp_all
  show "run_request (delete_ban now server_id ban_text user) db = (Inl IntegrityError, db)"
    using bad [of "\<lambda>r. r\<lparr>ban_active := False, ban_unbanned_at := Some now, ban_unbanned_by := Some (usr_id user)\<rparr>"]
      b(2) server id get
    by (simp add: run_request_def delete_ban_def bind_op_def access_run [OF access] get_op_def Let_def
        modify_op_def commit_op_def commit_def)
  assume exp: "has_expired now b"
  let ?f = "\<lambda>r. if overdue now (srv_id server) r then r\<lparr>ban_active := False, ban_unbanned_at := Some now\<rparr> else r"
  have "\<not> constraints_ok (db\<lparr>db_bans := map ?f (db_bans db)\<rparr>)"
    using b old server exp
    by (intro lifted_twice [where b = b and old = old and g = "\<lambda>r. r\<lparr>ban_active := False, ban_unbanned_at := Some now\<rparr>"])
      (auto simp: overdue_def)
  then show "run_request (list_bans now server_id user) db = (Inl IntegrityError, db)"
    by (simp add: run_request_def list_bans_def bind_op_def access_run [OF access] expire_expired_bans_def
        get_op_def bulk_op_def modify_where_def)
  have "first_row (query_bans (active_ban (srv_id server) (ban_xuid b)) (open_session db)) = Some b"
    using only_active_ban [OF ok b(1)] b(2) server by (simp add: query_bans_open [OF ok] active_ban_def)
  then show "run_request (check_ban now server_id (ban_xuid b) user) db = (Inl IntegrityError, db)"
    using bad [of "\<lambda>r. r\<lparr>ban_active := False, ban_unbanned_at := ban_expires_at r\<rparr>"] exp
    by (simp add: run_request_def check_ban_def bind_op_def access_run [OF access] resolve_active_ban_def
        get_op_def modify_op_def commit_op_def commit_def)
qed

section \<open>Witnesses\<close>

definition sample_ban :: ban where
  "sample_ban = \<lparr>ban_id = 60, ban_server_id = 10, ban_xuid = ''42'', ban_player_name = None, ban_reason = None,
     ban_active = True, ban_banned_at = 0, ban_expires_at = Some 5, ban_unbanned_at = None,
     ban_created_by = Some 1, ban_unbanned_by = None\<rparr>"

definition banned_db :: database where
  "banned_db = shared_db\<lparr>db_bans := [sample_ban, sample_ban\<lparr>ban_id := 61, ban_active := False\<rparr>]\<rparr>"

lemma banned_db_ok: "bans_ok banned_db"
  by code_simp

lemma banned_access: "fst (run_request (get_server_for_user (str_uuid 10) sample_user perm) banned_db) = Inr sample_server"
  using shared_access access_same_tables [of banned_db shared_db] by (simp add: banned_db_def)

lemma second_ban_witness:
  "run_request (delete_ban 1 (str_uuid 10) (str_uuid 60) sample_user) banned_db = (Inl IntegrityError, banned_db)"
proof -
  have "parse_uuid (str_uuid 60) = Some 60" by (rule parse_str_uuid) simp
  then show ?thesis
    using second_ban_cannot_be_lifted [OF banned_db_ok _ _ _ _ _ _ banned_access, of sample_ban
        "sample_ban\<lparr>ban_id := 61, ban_active := False\<rparr>" "str_uuid 60" 1]
    by (simp add: banned_db_def sample_ban_def sample_server_def)
qed

definition ban_42 :: ban_request where
  "ban_42 = \<lparr>br_xuid = ''42'', br_player_name = None, br_reason = Some ''griefing'', br_expires_at = None,
     br_duration_seconds = Some 60\<rparr>"

lemma shared_bans_ok: "bans_ok shared_db" "60 \<notin> ban_id ` set (db_bans shared_db)"
  by (code_simp, simp add: shared_db_def sample_db_def empty_db_def)

lemma shared_banned: "\<exists>b db'. run_request (add_ban 0 60 (str_uuid 10) sample_user ban_42) shared_db = (Inr b, db')"
proof -
  have none: "query_bans p (open_session shared_db) = []" for p
    by (simp add: query_bans_def shared_db_def sample_db_def empty_db_def)
  have "constraints_ok (shared_db\<lparr>db_bans := [b]\<rparr>)" "db_bans shared_db = []" for b
    using shared_bans_ok(1) by (simp_all add: bans_ok_def constraints_ok_def shared_db_def sample_db_def empty_db_def)
  then show ?thesis
    by (simp add: run_request_def add_ban_def bind_op_def access_run [OF shared_access] Let_def get_op_def none
        ban_expiry_def ban_42_def seconds_def modify_op_def commit_op_def commit_def return_op_def)
qed

lemma ban_reported_witness:
  "\<exists>sent db'. run_request (create_ban 0 60 False [] (str_uuid 10) sample_user ban_42) shared_db =
     (Inr (sent, Inl ValidationError), db')"
proof -
  from shared_banned obtain b db' where add: "run_request (add_ban 0 60 (str_uuid 10) sample_user ban_42) shared_db = (Inr b, db')"
    by blast
  then have "run_request (create_ban 0 60 False [] (str_uuid 10) sample_user ban_42) shared_db = (Inr ([], ban_to_out b), db')"
    by (auto simp: run_request_def create_ban_def bind_op_def return_op_def kick_player_if_online_def split: prod.splits sum.splits)
  from ban_created_but_reported_as_failure [OF shared_bans_ok this, of 1] this show ?thesis
    by (simp add: ban_expiry_def ban_42_def seconds_def)
qed

lemma ban_enforced_witness:
  "\<exists>b db' recent. run_request (add_ban 0 60 (str_uuid 10) sample_user ban_42) shared_db = (Inr b, db') \<and>
     ban_listener 1 1 (str_uuid 10) ''Player connected: Eve, xuid: 42'' [] db' =
       ([kick_command ''Eve'' (Some ''griefing'')], recent, db')"
proof -
  have "player_connected ''Player connected: Eve, xuid: 42'' = Some (''Eve'', Some ''42'')" by code_simp
  moreover from shared_banned obtain b db' where
    add: "run_request (add_ban 0 60 (str_uuid 10) sample_user ban_42) shared_db = (Inr b, db')" by blast
  ultimately show ?thesis
    using ban_is_enforced_once [OF shared_bans_ok add, of "''Player connected: Eve, xuid: 42''" "''Eve''" 1 1 "[]"]
    by (fastforce simp: ban_42_def ban_expiry_def seconds_def clean_cache_def dict_get_def)
qed

end
