(* ===== verification/Paddle.thy ===== *)
theory Paddle
  imports Billing Ops Tokens
begin

text \<open>
  The billing routes (\<open>api/billing.py\<close>): orders and payments of the Razorpay checkout, and the
  checkout and the webhook of Paddle, which bill servers, application deployments and databases
  alike.  The HMAC, the JSON parser and the calls to the providers are parameters; a body is its
  text.  A route returns its answer; the webhook returns the background tasks it schedules
  (\<open>provision_resource\<close> with its arguments), which run when the request has succeeded.
\<close>

section \<open>Billable resources\<close>

text \<open>\<open>d.get(k, default)\<close> of a JSON value, which may be anything.\<close>

definition json_get :: "json \<Rightarrow> string \<Rightarrow> json \<Rightarrow> exn + json" where
  "json_get j k dflt = (case j of
     JObj kvs \<Rightarrow> Inr (case dict_get kvs k of None \<Rightarrow> dflt | Some v \<Rightarrow> v)
   | _ \<Rightarrow> Inl AttributeError)"

text \<open>
  A value that is compared with a text column: the driver refuses anything but text, and a
  comparison with \<open>None\<close> is \<open>IS NULL\<close>.
\<close>

definition json_text :: "json \<Rightarrow> exn + string" where
  "json_text j = (case j of JStr t \<Rightarrow> Inr t | _ \<Rightarrow> Inl TypeError)"

definition json_key :: "json \<Rightarrow> exn + string option" where
  "json_key j = (case j of JNull \<Rightarrow> Inr None | JStr t \<Rightarrow> Inr (Some t) | _ \<Rightarrow> Inl TypeError)"

definition resource_id_from_custom_data :: "json \<Rightarrow> json \<Rightarrow> exn + json" where
  "resource_id_from_custom_data resource_type custom_data =
     (if resource_type = JStr ''minecraft_server'' then json_get custom_data ''server_id'' JNull
      else if resource_type = JStr ''app_deployment'' then json_get custom_data ''deployment_id'' JNull
      else if resource_type = JStr ''database_instance'' then json_get custom_data ''database_id'' JNull
      else Inr JNull)"

datatype billable = BServer server | BDeployment deployment | BDatabase database_instance

definition get_instance :: "database \<Rightarrow> uuid \<Rightarrow> database_instance option" where
  "get_instance db i = get_row dbi_id i (db_instances db)"

definition get_billable_resource :: "database \<Rightarrow> string \<Rightarrow> uuid \<Rightarrow> billable option" where
  "get_billable_resource db resource_type resource_id =
     (if resource_type = ''minecraft_server'' then map_option BServer (get_server db resource_id)
      else if resource_type = ''app_deployment'' then map_option BDeployment (get_deployment db resource_id)
      else if resource_type = ''database_instance'' then map_option BDatabase (get_instance db resource_id)
      else None)"

definition resource_owner_id :: "database \<Rightarrow> billable \<Rightarrow> uuid option" where
  "resource_owner_id db r = (case r of
     BServer s \<Rightarrow> Some (srv_owner_id s)
   | BDeployment d \<Rightarrow> Some (dep_owner_id d)
   | BDatabase i \<Rightarrow> map_option prj_owner_id (get_row prj_id (dbi_project_id i) (db_projects db)))"

definition resource_belongs_to_user :: "database \<Rightarrow> billable \<Rightarrow> user \<Rightarrow> bool" where
  "resource_belongs_to_user db r user \<longleftrightarrow> resource_owner_id db r = Some (usr_id user)"

definition custom_data_for_resource :: "string \<Rightarrow> uuid \<Rightarrow> json dict" where
  "custom_data_for_resource resource_type resource_id =
     (let custom_data = [(''resource_type'', JStr resource_type)] in
      if resource_type = ''minecraft_server'' then dict_set ''server_id'' (JStr (str_uuid resource_id)) custom_data
      else if resource_type = ''app_deployment'' then dict_set ''deployment_id'' (JStr (str_uuid resource_id)) custom_data
      else if resource_type = ''database_instance'' then dict_set ''database_id'' (JStr (str_uuid resource_id)) custom_data
      else custom_data)"

section \<open>Plans, orders and payments\<close>

text \<open>A service function of \<open>services/billing.py\<close>, which commits what it returns, in a session.\<close>

definition run_service :: "(database \<Rightarrow> (exn + 'a) \<times> database) \<Rightarrow> 'a op" where
  "run_service f s = (let (r, db) = f (ses_committed s) in (r, open_session db))"

definition billing_http_error :: "exn \<Rightarrow> exn" where
  "billing_http_error e = (case e of
     BillingError code \<Rightarrow>
       if code = ''server_not_found'' \<or> code = ''plan_not_found'' \<or> code = ''order_not_found'' then HTTPException 404
       else if code = ''unauthorized'' then HTTPException 403
       else if code = ''subscription_suspended'' then HTTPException 402
       else HTTPException 400
   | _ \<Rightarrow> e)"

definition list_billing_plans :: "plan list op" where
  "list_billing_plans = get_op (\<lambda>s. sort_key bp_price (filter bp_active (db_plans (ses_flushed s))))"

text \<open>The answer: the transaction, the provider, its order, the amount, the currency, the status.\<close>

definition create_upgrade_order ::
  "(int \<Rightarrow> string \<Rightarrow> string option) \<Rightarrow> uuid \<Rightarrow> user \<Rightarrow> uuid \<Rightarrow> string \<Rightarrow>
   (uuid \<times> string \<times> string \<times> int \<times> string \<times> BillingTransactionStatus) op" where
  "create_upgrade_order razorpay_create new_id user server_id target_plan_id =
     (if target_plan_id = [] \<or> 64 < length target_plan_id then raise_op (HTTPException 422)
      else bind_op (get_op (\<lambda>s. first_row (filter (\<lambda>t. tx_server_id t = Some server_id \<and>
          tx_user_id t = usr_id user \<and> tx_target_plan_id t = target_plan_id \<and>
          tx_status t = BillingTransactionStatus.pending) (db_transactions (ses_flushed s))))) (\<lambda>existing.
        case existing of
          Some t \<Rightarrow> return_op (tx_id t, tx_provider t, tx_provider_order_id t, tx_amount t, tx_currency t, tx_status t)
        | None \<Rightarrow>
            bind_op (catch_op
              (run_service (\<lambda>db. create_upgrade_transaction razorpay_create new_id db user server_id
                 target_plan_id ''INR''))
              (\<lambda>e. raise_op (billing_http_error e))) (\<lambda>(tx, order).
            return_op (tx_id tx, po_provider order, po_provider_order_id order, po_amount order,
              po_currency order, tx_status tx))))"

definition verify_payment ::
  "(string \<Rightarrow> string \<Rightarrow> string \<Rightarrow> bool) \<Rightarrow> instant \<Rightarrow> uuid \<Rightarrow> user \<Rightarrow> string \<Rightarrow> string \<Rightarrow> string \<Rightarrow>
   (transaction \<times> subscription) op" where
  "verify_payment signature_ok now new_id user order_id payment_id signature =
     (if order_id = [] \<or> 128 < length order_id \<or> payment_id = [] \<or> 128 < length payment_id \<or>
         signature = [] \<or> 512 < length signature
      then raise_op (HTTPException 422)
      else catch_op
        (run_service (\<lambda>db. verify_upgrade_payment signature_ok now new_id db (usr_id user) order_id payment_id signature))
        (\<lambda>e. raise_op (billing_http_error e)))"

definition get_server_subscription :: "uuid \<Rightarrow> user \<Rightarrow> subscription option op" where
  "get_server_subscription server_id user =
     bind_op (get_op (\<lambda>s. get_server (ses_objects s) server_id)) (\<lambda>found.
     case found of
       None \<Rightarrow> raise_op (HTTPException 404)
     | Some server \<Rightarrow>
         if srv_owner_id server \<noteq> usr_id user then raise_op (HTTPException 404)
         else get_op (\<lambda>s. first_row (sort_key (\<lambda>r. - sub_created_at r)
           (filter (\<lambda>r. sub_server_id r = Some server_id \<and> sub_user_id r = usr_id user)
             (db_subscriptions (ses_flushed s))))))"

section \<open>The Razorpay webhook\<close>

text \<open>
  \<open>verified\<close> is the answer of the client's \<open>verify_webhook_signature\<close>, \<open>payload\<close> what \<open>json.loads\<close>
  gives (\<open>None\<close> for a \<open>JSONDecodeError\<close>, which nothing catches).  Every exception of the fulfilment
  is logged and answered with ok.
\<close>

definition razorpay_webhook :: "instant \<Rightarrow> uuid \<Rightarrow> bool \<Rightarrow> json option \<Rightarrow> unit op" where
  "razorpay_webhook now new_id verified payload =
     (if \<not> verified then raise_op (HTTPException 400)
      else case payload of None \<Rightarrow> raise_op ValueError | Some payload \<Rightarrow>
        bind_op (lift_op (json_get payload ''event'' JNull)) (\<lambda>event.
        if event \<noteq> JStr ''payment.captured'' then return_op ()
        else
          bind_op (lift_op (json_get payload ''payload'' (JObj []))) (\<lambda>inner.
          bind_op (lift_op (json_get inner ''payment'' (JObj []))) (\<lambda>payment.
          bind_op (lift_op (json_get payment ''entity'' (JObj []))) (\<lambda>entity.
          bind_op (lift_op (json_get entity ''order_id'' JNull)) (\<lambda>order_id.
          bind_op (lift_op (json_get entity ''id'' JNull)) (\<lambda>payment_id.
          if \<not> json_truthy order_id \<or> \<not> json_truthy payment_id then return_op ()
          else catch_op
            (bind_op (lift_op (json_text order_id)) (\<lambda>order_id.
             bind_op (lift_op (json_text payment_id)) (\<lambda>payment_id.
             bind_op (run_service (\<lambda>db. fulfill_webhook_payment now new_id db order_id payment_id)) (\<lambda>_.
             return_op ()))))
            (\<lambda>e. return_op ()))))))))"

section \<open>The Paddle webhook\<close>

definition verify_paddle_signature :: "(string \<Rightarrow> string \<Rightarrow> string) \<Rightarrow> string \<Rightarrow> string \<Rightarrow> string \<Rightarrow> bool" where
  "verify_paddle_signature hmac_hex signature_header body secret =
     (if signature_header = [] \<or> secret = [] then False
      else
        (let parts = py_split (CHR '';'') signature_header;
             ts = foldl (\<lambda>ts part. if py_startswith part ''ts='' then drop 3 part else ts) [] parts;
             h1_hashes = map (drop 3) (filter (\<lambda>part. \<not> py_startswith part ''ts='' \<and> py_startswith part ''h1='') parts)
         in if ts = [] \<or> h1_hashes = [] then False
            else hmac_hex secret (ts @ '':'' @ body) \<in> set h1_hashes))"

text \<open>\<open>uuid.UUID(x)\<close>: \<open>None\<close> is the \<open>ValueError\<close> the code catches.\<close>

definition uuid_of_json :: "json \<Rightarrow> exn + uuid option" where
  "uuid_of_json j = (case j of JStr t \<Rightarrow> Inr (parse_uuid t) | _ \<Rightarrow> Inl AttributeError)"

definition of_resource :: "string \<Rightarrow> uuid \<Rightarrow> subscription \<Rightarrow> bool" where
  "of_resource resource_type resource_id r \<longleftrightarrow>
     (resource_type = ''minecraft_server'' \<and> sub_server_id r = Some resource_id) \<or>
     (sub_resource_id r = Some resource_id \<and> sub_resource_type r = Some resource_type)"

text \<open>The subscription with the provider's id, else the newest of the resource.\<close>

definition find_subscription :: "string \<Rightarrow> string \<Rightarrow> uuid \<Rightarrow> session \<Rightarrow> subscription option" where
  "find_subscription subscription_id resource_type resource_id s =
     (case first_row (filter (\<lambda>r. sub_provider_subscription_id r = Some subscription_id)
             (db_subscriptions (ses_flushed s))) of
        Some r \<Rightarrow> Some r
      | None \<Rightarrow> first_row (sort_key (\<lambda>r. - sub_created_at r)
             (filter (of_resource resource_type resource_id) (db_subscriptions (ses_flushed s)))))"

definition default_plan :: "session \<Rightarrow> plan option" where
  "default_plan s = first_row (filter bp_active (db_plans (ses_flushed s)))"

text \<open>
  Setting the status and the provider's id of a row; \<open>updated_at\<close> follows (\<open>onupdate\<close>) when
  something changes.
\<close>

definition relink :: "instant \<Rightarrow> BillingSubscriptionStatus \<Rightarrow> string \<Rightarrow> subscription \<Rightarrow> subscription" where
  "relink now status subscription_id r =
     (if sub_status r = status \<and> sub_provider_subscription_id r = Some subscription_id then r
      else r\<lparr>sub_status := status, sub_provider_subscription_id := Some subscription_id,
             sub_updated_at := now\<rparr>)"

definition set_subscription :: "uuid \<Rightarrow> (subscription \<Rightarrow> subscription) \<Rightarrow> unit op" where
  "set_subscription i f = modify_op (set_objects (\<lambda>db.
     db\<lparr>db_subscriptions := modify_row sub_id i f (db_subscriptions db)\<rparr>))"

definition new_subscription ::
  "instant \<Rightarrow> uuid \<Rightarrow> uuid \<Rightarrow> plan \<Rightarrow> string \<Rightarrow> string \<Rightarrow> uuid \<Rightarrow> subscription" where
  "new_subscription now new_id owner_id plan subscription_id resource_type resource_id =
     \<lparr>sub_id = new_id, sub_user_id = owner_id,
      sub_server_id = (if resource_type = ''minecraft_server'' then Some resource_id else None),
      sub_resource_type = Some resource_type, sub_resource_id = Some resource_id,
      sub_plan_id = bp_id plan, sub_starts_at = now,
      sub_expires_at = now + days (bp_duration_days plan),
      sub_status = BillingSubscriptionStatus.active,
      sub_provider_subscription_id = Some subscription_id,
      sub_created_at = now, sub_updated_at = now\<rparr>"

definition add_subscription :: "subscription \<Rightarrow> unit op" where
  "add_subscription r = modify_op (set_objects (\<lambda>db. db\<lparr>db_subscriptions := db_subscriptions db @ [r]\<rparr>))"

definition upd_instance :: "uuid \<Rightarrow> (database_instance \<Rightarrow> database_instance) \<Rightarrow> database \<Rightarrow> database" where
  "upd_instance i f db = db\<lparr>db_instances := modify_row dbi_id i f (db_instances db)\<rparr>"

definition stop_resource :: "string \<Rightarrow> uuid \<Rightarrow> database \<Rightarrow> database" where
  "stop_resource resource_type resource_id =
     (if resource_type = ''minecraft_server''
        then upd_server resource_id (\<lambda>r. r\<lparr>srv_state := ServerState.suspended\<rparr>)
      else if resource_type = ''app_deployment''
        then upd_deployment resource_id (\<lambda>r. r\<lparr>dep_state := DeploymentState.stopped\<rparr>)
      else if resource_type = ''database_instance''
        then upd_instance resource_id (\<lambda>r. r\<lparr>dbi_state := DeploymentState.stopped\<rparr>)
      else id)"

type_synonym tasks = "(string \<times> uuid) list"

text \<open>An early answer: the event is claimed, nothing else happens.\<close>

definition claim_only :: "tasks op" where
  "claim_only = bind_op commit_op (\<lambda>_. return_op [])"

text \<open>
  The resource an event is about: \<open>None\<close> when the identifier does not parse.  \<open>resource_id_str\<close> is
  not empty, so the type is one of the three texts.
\<close>

definition subscription_change ::
  "instant \<Rightarrow> uuid \<Rightarrow> string \<Rightarrow> json \<Rightarrow> string \<Rightarrow> string \<Rightarrow> uuid \<Rightarrow> uuid \<Rightarrow> tasks op" where
  "subscription_change now new_id event_type status subscription_id resource_type resource_id owner_id =
     bind_op (get_op (find_subscription subscription_id resource_type resource_id)) (\<lambda>sub.
     if event_type = ''subscription.canceled'' \<or> status = JStr ''canceled'' then
       bind_op (case sub of
           None \<Rightarrow> return_op ()
         | Some r \<Rightarrow> set_subscription (sub_id r)
             (relink now BillingSubscriptionStatus.cancelled subscription_id)) (\<lambda>_.
       bind_op (modify_op (set_objects (stop_resource resource_type resource_id))) (\<lambda>_.
       bind_op commit_op (\<lambda>_. return_op [])))
     else case sub of
       None \<Rightarrow>
         bind_op (get_op default_plan) (\<lambda>plan.
         case plan of
           None \<Rightarrow> claim_only
         | Some p \<Rightarrow>
             bind_op (add_subscription
               (new_subscription now new_id owner_id p subscription_id resource_type resource_id)) (\<lambda>_.
             bind_op commit_op (\<lambda>_. return_op [(resource_type, resource_id)])))
     | Some r \<Rightarrow>
         bind_op (set_subscription (sub_id r)
           (relink now BillingSubscriptionStatus.active subscription_id)) (\<lambda>_.
         bind_op commit_op (\<lambda>_. return_op
           (if sub_status r = BillingSubscriptionStatus.active then []
            else [(resource_type, resource_id)]))))"

definition subscription_event :: "instant \<Rightarrow> uuid \<Rightarrow> string \<Rightarrow> json \<Rightarrow> tasks op" where
  "subscription_event now new_id event_type data =
     bind_op (lift_op (json_get data ''id'' JNull)) (\<lambda>subscription_id.
     bind_op (lift_op (json_get data ''status'' JNull)) (\<lambda>status.
     bind_op (lift_op (json_get data ''custom_data'' (JObj []))) (\<lambda>custom_data.
     bind_op (lift_op (json_get custom_data ''resource_type'' (JStr ''minecraft_server''))) (\<lambda>resource_type.
     bind_op (lift_op (resource_id_from_custom_data resource_type custom_data)) (\<lambda>resource_id_str.
     if \<not> json_truthy subscription_id \<or> \<not> json_truthy resource_id_str then claim_only
     else
       bind_op (lift_op (uuid_of_json resource_id_str)) (\<lambda>parsed.
       case parsed of None \<Rightarrow> claim_only | Some resource_id \<Rightarrow>
       bind_op (lift_op (json_text resource_type)) (\<lambda>resource_type.
       bind_op (get_op (\<lambda>s. get_billable_resource (ses_objects s) resource_type resource_id)) (\<lambda>resource.
       case resource of None \<Rightarrow> claim_only | Some res \<Rightarrow>
       bind_op (get_op (\<lambda>s. resource_owner_id (ses_objects s) res)) (\<lambda>owner.
       case owner of None \<Rightarrow> claim_only | Some owner_id \<Rightarrow>
       bind_op (lift_op (json_text subscription_id)) (\<lambda>subscription_id.
       subscription_change now new_id event_type status subscription_id resource_type resource_id owner_id))))))))))"

text \<open>
  \<open>transaction.completed\<close>.  The lookup of the subscription happens only with a \<open>subscription_id\<close>;
  without one the name \<open>sub\<close> is never bound.  The arguments of the new \<open>BillingTransaction\<close> are
  evaluated in order: \<open>sub.id if sub\<close> comes first, then \<open>BillingTransactionStatus.success\<close>, which the
  enumeration does not have.  The amount before them is computed under a catch-all and can be left out.
  \<open>completed_subscription\<close> answers whether the subscription it leaves has an owner; without one the
  commit fails on the column's \<open>NOT NULL\<close>.
\<close>

definition completed_subscription ::
  "instant \<Rightarrow> uuid \<Rightarrow> string \<Rightarrow> string \<Rightarrow> uuid \<Rightarrow> uuid option \<Rightarrow> bool op" where
  "completed_subscription now new_id subscription_id resource_type resource_id owner =
     bind_op (get_op (find_subscription subscription_id resource_type resource_id)) (\<lambda>sub.
     case sub of
       Some r \<Rightarrow>
         bind_op (set_subscription (sub_id r) (relink now BillingSubscriptionStatus.active subscription_id))
           (\<lambda>_. return_op True)
     | None \<Rightarrow> bind_op (get_op default_plan) (\<lambda>plan.
         case plan of None \<Rightarrow> return_op True
         | Some p \<Rightarrow> (case owner of
             None \<Rightarrow> return_op False
           | Some owner_id \<Rightarrow>
               bind_op (add_subscription
                 (new_subscription now new_id owner_id p subscription_id resource_type resource_id))
                 (\<lambda>_. return_op True))))"

definition transaction_event :: "string \<Rightarrow> instant \<Rightarrow> uuid \<Rightarrow> json \<Rightarrow> tasks op" where
  "transaction_event unknown_id now new_id data =
     bind_op (lift_op (json_get data ''custom_data'' (JObj []))) (\<lambda>custom_data.
     bind_op (lift_op (json_get custom_data ''resource_type'' (JStr ''minecraft_server''))) (\<lambda>resource_type.
     bind_op (lift_op (resource_id_from_custom_data resource_type custom_data)) (\<lambda>resource_id_str.
     bind_op (lift_op (json_get data ''subscription_id'' JNull)) (\<lambda>subscription_id.
     if \<not> json_truthy resource_id_str then claim_only
     else
       bind_op (lift_op (uuid_of_json resource_id_str)) (\<lambda>parsed.
       case parsed of None \<Rightarrow> claim_only | Some resource_id \<Rightarrow>
       bind_op (lift_op (json_text resource_type)) (\<lambda>resource_type.
       bind_op (get_op (\<lambda>s. get_billable_resource (ses_objects s) resource_type resource_id)) (\<lambda>resource.
       case resource of None \<Rightarrow> claim_only | Some res \<Rightarrow>
       bind_op (if json_truthy subscription_id then
           bind_op (lift_op (json_text subscription_id)) (\<lambda>subscription_id.
           bind_op (get_op (\<lambda>s. resource_owner_id (ses_objects s) res)) (\<lambda>owner.
           completed_subscription now new_id subscription_id resource_type resource_id owner))
         else return_op True) (\<lambda>owned.
       bind_op (lift_op (json_get data ''id'' (JStr unknown_id))) (\<lambda>transaction_id.
       bind_op (lift_op (json_key transaction_id)) (\<lambda>transaction_id.
       bind_op (get_op (\<lambda>s. first_row (filter (\<lambda>t. Some (tx_provider_order_id t) = transaction_id)
           (db_transactions (ses_flushed s))))) (\<lambda>existing_tx.
       case existing_tx of
         None \<Rightarrow> raise_op (if json_truthy subscription_id then AttributeError else NameError)
       | Some _ \<Rightarrow> bind_op (if owned then commit_op else raise_op IntegrityError)
           (\<lambda>_. return_op [(resource_type, resource_id)]))))))))))))"

definition paddle_event :: "string \<Rightarrow> instant \<Rightarrow> uuid \<Rightarrow> string \<Rightarrow> json \<Rightarrow> tasks op" where
  "paddle_event unknown_id now new_id event_type data =
     (if event_type \<in> {''subscription.created'', ''subscription.updated'', ''subscription.canceled''}
        then subscription_event now new_id event_type data
      else if event_type = ''transaction.completed''
        then transaction_event unknown_id now new_id data
      else return_op [])"

definition paddle_webhook ::
  "(string \<Rightarrow> string \<Rightarrow> string) \<Rightarrow> (string \<Rightarrow> json option) \<Rightarrow> settings \<Rightarrow> string \<Rightarrow> instant \<Rightarrow> uuid \<Rightarrow>
   string \<Rightarrow> string \<Rightarrow> tasks op" where
  "paddle_webhook hmac_hex json_loads cfg unknown_id now new_id signature_header body =
     (if \<not> verify_paddle_signature hmac_hex signature_header body (cfg_paddle_webhook_secret cfg)
      then raise_op (HTTPException 401)
      else case json_loads body of None \<Rightarrow> raise_op (HTTPException 400) | Some payload \<Rightarrow>
        bind_op (lift_op (json_get payload ''event_id'' JNull)) (\<lambda>event_id.
        bind_op (lift_op (json_get payload ''event_type'' JNull)) (\<lambda>event_type.
        if \<not> json_truthy event_id \<or> \<not> json_truthy event_type then return_op []
        else
          bind_op (lift_op (json_text event_id)) (\<lambda>event_id.
          bind_op (get_op (\<lambda>s. get_row wh_event_id event_id (db_webhook_events (ses_objects s)))) (\<lambda>existing.
          case existing of Some _ \<Rightarrow> return_op [] | None \<Rightarrow>
          case event_type of
            JStr event_type \<Rightarrow>
              bind_op (modify_op (set_objects (\<lambda>db. db\<lparr>db_webhook_events := db_webhook_events db @
                [\<lparr>wh_event_id = event_id, wh_provider = ''paddle'', wh_event_type = event_type,
                  wh_processed_at = now\<rparr>]\<rparr>))) (\<lambda>_.
              bind_op (lift_op (json_get payload ''data'' (JObj []))) (\<lambda>data.
              paddle_event unknown_id now new_id event_type data))
          | _ \<Rightarrow> return_op [])))))"

section \<open>The Paddle checkout\<close>

text \<open>
  \<open>paddle_post\<close> is the request to \<open>/transactions\<close> at a base URL, with the price and the custom data:
  the status and the parsed body of the answer, or an exception of the client.
\<close>

definition resource_types :: "string set" where
  "resource_types = {''minecraft_server'', ''app_deployment'', ''database_instance''}"

definition paddle_price_id :: "plan \<Rightarrow> string" where
  "paddle_price_id plan = (case bp_provider_price_id plan of
     Some p \<Rightarrow> if p = [] then bp_id plan else p | None \<Rightarrow> bp_id plan)"

definition generate_paddle_checkout ::
  "(string \<Rightarrow> string \<Rightarrow> json dict \<Rightarrow> exn + nat \<times> json) \<Rightarrow> settings \<Rightarrow> string \<Rightarrow> uuid \<Rightarrow> string \<Rightarrow> user \<Rightarrow> json op" where
  "generate_paddle_checkout paddle_post cfg resource_type resource_id plan_id user =
     bind_op (get_op (\<lambda>s. get_billable_resource (ses_objects s) resource_type resource_id)) (\<lambda>resource.
     case resource of
       None \<Rightarrow> raise_op (HTTPException (if resource_type \<notin> resource_types then 400 else 404))
     | Some r \<Rightarrow>
         bind_op (get_op (\<lambda>s. resource_belongs_to_user (ses_objects s) r user)) (\<lambda>owned.
         if \<not> owned then raise_op (HTTPException 404)
         else if resource_type \<notin> resource_types then raise_op (HTTPException 400)
         else
           bind_op (get_op (\<lambda>s. get_plan (ses_objects s) plan_id)) (\<lambda>plan.
           case plan of
             None \<Rightarrow> raise_op (HTTPException 404)
           | Some p \<Rightarrow>
               if \<not> bp_active p then raise_op (HTTPException 404)
               else if cfg_paddle_api_key cfg = [] then raise_op (HTTPException 500)
               else if \<not> py_startswith (paddle_price_id p) ''pri_'' then raise_op (HTTPException 500)
               else
                 bind_op (lift_op (paddle_post
                   (if cfg_paddle_env cfg = ''sandbox'' then ''https://sandbox-api.paddle.com''
                    else ''https://api.paddle.com'')
                   (paddle_price_id p) (custom_data_for_resource resource_type resource_id))) (\<lambda>(status, body).
                 if 400 \<le> status then raise_op (HTTPException 400)
                 else
                   bind_op (lift_op (json_get body ''data'' (JObj []))) (\<lambda>data.
                   bind_op (lift_op (json_get data ''checkout'' (JObj []))) (\<lambda>checkout.
                   bind_op (lift_op (json_get checkout ''url'' JNull)) (\<lambda>url.
                   if \<not> json_truthy url then raise_op (HTTPException 500) else return_op url)))))))"

section \<open>Events\<close>

text \<open>
  What a delivery says: its signature holds, and the parsed body has an event identifier, an event
  type and data; and the resource the data's custom data name.
\<close>

definition genuine ::
  "(string \<Rightarrow> string \<Rightarrow> string) \<Rightarrow> (string \<Rightarrow> json option) \<Rightarrow> settings \<Rightarrow> string \<Rightarrow> string \<Rightarrow>
   string \<Rightarrow> string \<Rightarrow> json \<Rightarrow> bool" where
  "genuine hmac_hex json_loads cfg signature_header body event_id event_type data \<longleftrightarrow>
     verify_paddle_signature hmac_hex signature_header body (cfg_paddle_webhook_secret cfg) \<and>
     event_id \<noteq> [] \<and> event_type \<noteq> [] \<and>
     (case json_loads body of None \<Rightarrow> False | Some payload \<Rightarrow>
        json_get payload ''event_id'' JNull = Inr (JStr event_id) \<and>
        json_get payload ''event_type'' JNull = Inr (JStr event_type) \<and>
        json_get payload ''data'' (JObj []) = Inr data)"

definition names_resource :: "json \<Rightarrow> string \<Rightarrow> uuid \<Rightarrow> bool" where
  "names_resource data resource_type resource_id \<longleftrightarrow>
     (case json_get data ''custom_data'' (JObj []) of Inl _ \<Rightarrow> False | Inr custom_data \<Rightarrow>
        json_get custom_data ''resource_type'' (JStr ''minecraft_server'') = Inr (JStr resource_type) \<and>
        (case resource_id_from_custom_data (JStr resource_type) custom_data of
           Inr (JStr t) \<Rightarrow> t \<noteq> [] \<and> parse_uuid t = Some resource_id | _ \<Rightarrow> False))"

definition new_event :: "instant \<Rightarrow> string \<Rightarrow> string \<Rightarrow> webhook_event" where
  "new_event now event_id event_type =
     \<lparr>wh_event_id = event_id, wh_provider = ''paddle'', wh_event_type = event_type, wh_processed_at = now\<rparr>"

definition claim_event :: "instant \<Rightarrow> string \<Rightarrow> string \<Rightarrow> database \<Rightarrow> database" where
  "claim_event now event_id event_type db =
     db\<lparr>db_webhook_events := db_webhook_events db @ [new_event now event_id event_type]\<rparr>"

definition fresh_event :: "database \<Rightarrow> string \<Rightarrow> bool" where
  "fresh_event db event_id \<longleftrightarrow> get_row wh_event_id event_id (db_webhook_events db) = None"

lemma claim_event_sel [simp]:
  "db_servers (claim_event now e t db) = db_servers db"
  "db_subscriptions (claim_event now e t db) = db_subscriptions db"
  "db_transactions (claim_event now e t db) = db_transactions db"
  "db_plans (claim_event now e t db) = db_plans db"
  "get_billable_resource (claim_event now e t db) rt i = get_billable_resource db rt i"
  "resource_owner_id (claim_event now e t db) r = resource_owner_id db r"
  "get_server (claim_event now e t db) i = get_server db i"
  by (simp_all add: claim_event_def get_billable_resource_def get_server_def get_deployment_def
      get_instance_def resource_owner_id_def split: billable.split)

lemma constraints_claim [simp]: "constraints_ok (claim_event now e t db) = constraints_ok db"
  by (simp add: constraints_ok_def claim_event_def)

lemma paddle_webhook_parsed:
  assumes "verify_paddle_signature hmac_hex sig body (cfg_paddle_webhook_secret cfg)"
    and "json_loads body = Some payload"
    and "json_get payload ''event_id'' JNull = Inr i" "json_get payload ''event_type'' JNull = Inr t"
    and "json_get payload ''data'' (JObj []) = Inr data"
  shows "paddle_webhook hmac_hex json_loads cfg unknown_id now new_id sig body (open_session db) =
    (if \<not> json_truthy i \<or> \<not> json_truthy t then (Inr [], open_session db)
     else case json_text i of Inl e \<Rightarrow> (Inl e, open_session db)
     | Inr eid \<Rightarrow>
         if \<not> fresh_event db eid then (Inr [], open_session db)
         else (case t of
             JStr et \<Rightarrow> paddle_event unknown_id now new_id et data
               (set_objects (claim_event now eid et) (open_session db))
           | _ \<Rightarrow> (Inr [], open_session db)))"
proof -
  have c: "set_objects (\<lambda>db. db\<lparr>db_webhook_events := db_webhook_events db @
      [\<lparr>wh_event_id = eid, wh_provider = ''paddle'', wh_event_type = et, wh_processed_at = now\<rparr>]\<rparr>) s =
      set_objects (claim_event now eid et) s" for s eid et
    by (simp add: set_objects_def claim_event_def new_event_def)
  show ?thesis
    using assms
    by (simp add: paddle_webhook_def op_steps return_op_def raise_op_def fresh_event_def c
        split: sum.split option.split json.split)
qed

lemma paddle_dispatch:
  assumes "genuine hmac_hex json_loads cfg sig body eid et data" "fresh_event db eid"
  shows "paddle_webhook hmac_hex json_loads cfg unknown_id now new_id sig body (open_session db) =
    paddle_event unknown_id now new_id et data (set_objects (claim_event now eid et) (open_session db))"
proof -
  obtain payload where p: "json_loads body = Some payload"
    "json_get payload ''event_id'' JNull = Inr (JStr eid)" "eid \<noteq> []"
    "json_get payload ''event_type'' JNull = Inr (JStr et)" "et \<noteq> []"
    "json_get payload ''data'' (JObj []) = Inr data"
    "verify_paddle_signature hmac_hex sig body (cfg_paddle_webhook_secret cfg)"
    using assms(1) by (auto simp: genuine_def split: option.splits)
  show ?thesis
    using paddle_webhook_parsed [of hmac_hex sig body cfg json_loads payload "JStr eid" "JStr et" data] p assms(2)
    by (simp add: json_text_def)
qed

lemma accepted_delivery:
  assumes "run_request (paddle_webhook hmac_hex json_loads cfg unknown_id now new_id sig body) db = (Inr tasks, db')"
  obtains payload i t data where
    "verify_paddle_signature hmac_hex sig body (cfg_paddle_webhook_secret cfg)"
    "json_loads body = Some payload"
    "json_get payload ''event_id'' JNull = Inr i" "json_get payload ''event_type'' JNull = Inr t"
    "json_get payload ''data'' (JObj []) = Inr data"
proof -
  have v: "verify_paddle_signature hmac_hex sig body (cfg_paddle_webhook_secret cfg)"
    using assms by (cases "verify_paddle_signature hmac_hex sig body (cfg_paddle_webhook_secret cfg)")
      (simp_all add: paddle_webhook_def run_request_def raise_op_def)
  obtain payload where p: "json_loads body = Some payload"
    using assms v by (cases "json_loads body") (simp_all add: paddle_webhook_def run_request_def raise_op_def)
  obtain i where i: "json_get payload ''event_id'' JNull = Inr i"
    using assms v p by (cases "json_get payload ''event_id'' JNull")
      (simp_all add: paddle_webhook_def run_request_def op_steps raise_op_def)
  obtain kvs where "payload = JObj kvs" using i by (auto simp: json_get_def split: json.splits)
  then have "\<exists>t. json_get payload ''event_type'' JNull = Inr t" "\<exists>d. json_get payload ''data'' (JObj []) = Inr d"
    by (simp_all add: json_get_def)
  then show thesis using that v p i by blast
qed

text \<open>What a part of the handler that does not commit keeps.\<close>

lemma keeps_set_subscription: "(\<And>s. P s \<Longrightarrow> P (set_objects (\<lambda>db.
     db\<lparr>db_subscriptions := modify_row sub_id i f (db_subscriptions db)\<rparr>) s)) \<Longrightarrow> keeps P (set_subscription i f)"
  unfolding set_subscription_def by (rule keeps_modify)

lemma keeps_add_subscription: "(\<And>s. P s \<Longrightarrow> P (set_objects (\<lambda>db.
     db\<lparr>db_subscriptions := db_subscriptions db @ [r]\<rparr>) s)) \<Longrightarrow> keeps P (add_subscription r)"
  unfolding add_subscription_def by (rule keeps_modify)

lemma completed_subscription_pending:
  "keeps (\<lambda>s. ses_committed s = db \<and> db_transactions (ses_flushed s) = ts)
     (completed_subscription now new_id subscription_id rt rid owner)"
  unfolding completed_subscription_def
  by (intro op_rules keeps_set_subscription keeps_add_subscription) simp_all

lemma completed_subscription_total:
  "\<exists>owned t. completed_subscription now new_id subscription_id rt rid owner s = (Inr owned, t)"
  by (auto simp: completed_subscription_def op_defs set_subscription_def add_subscription_def split: option.split)

lemma transaction_event_eq:
  assumes "names_resource data rt rid" "get_billable_resource (ses_objects s) rt rid = Some res"
    and "json_get data ''subscription_id'' JNull = Inr subscription_id"
  shows "transaction_event unknown_id now new_id data s =
    bind_op (if json_truthy subscription_id then
           bind_op (lift_op (json_text subscription_id)) (\<lambda>subscription_id.
           bind_op (get_op (\<lambda>s. resource_owner_id (ses_objects s) res)) (\<lambda>owner.
           completed_subscription now new_id subscription_id rt rid owner))
         else return_op True) (\<lambda>owned.
       bind_op (lift_op (json_get data ''id'' (JStr unknown_id))) (\<lambda>transaction_id.
       bind_op (lift_op (json_key transaction_id)) (\<lambda>transaction_id.
       bind_op (get_op (\<lambda>s. first_row (filter (\<lambda>t. Some (tx_provider_order_id t) = transaction_id)
           (db_transactions (ses_flushed s))))) (\<lambda>existing_tx.
       case existing_tx of
         None \<Rightarrow> raise_op (if json_truthy subscription_id then AttributeError else NameError)
       | Some _ \<Rightarrow> bind_op (if owned then commit_op else raise_op IntegrityError)
           (\<lambda>_. return_op [(rt, rid)]))))) s"
proof -
  obtain cd t where d: "json_get data ''custom_data'' (JObj []) = Inr cd"
    "json_get cd ''resource_type'' (JStr ''minecraft_server'') = Inr (JStr rt)"
    "resource_id_from_custom_data (JStr rt) cd = Inr (JStr t)" "t \<noteq> []" "parse_uuid t = Some rid"
    using assms(1) by (auto simp: names_resource_def split: sum.splits json.splits)
  show ?thesis
    unfolding transaction_event_def using d assms(2,3)
    by (simp add: op_steps uuid_of_json_def json_text_def)
qed

lemma no_transaction_fails:
  assumes "ses_committed s = db" "db_transactions (ses_flushed s) = db_transactions db"
    and "\<forall>t \<in> set (db_transactions db). json_get data ''id'' (JStr unknown_id) \<noteq> Inr (JStr (tx_provider_order_id t))"
  shows "\<exists>e s'. e \<in> {AttributeError, NameError, TypeError} \<and>
    bind_op (lift_op (json_get data ''id'' (JStr unknown_id))) (\<lambda>transaction_id.
       bind_op (lift_op (json_key transaction_id)) (\<lambda>transaction_id.
       bind_op (get_op (\<lambda>s. first_row (filter (\<lambda>t. Some (tx_provider_order_id t) = transaction_id)
           (db_transactions (ses_flushed s))))) (\<lambda>existing_tx.
       case existing_tx of
         None \<Rightarrow> raise_op (if b then AttributeError else NameError)
       | Some _ \<Rightarrow> bind_op (if owned then commit_op else raise_op IntegrityError)
           (\<lambda>_. return_op [(rt, rid)])))) s = (Inl e, s') \<and> ses_committed s' = db"
proof (cases "json_get data ''id'' (JStr unknown_id)")
  case (Inl e)
  then have "e = AttributeError" by (auto simp: json_get_def split: json.splits)
  with Inl assms(1) show ?thesis by (auto simp: bind_op_def lift_op_def)
next
  case (Inr j)
  show ?thesis
  proof (cases "json_key j")
    case (Inl e)
    then have "e = TypeError" by (auto simp: json_key_def split: json.splits)
    with Inl Inr assms(1) show ?thesis by (auto simp: bind_op_def lift_op_def)
  next
    case key: (Inr k)
    have "\<forall>t \<in> set (db_transactions db). Some (tx_provider_order_id t) \<noteq> k"
      using Inr key assms(3) by (auto simp: json_key_def split: json.splits)
    then have "filter (\<lambda>t. Some (tx_provider_order_id t) = k) (db_transactions db) = []"
      by (simp add: filter_empty_conv)
    with Inr key assms(1,2) show ?thesis
      by (auto simp: bind_op_def lift_op_def get_op_def raise_op_def)
  qed
qed

text \<open>
  C25: A completed Paddle payment is never recorded: when a genuine event reports a completed
  transaction for a resource that exists, and the transaction is not recorded yet, the webhook
  fails and commits nothing, not even the claim of the event, so that the delivery of the same event
  is repeated and fails again.
\<close>

theorem completed_payment_is_never_recorded:
  assumes "genuine hmac_hex json_loads cfg sig body eid ''transaction.completed'' data"
    and "fresh_event db eid" "names_resource data rt rid" "get_billable_resource db rt rid = Some res"
    and "\<forall>t \<in> set (db_transactions db). json_get data ''id'' (JStr unknown_id) \<noteq> Inr (JStr (tx_provider_order_id t))"
  shows "\<exists>e \<in> {AttributeError, NameError, TypeError}.
    run_request (paddle_webhook hmac_hex json_loads cfg unknown_id now new_id sig body) db = (Inl e, db)"
proof -
  let ?s = "set_objects (claim_event now eid ''transaction.completed'') (open_session db)"
  obtain subid where subid: "json_get data ''subscription_id'' JNull = Inr subid"
    using assms(3) by (auto simp: names_resource_def json_get_def split: json.splits sum.splits)
  have run: "paddle_webhook hmac_hex json_loads cfg unknown_id now new_id sig body (open_session db) =
      transaction_event unknown_id now new_id data ?s"
    using paddle_dispatch [OF assms(1,2)] by (simp add: paddle_event_def)
  have res: "get_billable_resource (ses_objects ?s) rt rid = Some res" using assms(4) by simp
  note eq = transaction_event_eq [OF assms(3) res subid, of unknown_id now new_id]
  have "\<exists>e s'. e \<in> {AttributeError, NameError, TypeError} \<and>
      transaction_event unknown_id now new_id data ?s = (Inl e, s') \<and> ses_committed s' = db"
  proof (cases "json_truthy subid")
    case False
    then show ?thesis
      unfolding eq
      using no_transaction_fails [OF _ _ assms(5), of ?s False True rt rid] by simp
  next
    case True
    show ?thesis
    proof (cases "json_text subid")
      case (Inl e)
      then have "e = TypeError" by (auto simp: json_text_def split: json.splits)
      with True Inl show ?thesis unfolding eq by (auto simp: bind_op_def lift_op_def)
    next
      case (Inr t)
      let ?m = "completed_subscription now new_id t rt rid (resource_owner_id db res)"
      obtain owned s1 where c: "?m ?s = (Inr owned, s1)"
        using completed_subscription_total by blast
      have kept: "ses_committed s1 = db \<and> db_transactions (ses_flushed s1) = db_transactions db"
        by (rule keepsD [OF completed_subscription_pending _ c]) simp
      let ?sub = "if json_truthy subid then
           bind_op (lift_op (json_text subid)) (\<lambda>subscription_id.
           bind_op (get_op (\<lambda>s. resource_owner_id (ses_objects s) res)) (\<lambda>owner.
           completed_subscription now new_id subscription_id rt rid owner))
         else return_op True"
      have "?sub ?s = (Inr owned, s1)" using True Inr c by (simp add: op_steps)
      then show ?thesis
        unfolding eq bind_op_def [of ?sub]
        using no_transaction_fails [OF _ _ assms(5), of s1 True owned rt rid] kept True by simp
    qed
  qed
  then show ?thesis by (auto simp: run_request_def run)
qed

section \<open>Redelivery\<close>

lemma claim_only_claims:
  "triple (\<lambda>s. P (ses_objects s)) claim_only (\<lambda>_ s. P (ses_committed s)) (\<lambda>_ _. True)"
  unfolding claim_only_def by (rule triple_bind, rule triple_commit [where Q = "\<lambda>_ s. P (ses_committed s)"])
    (auto intro: triple_return)

lemma commit_return_claims:
  "triple (\<lambda>s. P (ses_objects s)) (bind_op commit_op (\<lambda>_. return_op a)) (\<lambda>_ s. P (ses_committed s)) (\<lambda>_ _. True)"
  by (rule triple_bind, rule triple_commit [where Q = "\<lambda>_ s. P (ses_committed s)"])
    (auto intro: triple_return)

lemma raise_claims: "triple P (raise_op e) Q (\<lambda>_ _. True)"
  by (rule triple_raise) simp

lemmas claims_intros = claim_only_claims [where P = "\<lambda>db. \<not> fresh_event db eid" for eid]
  commit_return_claims [where P = "\<lambda>db. \<not> fresh_event db eid" for eid] raise_claims

lemma fresh_stop_resource [simp]:
  "fresh_event (stop_resource rt rid db) eid = fresh_event db eid"
  "fresh_event (db\<lparr>db_subscriptions := subs\<rparr>) eid = fresh_event db eid"
  by (simp_all add: fresh_event_def stop_resource_def upd_server_def upd_deployment_def upd_instance_def)

lemma subscription_change_claims:
  "triple (\<lambda>s. \<not> fresh_event (ses_objects s) eid)
     (subscription_change now new_id et status subid rt rid owner)
     (\<lambda>_ s. \<not> fresh_event (ses_committed s) eid) (\<lambda>_ _. True)"
  unfolding subscription_change_def
  by (intro triple_steps op_rules claims_intros TrueI
      keeps_set_subscription keeps_add_subscription keeps_modify) simp_all

lemma subscription_event_claims:
  "triple (\<lambda>s. \<not> fresh_event (ses_objects s) eid) (subscription_event now new_id et data)
     (\<lambda>_ s. \<not> fresh_event (ses_committed s) eid) (\<lambda>_ _. True)"
  unfolding subscription_event_def
  by (intro triple_steps op_rules claims_intros TrueI
      subscription_change_claims)

lemma completed_subscription_fresh:
  "keeps (\<lambda>s. \<not> fresh_event (ses_objects s) eid) (completed_subscription now new_id subid rt rid owner)"
  unfolding completed_subscription_def
  by (intro op_rules keeps_set_subscription keeps_add_subscription) simp_all

lemma transaction_event_claims:
  "triple (\<lambda>s. \<not> fresh_event (ses_objects s) eid) (transaction_event unknown_id now new_id data)
     (\<lambda>_ s. \<not> fresh_event (ses_committed s) eid) (\<lambda>_ _. True)"
proof -
  have "triple (\<lambda>s. \<not> fresh_event (ses_objects s) eid)
      (bind_op (if b then commit_op else raise_op IntegrityError) (\<lambda>_. return_op a))
      (\<lambda>_ s. \<not> fresh_event (ses_committed s) eid) (\<lambda>_ _. True)" for b and a :: tasks
    by (cases b) (simp_all add: claims_intros)
  note finish = this
  show ?thesis
    unfolding transaction_event_def
    by (intro finish triple_steps op_rules claims_intros TrueI
        completed_subscription_fresh)
qed

lemma paddle_event_claims:
  assumes "et \<in> {''subscription.created'', ''subscription.updated'', ''subscription.canceled'', ''transaction.completed''}"
  shows "triple (\<lambda>s. \<not> fresh_event (ses_objects s) eid) (paddle_event unknown_id now new_id et data)
     (\<lambda>_ s. \<not> fresh_event (ses_committed s) eid) (\<lambda>_ _. True)"
  using assms subscription_event_claims transaction_event_claims by (auto simp: paddle_event_def)

lemma fresh_claim_event: "\<not> fresh_event (claim_event now eid et db) eid"
  by (auto simp: fresh_event_def claim_event_def new_event_def get_row_None)

text \<open>
  C26: Paddle may deliver an event any number of times: once a delivery has been answered with ok,
  delivering it again changes nothing in the database and schedules no provisioning.
\<close>

theorem redelivery_changes_nothing:
  assumes "run_request (paddle_webhook hmac_hex json_loads cfg unknown_id now new_id sig body) db = (Inr tasks, db')"
  shows "run_request (paddle_webhook hmac_hex json_loads cfg unknown_id' now' new_id' sig body) db' = (Inr [], db')"
proof -
  let ?hook = "paddle_webhook hmac_hex json_loads cfg"
  obtain payload i t data where d: "verify_paddle_signature hmac_hex sig body (cfg_paddle_webhook_secret cfg)"
    "json_loads body = Some payload"
    "json_get payload ''event_id'' JNull = Inr i" "json_get payload ''event_type'' JNull = Inr t"
    "json_get payload ''data'' (JObj []) = Inr data"
    using assms by (rule accepted_delivery)
  note run = paddle_webhook_parsed [where hmac_hex = hmac_hex and json_loads = json_loads and cfg = cfg, OF d]
  have known: "run_request (?hook u n k sig body) db' = (Inr [], db')"
    if "i = JStr eid" "\<not> fresh_event db' eid" for u n k eid
    using that by (simp add: run_request_def run json_text_def)
  have idle: ?thesis if "\<And>u n k. run_request (?hook u n k sig body) db = (Inr [], db)"
    using that assms by simp
  show ?thesis
  proof (cases "json_truthy i \<and> json_truthy t")
    case False
    then show ?thesis by (intro idle) (auto simp: run_request_def run)
  next
    case True
    then obtain eid where eid: "i = JStr eid"
      using assms by (cases i) (simp_all add: run_request_def run json_text_def)
    show ?thesis
    proof (cases "fresh_event db eid")
      case False
      with True eid show ?thesis by (intro idle) (simp add: run_request_def run json_text_def)
    next
      case fresh: True
      show ?thesis
      proof (cases t)
        case (JStr et)
        have step: "?hook u n k sig body (open_session db) =
            paddle_event u n k et data (set_objects (claim_event n eid et) (open_session db))" for u n k
          using True fresh eid JStr by (simp add: run json_text_def)
        show ?thesis
        proof (cases "et \<in> {''subscription.created'', ''subscription.updated'', ''subscription.canceled'', ''transaction.completed''}")
          case False
          then show ?thesis by (intro idle) (simp add: run_request_def step paddle_event_def return_op_def)
        next
          case handled: True
          obtain s where s: "paddle_event unknown_id now new_id et data
              (set_objects (claim_event now eid et) (open_session db)) = (Inr tasks, s)" "db' = ses_committed s"
            using assms unfolding run_request_def step by (simp split: prod.splits)
          have "\<not> fresh_event (ses_committed s) eid"
            by (rule triple_Inr [OF paddle_event_claims [OF handled] _ s(1)]) (simp add: fresh_claim_event)
          with known eid s(2) show ?thesis by simp
        qed
      qed (use True fresh eid in \<open>intro idle, simp add: run_request_def run json_text_def\<close>)+
    qed
  qed
qed

section \<open>Renewals\<close>

text \<open>The expiries of the subscriptions of a server.\<close>

definition expiries :: "uuid \<Rightarrow> database \<Rightarrow> instant list" where
  "expiries sid db = map sub_expires_at (filter (\<lambda>r. sub_server_id r = Some sid) (db_subscriptions db))"

definition same_expiries :: "uuid \<Rightarrow> instant list \<Rightarrow> session \<Rightarrow> bool" where
  "same_expiries sid es s \<longleftrightarrow> expiries sid (ses_committed s) = es \<and> expiries sid (ses_flushed s) = es \<and>
     expiries sid (ses_objects s) = es"

lemma expiries_modify:
  assumes "\<And>r. sub_server_id (f r) = sub_server_id r" "\<And>r. sub_expires_at (f r) = sub_expires_at r"
  shows "expiries sid (db\<lparr>db_subscriptions := modify_row sub_id i f (db_subscriptions db)\<rparr>) = expiries sid db"
proof -
  have "map sub_expires_at (filter (\<lambda>r. sub_server_id r = Some sid) (modify_row sub_id i f rows)) =
      map sub_expires_at (filter (\<lambda>r. sub_server_id r = Some sid) rows)" for rows
    by (induction rows) (simp_all add: modify_row_def assms)
  then show ?thesis by (simp add: expiries_def)
qed

lemma expiries_other [simp]:
  "expiries sid (claim_event now e t db) = expiries sid db"
  "expiries sid (stop_resource rt rid db) = expiries sid db"
  by (simp_all add: expiries_def stop_resource_def upd_server_def upd_deployment_def upd_instance_def)

lemma relink_sel [simp]:
  "sub_server_id (relink now st k r) = sub_server_id r" "sub_expires_at (relink now st k r) = sub_expires_at r"
  "sub_id (relink now st k r) = sub_id r" "sub_resource_id (relink now st k r) = sub_resource_id r"
  "sub_resource_type (relink now st k r) = sub_resource_type r"
  "sub_status (relink now st k r) = st" "sub_provider_subscription_id (relink now st k r) = Some k"
  "sub_plan_id (relink now st k r) = sub_plan_id r"
  by (auto simp: relink_def)

lemma keeps_expiries_set:
  "keeps (same_expiries sid es) (set_subscription i (relink now st k))"
  by (rule keeps_set_subscription) (simp add: same_expiries_def expiries_modify)

lemma keeps_expiries_add:
  "sub_server_id r \<noteq> Some sid \<Longrightarrow> keeps (same_expiries sid es) (add_subscription r)"
  by (rule keeps_add_subscription) (simp add: same_expiries_def expiries_def)

lemma keeps_expiries_modify:
  "(\<And>db. expiries sid (f db) = expiries sid db) \<Longrightarrow> keeps (same_expiries sid es) (modify_op (set_objects f))"
  by (rule keeps_modify) (simp add: same_expiries_def)

lemma keeps_expiries_commit: "keeps (same_expiries sid es) commit_op"
  by (rule keeps_commit) (simp add: same_expiries_def)

lemma keeps_expiries_claim: "keeps (same_expiries sid es) claim_only"
  unfolding claim_only_def by (intro op_rules keeps_expiries_commit)

text \<open>A server with a subscription never gets another one from the webhook.\<close>

lemma find_subscription_total:
  assumes "same_expiries sid es s" "es \<noteq> []"
  shows "find_subscription k ''minecraft_server'' sid s \<noteq> None"
proof -
  have "filter (\<lambda>r. sub_server_id r = Some sid) (db_subscriptions (ses_flushed s)) \<noteq> []"
    using assms unfolding same_expiries_def expiries_def by (metis list.simps(8))
  then obtain r where r: "r \<in> set (db_subscriptions (ses_flushed s))" "sub_server_id r = Some sid"
    unfolding filter_empty_conv by blast
  let ?rows = "sort_key (\<lambda>r. - sub_created_at r)
      (filter (of_resource ''minecraft_server'' sid) (db_subscriptions (ses_flushed s)))"
  have "of_resource ''minecraft_server'' sid r" using r(2) unfolding of_resource_def by blast
  with r(1) have "r \<in> set ?rows" unfolding set_sort set_filter by blast
  then have "first_row ?rows \<noteq> None" unfolding first_row_None by (metis list.set(1) empty_iff)
  then show ?thesis
    unfolding find_subscription_def by (metis (no_types, lifting) option.case_eq_if option.simps(3) option.collapse)
qed

lemma keeps_expiries_find:
  assumes "es \<noteq> []" "\<And>r. keeps (same_expiries sid es) (k (Some r))"
    and "\<not> (rt = ''minecraft_server'' \<and> rid = sid) \<Longrightarrow> keeps (same_expiries sid es) (k None)"
  shows "keeps (same_expiries sid es) (bind_op (get_op (find_subscription subid rt rid)) k)"
proof (rule keepsI)
  fix s r s'
  assume P: "same_expiries sid es s"
    and run: "bind_op (get_op (find_subscription subid rt rid)) k s = (r, s')"
  let ?sub = "find_subscription subid rt rid s"
  have "keeps (same_expiries sid es) (k ?sub)"
  proof (cases ?sub)
    case None
    then have "\<not> (rt = ''minecraft_server'' \<and> rid = sid)"
      using find_subscription_total [OF P assms(1), of subid] by blast
    with None assms(3) show ?thesis by simp
  next
    case (Some r)
    with assms(2) show ?thesis by simp
  qed
  moreover have "k ?sub s = (r, s')" using run by (simp add: bind_get_op)
  ultimately show "same_expiries sid es s'" using keepsD [of "same_expiries sid es" "k ?sub" s r s'] P by blast
qed

lemma new_subscription_server:
  "\<not> (rt = ''minecraft_server'' \<and> rid = sid) \<Longrightarrow>
   sub_server_id (new_subscription now new_id owner p k rt rid) \<noteq> Some sid"
  by (auto simp: new_subscription_def)

lemmas expiries_rules = op_rules keeps_expiries_set keeps_expiries_add keeps_expiries_commit
  keeps_expiries_claim new_subscription_server

lemma subscription_event_expiries:
  assumes "es \<noteq> []"
  shows "keeps (same_expiries sid es) (subscription_event now new_id et data)"
proof -
  have "keeps (same_expiries sid es) (subscription_change now new_id et status k rt rid owner)" for status k rt rid owner
    unfolding subscription_change_def
    by (rule keeps_expiries_find [OF assms], unfold option.case)
      (intro expiries_rules keeps_expiries_modify; simp)+
  note change = this
  show ?thesis
    unfolding subscription_event_def by (intro change expiries_rules)
qed

lemma transaction_event_expiries:
  assumes "es \<noteq> []"
  shows "keeps (same_expiries sid es) (transaction_event unknown_id now new_id data)"
proof -
  have "keeps (same_expiries sid es) (completed_subscription now new_id k rt rid owner)" for k rt rid owner
    unfolding completed_subscription_def
    by (rule keeps_expiries_find [OF assms], unfold option.case) (intro expiries_rules; simp)+
  note completed = this
  show ?thesis
    unfolding transaction_event_def by (intro completed expiries_rules)
qed

lemma paddle_webhook_expiries:
  assumes "es \<noteq> []"
  shows "keeps (same_expiries sid es) (paddle_webhook hmac_hex json_loads cfg unknown_id now new_id sig body)"
proof -
  have event: "keeps (same_expiries sid es) (paddle_event unknown_id now new_id et data)" for et data
    unfolding paddle_event_def
    by (intro op_rules subscription_event_expiries transaction_event_expiries assms)
  have j: "keeps P (case t of JStr et \<Rightarrow> k et | _ \<Rightarrow> return_op a)" if "\<And>et. keeps P (k et)"
    for P and k :: "string \<Rightarrow> tasks op" and t a
    using that by (cases t) (simp_all add: keeps_return)
  have claim: "keeps (same_expiries sid es) (modify_op (set_objects (\<lambda>db. db\<lparr>db_webhook_events := f db\<rparr>)))" for f
    by (rule keeps_expiries_modify) (simp add: expiries_def)
  show ?thesis
    unfolding paddle_webhook_def by (intro j event claim op_rules)
qed

text \<open>
  The life of the database under the webhook and the periodic pass, in any order.
\<close>

inductive paddle_life ::
  "(string \<Rightarrow> string \<Rightarrow> string) \<Rightarrow> (string \<Rightarrow> json option) \<Rightarrow> database \<Rightarrow> database \<Rightarrow> bool"
  for hmac_hex json_loads db0 where
  start: "paddle_life hmac_hex json_loads db0 db0"
| delivered: "paddle_life hmac_hex json_loads db0 db \<Longrightarrow>
    run_request (paddle_webhook hmac_hex json_loads cfg unknown_id now new_id sig body) db = (r, db') \<Longrightarrow>
    paddle_life hmac_hex json_loads db0 db'"
| expired: "paddle_life hmac_hex json_loads db0 db \<Longrightarrow>
    process_subscription_expirations cfg now locked db = (x, db') \<Longrightarrow>
    paddle_life hmac_hex json_loads db0 db'"

lemma expiries_fold_modify:
  assumes "\<And>r. sub_server_id (f r) = sub_server_id r" "\<And>r. sub_expires_at (f r) = sub_expires_at r"
  shows "map sub_expires_at (filter (\<lambda>r. sub_server_id r = Some sid)
      (fold (\<lambda>s. modify_row sub_id (sub_id s) f) xs rows)) =
    map sub_expires_at (filter (\<lambda>r. sub_server_id r = Some sid) rows)"
proof (induction xs arbitrary: rows)
  case (Cons x xs)
  have "map sub_expires_at (filter (\<lambda>r. sub_server_id r = Some sid) (modify_row sub_id i f rs)) =
      map sub_expires_at (filter (\<lambda>r. sub_server_id r = Some sid) rs)" for i rs
    by (induction rs) (simp_all add: modify_row_def assms)
  with Cons show ?case by simp
qed simp

lemma expiration_expiries:
  "process_subscription_expirations cfg now locked db = (x, db') \<Longrightarrow> expiries sid db' = expiries sid db"
  by (auto simp: process_subscription_expirations_def Let_def expiries_def fold_suspend_subscriptions
      fold_grace_subscriptions expiries_fold_modify)

lemma paddle_life_expiries:
  assumes "paddle_life hmac_hex json_loads db0 db" "expiries sid db0 \<noteq> []"
  shows "expiries sid db = expiries sid db0"
  using assms(1)
proof (induction rule: paddle_life.induct)
  case (delivered db cfg unknown_id now new_id sig body r db')
  have "same_expiries sid (expiries sid db0) (open_session db)"
    using delivered.IH by (simp add: same_expiries_def)
  with keeps_run [OF paddle_webhook_expiries [OF assms(2)] _ delivered.hyps(2)]
  show ?case by (auto simp: same_expiries_def)
next
  case (expired db cfg now locked x db')
  then show ?case by (simp add: expiration_expiries)
qed simp

text \<open>
  Paddle's renewals are never honoured.  For a server that has had a subscription, whatever
  events Paddle delivers (and however often the expiration pass runs in between), once the
  subscriptions it had at the beginning are past their grace period no subscription of it is in
  force: it runs on the limits of an unpaid server and may not be started.
\<close>

theorem renewals_are_never_honoured:
  assumes life: "paddle_life hmac_hex json_loads db0 db"
    and had: "\<exists>r \<in> set (db_subscriptions db0). sub_server_id r = Some (srv_id server)"
    and past: "\<forall>r \<in> set (db_subscriptions db0). sub_server_id r = Some (srv_id server) \<longrightarrow>
      sub_expires_at r + grace_delta cfg \<le> now"
  shows "get_effective_server_resource_limits cfg now (Some db) server = UNPAID_SERVER_LIMITS \<and>
    (\<exists>e. ensure_active_subscription_for_start cfg now db server = Inl e)"
proof -
  have es: "set (expiries (srv_id server) db) = set (expiries (srv_id server) db0)"
    using paddle_life_expiries [OF life, of "srv_id server"] had
    by (auto simp: expiries_def filter_empty_conv)
  have "active_subscription_for_server cfg now db (srv_id server) = None"
    unfolding active_subscription_None
  proof (intro ballI impI)
    fix r assume r: "r \<in> set (db_subscriptions db)" "sub_server_id r = Some (srv_id server)"
    then have "sub_expires_at r \<in> set (expiries (srv_id server) db0)"
      unfolding es [symmetric] by (auto simp: expiries_def)
    then have "sub_expires_at r + grace_delta cfg \<le> now" using past by (auto simp: expiries_def)
    with grace_delta_nonneg [of cfg] show "\<not> in_force cfg now r" by (auto simp: in_force_def)
  qed
  then show ?thesis
    by (auto simp: get_effective_server_resource_limits_def ensure_active_subscription_for_start_def
        split: sum.split)
qed

section \<open>From the checkout to the subscription\<close>

lemma checkout_accepted:
  assumes "run_request (generate_paddle_checkout paddle_post cfg rt rid plan_id user) db = (Inr url, db')"
  obtains res plan where "get_billable_resource db rt rid = Some res" "resource_owner_id db res = Some (usr_id user)"
    "rt \<in> resource_types" "get_plan db plan_id = Some plan" "bp_active plan" "db' = db"
proof -
  obtain res where res: "get_billable_resource db rt rid = Some res"
    using assms by (cases "get_billable_resource db rt rid")
      (simp_all add: generate_paddle_checkout_def run_request_def bind_get_op raise_op_def)
  have owner: "resource_belongs_to_user db res user"
    using assms res by (cases "resource_belongs_to_user db res user")
      (simp_all add: generate_paddle_checkout_def run_request_def bind_get_op raise_op_def)
  have rt: "rt \<in> resource_types"
    using assms res owner by (cases "rt \<in> resource_types")
      (simp_all add: generate_paddle_checkout_def run_request_def bind_get_op raise_op_def)
  obtain plan where plan: "get_plan db plan_id = Some plan"
    using assms res owner rt by (cases "get_plan db plan_id")
      (simp_all add: generate_paddle_checkout_def run_request_def bind_get_op raise_op_def)
  have on: "bp_active plan"
    using assms res owner rt plan by (cases "bp_active plan")
      (simp_all add: generate_paddle_checkout_def run_request_def bind_get_op raise_op_def)
  have "keeps (\<lambda>s. ses_committed s = db) (generate_paddle_checkout paddle_post cfg rt rid plan_id user)"
    unfolding generate_paddle_checkout_def by (intro op_rules) (auto intro!: op_rules split: prod.split)
  then have "db' = db" by (rule keeps_run [OF _ _ assms]) simp_all
  with that res owner rt plan on show thesis by (simp add: resource_belongs_to_user_def)
qed

lemma resource_types_cases:
  assumes "rt \<in> resource_types"
  obtains "rt = ''minecraft_server''" | "rt = ''app_deployment''" | "rt = ''database_instance''"
  using assms unfolding resource_types_def by blast

lemma custom_data_names_resource:
  assumes "rt \<in> resource_types" "rid < 2 ^ 128"
    and "json_get data ''custom_data'' (JObj []) = Inr (JObj (custom_data_for_resource rt rid))"
  shows "names_resource data rt rid"
proof -
  have ne: "str_uuid rid \<noteq> []" by (simp add: str_uuid_def Let_def)
  have id: "parse_uuid (str_uuid rid) = Some rid"
    using assms(2) by (rule parse_str_uuid)
  from assms(1) show ?thesis
    unfolding names_resource_def assms(3)
    by (cases rule: resource_types_cases)
      (simp_all add: custom_data_for_resource_def json_get_def dict_get_def
        dict_set_def resource_id_from_custom_data_def ne id)
qed

lemma subscription_event_eq:
  assumes "names_resource data rt rid" "get_billable_resource (ses_objects s) rt rid = Some res"
    and "resource_owner_id (ses_objects s) res = Some owner"
    and "json_get data ''id'' JNull = Inr (JStr k)" "k \<noteq> []"
    and "json_get data ''status'' JNull = Inr status"
  shows "subscription_event now new_id et data s = subscription_change now new_id et status k rt rid owner s"
proof -
  obtain cd t where d: "json_get data ''custom_data'' (JObj []) = Inr cd"
    "json_get cd ''resource_type'' (JStr ''minecraft_server'') = Inr (JStr rt)"
    "resource_id_from_custom_data (JStr rt) cd = Inr (JStr t)" "t \<noteq> []" "parse_uuid t = Some rid"
    using assms(1) by (auto simp: names_resource_def split: sum.splits json.splits)
  show ?thesis
    unfolding subscription_event_def using d assms(2-)
    by (simp add: op_steps uuid_of_json_def json_text_def)
qed

lemma providers_distinct_relink:
  assumes "distinct (map sub_id rows)" "distinct (List.map_filter sub_provider_subscription_id rows)"
    and "\<forall>q \<in> set rows. sub_provider_subscription_id q = Some k \<longrightarrow> sub_id q = i"
  shows "distinct (List.map_filter sub_provider_subscription_id (modify_row sub_id i (relink now st k) rows))"
  using assms
proof (induction rows)
  case Nil
  then show ?case by (simp add: modify_row_def)
next
  case (Cons q rows)
  have d: "distinct (List.map_filter sub_provider_subscription_id rows)"
    using Cons.prems(2) by (auto simp: map_filter_simps split: option.splits)
  have in_modified: "x = k \<or> x \<in> set (List.map_filter sub_provider_subscription_id rows)"
    if "x \<in> set (List.map_filter sub_provider_subscription_id (modify_row sub_id i (relink now st k) rows))" for x
    using that by (auto simp: map_filter_def modify_row_def split: if_splits)
  show ?case
  proof (cases "sub_id q = i")
    case True
    then have "modify_row sub_id i (relink now st k) rows = rows"
      using Cons.prems(1) by (intro modify_row_absent) auto
    moreover have "k \<notin> set (List.map_filter sub_provider_subscription_id rows)"
      using Cons.prems(1,3) True by (auto simp: map_filter_def) (metis image_eqI)
    ultimately show ?thesis using d True by (simp add: modify_row_def map_filter_simps)
  next
    case False
    then show ?thesis
      using Cons d in_modified
      by (auto simp: modify_row_def map_filter_simps split: option.splits)
  qed
qed

lemma find_subscription_SomeD:
  assumes "find_subscription k rt rid s = Some r"
  shows "r \<in> set (db_subscriptions (ses_flushed s)) \<and>
    (sub_provider_subscription_id r = Some k \<or>
     (\<forall>q \<in> set (db_subscriptions (ses_flushed s)). sub_provider_subscription_id q \<noteq> Some k) \<and> of_resource rt rid r)"
proof (cases "first_row (filter (\<lambda>r. sub_provider_subscription_id r = Some k) (db_subscriptions (ses_flushed s)))")
  case None
  then have "first_row (sort_key (\<lambda>r. - sub_created_at r)
      (filter (of_resource rt rid) (db_subscriptions (ses_flushed s)))) = Some r"
    using assms by (simp add: find_subscription_def)
  then have "r \<in> set (filter (of_resource rt rid) (db_subscriptions (ses_flushed s)))"
    by (metis first_row_SomeD set_sort)
  with None show ?thesis by (auto simp: filter_empty_conv)
next
  case (Some q)
  then have "q = r" using assms by (simp add: find_subscription_def)
  with first_row_SomeD [OF Some] show ?thesis by auto
qed

lemma find_subscription_NoneD:
  assumes "find_subscription k rt rid s = None"
  shows "\<forall>q \<in> set (db_subscriptions (ses_flushed s)). sub_provider_subscription_id q \<noteq> Some k"
  using assms by (auto simp: find_subscription_def filter_empty_conv split: option.splits)

lemma constraints_subscriptions:
  assumes "constraints_ok db" "distinct (List.map_filter sub_provider_subscription_id subs)"
  shows "constraints_ok (db\<lparr>db_subscriptions := subs\<rparr>)"
  using assms by (simp add: constraints_ok_def)

lemma providers_distinct_append:
  assumes "distinct (List.map_filter sub_provider_subscription_id rows)"
    and "\<forall>q \<in> set rows. sub_provider_subscription_id q \<noteq> Some k"
    and "sub_provider_subscription_id r = Some k"
  shows "distinct (List.map_filter sub_provider_subscription_id (rows @ [r]))"
proof -
  have "k \<notin> set (List.map_filter sub_provider_subscription_id rows)"
    using assms(2) by (auto simp: map_filter_def)
  moreover have "List.map_filter sub_provider_subscription_id (rows @ [r]) =
      List.map_filter sub_provider_subscription_id rows @ [k]"
    using assms(3) by (simp add: List.map_filter_def)
  ultimately show ?thesis using assms(1) by simp
qed

lemma in_map_filter: "k \<in> set (List.map_filter f rows) \<longleftrightarrow> (\<exists>y \<in> set rows. f y = Some k)"
  by (induction rows) (auto simp: map_filter_simps split: option.splits)

lemma distinct_providers_unique:
  assumes "distinct (List.map_filter sub_provider_subscription_id rows)"
    and "q \<in> set rows" "sub_provider_subscription_id q = Some k"
    and "r \<in> set rows" "sub_provider_subscription_id r = Some k"
  shows "q = r"
  using assms
proof (induction rows)
  case (Cons x rows)
  have "k \<notin> set (List.map_filter sub_provider_subscription_id rows)"
    if "sub_provider_subscription_id x = Some k"
    using Cons.prems(1) that by (simp add: map_filter_simps)
  then have no: "sub_provider_subscription_id x = Some k \<Longrightarrow> y \<in> set rows \<Longrightarrow>
      sub_provider_subscription_id y \<noteq> Some k" for y
    by (auto simp: in_map_filter)
  have "distinct (List.map_filter sub_provider_subscription_id rows)"
    using Cons.prems(1) by (simp add: map_filter_simps split: option.splits)
  with Cons.IH Cons.prems(2-) no show ?case by auto
qed simp

text \<open>The two ways an activating event ends.\<close>

lemma change_creates:
  assumes "find_subscription k rt rid s = None" "et \<noteq> ''subscription.canceled''" "status \<noteq> JStr ''canceled''"
    and "default_plan s = Some p"
    and "db' = (ses_objects s)\<lparr>db_subscriptions := db_subscriptions (ses_objects s) @
      [new_subscription now new_id owner p k rt rid]\<rparr>" "constraints_ok db'"
  shows "subscription_change now new_id et status k rt rid owner s = (Inr [(rt, rid)], open_session db')"
  using assms
  by (simp add: subscription_change_def bind_get_op add_subscription_def bind_modify_op
      bind_op_def [of commit_op] commit_op_def commit_def return_op_def)

lemma change_activates:
  assumes "find_subscription k rt rid s = Some r" "et \<noteq> ''subscription.canceled''" "status \<noteq> JStr ''canceled''"
    and "db' = (ses_objects s)\<lparr>db_subscriptions := modify_row sub_id (sub_id r)
      (relink now BillingSubscriptionStatus.active k) (db_subscriptions (ses_objects s))\<rparr>" "constraints_ok db'"
  shows "subscription_change now new_id et status k rt rid owner s =
    (Inr (if sub_status r = BillingSubscriptionStatus.active then [] else [(rt, rid)]), open_session db')"
  using assms
  by (simp add: subscription_change_def bind_get_op set_subscription_def bind_modify_op
      bind_op_def [of commit_op] commit_op_def commit_def return_op_def)

definition activated :: "database \<Rightarrow> string \<Rightarrow> string \<Rightarrow> uuid \<Rightarrow> plan \<Rightarrow> subscription \<Rightarrow> bool" where
  "activated db k rt rid p r \<longleftrightarrow> sub_provider_subscription_id r = Some k \<and>
     sub_status r = BillingSubscriptionStatus.active \<and>
     ((\<forall>q \<in> set (db_subscriptions db). sub_provider_subscription_id q \<noteq> Some k) \<longrightarrow> of_resource rt rid r) \<and>
     ((\<forall>q \<in> set (db_subscriptions db). sub_provider_subscription_id q \<noteq> Some k \<and> \<not> of_resource rt rid q) \<longrightarrow>
        sub_plan_id r = bp_id p)"

lemma activated_new: "activated db k rt rid p (new_subscription now new_id owner p k rt rid)"
  by (simp add: activated_def of_resource_def new_subscription_def)

lemma activated_relink:
  assumes "r \<in> set (db_subscriptions db)" "sub_provider_subscription_id r = Some k \<or>
      (\<forall>q \<in> set (db_subscriptions db). sub_provider_subscription_id q \<noteq> Some k) \<and> of_resource rt rid r"
  shows "activated db k rt rid p (relink now BillingSubscriptionStatus.active k r)"
  using assms unfolding activated_def of_resource_def relink_sel by blast

lemma activation_commits:
  assumes "constraints_ok db" "distinct (map sub_id (db_subscriptions db))"
    and "et \<noteq> ''subscription.canceled''" "status \<noteq> JStr ''canceled''"
    and "first_row (filter bp_active (db_plans db)) = Some p"
  shows "\<exists>tasks db'. subscription_change now new_id et status k rt rid owner
      (set_objects (claim_event now eid et') (open_session db)) = (Inr tasks, open_session db') \<and>
    \<not> fresh_event db' eid \<and> (\<exists>r \<in> set (db_subscriptions db'). activated db k rt rid p r)"
proof -
  let ?s = "set_objects (claim_event now eid et') (open_session db)"
  have prov: "distinct (List.map_filter sub_provider_subscription_id (db_subscriptions db))"
    using assms(1) by (simp add: constraints_ok_def)
  have ok: "constraints_ok (claim_event now eid et' db)" using assms(1) by simp
  have known: "\<not> fresh_event ((claim_event now eid et' db)\<lparr>db_subscriptions := subs\<rparr>) eid" for subs
    by (simp add: fresh_claim_event)
  show ?thesis
  proof (cases "find_subscription k rt rid ?s")
    case None
    let ?r = "new_subscription now new_id owner p k rt rid"
    let ?db = "(claim_event now eid et' db)\<lparr>db_subscriptions := db_subscriptions db @ [?r]\<rparr>"
    have new: "\<forall>q \<in> set (db_subscriptions db). sub_provider_subscription_id q \<noteq> Some k"
      using find_subscription_NoneD [OF None] by simp
    have "constraints_ok ?db"
      by (intro constraints_subscriptions [OF ok] providers_distinct_append [OF prov new])
        (simp add: new_subscription_def)
    then have "subscription_change now new_id et status k rt rid owner ?s = (Inr [(rt, rid)], open_session ?db)"
      by (intro change_creates [OF None assms(3,4)]) (simp_all add: default_plan_def assms(5))
    moreover have "\<exists>r \<in> set (db_subscriptions ?db). activated db k rt rid p r"
      using activated_new [of db k rt rid p now new_id owner] by simp
    ultimately show ?thesis using known by blast
  next
    case (Some r)
    have r: "r \<in> set (db_subscriptions db)" "sub_provider_subscription_id r = Some k \<or>
      (\<forall>q \<in> set (db_subscriptions db). sub_provider_subscription_id q \<noteq> Some k) \<and> of_resource rt rid r"
      using find_subscription_SomeD [OF Some] by simp_all
    let ?f = "relink now BillingSubscriptionStatus.active k"
    let ?db = "(claim_event now eid et' db)\<lparr>db_subscriptions := modify_row sub_id (sub_id r) ?f (db_subscriptions db)\<rparr>"
    have only: "\<forall>q \<in> set (db_subscriptions db). sub_provider_subscription_id q = Some k \<longrightarrow> sub_id q = sub_id r"
    proof (intro ballI impI)
      fix q assume q: "q \<in> set (db_subscriptions db)" "sub_provider_subscription_id q = Some k"
      then have "sub_provider_subscription_id r = Some k" using r by blast
      then show "sub_id q = sub_id r" using distinct_providers_unique [OF prov q r(1)] by simp
    qed
    have "constraints_ok ?db"
      by (intro constraints_subscriptions [OF ok] providers_distinct_relink assms prov only)
    then have "subscription_change now new_id et status k rt rid owner ?s =
        (Inr (if sub_status r = BillingSubscriptionStatus.active then [] else [(rt, rid)]), open_session ?db)"
      by (intro change_activates [OF Some assms(3,4)]) simp_all
    moreover have "?f r \<in> set (db_subscriptions ?db)" using r(1) by (simp add: set_modify_row image_iff) blast
    ultimately show ?thesis using known activated_relink [OF r, of p now] by blast
  qed
qed

text \<open>
  From the checkout to the subscription.  When a checkout was opened, the resource is the
  user's, and the event Paddle sends for it, with the custom data the checkout gave it, is accepted
  and leaves an active subscription with Paddle's identifier; it is the resource's unless the
  identifier was already known.  A first subscription is for the first plan on sale, whichever plan
  was bought.
\<close>

theorem checkout_to_subscription:
  assumes bought: "run_request (generate_paddle_checkout paddle_post cfg rt rid plan_id user) db = (Inr url, db1)"
    and event: "genuine hmac_hex json_loads cfg sig body eid et data" "fresh_event db eid"
      "et \<in> {''subscription.created'', ''subscription.updated''}"
    and data: "json_get data ''custom_data'' (JObj []) = Inr (JObj (custom_data_for_resource rt rid))"
      "json_get data ''id'' JNull = Inr (JStr k)" "k \<noteq> []"
      "json_get data ''status'' JNull = Inr status" "status \<noteq> JStr ''canceled''"
    and db: "rid < 2 ^ 128" "constraints_ok db" "distinct (map sub_id (db_subscriptions db))"
  shows "\<exists>res p tasks db'. get_billable_resource db rt rid = Some res \<and>
    resource_owner_id db res = Some (usr_id user) \<and>
    first_row (filter bp_active (db_plans db)) = Some p \<and>
    run_request (paddle_webhook hmac_hex json_loads cfg unknown_id now new_id sig body) db = (Inr tasks, db') \<and>
    (\<exists>r \<in> set (db_subscriptions db'). activated db k rt rid p r)"
proof -
  obtain res plan where res: "get_billable_resource db rt rid = Some res" "resource_owner_id db res = Some (usr_id user)"
    "rt \<in> resource_types" "get_plan db plan_id = Some plan" "bp_active plan"
    using checkout_accepted [OF bought] by blast
  have names: "names_resource data rt rid"
    by (rule custom_data_names_resource [OF res(3) db(1) data(1)])
  have "plan \<in> set (filter bp_active (db_plans db))"
    using res(4,5) get_row_SomeD [of bp_id plan_id "db_plans db" plan] by (simp add: get_plan_def)
  then obtain p where p: "first_row (filter bp_active (db_plans db)) = Some p"
    by (cases "filter bp_active (db_plans db)") auto
  let ?s = "set_objects (claim_event now eid et) (open_session db)"
  have change: "subscription_event now new_id et data ?s =
      subscription_change now new_id et status k rt rid (usr_id user) ?s"
    by (rule subscription_event_eq [OF names _ _ data(2,3,4), where res = res]) (simp_all add: res)
  have et: "et \<noteq> ''subscription.canceled''" using event(3) by auto
  obtain tasks db' where c: "subscription_change now new_id et status k rt rid (usr_id user) ?s =
      (Inr tasks, open_session db')" "\<exists>r \<in> set (db_subscriptions db'). activated db k rt rid p r"
    using activation_commits [OF db(2,3) et data(5) p, of now new_id k rt rid "usr_id user" eid et] by blast
  have "paddle_event unknown_id now new_id et data ?s = subscription_event now new_id et data ?s"
    using event(3) by (auto simp: paddle_event_def)
  then have "run_request (paddle_webhook hmac_hex json_loads cfg unknown_id now new_id sig body) db = (Inr tasks, db')"
    by (simp add: run_request_def paddle_dispatch [OF event(1,2)] change c(1))
  with res(1,2) p c(2) show ?thesis by blast
qed

section \<open>A cancellation that is late\<close>

lemma constraints_stop_resource [simp]: "constraints_ok (stop_resource rt rid db) = constraints_ok db"
proof -
  have "List.map_filter (\<lambda>s. map_option (\<lambda>n. (n, srv_vm_port s)) (srv_node_id s))
      (modify_row srv_id i (\<lambda>r. r\<lparr>srv_state := st\<rparr>) rows) =
    List.map_filter (\<lambda>s. map_option (\<lambda>n. (n, srv_vm_port s)) (srv_node_id s)) rows"
    "List.map_filter srv_proxy_port (modify_row srv_id i (\<lambda>r. r\<lparr>srv_state := st\<rparr>) rows) =
      List.map_filter srv_proxy_port rows" for i st and rows :: "server list"
    by (rule map_filter_modify_row, simp)+
  then show ?thesis
    by (simp add: constraints_ok_def stop_resource_def upd_server_def upd_deployment_def upd_instance_def)
qed

lemma change_cancels:
  assumes "find_subscription k rt rid s = Some r"
    and "db' = stop_resource rt rid ((ses_objects s)\<lparr>db_subscriptions := modify_row sub_id (sub_id r)
      (relink now BillingSubscriptionStatus.cancelled k) (db_subscriptions (ses_objects s))\<rparr>)" "constraints_ok db'"
  shows "subscription_change now new_id ''subscription.canceled'' status k rt rid owner s = (Inr [], open_session db')"
  using assms
  by (simp add: subscription_change_def bind_get_op set_subscription_def bind_modify_op
      bind_op_def [of commit_op] commit_op_def commit_def return_op_def del: constraints_stop_resource)

text \<open>
  The cancellation of one subscription takes down the server, whatever other subscription it has:
  the newer subscription stays active and the server is suspended.
\<close>

theorem late_cancellation_suspends:
  assumes event: "genuine hmac_hex json_loads cfg sig body eid ''subscription.canceled'' data" "fresh_event db eid"
    and data: "names_resource data ''minecraft_server'' sid" "json_get data ''id'' JNull = Inr (JStr k)" "k \<noteq> []"
    and db: "get_server db sid = Some server" "constraints_ok db" "distinct (map sub_id (db_subscriptions db))"
    and old: "old \<in> set (db_subscriptions db)" "sub_provider_subscription_id old = Some k"
    and newer: "newer \<in> set (db_subscriptions db)" "newer \<noteq> old"
  shows "\<exists>db'. run_request (paddle_webhook hmac_hex json_loads cfg unknown_id now new_id sig body) db = (Inr [], db') \<and>
    newer \<in> set (db_subscriptions db') \<and>
    get_server db' sid = Some (server\<lparr>srv_state := ServerState.suspended\<rparr>)"
proof -
  let ?s = "set_objects (claim_event now eid ''subscription.canceled'') (open_session db)"
  obtain status where st: "json_get data ''status'' JNull = Inr status"
    using data(2) by (auto simp: json_get_def split: json.splits)
  have res: "get_billable_resource db ''minecraft_server'' sid = Some (BServer server)"
    using db(1) by (simp add: get_billable_resource_def)
  have change: "subscription_event now new_id ''subscription.canceled'' data ?s =
      subscription_change now new_id ''subscription.canceled'' status k ''minecraft_server'' sid (srv_owner_id server) ?s"
    by (rule subscription_event_eq [OF data(1) _ _ data(2,3) st, where res = "BServer server"])
      (simp_all add: res resource_owner_id_def)
  have prov: "distinct (List.map_filter sub_provider_subscription_id (db_subscriptions db))"
    using db(2) by (simp add: constraints_ok_def)
  obtain r where r: "find_subscription k ''minecraft_server'' sid ?s = Some r"
  proof (cases "find_subscription k ''minecraft_server'' sid ?s")
    case None
    then have "\<forall>q \<in> set (db_subscriptions db). sub_provider_subscription_id q \<noteq> Some k"
      using find_subscription_NoneD [OF None] by simp
    with old show thesis by blast
  qed
  have rD: "r \<in> set (db_subscriptions db)" "sub_provider_subscription_id r = Some k \<or>
      (\<forall>q \<in> set (db_subscriptions db). sub_provider_subscription_id q \<noteq> Some k)"
    using find_subscription_SomeD [OF r, unfolded set_objects_simps open_session_simps] by blast+
  then have "sub_provider_subscription_id r = Some k" using old by blast
  with rD(1) have "r = old" by (rule distinct_providers_unique [OF prov _ _ old])
  let ?subs = "modify_row sub_id (sub_id old) (relink now BillingSubscriptionStatus.cancelled k) (db_subscriptions db)"
  let ?db = "stop_resource ''minecraft_server'' sid
    ((claim_event now eid ''subscription.canceled'' db)\<lparr>db_subscriptions := ?subs\<rparr>)"
  have "\<forall>q \<in> set (db_subscriptions db). sub_provider_subscription_id q = Some k \<longrightarrow> sub_id q = sub_id old"
    using distinct_providers_unique [OF prov _ _ old] by blast
  then have ok: "constraints_ok ((claim_event now eid ''subscription.canceled'' db)\<lparr>db_subscriptions := ?subs\<rparr>)"
    by (intro constraints_subscriptions providers_distinct_relink db prov) (simp add: db(2))
  have "subscription_change now new_id ''subscription.canceled'' status k ''minecraft_server'' sid
      (srv_owner_id server) ?s = (Inr [], open_session ?db)"
    using r unfolding \<open>r = old\<close> by (rule change_cancels) (simp_all add: ok)
  then have run: "run_request (paddle_webhook hmac_hex json_loads cfg unknown_id now new_id sig body) db = (Inr [], ?db)"
    by (simp add: run_request_def paddle_dispatch [OF event] paddle_event_def change)
  have "sub_id newer \<noteq> sub_id old"
    using newer old(1) inj_onD [of sub_id "set (db_subscriptions db)" newer old] db(3) by (metis distinct_map)
  then have "newer \<in> set ?subs"
    using newer(1) unfolding set_modify_row by (intro image_eqI [of _ _ newer]) simp_all
  then have "newer \<in> set (db_subscriptions ?db)" by (simp add: stop_resource_def)
  moreover have "get_server ?db sid = Some (server\<lparr>srv_state := ServerState.suspended\<rparr>)"
    using db(1) by (simp add: stop_resource_def get_server_upd_server) (simp add: get_server_def)
  ultimately show ?thesis using run by blast
qed

section \<open>Witnesses\<close>

text \<open>
  A server with an expired subscription, a configured Paddle account, and three deliveries about the
  server: a renewal, a cancellation and a completed payment.
\<close>

definition paddle_settings :: settings where
  "paddle_settings = default_settings\<lparr>cfg_paddle_webhook_secret := ''s'', cfg_paddle_api_key := ''k''\<rparr>"

definition paddle_db :: database where
  "paddle_db = sample_db\<lparr>db_subscriptions := [sample_subscription\<lparr>sub_status := BillingSubscriptionStatus.grace_period\<rparr>]\<rparr>"

definition paddle_hmac :: "string \<Rightarrow> string \<Rightarrow> string" where
  "paddle_hmac secret payload = ''ab''"

definition paddle_data :: json where
  "paddle_data = JObj [(''id'', JStr ''sub_1''), (''status'', JStr ''active''),
     (''subscription_id'', JStr ''sub_1''),
     (''custom_data'', JObj (custom_data_for_resource ''minecraft_server'' 10))]"

definition paddle_loads :: "string \<Rightarrow> json option" where
  "paddle_loads body = Some (JObj [(''event_id'', JStr ''evt_1''), (''event_type'', JStr body), (''data'', paddle_data)])"

definition paddle_post_ok :: "string \<Rightarrow> string \<Rightarrow> json dict \<Rightarrow> exn + nat \<times> json" where
  "paddle_post_ok base price custom_data =
     Inr (200, JObj [(''data'', JObj [(''checkout'', JObj [(''url'', JStr ''https://x'')])])])"

lemma sample_genuine:
  "genuine paddle_hmac paddle_loads paddle_settings ''ts=1;h1=ab'' ''subscription.updated'' ''evt_1'' ''subscription.updated'' paddle_data"
  "genuine paddle_hmac paddle_loads paddle_settings ''ts=1;h1=ab'' ''subscription.canceled'' ''evt_1'' ''subscription.canceled'' paddle_data"
  "genuine paddle_hmac paddle_loads paddle_settings ''ts=1;h1=ab'' ''transaction.completed'' ''evt_1'' ''transaction.completed'' paddle_data"
  by code_simp+

lemma sample_paddle_data:
  "json_get paddle_data ''custom_data'' (JObj []) = Inr (JObj (custom_data_for_resource ''minecraft_server'' 10))"
  "json_get paddle_data ''id'' JNull = Inr (JStr ''sub_1'')"
  "json_get paddle_data ''status'' JNull = Inr (JStr ''active'')"
  by (simp_all add: paddle_data_def json_get_def dict_get_def)

lemma sample_names: "names_resource paddle_data ''minecraft_server'' 10"
  by (rule custom_data_names_resource [OF _ _ sample_paddle_data(1)]) (simp_all add: resource_types_def)

lemma sample_fresh: "fresh_event paddle_db ''evt_1''"
  by (simp add: fresh_event_def paddle_db_def sample_defs)

lemma sample_paddle_ok: "constraints_ok paddle_db"
  by code_simp

lemma sample_billable: "get_billable_resource paddle_db ''minecraft_server'' 10 = Some (BServer sample_server)"
  by (simp add: get_billable_resource_def get_server_def paddle_db_def sample_db_def sample_server_def)

lemma sample_checkout:
  "run_request (generate_paddle_checkout paddle_post_ok paddle_settings ''minecraft_server'' 10 ''basic'' sample_user) paddle_db =
     (Inr (JStr ''https://x''), paddle_db)"
  by code_simp

theorem completed_payment_is_never_recorded_witness:
  "\<exists>e \<in> {AttributeError, NameError, TypeError}.
     run_request (paddle_webhook paddle_hmac paddle_loads paddle_settings ''t'' 5 70 ''ts=1;h1=ab'' ''transaction.completed'')
       paddle_db = (Inl e, paddle_db)"
  by (rule completed_payment_is_never_recorded [OF sample_genuine(3) sample_fresh sample_names sample_billable])
    (simp add: sample_paddle_data paddle_data_def json_get_def dict_get_def paddle_db_def sample_defs)

lemma sample_renewal:
  obtains tasks db' where "run_request (paddle_webhook paddle_hmac paddle_loads paddle_settings ''t'' 5 70
     ''ts=1;h1=ab'' ''subscription.updated'') paddle_db = (Inr tasks, db')"
proof -
  let ?s = "set_objects (claim_event 5 ''evt_1'' ''subscription.updated'') (open_session paddle_db)"
  have p: "first_row (filter bp_active (db_plans paddle_db)) = Some sample_plan"
    by (simp add: paddle_db_def sample_defs)
  have d: "distinct (map sub_id (db_subscriptions paddle_db))" by (simp add: paddle_db_def)
  obtain tasks db' where c: "subscription_change 5 70 ''subscription.updated'' (JStr ''active'') ''sub_1''
      ''minecraft_server'' 10 1 ?s = (Inr tasks, open_session db')"
    using activation_commits [OF sample_paddle_ok d _ _ p, of "''subscription.updated''" "JStr ''active''" 5 70 "''sub_1''"
        "''minecraft_server''" 10 1 "''evt_1''" "''subscription.updated''"] by auto
  have "subscription_event 5 70 ''subscription.updated'' paddle_data ?s = (Inr tasks, open_session db')"
    using subscription_event_eq [OF sample_names, of ?s "BServer sample_server" 1 "''sub_1''" "JStr ''active''" 5 70
        "''subscription.updated''"]
    by (simp add: sample_billable resource_owner_id_def sample_paddle_data c sample_server_def del: One_nat_def)
  then have "run_request (paddle_webhook paddle_hmac paddle_loads paddle_settings ''t'' 5 70
     ''ts=1;h1=ab'' ''subscription.updated'') paddle_db = (Inr tasks, db')"
    by (simp add: run_request_def paddle_dispatch [OF sample_genuine(1) sample_fresh] paddle_event_def)
  then show thesis by (rule that)
qed

theorem redelivery_changes_nothing_witness:
  "\<exists>tasks db'. run_request (paddle_webhook paddle_hmac paddle_loads paddle_settings ''t'' 5 70
       ''ts=1;h1=ab'' ''subscription.updated'') paddle_db = (Inr tasks, db') \<and>
     run_request (paddle_webhook paddle_hmac paddle_loads paddle_settings ''t'' 6 71
       ''ts=1;h1=ab'' ''subscription.updated'') db' = (Inr [], db')"
proof -
  obtain tasks db' where run: "run_request (paddle_webhook paddle_hmac paddle_loads paddle_settings ''t'' 5 70
     ''ts=1;h1=ab'' ''subscription.updated'') paddle_db = (Inr tasks, db')"
    by (rule sample_renewal)
  from run redelivery_changes_nothing [OF run, of "''t''" 6 71] show ?thesis by blast
qed

theorem renewals_are_never_honoured_witness:
  "\<exists>tasks db'. run_request (paddle_webhook paddle_hmac paddle_loads paddle_settings ''t'' 5 70
       ''ts=1;h1=ab'' ''subscription.updated'') paddle_db = (Inr tasks, db') \<and>
     get_effective_server_resource_limits default_settings (days 40) (Some db') sample_server = UNPAID_SERVER_LIMITS"
proof -
  obtain tasks db' where run: "run_request (paddle_webhook paddle_hmac paddle_loads paddle_settings ''t'' 5 70
     ''ts=1;h1=ab'' ''subscription.updated'') paddle_db = (Inr tasks, db')"
    by (rule sample_renewal)
  have life: "paddle_life paddle_hmac paddle_loads paddle_db db'"
    by (rule paddle_life.delivered [OF paddle_life.start run])
  have "get_effective_server_resource_limits default_settings (days 40) (Some db') sample_server = UNPAID_SERVER_LIMITS"
    using renewals_are_never_honoured [OF life, of sample_server default_settings "days 40"]
    by (simp add: paddle_db_def sample_defs grace_delta_def duration_defs default_settings_def)
  with run show ?thesis by blast
qed

theorem checkout_to_subscription_witness:
  "\<exists>tasks db'. run_request (paddle_webhook paddle_hmac paddle_loads paddle_settings ''t'' 5 70
       ''ts=1;h1=ab'' ''subscription.updated'') paddle_db = (Inr tasks, db') \<and>
     (\<exists>r \<in> set (db_subscriptions db'). sub_status r = BillingSubscriptionStatus.active)"
proof -
  from checkout_to_subscription [OF sample_checkout sample_genuine(1) sample_fresh _ sample_paddle_data(1,2) _ sample_paddle_data(3)
      _ _ sample_paddle_ok, of "''t''" 5 70]
  show ?thesis by (auto simp: paddle_db_def activated_def)
qed

end
