(* ===== verification/Ingress.thy ===== *)
theory Ingress
  imports Ops Tokens
begin

text \<open>
  Routes to applications: the service that keeps the reverse proxy's configuration
  (\<open>services/ingress.py\<close>) and the custom domains of a deployment (\<open>api/domains.py\<close>).  The admin
  API of the reverse proxy (Caddy) and the DNS resolver are parameters.  No call of the service
  raises and none of its answers is looked at, so a handler returns the list of its calls, in order,
  and \<open>run_ingress\<close> performs them.
\<close>

section \<open>The routes\<close>

text \<open>
  What is posted for a domain: the identifier \<open>domain-<domain>\<close>, the host to match, the rewrite of
  the request and the address it is sent to.
\<close>

record route =
  route_id :: string
  route_host :: string
  route_rewrite :: "string option"
  route_dial :: string

text \<open>The admin API: the status of the answer, \<open>None\<close> when there is none, and the proxy after it.\<close>

record 'c caddy =
  cd_post :: "'c \<Rightarrow> route \<Rightarrow> nat option \<times> 'c"
  cd_delete :: "'c \<Rightarrow> string \<Rightarrow> nat option \<times> 'c"

definition domain_route_id :: "string \<Rightarrow> string" where
  "domain_route_id domain = ''domain-'' @ domain"

definition upstream :: "string \<Rightarrow> int option \<Rightarrow> string" where
  "upstream node_ip host_port =
     node_ip @ '':'' @ (case host_port of None \<Rightarrow> ''None'' | Some p \<Rightarrow> py_str_int p)"

definition app_route :: "string \<Rightarrow> string \<Rightarrow> route" where
  "app_route domain dial = \<lparr>route_id = domain_route_id domain, route_host = domain,
     route_rewrite = None, route_dial = dial\<rparr>"

definition wake_route :: "string \<Rightarrow> string \<Rightarrow> route" where
  "wake_route control_plane domain = \<lparr>route_id = domain_route_id domain, route_host = domain,
     route_rewrite = Some (''/api/public/wake-proxy/'' @ domain), route_dial = control_plane\<rparr>"

text \<open>The exception branch of \<open>register_route\<close> ends without a \<open>return\<close>.\<close>

definition register_route :: "'c caddy \<Rightarrow> string \<Rightarrow> string \<Rightarrow> 'c \<Rightarrow> bool option \<times> 'c" where
  "register_route api domain dial c =
     (case cd_post api c (app_route domain dial) of
        (None, c') \<Rightarrow> (None, c')
      | (Some code, c') \<Rightarrow> (Some (code \<in> {200, 201}), c'))"

definition register_fallback_route :: "'c caddy \<Rightarrow> string \<Rightarrow> string \<Rightarrow> 'c \<Rightarrow> bool \<times> 'c" where
  "register_fallback_route api control_plane domain c =
     (case cd_delete api c (domain_route_id domain) of
        (None, c') \<Rightarrow> (True, c')
      | (Some _, c') \<Rightarrow>
          (case cd_post api c' (wake_route control_plane domain) of
             (None, c'') \<Rightarrow> (True, c'')
           | (Some code, c'') \<Rightarrow> (code \<in> {200, 201}, c'')))"

definition unregister_route :: "'c caddy \<Rightarrow> string \<Rightarrow> 'c \<Rightarrow> bool \<times> 'c" where
  "unregister_route api domain c =
     (case cd_delete api c (domain_route_id domain) of
        (None, c') \<Rightarrow> (True, c')
      | (Some code, c') \<Rightarrow> (code \<in> {200, 204, 404}, c'))"

datatype ingress_call = Register string string | Fallback string | Unregister string

definition run_ingress_call :: "'c caddy \<Rightarrow> string \<Rightarrow> ingress_call \<Rightarrow> 'c \<Rightarrow> 'c" where
  "run_ingress_call api control_plane call c = (case call of
     Register domain dial \<Rightarrow> snd (register_route api domain dial c)
   | Fallback domain \<Rightarrow> snd (register_fallback_route api control_plane domain c)
   | Unregister domain \<Rightarrow> snd (unregister_route api domain c))"

definition run_ingress :: "'c caddy \<Rightarrow> string \<Rightarrow> ingress_call list \<Rightarrow> 'c \<Rightarrow> 'c" where
  "run_ingress api control_plane calls = fold (run_ingress_call api control_plane) calls"

text \<open>The default host name of a deployment, \<open>env_base\<close> being \<open>PUBLIC_APP_BASE_DOMAIN\<close>.\<close>

definition strip_dots :: "string \<Rightarrow> string" where
  "strip_dots s = rstrip_where (\<lambda>c. c = CHR ''.'') (lstrip_where (\<lambda>c. c = CHR ''.'') s)"

definition default_app_domain :: "string \<Rightarrow> string \<Rightarrow> string \<Rightarrow> string option" where
  "default_app_domain env_base deployment_id base_domain =
     (let base = strip_dots (py_strip (if base_domain \<noteq> [] then base_domain else env_base)) in
      if base = [] then None else Some (take 12 deployment_id @ ''.'' @ base))"

definition default_app_url :: "string \<Rightarrow> string \<Rightarrow> string \<Rightarrow> string option" where
  "default_app_url env_base deployment_id base_domain =
     map_option (\<lambda>domain. ''https://'' @ domain) (default_app_domain env_base deployment_id base_domain)"

section \<open>DNS\<close>

text \<open>
  The records of a name, \<open>None\<close> for a failed lookup; the CNAME answers as printed and the strings of
  the TXT answers.  \<open>dns_testing\<close> is whether \<open>TESTING\<close> is 1.
\<close>

record resolver =
  dns_a :: "string \<Rightarrow> string list option"
  dns_cname :: "string \<Rightarrow> string list option"
  dns_txt :: "string \<Rightarrow> string list option"
  dns_testing :: bool

definition ends_with :: "string \<Rightarrow> string \<Rightarrow> bool" where
  "ends_with s t \<longleftrightarrow> length t \<le> length s \<and> drop (length s - length t) s = t"

definition rstrip_dots :: "string \<Rightarrow> string" where
  "rstrip_dots s = rstrip_where (\<lambda>c. c = CHR ''.'') s"

definition dns_check :: "string list option \<Rightarrow> string option \<Rightarrow> bool" where
  "dns_check answers expected = (case (answers, expected) of
     (Some records, Some e) \<Rightarrow> e \<noteq> [] \<and> e \<in> set records | _ \<Rightarrow> False)"

definition verify_dns ::
  "resolver \<Rightarrow> string \<Rightarrow> string option \<Rightarrow> string option \<Rightarrow> string option \<Rightarrow> bool" where
  "verify_dns dns domain expected_ip expected_cname expected_txt =
     (if ends_with domain ''.test'' \<or> ends_with domain ''.local'' \<or> dns_testing dns then True
      else
        (let a = dns_check (dns_a dns domain) expected_ip;
             cname = dns_check (map_option (map rstrip_dots) (dns_cname dns domain))
               (case expected_cname of Some e \<Rightarrow> if e = [] then None else Some (rstrip_dots e) | None \<Rightarrow> None);
             txt = dns_check (dns_txt dns domain) expected_txt
         in a \<or> cname \<or> txt))"

section \<open>Custom domains\<close>

text \<open>The pattern of a host name, label by label; the last label is of two letters or more.\<close>

definition is_letter :: "char \<Rightarrow> bool" where
  "is_letter c \<longleftrightarrow> (let n = of_char c :: nat in 65 \<le> n \<and> n \<le> 90 \<or> 97 \<le> n \<and> n \<le> 122)"

definition label_ok :: "string \<Rightarrow> bool" where
  "label_ok l \<longleftrightarrow> l \<noteq> [] \<and> length l \<le> 63 \<and>
     (\<forall>c \<in> set l. is_letter c \<or> is_digit c \<or> c = CHR ''-'') \<and> hd l \<noteq> CHR ''-'' \<and> last l \<noteq> CHR ''-''"

definition domain_ok :: "string \<Rightarrow> bool" where
  "domain_ok domain \<longleftrightarrow> (let labels = py_split (CHR ''.'') domain in
     2 \<le> length labels \<and> (\<forall>l \<in> set (butlast labels). label_ok l) \<and>
     2 \<le> length (last labels) \<and> (\<forall>c \<in> set (last labels). is_letter c))"

definition validate_domain_name :: "string \<Rightarrow> exn + string" where
  "validate_domain_name v =
     (let domain = py_lower (py_strip v) in if domain_ok domain then Inr domain else Inl ValidationError)"

definition get_domain :: "database \<Rightarrow> uuid \<Rightarrow> custom_domain option" where
  "get_domain db i = get_row dom_id i (db_domains db)"

definition upd_domain :: "uuid \<Rightarrow> (custom_domain \<Rightarrow> custom_domain) \<Rightarrow> database \<Rightarrow> database" where
  "upd_domain i f db = db\<lparr>db_domains := modify_row dom_id i f (db_domains db)\<rparr>"

definition get_deployment_for_user :: "uuid \<Rightarrow> user \<Rightarrow> deployment op" where
  "get_deployment_for_user deployment_id user =
     bind_op (get_op (\<lambda>s. get_deployment (ses_objects s) deployment_id)) (\<lambda>found.
     case found of
       None \<Rightarrow> raise_op (HTTPException 404)
     | Some dep \<Rightarrow> if dep_owner_id dep \<noteq> usr_id user then raise_op (HTTPException 404) else return_op dep)"

definition attach_custom_domain ::
  "instant \<Rightarrow> uuid \<Rightarrow> string \<Rightarrow> uuid \<Rightarrow> string \<Rightarrow> user \<Rightarrow> custom_domain op" where
  "attach_custom_domain now new_id token deployment_id raw_domain user =
     (case validate_domain_name raw_domain of
        Inl e \<Rightarrow> raise_op (HTTPException 422)
      | Inr domain \<Rightarrow>
          bind_op (get_deployment_for_user deployment_id user) (\<lambda>deployment.
          bind_op (get_op (\<lambda>s. first_row (filter (\<lambda>d. dom_domain d = domain) (db_domains (ses_flushed s))))) (\<lambda>existing.
          case existing of
            Some _ \<Rightarrow> raise_op (HTTPException 409)
          | None \<Rightarrow>
              let rec = \<lparr>dom_id = new_id, dom_deployment_id = dep_id deployment, dom_domain = domain,
                    dom_status = DomainStatus.pending_dns, dom_verification_token = token,
                    dom_ssl_active = False, dom_error_message = None, dom_created_at = now\<rparr> in
              bind_op (modify_op (set_objects (\<lambda>db. db\<lparr>db_domains := db_domains db @ [rec]\<rparr>))) (\<lambda>_.
              bind_op commit_op (\<lambda>_. return_op rec)))))"

definition list_custom_domains :: "uuid \<Rightarrow> user \<Rightarrow> custom_domain list op" where
  "list_custom_domains deployment_id user =
     bind_op (get_deployment_for_user deployment_id user) (\<lambda>deployment.
     get_op (\<lambda>s. sort_key (\<lambda>d. - dom_created_at d)
       (filter (\<lambda>d. dom_deployment_id d = dep_id deployment) (db_domains (ses_flushed s)))))"

text \<open>A domain by its identifier, of a deployment of the user.\<close>

definition get_domain_for_user :: "uuid \<Rightarrow> user \<Rightarrow> (custom_domain \<times> deployment) op" where
  "get_domain_for_user domain_id user =
     bind_op (get_op (\<lambda>s. get_domain (ses_objects s) domain_id)) (\<lambda>found.
     case found of
       None \<Rightarrow> raise_op (HTTPException 404)
     | Some d \<Rightarrow> bind_op (get_deployment_for_user (dom_deployment_id d) user) (\<lambda>dep. return_op (d, dep)))"

definition set_domain :: "uuid \<Rightarrow> (custom_domain \<Rightarrow> custom_domain) \<Rightarrow> unit op" where
  "set_domain i f = modify_op (set_objects (upd_domain i f))"

definition truthy_port :: "int option \<Rightarrow> bool" where
  "truthy_port p \<longleftrightarrow> p \<noteq> None \<and> p \<noteq> Some 0"

text \<open>The calls to the proxy come before the commit; nothing is read between the two.\<close>

definition domain_route_calls :: "custom_domain \<Rightarrow> deployment \<Rightarrow> session \<Rightarrow> ingress_call list" where
  "domain_route_calls d deployment s =
     (if dep_state deployment = DeploymentState.running \<and> truthy_port (dep_host_port deployment) then
        (case Option.bind (dep_node_id deployment) (get_node (ses_objects s)) of
           None \<Rightarrow> []
         | Some node \<Rightarrow>
             if nd_ip_address node = [] then []
             else [Register (dom_domain d) (upstream (nd_ip_address node) (dep_host_port deployment))])
      else [])"

definition verify_custom_domain ::
  "settings \<Rightarrow> resolver \<Rightarrow> string \<Rightarrow> uuid \<Rightarrow> user \<Rightarrow> ingress_call list op" where
  "verify_custom_domain cfg dns failure_text domain_id user =
     bind_op (get_domain_for_user domain_id user) (\<lambda>(d, deployment).
     if \<not> verify_dns dns (dom_domain d) (Some (cfg_public_ingress_ipv4 cfg)) (Some (cfg_public_ingress_domain cfg))
          (Some (''blockhost-verify='' @ dom_verification_token d)) then
       bind_op (set_domain domain_id (\<lambda>r. r\<lparr>dom_status := DomainStatus.failed,
           dom_error_message := Some failure_text\<rparr>)) (\<lambda>_.
       bind_op commit_op (\<lambda>_. raise_op (HTTPException 400)))
     else
       bind_op (set_domain domain_id (\<lambda>r. r\<lparr>dom_status := DomainStatus.active, dom_ssl_active := True,
           dom_error_message := None\<rparr>)) (\<lambda>_.
       bind_op (get_op (domain_route_calls d deployment)) (\<lambda>calls.
       bind_op commit_op (\<lambda>_. return_op calls))))"

definition detach_custom_domain :: "uuid \<Rightarrow> user \<Rightarrow> ingress_call list op" where
  "detach_custom_domain domain_id user =
     bind_op (get_domain_for_user domain_id user) (\<lambda>(d, deployment).
     bind_op (modify_op (set_objects (\<lambda>db. db\<lparr>db_domains := delete_row dom_id domain_id (db_domains db)\<rparr>))) (\<lambda>_.
     bind_op commit_op (\<lambda>_. return_op [Unregister (dom_domain d)])))"

definition get_domain_ssl_status :: "uuid \<Rightarrow> user \<Rightarrow> (string \<times> bool) op" where
  "get_domain_ssl_status domain_id user =
     bind_op (get_domain_for_user domain_id user) (\<lambda>(d, deployment). return_op (dom_domain d, dom_ssl_active d))"

section \<open>Where requests go\<close>

text \<open>
  What the service relies on of the proxy: a posted route is appended, so that a host which already
  has a route keeps going where it went, and deleting the identifier of a domain removes its route.
  \<open>target c h\<close> is the address requests for the host \<open>h\<close> are sent to.
\<close>

definition appends_routes :: "'c caddy \<Rightarrow> ('c \<Rightarrow> string \<Rightarrow> string option) \<Rightarrow> bool" where
  "appends_routes api target \<longleftrightarrow>
     (\<forall>c r. route_id r = domain_route_id (route_host r) \<longrightarrow> target (snd (cd_post api c r)) =
        (if target c (route_host r) = None then (target c)(route_host r \<mapsto> route_dial r) else target c)) \<and>
     (\<forall>c d. fst (cd_delete api c (domain_route_id d)) \<noteq> None \<and>
        target (snd (cd_delete api c (domain_route_id d))) = (target c)(d := None))"

text \<open>The same calls on the map from hosts to addresses.\<close>

definition map_call :: "string \<Rightarrow> ingress_call \<Rightarrow> (string \<rightharpoonup> string) \<Rightarrow> (string \<rightharpoonup> string)" where
  "map_call control_plane call m = (case call of
     Register d dial \<Rightarrow> if m d = None then m(d \<mapsto> dial) else m
   | Fallback d \<Rightarrow> m(d \<mapsto> control_plane)
   | Unregister d \<Rightarrow> m(d := None))"

lemma route_sel [simp]:
  "route_id (app_route d dial) = domain_route_id (route_host (app_route d dial))"
  "route_id (wake_route cp d) = domain_route_id (route_host (wake_route cp d))"
  "route_host (app_route d dial) = d" "route_host (wake_route cp d) = d"
  "route_dial (app_route d dial) = dial" "route_dial (wake_route cp d) = cp"
  by (simp_all add: app_route_def wake_route_def)

lemma appends_routesD:
  assumes "appends_routes api target"
  shows "target (snd (cd_post api c (app_route d dial))) =
      (if target c d = None then (target c)(d \<mapsto> dial) else target c)"
    and "target (snd (cd_post api c (wake_route cp d))) =
      (if target c d = None then (target c)(d \<mapsto> cp) else target c)"
    and "fst (cd_delete api c (domain_route_id d)) \<noteq> None"
    and "target (snd (cd_delete api c (domain_route_id d))) = (target c)(d := None)"
  using assms unfolding appends_routes_def by (metis route_sel)+

lemma run_ingress_call_map:
  assumes "appends_routes api target"
  shows "target (run_ingress_call api cp call c) = map_call cp call (target c)"
proof (cases call)
  case (Register d dial)
  then show ?thesis
    using appends_routesD(1) [OF assms, of c d dial]
    by (auto simp: run_ingress_call_def register_route_def map_call_def split: prod.split option.split)
next
  case (Fallback d)
  have del: "fst (cd_delete api c (domain_route_id d)) \<noteq> None"
    "target (snd (cd_delete api c (domain_route_id d))) = (target c)(d := None)"
    using appends_routesD(3,4) [OF assms] by simp_all
  then obtain n c' where d: "cd_delete api c (domain_route_id d) = (Some n, c')" "target c' = (target c)(d := None)"
    by (cases "cd_delete api c (domain_route_id d)") auto
  have "target (snd (cd_post api c' (wake_route cp d))) = (target c')(d \<mapsto> cp)"
    using appends_routesD(2) [OF assms, of c' cp d] d(2) by simp
  with Fallback d show ?thesis
    by (auto simp: run_ingress_call_def register_fallback_route_def map_call_def split: prod.split option.split)
next
  case (Unregister d)
  then show ?thesis
    using appends_routesD(4) [OF assms, of c d]
    by (auto simp: run_ingress_call_def unregister_route_def map_call_def split: prod.split option.split)
qed


text \<open>A proxy that keeps its routes in a list.\<close>

definition list_caddy :: "route list caddy" where
  "list_caddy = \<lparr>cd_post = (\<lambda>c r. (Some 200, c @ [r])),
     cd_delete = (\<lambda>c i. (Some 200, filter (\<lambda>r. route_id r \<noteq> i) c))\<rparr>"

definition list_target :: "route list \<Rightarrow> string \<Rightarrow> string option" where
  "list_target c h = map_option route_dial (get_row route_id (domain_route_id h) c)"

lemma domain_route_id_eq [simp]: "domain_route_id a = domain_route_id b \<longleftrightarrow> a = b"
  by (simp add: domain_route_id_def)

lemma list_caddy_appends: "appends_routes list_caddy list_target"
proof -
  have "get_row route_id k (c @ [r]) = (case get_row route_id k c of None \<Rightarrow> (if route_id r = k then Some r else None) | Some x \<Rightarrow> Some x)"
    for k c and r :: route by (induction c) auto
  then have post: "list_target (c @ [r]) = (if list_target c (route_host r) = None
      then (list_target c)(route_host r \<mapsto> route_dial r) else list_target c)"
    if "route_id r = domain_route_id (route_host r)" for c and r :: route
    using that by (auto simp: list_target_def fun_eq_iff split: option.splits)
  have "get_row route_id k (filter (\<lambda>r. route_id r \<noteq> i) c) = (if k = i then None else get_row route_id k c)"
    for k i and c :: "route list" by (induction c) auto
  then have del: "list_target (filter (\<lambda>r. route_id r \<noteq> domain_route_id d) c) = (list_target c)(d := None)" for c d
    by (auto simp: list_target_def fun_eq_iff)
  show ?thesis by (auto simp: appends_routes_def list_caddy_def post del)
qed


end
