(* ===== verification/Provisioning.thy ===== *)
theory Provisioning
  imports Paddle Lifecycle Ingress
begin

text \<open>
  Provisioning of paid resources (\<open>services/provisioning.py\<close>): the background task the billing
  webhook, the deployment routes and the wake page schedule.  The agent of the node is a parameter:
  its answers to the requests of the task, in \<open>prov_env\<close>.  The task waits for a GitHub build in a loop
  that polls the agent until the build is finished, which may be never; \<open>fuel\<close> bounds the number of
  polls, and the task answers \<open>None\<close> while it is still polling.
\<close>

section \<open>The environment\<close>

record build_report =
  br_status :: string
  br_image_tag :: "string option"
  br_build_logs :: string
  br_error :: "string option"

text \<open>
  \<open>pv_build_status\<close> is the answer to the \<open>n\<close>-th poll.  \<open>pv_inside_var\<close> is whether a path is under
  \<open>/var/lib/blockhost/servers\<close>, the directory the task passes to the orchestrator, since the settings
  have no \<open>servers_root_dir\<close>.  \<open>pv_text\<close> is \<open>str\<close> of an exception.  \<open>pv_text_ids\<close> is whether the
  database driver takes a text where a UUID column is compared.
\<close>

record prov_env =
  pv_start :: start_env
  pv_inside_var :: "string \<Rightarrow> bool"
  pv_build_post :: "deployment \<Rightarrow> node \<Rightarrow> exn + unit"
  pv_build_status :: "deployment \<Rightarrow> node \<Rightarrow> nat \<Rightarrow> exn + build_report"
  pv_start_app :: "deployment \<Rightarrow> node \<Rightarrow> exn + string option \<times> int option"
  pv_start_db :: "database_instance \<Rightarrow> node \<Rightarrow> string \<Rightarrow> string dict \<Rightarrow> string \<Rightarrow> string list option \<Rightarrow> exn + unit"
  pv_text :: "exn \<Rightarrow> string"
  pv_text_ids :: bool
  pv_env_base_domain :: string

definition pv_now :: "prov_env \<Rightarrow> instant" where
  "pv_now env = env_now (pv_start env)"

section \<open>Servers\<close>

text \<open>
  The handler of a failed start reads \<open>ServerState.error\<close>, which the enumeration does not have, so
  it raises before it has changed anything.
\<close>

definition provision_minecraft_server :: "settings \<Rightarrow> prov_env \<Rightarrow> uuid \<Rightarrow> unit op" where
  "provision_minecraft_server cfg env server_id =
     bind_op (get_op (\<lambda>s. get_server (ses_objects s) server_id)) (\<lambda>found.
     case found of
       None \<Rightarrow> return_op ()
     | Some server \<Rightarrow>
         catch_op
           (bind_op (orchestrator_start cfg ((pv_start env)\<lparr>env_dir_inside_root := pv_inside_var env\<rparr>) server_id)
              (\<lambda>_. commit_op))
           (\<lambda>e. raise_op AttributeError))"

section \<open>Deployments\<close>

definition latest_revision :: "uuid \<Rightarrow> session \<Rightarrow> revision option" where
  "latest_revision deployment_id s =
     first_row (sort_key (\<lambda>r. - rev_created_at r) (query_revisions (\<lambda>r. rev_deployment_id r = deployment_id) s))"

definition upd_revision :: "uuid \<Rightarrow> (revision \<Rightarrow> revision) \<Rightarrow> database \<Rightarrow> database" where
  "upd_revision i f db = db\<lparr>db_revisions := modify_row rev_id i f (db_revisions db)\<rparr>"

definition set_revision :: "revision option \<Rightarrow> (revision \<Rightarrow> revision) \<Rightarrow> unit op" where
  "set_revision r f = (case r of None \<Rightarrow> return_op () | Some r \<Rightarrow> modify_op (set_objects (upd_revision (rev_id r) f)))"

text \<open>Step 1: a node for the deployment.\<close>

definition app_node :: "settings \<Rightarrow> prov_env \<Rightarrow> uuid \<Rightarrow> node op" where
  "app_node cfg env did = with_deployment did (\<lambda>dep.
     case dep_node_id dep of
       None \<Rightarrow>
         bind_op (get_op (\<lambda>s. select_best_node cfg (pv_now env) (ses_flushed s) (dep_ram_limit_mb dep) NodeTier.shared)) (\<lambda>found.
         case found of
           None \<Rightarrow> raise_op RuntimeError
         | Some node \<Rightarrow>
             bind_op (set_deployment did (\<lambda>r. r\<lparr>dep_node_id := Some (nd_id node), dep_state := DeploymentState.building\<rparr>)) (\<lambda>_.
             bind_op commit_op (\<lambda>_. return_op node)))
     | Some i \<Rightarrow>
         bind_op (get_op (\<lambda>s. get_node (ses_objects s) i)) (\<lambda>found.
         case found of None \<Rightarrow> raise_op RuntimeError | Some node \<Rightarrow> return_op node))"

text \<open>Step 1.5: the build.\<close>

definition mark_building :: "uuid \<Rightarrow> unit op" where
  "mark_building did = with_deployment did (\<lambda>dep.
     if dep_state dep = DeploymentState.building then return_op ()
     else bind_op (set_deployment did (\<lambda>r. r\<lparr>dep_state := DeploymentState.building\<rparr>)) (\<lambda>_. commit_op))"

definition final_report :: "build_report \<Rightarrow> bool" where
  "final_report r \<longleftrightarrow> br_status r = ''success'' \<or> br_status r = ''error'' \<or> br_status r = ''unknown''"

fun poll_build :: "prov_env \<Rightarrow> uuid \<Rightarrow> node \<Rightarrow> nat \<Rightarrow> nat \<Rightarrow> build_report option op" where
  "poll_build env did node 0 n = return_op None"
| "poll_build env did node (Suc fuel) n =
     bind_op (mark_building did) (\<lambda>_. with_deployment did (\<lambda>dep.
     bind_op (lift_op (pv_build_status env dep node n)) (\<lambda>r.
     if final_report r then return_op (Some r) else poll_build env did node fuel (Suc n))))"

definition build_succeeded :: "uuid \<Rightarrow> revision option \<Rightarrow> build_report \<Rightarrow> unit op" where
  "build_succeeded did revision r = (case br_image_tag r of
     None \<Rightarrow> return_op ()
   | Some tag \<Rightarrow>
       if tag = [] then return_op ()
       else
         bind_op (set_deployment did (\<lambda>d. d\<lparr>dep_docker_image := tag\<rparr>)) (\<lambda>_.
         bind_op (set_revision revision (\<lambda>v. v\<lparr>rev_image_tag := Some tag, rev_status := DeploymentState.building,
           rev_build_logs := Some (if br_build_logs r \<noteq> [] then br_build_logs r
             else ''Build succeeded. Image: '' @ tag)\<rparr>)) (\<lambda>_. commit_op)))"

definition build_failed :: "revision option \<Rightarrow> build_report \<Rightarrow> unit op" where
  "build_failed revision r =
     (let msg = (case br_error r of
            Some (c # cs) \<Rightarrow> c # cs | _ \<Rightarrow> ''GitHub build failed on the agent. Check agent logs.'') in
      bind_op (case revision of
          None \<Rightarrow> return_op ()
        | Some _ \<Rightarrow> bind_op (set_revision revision
            (\<lambda>v. v\<lparr>rev_build_logs := Some msg, rev_error_message := Some msg\<rparr>)) (\<lambda>_. commit_op)) (\<lambda>_.
      raise_op RuntimeError))"

text \<open>The answer is whether the build is over.\<close>

definition github_build :: "prov_env \<Rightarrow> uuid \<Rightarrow> node \<Rightarrow> revision option \<Rightarrow> nat \<Rightarrow> bool op" where
  "github_build env did node revision fuel = with_deployment did (\<lambda>dep.
     if dep_github_repo_url dep = None \<or> dep_github_repo_url dep = Some [] then return_op True
     else
       bind_op (lift_op (pv_build_post env dep node)) (\<lambda>_.
       bind_op (poll_build env did node fuel 0) (\<lambda>report.
       case report of
         None \<Rightarrow> return_op False
       | Some r \<Rightarrow>
           if br_status r = ''success'' then bind_op (build_succeeded did revision r) (\<lambda>_. return_op True)
           else if br_status r = ''error'' then bind_op (build_failed revision r) (\<lambda>_. return_op True)
           else raise_op RuntimeError)))"

text \<open>Steps 2 and 3: the container.\<close>

definition start_container :: "prov_env \<Rightarrow> uuid \<Rightarrow> node \<Rightarrow> revision option \<Rightarrow> unit op" where
  "start_container env did node revision = with_deployment did (\<lambda>dep.
     bind_op (lift_op (pv_start_app env dep node)) (\<lambda>(container_id, host_port).
     bind_op (set_deployment did (\<lambda>d. d\<lparr>dep_container_id := container_id, dep_host_port := host_port,
       dep_state := DeploymentState.running, dep_error_message := None,
       dep_health_status := HealthStatus.unknown, dep_restart_count := 0\<rparr>)) (\<lambda>_.
     bind_op (set_revision revision (\<lambda>v. v\<lparr>rev_status := DeploymentState.running,
       rev_image_tag := Some (dep_docker_image dep), rev_deployed_at := Some (pv_now env),
       rev_is_active := True\<rparr>)) (\<lambda>_. commit_op))))"

text \<open>Step 4: the calls for the default domain and the active custom domains.\<close>

definition app_routes :: "settings \<Rightarrow> prov_env \<Rightarrow> node \<Rightarrow> deployment \<Rightarrow> session \<Rightarrow> ingress_call list" where
  "app_routes cfg env node dep s =
     (case default_app_domain (pv_env_base_domain env) (str_uuid (dep_id dep)) (cfg_public_app_base_domain cfg) of
        None \<Rightarrow> []
      | Some d \<Rightarrow> if truthy_port (dep_host_port dep)
                  then [Register d (upstream (nd_ip_address node) (dep_host_port dep))] else []) @
     map (\<lambda>d. Register (dom_domain d) (upstream (nd_ip_address node) (dep_host_port dep)))
       (filter (\<lambda>d. dom_deployment_id d = dep_id dep \<and> dom_status d = DomainStatus.active)
         (db_domains (ses_flushed s)))"

text \<open>
  The handler of a failure.  After a failed commit the objects are as they were, so its own commit
  fails again (SQLAlchemy raises already at the query, the session being in a failed transaction).
\<close>

definition provisioning_failed :: "prov_env \<Rightarrow> uuid \<Rightarrow> exn \<Rightarrow> unit op" where
  "provisioning_failed env did e =
     bind_op (set_deployment did (\<lambda>d. d\<lparr>dep_state := DeploymentState.error,
       dep_error_message := Some (pv_text env e)\<rparr>)) (\<lambda>_.
     bind_op (get_op (latest_revision did)) (\<lambda>revision.
     bind_op (set_revision revision (\<lambda>v. v\<lparr>rev_status := DeploymentState.error,
       rev_error_message := Some (pv_text env e),
       rev_build_logs := Some (case rev_build_logs v of
           Some (c # cs) \<Rightarrow> c # cs @ [CHR 0x0A] @ pv_text env e | _ \<Rightarrow> pv_text env e)\<rparr>)) (\<lambda>_.
     commit_op)))"

definition provision_steps :: "settings \<Rightarrow> prov_env \<Rightarrow> nat \<Rightarrow> uuid \<Rightarrow> ingress_call list option op" where
  "provision_steps cfg env fuel did =
     bind_op (app_node cfg env did) (\<lambda>node.
     bind_op (get_op (latest_revision did)) (\<lambda>revision.
     bind_op (github_build env did node revision fuel) (\<lambda>built.
     if \<not> built then return_op None
     else
       bind_op (start_container env did node revision) (\<lambda>_. with_deployment did (\<lambda>dep.
       bind_op (get_op (app_routes cfg env node dep)) (\<lambda>calls. return_op (Some calls)))))))"

definition provision_app_deployment :: "settings \<Rightarrow> prov_env \<Rightarrow> nat \<Rightarrow> uuid \<Rightarrow> ingress_call list option op" where
  "provision_app_deployment cfg env fuel deployment_id =
     bind_op (get_op (\<lambda>s. get_deployment (ses_objects s) deployment_id)) (\<lambda>found.
     case found of
       None \<Rightarrow> return_op (Some [])
     | Some _ \<Rightarrow> catch_op (provision_steps cfg env fuel deployment_id)
         (\<lambda>e. bind_op (provisioning_failed env deployment_id e) (\<lambda>_. return_op (Some []))))"

section \<open>Databases\<close>

definition database_image_and_env ::
  "database_instance \<Rightarrow> string \<times> string dict \<times> string \<times> string list option" where
  "database_image_and_env i =
     (let password = dbi_db_password i; version = dbi_version i in
      case dbi_engine i of
        postgresql \<Rightarrow> (''postgres:'' @ version,
          [(''POSTGRES_DB'', dbi_db_name i), (''POSTGRES_USER'', dbi_db_username i), (''POSTGRES_PASSWORD'', password)],
          ''/var/lib/postgresql/data'', None)
      | mysql \<Rightarrow> (''mysql:'' @ version,
          [(''MYSQL_DATABASE'', dbi_db_name i), (''MYSQL_USER'', dbi_db_username i), (''MYSQL_PASSWORD'', password),
           (''MYSQL_ROOT_PASSWORD'', password)],
          ''/var/lib/mysql'', None)
      | mariadb \<Rightarrow> (''mariadb:'' @ version,
          [(''MARIADB_DATABASE'', dbi_db_name i), (''MARIADB_USER'', dbi_db_username i),
           (''MARIADB_PASSWORD'', password), (''MARIADB_ROOT_PASSWORD'', password)],
          ''/var/lib/mysql'', None)
      | redis \<Rightarrow> (''redis:'' @ version, [], ''/data'',
          Some ([''redis-server'', ''--appendonly'', ''yes''] @
            (if password = [] then [] else [''--requirepass'', password]))))"

definition set_instance :: "uuid \<Rightarrow> (database_instance \<Rightarrow> database_instance) \<Rightarrow> unit op" where
  "set_instance i f = modify_op (set_objects (upd_instance i f))"

definition database_node :: "settings \<Rightarrow> prov_env \<Rightarrow> database_instance \<Rightarrow> node op" where
  "database_node cfg env i =
     (case dbi_node_id i of
        None \<Rightarrow>
          bind_op (get_op (\<lambda>s. select_best_node cfg (pv_now env) (ses_flushed s) (dbi_ram_limit_mb i) NodeTier.shared)) (\<lambda>found.
          case found of
            None \<Rightarrow> raise_op RuntimeError
          | Some node \<Rightarrow>
              bind_op (set_instance (dbi_id i) (\<lambda>r. r\<lparr>dbi_node_id := Some (nd_id node), dbi_state := DeploymentState.building\<rparr>)) (\<lambda>_.
              bind_op commit_op (\<lambda>_. return_op node)))
      | Some n \<Rightarrow>
          bind_op (get_op (\<lambda>s. get_node (ses_objects s) n)) (\<lambda>found.
          case found of None \<Rightarrow> raise_op RuntimeError | Some node \<Rightarrow> return_op node))"

definition start_database_container :: "prov_env \<Rightarrow> database_instance \<Rightarrow> node \<Rightarrow> unit op" where
  "start_database_container env i node =
     (case database_image_and_env i of (img, env_vars, mount_path, command) \<Rightarrow>
        bind_op (lift_op (pv_start_db env i node img env_vars mount_path command)) (\<lambda>_.
        bind_op (set_instance (dbi_id i) (\<lambda>r. r\<lparr>dbi_state := DeploymentState.running\<rparr>)) (\<lambda>_. commit_op)))"

definition provision_database_instance :: "settings \<Rightarrow> prov_env \<Rightarrow> uuid \<Rightarrow> unit op" where
  "provision_database_instance cfg env database_id =
     bind_op (get_op (\<lambda>s. get_instance (ses_objects s) database_id)) (\<lambda>found.
     case found of
       None \<Rightarrow> return_op ()
     | Some i \<Rightarrow> catch_op
         (bind_op (database_node cfg env i) (\<lambda>node. start_database_container env i node))
         (\<lambda>e. bind_op (set_instance database_id (\<lambda>r. r\<lparr>dbi_state := DeploymentState.error\<rparr>)) (\<lambda>_. commit_op)))"

section \<open>The task\<close>

text \<open>
  The webhook passes a UUID, the routes of deployments and databases its text.  A text that the
  driver does not take raises at the lookup.
\<close>

datatype resource_ref = RefId uuid | RefText string

definition resolve_ref :: "prov_env \<Rightarrow> resource_ref \<Rightarrow> exn + uuid" where
  "resolve_ref env r = (case r of
     RefId i \<Rightarrow> Inr i
   | RefText t \<Rightarrow> if \<not> pv_text_ids env then Inl ValueError
       else (case parse_uuid t of None \<Rightarrow> Inl ValueError | Some i \<Rightarrow> Inr i))"

definition provision_body :: "settings \<Rightarrow> prov_env \<Rightarrow> nat \<Rightarrow> string \<Rightarrow> resource_ref \<Rightarrow> ingress_call list option op" where
  "provision_body cfg env fuel resource_type ref =
     (if resource_type = ''minecraft_server'' then
        bind_op (lift_op (resolve_ref env ref)) (\<lambda>i.
        bind_op (provision_minecraft_server cfg env i) (\<lambda>_. return_op (Some [])))
      else if resource_type = ''app_deployment'' then
        bind_op (lift_op (resolve_ref env ref)) (\<lambda>i. provision_app_deployment cfg env fuel i)
      else if resource_type = ''database_instance'' then
        bind_op (lift_op (resolve_ref env ref)) (\<lambda>i.
        bind_op (provision_database_instance cfg env i) (\<lambda>_. return_op (Some [])))
      else return_op (Some []))"

text \<open>The task has a session of its own and lets no exception out.\<close>

definition provision_resource ::
  "settings \<Rightarrow> prov_env \<Rightarrow> nat \<Rightarrow> string \<Rightarrow> resource_ref \<Rightarrow> database \<Rightarrow> ingress_call list option \<times> database" where
  "provision_resource cfg env fuel resource_type ref db =
     (case run_request (provision_body cfg env fuel resource_type ref) db of
        (Inl e, db') \<Rightarrow> (Some [], db')
      | (Inr calls, db') \<Rightarrow> (calls, db'))"

section \<open>A deployment settles\<close>

lemma get_deployment_upd [table_simps]:
  "(\<And>r. dep_id (f r) = dep_id r) \<Longrightarrow> get_deployment (upd_deployment i f db) j =
    (if j = i then map_option f (get_deployment db j) else get_deployment db j)"
  unfolding get_deployment_def upd_deployment_sel by (rule get_row_modify_row)

lemma constraints_upd [simp]:
  "constraints_ok (upd_deployment i f db) = constraints_ok db"
  "constraints_ok (upd_revision j g db) = constraints_ok db"
  "constraints_ok (upd_instance k h db) = constraints_ok db"
  "get_deployment (upd_revision j g db) l = get_deployment db l"
  by (simp_all add: constraints_ok_def upd_deployment_def upd_revision_def upd_instance_def get_deployment_def)

text \<open>The deployment is loaded and nothing stands in the way of a commit.\<close>

definition loaded :: "uuid \<Rightarrow> session \<Rightarrow> bool" where
  "loaded i s \<longleftrightarrow> constraints_ok (ses_objects s) \<and> get_deployment (ses_objects s) i \<noteq> None"

definition settled :: "uuid \<Rightarrow> DeploymentState \<Rightarrow> session \<Rightarrow> bool" where
  "settled i st s \<longleftrightarrow> ses_objects s = ses_committed s \<and>
     (\<exists>d. get_deployment (ses_committed s) i = Some d \<and> dep_state d = st)"

lemma loaded_set_deployment: "(\<And>r. dep_id (f r) = dep_id r) \<Longrightarrow> keeps (loaded i) (set_deployment i f)"
  by (rule keeps_set_deployment) (simp add: loaded_def get_deployment_upd)

lemma loaded_set_revision: "keeps (loaded i) (set_revision r f)"
  unfolding set_revision_def by (intro op_rules keeps_modify) (simp add: loaded_def)

lemma loaded_commit: "keeps (loaded i) commit_op"
  by (rule keeps_commit) (simp add: loaded_def)

lemmas loaded_rules = op_rules loaded_set_deployment loaded_set_revision loaded_commit

lemma loaded_app_node: "keeps (loaded i) (app_node cfg env i)"
  unfolding app_node_def by (intro loaded_rules) simp

lemma loaded_poll: "keeps (loaded i) (poll_build env i node fuel n)"
proof (induction fuel arbitrary: n)
  case 0
  show ?case by (simp add: keeps_return)
next
  case (Suc fuel)
  then show ?case
    unfolding poll_build.simps mark_building_def by (intro loaded_rules) simp_all
qed

lemma loaded_build: "keeps (loaded i) (github_build env i node revision fuel)"
  unfolding github_build_def build_succeeded_def build_failed_def Let_def
  by (intro loaded_rules loaded_poll) simp_all

definition poll_ends :: "prov_env \<Rightarrow> nat \<Rightarrow> bool" where
  "poll_ends env n \<longleftrightarrow> (\<forall>d node. case pv_build_status env d node n of Inl _ \<Rightarrow> True | Inr r \<Rightarrow> final_report r)"

lemma poll_settles:
  assumes "poll_build env i node fuel n s = (Inr r, s')" "n \<le> m" "m < n + fuel" "poll_ends env m"
  shows "r \<noteq> None"
  using assms
proof (induction fuel arbitrary: n s)
  case (Suc fuel)
  obtain d s1 u where u: "pv_build_status env d node n = Inr u"
    "(if final_report u then return_op (Some u) else poll_build env i node fuel (Suc n)) s1 = (Inr r, s')"
    using Suc.prems(1)
    by (auto simp: bind_op_def with_deployment_def lift_op_def split: prod.splits sum.splits option.splits)
  show ?case
  proof (cases "final_report u")
    case True
    then show ?thesis using u(2) by (auto simp: return_op_def)
  next
    case False
    then have "m \<noteq> n" using Suc.prems(4) u(1) by (auto simp: poll_ends_def split: sum.splits)
    with False u(2) Suc show ?thesis by auto
  qed
qed simp

lemma build_settles:
  assumes "github_build env i node revision fuel s = (Inr b, s')" "m < fuel" "poll_ends env m"
  shows "b"
proof -
  have "\<not> b \<Longrightarrow> \<exists>s1 s2. poll_build env i node fuel 0 s1 = (Inr None, s2)"
    using assms(1)
    by (auto simp: github_build_def bind_op_def with_deployment_def lift_op_def return_op_def raise_op_def
        split: prod.splits sum.splits option.splits if_splits)
  with poll_settles [OF _ _ _ assms(3), of i node fuel 0 _ None] assms(2) show ?thesis by fastforce
qed

lemma triple_build:
  assumes "m < fuel" "poll_ends env m"
  shows "triple (loaded i) (github_build env i node revision fuel) (\<lambda>b s. loaded i s \<and> b) (\<lambda>_. loaded i)"
  using keepsD [OF loaded_build] build_settles [OF _ assms] by (intro tripleI) blast+

lemma triple_settle_commit:
  assumes "\<And>s. P s \<Longrightarrow> loaded i s \<and> dep_state (the (get_deployment (ses_objects s) i)) = st"
  shows "triple P commit_op (\<lambda>_. settled i st) (\<lambda>_ _. False)"
  using assms by (fastforce simp: triple_def commit_op_def commit_def loaded_def settled_def)

definition in_state :: "uuid \<Rightarrow> DeploymentState \<Rightarrow> session \<Rightarrow> bool" where
  "in_state i st s \<longleftrightarrow> loaded i s \<and> dep_state (the (get_deployment (ses_objects s) i)) = st"

lemma in_state_set:
  assumes "\<And>r. dep_id (f r) = dep_id r" "\<And>r. dep_state (f r) = st"
  shows "triple (loaded i) (set_deployment i f) (\<lambda>_. in_state i st) R"
  using assms
  by (auto simp: triple_def set_deployment_def modify_op_def in_state_def loaded_def get_deployment_upd)

lemma in_state_revision: "keeps (in_state i st) (set_revision r f)"
  unfolding set_revision_def by (intro op_rules keeps_modify) (simp add: in_state_def loaded_def)

lemma in_state_commit: "triple (in_state i st) commit_op (\<lambda>_. settled i st) R"
  by (rule triple_weaken [OF triple_settle_commit [of "in_state i st" i st]]) (simp_all add: in_state_def)

lemma triple_with_deployment:
  assumes "\<And>r. triple (loaded i) (k r) Q R"
  shows "triple (loaded i) (with_deployment i k) Q R"
  using assms by (auto simp: triple_def with_deployment_def loaded_def split: option.split)

lemma triple_start:
  "triple (loaded i) (start_container env i node revision) (\<lambda>_. settled i DeploymentState.running) (\<lambda>_. loaded i)"
proof -
  have rest: "triple (loaded i)
      (bind_op (set_deployment i (\<lambda>d. d\<lparr>dep_container_id := c, dep_host_port := p,
         dep_state := DeploymentState.running, dep_error_message := None,
         dep_health_status := HealthStatus.unknown, dep_restart_count := 0\<rparr>)) (\<lambda>_.
       bind_op (set_revision revision f) (\<lambda>_. commit_op)))
      (\<lambda>_. settled i DeploymentState.running) (\<lambda>_. loaded i)" for c p f
    by (rule triple_bind [OF in_state_set], simp, simp, rule triple_keeps_bind [OF in_state_revision])
      (simp add: in_state_def, rule in_state_commit)
  show ?thesis
    unfolding start_container_def case_prod_beta
    by (intro triple_with_deployment triple_keeps_bind [OF keeps_lift] rest)
qed

lemma triple_steps_settle:
  assumes "m < fuel" "poll_ends env m"
  shows "triple (loaded i) (provision_steps cfg env fuel i)
    (\<lambda>r s. r \<noteq> None \<and> settled i DeploymentState.running s) (\<lambda>_. loaded i)"
proof -
  have routes: "triple (settled i st) (with_deployment i (\<lambda>dep.
       bind_op (get_op (app_routes cfg env node dep)) (\<lambda>calls. return_op (Some calls))))
     (\<lambda>r s. r \<noteq> None \<and> settled i st s) R" for st node R
    by (auto simp: triple_def with_deployment_def bind_op_def get_op_def return_op_def settled_def split: option.splits)
  show ?thesis
    unfolding provision_steps_def
  proof (intro triple_keeps_bind [OF loaded_app_node] triple_keeps_bind [OF keeps_get])
    fix node revision
    show "triple (loaded i) (bind_op (github_build env i node revision fuel) (\<lambda>built.
       if \<not> built then return_op None
       else bind_op (start_container env i node revision) (\<lambda>_. with_deployment i (\<lambda>dep.
         bind_op (get_op (app_routes cfg env node dep)) (\<lambda>calls. return_op (Some calls))))))
      (\<lambda>r s. r \<noteq> None \<and> settled i DeploymentState.running s) (\<lambda>_. loaded i)"
    proof (rule triple_bind [OF triple_build [OF assms]])
      fix built
      show "triple (\<lambda>s. loaded i s \<and> built) (if \<not> built then return_op None
         else bind_op (start_container env i node revision) (\<lambda>_. with_deployment i (\<lambda>dep.
           bind_op (get_op (app_routes cfg env node dep)) (\<lambda>calls. return_op (Some calls)))))
        (\<lambda>r s. r \<noteq> None \<and> settled i DeploymentState.running s) (\<lambda>_. loaded i)"
      proof (cases built)
        case True
        have "triple (loaded i) (bind_op (start_container env i node revision) (\<lambda>_. with_deployment i (\<lambda>dep.
           bind_op (get_op (app_routes cfg env node dep)) (\<lambda>calls. return_op (Some calls)))))
          (\<lambda>r s. r \<noteq> None \<and> settled i DeploymentState.running s) (\<lambda>_. loaded i)"
          by (rule triple_bind [OF triple_start routes])
        with True show ?thesis by simp
      qed (simp add: triple_def)
    qed
  qed simp_all
qed

lemma in_state_revision_total:
  "triple (in_state i st) (set_revision r f) (\<lambda>_. in_state i st) (\<lambda>_ _. False)"
  by (cases r) (simp_all add: triple_def set_revision_def modify_op_def return_op_def in_state_def loaded_def)

lemma triple_failed:
  "triple (loaded i) (provisioning_failed env i e) (\<lambda>_. settled i DeploymentState.error) (\<lambda>_ _. False)"
proof -
  have "triple (in_state i DeploymentState.error) (bind_op (set_revision r f) (\<lambda>_. commit_op))
      (\<lambda>_. settled i DeploymentState.error) (\<lambda>_ _. False)" for r f
    by (rule triple_bind [OF in_state_revision_total in_state_commit])
  then show ?thesis
    unfolding provisioning_failed_def
    by (intro triple_bind [OF in_state_set] triple_get_bind) (auto intro: triple_pre)
qed

text \<open>
  C24: Provisioning settles a deployment.  When the agent's polls end within the fuel, the task for a
  deployment is over and leaves it committed as running or as failed, whatever the agent answers;
  routes are registered only for a running one.
\<close>

theorem provisioning_settles:
  assumes "get_deployment db i = Some dep" "constraints_ok db" "resolve_ref env ref = Inr i"
    and "m < fuel" "poll_ends env m"
  shows "\<exists>calls db' dep'. provision_resource cfg env fuel ''app_deployment'' ref db = (Some calls, db') \<and>
    get_deployment db' i = Some dep' \<and>
    (dep_state dep' = DeploymentState.running \<or> dep_state dep' = DeploymentState.error \<and> calls = [])"
proof -
  have body: "provision_body cfg env fuel ''app_deployment'' ref (open_session db) =
      catch_op (provision_steps cfg env fuel i)
        (\<lambda>e. bind_op (provisioning_failed env i e) (\<lambda>_. return_op (Some []))) (open_session db)"
    using assms(1,3) by (simp add: provision_body_def op_steps provision_app_deployment_def)
  have l: "loaded i (open_session db)" using assms(1,2) by (simp add: loaded_def)
  obtain r s where run: "provision_steps cfg env fuel i (open_session db) = (r, s)" by fastforce
  show ?thesis
  proof (cases r)
    case (Inr calls)
    then have "calls \<noteq> None \<and> settled i DeploymentState.running s"
      using triple_Inr [OF triple_steps_settle [OF assms(4,5)] l] run by blast
    with Inr run show ?thesis
      by (auto simp: provision_resource_def run_request_def body catch_op_def settled_def)
  next
    case (Inl e)
    then have ls: "loaded i s" using triple_Inl [OF triple_steps_settle [OF assms(4,5)] l] run by blast
    obtain r' s' where h: "provisioning_failed env i e s = (r', s')" by fastforce
    have "r' = Inr () \<and> settled i DeploymentState.error s'"
    proof (cases r')
      case (Inl e')
      then show ?thesis using triple_Inl [OF triple_failed ls] h by blast
    next
      case (Inr u)
      then show ?thesis using triple_Inr [OF triple_failed ls] h by auto
    qed
    with Inl run h show ?thesis
      by (auto simp: provision_resource_def run_request_def body catch_op_def bind_op_def return_op_def settled_def)
  qed
qed

section \<open>Failures that leave no trace\<close>

text \<open>
  The provisioning of a paid server that fails, for whatever reason, leaves nothing: the
  database is as it was and the task ends without an error, so the server stays in the state it had
  and nothing tells that its owner has paid.  It always fails unless the directory in the server's
  configuration is under \<open>/var/lib/blockhost/servers\<close>.
\<close>

theorem failed_server_provisioning_leaves_no_trace:
  assumes "get_server db i = Some server" "resolve_ref env ref = Inr i"
    and "fst (run_request (orchestrator_start cfg ((pv_start env)\<lparr>env_dir_inside_root := pv_inside_var env\<rparr>) i) db) = Inl e
      \<or> \<not> pv_inside_var env (json_str (dict_get (srv_mc_config server) ''server_dir''))"
  shows "provision_resource cfg env fuel ''minecraft_server'' ref db = (Some [], db)"
proof -
  let ?env = "(pv_start env)\<lparr>env_dir_inside_root := pv_inside_var env\<rparr>"
  obtain r s where run: "orchestrator_start cfg ?env i (open_session db) = (r, s)" by fastforce
  have "keeps (\<lambda>s. ses_committed s = db) (orchestrator_start cfg ?env i)"
    unfolding orchestrator_start_def require_op_def by (intro op_rules keeps_set_server) simp_all
  then have kept: "ses_committed s = db"
    using keepsD [of "\<lambda>s. ses_committed s = db" "orchestrator_start cfg ?env i" "open_session db" r s] run by simp
  have "\<exists>e. r = Inl e"
  proof (rule disjE [OF assms(3)])
    assume "fst (run_request (orchestrator_start cfg ?env i) db) = Inl e"
    with run show ?thesis by (simp add: run_request_def)
  next
    assume out: "\<not> pv_inside_var env (json_str (dict_get (srv_mc_config server) ''server_dir''))"
    show ?thesis
    proof (cases r)
      case (Inr x)
      with run assms(1) out show ?thesis
        by (auto simp: orchestrator_start_def with_server_def require_op_def op_steps raise_op_def
            bind_op_def [of "lift_op a" for a] lift_op_def return_op_def split: sum.splits if_splits)
    qed simp
  qed
  then show ?thesis
    using run kept assms(1,2)
    by (auto simp: provision_resource_def run_request_def provision_body_def op_steps
        provision_minecraft_server_def catch_op_def bind_op_def raise_op_def get_op_def)
qed

text \<open>
  The routes of deployments and databases pass the text of the identifier.  A driver that does not
  take it (SQLite's, the default database) makes the task do nothing at all.
\<close>

lemma text_reference_is_ignored:
  assumes "\<not> pv_text_ids env"
  shows "provision_resource cfg env fuel resource_type (RefText t) db = (Some [], db)"
  using assms
  by (simp add: provision_resource_def run_request_def provision_body_def resolve_ref_def op_steps
      raise_op_def return_op_def)

section \<open>Witnesses\<close>

text \<open>An agent that builds until the third poll and then starts the container.\<close>

definition sample_prov :: prov_env where
  "sample_prov = \<lparr>pv_start = sample_env, pv_inside_var = (\<lambda>_. False), pv_build_post = (\<lambda>_ _. Inr ()),
     pv_build_status = (\<lambda>_ _ n. Inr \<lparr>br_status = (if n < 3 then ''building'' else ''success''),
       br_image_tag = Some ''img:2'', br_build_logs = [], br_error = None\<rparr>),
     pv_start_app = (\<lambda>_ _. Inr (Some ''c1'', Some 30080)), pv_start_db = (\<lambda>_ _ _ _ _ _. Inr ()),
     pv_text = (\<lambda>_. ''failed''), pv_text_ids = False, pv_env_base_domain = []\<rparr>"

definition app_db :: database where
  "app_db = sample_db\<lparr>db_deployments := [sample_deployment\<lparr>dep_github_repo_url := Some ''https://g/r''\<rparr>]\<rparr>"

lemma app_db_ok: "constraints_ok app_db"
  by code_simp

theorem provisioning_settles_witness:
  "\<exists>calls db' dep'. provision_resource default_settings sample_prov 5 ''app_deployment'' (RefId 50) app_db = (Some calls, db') \<and>
     get_deployment db' 50 = Some dep' \<and>
     (dep_state dep' = DeploymentState.running \<or> dep_state dep' = DeploymentState.error \<and> calls = [])"
proof (rule provisioning_settles [OF _ app_db_ok])
  show "get_deployment app_db 50 = Some (sample_deployment\<lparr>dep_github_repo_url := Some ''https://g/r''\<rparr>)"
    by (simp add: get_deployment_def app_db_def sample_deployment_def)
  show "poll_ends sample_prov 3" by (simp add: poll_ends_def sample_prov_def final_report_def)
qed (simp_all add: resolve_ref_def)

theorem failed_server_provisioning_leaves_no_trace_witness:
  "provision_resource default_settings sample_prov 0 ''minecraft_server'' (RefId 10) start_sample = (Some [], start_sample)"
  by (rule failed_server_provisioning_leaves_no_trace [where i = 10 and server = sample_server])
    (simp_all add: get_server_def start_sample_def sample_db_def sample_server_def resolve_ref_def sample_prov_def)

end
