(* ===== verification/Deployments.thy ===== *)
theory Deployments
  imports Provisioning
begin

text \<open>
  The routes of application deployments (\<open>api/deployments.py\<close>), of databases (\<open>api/databases.py\<close>) and
  of the page that wakes a sleeping application (\<open>api/wake_proxy.py\<close>).  A route that provisions in the
  request runs the task of theory Provisioning on the committed database; a background task is returned
  with the arguments it will be run with.  The stop and purge requests to the agent change nothing here
  and their failures are logged, so they do not appear; nor do the columns that only describe the build
  (the commands and the display name).
\<close>

type_synonym app_tasks = "(string \<times> resource_ref) list"

definition app_task :: "uuid \<Rightarrow> string \<times> resource_ref" where
  "app_task i = (''app_deployment'', RefText (str_uuid i))"

definition run_provisioning ::
  "settings \<Rightarrow> prov_env \<Rightarrow> nat \<Rightarrow> string \<times> resource_ref \<Rightarrow> ingress_call list option op" where
  "run_provisioning cfg env fuel task s =
     (let (calls, db) = provision_resource cfg env fuel (fst task) (snd task) (ses_committed s)
      in (Inr calls, open_session db))"

section \<open>Deployments\<close>

definition get_user_deployment :: "uuid \<Rightarrow> user \<Rightarrow> deployment op" where
  "get_user_deployment deployment_id user =
     bind_op (get_op (\<lambda>s. get_deployment (ses_objects s) deployment_id)) (\<lambda>found.
     case found of
       None \<Rightarrow> raise_op (HTTPException 404)
     | Some dep \<Rightarrow> if dep_owner_id dep \<noteq> usr_id user then raise_op (HTTPException 404) else return_op dep)"

definition deactivate_old_revisions :: "uuid \<Rightarrow> unit op" where
  "deactivate_old_revisions deployment_id =
     bind_op (get_op (query_revisions (\<lambda>r. rev_deployment_id r = deployment_id \<and> rev_is_active r))) (\<lambda>old.
     for_op (\<lambda>rev. set_revision (Some rev) (\<lambda>v. v\<lparr>rev_is_active := False\<rparr>)) old)"

definition new_revision :: "instant \<Rightarrow> uuid \<Rightarrow> uuid \<Rightarrow> DeploymentState \<Rightarrow> RevisionTrigger \<Rightarrow> revision" where
  "new_revision now new_id deployment_id status trigger =
     \<lparr>rev_id = new_id, rev_deployment_id = deployment_id, rev_image_tag = None, rev_commit_sha = None,
      rev_status = status, rev_is_active = True, rev_trigger = trigger, rev_build_logs = None,
      rev_runtime_logs = None, rev_error_message = None, rev_env_snapshot = None, rev_deployed_at = None,
      rev_created_at = now\<rparr>"

definition add_revision :: "revision \<Rightarrow> unit op" where
  "add_revision r = modify_op (set_objects (\<lambda>db. db\<lparr>db_revisions := db_revisions db @ [r]\<rparr>))"

definition env_snapshot :: "string dict \<Rightarrow> string dict option" where
  "env_snapshot env_vars = (if env_vars = [] then None else Some env_vars)"

record create_request =
  cr_kind :: DeploymentKind
  cr_source_type :: SourceType
  cr_docker_image :: "string option"
  cr_github_repo_url :: "string option"
  cr_github_branch :: string
  cr_internal_port :: "int option"
  cr_ram_limit_mb :: int

definition truthy_text :: "string option \<Rightarrow> bool" where
  "truthy_text t \<longleftrightarrow> t \<noteq> None \<and> t \<noteq> Some []"

text \<open>The validation of a request, with the bounds of its fields.\<close>

definition normalize_source :: "create_request \<Rightarrow> exn + create_request" where
  "normalize_source r =
     (if (case cr_internal_port r of None \<Rightarrow> False | Some p \<Rightarrow> p < 1 \<or> 65535 < p) \<or> cr_ram_limit_mb r < 128 then Inl ValidationError
      else
        let source = (if truthy_text (cr_github_repo_url r) \<and> cr_source_type r = SourceType.docker_image \<and>
                         \<not> truthy_text (cr_docker_image r) then SourceType.github else cr_source_type r) in
        if source = SourceType.github \<and> \<not> truthy_text (cr_github_repo_url r) then Inl ValidationError
        else if source = SourceType.docker_image \<and> \<not> truthy_text (cr_docker_image r) then Inl ValidationError
        else Inr (r\<lparr>cr_source_type := source\<rparr>))"

definition default_port :: "DeploymentKind \<Rightarrow> int option \<Rightarrow> int" where
  "default_port kind port =
     (if truthy_port port then the port
      else case kind of
        DeploymentKind.nextjs \<Rightarrow> 3000
      | DeploymentKind.fastapi \<Rightarrow> 8000
      | DeploymentKind.static_site \<Rightarrow> 80
      | _ \<Rightarrow> 8080)"

definition list_deployments :: "user \<Rightarrow> deployment list op" where
  "list_deployments user = get_op (query_deployments (\<lambda>d. dep_owner_id d = usr_id user))"

text \<open>An image is missing for an upload without one, and the column does not take a null.\<close>

definition create_deployment ::
  "settings \<Rightarrow> instant \<Rightarrow> uuid \<Rightarrow> uuid \<Rightarrow> string \<Rightarrow> create_request \<Rightarrow> user \<Rightarrow> (deployment \<times> app_tasks) op" where
  "create_deployment cfg now new_id new_rev token raw user =
     (case normalize_source raw of
        Inl e \<Rightarrow> raise_op (HTTPException 422)
      | Inr payload \<Rightarrow>
          bind_op (get_op (\<lambda>s. select_best_node cfg now (ses_flushed s) (cr_ram_limit_mb payload) NodeTier.shared)) (\<lambda>found.
          case found of
            None \<Rightarrow> raise_op (HTTPException 503)
          | Some node \<Rightarrow>
              (case (if cr_source_type payload = SourceType.github then Some (''blockhost-build-'' @ str_uuid new_id)
                     else cr_docker_image payload) of
                 None \<Rightarrow> raise_op IntegrityError
               | Some resolved_image \<Rightarrow>
                   let dep = \<lparr>dep_id = new_id, dep_owner_id = usr_id user, dep_node_id = Some (nd_id node),
                         dep_docker_image = resolved_image,
                         dep_internal_port = default_port (cr_kind payload) (cr_internal_port payload),
                         dep_host_port = None, dep_state = DeploymentState.created, dep_container_id = None,
                         dep_ram_limit_mb = cr_ram_limit_mb payload, dep_last_network_rx = None,
                         dep_github_repo_url = cr_github_repo_url payload, dep_restart_count = 0,
                         dep_health_status = HealthStatus.unknown, dep_error_message = None,
                         dep_env_vars = [], dep_github_branch = cr_github_branch payload,
                         dep_webhook_token = Some token\<rparr> in
                   bind_op (modify_op (set_objects (\<lambda>db. db\<lparr>db_deployments := db_deployments db @ [dep]\<rparr>))) (\<lambda>_.
                   bind_op (add_revision (new_revision now new_rev new_id DeploymentState.created RevisionTrigger.manual)) (\<lambda>_.
                   bind_op commit_op (\<lambda>_. return_op (dep, [app_task new_id])))))))"

text \<open>The fields of a request that are not null are written: the branch always, by its default.\<close>

definition update_deployment :: "uuid \<Rightarrow> create_request \<Rightarrow> user \<Rightarrow> unit op" where
  "update_deployment deployment_id raw user =
     (case normalize_source raw of
        Inl e \<Rightarrow> raise_op (HTTPException 422)
      | Inr payload \<Rightarrow>
          bind_op (get_user_deployment deployment_id user) (\<lambda>dep.
          bind_op (set_deployment deployment_id (\<lambda>d. d\<lparr>dep_ram_limit_mb := cr_ram_limit_mb payload,
            dep_github_branch := cr_github_branch payload,
            dep_internal_port := (case cr_internal_port payload of None \<Rightarrow> dep_internal_port d | Some p \<Rightarrow> p)\<rparr>)) (\<lambda>_.
          commit_op)))"

definition restart_deployment ::
  "settings \<Rightarrow> prov_env \<Rightarrow> nat \<Rightarrow> instant \<Rightarrow> uuid \<Rightarrow> uuid \<Rightarrow> user \<Rightarrow> ingress_call list option op" where
  "restart_deployment cfg env fuel now new_rev deployment_id user =
     bind_op (get_user_deployment deployment_id user) (\<lambda>dep.
     bind_op (set_deployment deployment_id (\<lambda>d. d\<lparr>dep_state := DeploymentState.building\<rparr>)) (\<lambda>_.
     bind_op (deactivate_old_revisions deployment_id) (\<lambda>_.
     bind_op (add_revision ((new_revision now new_rev deployment_id DeploymentState.building RevisionTrigger.manual)
       \<lparr>rev_env_snapshot := env_snapshot (dep_env_vars dep)\<rparr>)) (\<lambda>_.
     bind_op commit_op (\<lambda>_.
     bind_op (if dep_node_id dep \<noteq> None then return_op ()
       else bind_op (get_op (\<lambda>s. select_best_node cfg now (ses_flushed s) (dep_ram_limit_mb dep) NodeTier.shared)) (\<lambda>found.
         case found of
           None \<Rightarrow> raise_op (HTTPException 503)
         | Some node \<Rightarrow> bind_op (set_deployment deployment_id (\<lambda>d. d\<lparr>dep_node_id := Some (nd_id node)\<rparr>)) (\<lambda>_. commit_op))) (\<lambda>_.
     run_provisioning cfg env fuel (app_task deployment_id)))))))"

definition stop_deployment :: "uuid \<Rightarrow> user \<Rightarrow> unit op" where
  "stop_deployment deployment_id user =
     bind_op (get_user_deployment deployment_id user) (\<lambda>dep.
     bind_op (set_deployment deployment_id (\<lambda>d. d\<lparr>dep_state := DeploymentState.stopped\<rparr>)) (\<lambda>_.
     bind_op commit_op (\<lambda>_.
     bind_op (set_deployment deployment_id (\<lambda>d. d\<lparr>dep_state := DeploymentState.suspended\<rparr>)) (\<lambda>_. commit_op))))"

definition get_revision :: "database \<Rightarrow> uuid \<Rightarrow> revision option" where
  "get_revision db i = get_row rev_id i (db_revisions db)"

text \<open>The revision to roll back to: the one asked for, or the last one that ran and is not active.\<close>

definition rollback_target :: "uuid option \<Rightarrow> uuid \<Rightarrow> revision op" where
  "rollback_target revision_id deployment_id = (case revision_id of
     Some i \<Rightarrow>
       bind_op (get_op (\<lambda>s. get_revision (ses_objects s) i)) (\<lambda>found.
       case found of
         None \<Rightarrow> raise_op (HTTPException 404)
       | Some r \<Rightarrow>
           if rev_deployment_id r \<noteq> deployment_id then raise_op (HTTPException 404)
           else if \<not> truthy_text (rev_image_tag r) then raise_op (HTTPException 400) else return_op r)
   | None \<Rightarrow>
       bind_op (get_op (\<lambda>s. sort_key (\<lambda>r. - rev_created_at r) (query_revisions (\<lambda>r. rev_deployment_id r = deployment_id \<and>
         rev_status r = DeploymentState.running \<and> \<not> rev_is_active r \<and> rev_image_tag r \<noteq> None) s))) (\<lambda>revisions.
       case revisions of [] \<Rightarrow> raise_op (HTTPException 400) | r # _ \<Rightarrow> return_op r))"

definition rollback_deployment ::
  "settings \<Rightarrow> prov_env \<Rightarrow> nat \<Rightarrow> instant \<Rightarrow> uuid \<Rightarrow> uuid option \<Rightarrow> uuid \<Rightarrow> user \<Rightarrow> ingress_call list option op" where
  "rollback_deployment cfg env fuel now new_rev revision_id deployment_id user =
     bind_op (get_user_deployment deployment_id user) (\<lambda>dep.
     bind_op (rollback_target revision_id deployment_id) (\<lambda>target.
     let env_vars = (case rev_env_snapshot target of Some (kv # kvs) \<Rightarrow> kv # kvs | _ \<Rightarrow> dep_env_vars dep) in
     bind_op (set_deployment deployment_id (\<lambda>d. d\<lparr>dep_docker_image := the (rev_image_tag target),
       dep_state := DeploymentState.building, dep_env_vars := env_vars\<rparr>)) (\<lambda>_.
     bind_op (deactivate_old_revisions deployment_id) (\<lambda>_.
     bind_op (add_revision ((new_revision now new_rev deployment_id DeploymentState.building RevisionTrigger.rollback)
       \<lparr>rev_image_tag := rev_image_tag target, rev_env_snapshot := env_snapshot env_vars\<rparr>)) (\<lambda>_.
     bind_op commit_op (\<lambda>_. run_provisioning cfg env fuel (app_task deployment_id)))))))"

text \<open>
  The subscriptions are looked up by the text of the identifier; a driver that does not take it raises,
  which is logged.  The revisions and the domains go with the deployment.
\<close>

definition cancel_subscriptions :: "bool \<Rightarrow> instant \<Rightarrow> string \<Rightarrow> uuid \<Rightarrow> database \<Rightarrow> database" where
  "cancel_subscriptions text_ids now resource_type i db =
     (if \<not> text_ids then db
      else db\<lparr>db_subscriptions := modify_where
        (\<lambda>r. sub_resource_type r = Some resource_type \<and> sub_resource_id r = Some i)
        (\<lambda>r. if sub_status r = BillingSubscriptionStatus.cancelled then r
             else r\<lparr>sub_status := BillingSubscriptionStatus.cancelled, sub_updated_at := now\<rparr>)
        (db_subscriptions db)\<rparr>)"

definition delete_deployment :: "prov_env \<Rightarrow> instant \<Rightarrow> uuid \<Rightarrow> user \<Rightarrow> ingress_call list op" where
  "delete_deployment env now deployment_id user =
     bind_op (get_user_deployment deployment_id user) (\<lambda>dep.
     bind_op (get_op (\<lambda>s. map (\<lambda>d. Unregister (dom_domain d))
       (filter (\<lambda>d. dom_deployment_id d = deployment_id) (db_domains (ses_flushed s))))) (\<lambda>calls.
     bind_op (modify_op (set_objects (cancel_subscriptions (pv_text_ids env) now ''app_deployment'' deployment_id))) (\<lambda>_.
     bind_op (modify_op (set_objects (\<lambda>db. db\<lparr>db_deployments := delete_row dep_id deployment_id (db_deployments db),
       db_revisions := filter (\<lambda>r. rev_deployment_id r \<noteq> deployment_id) (db_revisions db),
       db_domains := filter (\<lambda>d. dom_deployment_id d \<noteq> deployment_id) (db_domains db)\<rparr>))) (\<lambda>_.
     bind_op commit_op (\<lambda>_. return_op calls)))))"

definition get_revisions :: "uuid \<Rightarrow> user \<Rightarrow> revision list op" where
  "get_revisions deployment_id user =
     bind_op (get_user_deployment deployment_id user) (\<lambda>dep.
     get_op (\<lambda>s. sort_key (\<lambda>r. - rev_created_at r) (query_revisions (\<lambda>r. rev_deployment_id r = deployment_id) s)))"

section \<open>Environment variables\<close>

fun py_contains :: "string \<Rightarrow> string \<Rightarrow> bool" where
  "py_contains t [] = (t = [])"
| "py_contains t (c # cs) = (py_startswith (c # cs) t \<or> py_contains t cs)"

definition SECRET_PATTERNS :: "string list" where
  "SECRET_PATTERNS = [''password'', ''secret'', ''token'', ''key'', ''private'', ''credential'', ''auth'']"

definition is_secret_key :: "string \<Rightarrow> bool" where
  "is_secret_key key \<longleftrightarrow> (\<exists>p \<in> set SECRET_PATTERNS. py_contains p (py_lower key))"

definition mask_value :: "string \<Rightarrow> string \<Rightarrow> string" where
  "mask_value key val =
     (if is_secret_key key then
        if length val \<le> 4 then ''****''
        else take 2 val @ replicate (length val - 4) (CHR ''*'') @ drop (length val - 2) val
      else val)"

definition get_env_vars :: "bool \<Rightarrow> uuid \<Rightarrow> user \<Rightarrow> string dict op" where
  "get_env_vars reveal deployment_id user =
     bind_op (get_user_deployment deployment_id user) (\<lambda>dep.
     return_op (if reveal then dep_env_vars dep else map (\<lambda>(k, v). (k, mask_value k v)) (dep_env_vars dep)))"

text \<open>A change of the variables redeploys a running deployment.\<close>

definition write_env :: "instant \<Rightarrow> uuid \<Rightarrow> uuid \<Rightarrow> string dict \<Rightarrow> app_tasks op" where
  "write_env now new_rev deployment_id env_vars =
     bind_op (set_deployment deployment_id (\<lambda>d. d\<lparr>dep_env_vars := env_vars\<rparr>)) (\<lambda>_. with_deployment deployment_id (\<lambda>dep.
     if dep_state dep = DeploymentState.running \<and> dep_node_id dep \<noteq> None then
       bind_op (set_deployment deployment_id (\<lambda>d. d\<lparr>dep_state := DeploymentState.building\<rparr>)) (\<lambda>_.
       bind_op (deactivate_old_revisions deployment_id) (\<lambda>_.
       bind_op (add_revision ((new_revision now new_rev deployment_id DeploymentState.building RevisionTrigger.env_change)
         \<lparr>rev_image_tag := Some (dep_docker_image dep), rev_env_snapshot := Some env_vars\<rparr>)) (\<lambda>_.
       bind_op commit_op (\<lambda>_. return_op [app_task deployment_id]))))
     else bind_op commit_op (\<lambda>_. return_op [])))"

definition update_env_vars :: "instant \<Rightarrow> uuid \<Rightarrow> uuid \<Rightarrow> string dict \<Rightarrow> user \<Rightarrow> app_tasks op" where
  "update_env_vars now new_rev deployment_id env_vars user =
     bind_op (get_user_deployment deployment_id user) (\<lambda>dep. write_env now new_rev deployment_id env_vars)"

definition delete_env_var :: "instant \<Rightarrow> uuid \<Rightarrow> uuid \<Rightarrow> string \<Rightarrow> user \<Rightarrow> app_tasks op" where
  "delete_env_var now new_rev deployment_id key user =
     bind_op (get_user_deployment deployment_id user) (\<lambda>dep.
     if dict_get (dep_env_vars dep) key = None then raise_op (HTTPException 404)
     else write_env now new_rev deployment_id (dict_pop key (dep_env_vars dep)))"

section \<open>Logs\<close>

text \<open>
  The stored text the lines of the answer are cut from, for the types \<open>build\<close> and \<open>crash\<close>; the
  runtime log comes from the agent.
\<close>

definition build_log :: "uuid option \<Rightarrow> uuid \<Rightarrow> user \<Rightarrow> string op" where
  "build_log revision_id deployment_id user =
     bind_op (get_user_deployment deployment_id user) (\<lambda>dep.
     bind_op (get_op (\<lambda>s. case revision_id of
         Some i \<Rightarrow> get_revision (ses_objects s) i | None \<Rightarrow> latest_revision deployment_id s)) (\<lambda>rev.
     return_op (case Option.bind rev rev_build_logs of None \<Rightarrow> [] | Some t \<Rightarrow> t)))"

definition text_or :: "string option \<Rightarrow> string \<Rightarrow> string" where
  "text_or t u = (case t of Some (c # cs) \<Rightarrow> c # cs | _ \<Rightarrow> u)"

definition crash_log :: "uuid \<Rightarrow> user \<Rightarrow> string op" where
  "crash_log deployment_id user =
     bind_op (get_user_deployment deployment_id user) (\<lambda>dep.
     bind_op (get_op (\<lambda>s. first_row (sort_key (\<lambda>r. - rev_created_at r) (query_revisions
       (\<lambda>r. rev_deployment_id r = deployment_id \<and>
            (rev_status r = DeploymentState.error \<or> rev_status r = DeploymentState.crash_loop)) s)))) (\<lambda>rev.
     return_op (case rev of
         None \<Rightarrow> []
       | Some r \<Rightarrow> text_or (rev_build_logs r) (text_or (rev_runtime_logs r) (text_or (rev_error_message r) [])))))"

section \<open>Pushes and visits\<close>

text \<open>\<open>event\<close> is the header \<open>x-github-event\<close>, \<open>payload\<close> the parsed body (\<open>{}\<close> if it does not parse).\<close>

definition github_webhook ::
  "instant \<Rightarrow> uuid \<Rightarrow> uuid \<Rightarrow> string option \<Rightarrow> string option \<Rightarrow> json \<Rightarrow> app_tasks op" where
  "github_webhook now new_rev deployment_id token event payload =
     bind_op (get_op (\<lambda>s. get_deployment (ses_objects s) deployment_id)) (\<lambda>found.
     case found of
       None \<Rightarrow> raise_op (HTTPException 404)
     | Some dep \<Rightarrow>
         if \<not> truthy_text (dep_webhook_token dep) then raise_op (HTTPException 400)
         else if token \<noteq> dep_webhook_token dep then raise_op (HTTPException 401)
         else if event \<noteq> None \<and> event \<noteq> Some ''push'' then return_op []
         else
           bind_op (lift_op (json_get payload ''ref'' (JStr []))) (\<lambda>ref.
           if json_truthy ref \<and> ref \<noteq> JStr (''refs/heads/'' @ dep_github_branch dep) then return_op []
           else
             bind_op (lift_op (json_get payload ''after'' JNull)) (\<lambda>after.
             bind_op (lift_op (json_key after)) (\<lambda>commit_sha.
             bind_op (deactivate_old_revisions deployment_id) (\<lambda>_.
             bind_op (add_revision ((new_revision now new_rev deployment_id DeploymentState.created RevisionTrigger.github_push)
               \<lparr>rev_commit_sha := commit_sha\<rparr>)) (\<lambda>_.
             bind_op (set_deployment deployment_id (\<lambda>d. d\<lparr>dep_state := DeploymentState.created\<rparr>)) (\<lambda>_.
             bind_op commit_op (\<lambda>_. return_op [app_task deployment_id]))))))))"

text \<open>The page answers 503 to every visit of a known domain; the task gets the identifier itself.\<close>

definition wake_proxy_handler :: "string \<Rightarrow> app_tasks op" where
  "wake_proxy_handler domain =
     bind_op (get_op (\<lambda>s. one_or_none (filter (\<lambda>d. dom_domain d = domain) (db_domains (ses_flushed s))))) (\<lambda>r.
     bind_op (lift_op r) (\<lambda>custom_domain.
     case custom_domain of
       None \<Rightarrow> raise_op (HTTPException 404)
     | Some d \<Rightarrow>
         bind_op (get_op (\<lambda>s. get_deployment (ses_objects s) (dom_deployment_id d))) (\<lambda>found.
         case found of
           None \<Rightarrow> raise_op (HTTPException 404)
         | Some dep \<Rightarrow> return_op (if dep_state dep = DeploymentState.suspended
             then [(''app_deployment'', RefId (dep_id dep))] else []))))"

section \<open>Databases\<close>

definition database_task :: "uuid \<Rightarrow> string \<times> resource_ref" where
  "database_task i = (''database_instance'', RefText (str_uuid i))"

definition connection_scheme :: "DatabaseEngine \<Rightarrow> string" where
  "connection_scheme engine = (case engine of
     postgresql \<Rightarrow> ''postgresql'' | mysql \<Rightarrow> ''mysql'' | mariadb \<Rightarrow> ''mariadb'' | redis \<Rightarrow> ''redis'')"

definition get_user_database :: "uuid \<Rightarrow> user \<Rightarrow> database_instance op" where
  "get_user_database database_id user =
     bind_op (get_op (\<lambda>s. (get_instance (ses_objects s) database_id, ses_objects s))) (\<lambda>(found, db).
     case found of
       None \<Rightarrow> raise_op (HTTPException 404)
     | Some i \<Rightarrow> (case resource_owner_id db (BDatabase i) of
           None \<Rightarrow> raise_op AttributeError
         | Some owner \<Rightarrow> if owner \<noteq> usr_id user then raise_op (HTTPException 404) else return_op i))"

definition list_databases :: "user \<Rightarrow> database_instance list op" where
  "list_databases user = get_op (\<lambda>s. filter
     (\<lambda>i. resource_owner_id (ses_flushed s) (BDatabase i) = Some (usr_id user)) (db_instances (ses_flushed s)))"

definition replace_char :: "char \<Rightarrow> char \<Rightarrow> string \<Rightarrow> string" where
  "replace_char a b s = map (\<lambda>c. if c = a then b else c) s"

definition engine_port :: "DatabaseEngine \<Rightarrow> int" where
  "engine_port engine = (case engine of postgresql \<Rightarrow> 5432 | mysql \<Rightarrow> 3306 | mariadb \<Rightarrow> 3306 | redis \<Rightarrow> 6379)"

record create_database_request =
  cd_name :: string
  cd_engine :: DatabaseEngine
  cd_version :: string
  cd_ram_limit_mb :: int
  cd_storage_limit_mb :: int
  cd_project_id :: uuid

definition new_database :: "create_database_request \<Rightarrow> uuid \<Rightarrow> string \<Rightarrow> node \<Rightarrow> database_instance" where
  "new_database r new_id password node =
     \<lparr>dbi_id = new_id, dbi_project_id = cd_project_id r, dbi_node_id = Some (nd_id node),
      dbi_engine = cd_engine r, dbi_version = cd_version r,
      dbi_db_name = replace_char (CHR ''-'') (CHR ''_'') (replace_char (CHR '' '') (CHR ''_'') (py_lower (cd_name r))) @ ''_db'',
      dbi_db_username = take 16 (replace_char (CHR '' '') (CHR ''_'') (py_lower (cd_name r))),
      dbi_db_password = password, dbi_ram_limit_mb = cd_ram_limit_mb r,
      dbi_internal_hostname = ''db-'' @ take 8 (hex_digits 32 new_id) @ ''.internal'',
      dbi_internal_port = engine_port (cd_engine r), dbi_state = DeploymentState.created\<rparr>"

definition connection_url :: "database_instance \<Rightarrow> string" where
  "connection_url i = connection_scheme (dbi_engine i) @ ''://'' @ dbi_db_username i @ '':'' @ dbi_db_password i @
     ''@'' @ dbi_internal_hostname i @ '':'' @ py_str_int (dbi_internal_port i) @ ''/'' @ dbi_db_name i"

definition create_database ::
  "settings \<Rightarrow> instant \<Rightarrow> uuid \<Rightarrow> string \<Rightarrow> create_database_request \<Rightarrow> user \<Rightarrow> (string \<times> app_tasks) op" where
  "create_database cfg now new_id password r user =
     (if 100 < length (cd_name r) \<or> 32 < length (cd_version r) \<or> cd_ram_limit_mb r < 256 \<or> cd_storage_limit_mb r < 512
      then raise_op (HTTPException 422)
      else
        bind_op (get_op (\<lambda>s. get_row prj_id (cd_project_id r) (db_projects (ses_objects s)))) (\<lambda>project.
        if map_option prj_owner_id project \<noteq> Some (usr_id user) then raise_op (HTTPException 404)
        else
          bind_op (get_op (\<lambda>s. select_best_node cfg now (ses_flushed s) (cd_ram_limit_mb r) NodeTier.shared)) (\<lambda>found.
          case found of
            None \<Rightarrow> raise_op (HTTPException 503)
          | Some node \<Rightarrow>
              bind_op (modify_op (set_objects (\<lambda>db. db\<lparr>db_instances := db_instances db @ [new_database r new_id password node]\<rparr>))) (\<lambda>_.
              bind_op commit_op (\<lambda>_. return_op (connection_url (new_database r new_id password node), [database_task new_id]))))))"

definition start_database :: "settings \<Rightarrow> prov_env \<Rightarrow> uuid \<Rightarrow> user \<Rightarrow> unit op" where
  "start_database cfg env database_id user =
     bind_op (get_user_database database_id user) (\<lambda>i.
     if dbi_state i = DeploymentState.running then return_op ()
     else
       bind_op (set_instance database_id (\<lambda>r. r\<lparr>dbi_state := DeploymentState.building\<rparr>)) (\<lambda>_.
       bind_op commit_op (\<lambda>_.
       bind_op (run_provisioning cfg env 0 (database_task database_id)) (\<lambda>_. return_op ()))))"

definition stop_database :: "uuid \<Rightarrow> user \<Rightarrow> unit op" where
  "stop_database database_id user =
     bind_op (get_user_database database_id user) (\<lambda>i.
     bind_op (set_instance database_id (\<lambda>r. r\<lparr>dbi_state := DeploymentState.suspended\<rparr>)) (\<lambda>_. commit_op))"

definition restart_database :: "settings \<Rightarrow> prov_env \<Rightarrow> uuid \<Rightarrow> user \<Rightarrow> unit op" where
  "restart_database cfg env database_id user =
     bind_op (get_user_database database_id user) (\<lambda>i.
     bind_op (set_instance database_id (\<lambda>r. r\<lparr>dbi_state := DeploymentState.building\<rparr>)) (\<lambda>_.
     bind_op commit_op (\<lambda>_.
     bind_op (run_provisioning cfg env 0 (database_task database_id)) (\<lambda>_. return_op ()))))"

definition delete_database :: "prov_env \<Rightarrow> instant \<Rightarrow> uuid \<Rightarrow> user \<Rightarrow> unit op" where
  "delete_database env now database_id user =
     bind_op (get_user_database database_id user) (\<lambda>i.
     bind_op (modify_op (set_objects (cancel_subscriptions (pv_text_ids env) now ''database'' database_id))) (\<lambda>_.
     bind_op (modify_op (set_objects (\<lambda>db. db\<lparr>db_instances := delete_row dbi_id database_id (db_instances db)\<rparr>))) (\<lambda>_.
     commit_op)))"

section \<open>Revisions\<close>

text \<open>
  The revisions are in the order of their creation, and an active revision is the newest of its
  deployment.
\<close>

definition revs_ok :: "revision list \<Rightarrow> bool" where
  "revs_ok revs \<longleftrightarrow> sorted_wrt (<) (map rev_created_at revs) \<and> distinct (map rev_id revs) \<and>
     (\<forall>r \<in> set revs. rev_is_active r \<longrightarrow>
        (\<forall>q \<in> set revs. rev_deployment_id q = rev_deployment_id r \<longrightarrow> rev_created_at q \<le> rev_created_at r))"

definition fresh_revision :: "instant \<Rightarrow> uuid \<Rightarrow> database \<Rightarrow> bool" where
  "fresh_revision now i db \<longleftrightarrow>
     (\<forall>r \<in> set (db_revisions db). rev_created_at r < now) \<and> i \<notin> rev_id ` set (db_revisions db)"

definition deactivated :: "uuid \<Rightarrow> revision list \<Rightarrow> revision list" where
  "deactivated i revs = modify_where (\<lambda>r. rev_deployment_id r = i \<and> rev_is_active r)
     (\<lambda>v. v\<lparr>rev_is_active := False\<rparr>) revs"

lemma deactivated_map:
  "(\<And>r. f (r\<lparr>rev_is_active := False\<rparr>) = f r) \<Longrightarrow> map f (deactivated i revs) = map f revs"
  by (simp add: deactivated_def modify_where_def)

lemma deactivated_skeleton [simp]:
  "map rev_created_at (deactivated i revs) = map rev_created_at revs"
  "map rev_id (deactivated i revs) = map rev_id revs"
  "rev_id ` set (deactivated i revs) = rev_id ` set revs"
proof -
  show "map rev_created_at (deactivated i revs) = map rev_created_at revs"
    "map rev_id (deactivated i revs) = map rev_id revs"
    by (rule deactivated_map, simp)+
  then show "rev_id ` set (deactivated i revs) = rev_id ` set revs" by (metis set_map)
qed

lemma revs_ok_push:
  assumes "revs_ok revs" "\<forall>r \<in> set revs. rev_created_at r < rev_created_at new"
    and "rev_id new \<notin> rev_id ` set revs" "rev_deployment_id new = i"
  shows "revs_ok (deactivated i revs @ [new])"
proof -
  have "\<exists>r' \<in> set revs. rev_created_at r = rev_created_at r' \<and> rev_deployment_id r = rev_deployment_id r' \<and>
      (rev_is_active r \<longrightarrow> rev_is_active r' \<and> rev_deployment_id r' \<noteq> i)" if "r \<in> set (deactivated i revs)" for r
    using that by (auto simp: deactivated_def set_modify_where)
  then have old: "r \<in> set (deactivated i revs) \<Longrightarrow> \<exists>r' \<in> set revs. rev_created_at r = rev_created_at r' \<and>
      rev_deployment_id r = rev_deployment_id r' \<and> (rev_is_active r \<longrightarrow> rev_is_active r' \<and> rev_deployment_id r' \<noteq> i)" for r .
  have lt: "\<forall>r \<in> set (deactivated i revs). rev_created_at r < rev_created_at new"
    using old assms(2) by fastforce
  have "rev_created_at q \<le> rev_created_at r"
    if r: "r \<in> set (deactivated i revs @ [new])" "rev_is_active r"
      and q: "q \<in> set (deactivated i revs @ [new])" "rev_deployment_id q = rev_deployment_id r" for r q
  proof (cases "r = new")
    case True
    with q(1) lt show ?thesis by fastforce
  next
    case False
    then obtain r' where r': "r' \<in> set revs" "rev_created_at r = rev_created_at r'"
      "rev_deployment_id r = rev_deployment_id r'" "rev_is_active r'" "rev_deployment_id r' \<noteq> i"
      using r old by auto
    then have "q \<noteq> new" using q(2) assms(4) by auto
    then obtain q' where "q' \<in> set revs" "rev_created_at q = rev_created_at q'" "rev_deployment_id q = rev_deployment_id q'"
      using q(1) old by auto
    with r' q(2) assms(1) show ?thesis by (auto simp: revs_ok_def)
  qed
  moreover have "sorted_wrt (<) (map rev_created_at (deactivated i revs @ [new]))"
    using assms(1,2) by (simp add: revs_ok_def sorted_wrt_append)
  moreover have "distinct (map rev_id (deactivated i revs @ [new]))"
    using assms(1,3) by (simp add: revs_ok_def)
  ultimately show ?thesis unfolding revs_ok_def by blast
qed

text \<open>The handlers that make a new revision, as programs over the table of revisions.\<close>

definition revs_all :: "revision list \<Rightarrow> session \<Rightarrow> bool" where
  "revs_all revs s \<longleftrightarrow> db_revisions (ses_committed s) = revs \<and> db_revisions (ses_flushed s) = revs \<and>
     db_revisions (ses_objects s) = revs"

definition revs_pending :: "revision list \<Rightarrow> revision list \<Rightarrow> session \<Rightarrow> bool" where
  "revs_pending revs revs' s \<longleftrightarrow> db_revisions (ses_committed s) = revs \<and> db_revisions (ses_objects s) = revs'"

definition committed_revs :: "revision list set \<Rightarrow> session \<Rightarrow> bool" where
  "committed_revs R s \<longleftrightarrow> db_revisions (ses_committed s) \<in> R"

lemma revisions_upd [simp]: "db_revisions (upd_deployment i f db) = db_revisions db"
  by (simp add: upd_deployment_def)

lemma revs_all_set: "keeps (revs_all revs) (set_deployment i f)"
  by (rule keeps_set_deployment) (simp add: revs_all_def)

lemma revs_all_user: "keeps (revs_all revs) (get_user_deployment i user)"
  unfolding get_user_deployment_def by (intro op_rules)

lemma query_revisions_all:
  assumes "revs_all revs s" "distinct (map rev_id revs)"
  shows "query_revisions p s = filter p revs"
  using assms unfolding query_revisions_def revs_all_def
  by (intro trans [OF map_idI]) (auto simp: get_row_unique)

lemma deactivate_loop:
  "(for_op (\<lambda>rev. set_revision (Some rev) f) xs s) =
     (Inr (), set_objects (\<lambda>db. db\<lparr>db_revisions := fold (\<lambda>r. modify_row rev_id (rev_id r) f) xs (db_revisions db)\<rparr>) s)"
proof (induction xs arbitrary: s)
  case Nil
  show ?case by (simp add: return_op_def set_objects_def)
next
  case (Cons x xs)
  have "set_objects (\<lambda>db. db\<lparr>db_revisions := g (db_revisions db)\<rparr>) (set_objects (upd_revision j f) s) =
      set_objects (\<lambda>db. db\<lparr>db_revisions := g (modify_row rev_id j f (db_revisions db))\<rparr>) s" for g j
    by (simp add: set_objects_def upd_revision_def)
  moreover have "set_revision (Some x) f s = (Inr (), set_objects (upd_revision (rev_id x) f) s)"
    by (simp add: set_revision_def modify_op_def)
  ultimately show ?case by (simp add: bind_op_def [of "set_revision (Some x) f"] Cons.IH)
qed

lemma triple_deactivate:
  assumes "distinct (map rev_id revs)"
  shows "triple (revs_all revs) (deactivate_old_revisions i) (\<lambda>_. revs_pending revs (deactivated i revs)) R"
proof -
  have "deactivate_old_revisions i s = (Inr (), set_objects (\<lambda>db. db\<lparr>db_revisions := deactivated i revs\<rparr>) s)"
    if "revs_all revs s" for s
    using that
    by (simp add: deactivate_old_revisions_def bind_get_op deactivate_loop query_revisions_all [OF that assms]
        fold_modify_filter [OF assms] deactivated_def revs_all_def set_objects_def)
  then show ?thesis by (auto simp: triple_def revs_pending_def revs_all_def)
qed

lemma triple_add: "triple (revs_pending revs revs') (add_revision r) (\<lambda>_. revs_pending revs (revs' @ [r])) R"
  by (simp add: triple_def add_revision_def modify_op_def revs_pending_def)

lemma triple_pending_commit:
  "triple (revs_pending revs revs') commit_op (\<lambda>_. revs_all revs') (\<lambda>_. committed_revs {revs})"
  by (rule triple_commit) (simp_all add: revs_pending_def revs_all_def committed_revs_def)

lemma pending_set: "keeps (revs_pending revs revs') (set_deployment i f)"
  by (rule keeps_set_deployment) (simp add: revs_pending_def)

text \<open>A new revision in place of the active one, up to the commit.\<close>

lemma triple_push:
  assumes "distinct (map rev_id revs)"
    and "triple (revs_all (deactivated i revs @ [r])) m Q (\<lambda>_. committed_revs R)" "revs \<in> R"
  shows "triple (revs_all revs)
    (bind_op (deactivate_old_revisions i) (\<lambda>_. bind_op (add_revision r) (\<lambda>_. bind_op commit_op (\<lambda>_. m))))
    Q (\<lambda>_. committed_revs R)"
proof -
  have c: "triple (revs_pending revs (deactivated i revs @ [r])) commit_op (\<lambda>_. revs_all (deactivated i revs @ [r]))
      (\<lambda>_. committed_revs R)"
    using assms(3) by (intro triple_weaken [OF triple_pending_commit]) (auto simp: committed_revs_def)
  show ?thesis
    by (rule triple_bind [OF triple_deactivate [OF assms(1)]], rule triple_bind [OF triple_add], rule triple_bind [OF c],
        rule assms(2))
qed

section \<open>Provisioning and revisions\<close>

text \<open>What does not change of a revision: its identifier, its deployment, its creation.\<close>

definition skeleton :: "database \<Rightarrow> (uuid \<times> uuid \<times> instant) list" where
  "skeleton db = map (\<lambda>r. (rev_id r, rev_deployment_id r, rev_created_at r)) (db_revisions db)"

definition revs_session :: "session \<Rightarrow> bool" where
  "revs_session s \<longleftrightarrow> revs_ok (db_revisions (ses_objects s)) \<and> revs_ok (db_revisions (ses_committed s)) \<and>
     skeleton (ses_flushed s) = skeleton (ses_objects s)"

definition newest :: "uuid \<Rightarrow> revision option \<Rightarrow> session \<Rightarrow> bool" where
  "newest i rv s \<longleftrightarrow> revs_session s \<and> (case rv of None \<Rightarrow> True | Some r \<Rightarrow>
     (\<exists>t. (rev_id r, i, t) \<in> set (skeleton (ses_objects s)) \<and>
        (\<forall>(j, d, t') \<in> set (skeleton (ses_objects s)). d = i \<longrightarrow> t' \<le> t)))"

lemma skeleton_upd [simp]:
  "(\<And>r. rev_id (f r) = rev_id r) \<Longrightarrow> (\<And>r. rev_deployment_id (f r) = rev_deployment_id r) \<Longrightarrow>
   (\<And>r. rev_created_at (f r) = rev_created_at r) \<Longrightarrow> skeleton (upd_revision j f db) = skeleton db"
  by (simp add: skeleton_def upd_revision_def modify_row_def)

lemma revs_ok_upd:
  assumes ok: "revs_ok (db_revisions db)"
    and f: "\<And>r. rev_id (f r) = rev_id r" "\<And>r. rev_deployment_id (f r) = rev_deployment_id r"
      "\<And>r. rev_created_at (f r) = rev_created_at r"
    and new: "(j, i, t) \<in> set (skeleton db)" "\<forall>(k, d, t') \<in> set (skeleton db). d = i \<longrightarrow> t' \<le> t"
  shows "revs_ok (db_revisions (upd_revision j f db))"
proof -
  let ?revs = "db_revisions db" and ?g = "\<lambda>r. if rev_id r = j then f r else r"
  have maps: "map rev_created_at (modify_row rev_id j f ?revs) = map rev_created_at ?revs"
    "map rev_id (modify_row rev_id j f ?revs) = map rev_id ?revs"
    by (simp_all add: modify_row_def f)
  obtain r0 where r0: "r0 \<in> set ?revs" "rev_id r0 = j" "rev_deployment_id r0 = i" "rev_created_at r0 = t"
    using new(1) by (auto simp: skeleton_def)
  have uniq: "r \<in> set ?revs \<Longrightarrow> rev_id r = j \<Longrightarrow> r = r0" for r
    using ok r0 by (auto simp: revs_ok_def distinct_map inj_on_def)
  have "rev_created_at q \<le> rev_created_at r"
    if r: "r \<in> set ?revs" "rev_is_active (?g r)" and q: "q \<in> set ?revs" "rev_deployment_id q = rev_deployment_id r" for r q
  proof (cases "rev_id r = j")
    case True
    with uniq r r0 have "rev_deployment_id r = i" "rev_created_at r = t" by auto
    with q new(2) show ?thesis by (auto simp: skeleton_def)
  next
    case False
    with ok r q show ?thesis by (auto simp: revs_ok_def)
  qed
  then have "\<forall>r \<in> set (modify_row rev_id j f ?revs). rev_is_active r \<longrightarrow>
      (\<forall>q \<in> set (modify_row rev_id j f ?revs). rev_deployment_id q = rev_deployment_id r \<longrightarrow> rev_created_at q \<le> rev_created_at r)"
    by (auto simp: set_modify_row f)
  then show ?thesis using ok by (simp add: revs_ok_def upd_revision_def maps)
qed

lemma newest_set_revision:
  assumes "\<And>r. rev_id (f r) = rev_id r" "\<And>r. rev_deployment_id (f r) = rev_deployment_id r"
    "\<And>r. rev_created_at (f r) = rev_created_at r"
  shows "keeps (newest i rv) (set_revision rv f)"
proof (cases rv)
  case None
  then show ?thesis by (simp add: set_revision_def keeps_return)
next
  case (Some r)
  have "newest i rv (set_objects (upd_revision (rev_id r) f) s)" if "newest i rv s" for s
    using that assms Some revs_ok_upd [OF _ assms, of "ses_objects s" "rev_id r" i]
    by (auto simp: newest_def revs_session_def)
  with Some show ?thesis by (simp add: set_revision_def keeps_modify)
qed

lemma skeleton_other [simp]:
  "skeleton (upd_deployment j f db) = skeleton db" "skeleton (upd_server j g db) = skeleton db"
  "skeleton (upd_instance j h db) = skeleton db" "db_revisions (upd_server j g db) = db_revisions db"
  "db_revisions (upd_instance j h db) = db_revisions db"
  by (simp_all add: skeleton_def upd_server_def upd_instance_def)

lemma newest_set_deployment: "keeps (newest i rv) (set_deployment j f)"
  by (rule keeps_set_deployment, cases rv) (simp_all add: newest_def revs_session_def)

lemma newest_commit: "keeps (newest i rv) commit_op"
  by (rule keeps_commit, cases rv) (simp_all add: newest_def revs_session_def)

lemmas newest_rules = op_rules newest_set_revision newest_set_deployment newest_commit

lemma newest_None [simp]: "newest i None = revs_session"
  by (rule ext) (simp add: newest_def)

lemma latest_revision_newest:
  assumes "revs_session s"
  shows "newest i (latest_revision i s) s"
proof (cases "latest_revision i s")
  case None
  with assms show ?thesis by simp
next
  case (Some r)
  let ?rows = "query_revisions (\<lambda>r. rev_deployment_id r = i) s"
  have skel: "(rev_id r, rev_deployment_id r, rev_created_at r) \<in> set (skeleton (ses_flushed s)) \<Longrightarrow>
      \<exists>r'. get_row rev_id (rev_id r) (db_revisions (ses_objects s)) = Some r' \<and>
        rev_deployment_id r' = rev_deployment_id r \<and> rev_created_at r' = rev_created_at r" for r
  proof -
    assume "(rev_id r, rev_deployment_id r, rev_created_at r) \<in> set (skeleton (ses_flushed s))"
    then have "(rev_id r, rev_deployment_id r, rev_created_at r) \<in> set (skeleton (ses_objects s))"
      using assms by (simp add: revs_session_def)
    then obtain r' where "r' \<in> set (db_revisions (ses_objects s))" "rev_id r' = rev_id r"
      "rev_deployment_id r' = rev_deployment_id r" "rev_created_at r' = rev_created_at r"
      by (auto simp: skeleton_def)
    moreover have "distinct (map rev_id (db_revisions (ses_objects s)))"
      using assms by (simp add: revs_session_def revs_ok_def)
    ultimately show ?thesis using get_row_unique by metis
  qed
  have rows: "q \<in> set ?rows \<longleftrightarrow> q \<in> set (db_revisions (ses_objects s)) \<and> rev_deployment_id q = i" for q
  proof
    assume "q \<in> set ?rows"
    then obtain x where x: "x \<in> set (db_revisions (ses_flushed s))" "rev_deployment_id x = i"
      "q = (case get_row rev_id (rev_id x) (db_revisions (ses_objects s)) of None \<Rightarrow> x | Some r' \<Rightarrow> r')"
      by (auto simp: query_revisions_def)
    with skel [of x] obtain r' where r': "get_row rev_id (rev_id x) (db_revisions (ses_objects s)) = Some r'"
      "rev_deployment_id r' = i" by (auto simp: skeleton_def)
    with x(3) get_row_SomeD [OF r'(1)] show "q \<in> set (db_revisions (ses_objects s)) \<and> rev_deployment_id q = i" by simp
  next
    assume q: "q \<in> set (db_revisions (ses_objects s)) \<and> rev_deployment_id q = i"
    then have "(rev_id q, i, rev_created_at q) \<in> set (skeleton (ses_flushed s))"
      using assms by (auto simp: revs_session_def skeleton_def)
    then obtain x where x: "x \<in> set (db_revisions (ses_flushed s))" "rev_id x = rev_id q" "rev_deployment_id x = i"
      by (auto simp: skeleton_def)
    have "get_row rev_id (rev_id x) (db_revisions (ses_objects s)) = Some q"
      using q assms x(2) get_row_unique [of rev_id "db_revisions (ses_objects s)" q]
      by (simp add: revs_session_def revs_ok_def)
    with x show "q \<in> set ?rows" by (force simp: query_revisions_def)
  qed
  have "first_row (sort_key (\<lambda>r. - rev_created_at r) ?rows) = Some r"
    using Some by (simp add: latest_revision_def)
  from first_of_sort_key [OF this] have "r \<in> set ?rows" "\<forall>q \<in> set ?rows. rev_created_at q \<le> rev_created_at r" by auto
  with Some assms rows show ?thesis
    by (auto simp: newest_def skeleton_def intro!: exI [of _ "rev_created_at r"])
qed

lemma newest_session: "newest i rv s \<Longrightarrow> revs_session s"
  by (simp add: newest_def)

lemma keeps_latest:
  assumes "\<And>rv. keeps (newest i rv) (k rv)"
  shows "keeps revs_session (bind_op (get_op (latest_revision i)) k)"
proof (rule keepsI)
  fix s r s'
  assume P: "revs_session s" and run: "bind_op (get_op (latest_revision i)) k s = (r, s')"
  have "k (latest_revision i s) s = (r, s')" using run by (simp add: bind_get_op)
  from keepsD [OF assms latest_revision_newest [OF P] this] show "revs_session s'" by (rule newest_session)
qed

lemmas session_rules = op_rules newest_set_deployment [where rv = None, unfolded newest_None]
  newest_commit [where rv = None, unfolded newest_None]

lemma poll_newest: "keeps (newest i rv) (poll_build env i node fuel n)"
proof (induction fuel arbitrary: n)
  case 0
  show ?case by (simp add: keeps_return)
next
  case (Suc fuel)
  then show ?case unfolding poll_build.simps mark_building_def by (intro newest_rules) simp_all
qed

lemma build_newest: "keeps (newest i rv) (github_build env i node rv fuel)"
  unfolding github_build_def build_succeeded_def build_failed_def Let_def
  by (intro newest_rules poll_newest) simp_all

lemma start_newest: "keeps (newest i rv) (start_container env i node rv)"
  unfolding start_container_def case_prod_beta by (intro newest_rules) simp_all

lemma provision_app_revisions: "keeps revs_session (provision_app_deployment cfg env fuel i)"
proof -
  have failed: "keeps revs_session (provisioning_failed env i e)" for e
    unfolding provisioning_failed_def
    by (rule keeps_bind, rule newest_set_deployment [where rv = None, unfolded newest_None], rule keeps_latest)
      (intro newest_rules, simp_all)
  have node: "keeps revs_session (app_node cfg env i)"
    unfolding app_node_def by (intro session_rules)
  have steps: "keeps revs_session (provision_steps cfg env fuel i)"
    unfolding provision_steps_def
    by (intro keeps_bind [OF node] keeps_latest newest_rules build_newest start_newest)
  show ?thesis
    unfolding provision_app_deployment_def by (intro steps failed op_rules)
qed

lemma provision_other_revisions:
  "keeps revs_session (provision_minecraft_server cfg env i)"
  "keeps revs_session (provision_database_instance cfg env i)"
proof -
  have commit: "keeps revs_session commit_op" by (rule session_rules)
  have server: "keeps revs_session (set_server j f)" for j f
    by (rule keeps_set_server) (simp add: revs_session_def)
  have inst: "keeps revs_session (set_instance j f)" for j f
    unfolding set_instance_def by (rule keeps_modify) (simp add: revs_session_def)
  show "keeps revs_session (provision_minecraft_server cfg env i)"
    unfolding provision_minecraft_server_def orchestrator_start_def
    by (intro op_rules server commit)
  show "keeps revs_session (provision_database_instance cfg env i)"
    unfolding provision_database_instance_def database_node_def start_database_container_def case_prod_beta
    by (intro op_rules inst commit)
qed

lemma provision_resource_revisions:
  assumes "revs_ok (db_revisions db)" "provision_resource cfg env fuel rt ref db = (calls, db')"
  shows "revs_ok (db_revisions db')"
proof -
  have k: "keeps revs_session (provision_body cfg env fuel rt ref)"
    unfolding provision_body_def
    by (intro op_rules provision_app_revisions provision_other_revisions)
  obtain r where run: "run_request (provision_body cfg env fuel rt ref) db = (r, db')"
    using assms(2) by (cases "run_request (provision_body cfg env fuel rt ref) db")
      (auto simp: provision_resource_def split: sum.splits)
  show ?thesis
    by (rule keeps_run [OF k _ run]) (use assms(1) in \<open>auto simp: revs_session_def\<close>)
qed

section \<open>The active revision\<close>

text \<open>A program that commits nothing but good tables of revisions, started on the table \<open>revs\<close>.\<close>

definition revs_safe :: "revision list \<Rightarrow> 'a op \<Rightarrow> bool" where
  "revs_safe revs m \<longleftrightarrow> triple (revs_all revs) m (\<lambda>_. committed_revs {rs. revs_ok rs}) (\<lambda>_. committed_revs {rs. revs_ok rs})"

definition revs_writes :: "revision list \<Rightarrow> revision list \<Rightarrow> 'a op \<Rightarrow> bool" where
  "revs_writes revs revs' m \<longleftrightarrow>
     triple (revs_pending revs revs') m (\<lambda>_. committed_revs {rs. revs_ok rs}) (\<lambda>_. committed_revs {rs. revs_ok rs})"

lemma revs_all_committed: "revs_ok revs \<Longrightarrow> revs_all revs s \<Longrightarrow> committed_revs {rs. revs_ok rs} s"
  by (simp add: revs_all_def committed_revs_def)

lemma revs_pending_committed: "revs_ok revs \<Longrightarrow> revs_pending revs revs' s \<Longrightarrow> committed_revs {rs. revs_ok rs} s"
  by (simp add: revs_pending_def committed_revs_def)

lemma safe_bind:
  "revs_ok revs \<Longrightarrow> keeps (revs_all revs) m \<Longrightarrow> (\<And>a. revs_safe revs (k a)) \<Longrightarrow> revs_safe revs (bind_op m k)"
  unfolding revs_safe_def by (rule triple_keeps_bind) (auto intro: revs_all_committed)

lemma safe_keeps: "revs_ok revs \<Longrightarrow> keeps (revs_all revs) m \<Longrightarrow> revs_safe revs m"
  unfolding revs_safe_def
  by (rule triple_weaken [OF triple_keeps [of "revs_all revs"]]) (auto intro: revs_all_committed)

lemma safe_if: "revs_safe revs m \<Longrightarrow> revs_safe revs m' \<Longrightarrow> revs_safe revs (if b then m else m')"
  by simp

lemma safe_option:
  "revs_safe revs f \<Longrightarrow> (\<And>a. revs_safe revs (g a)) \<Longrightarrow> revs_safe revs (case x of None \<Rightarrow> f | Some a \<Rightarrow> g a)"
  by (cases x) simp_all

lemma safe_sum:
  "(\<And>e. revs_safe revs (f e)) \<Longrightarrow> (\<And>a. revs_safe revs (g a)) \<Longrightarrow> revs_safe revs (case x of Inl e \<Rightarrow> f e | Inr a \<Rightarrow> g a)"
  by (cases x) simp_all

lemma safe_with_deployment:
  "revs_ok revs \<Longrightarrow> (\<And>d. revs_safe revs (k d)) \<Longrightarrow> revs_safe revs (with_deployment i k)"
  by (auto simp: revs_safe_def triple_def with_deployment_def revs_all_committed split: option.splits)

lemma revs_all_commit: "keeps (revs_all revs) commit_op"
  by (rule keeps_commit) (simp add: revs_all_def)

lemma safe_provisioning: "revs_ok revs \<Longrightarrow> revs_safe revs (run_provisioning cfg env fuel task)"
  by (auto simp: revs_safe_def triple_def run_provisioning_def committed_revs_def revs_all_def
      dest: provision_resource_revisions split: prod.splits)

lemma safe_push:
  assumes "revs_ok revs" "\<forall>q \<in> set revs. rev_created_at q < rev_created_at r" "rev_id r \<notin> rev_id ` set revs"
    and "rev_deployment_id r = i"
    and "revs_ok (deactivated i revs @ [r]) \<Longrightarrow> revs_writes revs (deactivated i revs @ [r]) m"
  shows "revs_safe revs (bind_op (deactivate_old_revisions i) (\<lambda>_. bind_op (add_revision r) (\<lambda>_. m)))"
  unfolding revs_safe_def
  by (rule triple_bind [OF triple_deactivate], use assms(1) in \<open>simp add: revs_ok_def\<close>, rule triple_bind [OF triple_add],
      rule assms(5) [unfolded revs_writes_def], rule revs_ok_push [OF assms(1-4)])

lemma writes_commit:
  assumes "revs_ok revs" "revs_safe revs' m"
  shows "revs_writes revs revs' (bind_op commit_op (\<lambda>_. m))"
  unfolding revs_writes_def
proof (rule triple_bind)
  show "triple (revs_pending revs revs') commit_op (\<lambda>_. revs_all revs') (\<lambda>_. committed_revs {rs. revs_ok rs})"
    using assms(1) by (intro triple_weaken [OF triple_pending_commit]) (auto simp: committed_revs_def)
  show "triple (revs_all revs') m (\<lambda>_. committed_revs {rs. revs_ok rs}) (\<lambda>_. committed_revs {rs. revs_ok rs})"
    using assms(2) by (simp add: revs_safe_def)
qed

lemma writes_set:
  assumes "revs_ok revs" "revs_writes revs revs' m"
  shows "revs_writes revs revs' (bind_op (set_deployment i f) (\<lambda>_. m))"
  using assms unfolding revs_writes_def
  by (intro triple_keeps_bind [OF pending_set]) (auto intro: revs_pending_committed)

lemma new_revision_sel [simp]:
  "rev_created_at (new_revision now i d st tr) = now" "rev_id (new_revision now i d st tr) = i"
  "rev_deployment_id (new_revision now i d st tr) = d"
  by (simp_all add: new_revision_def)

lemmas safe_rules = safe_bind [OF _ revs_all_user] safe_bind [OF _ revs_all_set] safe_bind [OF _ revs_all_commit]
  safe_bind [OF _ keeps_get] safe_bind [OF _ keeps_lift] safe_if safe_option safe_sum safe_with_deployment
  safe_keeps [OF _ keeps_raise] safe_keeps [OF _ keeps_return] safe_keeps [OF _ revs_all_commit] safe_provisioning
  writes_commit writes_set

lemma safe_restart:
  assumes ok: "revs_ok revs" and later: "\<forall>r \<in> set revs. rev_created_at r < now" and unused: "i \<notin> rev_id ` set revs"
  shows "revs_safe revs (restart_deployment cfg env fuel now i d user)"
proof -
  have rest: "revs_safe revs' (bind_op (if b then return_op () else bind_op (get_op f) (\<lambda>found. case found of
      None \<Rightarrow> raise_op (HTTPException 503)
    | Some node \<Rightarrow> bind_op (set_deployment d (g node)) (\<lambda>_. commit_op))) (\<lambda>_. run_provisioning cfg env fuel task))"
    if "revs_ok revs'" for revs' b task and f :: "session \<Rightarrow> node option" and g
    by (rule safe_bind [OF that]) (intro op_rules revs_all_set revs_all_commit safe_provisioning that)+
  show ?thesis
    unfolding restart_deployment_def
    by (intro safe_rules safe_push rest ok) (simp_all add: later unused)
qed

lemma safe_rollback:
  assumes ok: "revs_ok revs" and later: "\<forall>r \<in> set revs. rev_created_at r < now" and unused: "i \<notin> rev_id ` set revs"
  shows "revs_safe revs (rollback_deployment cfg env fuel now i target d user)"
proof -
  have t: "keeps (revs_all revs) (rollback_target target d)"
    unfolding rollback_target_def by (intro op_rules keeps_bind) (auto intro: keeps_return keeps_raise split: list.split)
  show ?thesis
    unfolding rollback_deployment_def Let_def
    by (intro safe_bind [OF ok revs_all_user] safe_bind [OF ok t] safe_rules safe_push ok) (simp_all add: later unused)
qed

lemma safe_write_env:
  assumes ok: "revs_ok revs" and later: "\<forall>r \<in> set revs. rev_created_at r < now" and unused: "i \<notin> rev_id ` set revs"
  shows "revs_safe revs (write_env now i d env)"
  unfolding write_env_def by (intro safe_rules safe_push ok) (simp_all add: later unused)

lemma safe_webhook:
  assumes ok: "revs_ok revs" and later: "\<forall>r \<in> set revs. rev_created_at r < now" and unused: "i \<notin> rev_id ` set revs"
  shows "revs_safe revs (github_webhook now i d token event payload)"
  unfolding github_webhook_def by (intro safe_rules safe_push ok) (simp_all add: later unused)

lemma safe_run:
  assumes "revs_safe (db_revisions db) m" "run_request m db = (r, db')"
  shows "revs_ok (db_revisions db')"
proof -
  obtain r' s where s: "m (open_session db) = (r', s)" "db' = ses_committed s"
    using assms(2) by (cases "m (open_session db)") (auto simp: run_request_def)
  have "revs_all (db_revisions db) (open_session db)" by (simp add: revs_all_def)
  then have "committed_revs {rs. revs_ok rs} s"
    using triple_Inr [OF assms(1) [unfolded revs_safe_def]] triple_Inl [OF assms(1) [unfolded revs_safe_def]] s(1)
    by (cases r') blast+
  with s(2) show ?thesis by (simp add: committed_revs_def)
qed

lemma safe_simple:
  assumes "revs_ok revs"
  shows "revs_safe revs (stop_deployment d user)" "revs_safe revs (update_deployment d payload user)"
  unfolding stop_deployment_def update_deployment_def by (intro safe_rules assms)+

lemma safe_create:
  assumes ok: "revs_ok revs" and later: "\<forall>r \<in> set revs. rev_created_at r < now" and unused: "i \<notin> rev_id ` set revs"
    and fresh: "\<forall>r \<in> set revs. rev_deployment_id r \<noteq> d"
  shows "revs_safe revs (create_deployment cfg now d i token payload user)"
proof -
  have same: "deactivated d revs = revs"
    using fresh by (auto simp: deactivated_def modify_where_def intro!: map_idI)
  let ?new = "new_revision now i d DeploymentState.created RevisionTrigger.manual"
  have "revs_ok (revs @ [?new])"
    using revs_ok_push [OF ok, of ?new d] later unused by (simp add: same)
  then have w: "revs_writes revs (revs @ [?new]) (bind_op commit_op (\<lambda>_. return_op a))" for a :: "deployment \<times> app_tasks"
    by (intro writes_commit ok safe_keeps keeps_return)
  have add: "revs_safe revs (bind_op (add_revision ?new) (\<lambda>_. bind_op commit_op (\<lambda>_. return_op a)))" for a :: "deployment \<times> app_tasks"
    unfolding revs_safe_def
    by (rule triple_pre [OF triple_bind [OF triple_add w [unfolded revs_writes_def]]])
      (simp add: revs_pending_def revs_all_def)
  have dep: "keeps (revs_all revs) (modify_op (set_objects (\<lambda>db. db\<lparr>db_deployments := f db\<rparr>)))" for f
    by (rule keeps_modify) (simp add: revs_all_def)
  show ?thesis
    unfolding create_deployment_def Let_def
    by (intro safe_bind [OF ok dep] add safe_rules ok)
qed

lemma safe_delete:
  assumes ok: "revs_ok revs"
  shows "revs_safe revs (delete_deployment env now d user)"
proof -
  let ?kept = "filter (\<lambda>r. rev_deployment_id r \<noteq> d) revs"
  have "revs_ok ?kept"
    using ok by (auto simp: revs_ok_def sorted_wrt_map distinct_map_filter intro: sorted_wrt_filter)
  then have w: "revs_writes revs ?kept (bind_op commit_op (\<lambda>_. return_op calls))" for calls :: "ingress_call list"
    by (intro writes_commit ok safe_keeps keeps_return)
  have del: "triple (revs_all revs) (modify_op (set_objects (\<lambda>db. db\<lparr>db_deployments := delete_row dep_id d (db_deployments db),
       db_revisions := filter (\<lambda>r. rev_deployment_id r \<noteq> d) (db_revisions db),
       db_domains := filter (\<lambda>x. dom_deployment_id x \<noteq> d) (db_domains db)\<rparr>)))
      (\<lambda>_. revs_pending revs ?kept) R" for R
    by (rule triple_modify) (simp add: revs_pending_def revs_all_def)
  have rest: "revs_safe revs (bind_op (modify_op (set_objects (\<lambda>db. db\<lparr>db_deployments := delete_row dep_id d (db_deployments db),
       db_revisions := filter (\<lambda>r. rev_deployment_id r \<noteq> d) (db_revisions db),
       db_domains := filter (\<lambda>x. dom_deployment_id x \<noteq> d) (db_domains db)\<rparr>))) (\<lambda>_. bind_op commit_op (\<lambda>_. return_op calls)))"
    for calls :: "ingress_call list"
    unfolding revs_safe_def by (rule triple_bind [OF del w [unfolded revs_writes_def]])
  have cancel: "keeps (revs_all revs) (modify_op (set_objects (cancel_subscriptions b now rt d)))" for b rt
    by (rule keeps_modify) (simp add: revs_all_def cancel_subscriptions_def)
  show ?thesis
    unfolding delete_deployment_def
    by (intro safe_rules ok safe_bind [OF ok cancel] rest)
qed

text \<open>
  Requests and tasks, each with a clock later than the revisions there are and with unused identifiers.
\<close>

inductive app_step :: "settings \<Rightarrow> prov_env \<Rightarrow> database \<Rightarrow> database \<Rightarrow> bool" for cfg env where
  create: "fresh_revision now i db \<Longrightarrow> \<forall>r \<in> set (db_revisions db). rev_deployment_id r \<noteq> d \<Longrightarrow>
    run_request (create_deployment cfg now d i token payload user) db = (r, db') \<Longrightarrow> app_step cfg env db db'"
| restart: "fresh_revision now i db \<Longrightarrow>
    run_request (restart_deployment cfg env fuel now i d user) db = (r, db') \<Longrightarrow> app_step cfg env db db'"
| rolled_back: "fresh_revision now i db \<Longrightarrow>
    run_request (rollback_deployment cfg env fuel now i target d user) db = (r, db') \<Longrightarrow> app_step cfg env db db'"
| env_set: "fresh_revision now i db \<Longrightarrow>
    run_request (update_env_vars now i d vars user) db = (r, db') \<Longrightarrow> app_step cfg env db db'"
| env_deleted: "fresh_revision now i db \<Longrightarrow>
    run_request (delete_env_var now i d key user) db = (r, db') \<Longrightarrow> app_step cfg env db db'"
| pushed: "fresh_revision now i db \<Longrightarrow>
    run_request (github_webhook now i d tok event body) db = (r, db') \<Longrightarrow> app_step cfg env db db'"
| stop: "run_request (stop_deployment d user) db = (r, db') \<Longrightarrow> app_step cfg env db db'"
| update: "run_request (update_deployment d payload user) db = (r, db') \<Longrightarrow> app_step cfg env db db'"
| delete: "run_request (delete_deployment env now d user) db = (r, db') \<Longrightarrow> app_step cfg env db db'"
| provision: "provision_resource cfg env fuel rt ref db = (calls, db') \<Longrightarrow> app_step cfg env db db'"

lemma app_step_revisions:
  assumes "app_step cfg env db db'" "revs_ok (db_revisions db)"
  shows "revs_ok (db_revisions db')"
  using assms
proof (induction rule: app_step.induct)
  case (env_set now i db d vars user r db')
  have "revs_safe (db_revisions db) (update_env_vars now i d vars user)"
    unfolding update_env_vars_def using env_set
    by (intro safe_bind [OF _ revs_all_user] safe_write_env) (auto simp: fresh_revision_def)
  then show ?case using env_set.hyps(2) by (rule safe_run)
next
  case (env_deleted now i db d key user r db')
  have "revs_safe (db_revisions db) (delete_env_var now i d key user)"
    unfolding delete_env_var_def using env_deleted
    by (intro safe_bind [OF _ revs_all_user] safe_if safe_keeps [OF _ keeps_raise] safe_write_env)
      (auto simp: fresh_revision_def)
  then show ?case using env_deleted.hyps(2) by (rule safe_run)
next
  case (provision fuel rt ref db calls db')
  then show ?case using provision_resource_revisions by blast
qed (auto simp: fresh_revision_def intro: safe_run safe_create safe_restart safe_rollback safe_webhook safe_simple safe_delete)


section \<open>Who may do what\<close>

lemma user_deployment_eq:
  "get_user_deployment i user s =
    ((case get_deployment (ses_objects s) i of
        None \<Rightarrow> Inl (HTTPException 404)
      | Some dep \<Rightarrow> if dep_owner_id dep \<noteq> usr_id user then Inl (HTTPException 404) else Inr dep), s)"
  by (auto simp: get_user_deployment_def op_steps raise_op_def return_op_def split: option.split)

lemma constraints_deployments [simp]: "constraints_ok (db\<lparr>db_deployments := ds\<rparr>) = constraints_ok db"
  by (simp add: constraints_ok_def)

lemma stop_run:
  assumes "get_deployment db i = Some dep" "dep_owner_id dep = usr_id user" "constraints_ok db"
  shows "run_request (stop_deployment i user) db =
    (Inr (), upd_deployment i (\<lambda>d. d\<lparr>dep_state := DeploymentState.suspended\<rparr>)
       (upd_deployment i (\<lambda>d. d\<lparr>dep_state := DeploymentState.stopped\<rparr>) db))"
  using assms
  by (simp add: run_request_def stop_deployment_def bind_op_def user_deployment_eq set_deployment_def modify_op_def
      commit_op_def commit_def)

text \<open>
  Stopping an application is not final: its owner's stop leaves it in the state of an application
  that sleeps, so the next visit of any of its domains, by anyone, schedules its provisioning.
\<close>

theorem stopped_app_is_woken_by_visitors:
  assumes "get_deployment db i = Some dep" "dep_owner_id dep = usr_id user" "constraints_ok db"
    and "d \<in> set (db_domains db)" "dom_deployment_id d = i"
  shows "\<exists>db'. run_request (stop_deployment i user) db = (Inr (), db') \<and>
    run_request (wake_proxy_handler (dom_domain d)) db' = (Inr [(''app_deployment'', RefId i)], db')"
proof -
  let ?db = "upd_deployment i (\<lambda>d. d\<lparr>dep_state := DeploymentState.suspended\<rparr>)
       (upd_deployment i (\<lambda>d. d\<lparr>dep_state := DeploymentState.stopped\<rparr>) db)"
  have dep: "get_deployment ?db i = Some (dep\<lparr>dep_state := DeploymentState.suspended\<rparr>)"
    using assms(1) by (simp add: get_deployment_upd)
  have "dep_id dep = i" using assms(1) get_row_SomeD [of dep_id i "db_deployments db"] by (simp add: get_deployment_def)
  have doms: "db_domains ?db = db_domains db" by (simp add: upd_deployment_def)
  have "distinct (map dom_domain (db_domains db))" using assms(3) by (simp add: constraints_ok_def)
  then have "filter (\<lambda>x. dom_domain x = dom_domain d) (db_domains db) = [d]"
    using assms(4) by (rule filter_key_unique)
  then have "run_request (wake_proxy_handler (dom_domain d)) ?db = (Inr [(''app_deployment'', RefId i)], ?db)"
    using dep assms(5) \<open>dep_id dep = i\<close>
    by (simp add: run_request_def wake_proxy_handler_def op_steps return_op_def doms)
  with stop_run [OF assms(1-3)] show ?thesis by blast
qed

text \<open>
  The build log of any revision can be read by any user who has a deployment: the route checks
  the deployment of the path and then serves the revision of the query, while the same user is refused
  the deployment the revision belongs to.
\<close>

theorem foreign_build_logs_are_served:
  assumes "get_deployment db i = Some mine" "dep_owner_id mine = usr_id user"
    and "get_revision db j = Some r" "rev_build_logs r = Some t"
    and "get_deployment db (rev_deployment_id r) = Some other" "dep_owner_id other \<noteq> usr_id user"
  shows "run_request (build_log (Some j) i user) db = (Inr t, db) \<and>
    run_request (build_log None (rev_deployment_id r) user) db = (Inl (HTTPException 404), db)"
  using assms
  by (simp add: run_request_def build_log_def bind_op_def user_deployment_eq get_op_def return_op_def)

text \<open>
  Deleting a database does not end what its owner pays for it: the subscription Paddle created for
  the database, whose resource type is \<open>database_instance\<close>, is as it was (the route looks for
  \<open>database\<close>), while the database is gone.
\<close>

theorem deleted_database_keeps_billing:
  assumes "run_request (delete_database env now i user) db = (Inr (), db')"
    and "r \<in> set (db_subscriptions db)" "sub_resource_type r = Some ''database_instance''"
  shows "r \<in> set (db_subscriptions db') \<and> get_instance db' i = None"
proof -
  let ?f = "\<lambda>db. (cancel_subscriptions (pv_text_ids env) now ''database'' i db)
    \<lparr>db_instances := delete_row dbi_id i (db_instances (cancel_subscriptions (pv_text_ids env) now ''database'' i db))\<rparr>"
  obtain x where "get_user_database i user (open_session db) = (Inr x, open_session db)"
  proof -
    have "snd (get_user_database i user (open_session db)) = open_session db"
      by (simp add: get_user_database_def op_steps raise_op_def return_op_def split: option.split prod.split)
    then show thesis
      using assms(1) that by (cases "get_user_database i user (open_session db)")
        (auto simp: run_request_def delete_database_def bind_op_def split: sum.splits)
  qed
  then have "db' = ?f db"
    using assms(1)
    by (auto simp: run_request_def delete_database_def bind_op_def modify_op_def commit_op_def commit_def
        split: if_splits)
  moreover have "r \<in> set (db_subscriptions (cancel_subscriptions b now ''database'' i db))" for b
    using assms(2,3) by (auto simp: cancel_subscriptions_def set_modify_where intro!: image_eqI [of _ _ r])
  moreover have "get_row dbi_id i (delete_row dbi_id i rows) = None" for rows :: "database_instance list"
    by (auto simp: get_row_None)
  ultimately show ?thesis by (simp add: get_instance_def)
qed

section \<open>Masked values\<close>

text \<open>
  A masked value tells its length, when it has four characters or more, and at most four of its
  characters: two secret values with the same first and last two characters and the same length look
  the same.
\<close>

theorem mask_reveals_at_most_four:
  assumes "is_secret_key key"
  shows "length (mask_value key v) = max 4 (length v) \<and>
    length (filter (\<lambda>c. c \<noteq> CHR ''*'') (mask_value key v)) \<le> 4 \<and>
    (length w = length v \<and> take 2 w = take 2 v \<and> drop (length w - 2) w = drop (length v - 2) v \<longrightarrow>
       mask_value key w = mask_value key v)"
proof -
  have "length (filter (\<lambda>c. c \<noteq> CHR ''*'') (take 2 v @ replicate n (CHR ''*'') @ drop (length v - 2) v)) \<le> 4" for n
  proof -
    have "length (filter (\<lambda>c. c \<noteq> CHR ''*'') (take 2 v)) \<le> 2"
      by (rule order_trans [OF length_filter_le]) simp
    moreover have "length (filter (\<lambda>c. c \<noteq> CHR ''*'') (drop (length v - 2) v)) \<le> 2"
      by (rule order_trans [OF length_filter_le]) simp
    ultimately show ?thesis by (simp add: filter_replicate)
  qed
  then show ?thesis using assms by (auto simp: mask_value_def max_def)
qed

section \<open>Witnesses\<close>

definition sample_domain :: custom_domain where
  "sample_domain = \<lparr>dom_id = 80, dom_deployment_id = 50, dom_domain = ''a.b'', dom_status = DomainStatus.active,
     dom_verification_token = ''t'', dom_ssl_active = True, dom_error_message = None, dom_created_at = 0\<rparr>"

definition routed_db :: database where
  "routed_db = sample_db\<lparr>db_deployments := [sample_deployment, sample_deployment\<lparr>dep_id := 51, dep_owner_id := 2\<rparr>],
     db_domains := [sample_domain],
     db_revisions := [(new_revision 3 70 51 DeploymentState.running RevisionTrigger.manual)
       \<lparr>rev_build_logs := Some ''built with TOKEN=x''\<rparr>],
     db_projects := [\<lparr>prj_id = 90, prj_owner_id = 1\<rparr>],
     db_instances := [\<lparr>dbi_id = 95, dbi_project_id = 90, dbi_node_id = None, dbi_engine = redis,
       dbi_version = ''7'', dbi_db_name = ''d'', dbi_db_username = ''d'', dbi_db_password = ''p'',
       dbi_ram_limit_mb = 256, dbi_internal_hostname = ''h'', dbi_internal_port = 6379,
       dbi_state = DeploymentState.running\<rparr>],
     db_subscriptions := [sample_subscription\<lparr>sub_server_id := None, sub_resource_type := Some ''database_instance'',
       sub_resource_id := Some 95\<rparr>]\<rparr>"

lemma routed_db_ok: "constraints_ok routed_db"
  by code_simp

lemma routed_deployments:
  "get_deployment routed_db 50 = Some sample_deployment"
  "get_deployment routed_db 51 = Some (sample_deployment\<lparr>dep_id := 51, dep_owner_id := 2\<rparr>)"
  by (simp_all add: get_deployment_def routed_db_def sample_deployment_def)

theorem stopped_app_is_woken_by_visitors_witness:
  "\<exists>db'. run_request (stop_deployment 50 sample_user) routed_db = (Inr (), db') \<and>
     run_request (wake_proxy_handler ''a.b'') db' = (Inr [(''app_deployment'', RefId 50)], db')"
  using stopped_app_is_woken_by_visitors [OF routed_deployments(1) _ routed_db_ok, of sample_user sample_domain]
  by (simp add: routed_db_def sample_domain_def sample_deployment_def sample_user_def)

theorem foreign_build_logs_are_served_witness:
  "run_request (build_log (Some 70) 50 sample_user) routed_db = (Inr ''built with TOKEN=x'', routed_db)"
  using foreign_build_logs_are_served [OF routed_deployments(1) _ _ _ _, of sample_user 70
      "(new_revision 3 70 51 DeploymentState.running RevisionTrigger.manual)\<lparr>rev_build_logs := Some ''built with TOKEN=x''\<rparr>"
      "''built with TOKEN=x''" "sample_deployment\<lparr>dep_id := 51, dep_owner_id := 2\<rparr>"] routed_deployments(2)
  by (simp add: get_revision_def routed_db_def new_revision_def sample_deployment_def sample_user_def)

lemma routed_delete: "\<exists>db'. run_request (delete_database sample_prov 7 95 sample_user) routed_db = (Inr (), db')"
proof -
  have "fst (run_request (delete_database sample_prov 7 95 sample_user) routed_db) = Inr ()"
    by code_simp
  then show ?thesis by (metis prod.collapse)
qed

theorem deleted_database_keeps_billing_witness:
  "\<exists>db'. run_request (delete_database sample_prov 7 95 sample_user) routed_db = (Inr (), db') \<and>
     (\<exists>r \<in> set (db_subscriptions db'). sub_status r = BillingSubscriptionStatus.active)"
proof -
  obtain db' where run: "run_request (delete_database sample_prov 7 95 sample_user) routed_db = (Inr (), db')"
    using routed_delete by blast
  let ?r = "sample_subscription\<lparr>sub_server_id := None, sub_resource_type := Some ''database_instance'', sub_resource_id := Some 95\<rparr>"
  have "?r \<in> set (db_subscriptions db')"
    using deleted_database_keeps_billing [OF run, of ?r] by (simp add: routed_db_def)
  then have "\<exists>r \<in> set (db_subscriptions db'). sub_status r = BillingSubscriptionStatus.active"
    by (rule rev_bexI) (simp add: sample_subscription_def)
  with run show ?thesis by blast
qed

theorem mask_reveals_at_most_four_witness:
  "mask_value ''DB_PASSWORD'' ''hunter2'' = mask_value ''DB_PASSWORD'' ''huxxxr2'' \<and>
   length (mask_value ''DB_PASSWORD'' ''hunter2'') = 7"
proof -
  have "is_secret_key ''DB_PASSWORD''" by code_simp
  from mask_reveals_at_most_four [OF this, of "''huxxxr2''" "''hunter2''"] show ?thesis by simp
qed

lemma env_set_on_sample:
  defines "out \<equiv> run_request (update_env_vars 5 70 50 [(''A'', ''b'')] sample_user) app_db"
  shows "out = (Inr [app_task 50], snd out)" "db_revisions app_db = []"
    "map rev_id (filter rev_is_active (db_revisions (snd out))) = [70]" "map rev_id (db_revisions (snd out)) = [70]"
proof -
  have "case fst out of Inr l \<Rightarrow> l = [app_task 50] | Inl e \<Rightarrow> False" unfolding out_def by code_simp
  then show "out = (Inr [app_task 50], snd out)" by (cases out) (auto split: sum.splits)
  show "db_revisions app_db = []" by (simp add: app_db_def sample_db_def empty_db_def)
  show "map rev_id (filter rev_is_active (db_revisions (snd out))) = [70]" unfolding out_def by code_simp
  show "map rev_id (db_revisions (snd out)) = [70]" unfolding out_def by code_simp
qed


end
