(* ===== verification/Sleeper.thy ===== *)
theory Sleeper
  imports Rebalancer Deployments
begin

text \<open>
  The pass that puts idle servers and applications to sleep (\<open>services/auto_sleeper.py\<close>) and the one
  that corrects the states after a restart of the back end (\<open>services/startup_reconciliation.py\<close>).
  The runtime, the agents of the nodes and the clock are parameters.  The thread that repeats the
  pass every five minutes is not modelled; the rebalancing it may start is theory Rebalancer.
\<close>

section \<open>The pass\<close>

definition IDLE_TIMEOUT_MINUTES :: int where
  "IDLE_TIMEOUT_MINUTES = 15"

definition idle_server :: "instant \<Rightarrow> server \<Rightarrow> bool" where
  "idle_server now r \<longleftrightarrow> srv_state r = ServerState.running \<and> srv_players_online r = 0 \<and>
     srv_last_activity r < now - minutes IDLE_TIMEOUT_MINUTES"

text \<open>
  A server that cannot be stopped is skipped.  The RAM of the node is counted before the new state
  is written.
\<close>

definition sleep_server :: "settings \<Rightarrow> start_env \<Rightarrow> uuid \<Rightarrow> unit op" where
  "sleep_server cfg env sid = catch_op
     (bind_op (orchestrator_stop env sid) (\<lambda>_. with_server sid (\<lambda>server.
      bind_op (case srv_node_id server of
          None \<Rightarrow> return_op ()
        | Some n \<Rightarrow> modify_op (refresh_node_allocated_ram cfg (env_now env) n)) (\<lambda>_.
      commit_op))))
     (\<lambda>e. modify_op rollback)"

text \<open>
  The agent of a node, by its address and port: the received bytes of a container (\<open>None\<close> is an
  answer other than 200) and the request to stop it, whose status is not looked at.
\<close>

record app_agent =
  aa_network_rx :: "string \<Rightarrow> int \<Rightarrow> uuid \<Rightarrow> exn + int option"
  aa_stop :: "string \<Rightarrow> int \<Rightarrow> uuid \<Rightarrow> exn + unit"

definition sleep_calls :: "uuid \<Rightarrow> database \<Rightarrow> ingress_call list" where
  "sleep_calls did db = map (\<lambda>d. Fallback (dom_domain d))
     (filter (\<lambda>d. dom_deployment_id d = did \<and> dom_status d = DomainStatus.active) (db_domains db))"

text \<open>
  One application; the routes are posted before the commit, and stay posted if it fails.
\<close>

definition commit_or_rollback :: "unit op" where
  "commit_or_rollback = catch_op commit_op (\<lambda>e. modify_op rollback)"

definition sleep_deployment :: "app_agent \<Rightarrow> uuid \<Rightarrow> ingress_call list op" where
  "sleep_deployment agent did = with_deployment did (\<lambda>dep.
     bind_op (get_op (\<lambda>s. Option.bind (dep_node_id dep) (get_node (ses_objects s)))) (\<lambda>found.
     case found of
       None \<Rightarrow> return_op []
     | Some node \<Rightarrow> catch_op
         (bind_op (lift_op (aa_network_rx agent (nd_ip_address node) (nd_agent_port node) did)) (\<lambda>answer.
          case answer of
            None \<Rightarrow> return_op []
          | Some rx_bytes \<Rightarrow>
              if dep_last_network_rx dep = Some rx_bytes then
                bind_op (lift_op (aa_stop agent (nd_ip_address node) (nd_agent_port node) did)) (\<lambda>_.
                bind_op (set_deployment did (\<lambda>d. d\<lparr>dep_state := DeploymentState.suspended\<rparr>)) (\<lambda>_.
                bind_op (get_op (\<lambda>s. sleep_calls did (ses_flushed s))) (\<lambda>calls.
                bind_op commit_or_rollback (\<lambda>_. return_op calls))))
              else
                bind_op (set_deployment did (\<lambda>d. d\<lparr>dep_last_network_rx := Some rx_bytes\<rparr>)) (\<lambda>_.
                bind_op commit_or_rollback (\<lambda>_. return_op []))))
         (\<lambda>e. bind_op (modify_op rollback) (\<lambda>_. return_op []))))"

fun sleep_deployments :: "app_agent \<Rightarrow> uuid list \<Rightarrow> ingress_call list op" where
  "sleep_deployments agent [] = return_op []"
| "sleep_deployments agent (did # dids) =
     bind_op (sleep_deployment agent did) (\<lambda>calls.
     bind_op (sleep_deployments agent dids) (\<lambda>more. return_op (calls @ more)))"

text \<open>The ratio is positive exactly when its numerator is, or the node has no RAM (ratio 1).\<close>

definition needs_rebalance :: "settings \<Rightarrow> instant \<Rightarrow> session \<Rightarrow> bool" where
  "needs_rebalance cfg now s \<longleftrightarrow>
     list_ex (\<lambda>node. (nd_total_ram_mb node \<le> 0 \<or> 0 < node_active_ram_mb cfg now (ses_flushed s) (nd_id node)) \<and>
         node_ratio_below cfg now (ses_flushed s) node 10)
       (query_nodes (\<lambda>n. nd_status n = NodeState.online) s)"

text \<open>The calls to the proxy and whether the rebalancer is started.\<close>

definition auto_sleeper_cycle :: "settings \<Rightarrow> start_env \<Rightarrow> app_agent \<Rightarrow> (ingress_call list \<times> bool) op" where
  "auto_sleeper_cycle cfg env agent =
     bind_op (get_op (\<lambda>s. map srv_id (query_servers (idle_server (env_now env)) s))) (\<lambda>idle_servers.
     if idle_servers = [] then return_op ([], False)
     else
       bind_op (for_op (sleep_server cfg env) idle_servers) (\<lambda>_.
       bind_op (get_op (\<lambda>s. map dep_id (query_deployments
         (\<lambda>d. dep_state d = DeploymentState.running \<and> dep_node_id d \<noteq> None) s))) (\<lambda>idle_deployments.
       bind_op (sleep_deployments agent idle_deployments) (\<lambda>calls.
       bind_op (get_op (needs_rebalance cfg (env_now env))) (\<lambda>rebalance.
       return_op (calls, rebalance))))))"

section \<open>After a restart\<close>

definition reconcile_one :: "(uuid \<Rightarrow> exn + bool) \<Rightarrow> uuid \<Rightarrow> int \<Rightarrow> int op" where
  "reconcile_one is_running sid fixed =
     bind_op (lift_op (is_running sid)) (\<lambda>b.
     if b then return_op fixed
     else bind_op (set_server sid (\<lambda>r. r\<lparr>srv_state := ServerState.suspended\<rparr>)) (\<lambda>_. return_op (fixed + 1)))"

fun reconcile_loop :: "(uuid \<Rightarrow> exn + bool) \<Rightarrow> uuid list \<Rightarrow> int \<Rightarrow> int op" where
  "reconcile_loop is_running [] fixed = return_op fixed"
| "reconcile_loop is_running (sid # sids) fixed =
     bind_op (reconcile_one is_running sid fixed) (reconcile_loop is_running sids)"

definition reconcile_server_runtime_state :: "(uuid \<Rightarrow> exn + bool) \<Rightarrow> int op" where
  "reconcile_server_runtime_state is_running =
     bind_op (get_op (\<lambda>s. map srv_id (query_servers (\<lambda>r. srv_state r = ServerState.running) s))) (\<lambda>running_servers.
     bind_op (reconcile_loop is_running running_servers 0) (\<lambda>fixed.
     bind_op (if fixed \<noteq> 0 then commit_op else return_op ()) (\<lambda>_. return_op fixed)))"

section \<open>What the pass does to the rows\<close>

definition sleep_step :: "settings \<Rightarrow> start_env \<Rightarrow> uuid \<Rightarrow> database \<Rightarrow> database" where
  "sleep_step cfg env sid db = (case env_runtime_stop env sid of
     Inl _ \<Rightarrow> db
   | Inr _ \<Rightarrow> (case get_server db sid of
       None \<Rightarrow> db
     | Some r \<Rightarrow>
         (let db1 = upd_server sid suspend_server db
          in case srv_node_id r of None \<Rightarrow> db1
             | Some n \<Rightarrow> upd_node n (\<lambda>nd. nd\<lparr>nd_used_ram_mb :=
                 compute_node_allocated_ram_mb cfg (env_now env) db n\<rparr>) db1)))"

lemma suspend_server_fields [simp]:
  "srv_id (suspend_server r) = srv_id r" "srv_node_id (suspend_server r) = srv_node_id r"
  "srv_vm_port (suspend_server r) = srv_vm_port r" "srv_proxy_port (suspend_server r) = srv_proxy_port r"
  by (simp_all add: suspend_server_def)

lemma constraints_suspend [simp]: "constraints_ok (upd_server i suspend_server db) = constraints_ok db"
  by (simp add: constraints_ok_def upd_server_def map_filter_modify_row)

lemma constraints_upd_node [simp]: "constraints_ok (upd_node i f db) = constraints_ok db"
  by (simp add: upd_node_def)

lemma constraints_sleep_step [simp]: "constraints_ok (sleep_step cfg env sid db) = constraints_ok db"
  by (simp add: sleep_step_def Let_def split: sum.split option.split)

lemma rollback_open [simp]: "rollback (open_session db) = open_session db"
  by (simp add: rollback_def)

lemma sleep_server_run:
  assumes "constraints_ok db"
  shows "sleep_server cfg env sid (open_session db) = (Inr (), open_session (sleep_step cfg env sid db))"
proof (cases "env_runtime_stop env sid")
  case (Inl e)
  then show ?thesis
    by (simp add: sleep_server_def orchestrator_stop_def sleep_step_def catch_op_def bind_lift_op raise_op_def
        bind_op_def lift_op_def modify_op_def)
next
  case (Inr u)
  show ?thesis
  proof (cases "get_server db sid")
    case None
    then have "get_server (upd_server sid suspend_server db) sid = None"
      by (simp add: get_server_upd_server)
    with None Inr show ?thesis
      by (simp add: sleep_server_def orchestrator_stop_def sleep_step_def catch_op_def bind_op_def lift_op_def
          modify_op_def set_server_def with_server_def)
  next
    case (Some r)
    then have found: "get_server (upd_server sid suspend_server db) sid = Some (suspend_server r)"
      by (simp add: get_server_upd_server)
    show ?thesis
    proof (cases "srv_node_id r")
      case None
      with Some Inr found assms show ?thesis
        by (simp add: sleep_server_def orchestrator_stop_def sleep_step_def catch_op_def bind_op_def lift_op_def
            modify_op_def set_server_def with_server_def commit_op_def commit_def return_op_def)
    next
      case (Some n)
      have same: "upd_node n f d = d" if "get_node d n = None" for f d
        using that by (simp add: upd_node_def get_node_def modify_row_absent get_row_None)
      have node: "get_node (upd_server sid suspend_server db) n = get_node db n"
        by (simp add: get_node_def)
      show ?thesis
        using Some Inr found assms \<open>get_server db sid = Some r\<close>
        by (simp add: sleep_server_def orchestrator_stop_def sleep_step_def catch_op_def bind_op_def lift_op_def
            modify_op_def set_server_def with_server_def commit_op_def commit_def return_op_def
            refresh_node_allocated_ram_def same node split: option.split)
    qed
  qed
qed

text \<open>A loop over committed databases.\<close>

lemma for_op_open:
  assumes "\<And>x db. x \<in> set xs \<Longrightarrow> P db \<Longrightarrow> f x (open_session db) = (Inr (), open_session (g x db)) \<and> P (g x db)"
    and "P db"
  shows "for_op f xs (open_session db) = (Inr (), open_session (fold g xs db)) \<and> P (fold g xs db)"
  using assms
proof (induction xs arbitrary: db)
  case Nil
  then show ?case by (simp add: return_op_def)
next
  case (Cons x xs)
  from Cons.prems have "f x (open_session db) = (Inr (), open_session (g x db))" "P (g x db)" by simp_all
  with Cons.IH [of "g x db"] Cons.prems(1) show ?case by (simp add: bind_op_def)
qed

lemma sleep_servers_run:
  assumes "constraints_ok db"
  shows "for_op (sleep_server cfg env) sids (open_session db) =
    (Inr (), open_session (fold (sleep_step cfg env) sids db))"
  using for_op_open [of sids constraints_ok "sleep_server cfg env" "sleep_step cfg env" db] assms
  by (simp add: sleep_server_run)

text \<open>What remains of each row after the servers' part.\<close>

definition sleep_effect :: "start_env \<Rightarrow> instant \<Rightarrow> server \<Rightarrow> server" where
  "sleep_effect env now r =
     (if idle_server now r \<and> env_runtime_stop env (srv_id r) = Inr () then suspend_server r else r)"

lemma sleep_step_keeps [simp]:
  "db_deployments (sleep_step cfg env sid db) = db_deployments db"
  "db_domains (sleep_step cfg env sid db) = db_domains db"
  "map nd_id (db_nodes (sleep_step cfg env sid db)) = map nd_id (db_nodes db)"
  "map_option (\<lambda>n. (nd_ip_address n, nd_agent_port n)) (get_node (sleep_step cfg env sid db) i) =
     map_option (\<lambda>n. (nd_ip_address n, nd_agent_port n)) (get_node db i)"
proof -
  show "db_deployments (sleep_step cfg env sid db) = db_deployments db"
    "db_domains (sleep_step cfg env sid db) = db_domains db"
    by (simp_all add: sleep_step_def Let_def upd_node_def upd_server_def split: sum.split option.split)
  show "map nd_id (db_nodes (sleep_step cfg env sid db)) = map nd_id (db_nodes db)"
    by (simp add: sleep_step_def Let_def upd_node_def upd_server_def map_key_modify_row split: sum.split option.split)
  have srv: "get_node (upd_server j f db) i = get_node db i" for j f by (simp add: get_node_def)
  have "map_option (\<lambda>n. (nd_ip_address n, nd_agent_port n)) (get_node (upd_node j (\<lambda>nd. nd\<lparr>nd_used_ram_mb := v\<rparr>) d) i) =
     map_option (\<lambda>n. (nd_ip_address n, nd_agent_port n)) (get_node d i)" for j v d
    by (simp add: get_node_upd_node option.map_comp o_def)
  then show "map_option (\<lambda>n. (nd_ip_address n, nd_agent_port n)) (get_node (sleep_step cfg env sid db) i) =
     map_option (\<lambda>n. (nd_ip_address n, nd_agent_port n)) (get_node db i)"
    by (simp add: sleep_step_def Let_def srv split: sum.split option.split)
qed

lemma get_server_upd_node [simp]: "get_server (upd_node i f db) j = get_server db j"
  by (simp add: get_server_def upd_node_def)

lemma get_server_sleep_step:
  "get_server (sleep_step cfg env sid db) i =
    (if i = sid \<and> env_runtime_stop env i = Inr () then map_option suspend_server (get_server db i) else get_server db i)"
  by (cases "env_runtime_stop env sid"; cases "get_server db sid")
    (auto simp: sleep_step_def Let_def get_server_upd_server split: option.split)

lemma suspend_suspend [simp]: "suspend_server (suspend_server r) = suspend_server r"
  by (simp add: suspend_server_def)

lemma get_server_sleep_steps:
  "get_server (fold (sleep_step cfg env) sids db) i =
    (if i \<in> set sids \<and> env_runtime_stop env i = Inr () then map_option suspend_server (get_server db i) else get_server db i)"
  by (induction sids arbitrary: db) (simp_all add: get_server_sleep_step option.map_comp o_def)

lemma sleep_steps_keep [simp]:
  "db_deployments (fold (sleep_step cfg env) sids db) = db_deployments db"
  "db_domains (fold (sleep_step cfg env) sids db) = db_domains db"
  "constraints_ok (fold (sleep_step cfg env) sids db) = constraints_ok db"
  "map_option (\<lambda>n. (nd_ip_address n, nd_agent_port n)) (get_node (fold (sleep_step cfg env) sids db) i) =
     map_option (\<lambda>n. (nd_ip_address n, nd_agent_port n)) (get_node db i)"
  by (induction sids arbitrary: db) simp_all

section \<open>What the pass does to applications\<close>

text \<open>What an agent answers about the container of an application, with the address its node has.\<close>

definition app_rx :: "app_agent \<Rightarrow> database \<Rightarrow> deployment \<Rightarrow> int option" where
  "app_rx agent db d = (case Option.bind (dep_node_id d) (get_node db) of
     None \<Rightarrow> None
   | Some node \<Rightarrow> (case aa_network_rx agent (nd_ip_address node) (nd_agent_port node) (dep_id d) of
       Inr (Some rx) \<Rightarrow>
         if dep_last_network_rx d = Some rx \<and> aa_stop agent (nd_ip_address node) (nd_agent_port node) (dep_id d) \<noteq> Inr ()
         then None else Some rx
     | _ \<Rightarrow> None))"

definition app_update :: "app_agent \<Rightarrow> database \<Rightarrow> deployment \<Rightarrow> deployment \<Rightarrow> deployment" where
  "app_update agent db d = (case app_rx agent db d of
     None \<Rightarrow> id
   | Some rx \<Rightarrow> if dep_last_network_rx d = Some rx then (\<lambda>d. d\<lparr>dep_state := DeploymentState.suspended\<rparr>)
                else (\<lambda>d. d\<lparr>dep_last_network_rx := Some rx\<rparr>))"

definition app_sleeps :: "app_agent \<Rightarrow> database \<Rightarrow> deployment \<Rightarrow> bool" where
  "app_sleeps agent db d \<longleftrightarrow> app_rx agent db d \<noteq> None \<and> dep_last_network_rx d = app_rx agent db d"

lemma dep_id_app_update [simp]: "dep_id (app_update agent db d r) = dep_id r"
  by (simp add: app_update_def split: option.split)

lemma commit_or_rollback_run:
  "constraints_ok (ses_objects s) \<Longrightarrow> commit_or_rollback s = (Inr (), open_session (ses_objects s))"
  by (simp add: commit_or_rollback_def catch_op_def commit_op_def commit_def)

lemma upd_deployment_id [simp]: "upd_deployment i id db = db"
  by (simp add: upd_deployment_def modify_row_def map_idI)

lemma bind_commit_or_rollback:
  "constraints_ok (f db) \<Longrightarrow>
   bind_op commit_or_rollback k (set_objects f (open_session db)) = k () (open_session (f db))"
  by (simp add: bind_op_def commit_or_rollback_run)

lemma sleep_deployment_run:
  assumes ok: "constraints_ok db" and d: "get_deployment db did = Some d"
  shows "sleep_deployment agent did (open_session db) =
    (Inr (if app_sleeps agent db d then sleep_calls did db else []),
     open_session (upd_deployment did (app_update agent db d) db))"
proof -
  have i: "dep_id d = did" using d get_row_SomeD [of dep_id did "db_deployments db"] by (simp add: get_deployment_def)
  show ?thesis
  proof (cases "Option.bind (dep_node_id d) (get_node db)")
    case None
    then show ?thesis
      using d by (simp add: sleep_deployment_def with_deployment_def bind_get_op return_op_def
          app_sleeps_def app_update_def app_rx_def)
  next
    case (Some node)
    let ?rx = "aa_network_rx agent (nd_ip_address node) (nd_agent_port node) did"
    let ?stop = "aa_stop agent (nd_ip_address node) (nd_agent_port node) did"
    note defs = sleep_deployment_def with_deployment_def bind_get_op return_op_def catch_op_def bind_lift_op
      raise_op_def bind_modify_op app_sleeps_def app_update_def app_rx_def i Some d
    show ?thesis
    proof (cases ?rx)
      case (Inl e)
      then show ?thesis by (simp add: defs)
    next
      case (Inr answer)
      show ?thesis
      proof (cases answer)
        case None
        with Inr show ?thesis by (simp add: defs)
      next
        case (Some rx)
        show ?thesis
        proof (cases "dep_last_network_rx d = Some rx")
          case False
          with Inr Some show ?thesis
            by (simp add: defs set_deployment_def bind_commit_or_rollback ok)
        next
          case True
          show ?thesis
          proof (cases ?stop)
            case (Inl e)
            with Inr Some True show ?thesis by (simp add: defs)
          next
            case (Inr u)
            with \<open>?rx = Inr answer\<close> Some True show ?thesis
              by (simp add: defs set_deployment_def bind_commit_or_rollback ok)
          qed
        qed
      qed
    qed
  qed
qed

lemma app_rx_upd [simp]:
  "app_rx agent (upd_deployment i f db) d = app_rx agent db d"
  "app_update agent (upd_deployment i f db) d = app_update agent db d"
  "app_sleeps agent (upd_deployment i f db) d = app_sleeps agent db d"
  "sleep_calls j (upd_deployment i f db) = sleep_calls j db"
proof -
  have "get_node (upd_deployment i f db) = get_node db" by (simp add: fun_eq_iff get_node_def upd_deployment_def)
  then show rx: "app_rx agent (upd_deployment i f db) d = app_rx agent db d" for d by (simp add: app_rx_def)
  then show "app_update agent (upd_deployment i f db) d = app_update agent db d"
    "app_sleeps agent (upd_deployment i f db) d = app_sleeps agent db d"
    by (simp_all add: app_update_def app_sleeps_def)
  show "sleep_calls j (upd_deployment i f db) = sleep_calls j db" by (simp add: sleep_calls_def upd_deployment_def)
qed

lemma sleep_deployments_run:
  assumes "constraints_ok db" "distinct ds" "\<And>d. d \<in> set ds \<Longrightarrow> get_deployment db (dep_id d) = Some d"
    "distinct (map dep_id ds)"
  shows "sleep_deployments agent (map dep_id ds) (open_session db) =
    (Inr (concat (map (\<lambda>d. if app_sleeps agent db d then sleep_calls (dep_id d) db else []) ds)),
     open_session (fold (\<lambda>d. upd_deployment (dep_id d) (app_update agent db d)) ds db))"
  using assms
proof (induction ds arbitrary: db)
  case Nil
  then show ?case by (simp add: return_op_def)
next
  case (Cons d ds)
  let ?db = "upd_deployment (dep_id d) (app_update agent db d) db"
  have run: "sleep_deployment agent (dep_id d) (open_session db) =
    (Inr (if app_sleeps agent db d then sleep_calls (dep_id d) db else []), open_session ?db)"
    using Cons.prems by (intro sleep_deployment_run) simp_all
  have "get_deployment ?db (dep_id x) = Some x" if "x \<in> set ds" for x
  proof -
    have "dep_id x \<noteq> dep_id d" using that Cons.prems(4) by (auto simp: rev_image_eqI)
    with that Cons.prems(3) [of x] show ?thesis by (simp add: get_deployment_upd)
  qed
  from Cons.IH [of ?db, OF _ _ this] Cons.prems show ?case
    by (simp add: bind_op_def run return_op_def cong: if_cong)
qed

section \<open>The whole pass\<close>

text \<open>An application the pass looks at, and what it leaves of one.\<close>

definition watched_app :: "deployment \<Rightarrow> bool" where
  "watched_app d \<longleftrightarrow> dep_state d = DeploymentState.running \<and> dep_node_id d \<noteq> None"

definition app_effect :: "app_agent \<Rightarrow> database \<Rightarrow> deployment \<Rightarrow> deployment" where
  "app_effect agent db d = (if watched_app d then app_update agent db d d else d)"

definition app_falls_asleep :: "app_agent \<Rightarrow> database \<Rightarrow> deployment \<Rightarrow> bool" where
  "app_falls_asleep agent db d \<longleftrightarrow> watched_app d \<and> app_sleeps agent db d"

lemma find_SomeD: "find P xs = Some x \<Longrightarrow> x \<in> set xs \<and> P x"
  by (induction xs) (auto split: if_splits)

lemma get_deployment_fold:
  assumes "distinct (map dep_id ds)" "\<And>d r. dep_id (h d r) = dep_id r"
  shows "get_deployment (fold (\<lambda>d. upd_deployment (dep_id d) (h d)) ds db) i =
    (case find (\<lambda>d. dep_id d = i) ds of None \<Rightarrow> get_deployment db i | Some d \<Rightarrow> map_option (h d) (get_deployment db i))"
  using assms(1)
proof (induction ds arbitrary: db)
  case Nil
  then show ?case by simp
next
  case (Cons d ds)
  have "find (\<lambda>x. dep_id x = i) ds = None" if "dep_id d = i"
  proof -
    have "dep_id x \<noteq> i" if "x \<in> set ds" for x using that \<open>dep_id d = i\<close> Cons.prems by (auto simp: rev_image_eqI)
    then show ?thesis by (simp add: find_None_iff)
  qed
  with Cons show ?case by (simp add: get_deployment_upd assms(2) cong: option.case_cong)
qed

lemma get_server_fold_deployments [simp]:
  "get_server (fold (\<lambda>d. upd_deployment (dep_id d) (h d)) ds db) i = get_server db i"
  by (induction ds arbitrary: db) (simp_all add: get_server_def upd_deployment_def)

lemma app_rx_sleep_steps [simp]:
  "app_rx agent (fold (sleep_step cfg env) sids db) d = app_rx agent db d"
  "app_update agent (fold (sleep_step cfg env) sids db) d = app_update agent db d"
  "app_sleeps agent (fold (sleep_step cfg env) sids db) d = app_sleeps agent db d"
  "sleep_calls j (fold (sleep_step cfg env) sids db) = sleep_calls j db"
proof -
  let ?db = "fold (sleep_step cfg env) sids db"
  have "app_rx agent ?db d = app_rx agent db d" for d
  proof (cases "dep_node_id d")
    case (Some n)
    with sleep_steps_keep(4) [of cfg env sids db n] show ?thesis
      by (cases "get_node ?db n"; cases "get_node db n")
        (simp_all add: app_rx_def cong: sum.case_cong option.case_cong if_cong)
  qed (simp add: app_rx_def)
  then show "app_rx agent ?db d = app_rx agent db d" "app_update agent ?db d = app_update agent db d"
    "app_sleeps agent ?db d = app_sleeps agent db d"
    by (simp_all add: app_update_def app_sleeps_def)
  show "sleep_calls j ?db = sleep_calls j db" by (simp add: sleep_calls_def)
qed

lemma sleep_steps_ids [simp]: "get_deployment (fold (sleep_step cfg env) sids db) i = get_deployment db i"
  by (simp add: get_deployment_def)

lemma auto_sleeper_run:
  assumes "constraints_ok db" "distinct (map srv_id (db_servers db))" "distinct (map dep_id (db_deployments db))"
    and "r \<in> set (db_servers db)" "idle_server (env_now env) r"
  shows "\<exists>b. run_request (auto_sleeper_cycle cfg env agent) db =
    (Inr (concat (map (\<lambda>d. if app_sleeps agent db d then sleep_calls (dep_id d) db else [])
            (filter watched_app (db_deployments db))), b),
     fold (\<lambda>d. upd_deployment (dep_id d) (app_update agent db d)) (filter watched_app (db_deployments db))
       (fold (sleep_step cfg env) (map srv_id (filter (idle_server (env_now env)) (db_servers db))) db))"
proof -
  let ?sids = "map srv_id (filter (idle_server (env_now env)) (db_servers db))"
  let ?ds = "filter watched_app (db_deployments db)"
  let ?db = "fold (sleep_step cfg env) ?sids db"
  have "filter (idle_server (env_now env)) (db_servers db) \<noteq> []"
    using assms(4,5) by (auto simp: filter_empty_conv)
  then have some: "?sids \<noteq> []" by simp
  have watched: "(\<lambda>d. dep_state d = DeploymentState.running \<and> dep_node_id d \<noteq> None) = watched_app"
    by (simp add: fun_eq_iff watched_app_def)
  have apps: "query_deployments watched_app (open_session ?db) = ?ds"
    using assms(3) by (subst query_deployments_flushed) simp_all
  have ids: "distinct (map dep_id ?ds)" using assms(3) by (rule distinct_map_filter)
  have found: "get_deployment db (dep_id d) = Some d" if "d \<in> set ?ds" for d
    using that assms(3) by (simp add: get_deployment_def get_row_unique)
  have "distinct ?ds" using ids by (simp add: distinct_map)
  from sleep_deployments_run [of ?db ?ds agent, OF _ this _ ids] assms(1) found
  have run: "sleep_deployments agent (map dep_id ?ds) (open_session ?db) =
    (Inr (concat (map (\<lambda>d. if app_sleeps agent db d then sleep_calls (dep_id d) db else []) ?ds)),
     open_session (fold (\<lambda>d. upd_deployment (dep_id d) (app_update agent db d)) ?ds ?db))"
    by (simp cong: if_cong)
  show ?thesis
    unfolding run_request_def auto_sleeper_cycle_def bind_get_op watched
    using some assms(1,2)
    by (simp add: query_servers_flushed bind_op_def sleep_servers_run get_op_def apps run return_op_def)
qed

lemma auto_sleeper_calls:
  assumes "constraints_ok db" "distinct (map srv_id (db_servers db))" "distinct (map dep_id (db_deployments db))"
    and "r \<in> set (db_servers db)" "idle_server (env_now env) r"
    and "run_request (auto_sleeper_cycle cfg env agent) db = (Inr (calls, b), db')"
  shows "set calls = {Fallback (dom_domain c) |c d. c \<in> set (db_domains db) \<and> dom_status c = DomainStatus.active \<and>
      d \<in> set (db_deployments db) \<and> dom_deployment_id c = dep_id d \<and> app_falls_asleep agent db d}"
proof -
  have "calls = concat (map (\<lambda>d. if app_sleeps agent db d then sleep_calls (dep_id d) db else [])
      (filter watched_app (db_deployments db)))"
    using auto_sleeper_run [OF assms(1-5), of cfg agent] assms(6) by auto
  then show ?thesis by (auto simp: sleep_calls_def app_falls_asleep_def split: if_splits)
qed

text \<open>
  C27: When some server is idle, a pass suspends exactly the idle servers that can be stopped and the
  running applications that have received nothing since the last pass, records the counter of the
  others, and posts the wake page for the active domains of exactly the applications it suspends.
\<close>

theorem sleeper_effect:
  assumes "constraints_ok db" "distinct (map srv_id (db_servers db))" "distinct (map dep_id (db_deployments db))"
    and "r \<in> set (db_servers db)" "idle_server (env_now env) r"
  shows "\<exists>calls b db'. run_request (auto_sleeper_cycle cfg env agent) db = (Inr (calls, b), db') \<and>
    (\<forall>i. get_server db' i = map_option (sleep_effect env (env_now env)) (get_server db i)) \<and>
    (\<forall>i. get_deployment db' i = map_option (app_effect agent db) (get_deployment db i)) \<and>
    set calls = {Fallback (dom_domain c) |c d. c \<in> set (db_domains db) \<and> dom_status c = DomainStatus.active \<and>
      d \<in> set (db_deployments db) \<and> dom_deployment_id c = dep_id d \<and> app_falls_asleep agent db d}"
proof -
  let ?sids = "map srv_id (filter (idle_server (env_now env)) (db_servers db))"
  let ?ds = "filter watched_app (db_deployments db)"
  let ?db = "fold (\<lambda>d. upd_deployment (dep_id d) (app_update agent db d)) ?ds (fold (sleep_step cfg env) ?sids db)"
  let ?calls = "concat (map (\<lambda>d. if app_sleeps agent db d then sleep_calls (dep_id d) db else []) ?ds)"
  obtain b where run: "run_request (auto_sleeper_cycle cfg env agent) db = (Inr (?calls, b), ?db)"
    using auto_sleeper_run [OF assms] by blast
  have servers: "get_server ?db i = map_option (sleep_effect env (env_now env)) (get_server db i)" for i
  proof (cases "get_server db i")
    case (Some x)
    then have x: "x \<in> set (db_servers db)" "srv_id x = i"
      using get_row_SomeD [of srv_id i "db_servers db"] by (simp_all add: get_server_def)
    have "i \<in> set ?sids \<longleftrightarrow> idle_server (env_now env) x"
      using x key_in_filter [OF assms(2) x(1)] by (auto simp: image_iff)
    with Some x(2) show ?thesis by (simp add: get_server_sleep_steps sleep_effect_def)
  qed (simp add: get_server_sleep_steps)
  have apps: "get_deployment ?db i = map_option (app_effect agent db) (get_deployment db i)" for i
  proof -
    have ids: "distinct (map dep_id ?ds)" using assms(3) by (rule distinct_map_filter)
    show ?thesis
    proof (cases "get_deployment db i")
      case (Some x)
      then have x: "x \<in> set (db_deployments db)" "dep_id x = i"
        using get_row_SomeD [of dep_id i "db_deployments db"] by (simp_all add: get_deployment_def)
      have only: "d = x" if "d \<in> set (db_deployments db)" "dep_id d = i" for d
        using that x assms(3) by (auto simp: distinct_map inj_on_def)
      have "find (\<lambda>d. dep_id d = i) ?ds = (if watched_app x then Some x else None)"
      proof (cases "find (\<lambda>d. dep_id d = i) ?ds")
        case None
        with x show ?thesis by (auto simp: find_None_iff)
      next
        case (Some d)
        then show ?thesis using find_SomeD [OF Some] only [of d] by auto
      qed
      with Some show ?thesis by (simp add: get_deployment_fold [OF ids] app_effect_def)
    qed (simp add: get_deployment_fold [OF ids] split: option.split)
  qed
  from run servers apps auto_sleeper_calls [OF assms run] show ?thesis by blast
qed

text \<open>
  When no game server is idle the pass ends at once: no application is put to sleep, no counter is
  recorded and no rebalancing starts, however idle the applications are.
\<close>

theorem apps_sleep_only_with_servers:
  assumes "\<And>r. r \<in> set (db_servers db) \<Longrightarrow> \<not> idle_server (env_now env) r"
  shows "run_request (auto_sleeper_cycle cfg env agent) db = (Inr ([], False), db)"
proof -
  have "query_servers (idle_server (env_now env)) (open_session db) = []"
    using assms by (simp add: query_servers_Nil)
  then show ?thesis by (simp add: run_request_def auto_sleeper_cycle_def bind_get_op return_op_def)
qed

text \<open>
  The RAM of a node is counted while the row of the server that is put to sleep still says running,
  so it stays reserved until the next heartbeat.
\<close>

lemma sleeping_server_keeps_its_ram:
  assumes "constraints_ok db" "get_server db sid = Some r" "srv_node_id r = Some n" "get_node db n = Some node"
    and "env_runtime_stop env sid = Inr ()"
  shows "\<exists>db'. sleep_server cfg env sid (open_session db) = (Inr (), open_session db') \<and>
    map_option nd_used_ram_mb (get_node db' n) = Some (compute_node_allocated_ram_mb cfg (env_now env) db n)"
proof -
  have "get_node (upd_server sid suspend_server db) n = get_node db n" by (simp add: get_node_def)
  with assms have "map_option nd_used_ram_mb (get_node (sleep_step cfg env sid db) n) =
      Some (compute_node_allocated_ram_mb cfg (env_now env) db n)"
    by (simp add: sleep_step_def Let_def get_node_upd_node)
  then show ?thesis using sleep_server_run [OF assms(1)] by blast
qed

section \<open>Waking up\<close>

text \<open>A registration never replaces the wake page.\<close>

lemma map_call_simps:
  "map_call cp (Fallback d) m = m(d \<mapsto> cp)"
  "map_call cp (Register d dial) m = (if m d = None then m(d \<mapsto> dial) else m)"
  by (simp_all add: map_call_def)

lemma fold_fallbacks:
  assumes "\<And>call. call \<in> set calls \<Longrightarrow> \<exists>d. call = Fallback d" "Fallback h \<in> set calls \<or> m h = Some cp"
  shows "fold (map_call cp) calls m h = Some cp"
  using assms
proof (induction calls arbitrary: m)
  case (Cons call calls)
  obtain d where "call = Fallback d" using Cons.prems(1) [of call] by auto
  with Cons.prems have "Fallback h \<in> set calls \<or> map_call cp call m h = Some cp" by (auto simp: map_call_simps)
  from Cons.IH [of "map_call cp call m", OF _ this] Cons.prems(1) show ?case by simp
qed simp

lemma fold_registers:
  assumes "\<And>call. call \<in> set calls \<Longrightarrow> \<exists>d dial. call = Register d dial" "m h = Some a"
  shows "fold (map_call cp) calls m h = Some a"
  using assms
proof (induction calls arbitrary: m)
  case (Cons call calls)
  obtain d dial where "call = Register d dial" using Cons.prems(1) [of call] by auto
  with Cons.prems(2) have "map_call cp call m h = Some a" by (auto simp: map_call_simps)
  from Cons.IH [of "map_call cp call m", OF _ this] Cons.prems(1) show ?case by simp
qed simp

lemma provision_steps_registers:
  assumes "provision_steps cfg env fuel did s = (Inr (Some calls), s')" "call \<in> set calls"
  shows "\<exists>d dial. call = Register d dial"
proof -
  obtain node dep s1 where "calls = app_routes cfg env node dep s1"
    using assms(1) unfolding provision_steps_def
    by (elim bind_op_InrE)
      (auto simp: return_op_def with_deployment_def bind_op_def get_op_def split: if_splits option.splits prod.splits sum.splits)
  with assms(2) show ?thesis by (auto simp: app_routes_def split: option.splits if_splits)
qed

lemma provision_calls_are_registers:
  assumes "run_request (provision_app_deployment cfg env fuel did) db = (Inr (Some calls), db')" "call \<in> set calls"
  shows "\<exists>d dial. call = Register d dial"
proof -
  obtain s where run: "provision_app_deployment cfg env fuel did (open_session db) = (Inr (Some calls), s)"
    using assms(1) by (auto simp: run_request_def split: prod.splits)
  show ?thesis
  proof (cases "get_deployment db did")
    case None
    with run assms(2) show ?thesis by (simp add: provision_app_deployment_def bind_get_op return_op_def)
  next
    case (Some d)
    with run have "catch_op (provision_steps cfg env fuel did)
        (\<lambda>e. bind_op (provisioning_failed env did e) (\<lambda>_. return_op (Some []))) (open_session db) = (Inr (Some calls), s)"
      by (simp add: provision_app_deployment_def bind_get_op)
    then consider s1 where "provision_steps cfg env fuel did (open_session db) = (Inr (Some calls), s1)" | "calls = []"
      by (auto simp: catch_op_def bind_op_def return_op_def split: prod.splits sum.splits)
    then show ?thesis using provision_steps_registers assms(2) by cases auto
  qed
qed

lemma run_ingress_map:
  assumes "appends_routes api target"
  shows "target (run_ingress api cp calls c) = fold (map_call cp) calls (target c)"
  unfolding run_ingress_def by (induction calls arbitrary: c) (simp_all add: run_ingress_call_map [OF assms])

text \<open>
  An application that has been put to sleep is not reached under its domains again: after it has
  woken up and been provisioned, requests for the domain still go to the wake page, because the
  registration of the new address does not replace the fallback route.
\<close>

theorem woken_app_stays_behind_wake_page:
  assumes "constraints_ok db" "distinct (map srv_id (db_servers db))" "distinct (map dep_id (db_deployments db))"
    and "r \<in> set (db_servers db)" "idle_server (env_now env) r"
    and "d \<in> set (db_deployments db)" "app_falls_asleep agent db d"
    and "host \<in> set (db_domains db)" "dom_status host = DomainStatus.active" "dom_deployment_id host = dep_id d"
    and "run_request (auto_sleeper_cycle cfg env agent) db = (Inr (calls, b), db1)"
    and "run_request (provision_app_deployment cfg penv fuel (dep_id d)) db2 = (Inr (Some calls2), db3)"
    and "appends_routes api target"
  shows "target (run_ingress api cp (calls @ calls2) c) (dom_domain host) = Some cp"
proof -
  have calls: "set calls = {Fallback (dom_domain c) |c d. c \<in> set (db_domains db) \<and> dom_status c = DomainStatus.active \<and>
      d \<in> set (db_deployments db) \<and> dom_deployment_id c = dep_id d \<and> app_falls_asleep agent db d}"
    using auto_sleeper_calls [OF assms(1-5,11)] .
  let ?m = "fold (map_call cp) calls (target c)"
  have "?m (dom_domain host) = Some cp"
    by (rule fold_fallbacks) (use calls assms(6-10) in auto)
  then have "fold (map_call cp) calls2 ?m (dom_domain host) = Some cp"
    by (rule fold_registers [rotated]) (rule provision_calls_are_registers [OF assms(12)])
  then show ?thesis by (simp add: run_ingress_map [OF assms(13)])
qed

section \<open>After a restart of the back end\<close>

definition reconciled :: "(uuid \<Rightarrow> exn + bool) \<Rightarrow> server \<Rightarrow> server" where
  "reconciled is_running r =
     (if srv_state r = ServerState.running \<and> is_running (srv_id r) = Inr False
      then r\<lparr>srv_state := ServerState.suspended\<rparr> else r)"

lemma reconcile_one_run:
  "is_running i = Inl e \<Longrightarrow> reconcile_one is_running i n s = (Inl e, s)"
  "is_running i = Inr True \<Longrightarrow> reconcile_one is_running i n s = (Inr n, s)"
  "is_running i = Inr False \<Longrightarrow>
     reconcile_one is_running i n s = (Inr (n + 1), set_objects (upd_server i suspend_server) s)"
  by (simp_all add: reconcile_one_def op_defs suspend_server_def [abs_def])

lemma reconcile_loop_ok:
  assumes "\<And>i. i \<in> set sids \<Longrightarrow> \<exists>b. is_running i = Inr b"
  shows "reconcile_loop is_running sids n s =
    (Inr (n + int (length (filter (\<lambda>i. is_running i = Inr False) sids))),
     set_objects (fold (\<lambda>i. upd_server i suspend_server) (filter (\<lambda>i. is_running i = Inr False) sids)) s)"
  using assms
proof (induction sids arbitrary: n s)
  case Nil
  then show ?case by (simp add: return_op_def set_objects_def)
next
  case (Cons i sids)
  obtain b where "is_running i = Inr b" using Cons.prems [of i] by auto
  with Cons show ?case
    by (cases b) (simp_all add: reconcile_one_run bind_op_def set_objects_def)
qed

lemma reconcile_loop_fails:
  assumes "find (\<lambda>i. \<exists>e. is_running i = Inl e) sids = Some j"
  shows "\<exists>s'. reconcile_loop is_running sids n s = (Inl (projl (is_running j)), s') \<and> ses_committed s' = ses_committed s"
  using assms
proof (induction sids arbitrary: n s)
  case (Cons i sids)
  show ?case
  proof (cases "is_running i")
    case (Inl e)
    with Cons.prems show ?thesis by (auto simp: reconcile_one_run bind_op_def)
  next
    case (Inr b)
    then have "find (\<lambda>i. \<exists>e. is_running i = Inl e) sids = Some j" using Cons.prems by simp
    have "\<exists>s'. reconcile_loop is_running sids n' s1 = (Inl (projl (is_running j)), s') \<and> ses_committed s' = ses_committed s"
      if "ses_committed s1 = ses_committed s" for n' s1
      using Cons.IH [OF \<open>find _ sids = Some j\<close>, of n' s1] that by simp
    with Inr show ?thesis by (cases b) (simp_all add: reconcile_one_run bind_op_def)
  qed
qed simp

lemma find_map: "find P (map f xs) = map_option f (find (\<lambda>x. P (f x)) xs)"
  by (induction xs) simp_all

lemma fold_suspended:
  assumes "distinct (map srv_id (db_servers db))"
  shows "fold (\<lambda>i. upd_server i suspend_server) (filter (\<lambda>i. is_running i = Inr False)
      (map srv_id (filter (\<lambda>r. srv_state r = ServerState.running) (db_servers db)))) db =
    db\<lparr>db_servers := map (reconciled is_running) (db_servers db)\<rparr>"
proof -
  let ?P = "\<lambda>r. srv_state r = ServerState.running \<and> is_running (srv_id r) = Inr False"
  have "fold (\<lambda>i. upd_server i suspend_server) (map srv_id rs) d =
      d\<lparr>db_servers := fold (\<lambda>r. modify_row srv_id (srv_id r) suspend_server) rs (db_servers d)\<rparr>" for rs d
    by (induction rs arbitrary: d) (simp_all add: upd_server_def)
  from this [of "filter ?P (db_servers db)" db] have "fold (\<lambda>i. upd_server i suspend_server) (map srv_id (filter ?P (db_servers db))) db =
      db\<lparr>db_servers := modify_where ?P suspend_server (db_servers db)\<rparr>"
    using fold_modify_filter [of srv_id "db_servers db" suspend_server ?P] assms by simp
  moreover have "filter (\<lambda>i. is_running i = Inr False) (map srv_id (filter (\<lambda>r. srv_state r = ServerState.running) (db_servers db))) =
      map srv_id (filter ?P (db_servers db))"
    by (simp add: filter_map o_def conj_commute)
  ultimately show ?thesis
    by (simp add: modify_where_def reconciled_def suspend_server_def [abs_def] cong: if_cong)
qed

lemma map_filter_reconciled:
  "(\<And>r. h (reconciled is_running r) = h r) \<Longrightarrow>
   List.map_filter h (map (reconciled is_running) rows) = List.map_filter h rows"
  by (induction rows) (simp_all add: map_filter_simps split: option.split)

lemma reconciled_sel [simp]:
  "srv_node_id (reconciled is_running r) = srv_node_id r" "srv_vm_port (reconciled is_running r) = srv_vm_port r"
  "srv_proxy_port (reconciled is_running r) = srv_proxy_port r"
  by (simp_all add: reconciled_def)

text \<open>
  After a restart exactly the servers whose row says running and that have no process are
  suspended, and the answer is their number; if the runtime cannot tell for one of them, nothing is
  changed at all.
\<close>

theorem startup_reconciles:
  assumes "constraints_ok db" "distinct (map srv_id (db_servers db))"
  shows "run_request (reconcile_server_runtime_state is_running) db =
    (let running = filter (\<lambda>r. srv_state r = ServerState.running) (db_servers db) in
     case find (\<lambda>r. \<exists>e. is_running (srv_id r) = Inl e) running of
       Some r \<Rightarrow> (Inl (projl (is_running (srv_id r))), db)
     | None \<Rightarrow> (Inr (int (length (filter (\<lambda>r. is_running (srv_id r) = Inr False) running))),
                db\<lparr>db_servers := map (reconciled is_running) (db_servers db)\<rparr>))"
proof -
  let ?running = "filter (\<lambda>r. srv_state r = ServerState.running) (db_servers db)"
  let ?loop = "reconcile_loop is_running (map srv_id ?running) 0 (open_session db)"
  have query: "query_servers (\<lambda>r. srv_state r = ServerState.running) (open_session db) = ?running"
    using assms(2) by (rule query_servers_flushed)
  show ?thesis
  proof (cases "find (\<lambda>r. \<exists>e. is_running (srv_id r) = Inl e) ?running")
    case (Some r)
    then have "find (\<lambda>i. \<exists>e. is_running i = Inl e) (map srv_id ?running) = Some (srv_id r)" by (simp add: find_map)
    from reconcile_loop_fails [OF this, of 0 "open_session db"] Some show ?thesis
      by (auto simp: run_request_def reconcile_server_runtime_state_def bind_get_op query bind_op_def [of "reconcile_loop r n s" for r n s])
  next
    case None
    let ?n = "int (length (filter (\<lambda>r. is_running (srv_id r) = Inr False) ?running))"
    let ?db = "db\<lparr>db_servers := map (reconciled is_running) (db_servers db)\<rparr>"
    have "\<exists>b. is_running i = Inr b" if "i \<in> set (map srv_id ?running)" for i
      using that None by (cases "is_running i") (auto simp: find_None_iff)
    then have loop: "?loop = (Inr ?n, set_objects (\<lambda>_. ?db) (open_session db))"
      using reconcile_loop_ok [of "map srv_id ?running" is_running 0 "open_session db"] fold_suspended [OF assms(2), of is_running]
      by (simp add: filter_map o_def set_objects_def)
    have "constraints_ok ?db = constraints_ok db"
      by (simp add: constraints_ok_def map_filter_reconciled)
    moreover have "?db = db" if "?n = 0"
    proof -
      have "map (reconciled is_running) (db_servers db) = db_servers db"
        using that by (intro map_idI) (auto simp: reconciled_def filter_empty_conv)
      then show ?thesis by simp
    qed
    ultimately show ?thesis
      using None loop assms(1)
      by (auto simp: run_request_def reconcile_server_runtime_state_def bind_get_op query bind_op_def [of "reconcile_loop r n s" for r n s]
          bind_op_def [of "if b then f else g" for b f g] commit_op_def commit_def return_op_def)
  qed
qed

section \<open>Witnesses\<close>

definition sleepy_env :: start_env where
  "sleepy_env = sample_env\<lparr>env_now := hours 1\<rparr>"

definition sleepy_db :: database where
  "sleepy_db = sample_db\<lparr>db_servers := [sample_server\<lparr>srv_state := ServerState.running\<rparr>],
     db_deployments := [sample_deployment\<lparr>dep_last_network_rx := Some 7\<rparr>], db_domains := [sample_domain]\<rparr>"

definition quiet_agent :: app_agent where
  "quiet_agent = \<lparr>aa_network_rx = (\<lambda>_ _ _. Inr (Some 7)), aa_stop = (\<lambda>_ _ _. Inr ())\<rparr>"

lemma sleepy:
  "constraints_ok sleepy_db" "distinct (map srv_id (db_servers sleepy_db))" "distinct (map dep_id (db_deployments sleepy_db))"
  "sample_server\<lparr>srv_state := ServerState.running\<rparr> \<in> set (db_servers sleepy_db)"
  "idle_server (env_now sleepy_env) (sample_server\<lparr>srv_state := ServerState.running\<rparr>)"
  by code_simp+

theorem sleeper_effect_witness:
  "\<exists>calls b db'. run_request (auto_sleeper_cycle default_settings sleepy_env quiet_agent) sleepy_db = (Inr (calls, b), db') \<and>
     map_option srv_state (get_server db' 10) = Some ServerState.suspended \<and>
     map_option dep_state (get_deployment db' 50) = Some DeploymentState.suspended \<and> set calls = {Fallback ''a.b''}"
proof -
  let ?run = "run_request (auto_sleeper_cycle default_settings sleepy_env quiet_agent) sleepy_db"
  obtain calls b db' where run: "?run = (Inr (calls, b), db')"
    and servers: "\<And>i. get_server db' i = map_option (sleep_effect sleepy_env (env_now sleepy_env)) (get_server sleepy_db i)"
    and apps: "\<And>i. get_deployment db' i = map_option (app_effect quiet_agent sleepy_db) (get_deployment sleepy_db i)"
    and calls: "set calls = {Fallback (dom_domain c) |c d. c \<in> set (db_domains sleepy_db) \<and> dom_status c = DomainStatus.active \<and>
      d \<in> set (db_deployments sleepy_db) \<and> dom_deployment_id c = dep_id d \<and> app_falls_asleep quiet_agent sleepy_db d}"
    using sleeper_effect [OF sleepy, of default_settings quiet_agent] by blast
  have "map_option srv_state (map_option (sleep_effect sleepy_env (env_now sleepy_env)) (get_server sleepy_db 10)) =
      Some ServerState.suspended"
    "map_option dep_state (map_option (app_effect quiet_agent sleepy_db) (get_deployment sleepy_db 50)) =
      Some DeploymentState.suspended"
    "app_falls_asleep quiet_agent sleepy_db (sample_deployment\<lparr>dep_last_network_rx := Some 7\<rparr>)"
    "db_domains sleepy_db = [sample_domain]" "dom_status sample_domain = DomainStatus.active"
    "dom_domain sample_domain = ''a.b''" "dom_deployment_id sample_domain = 50"
    "db_deployments sleepy_db = [sample_deployment\<lparr>dep_last_network_rx := Some 7\<rparr>]" "dep_id sample_deployment = 50"
    by code_simp+
  with run servers apps calls show ?thesis by auto
qed

theorem apps_sleep_only_with_servers_witness:
  "run_request (auto_sleeper_cycle default_settings sleepy_env quiet_agent) (sleepy_db\<lparr>db_servers := []\<rparr>) =
     (Inr ([], False), sleepy_db\<lparr>db_servers := []\<rparr>)"
  by (rule apps_sleep_only_with_servers) simp

definition waking_prov :: prov_env where
  "waking_prov = sample_prov\<lparr>pv_start_app := (\<lambda>_ _. Inr (Some ''c1'', Some 80))\<rparr>"

definition waking_db :: database where
  "waking_db = app_db\<lparr>db_domains := [sample_domain]\<rparr>"

theorem woken_app_stays_behind_wake_page_witness:
  "\<exists>calls b calls2. fst (run_request (auto_sleeper_cycle default_settings sleepy_env quiet_agent) sleepy_db) = Inr (calls, b) \<and>
     fst (run_request (provision_app_deployment default_settings waking_prov 5 50) waking_db) = Inr (Some calls2) \<and>
     list_target (run_ingress list_caddy ''cp:8000'' (calls @ calls2) []) ''a.b'' = Some ''cp:8000''"
proof -
  let ?sleep = "run_request (auto_sleeper_cycle default_settings sleepy_env quiet_agent) sleepy_db"
  let ?wake = "run_request (provision_app_deployment default_settings waking_prov 5 50) waking_db"
  let ?d = "sample_deployment\<lparr>dep_last_network_rx := Some 7\<rparr>"
  have "fst ?sleep = Inr ([Fallback ''a.b''], False)" by code_simp
  then have sleep: "?sleep = (Inr ([Fallback ''a.b''], False), snd ?sleep)" by (simp add: prod_eq_iff)
  have "fst ?wake = Inr (Some [Register ''a.b'' ''10.0.0.1:80''])" by code_simp
  then have wake: "run_request (provision_app_deployment default_settings waking_prov 5 (dep_id ?d)) waking_db = (Inr (Some [Register ''a.b'' ''10.0.0.1:80'']), snd ?wake)"
    by (simp add: prod_eq_iff sample_deployment_def)
  have rows: "?d \<in> set (db_deployments sleepy_db)" "app_falls_asleep quiet_agent sleepy_db ?d"
    "sample_domain \<in> set (db_domains sleepy_db)" "dom_status sample_domain = DomainStatus.active"
    "dom_deployment_id sample_domain = dep_id ?d" "dom_domain sample_domain = ''a.b''"
    by code_simp+
  from woken_app_stays_behind_wake_page [OF sleepy rows(1-5) sleep wake list_caddy_appends, of "''cp:8000''" "[]"] rows(6)
    \<open>fst ?sleep = _\<close> \<open>fst ?wake = _\<close>
  show ?thesis by (intro exI [of _ "[Fallback ''a.b'']"] exI [of _ False] exI [of _ "[Register ''a.b'' ''10.0.0.1:80'']"]) simp
qed

theorem startup_reconciles_witness:
  "run_request (reconcile_server_runtime_state (\<lambda>_. Inr False)) sleepy_db =
     (Inr 1, sleepy_db\<lparr>db_servers := [sample_server]\<rparr>)"
proof -
  have "filter (\<lambda>r. srv_state r = ServerState.running) (db_servers sleepy_db) = [sample_server\<lparr>srv_state := ServerState.running\<rparr>]"
    "map (reconciled (\<lambda>_. Inr False)) (db_servers sleepy_db) = [sample_server]"
    by (simp_all add: sleepy_db_def reconciled_def sample_server_def)
  then show ?thesis
    using startup_reconciles [OF sleepy(1,2), of "\<lambda>_. Inr False"] by simp
qed

end
