(* ===== verification/Node_Router.thy ===== *)
theory Node_Router
  imports Tokens
begin

text \<open>
  Which runtime serves a server (\<open>orchestrator/node_router.py\<close>, \<open>orchestrator/runtime_cache.py\<close>): the
  local one or the agent of a node, remembered for ten seconds.  The locale \<open>expiring_cache\<close> is the
  contract of such a cache, interpreted on the router.  The calls themselves belong to the runtimes.
\<close>

section \<open>The router\<close>

datatype runtime = Local_Runtime | Agent_Runtime string

definition agent_runtime :: "node \<Rightarrow> runtime" where
  "agent_runtime n = Agent_Runtime (''http://'' @ nd_ip_address n @ '':'' @ py_str_int (nd_agent_port n))"

text \<open>What the database says.  A \<open>node_id\<close> is falsy only when it is null: an UUID object is truthy.\<close>

definition lookup_runtime :: "database \<Rightarrow> string \<Rightarrow> runtime" where
  "lookup_runtime db server_id =
     (case parse_uuid server_id of
        None \<Rightarrow> Local_Runtime
      | Some i \<Rightarrow> (case get_server db i of
          None \<Rightarrow> Local_Runtime
        | Some server \<Rightarrow> (case srv_node_id server of
            None \<Rightarrow> Local_Runtime
          | Some node_id \<Rightarrow> (case get_node db node_id of
              None \<Rightarrow> Local_Runtime
            | Some node \<Rightarrow> agent_runtime node))))"

definition CACHE_TTL :: int where
  "CACHE_TTL = seconds 10"

type_synonym router_cache = "(runtime \<times> instant) dict"

definition get_runtime :: "database \<Rightarrow> instant \<Rightarrow> string \<Rightarrow> router_cache \<Rightarrow> runtime \<times> router_cache" where
  "get_runtime db now server_id cache =
     (let fresh = lookup_runtime db server_id;
          refreshed = (fresh, dict_set server_id (fresh, now + CACHE_TTL) cache)
      in case dict_get cache server_id of
           None \<Rightarrow> refreshed
         | Some (runtime, expiry) \<Rightarrow> if now < expiry then (runtime, cache) else refreshed)"

definition invalidate_server :: "string \<Rightarrow> router_cache \<Rightarrow> router_cache" where
  "invalidate_server server_id cache = dict_pop server_id cache"

definition invalidate_node :: "uuid \<Rightarrow> router_cache \<Rightarrow> router_cache" where
  "invalidate_node node_id cache = []"

text \<open>\<open>runtime_cache.py\<close>: the text of the identifier is the key.\<close>

definition invalidate_server_runtime_cache :: "uuid \<Rightarrow> router_cache \<Rightarrow> router_cache" where
  "invalidate_server_runtime_cache server_id cache = invalidate_server (str_uuid server_id) cache"

text \<open>
  Every operation of the interface is the operation of the runtime found, \<open>call\<close>, except the ping,
  which only the agents have.
\<close>

definition routed_call :: "(runtime \<Rightarrow> exn + 'a) \<Rightarrow> database \<Rightarrow> instant \<Rightarrow> string \<Rightarrow> router_cache \<Rightarrow> (exn + 'a) \<times> router_cache" where
  "routed_call call db now server_id cache =
     (let (runtime, cache') = get_runtime db now server_id cache in (call runtime, cache'))"

definition ping_server ::
  "(string \<Rightarrow> exn + json option) \<Rightarrow> database \<Rightarrow> instant \<Rightarrow> string \<Rightarrow> router_cache \<Rightarrow> (exn + json option) \<times> router_cache" where
  "ping_server agent_ping db now server_id cache =
     routed_call (\<lambda>rt. case rt of Local_Runtime \<Rightarrow> Inr None | Agent_Runtime url \<Rightarrow> agent_ping url) db now server_id cache"

section \<open>A cache whose entries expire\<close>

locale expiring_cache =
  fixes answer :: "'env \<Rightarrow> 'k \<Rightarrow> 'v"
    and get :: "'env \<Rightarrow> instant \<Rightarrow> 'k \<Rightarrow> 'c \<Rightarrow> 'v \<times> 'c"
    and entry :: "'c \<Rightarrow> 'k \<Rightarrow> ('v \<times> instant) option"
    and ttl :: int
  assumes ttl_pos: "0 < ttl"
    and hit: "entry c k = Some (v, u) \<Longrightarrow> now < u \<Longrightarrow> get env now k c = (v, c)"
    and miss: "(\<And>v u. entry c k = Some (v, u) \<Longrightarrow> u \<le> now) \<Longrightarrow> fst (get env now k c) = answer env k \<and>
      entry (snd (get env now k c)) = (entry c)(k \<mapsto> (answer env k, now + ttl))"
begin

text \<open>Every entry is what the source said at some time, and expires a fixed time later.\<close>

definition dated :: "(instant \<Rightarrow> 'env) \<Rightarrow> instant \<Rightarrow> 'c \<Rightarrow> bool" where
  "dated env_at now c \<longleftrightarrow>
     (\<forall>k v u. entry c k = Some (v, u) \<longrightarrow> (\<exists>t. u = t + ttl \<and> t \<le> now \<and> v = answer (env_at t) k))"

text \<open>Every entry is what the source says now.\<close>

definition coherent :: "'env \<Rightarrow> 'c \<Rightarrow> bool" where
  "coherent env c \<longleftrightarrow> (\<forall>k v u. entry c k = Some (v, u) \<longrightarrow> v = answer env k)"

lemma get_cases:
  obtains v u where "entry c k = Some (v, u)" "now < u" "get env now k c = (v, c)"
  | "fst (get env now k c) = answer env k"
    "entry (snd (get env now k c)) = (entry c)(k \<mapsto> (answer env k, now + ttl))"
proof (cases "\<exists>v u. entry c k = Some (v, u) \<and> now < u")
  case True
  then show ?thesis using that(1) hit by blast
next
  case False
  then have old: "u \<le> now" if "entry c k = Some (v, u)" for v u using that by (metis not_le)
  have "fst (get env now k c) = answer env k \<and>
      entry (snd (get env now k c)) = (entry c)(k \<mapsto> (answer env k, now + ttl))"
    by (rule miss) (rule old)
  with that(2) show ?thesis by blast
qed

lemma dated_get: "dated env_at now c \<Longrightarrow> dated env_at now (snd (get (env_at now) now k c))"
  by (rule get_cases [where c = c and k = k and now = now and env = "env_at now"]) (auto simp: dated_def)

lemma dated_later: "dated env_at now c \<Longrightarrow> now \<le> now' \<Longrightarrow> dated env_at now' c"
  unfolding dated_def by (meson order_trans)

lemma dated_drop: "dated env_at now c \<Longrightarrow> entry c' \<subseteq>\<^sub>m entry c \<Longrightarrow> dated env_at now c'"
  unfolding dated_def map_le_def by (metis domI)

lemma get_recent:
  assumes "dated env_at now c"
  shows "\<exists>t. now - ttl < t \<and> t \<le> now \<and> fst (get (env_at now) now k c) = answer (env_at t) k"
proof (rule get_cases [where c = c and k = k and now = now and env = "env_at now"])
  fix v u
  assume e: "entry c k = Some (v, u)" "now < u" "get (env_at now) now k c = (v, c)"
  then obtain t where "u = t + ttl" "t \<le> now" "v = answer (env_at t) k"
    using assms unfolding dated_def by blast
  with e show ?thesis by (intro exI [of _ t]) simp
next
  assume "fst (get (env_at now) now k c) = answer (env_at now) k"
  then show ?thesis using ttl_pos by (intro exI [of _ now]) simp
qed

lemma coherent_get:
  assumes "coherent env c"
  shows "fst (get env now k c) = answer env k \<and> coherent env (snd (get env now k c))"
  by (rule get_cases [where c = c and k = k and now = now and env = env]) (use assms in \<open>auto simp: coherent_def\<close>)

lemma coherent_change:
  assumes "coherent env c" "entry c' \<subseteq>\<^sub>m entry c" "\<And>k. k \<in> Map.dom (entry c') \<Longrightarrow> answer env' k = answer env k"
  shows "coherent env' c'"
  using assms unfolding coherent_def map_le_def by (metis domI)

end

interpretation router: expiring_cache lookup_runtime get_runtime dict_get CACHE_TTL
proof unfold_locales
  show "0 < CACHE_TTL" by (simp add: CACHE_TTL_def seconds_def)
next
  fix c :: router_cache and k v u db and now :: instant
  assume "dict_get c k = Some (v, u)" "now < u"
  then show "get_runtime db now k c = (v, c)" by (simp add: get_runtime_def)
next
  fix c :: router_cache and k db and now :: instant
  assume "\<And>v u. dict_get c k = Some (v, u) \<Longrightarrow> u \<le> now"
  then have "get_runtime db now k c = (lookup_runtime db k, dict_set k (lookup_runtime db k, now + CACHE_TTL) c)"
    by (cases "dict_get c k") (auto simp: get_runtime_def Let_def not_less split: prod.split)
  then show "fst (get_runtime db now k c) = lookup_runtime db k \<and>
      dict_get (snd (get_runtime db now k c)) = (dict_get c)(k \<mapsto> (lookup_runtime db k, now + CACHE_TTL))"
    by (simp add: fun_eq_iff dict_get_set)
qed

section \<open>The router's answers\<close>

text \<open>
  A process over time: \<open>db_at t\<close> is the committed database at \<open>t\<close>; calls are routed and entries
  dropped in any order.
\<close>

inductive router_run :: "(instant \<Rightarrow> database) \<Rightarrow> instant \<Rightarrow> router_cache \<Rightarrow> bool" for db_at where
  start: "router_run db_at now []"
| route: "router_run db_at now c \<Longrightarrow> router_run db_at now (snd (get_runtime (db_at now) now server_id c))"
| drop_server: "router_run db_at now c \<Longrightarrow> router_run db_at now (invalidate_server server_id c)"
| drop_node: "router_run db_at now c \<Longrightarrow> router_run db_at now (invalidate_node node_id c)"
| wait: "router_run db_at now c \<Longrightarrow> now \<le> now' \<Longrightarrow> router_run db_at now' c"

lemma invalidate_le: "dict_get (invalidate_server i c) \<subseteq>\<^sub>m dict_get c" "dict_get (invalidate_node j c) \<subseteq>\<^sub>m dict_get c"
  by (auto simp: map_le_def invalidate_server_def invalidate_node_def dict_get_pop dict_get_def [of "[]"] split: if_splits)

lemma router_run_dated: "router_run db_at now c \<Longrightarrow> router.dated db_at now c"
proof (induction rule: router_run.induct)
  case (start now)
  show ?case unfolding router.dated_def by (simp add: dict_get_def)
qed (auto intro: router.dated_get router.dated_drop invalidate_le router.dated_later)

text \<open>
  C28: A call is routed to the runtime that the database named at some time within the last ten
  seconds, whatever was changed in between and whether or not the change was announced.
\<close>

theorem routing_is_recent:
  assumes "router_run db_at now cache"
  shows "\<exists>t. now - seconds 10 < t \<and> t \<le> now \<and>
    fst (get_runtime (db_at now) now server_id cache) = lookup_runtime (db_at t) server_id"
  using router.get_recent [OF router_run_dated [OF assms], of server_id] by (simp add: CACHE_TTL_def)

text \<open>
  A process in which every change that moves servers is followed by dropping their entries before
  the next call, as the placement, the rebalancer and the migration do.
\<close>

inductive announced_run :: "database \<times> router_cache \<Rightarrow> database \<times> router_cache \<Rightarrow> bool" where
  call: "announced_run (db, c) (db, snd (get_runtime db now server_id c))"
| change: "(\<And>k. dict_get c k \<noteq> None \<Longrightarrow> lookup_runtime db' k \<noteq> lookup_runtime db k \<Longrightarrow> k \<in> set ks) \<Longrightarrow>
    announced_run (db, c) (db', fold invalidate_server ks c)"
| change_node: "announced_run (db, c) (db', invalidate_node n c)"

lemma fold_invalidate:
  "dict_get (fold invalidate_server ks c) = (\<lambda>k. if k \<in> set ks then None else dict_get c k)"
proof (induction ks arbitrary: c)
  case (Cons a ks)
  then show ?case by (auto simp: fun_eq_iff invalidate_server_def dict_get_pop)
qed simp

lemma announced_coherent:
  assumes "announced_run\<^sup>*\<^sup>* (db0, []) (db, c)"
  shows "router.coherent db c"
proof -
  have "router.coherent (fst p) (snd p)" if "announced_run\<^sup>*\<^sup>* (db0, []) p" for p
    using that
  proof (induction rule: rtranclp_induct)
    case base
    show ?case unfolding router.coherent_def by (simp add: dict_get_def)
  next
    case (step p q)
    from step.hyps(2) show ?case
    proof cases
      case (call db c now server_id)
      with step.IH show ?thesis by (simp add: router.coherent_get)
    next
      case (change c db' db ks)
      show ?thesis
        unfolding change(2) fst_conv snd_conv
      proof (rule router.coherent_change)
        show "router.coherent db c" using step.IH change(1) by simp
        show "dict_get (fold invalidate_server ks c) \<subseteq>\<^sub>m dict_get c"
          by (auto simp: map_le_def fold_invalidate split: if_splits)
      next
        fix k
        assume "k \<in> Map.dom (dict_get (fold invalidate_server ks c))"
        then have "k \<notin> set ks" "dict_get c k \<noteq> None" by (auto simp: fold_invalidate split: if_splits)
        then show "lookup_runtime db' k = lookup_runtime db k" using change(3) by blast
      qed
    next
      case (change_node db c db' n)
      then show ?thesis unfolding router.coherent_def by (simp add: invalidate_node_def dict_get_def)
    qed
  qed
  from this [OF assms] show ?thesis by simp
qed

text \<open>
  C29: When every change of a route is announced, the router with its cache answers exactly like a
  router that asks the database for every call, however long entries are kept.
\<close>

theorem announced_routing_is_exact:
  assumes "announced_run\<^sup>*\<^sup>* (db0, []) (db, cache)"
  shows "fst (routed_call call db now server_id cache) = call (lookup_runtime db server_id)"
  using router.coherent_get [OF announced_coherent [OF assms], of now server_id]
  by (auto simp: routed_call_def split: prod.split)

section \<open>Witnesses\<close>

definition moving_db :: "instant \<Rightarrow> database" where
  "moving_db t = (if t < 3 then sample_db else sample_db\<lparr>db_nodes := [sample_node\<lparr>nd_ip_address := ''10.0.0.2''\<rparr>]\<rparr>)"

definition server_10 :: string where
  "server_10 = ''0000000000000000000000000000000a''"

text \<open>The node gets another address at 3; a call at 5 still goes to the old one, seen at 0.\<close>

theorem routing_is_recent_witness:
  "\<exists>t. 5 - seconds 10 < t \<and> t \<le> 5 \<and>
     fst (get_runtime (moving_db 5) 5 server_10 (snd (get_runtime (moving_db 0) 0 server_10 []))) =
       lookup_runtime (moving_db t) server_10"
proof -
  have "router_run moving_db 0 (snd (get_runtime (moving_db 0) 0 server_10 []))"
    by (intro router_run.route router_run.start)
  then have "router_run moving_db 5 (snd (get_runtime (moving_db 0) 0 server_10 []))"
    by (rule router_run.wait) simp
  from routing_is_recent [OF this, of server_10] show ?thesis .
qed

lemma moving_routes:
  "lookup_runtime (moving_db 0) server_10 = agent_runtime sample_node"
  "lookup_runtime (moving_db 5) server_10 = agent_runtime (sample_node\<lparr>nd_ip_address := ''10.0.0.2''\<rparr>)"
proof -
  have "parse_uuid server_10 = Some 10" by code_simp
  then show "lookup_runtime (moving_db 0) server_10 = agent_runtime sample_node"
    "lookup_runtime (moving_db 5) server_10 = agent_runtime (sample_node\<lparr>nd_ip_address := ''10.0.0.2''\<rparr>)"
    by (simp_all add: lookup_runtime_def moving_db_def get_server_def get_node_def sample_db_def sample_server_def
        sample_node_def)
qed

lemma stale_address:
  "fst (get_runtime (moving_db 5) 5 server_10 (snd (get_runtime (moving_db 0) 0 server_10 []))) \<noteq>
     lookup_runtime (moving_db 5) server_10"
  by (simp add: get_runtime_def Let_def moving_routes dict_get_def [of "[]"] dict_get_set CACHE_TTL_def seconds_def
      agent_runtime_def sample_node_def)

theorem announced_routing_is_exact_witness:
  "fst (routed_call Inr (moving_db 5) 5 server_10
     (fold invalidate_server [server_10] (snd (get_runtime (moving_db 0) 0 server_10 [])))) =
     (Inr (lookup_runtime (moving_db 5) server_10) :: exn + runtime)"
proof (rule announced_routing_is_exact)
  let ?c = "snd (get_runtime (moving_db 0) 0 server_10 [])"
  have "announced_run (moving_db 0, []) (moving_db 0, ?c)" by (rule announced_run.call)
  moreover have "announced_run (moving_db 0, ?c) (moving_db 5, fold invalidate_server [server_10] ?c)"
  proof (rule announced_run.change)
    fix k
    assume "dict_get ?c k \<noteq> None"
    then show "k \<in> set [server_10]"
      by (auto simp: get_runtime_def Let_def dict_get_def [of "[]"] dict_get_set split: if_splits)
  qed
  ultimately show "announced_run\<^sup>*\<^sup>* (moving_db 0, []) (moving_db 5, fold invalidate_server [server_10] ?c)"
    by (meson converse_rtranclp_into_rtranclp r_into_rtranclp)
qed

end
