(* ===== verification/Api_Cache.thy ===== *)
theory Api_Cache
  imports PyText
begin

text \<open>
  The cache of answers in Redis (\<open>services/api_cache.py\<close>).  Redis is a parameter: a store of type
  \<open>'r\<close> and its commands, each of which may raise.  A failure makes the process leave Redis alone for
  30 seconds.  The lock of the module is not modelled.
\<close>

section \<open>The cache\<close>

text \<open>
  \<open>rd_scan\<close> are the keys the iterator delivers and the exception that ends it early, if any.  A
  command that raises may have been carried out.  \<open>json.loads\<close> and \<open>json.dumps\<close> are parameters
  (\<open>None\<close> is the decoding error).
\<close>

record 'r redis =
  rd_installed :: bool
  rd_connect :: "'r \<Rightarrow> instant \<Rightarrow> exn + unit"
  rd_get :: "'r \<Rightarrow> instant \<Rightarrow> string \<Rightarrow> exn + string option"
  rd_setex :: "'r \<Rightarrow> instant \<Rightarrow> string \<Rightarrow> int \<Rightarrow> string \<Rightarrow> (exn + unit) \<times> 'r"
  rd_delete :: "'r \<Rightarrow> instant \<Rightarrow> string \<Rightarrow> (exn + unit) \<times> 'r"
  rd_scan :: "'r \<Rightarrow> instant \<Rightarrow> string \<Rightarrow> string list \<times> exn option"
  rd_loads :: "string \<Rightarrow> json option"
  rd_dumps :: "json \<Rightarrow> string"

record 'r api_cache =
  ac_store :: 'r
  ac_client :: bool
  ac_disabled_until :: instant

definition REDIS_BACKOFF :: int where
  "REDIS_BACKOFF = seconds 30"

definition disable_redis_temporarily :: "instant \<Rightarrow> 'r api_cache \<Rightarrow> 'r api_cache" where
  "disable_redis_temporarily now c = c\<lparr>ac_disabled_until := now + REDIS_BACKOFF\<rparr>"

text \<open>Whether there is a client.\<close>

definition get_redis_client :: "'r redis \<Rightarrow> instant \<Rightarrow> 'r api_cache \<Rightarrow> bool \<times> 'r api_cache" where
  "get_redis_client rd now c =
     (if \<not> rd_installed rd then (False, c)
      else if now < ac_disabled_until c then (False, c)
      else if ac_client c then (True, c)
      else case rd_connect rd (ac_store c) now of
             Inl e \<Rightarrow> (False, disable_redis_temporarily now c)
           | Inr _ \<Rightarrow> (True, c\<lparr>ac_client := True\<rparr>))"

text \<open>A command without result.\<close>

definition redis_command :: "instant \<Rightarrow> ('r \<Rightarrow> (exn + unit) \<times> 'r) \<Rightarrow> 'r api_cache \<Rightarrow> 'r api_cache" where
  "redis_command now f c =
     (case f (ac_store c) of
        (Inl e, r) \<Rightarrow> disable_redis_temporarily now (c\<lparr>ac_store := r\<rparr>)
      | (Inr _, r) \<Rightarrow> c\<lparr>ac_store := r\<rparr>)"

definition with_client :: "'r redis \<Rightarrow> instant \<Rightarrow> ('r api_cache \<Rightarrow> 'r api_cache) \<Rightarrow> 'r api_cache \<Rightarrow> 'r api_cache" where
  "with_client rd now f c = (let (b, c) = get_redis_client rd now c in if b then f c else c)"

definition cache_delete :: "'r redis \<Rightarrow> instant \<Rightarrow> string \<Rightarrow> 'r api_cache \<Rightarrow> 'r api_cache" where
  "cache_delete rd now key = with_client rd now (redis_command now (\<lambda>r. rd_delete rd r now key))"

text \<open>A stored \<open>null\<close> is Python's \<open>None\<close>, which means absent.\<close>

definition get_json :: "'r redis \<Rightarrow> instant \<Rightarrow> string \<Rightarrow> 'r api_cache \<Rightarrow> json option \<times> 'r api_cache" where
  "get_json rd now key c =
     (let (b, c) = get_redis_client rd now c in
      if \<not> b then (None, c)
      else case rd_get rd (ac_store c) now key of
        Inl e \<Rightarrow> (None, disable_redis_temporarily now c)
      | Inr None \<Rightarrow> (None, c)
      | Inr (Some raw) \<Rightarrow> (case rd_loads rd raw of
            None \<Rightarrow> (None, cache_delete rd now key c)
          | Some v \<Rightarrow> (if v = JNull then None else Some v, c)))"

definition set_json :: "'r redis \<Rightarrow> instant \<Rightarrow> string \<Rightarrow> json \<Rightarrow> int \<Rightarrow> 'r api_cache \<Rightarrow> 'r api_cache" where
  "set_json rd now key v ttl_seconds =
     with_client rd now (redis_command now (\<lambda>r. rd_setex rd r now key (max 1 ttl_seconds) (rd_dumps rd v)))"

definition get_or_set_json :: "'r redis \<Rightarrow> instant \<Rightarrow> string \<Rightarrow> int \<Rightarrow> json \<Rightarrow> 'r api_cache \<Rightarrow> json \<times> 'r api_cache" where
  "get_or_set_json rd now key ttl_seconds factory c =
     (case get_json rd now key c of
        (Some v, c) \<Rightarrow> (v, c)
      | (None, c) \<Rightarrow> (factory, set_json rd now key factory ttl_seconds c))"

fun delete_keys :: "'r redis \<Rightarrow> instant \<Rightarrow> string list \<Rightarrow> exn option \<Rightarrow> 'r api_cache \<Rightarrow> 'r api_cache" where
  "delete_keys rd now [] failed c = (case failed of None \<Rightarrow> c | Some _ \<Rightarrow> disable_redis_temporarily now c)"
| "delete_keys rd now (key # keys) failed c =
     (case rd_delete rd (ac_store c) now key of
        (Inl e, r) \<Rightarrow> disable_redis_temporarily now (c\<lparr>ac_store := r\<rparr>)
      | (Inr _, r) \<Rightarrow> delete_keys rd now keys failed (c\<lparr>ac_store := r\<rparr>))"

definition delete_prefix :: "'r redis \<Rightarrow> instant \<Rightarrow> string \<Rightarrow> 'r api_cache \<Rightarrow> 'r api_cache" where
  "delete_prefix rd now pre = with_client rd now (\<lambda>c.
     let (keys, failed) = rd_scan rd (ac_store c) now (pre @ ''*'') in delete_keys rd now keys failed c)"

section \<open>An outage\<close>

lemma disabled_noops:
  assumes "now < ac_disabled_until c"
  shows "get_json rd now key c = (None, c)" "set_json rd now key v ttl c = c" "cache_delete rd now key c = c"
    "delete_prefix rd now pre c = c" "get_or_set_json rd now key ttl v c = (v, c)"
  using assms by (simp_all add: get_json_def set_json_def cache_delete_def delete_prefix_def get_or_set_json_def
      with_client_def get_redis_client_def Let_def)

text \<open>
  After a command that failed the process answers every request without the cache and sends no
  command for 30 seconds, and the failure itself is not visible to the caller.
\<close>

theorem outage_is_left_alone:
  assumes "get_redis_client rd now c = (True, c1)" "rd_get rd (ac_store c1) now key = Inl e"
    and "now \<le> t" "t < now + seconds 30"
  shows "\<exists>c'. get_json rd now key c = (None, c') \<and> ac_store c' = ac_store c1 \<and>
    get_json rd t k c' = (None, c') \<and> get_or_set_json rd t k ttl v c' = (v, c') \<and>
    set_json rd t k v ttl c' = c' \<and> cache_delete rd t k c' = c' \<and> delete_prefix rd t k c' = c'"
proof -
  let ?c = "disable_redis_temporarily now c1"
  have "get_json rd now key c = (None, ?c)" using assms(1,2) by (simp add: get_json_def)
  moreover have "t < ac_disabled_until ?c" using assms(4) by (simp add: disable_redis_temporarily_def REDIS_BACKOFF_def)
  ultimately show ?thesis by (intro exI [of _ ?c]) (simp add: disabled_noops disable_redis_temporarily_def)
qed

section \<open>What Redis promises\<close>

text \<open>
  \<open>entry r k\<close> is the value of a key and when it expires: only such values are answered, before that
  time; a command that raises has been carried out or not.
\<close>

definition redis_ok :: "'r redis \<Rightarrow> ('r \<Rightarrow> string \<Rightarrow> (string \<times> instant) option) \<Rightarrow> bool" where
  "redis_ok rd entry \<longleftrightarrow>
     (\<forall>r t k v. rd_get rd r t k = Inr (Some v) \<longrightarrow> (\<exists>u. entry r k = Some (v, u) \<and> t < u)) \<and>
     (\<forall>r t k n v r'. rd_setex rd r t k n v = (Inr (), r') \<longrightarrow> entry r' = (entry r)(k \<mapsto> (v, t + seconds n))) \<and>
     (\<forall>r t k n v e r'. rd_setex rd r t k n v = (Inl e, r') \<longrightarrow>
        entry r' = entry r \<or> entry r' = (entry r)(k \<mapsto> (v, t + seconds n))) \<and>
     (\<forall>r t k r'. rd_delete rd r t k = (Inr (), r') \<longrightarrow> entry r' = (entry r)(k := None)) \<and>
     (\<forall>r t k e r'. rd_delete rd r t k = (Inl e, r') \<longrightarrow> entry r' = entry r \<or> entry r' = (entry r)(k := None))"

text \<open>
  What the process has left at a key: nothing that expires later than the longest time to live, and
  during an outage nothing that outlives the outage.
\<close>

definition short_lived :: "('r \<Rightarrow> string \<Rightarrow> (string \<times> instant) option) \<Rightarrow> string \<Rightarrow> instant \<Rightarrow> 'r api_cache \<Rightarrow> bool" where
  "short_lived entry key now c \<longleftrightarrow> (\<forall>v u. entry (ac_store c) key = Some (v, u) \<longrightarrow>
     u \<le> now + seconds 30 \<and> (now < ac_disabled_until c \<longrightarrow> u \<le> ac_disabled_until c))"

text \<open>No answer for the key will come from the cache before the entries there have expired.\<close>

definition forgotten :: "('r \<Rightarrow> string \<Rightarrow> (string \<times> instant) option) \<Rightarrow> string \<Rightarrow> 'r api_cache \<Rightarrow> bool" where
  "forgotten entry key c \<longleftrightarrow> (\<forall>v u. entry (ac_store c) key = Some (v, u) \<longrightarrow> u \<le> ac_disabled_until c)"

lemma redis_ok_get: "redis_ok rd entry \<Longrightarrow> rd_get rd r t k = Inr (Some v) \<Longrightarrow> \<exists>u. entry r k = Some (v, u) \<and> t < u"
  by (simp add: redis_ok_def)

lemma redis_ok_setex:
  assumes "redis_ok rd entry" "rd_setex rd r t k n v = (x, r')"
  shows "entry r' = (entry r)(k \<mapsto> (v, t + seconds n)) \<or> (x \<noteq> Inr () \<and> entry r' = entry r)"
proof (cases x)
  case (Inl e)
  with assms show ?thesis unfolding redis_ok_def by blast
next
  case (Inr u)
  with assms show ?thesis unfolding redis_ok_def by simp
qed

lemma redis_ok_delete:
  assumes "redis_ok rd entry" "rd_delete rd r t k = (x, r')"
  shows "entry r' = (entry r)(k := None) \<or> (x \<noteq> Inr () \<and> entry r' = entry r)"
proof (cases x)
  case (Inl e)
  with assms show ?thesis unfolding redis_ok_def by blast
next
  case (Inr u)
  with assms show ?thesis unfolding redis_ok_def by simp
qed

lemma client_entry: "get_redis_client rd now c = (b, c') \<Longrightarrow> ac_store c' = ac_store c"
  by (auto simp: get_redis_client_def disable_redis_temporarily_def split: if_splits sum.splits)

lemma client_cases:
  assumes "get_redis_client rd now c = (b, c')"
  obtains "b" "c' = c\<lparr>ac_client := True\<rparr>" "\<not> now < ac_disabled_until c"
  | "\<not> b" "c' = c"
  | "\<not> b" "c' = disable_redis_temporarily now c"
  using assms by (auto simp: get_redis_client_def split: if_splits sum.splits)

text \<open>Weakening the store or ending in an outage keeps a key short-lived.\<close>

lemma short_lived_sub:
  "short_lived entry key now c \<Longrightarrow> entry r key = entry (ac_store c) key \<or> entry r key = None \<Longrightarrow>
   short_lived entry key now (c\<lparr>ac_store := r\<rparr>)"
  by (auto simp: short_lived_def)

lemma short_lived_disabled:
  "short_lived entry key now c \<Longrightarrow> short_lived entry key now (disable_redis_temporarily now c)"
  by (auto simp: short_lived_def disable_redis_temporarily_def REDIS_BACKOFF_def)

lemma short_lived_client:
  "short_lived entry key now c \<Longrightarrow> get_redis_client rd now c = (b, c') \<Longrightarrow> short_lived entry key now c'"
  by (erule client_cases) (auto simp: short_lived_def short_lived_disabled disable_redis_temporarily_def REDIS_BACKOFF_def)

lemma short_lived_later: "short_lived entry key now c \<Longrightarrow> now \<le> now' \<Longrightarrow> short_lived entry key now' c"
  unfolding short_lived_def by (metis add_right_mono order_trans le_less_trans)

lemma short_lived_delete:
  assumes "redis_ok rd entry" "short_lived entry key now c"
  shows "short_lived entry key now (cache_delete rd now k c)"
proof -
  obtain b c1 where c1: "get_redis_client rd now c = (b, c1)" by fastforce
  obtain x r where d: "rd_delete rd (ac_store c1) now k = (x, r)" by fastforce
  have "short_lived entry key now c1" using short_lived_client [OF assms(2) c1] .
  then have "short_lived entry key now (c1\<lparr>ac_store := r\<rparr>)"
    using redis_ok_delete [OF assms(1) d] by (intro short_lived_sub) (auto split: if_splits)
  with \<open>short_lived entry key now c1\<close> c1 d show ?thesis
    by (auto simp: cache_delete_def with_client_def redis_command_def short_lived_disabled split: sum.split)
qed

lemma short_lived_set:
  assumes "redis_ok rd entry" "short_lived entry key now c" "k = key \<Longrightarrow> ttl \<le> 30"
  shows "short_lived entry key now (set_json rd now k v ttl c)"
proof -
  obtain b c1 where c1: "get_redis_client rd now c = (b, c1)" by fastforce
  obtain x r where d: "rd_setex rd (ac_store c1) now k (max 1 ttl) (rd_dumps rd v) = (x, r)" by fastforce
  have s1: "short_lived entry key now c1" using short_lived_client [OF assms(2) c1] .
  show ?thesis
  proof (cases b)
    case False
    with c1 s1 show ?thesis by (simp add: set_json_def with_client_def)
  next
    case True
    then have up: "\<not> now < ac_disabled_until c1" using c1 by (auto elim!: client_cases)
    have "seconds (max 1 ttl) \<le> seconds 30" if "k = key" using assms(3) [OF that] by (simp add: seconds_def)
    then have "short_lived entry key now (c1\<lparr>ac_store := r\<rparr>)"
      using redis_ok_setex [OF assms(1) d] s1 up by (cases "key = k") (auto simp: short_lived_def)
    with True c1 d show ?thesis
      by (auto simp: set_json_def with_client_def redis_command_def short_lived_disabled split: sum.split)
  qed
qed

lemma short_lived_get:
  assumes "redis_ok rd entry" "short_lived entry key now c"
  shows "short_lived entry key now (snd (get_json rd now k c))"
proof -
  obtain b c1 where c1: "get_redis_client rd now c = (b, c1)" by fastforce
  have s1: "short_lived entry key now c1" using short_lived_client [OF assms(2) c1] .
  with c1 show ?thesis
    using short_lived_delete [OF assms(1) s1]
    by (auto simp: get_json_def short_lived_disabled split: sum.split option.split)
qed

lemma deleted_forgotten:
  assumes "redis_ok rd entry" "short_lived entry key now c" "rd_installed rd"
  shows "forgotten entry key (cache_delete rd now key c)"
proof -
  obtain b c1 where c1: "get_redis_client rd now c = (b, c1)" by fastforce
  obtain x r where d: "rd_delete rd (ac_store c1) now key = (x, r)" by fastforce
  have s1: "short_lived entry key now c1" using short_lived_client [OF assms(2) c1] .
  show ?thesis
  proof (cases b)
    case True
    then show ?thesis
      using redis_ok_delete [OF assms(1) d] s1 c1 d
      by (cases x) (auto simp: cache_delete_def with_client_def redis_command_def forgotten_def short_lived_def
          disable_redis_temporarily_def REDIS_BACKOFF_def)
  next
    case False
    then have "now < ac_disabled_until c1"
      using c1 assms(3) by (auto simp: get_redis_client_def disable_redis_temporarily_def REDIS_BACKOFF_def seconds_def
          split: if_splits sum.splits)
    with False c1 s1 show ?thesis by (auto simp: cache_delete_def with_client_def forgotten_def short_lived_def)
  qed
qed

lemma forgotten_miss:
  assumes "redis_ok rd entry" "forgotten entry key c \<or> \<not> rd_installed rd"
  shows "fst (get_json rd now key c) = None"
proof -
  obtain b c1 where c1: "get_redis_client rd now c = (b, c1)" by fastforce
  show ?thesis
  proof (cases b)
    case False
    with c1 show ?thesis by (simp add: get_json_def)
  next
    case True
    then have up: "\<not> now < ac_disabled_until c" "ac_store c1 = ac_store c" "rd_installed rd"
      using c1 client_entry [OF c1] by (auto simp: get_redis_client_def split: if_splits)
    have "rd_get rd (ac_store c1) now key \<noteq> Inr (Some v)" for v
      using redis_ok_get [OF assms(1), of "ac_store c1" now key v] assms(2) up
      by (auto simp: forgotten_def)
    with True c1 show ?thesis by (auto simp: get_json_def split: sum.split option.split)
  qed
qed

text \<open>
  What a process does with the cache, from an empty store; the values at \<open>key\<close> live at most 30
  seconds.
\<close>

inductive cache_run :: "'r redis \<Rightarrow> ('r \<Rightarrow> string \<Rightarrow> (string \<times> instant) option) \<Rightarrow> string \<Rightarrow> instant \<Rightarrow> 'r api_cache \<Rightarrow> bool"
  for rd entry key where
  start: "entry (ac_store c) = Map.empty \<Longrightarrow> cache_run rd entry key now c"
| look: "cache_run rd entry key now c \<Longrightarrow> cache_run rd entry key now (snd (get_json rd now k c))"
| put: "cache_run rd entry key now c \<Longrightarrow> (k = key \<Longrightarrow> ttl \<le> 30) \<Longrightarrow> cache_run rd entry key now (set_json rd now k v ttl c)"
| drop: "cache_run rd entry key now c \<Longrightarrow> cache_run rd entry key now (cache_delete rd now k c)"
| wait: "cache_run rd entry key now c \<Longrightarrow> now \<le> now' \<Longrightarrow> cache_run rd entry key now' c"

lemma cache_run_short_lived:
  assumes "redis_ok rd entry" "cache_run rd entry key now c"
  shows "short_lived entry key now c"
  using assms(2)
proof induction
  case (start c now)
  then show ?case by (simp add: short_lived_def)
qed (simp_all add: short_lived_get [OF assms(1)] short_lived_set [OF assms(1)] short_lived_delete [OF assms(1)]
      short_lived_later)

end
