(* ===== verification/Server_Config.thy ===== *)
theory Server_Config
  imports Access Lifecycle Versions Api_Cache
begin

text \<open>
  The routes that read and change the configuration of a server, its software and its statistics
  (\<open>api/servers.py\<close>), with the answers kept in the cache of \<open>services/api_cache.py\<close>.  Pydantic's
  validation of an answer is a parameter, as are the runtime and the agents of the nodes.
\<close>

section \<open>Keys\<close>

definition server_list_cache_key :: "uuid \<Rightarrow> string" where
  "server_list_cache_key user_id = ''servers:list:'' @ str_uuid user_id"

definition server_detail_cache_key :: "uuid \<Rightarrow> uuid \<Rightarrow> string" where
  "server_detail_cache_key user_id server_id = ''servers:detail:'' @ str_uuid user_id @ '':'' @ str_uuid server_id"

definition server_config_cache_key :: "uuid \<Rightarrow> uuid \<Rightarrow> string" where
  "server_config_cache_key user_id server_id = ''servers:config:'' @ str_uuid user_id @ '':'' @ str_uuid server_id"

definition invalidate_server_read_cache :: "'r redis \<Rightarrow> instant \<Rightarrow> uuid \<Rightarrow> uuid option \<Rightarrow> 'r api_cache \<Rightarrow> 'r api_cache" where
  "invalidate_server_read_cache rd now user_id server_id c =
     (let c = cache_delete rd now (server_list_cache_key user_id) c
      in case server_id of
           None \<Rightarrow> c
         | Some i \<Rightarrow> cache_delete rd now (server_config_cache_key user_id i)
             (cache_delete rd now (server_detail_cache_key user_id i) c))"

section \<open>Changing the configuration\<close>

text \<open>\<open>ServerConfig\<close> as a request; \<open>model_dump(exclude_none=True)\<close> gives the fields that are set.\<close>

record config_update =
  cu_bedrock_image :: "string option"
  cu_bedrock_version :: "string option"
  cu_server_name :: "string option"
  cu_gamemode :: "string option"
  cu_difficulty :: "string option"
  cu_max_players :: "int option"
  cu_allow_cheats :: "bool option"
  cu_online_mode :: "bool option"
  cu_level_name :: "string option"
  cu_level_seed :: "string option"
  cu_motd :: "string option"

definition set_field :: "string \<Rightarrow> ('a \<Rightarrow> json) \<Rightarrow> 'a option \<Rightarrow> json dict" where
  "set_field k f v = (case v of None \<Rightarrow> [] | Some a \<Rightarrow> [(k, f a)])"

definition config_dict :: "config_update \<Rightarrow> json dict" where
  "config_dict u =
     set_field ''bedrock_image'' JStr (cu_bedrock_image u) @ set_field ''bedrock_version'' JStr (cu_bedrock_version u) @
     set_field ''server_name'' JStr (cu_server_name u) @ set_field ''gamemode'' JStr (cu_gamemode u) @
     set_field ''difficulty'' JStr (cu_difficulty u) @ set_field ''max_players'' JInt (cu_max_players u) @
     set_field ''allow_cheats'' JBool (cu_allow_cheats u) @ set_field ''online_mode'' JBool (cu_online_mode u) @
     set_field ''level_name'' JStr (cu_level_name u) @ set_field ''level_seed'' JStr (cu_level_seed u) @
     set_field ''motd'' JStr (cu_motd u)"

definition PROTECTED_FIELDS :: "string list" where
  "PROTECTED_FIELDS = [''server_dir'', ''runtime_mode'', ''template_version'']"

definition sanitize_field :: "json dict \<Rightarrow> exn + json dict" where
  "sanitize_field update =
     (case dict_get update ''bedrock_version'' of
        None \<Rightarrow> Inr update
      | Some v \<Rightarrow> (case sanitize_version (Some (json_str (Some v))) of
            Inl _ \<Rightarrow> Inl (HTTPException 422)
          | Inr w \<Rightarrow> Inr (dict_set ''bedrock_version'' (case w of None \<Rightarrow> JNull | Some t \<Rightarrow> JStr t) update)))"

definition cap_field :: "settings \<Rightarrow> instant \<Rightarrow> database \<Rightarrow> server \<Rightarrow> json dict \<Rightarrow> exn + json dict" where
  "cap_field cfg now db server update =
     (case dict_get update ''max_players'' of
        None \<Rightarrow> Inr update
      | Some v \<Rightarrow> (case clamp_max_players cfg now (case v of JInt n \<Rightarrow> Some n | _ \<Rightarrow> None) (Some db) server None of
            None \<Rightarrow> Inl (HTTPException 402)
          | Some capped \<Rightarrow> Inr (dict_set ''max_players'' (JInt capped) update)))"

definition dict_update :: "'v dict \<Rightarrow> 'v dict \<Rightarrow> 'v dict" where
  "dict_update d upd = fold (\<lambda>(k, v). dict_set k v) upd d"

definition field_or :: "json dict \<Rightarrow> string \<Rightarrow> json \<Rightarrow> json" where
  "field_or d k dflt = (case dict_get d k of Some v \<Rightarrow> if json_truthy v then v else dflt | None \<Rightarrow> dflt)"

definition opt_field :: "string \<Rightarrow> json option \<Rightarrow> json dict" where
  "opt_field k v = (case v of None \<Rightarrow> [] | Some JNull \<Rightarrow> [] | Some j \<Rightarrow> [(k, j)])"

text \<open>The properties of a running server that follow, without the fields that are \<open>None\<close>.\<close>

definition live_properties :: "settings \<Rightarrow> instant \<Rightarrow> database \<Rightarrow> server \<Rightarrow> json dict \<Rightarrow> json dict" where
  "live_properties cfg now db server update =
     (let name = JStr (srv_world_name server) in
      if is_bedrock (srv_flavor server) then
        opt_field ''server-name'' (Some (field_or update ''server_name'' name)) @
        opt_field ''gamemode'' (dict_get update ''gamemode'') @
        opt_field ''difficulty'' (dict_get update ''difficulty'') @
        opt_field ''max-players'' (dict_get update ''max_players'') @
        opt_field ''allow-cheats'' (dict_get update ''allow_cheats'') @
        opt_field ''level-name'' (Some (field_or update ''level_name'' name)) @
        opt_field ''level-seed'' (dict_get update ''level_seed'')
      else
        opt_field ''motd'' (Some (field_or update ''motd'' name)) @
        opt_field ''max-players'' (Some (field_or update ''max_players''
          (case clamp_max_players cfg now None (Some db) server (Some 20) of None \<Rightarrow> JNull | Some n \<Rightarrow> JInt n))) @
        opt_field ''gamemode'' (Some (field_or update ''gamemode'' (JStr ''survival''))) @
        opt_field ''difficulty'' (Some (field_or update ''difficulty'' (JStr ''normal''))) @
        opt_field ''level-name'' (Some (field_or update ''level_name'' name)) @
        opt_field ''level-seed'' (Some (field_or update ''level_seed'' (JStr []))))"

definition update_server_config ::
  "settings \<Rightarrow> instant \<Rightarrow> (uuid \<Rightarrow> json dict \<Rightarrow> exn + unit) \<Rightarrow> config_update \<Rightarrow> string \<Rightarrow> user \<Rightarrow> (uuid \<times> json dict) op" where
  "update_server_config cfg now push payload server_id user =
     bind_op (get_server_for_user server_id user (Some ''config'')) (\<lambda>server.
     bind_op (lift_op (sanitize_field (fold dict_pop PROTECTED_FIELDS (config_dict payload)))) (\<lambda>update.
     bind_op (get_op (\<lambda>s. cap_field cfg now (ses_flushed s) server update)) (\<lambda>r.
     bind_op (lift_op r) (\<lambda>update.
     bind_op (set_server (srv_id server) (\<lambda>r. r\<lparr>srv_mc_config := dict_update (srv_mc_config r) update\<rparr>)) (\<lambda>_.
     bind_op (if srv_state server = ServerState.running then
         bind_op (get_op (\<lambda>s. live_properties cfg now (ses_flushed s) server update)) (\<lambda>props.
         if props = [] then return_op ()
         else catch_op (lift_op (push (srv_id server) props)) (\<lambda>_. raise_op (HTTPException 503)))
       else return_op ()) (\<lambda>_.
     bind_op commit_op (\<lambda>_. with_server (srv_id server) (\<lambda>r.
     return_op (srv_id r, srv_mc_config r)))))))))"

section \<open>The routes with their cache\<close>

text \<open>\<open>config_model\<close> is the answer model: the fields of the configuration, or a validation error.\<close>

definition config_answer :: "(json dict \<Rightarrow> exn + json) \<Rightarrow> uuid \<Rightarrow> json dict \<Rightarrow> exn + json" where
  "config_answer config_model i config =
     map_sum id (\<lambda>m. JObj [(''id'', JStr (str_uuid i)), (''mc_config'', m)]) (config_model config)"

definition update_config_route ::
  "'r redis \<Rightarrow> (json dict \<Rightarrow> exn + json) \<Rightarrow> settings \<Rightarrow> instant \<Rightarrow> (uuid \<Rightarrow> json dict \<Rightarrow> exn + unit) \<Rightarrow> config_update \<Rightarrow>
   string \<Rightarrow> user \<Rightarrow> database \<times> 'r api_cache \<Rightarrow> (exn + json) \<times> database \<times> 'r api_cache" where
  "update_config_route rd config_model cfg now push payload server_id user = (\<lambda>(db, c).
     case run_request (update_server_config cfg now push payload server_id user) db of
       (Inl e, db') \<Rightarrow> (Inl e, db', c)
     | (Inr (i, config), db') \<Rightarrow>
         (config_answer config_model i config, db', invalidate_server_read_cache rd now (usr_id user) (Some i) c))"

definition SERVER_CONFIG_TTL_SECONDS :: int where
  "SERVER_CONFIG_TTL_SECONDS = 30"

definition get_config_route ::
  "'r redis \<Rightarrow> (json dict \<Rightarrow> exn + json) \<Rightarrow> instant \<Rightarrow> string \<Rightarrow> user \<Rightarrow> database \<times> 'r api_cache \<Rightarrow> (exn + json) \<times> 'r api_cache" where
  "get_config_route rd config_model now server_id user = (\<lambda>(db, c).
     case fst (run_request (get_server_for_user server_id user (Some ''config'')) db) of
       Inl e \<Rightarrow> (Inl e, c)
     | Inr server \<Rightarrow>
         (let key = server_config_cache_key (usr_id user) (srv_id server)
          in case get_json rd now key c of
               (Some v, c) \<Rightarrow> (Inr v, c)
             | (None, c) \<Rightarrow> (case config_answer config_model (srv_id server) (srv_mc_config server) of
                   Inl e \<Rightarrow> (Inl e, c)
                 | Inr payload \<Rightarrow> (Inr payload, set_json rd now key payload SERVER_CONFIG_TTL_SECONDS c))))"

section \<open>Changing the software\<close>

definition switch_server_software ::
  "start_env \<Rightarrow> ServerFlavor \<Rightarrow> string \<Rightarrow> string \<Rightarrow> user \<Rightarrow> (uuid \<times> ServerState) op" where
  "switch_server_software env target_flavor target_mc_version server_id user =
     bind_op (get_server_for_user server_id user (Some ''config'')) (\<lambda>server.
     if is_java_flavor (srv_flavor server) \<noteq> is_java_flavor target_flavor then raise_op (HTTPException 400)
     else
       bind_op (if srv_state server = ServerState.running then orchestrator_stop env (srv_id server)
         else return_op ()) (\<lambda>_.
       bind_op (set_server (srv_id server) (\<lambda>r. r\<lparr>srv_flavor := target_flavor\<rparr>)) (\<lambda>_.
       bind_op (if is_java_flavor target_flavor then
           set_server (srv_id server) (\<lambda>r. r\<lparr>srv_mc_version := Some target_mc_version,
             srv_mc_config := dict_pop ''provision_error'' (srv_mc_config r), srv_state := ServerState.suspended\<rparr>)
         else (case sanitize_version (Some target_mc_version) of
             Inl _ \<Rightarrow> raise_op (HTTPException 422)
           | Inr w \<Rightarrow> set_server (srv_id server) (\<lambda>r. r\<lparr>srv_mc_config := dict_set ''bedrock_version''
                 (case w of None \<Rightarrow> JNull | Some t \<Rightarrow> JStr t) (srv_mc_config r), srv_state := ServerState.suspended\<rparr>))) (\<lambda>_.
       bind_op commit_op (\<lambda>_. with_server (srv_id server) (\<lambda>r.
       return_op (srv_id r, srv_state r)))))))"

section \<open>Statistics\<close>

text \<open>
  The state \<open>_compute_server_stats\<close> gives a server before it collects the numbers: it follows the
  process.  A failed commit is rolled back and ignored.
\<close>

definition reconcile_state :: "uuid \<Rightarrow> bool \<Rightarrow> unit op" where
  "reconcile_state sid process_running = with_server sid (\<lambda>server.
     if process_running \<and> srv_state server \<in> {ServerState.suspended, ServerState.created} then
       bind_op (set_server sid (\<lambda>r. r\<lparr>srv_state := ServerState.running\<rparr>)) (\<lambda>_.
       catch_op commit_op (\<lambda>_. modify_op rollback))
     else if \<not> process_running \<and> srv_state server = ServerState.running then
       bind_op (set_server sid (\<lambda>r. r\<lparr>srv_state := ServerState.suspended\<rparr>)) (\<lambda>_.
       catch_op commit_op (\<lambda>_. modify_op rollback))
     else return_op ())"

text \<open>The statistics route, when the numbers are not in the cache.\<close>

definition get_server_stats :: "start_env \<Rightarrow> string \<Rightarrow> user \<Rightarrow> uuid op" where
  "get_server_stats env server_id user =
     bind_op (get_server_for_user server_id user None) (\<lambda>server.
     bind_op (reconcile_state (srv_id server) (env_runtime_running env (srv_id server))) (\<lambda>_.
     return_op (srv_id server)))"

text \<open>Lines of the log: the number asked for is kept within 1 and 500.\<close>

definition MAX_LOG_TAIL :: int where
  "MAX_LOG_TAIL = 500"

definition get_server_logs :: "(uuid \<Rightarrow> int \<Rightarrow> exn + string list) \<Rightarrow> int \<Rightarrow> string \<Rightarrow> user \<Rightarrow> string list op" where
  "get_server_logs read_logs tail server_id user =
     bind_op (get_server_for_user server_id user (Some ''console'')) (\<lambda>server.
     lift_op (read_logs (srv_id server) (max 1 (min tail MAX_LOG_TAIL))))"

text \<open>A command on the console counts as activity; the runtime's \<open>RuntimeError\<close> is a 400.\<close>

definition send_cmd :: "(uuid \<Rightarrow> string \<Rightarrow> exn + unit) \<Rightarrow> instant \<Rightarrow> uuid \<Rightarrow> string \<Rightarrow> unit op" where
  "send_cmd send_command now sid cmd = catch_op
     (bind_op (lift_op (send_command sid cmd)) (\<lambda>_.
      bind_op (set_server sid (\<lambda>r. r\<lparr>srv_last_activity := now\<rparr>)) (\<lambda>_. commit_op)))
     (\<lambda>e. raise_op (if e = RuntimeError then HTTPException 400 else e))"

section \<open>What a change of the configuration does\<close>

lemma access_keeps_session:
  "get_server_for_user server_id user perm (open_session db) =
     (fst (run_request (get_server_for_user server_id user perm) db), open_session db)"
  by (auto simp: run_request_def get_server_for_user_def op_defs split: option.split)

lemma access_InrD:
  "fst (run_request (get_server_for_user server_id user perm) db) = Inr server \<Longrightarrow>
   parse_uuid server_id = Some (srv_id server) \<and> get_server db (srv_id server) = Some server"
  by (auto simp: access_eq bind_eq_Some_conv dest: get_server_SomeD split: option.splits if_splits)

lemma constraints_config [simp]:
  "constraints_ok (upd_server i (\<lambda>r. r\<lparr>srv_mc_config := f r\<rparr>) db) = constraints_ok db"
  by (simp add: constraints_ok_def upd_server_def map_filter_modify_row)

lemma run_live_properties:
  assumes "(if b then bind_op (get_op f) (\<lambda>props. if props = [] then return_op ()
      else catch_op (lift_op (push i props)) (\<lambda>_. raise_op e)) else return_op ()) s = (Inr u, s')"
  shows "s' = s"
  using assms by (auto simp: op_defs split: if_splits sum.splits)

lemma update_config_InrD:
  assumes "run_request (update_server_config cfg now push payload server_id user) db = (Inr (i, config), db')"
  obtains server upd0 upd where
    "fst (run_request (get_server_for_user server_id user (Some ''config'')) db) = Inr server" "srv_id server = i"
    "sanitize_field (fold dict_pop PROTECTED_FIELDS (config_dict payload)) = Inr upd0"
    "cap_field cfg now db server upd0 = Inr upd"
    "config = dict_update (srv_mc_config server) upd"
    "db' = upd_server i (\<lambda>r. r\<lparr>srv_mc_config := dict_update (srv_mc_config r) upd\<rparr>) db"
proof -
  obtain s where run: "update_server_config cfg now push payload server_id user (open_session db) = (Inr (i, config), s)"
    "db' = ses_committed s"
    using assms by (auto simp: run_request_def split: prod.splits)
  obtain server where server: "fst (run_request (get_server_for_user server_id user (Some ''config'')) db) = Inr server"
    using run(1) by (cases "fst (run_request (get_server_for_user server_id user (Some ''config'')) db)")
      (auto simp: update_server_config_def bind_op_def access_keeps_session)
  have found: "get_server db (srv_id server) = Some server" using access_InrD [OF server] by simp
  obtain upd0 where u0: "sanitize_field (fold dict_pop PROTECTED_FIELDS (config_dict payload)) = Inr upd0"
    using run(1) server by (cases "sanitize_field (fold dict_pop PROTECTED_FIELDS (config_dict payload))")
      (auto simp: update_server_config_def bind_op_def access_keeps_session lift_op_def)
  obtain upd where u: "cap_field cfg now db server upd0 = Inr upd"
    using run(1) server u0 by (cases "cap_field cfg now db server upd0")
      (auto simp: update_server_config_def bind_op_def access_keeps_session lift_op_def get_op_def)
  let ?db = "upd_server (srv_id server) (\<lambda>r. r\<lparr>srv_mc_config := dict_update (srv_mc_config r) upd\<rparr>) db"
  have row: "get_server ?db (srv_id server) = Some (server\<lparr>srv_mc_config := dict_update (srv_mc_config server) upd\<rparr>)"
    using found by (simp add: get_server_upd_server)
  define s0 where "s0 = set_objects (upd_server (srv_id server)
    (\<lambda>r. r\<lparr>srv_mc_config := dict_update (srv_mc_config r) upd\<rparr>)) (open_session db)"
  define push_live where "push_live = (if srv_state server = ServerState.running then
      bind_op (get_op (\<lambda>s. live_properties cfg now (ses_flushed s) server upd)) (\<lambda>props.
      if props = [] then return_op ()
      else catch_op (lift_op (push (srv_id server) props)) (\<lambda>_. raise_op (HTTPException 503)))
    else return_op ())"
  define finish where "finish = bind_op commit_op (\<lambda>_. with_server (srv_id server) (\<lambda>r. return_op (srv_id r, srv_mc_config r)))"
  have access: "get_server_for_user server_id user (Some ''config'') (open_session db) = (Inr server, open_session db)"
    using access_keeps_session [of server_id user "Some ''config''" db] server by simp
  have rest: "update_server_config cfg now push payload server_id user (open_session db) =
      bind_op push_live (\<lambda>_. finish) s0"
    unfolding update_server_config_def bind_op_def [of "get_server_for_user server_id user (Some ''config'')"] access
    by (simp add: u0 u bind_lift_op bind_get_op set_server_def bind_modify_op push_live_def finish_def s0_def)
  obtain w s1 where w: "push_live s0 = (Inr w, s1)" "finish s1 = (Inr (i, config), s)"
    using run(1) unfolding rest by (rule bind_op_InrE)
  have "s1 = s0" using w(1) unfolding push_live_def by (rule run_live_properties)
  with w(2) have "finish s0 = (Inr (i, config), s)" by simp
  then have "s = open_session ?db" "i = srv_id server" "config = dict_update (srv_mc_config server) upd"
    using row by (auto simp: finish_def s0_def bind_op_def commit_op_def commit_def with_server_def return_op_def split: if_splits)
  with that [of server upd0 upd] server u0 u run(2) show ?thesis by simp
qed

lemma dict_get_update: "dict_get (dict_update d upd) k = (case map_of (rev upd) k of None \<Rightarrow> dict_get d k | Some v \<Rightarrow> Some v)"
  unfolding dict_update_def
proof (induction upd arbitrary: d)
  case (Cons p upd)
  obtain a b where "p = (a, b)" by fastforce
  with Cons.IH [of "dict_set a b d"] show ?case by (auto simp: map_of_append split: option.split)
qed simp

lemma dict_get_fold_pop: "dict_get (fold dict_pop ks d) k = (if k \<in> set ks then None else dict_get d k)"
  by (induction ks arbitrary: d) auto

text \<open>What the change leaves of a server.\<close>

lemma config_row:
  assumes "run_request (update_server_config cfg now push payload server_id user) db = (Inr (i, config), db')"
  obtains server where "get_server db i = Some server" "get_server db' i = Some (server\<lparr>srv_mc_config := config\<rparr>)"
    "fst (run_request (get_server_for_user server_id user (Some ''config'')) db) = Inr server"
    "\<And>j. j \<noteq> i \<Longrightarrow> get_server db' j = get_server db j" "db_collaborators db' = db_collaborators db"
proof -
  obtain server upd0 upd where
    u: "fst (run_request (get_server_for_user server_id user (Some ''config'')) db) = Inr server" "srv_id server = i"
    "sanitize_field (fold dict_pop PROTECTED_FIELDS (config_dict payload)) = Inr upd0"
    "cap_field cfg now db server upd0 = Inr upd" "config = dict_update (srv_mc_config server) upd"
    "db' = upd_server i (\<lambda>r. r\<lparr>srv_mc_config := dict_update (srv_mc_config r) upd\<rparr>) db"
    by (rule update_config_InrD [OF assms])
  have found: "get_server db i = Some server" using access_InrD [OF u(1)] u(2) by simp
  have "db_collaborators db' = db_collaborators db" unfolding u(6) by (simp add: upd_server_def)
  with found u show ?thesis by (intro that [of server]) (simp_all add: get_server_upd_server)
qed

lemma access_after_config:
  assumes "run_request (update_server_config cfg now push payload server_id user) db = (Inr (i, config), db')"
  shows "\<exists>server. fst (run_request (get_server_for_user server_id user (Some ''config'')) db') = Inr server \<and>
    srv_id server = i \<and> srv_mc_config server = config"
proof -
  obtain server where r: "get_server db i = Some server"
    "get_server db' i = Some (server\<lparr>srv_mc_config := config\<rparr>)"
    "fst (run_request (get_server_for_user server_id user (Some ''config'')) db) = Inr server"
    "db_collaborators db' = db_collaborators db"
    by (rule config_row [OF assms])
  have "srv_id server = i" using get_server_SomeD [OF r(1)] by simp
  have "granted db' a b = granted db a b" for a b using r(4) by (simp add: granted_def)
  with r access_InrD [OF r(3)] \<open>srv_id server = i\<close> show ?thesis
    by (auto simp: access_eq split: option.splits if_splits)
qed

text \<open>
  C30: Whoever changes the configuration of a server reads the new one afterwards, although answers are
  kept for 30 seconds and although Redis may fail at any command: a process that could not remove the
  old answer does not ask Redis again before that answer has expired.
\<close>

theorem config_read_your_writes:
  assumes "redis_ok rd entry" "cache_run rd entry (server_config_cache_key (usr_id user) i) t0 c"
    and "run_request (update_server_config cfg t0 push payload server_id user) db = (Inr (i, config), db')"
    and "update_config_route rd config_model cfg t0 push payload server_id user (db, c) = (Inr answer, db', c')"
  shows "fst (get_config_route rd config_model t1 server_id user (db', c')) = Inr answer"
proof -
  let ?key = "server_config_cache_key (usr_id user) i"
  have answer: "config_answer config_model i config = Inr answer" "c' = invalidate_server_read_cache rd t0 (usr_id user) (Some i) c"
    using assms(3,4) by (simp_all add: update_config_route_def)
  obtain server where server: "fst (run_request (get_server_for_user server_id user (Some ''config'')) db') = Inr server"
    "srv_id server = i" "srv_mc_config server = config"
    using access_after_config [OF assms(3)] by blast
  have "cache_run rd entry ?key t0 (cache_delete rd t0 (server_detail_cache_key (usr_id user) i)
      (cache_delete rd t0 (server_list_cache_key (usr_id user)) c))"
    by (intro cache_run.drop assms(2))
  then have "forgotten entry ?key c' \<or> \<not> rd_installed rd"
    using deleted_forgotten [OF assms(1) cache_run_short_lived [OF assms(1)]] answer(2)
    by (auto simp: invalidate_server_read_cache_def Let_def)
  then have "fst (get_json rd t1 ?key c') = None" by (rule forgotten_miss [OF assms(1)])
  with server answer(1) show ?thesis
    by (auto simp: get_config_route_def Let_def split: prod.split)
qed

text \<open>A Redis that does not fail, and a client that is connected.\<close>

definition redis_up :: "'r redis \<Rightarrow> ('r \<Rightarrow> string \<Rightarrow> (string \<times> instant) option) \<Rightarrow> bool" where
  "redis_up rd entry \<longleftrightarrow> rd_installed rd \<and> (\<forall>r t k. fst (rd_delete rd r t k) = Inr ()) \<and>
     (\<forall>r t k v u. entry r k = Some (v, u) \<longrightarrow> t < u \<longrightarrow> rd_get rd r t k = Inr (Some v))"

lemma delete_other_key:
  assumes "redis_ok rd entry" "redis_up rd entry" "ac_client c" "ac_disabled_until c \<le> now" "k \<noteq> key"
  shows "entry (ac_store (cache_delete rd now k c)) key = entry (ac_store c) key \<and>
    ac_client (cache_delete rd now k c) \<and> ac_disabled_until (cache_delete rd now k c) = ac_disabled_until c"
proof -
  obtain x r where d: "rd_delete rd (ac_store c) now k = (x, r)" by fastforce
  then have "x = Inr ()" using assms(2) by (metis redis_up_def fst_conv)
  with redis_ok_delete [OF assms(1) d] d assms(2-5) show ?thesis
    by (auto simp: cache_delete_def with_client_def get_redis_client_def redis_up_def redis_command_def)
qed

lemma cache_keys_differ:
  assumes "a < 2 ^ 128" "b < 2 ^ 128" "a \<noteq> b"
  shows "server_list_cache_key a \<noteq> server_config_cache_key b i" "server_detail_cache_key a i \<noteq> server_config_cache_key b i"
    "server_config_cache_key a i \<noteq> server_config_cache_key b i"
proof -
  have "length (str_uuid a) = length (str_uuid b)" by (simp add: str_uuid_def Let_def)
  moreover have "str_uuid a \<noteq> str_uuid b" using assms parse_str_uuid by (metis option.inject)
  ultimately show "server_config_cache_key a i \<noteq> server_config_cache_key b i"
    by (simp add: server_config_cache_key_def)
qed (simp_all add: server_list_cache_key_def server_config_cache_key_def server_detail_cache_key_def)

text \<open>
  A collaborator's change stays hidden from the owner for up to 30 seconds: only the cached
  answers of the user who makes the change are removed.
\<close>

theorem collaborator_change_is_hidden:
  assumes "redis_ok rd entry" "redis_up rd entry" "ac_client c" "ac_disabled_until c \<le> t0" "t0 \<le> t1"
    and "usr_id collab < 2 ^ 128" "usr_id owner < 2 ^ 128" "usr_id collab \<noteq> usr_id owner"
    and "run_request (update_server_config cfg t0 push payload server_id collab) db = (Inr (i, config), db')"
    and "update_config_route rd config_model cfg t0 push payload server_id collab (db, c) = (Inr answer, db', c')"
    and "map_option srv_owner_id (get_server db i) = Some (usr_id owner)"
    and "entry (ac_store c) (server_config_cache_key (usr_id owner) i) = Some (raw, u)" "t1 < u"
    and "rd_loads rd raw = Some old" "old \<noteq> JNull"
  shows "fst (get_config_route rd config_model t1 server_id owner (db', c')) = Inr old"
proof -
  let ?key = "server_config_cache_key (usr_id owner) i"
  let ?c1 = "cache_delete rd t0 (server_list_cache_key (usr_id collab)) c"
  let ?c2 = "cache_delete rd t0 (server_detail_cache_key (usr_id collab) i) ?c1"
  have c': "c' = cache_delete rd t0 (server_config_cache_key (usr_id collab) i) ?c2"
    using assms(9,10) by (simp add: update_config_route_def invalidate_server_read_cache_def Let_def)
  note differ = cache_keys_differ [OF assms(6-8), of i]
  have c1: "entry (ac_store ?c1) ?key = Some (raw, u)" "ac_client ?c1" "ac_disabled_until ?c1 \<le> t0"
    using delete_other_key [OF assms(1-4) differ(1)] assms(4,12) by simp_all
  have c2: "entry (ac_store ?c2) ?key = Some (raw, u)" "ac_client ?c2" "ac_disabled_until ?c2 \<le> t0"
    using delete_other_key [OF assms(1,2) c1(2,3) differ(2)] c1 by simp_all
  have c3: "entry (ac_store c') ?key = Some (raw, u)" "ac_client c'" "ac_disabled_until c' \<le> t0"
    using delete_other_key [OF assms(1,2) c2(2,3) differ(3)] c2 unfolding c' by simp_all
  have "rd_get rd (ac_store c') t1 ?key = Inr (Some raw)" using assms(2,13) c3(1) unfolding redis_up_def by blast
  then have get: "get_json rd t1 ?key c' = (Some old, c')"
    using c3(2,3) assms(2,5,14,15) by (simp add: get_json_def get_redis_client_def redis_up_def)
  obtain server where r: "get_server db i = Some server"
    "get_server db' i = Some (server\<lparr>srv_mc_config := config\<rparr>)"
    "fst (run_request (get_server_for_user server_id collab (Some ''config'')) db) = Inr server"
    by (rule config_row [OF assms(9)])
  have id: "srv_id server = i" using get_server_SomeD [OF r(1)] by simp
  have parse: "parse_uuid server_id = Some i" using access_InrD [OF r(3)] id by simp
  have own: "srv_owner_id server = usr_id owner" using assms(11) r(1) by simp
  have "fst (run_request (get_server_for_user server_id owner (Some ''config'')) db') = Inr (server\<lparr>srv_mc_config := config\<rparr>)"
    by (simp add: access_eq parse r(2) own)
  with get id show ?thesis by (simp add: get_config_route_def Let_def)
qed

lemma dict_set_distinct: "distinct (map fst d) \<Longrightarrow> distinct (map fst (dict_set k v d))"
  by (simp add: dict_set_def distinct_update)

lemma dict_pop_distinct: "distinct (map fst d) \<Longrightarrow> distinct (map fst (dict_pop k d))"
  by (simp add: dict_pop_def distinct_delete)

lemma field_keys:
  "distinct (map fst (set_field k f v))" "j \<noteq> k \<Longrightarrow> j \<notin> fst ` set (set_field k f v)"
  "distinct (map fst d) \<Longrightarrow> k \<notin> fst ` set d \<Longrightarrow> distinct (map fst (set_field k f v @ d))"
  "j \<noteq> k \<Longrightarrow> j \<notin> fst ` set d \<Longrightarrow> j \<notin> fst ` set (set_field k f v @ d)"
  by (cases v; simp add: set_field_def)+

lemma config_dict_distinct: "distinct (map fst (config_dict payload))"
  unfolding config_dict_def by (intro field_keys) simp_all

lemma fold_pop_distinct: "distinct (map fst d) \<Longrightarrow> distinct (map fst (fold dict_pop ks d))"
  by (induction ks arbitrary: d) (simp_all add: dict_pop_distinct)

lemma sanitize_InrD:
  assumes "sanitize_field d = Inr d'" "distinct (map fst d)"
  shows "distinct (map fst d') \<and> (\<forall>k. k \<noteq> ''bedrock_version'' \<longrightarrow> dict_get d' k = dict_get d k)"
proof -
  have "d' = d \<or> (\<exists>v. d' = dict_set ''bedrock_version'' v d)"
    using assms(1) unfolding sanitize_field_def by (cases "dict_get d ''bedrock_version''") (auto split: sum.splits)
  then show ?thesis
  proof
    assume "\<exists>v. d' = dict_set ''bedrock_version'' v d"
    then obtain v where "d' = dict_set ''bedrock_version'' v d" ..
    with assms(2) show ?thesis by (simp add: dict_set_distinct)
  qed (use assms(2) in blast)
qed

lemma cap_InrD:
  assumes "cap_field cfg now db server d = Inr d'" "distinct (map fst d)"
  shows "distinct (map fst d') \<and> (\<forall>k. k \<noteq> ''max_players'' \<longrightarrow> dict_get d' k = dict_get d k) \<and>
    (dict_get d' ''max_players'' = None \<or>
     (\<exists>n. dict_get d' ''max_players'' = Some (JInt n) \<and> 1 \<le> n \<and> n \<le> plan_player_limit cfg now (Some db) server))"
proof (cases "dict_get d ''max_players''")
  case None
  with assms show ?thesis by (simp only: cap_field_def option.case sum.inject) blast
next
  case (Some v)
  then obtain n where n: "clamp_max_players cfg now (case v of JInt n \<Rightarrow> Some n | _ \<Rightarrow> None) (Some db) server None = Some n"
    "d' = dict_set ''max_players'' (JInt n) d"
    using assms(1) unfolding cap_field_def by (auto split: option.splits)
  have "1 \<le> n \<and> n \<le> plan_player_limit cfg now (Some db) server"
    using n(1) by (auto simp: clamp_max_players_def Let_def split: option.splits if_splits)
  with n(2) assms(2) show ?thesis by (simp add: dict_set_distinct)
qed

lemma dict_get_update_distinct:
  assumes "distinct (map fst upd)"
  shows "dict_get (dict_update d upd) k = (case dict_get upd k of None \<Rightarrow> dict_get d k | Some v \<Rightarrow> Some v)"
proof -
  have "map_of (rev upd) k = map_of upd k"
  proof (cases "map_of upd k")
    case None
    then have "k \<notin> fst ` set (rev upd)" by (simp add: map_of_eq_None_iff)
    then have "map_of (rev upd) k = None" by (simp only: map_of_eq_None_iff not_False_eq_True)
    with None show ?thesis by simp
  next
    case (Some v)
    then have "(k, v) \<in> set (rev upd)" by (simp add: map_of_SomeD)
    moreover have "distinct (map fst (rev upd))" using assms by (simp add: rev_map [symmetric])
    ultimately have "map_of (rev upd) k = Some v" by (rule map_of_is_SomeI [rotated])
    with Some show ?thesis by simp
  qed
  then show ?thesis by (simp add: dict_get_update dict_get_def [of upd])
qed

text \<open>
  A change of the configuration concerns one server and nothing but its configuration; the fields
  that decide what is executed stay, and the number of players is at most that of the plan.
\<close>

theorem config_change_is_confined:
  assumes "run_request (update_server_config cfg now push payload server_id user) db = (Inr (i, config), db')"
  shows "\<exists>server. get_server db i = Some server \<and> get_server db' i = Some (server\<lparr>srv_mc_config := config\<rparr>) \<and>
    (\<forall>j. j \<noteq> i \<longrightarrow> get_server db' j = get_server db j) \<and>
    (\<forall>k \<in> set PROTECTED_FIELDS. dict_get config k = dict_get (srv_mc_config server) k) \<and>
    (dict_get config ''max_players'' = dict_get (srv_mc_config server) ''max_players'' \<or>
     (\<exists>n. dict_get config ''max_players'' = Some (JInt n) \<and> 1 \<le> n \<and> n \<le> plan_player_limit cfg now (Some db) server))"
proof -
  obtain server upd0 upd where
    u: "fst (run_request (get_server_for_user server_id user (Some ''config'')) db) = Inr server" "srv_id server = i"
    "sanitize_field (fold dict_pop PROTECTED_FIELDS (config_dict payload)) = Inr upd0"
    "cap_field cfg now db server upd0 = Inr upd" "config = dict_update (srv_mc_config server) upd"
    "db' = upd_server i (\<lambda>r. r\<lparr>srv_mc_config := dict_update (srv_mc_config r) upd\<rparr>) db"
    by (rule update_config_InrD [OF assms])
  have found: "get_server db i = Some server" using access_InrD [OF u(1)] u(2) by simp
  have rows: "get_server db' i = Some (server\<lparr>srv_mc_config := config\<rparr>)" "\<And>j. j \<noteq> i \<Longrightarrow> get_server db' j = get_server db j"
    unfolding u(6) using found by (simp_all add: get_server_upd_server u(5))
  have d0: "distinct (map fst (fold dict_pop PROTECTED_FIELDS (config_dict payload)))"
    by (rule fold_pop_distinct [OF config_dict_distinct])
  have d1: "distinct (map fst upd0)" "\<And>k. k \<noteq> ''bedrock_version'' \<Longrightarrow>
      dict_get upd0 k = dict_get (fold dict_pop PROTECTED_FIELDS (config_dict payload)) k"
    using sanitize_InrD [OF u(3) d0] by blast+
  have d2: "distinct (map fst upd)" "\<And>k. k \<noteq> ''max_players'' \<Longrightarrow> dict_get upd k = dict_get upd0 k"
    "dict_get upd ''max_players'' = None \<or>
      (\<exists>n. dict_get upd ''max_players'' = Some (JInt n) \<and> 1 \<le> n \<and> n \<le> plan_player_limit cfg now (Some db) server)"
    using cap_InrD [OF u(4) d1(1)] by blast+
  have "dict_get config k = dict_get (srv_mc_config server) k" if k: "k \<in> set PROTECTED_FIELDS" for k
  proof -
    have "k \<noteq> ''max_players''" "k \<noteq> ''bedrock_version''" using k by (auto simp: PROTECTED_FIELDS_def)
    then have "dict_get upd k = None" using d1(2) d2(2) k by (simp add: dict_get_fold_pop)
    then show ?thesis by (simp add: u(5) dict_get_update_distinct [OF d2(1)])
  qed
  moreover have "dict_get config ''max_players'' = dict_get (srv_mc_config server) ''max_players'' \<or>
     (\<exists>n. dict_get config ''max_players'' = Some (JInt n) \<and> 1 \<le> n \<and> n \<le> plan_player_limit cfg now (Some db) server)"
  proof (cases "dict_get upd ''max_players''")
    case None
    then show ?thesis by (simp add: u(5) dict_get_update_distinct [OF d2(1)])
  next
    case (Some v)
    then have "dict_get config ''max_players'' = Some v" by (simp add: u(5) dict_get_update_distinct [OF d2(1)])
    with Some d2(3) show ?thesis by fastforce
  qed
  ultimately show ?thesis using found rows by blast
qed

section \<open>The state follows the process\<close>

definition followed_state :: "bool \<Rightarrow> ServerState \<Rightarrow> ServerState" where
  "followed_state process_running st =
     (if process_running \<and> st \<in> {ServerState.suspended, ServerState.created} then ServerState.running
      else if \<not> process_running \<and> st = ServerState.running then ServerState.suspended else st)"

lemma constraints_state [simp]: "constraints_ok (upd_server i (\<lambda>r. r\<lparr>srv_state := st\<rparr>) db) = constraints_ok db"
  by (simp add: constraints_ok_def upd_server_def map_filter_modify_row)

lemma stats_run:
  assumes "constraints_ok db" "fst (run_request (get_server_for_user server_id user None) db) = Inr server"
  shows "\<exists>db'. run_request (get_server_stats env server_id user) db = (Inr (srv_id server), db') \<and>
    db_subscriptions db' = db_subscriptions db \<and>
    get_server db' (srv_id server) =
      Some (server\<lparr>srv_state := followed_state (env_runtime_running env (srv_id server)) (srv_state server)\<rparr>)"
proof -
  let ?b = "env_runtime_running env (srv_id server)" and ?i = "srv_id server"
  have found: "get_server db ?i = Some server" using access_InrD [OF assms(2)] by simp
  have access: "get_server_for_user server_id user None (open_session db) = (Inr server, open_session db)"
    using access_keeps_session [of server_id user None db] assms(2) by simp
  have run: "run_request (get_server_stats env server_id user) db =
      (case reconcile_state ?i ?b (open_session db) of (Inl e, s) \<Rightarrow> (Inl e, ses_committed s) | (Inr _, s) \<Rightarrow> (Inr ?i, ses_committed s))"
    unfolding run_request_def get_server_stats_def bind_op_def [of "get_server_for_user server_id user None"] access
    by (auto simp: bind_op_def return_op_def split: prod.split sum.split)
  have written: "reconcile_state ?i ?b (open_session db) = (Inr (), open_session (upd_server ?i (\<lambda>r. r\<lparr>srv_state := st\<rparr>) db))"
    if "followed_state ?b (srv_state server) = st" "st \<noteq> srv_state server" for st
    using that found assms(1)
    by (auto simp: reconcile_state_def with_server_def followed_state_def op_defs commit_def split: if_splits)
  have idle: "reconcile_state ?i ?b (open_session db) = (Inr (), open_session db)"
    if "followed_state ?b (srv_state server) = srv_state server"
    using that found by (auto simp: reconcile_state_def with_server_def followed_state_def return_op_def split: if_splits)
  show ?thesis
  proof (cases "followed_state ?b (srv_state server) = srv_state server")
    case True
    with idle run found show ?thesis by simp
  next
    case False
    with written [OF refl False] run found show ?thesis
      by (simp add: get_server_upd_server)
  qed
qed

lemma expiration_servers:
  "db_servers (snd (process_subscription_expirations cfg now locked db)) =
    map (\<lambda>v. if Some (srv_id v) \<in> sub_server_id ` set (expired_grace cfg now locked db) then clear_billing_config v else v)
      (db_servers db)"
  by (simp add: process_subscription_expirations_def Let_def fold_suspend_servers fold_grace_servers)

lemma get_server_expiration:
  "get_server (snd (process_subscription_expirations cfg now locked db)) i =
    map_option (\<lambda>v. if Some (srv_id v) \<in> sub_server_id ` set (expired_grace cfg now locked db) then clear_billing_config v else v)
      (get_server db i)"
  unfolding get_server_def expiration_servers by (rule get_row_map) (simp add: clear_billing_config_def)

text \<open>
  A server whose subscription has run out and whose process survived the pass, because stopping it
  failed, is shown as running again by the next request for its statistics, of its owner or of any
  collaborator, and no later pass suspends it: its subscription is suspended already.
\<close>

theorem unpaid_server_comes_back:
  assumes "distinct (map sub_id (db_subscriptions db))" "sub \<in> set (expired_grace cfg now locked db)"
    and only: "\<And>s. s \<in> set (db_subscriptions db) \<Longrightarrow> sub_server_id s = sub_server_id sub \<Longrightarrow> s = sub"
    and "get_server db i = Some server" "sub_server_id sub = Some i"
    and expired: "db1 = snd (process_subscription_expirations cfg now locked db)" "constraints_ok db1"
    and "fst (run_request (get_server_for_user server_id user None) db1) = Inr server1" "srv_id server1 = i"
    and "env_runtime_running env i"
  shows "map_option srv_state (get_server db1 i) = Some ServerState.suspended \<and>
    (\<exists>db2. run_request (get_server_stats env server_id user) db1 = (Inr i, db2) \<and>
       (\<forall>later skipped. map_option srv_state
          (get_server (snd (process_subscription_expirations cfg later skipped db2)) i) = Some ServerState.running))"
proof -
  have id: "srv_id server = i" using get_server_SomeD [OF assms(4)] by simp
  have susp: "get_server db1 i = Some (clear_billing_config server)"
    using assms(2,4,5) id by (auto simp: expired(1) get_server_expiration image_iff)
  have "get_server db1 i = Some server1" using access_InrD [OF assms(8)] assms(9) by simp
  with susp have s1: "srv_state server1 = ServerState.suspended" by (auto simp: clear_billing_config_def)
  obtain db2 where db2: "run_request (get_server_stats env server_id user) db1 = (Inr i, db2)"
    "db_subscriptions db2 = db_subscriptions db1"
    "get_server db2 i = Some (server1\<lparr>srv_state := ServerState.running\<rparr>)"
    using stats_run [OF expired(2) assms(8), of env] assms(9,10) s1 by (auto simp: followed_state_def)
  have "Some i \<notin> sub_server_id ` set (expired_grace cfg later skipped db2)" for later skipped
  proof
    assume "Some i \<in> sub_server_id ` set (expired_grace cfg later skipped db2)"
    then obtain r where r: "r \<in> set (db_subscriptions db1)" "sub_server_id r = Some i"
      "sub_status r = BillingSubscriptionStatus.grace_period"
      using db2(2) by (auto simp: expired_grace_def)
    then obtain s where s: "s \<in> set (db_subscriptions db)" "r = expire_row cfg now locked s"
      using expiration_subscriptions [OF assms(1), of cfg now locked] expired(1) by auto
    have "sub_server_id s = Some i" using r(2) s(2) by (auto simp: expire_row_def split: if_splits)
    then have "s = sub" using only s(1) assms(5) by simp
    with assms(2) r(3) s(2) show False by (auto simp: expire_row_def expired_grace_def)
  qed
  then have "map_option srv_state (get_server (snd (process_subscription_expirations cfg later skipped db2)) i) =
      Some ServerState.running" for later skipped
    using db2(3) assms(9) by (simp add: get_server_expiration)
  with db2(1) susp show ?thesis by (simp add: clear_billing_config_def)
qed

section \<open>Witnesses\<close>

text \<open>A Redis that keeps its promises, as a map.\<close>

definition map_redis :: "(string \<Rightarrow> (string \<times> instant) option) redis" where
  "map_redis = \<lparr>rd_installed = True, rd_connect = (\<lambda>_ _. Inr ()),
     rd_get = (\<lambda>r t k. Inr (case r k of None \<Rightarrow> None | Some (v, u) \<Rightarrow> if t < u then Some v else None)),
     rd_setex = (\<lambda>r t k n v. (Inr (), r(k \<mapsto> (v, t + seconds n)))),
     rd_delete = (\<lambda>r t k. (Inr (), r(k := None))), rd_scan = (\<lambda>_ _ _. ([], None)),
     rd_loads = (\<lambda>v. Some (JStr v)), rd_dumps = (\<lambda>_. ''j'')\<rparr>"

lemma map_redis_ok: "redis_ok map_redis id" "redis_up map_redis id"
  by (auto simp: redis_ok_def redis_up_def map_redis_def split: option.splits if_splits)

definition say_hi :: config_update where
  "say_hi = \<lparr>cu_bedrock_image = None, cu_bedrock_version = None, cu_server_name = None, cu_gamemode = None,
     cu_difficulty = None, cu_max_players = None, cu_allow_cheats = None, cu_online_mode = None,
     cu_level_name = None, cu_level_seed = None, cu_motd = Some ''hi''\<rparr>"

definition team_db :: database where
  "team_db = shared_db\<lparr>db_collaborators := [\<lparr>col_server_id = 10, col_user_id = 2, col_permissions = [''config'']\<rparr>]\<rparr>"

definition say_hi_to :: "user \<Rightarrow> (exn + uuid \<times> json dict) \<times> database" where
  "say_hi_to u = run_request (update_server_config default_settings 5 (\<lambda>_ _. Inr ()) say_hi (str_uuid 10) u) team_db"

lemma say_hi_runs:
  "say_hi_to sample_user = (Inr (10, [(''motd'', JStr ''hi'')]), snd (say_hi_to sample_user))"
  "say_hi_to friend = (Inr (10, [(''motd'', JStr ''hi'')]), snd (say_hi_to friend))"
proof -
  have "fst (say_hi_to sample_user) = Inr (10, [(''motd'', JStr ''hi'')])" by code_simp
  then show "say_hi_to sample_user = (Inr (10, [(''motd'', JStr ''hi'')]), snd (say_hi_to sample_user))"
    by (simp add: prod_eq_iff)
  have "fst (say_hi_to friend) = Inr (10, [(''motd'', JStr ''hi'')])" by code_simp
  then show "say_hi_to friend = (Inr (10, [(''motd'', JStr ''hi'')]), snd (say_hi_to friend))"
    by (simp add: prod_eq_iff)
qed

definition connected :: "(string \<Rightarrow> (string \<times> instant) option) \<Rightarrow> (string \<Rightarrow> (string \<times> instant) option) api_cache" where
  "connected store = \<lparr>ac_store = store, ac_client = True, ac_disabled_until = 0\<rparr>"

theorem config_read_your_writes_witness:
  "\<exists>c'. fst (get_config_route map_redis (\<lambda>d. Inr (JObj d)) 6 (str_uuid 10) sample_user (snd (say_hi_to sample_user), c')) =
     Inr (JObj [(''id'', JStr (str_uuid 10)), (''mc_config'', JObj [(''motd'', JStr ''hi'')])])"
proof -
  have run: "run_request (update_server_config default_settings 5 (\<lambda>_ _. Inr ()) say_hi (str_uuid 10) sample_user) team_db =
      (Inr (10, [(''motd'', JStr ''hi'')]), snd (say_hi_to sample_user))"
    using say_hi_runs(1) by (simp add: say_hi_to_def)
  have start: "cache_run map_redis id (server_config_cache_key (usr_id sample_user) 10) 5 (connected Map.empty)"
    by (rule cache_run.start) (simp add: connected_def)
  have route: "update_config_route map_redis (\<lambda>d. Inr (JObj d)) default_settings 5 (\<lambda>_ _. Inr ()) say_hi (str_uuid 10)
      sample_user (team_db, connected Map.empty) =
    (Inr (JObj [(''id'', JStr (str_uuid 10)), (''mc_config'', JObj [(''motd'', JStr ''hi'')])]), snd (say_hi_to sample_user),
     invalidate_server_read_cache map_redis 5 (usr_id sample_user) (Some 10) (connected Map.empty))"
    by (simp add: update_config_route_def run config_answer_def)
  show ?thesis using config_read_your_writes [OF map_redis_ok(1) start run route] by blast
qed

theorem collaborator_change_is_hidden_witness:
  "\<exists>c'. fst (get_config_route map_redis (\<lambda>d. Inr (JObj d)) 6 (str_uuid 10) sample_user (snd (say_hi_to friend), c')) = Inr (JStr ''old'')"
proof -
  let ?store = "[server_config_cache_key 1 10 \<mapsto> (''old'', 7)]"
  have run: "run_request (update_server_config default_settings 5 (\<lambda>_ _. Inr ()) say_hi (str_uuid 10) friend) team_db =
      (Inr (10, [(''motd'', JStr ''hi'')]), snd (say_hi_to friend))"
    using say_hi_runs(2) by (simp add: say_hi_to_def)
  have route: "update_config_route map_redis (\<lambda>d. Inr (JObj d)) default_settings 5 (\<lambda>_ _. Inr ()) say_hi (str_uuid 10)
      friend (team_db, connected ?store) =
    (Inr (JObj [(''id'', JStr (str_uuid 10)), (''mc_config'', JObj [(''motd'', JStr ''hi'')])]), snd (say_hi_to friend),
     invalidate_server_read_cache map_redis 5 (usr_id friend) (Some 10) (connected ?store))"
    by (simp add: update_config_route_def run config_answer_def)
  have rows: "usr_id friend < 2 ^ 128" "usr_id sample_user < 2 ^ 128" "usr_id friend \<noteq> usr_id sample_user"
    "map_option srv_owner_id (get_server team_db 10) = Some (usr_id sample_user)"
    by (simp_all add: friend_def team_db_def shared_db_def get_server_def sample_defs)
  have store: "id (ac_store (connected ?store)) (server_config_cache_key (usr_id sample_user) 10) = Some (''old'', 7)"
    "ac_client (connected ?store)" "ac_disabled_until (connected ?store) \<le> 5"
    by (simp_all add: connected_def sample_user_def)
  have "fst (get_config_route map_redis (\<lambda>d. Inr (JObj d)) 6 (str_uuid 10) sample_user (snd (say_hi_to friend),
      invalidate_server_read_cache map_redis 5 (usr_id friend) (Some 10) (connected ?store))) = Inr (JStr ''old'')"
    by (rule collaborator_change_is_hidden [where entry = id and rd = map_redis, OF map_redis_ok store(2,3) _ rows(1-3) run route rows(4) store(1)])
      (simp_all add: map_redis_def)
  then show ?thesis by blast
qed

theorem config_change_is_confined_witness:
  "\<exists>server. get_server team_db 10 = Some server \<and>
     get_server (snd (say_hi_to sample_user)) 10 = Some (server\<lparr>srv_mc_config := [(''motd'', JStr ''hi'')]\<rparr>)"
proof -
  have run: "run_request (update_server_config default_settings 5 (\<lambda>_ _. Inr ()) say_hi (str_uuid 10) sample_user) team_db =
      (Inr (10, [(''motd'', JStr ''hi'')]), snd (say_hi_to sample_user))"
    using say_hi_runs(1) by (simp add: say_hi_to_def)
  show ?thesis using config_change_is_confined [OF run] by blast
qed

definition unpaid_db :: database where
  "unpaid_db = shared_db\<lparr>db_servers := [sample_server\<lparr>srv_state := ServerState.running\<rparr>],
     db_subscriptions := [sample_subscription\<lparr>sub_status := BillingSubscriptionStatus.grace_period\<rparr>]\<rparr>"

theorem unpaid_server_comes_back_witness:
  "\<exists>db2. run_request (get_server_stats (sample_env\<lparr>env_runtime_running := (\<lambda>_. True)\<rparr>) (str_uuid 10) sample_user)
      (snd (process_subscription_expirations default_settings (days 9) [] unpaid_db)) = (Inr 10, db2) \<and>
    map_option srv_state (get_server (snd (process_subscription_expirations default_settings (days 99) [] db2)) 10) =
      Some ServerState.running"
proof -
  let ?sub = "sample_subscription\<lparr>sub_status := BillingSubscriptionStatus.grace_period\<rparr>"
  let ?server = "sample_server\<lparr>srv_state := ServerState.running\<rparr>"
  let ?db1 = "snd (process_subscription_expirations default_settings (days 9) [] unpaid_db)"
  have rows: "distinct (map sub_id (db_subscriptions unpaid_db))" "get_server unpaid_db 10 = Some ?server"
    "sub_server_id ?sub = Some 10" "\<And>s. s \<in> set (db_subscriptions unpaid_db) \<Longrightarrow> s = ?sub"
    "?sub \<in> set (expired_grace default_settings (days 9) [] unpaid_db)"
    by (simp_all add: unpaid_db_def shared_db_def get_server_def sample_defs expired_grace_def grace_delta_def
        default_settings_def duration_defs)
  have ok: "constraints_ok ?db1" by code_simp
  have access: "fst (run_request (get_server_for_user (str_uuid 10) sample_user None) ?db1) = Inr (clear_billing_config ?server)"
    by code_simp
  have "srv_id (clear_billing_config ?server) = 10" by (simp add: clear_billing_config_def sample_server_def)
  from unpaid_server_comes_back [OF rows(1,5) rows(4) rows(2,3) refl ok access this,
      of "sample_env\<lparr>env_runtime_running := (\<lambda>_. True)\<rparr>"]
  show ?thesis by auto
qed

end
