(* ===== verification/World_Files.thy ===== *)
theory World_Files
  imports Lifecycle
begin

text \<open>
  The files of a server as far as backups and restores touch them (\<open>orchestrator/backup.py\<close>): paths, a
  file system with symbolic links, what goes into an archive, which archives are accepted, and how
  they are unpacked.  The file system is an association list of absolute paths; the operations of
  \<open>pathlib\<close>, \<open>os\<close>, \<open>shutil\<close> and \<open>tarfile\<close> are those the code uses.
\<close>

section \<open>Paths\<close>

text \<open>An absolute path is the list of its parts; \<open>base / s\<close> starts afresh when \<open>s\<close> is absolute.\<close>

type_synonym path = "string list"

definition path_parts :: "string \<Rightarrow> path" where
  "path_parts s = filter (\<lambda>c. c \<noteq> [] \<and> c \<noteq> ''.'') (py_split CHR ''/'' s)"

definition is_absolute :: "string \<Rightarrow> bool" where
  "is_absolute s \<longleftrightarrow> py_startswith s ''/''"

definition join_path :: "path \<Rightarrow> string \<Rightarrow> path" where
  "join_path base s = (if is_absolute s then path_parts s else base @ path_parts s)"

section \<open>The file system\<close>

datatype entry = EFile string | EDir | ELink string

type_synonym fs = "(path \<times> entry) list"

definition fs_get :: "fs \<Rightarrow> path \<Rightarrow> entry option" where
  "fs_get fs p = (if p = [] then Some EDir else map_of fs p)"

text \<open>
  Walking a path from a directory: \<open>..\<close> goes up, a link is followed (at most 40 of them, as in Linux).
  A missing part ends a strict walk unless it is the last one; otherwise, as \<open>Path.resolve\<close> does, the
  rest is taken as written.
\<close>

fun namei :: "bool \<Rightarrow> fs \<Rightarrow> nat \<Rightarrow> path \<Rightarrow> path \<Rightarrow> path option" where
  "namei strict fs fuel dir [] = Some dir"
| "namei strict fs fuel dir (c # rest) =
     (if c = ''..'' then namei strict fs fuel (butlast dir) rest
      else case fs_get fs (dir @ [c]) of
        Some (ELink target) \<Rightarrow> (case fuel of
            0 \<Rightarrow> None
          | Suc f \<Rightarrow> namei strict fs f (if is_absolute target then [] else dir) (path_parts target @ rest))
      | Some EDir \<Rightarrow> namei strict fs fuel (dir @ [c]) rest
      | _ \<Rightarrow> if strict \<and> rest \<noteq> [] then None else namei strict fs fuel (dir @ [c]) rest)"

definition locate :: "fs \<Rightarrow> path \<Rightarrow> path option" where
  "locate fs p = namei True fs 40 [] p"

definition resolve_path :: "fs \<Rightarrow> path \<Rightarrow> path option" where
  "resolve_path fs p = namei False fs 40 [] p"

definition stat_at :: "fs \<Rightarrow> path \<Rightarrow> entry option" where
  "stat_at fs p = Option.bind (locate fs p) (fs_get fs)"

definition exists_at :: "fs \<Rightarrow> path \<Rightarrow> bool" where
  "exists_at fs p \<longleftrightarrow> stat_at fs p \<noteq> None"

definition is_dir_at :: "fs \<Rightarrow> path \<Rightarrow> bool" where
  "is_dir_at fs p \<longleftrightarrow> stat_at fs p = Some EDir"

definition is_file_at :: "fs \<Rightarrow> path \<Rightarrow> bool" where
  "is_file_at fs p \<longleftrightarrow> exists_at fs p \<and> \<not> is_dir_at fs p"

text \<open>The place of the entry itself, its last part not followed.\<close>

definition entry_path :: "fs \<Rightarrow> path \<Rightarrow> path option" where
  "entry_path fs p =
     (if p = [] \<or> last p = ''..'' then None
      else map_option (\<lambda>d. d @ [last p]) (locate fs (butlast p)))"

definition lstat_at :: "fs \<Rightarrow> path \<Rightarrow> entry option" where
  "lstat_at fs p = (case entry_path fs p of None \<Rightarrow> stat_at fs p | Some q \<Rightarrow> fs_get fs q)"

section \<open>Trees of files\<close>

definition without :: "path \<Rightarrow> fs \<Rightarrow> fs" where
  "without p fs = filter (\<lambda>(q, e). \<not> prefix p q) fs"

definition tree_of :: "path \<Rightarrow> fs \<Rightarrow> fs" where
  "tree_of p fs = map (\<lambda>(q, e). (drop (length p) q, e)) (filter (\<lambda>(q, e). prefix p q) fs)"

definition graft :: "path \<Rightarrow> fs \<Rightarrow> fs \<Rightarrow> fs" where
  "graft p t fs = without p fs @ map (\<lambda>(q, e). (p @ q, e)) t"

definition fs_put :: "path \<Rightarrow> entry \<Rightarrow> fs \<Rightarrow> fs" where
  "fs_put p e fs = AList.update p e fs"

text \<open>\<open>rglob("*")\<close>: everything below a directory, by its relative path; links are not entered.\<close>

definition rglob :: "fs \<Rightarrow> path \<Rightarrow> fs" where
  "rglob fs p = (case locate fs p of None \<Rightarrow> [] | Some d \<Rightarrow> filter (\<lambda>(q, e). q \<noteq> []) (tree_of d fs))"

text \<open>\<open>mkdir(parents=True, exist_ok=True)\<close>.\<close>

definition make_dirs :: "path \<Rightarrow> fs \<Rightarrow> exn + fs" where
  "make_dirs p fs =
     (if list_all (\<lambda>q. fs_get fs q \<in> {None, Some EDir}) (prefixes p)
      then Inr (fold (\<lambda>q fs. if fs_get fs q = None then fs_put q EDir fs else fs) (prefixes p) fs)
      else Inl OSError)"

definition mkdir_p :: "path \<Rightarrow> fs \<Rightarrow> exn + fs" where
  "mkdir_p p fs = (case resolve_path fs p of None \<Rightarrow> Inl OSError | Some d \<Rightarrow> make_dirs d fs)"

text \<open>\<open>os.replace\<close>: POSIX rename.\<close>

definition move_tree :: "path \<Rightarrow> path \<Rightarrow> fs \<Rightarrow> fs" where
  "move_tree a b fs = graft b (tree_of a fs) (without a fs)"

definition os_replace :: "path \<Rightarrow> path \<Rightarrow> fs \<Rightarrow> exn + fs" where
  "os_replace src dst fs =
     (case (entry_path fs src, entry_path fs dst) of
        (Some a, Some b) \<Rightarrow>
          if fs_get fs a = None \<or> fs_get fs (butlast b) \<noteq> Some EDir then Inl OSError
          else if a = b then Inr fs
          else if prefix a b \<or> prefix b a then Inl OSError
          else if fs_get fs b = None then Inr (move_tree a b fs)
          else if (fs_get fs a = Some EDir) \<noteq> (fs_get fs b = Some EDir) then Inl OSError
          else if fs_get fs b = Some EDir \<and> rglob fs b \<noteq> [] then Inl OSError
          else Inr (move_tree a b fs)
      | _ \<Rightarrow> Inl OSError)"

text \<open>\<open>_safe_rmtree\<close>: errors are ignored, and an empty parent goes too.\<close>

definition safe_rmtree :: "path \<Rightarrow> fs \<Rightarrow> fs" where
  "safe_rmtree p fs =
     (if exists_at fs p then
        (let fs = (case entry_path fs p of
               None \<Rightarrow> fs
             | Some q \<Rightarrow> if fs_get fs q = Some EDir then without q fs else fs)
         in case locate fs (butlast p) of
              None \<Rightarrow> fs
            | Some d \<Rightarrow> if d \<noteq> [] \<and> fs_get fs d = Some EDir \<and> rglob fs d = [] then without d fs else fs)
      else fs)"

text \<open>\<open>shutil.copy2\<close>: through a link at the destination, and into a directory.\<close>

definition copy_file :: "path \<Rightarrow> path \<Rightarrow> fs \<Rightarrow> exn + fs" where
  "copy_file src dst fs =
     (case (stat_at fs src, resolve_path fs dst) of
        (Some (EFile d), Some q) \<Rightarrow>
          (let q = (if fs_get fs q = Some EDir then q @ [last src] else q)
           in if fs_get fs (butlast q) = Some EDir \<and> fs_get fs q \<noteq> Some EDir then Inr (fs_put q (EFile d) fs)
              else Inl OSError)
      | _ \<Rightarrow> Inl OSError)"

section \<open>What is backed up\<close>

definition resolve_existing_world_path :: "fs \<Rightarrow> path \<Rightarrow> string \<Rightarrow> bool \<Rightarrow> path option" where
  "resolve_existing_world_path fs server_dir world_name java_flavor =
     find (exists_at fs)
       ((if world_name \<noteq> [] then [join_path server_dir world_name] else []) @
        (if java_flavor then [server_dir @ [''world'']]
         else [join_path (server_dir @ [''worlds'']) world_name, server_dir @ [''worlds'']]))"

definition java_files :: "string list" where
  "java_files = [''server.properties'', ''eula.txt'', ''ops.json'', ''banned-players.json'', ''banned-ips.json'',
     ''whitelist.json'']"

definition bedrock_files :: "string list" where
  "bedrock_files = [''server.properties'', ''allowlist.json'', ''permissions.json'', ''valid_known_packs.json'',
     ''world_behavior_packs.json'', ''world_resource_packs.json'']"

definition included_files :: "fs \<Rightarrow> path \<Rightarrow> string \<Rightarrow> string list \<Rightarrow> (path \<times> string) list" where
  "included_files fs server_dir dir names =
     map (\<lambda>n. (server_dir @ [n], dir @ ''/'' @ n)) (filter (\<lambda>n. is_file_at fs (server_dir @ [n])) names)"

definition included_backup_paths :: "fs \<Rightarrow> ServerFlavor \<Rightarrow> path \<Rightarrow> string \<Rightarrow> (path \<times> string) list" where
  "included_backup_paths fs flavor server_dir world_name =
     (if is_java_flavor flavor then
        (case resolve_existing_world_path fs server_dir world_name True of
           None \<Rightarrow> [] | Some world_path \<Rightarrow> [(world_path, ''java/world'')]) @
        included_files fs server_dir ''java'' java_files
      else
        (let worlds_path = server_dir @ [''worlds'']
         in case resolve_existing_world_path fs server_dir world_name False of
              Some world_path \<Rightarrow>
                if world_path = worlds_path then [(worlds_path, ''bedrock/worlds'')]
                else [(world_path, ''bedrock/worlds/'' @ world_name)]
            | None \<Rightarrow> if exists_at fs worlds_path then [(worlds_path, ''bedrock/worlds'')] else []) @
        included_files fs server_dir ''bedrock'' bedrock_files)"

definition active_world_path :: "fs \<Rightarrow> ServerFlavor \<Rightarrow> path \<Rightarrow> string \<Rightarrow> path" where
  "active_world_path fs flavor server_dir world_name =
     (case resolve_existing_world_path fs server_dir world_name (is_java_flavor flavor) of
        Some p \<Rightarrow> p
      | None \<Rightarrow> server_dir @ [if is_java_flavor flavor then ''world'' else ''worlds''])"

definition entry_size :: "entry \<Rightarrow> int" where
  "entry_size e = (case e of EFile d \<Rightarrow> int (length d) | _ \<Rightarrow> 0)"

definition path_size :: "fs \<Rightarrow> path \<Rightarrow> int" where
  "path_size fs p = (case stat_at fs p of
     Some (EFile d) \<Rightarrow> int (length d) | Some EDir \<Rightarrow> sum_of (entry_size \<circ> snd) (rglob fs p) | _ \<Rightarrow> 0)"

definition size_bytes :: "fs \<Rightarrow> path list \<Rightarrow> int" where
  "size_bytes fs paths = sum_of (path_size fs) paths"

section \<open>Archives\<close>

datatype member = MFile string | MDir | MLink

type_synonym archive = "(string \<times> member) list"

definition member_of :: "entry \<Rightarrow> member" where
  "member_of e = (case e of EFile d \<Rightarrow> MFile d | EDir \<Rightarrow> MDir | ELink t \<Rightarrow> MLink)"

text \<open>\<open>tarfile\<close> drops the slashes at the end of a directory's name.\<close>

definition tar_name :: "string \<Rightarrow> member \<Rightarrow> string" where
  "tar_name n m = (if m = MDir then rstrip_where (\<lambda>c. c = CHR ''/'') n else n)"

definition tar_add :: "fs \<Rightarrow> path \<Rightarrow> string \<Rightarrow> archive" where
  "tar_add fs src arcname =
     (case lstat_at fs src of None \<Rightarrow> [] | Some e \<Rightarrow> [(tar_name arcname (member_of e), member_of e)])"

definition add_to_tar :: "fs \<Rightarrow> path \<Rightarrow> string \<Rightarrow> archive" where
  "add_to_tar fs src arcname =
     tar_add fs src arcname @
     (if is_file_at fs src then []
      else map (\<lambda>(rel, e). (arcname @ ''/'' @ py_join CHR ''/'' rel, member_of e))
        (filter (\<lambda>(rel, e). member_of e \<noteq> MLink) (rglob fs src)))"

definition make_archive :: "fs \<Rightarrow> (path \<times> string) list \<Rightarrow> archive" where
  "make_archive fs includes = concat (map (\<lambda>(source, archive_name). add_to_tar fs source archive_name) includes)"

definition unsafe_member :: "string \<times> member \<Rightarrow> bool" where
  "unsafe_member = (\<lambda>(n, m). is_absolute n \<or> ''..'' \<in> set (path_parts n) \<or> m = MLink)"

definition has_world :: "archive \<Rightarrow> bool" where
  "has_world a \<longleftrightarrow> ''bedrock/worlds'' \<in> fst ` set a \<or> ''java/world'' \<in> fst ` set a \<or>
     list_ex (\<lambda>(n, m). py_startswith n ''bedrock/worlds/'' \<or> py_startswith n ''java/world'') a"

definition validate_archive_members :: "archive \<Rightarrow> exn + unit" where
  "validate_archive_members a =
     (if list_ex unsafe_member a then Inl (BackupRestoreError ''unsafe_archive'')
      else if has_world a then Inr () else Inl (BackupRestoreError ''invalid_archive''))"

definition put_member :: "path \<Rightarrow> member \<Rightarrow> fs \<Rightarrow> exn + fs" where
  "put_member p m fs = (case m of
       MDir \<Rightarrow> make_dirs p fs
     | MFile d \<Rightarrow> (case make_dirs (butlast p) fs of
           Inl e \<Rightarrow> Inl e
         | Inr fs \<Rightarrow> if fs_get fs p = Some EDir then Inl OSError else Inr (fs_put p (EFile d) fs))
     | MLink \<Rightarrow> Inl OSError)"

definition extract_member :: "path \<Rightarrow> string \<times> member \<Rightarrow> fs \<Rightarrow> exn + fs" where
  "extract_member target = (\<lambda>(n, m) fs. case resolve_path fs (join_path target n) of
     None \<Rightarrow> Inl OSError | Some p \<Rightarrow> put_member p m fs)"

fun extract_all :: "path \<Rightarrow> archive \<Rightarrow> fs \<Rightarrow> exn + fs" where
  "extract_all target [] fs = Inr fs"
| "extract_all target (m # ms) fs =
     (case extract_member target m fs of Inl e \<Rightarrow> Inl e | Inr fs \<Rightarrow> extract_all target ms fs)"

text \<open>The second check, of the resolved destinations, after the first.\<close>

definition escapes :: "fs \<Rightarrow> path \<Rightarrow> string \<times> member \<Rightarrow> bool" where
  "escapes fs root = (\<lambda>(n, m). case resolve_path fs (join_path root n) of None \<Rightarrow> True | Some d \<Rightarrow> \<not> prefix root d)"

definition extract_safely :: "archive \<Rightarrow> path \<Rightarrow> fs \<Rightarrow> exn + fs" where
  "extract_safely a target fs =
     (case validate_archive_members a of
        Inl e \<Rightarrow> Inl e
      | Inr _ \<Rightarrow> (case mkdir_p target fs of
            Inl e \<Rightarrow> Inl e
          | Inr fs \<Rightarrow> (case resolve_path fs target of
              None \<Rightarrow> Inl OSError
            | Some root \<Rightarrow> if list_ex (escapes fs root) a then Inl (BackupRestoreError ''unsafe_archive'')
                else extract_all root a fs)))"

section \<open>Lookup after the operations\<close>

text \<open>Names of entries, and file systems without links in which every entry is in a directory.\<close>

definition good_name :: "string \<Rightarrow> bool" where
  "good_name c \<longleftrightarrow> c \<noteq> [] \<and> c \<noteq> ''.'' \<and> c \<noteq> ''..'' \<and> CHR ''/'' \<notin> set c"

definition plain_fs :: "fs \<Rightarrow> bool" where
  "plain_fs fs \<longleftrightarrow> (\<forall>p e. map_of fs p = Some e \<longrightarrow>
     p \<noteq> [] \<and> fs_get fs (butlast p) = Some EDir \<and> member_of e \<noteq> MLink \<and> list_all good_name p)"

lemma plain_fs_entries:
  "list_all (\<lambda>(p, e). p \<noteq> [] \<and> fs_get fs (butlast p) = Some EDir \<and> member_of e \<noteq> MLink \<and> list_all good_name p) fs \<Longrightarrow> plain_fs fs"
  by (auto simp: plain_fs_def list_all_iff dest!: map_of_SomeD)

named_theorems fs_simps

lemma fs_get_root [simp]: "fs_get fs [] = Some EDir"
  by (simp add: fs_get_def)

lemma fs_get_map: "p \<noteq> [] \<Longrightarrow> fs_get fs p = map_of fs p"
  by (simp add: fs_get_def)

lemma map_of_without [fs_simps]: "map_of (without p fs) q = (if prefix p q then None else map_of fs q)"
  by (induction fs) (auto simp: without_def)

lemma map_of_tree_of [fs_simps]: "map_of (tree_of p fs) q = map_of fs (p @ q)"
proof (induction fs)
  case (Cons x fs)
  obtain r e where x: "x = (r, e)" by fastforce
  show ?case
  proof (cases "prefix p r")
    case True
    then obtain s where "r = p @ s" by (auto simp: prefix_def)
    with Cons x show ?thesis by (simp add: tree_of_def)
  next
    case False
    then have "r \<noteq> p @ q" by auto
    with False Cons x show ?thesis by (simp add: tree_of_def)
  qed
qed (simp add: tree_of_def)

lemma map_of_prefixed: "map_of (map (\<lambda>(q, e). (p @ q, e)) t) q = (if prefix p q then map_of t (drop (length p) q) else None)"
  by (induction t) (auto simp: prefix_def)

lemma map_of_graft [fs_simps]:
  "map_of (graft p t fs) q = (if prefix p q then map_of t (drop (length p) q) else map_of fs q)"
  by (auto simp: graft_def map_add_def map_of_prefixed map_of_without split: option.split)

lemma map_of_move [fs_simps]:
  "map_of (move_tree a b fs) q =
     (if prefix b q then map_of fs (a @ drop (length b) q) else if prefix a q then None else map_of fs q)"
  by (simp add: move_tree_def map_of_graft map_of_tree_of map_of_without)

lemma fs_get_moved: "a \<noteq> [] \<Longrightarrow> b \<noteq> [] \<Longrightarrow> fs_get (move_tree a b fs) (b @ q) = fs_get fs (a @ q)"
  by (simp add: fs_get_def map_of_move)

lemma fs_get_not_moved: "\<not> prefix a q \<Longrightarrow> \<not> prefix b q \<Longrightarrow> fs_get (move_tree a b fs) q = fs_get fs q"
  by (simp add: fs_get_def map_of_move)

lemma fs_get_moved_away: "a \<noteq> [] \<Longrightarrow> \<not> prefix b a \<Longrightarrow> fs_get (move_tree a b fs) a = None"
  by (simp add: fs_get_def map_of_move)

lemma map_of_put [fs_simps]: "map_of (fs_put p e fs) q = (if q = p then Some e else map_of fs q)"
  by (simp add: fs_put_def update_conv')

lemma fs_get_put [simp]: "p \<noteq> [] \<Longrightarrow> fs_get (fs_put p e fs) q = (if q = p then Some e else fs_get fs q)"
  by (simp add: fs_get_def map_of_put)

lemma plain_get:
  assumes "plain_fs fs" "fs_get fs p = Some e"
  shows "member_of e \<noteq> MLink" "list_all good_name p" "p \<noteq> [] \<Longrightarrow> fs_get fs (butlast p) = Some EDir"
  using assms by (auto simp: plain_fs_def fs_get_def member_of_def split: if_splits)

lemma plain_no_link: "plain_fs fs \<Longrightarrow> fs_get fs p \<noteq> Some (ELink t)"
  using plain_get(1) [of fs p "ELink t"] by (auto simp: member_of_def)

lemma plain_parent:
  assumes "plain_fs fs" "fs_get fs (q @ r) \<noteq> None" "r \<noteq> []"
  shows "fs_get fs q = Some EDir"
  using assms(2,3)
proof (induction r rule: rev_induct)
  case (snoc c r)
  obtain e where "fs_get fs (q @ r @ [c]) = Some e" using snoc.prems(1) by auto
  then have "fs_get fs (q @ r) = Some EDir" using plain_get(3) [OF assms(1), of "q @ r @ [c]" e] by (simp add: butlast_append)
  with snoc.IH show ?case by (cases "r = []") auto
qed simp

lemma plain_prefix_dir: "plain_fs fs \<Longrightarrow> fs_get fs r = Some EDir \<Longrightarrow> prefix q r \<Longrightarrow> fs_get fs q = Some EDir"
  using plain_parent [of fs q] by (auto simp: prefix_def) (metis append_Nil2 option.distinct(1))

lemma good_not_up: "list_all good_name p \<Longrightarrow> ''..'' \<notin> set p"
  by (auto simp: list_all_iff good_name_def)

subsection \<open>Walking without links\<close>

lemma namei_plain_Cons:
  assumes "plain_fs fs" "c \<noteq> ''..''"
  shows "namei strict fs fuel dir (c # rest) =
    (if strict \<and> rest \<noteq> [] \<and> fs_get fs (dir @ [c]) \<noteq> Some EDir then None else namei strict fs fuel (dir @ [c]) rest)"
  using assms plain_no_link [OF assms(1), of "dir @ [c]"] by (auto split: option.split entry.split)

lemma namei_plain_SomeD:
  assumes "plain_fs fs" "''..'' \<notin> set p" "namei strict fs fuel dir p = Some r"
  shows "r = dir @ p"
  using assms(2,3)
proof (induction p arbitrary: dir)
  case (Cons c p)
  with Cons.IH [of "dir @ [c]"] show ?case
    by (auto simp: namei_plain_Cons [OF assms(1)] simp del: namei.simps(2) split: if_splits)
qed simp

lemma namei_lax_plain:
  assumes "plain_fs fs" "''..'' \<notin> set p"
  shows "namei False fs fuel dir p = Some (dir @ p)"
  using assms(2)
proof (induction p arbitrary: dir)
  case (Cons c p)
  with Cons.IH [of "dir @ [c]"] show ?case
    by (auto simp: namei_plain_Cons [OF assms(1)] simp del: namei.simps(2))
qed simp

lemma namei_strict_plain:
  assumes "plain_fs fs" "''..'' \<notin> set p" "p \<noteq> [] \<Longrightarrow> fs_get fs (dir @ butlast p) = Some EDir"
  shows "namei True fs fuel dir p = Some (dir @ p)"
  using assms(2,3)
proof (induction p arbitrary: dir)
  case (Cons c p)
  have "fs_get fs (dir @ [c]) = Some EDir" if "p \<noteq> []"
    using plain_parent [OF assms(1), of "dir @ [c]" "butlast p"] Cons.prems that by (cases "butlast p = []") auto
  moreover have "namei True fs fuel (dir @ [c]) p = Some ((dir @ [c]) @ p)"
    using Cons.IH [of "dir @ [c]"] Cons.prems by (auto split: if_splits)
  moreover have "c \<noteq> ''..''" using Cons.prems(1) by auto
  ultimately show ?case
    by (cases "p = []") (simp_all add: namei_plain_Cons [OF assms(1)] del: namei.simps(2))
qed simp

lemma locate_plain:
  assumes "plain_fs fs" "''..'' \<notin> set p"
  shows "locate fs p = Some r \<Longrightarrow> r = p" "p \<noteq> [] \<Longrightarrow> fs_get fs (butlast p) = Some EDir \<Longrightarrow> locate fs p = Some p"
    "fs_get fs p \<noteq> None \<Longrightarrow> locate fs p = Some p"
proof -
  show "locate fs p = Some r \<Longrightarrow> r = p"
    using namei_plain_SomeD [OF assms, of True 40 "[]" r] by (simp add: locate_def)
  show *: "p \<noteq> [] \<Longrightarrow> fs_get fs (butlast p) = Some EDir \<Longrightarrow> locate fs p = Some p"
    using namei_strict_plain [OF assms, of "[]" 40] by (simp add: locate_def)
  show "fs_get fs p \<noteq> None \<Longrightarrow> locate fs p = Some p"
    using * plain_get(3) [OF assms(1), of p] by (cases "p = []") (auto simp: locate_def)
qed

lemma stat_plain [fs_simps]:
  assumes "plain_fs fs" "''..'' \<notin> set p"
  shows "stat_at fs p = fs_get fs p"
proof (cases "fs_get fs p = None")
  case True
  then show ?thesis
    using locate_plain(1) [OF assms] by (cases "locate fs p") (auto simp: stat_at_def)
next
  case False
  then show ?thesis using locate_plain(3) [OF assms] by (simp add: stat_at_def)
qed

lemma exists_plain [fs_simps]: "plain_fs fs \<Longrightarrow> ''..'' \<notin> set p \<Longrightarrow> exists_at fs p \<longleftrightarrow> fs_get fs p \<noteq> None"
  by (simp add: exists_at_def stat_plain)

lemma is_dir_plain [fs_simps]: "plain_fs fs \<Longrightarrow> ''..'' \<notin> set p \<Longrightarrow> is_dir_at fs p \<longleftrightarrow> fs_get fs p = Some EDir"
  by (simp add: is_dir_at_def stat_plain)

lemma resolve_plain [fs_simps]: "plain_fs fs \<Longrightarrow> ''..'' \<notin> set p \<Longrightarrow> resolve_path fs p = Some p"
  using namei_lax_plain [of fs p 40 "[]"] by (simp add: resolve_path_def)

lemma entry_path_plain:
  assumes "plain_fs fs" "''..'' \<notin> set p" "entry_path fs p = Some q"
  shows "q = p \<and> p \<noteq> []"
proof -
  have "''..'' \<notin> set (butlast p)" using assms(2) by (metis in_set_butlastD)
  with assms locate_plain(1) [OF assms(1) this] show ?thesis
    by (auto simp: entry_path_def split: if_splits)
qed

lemma entry_path_dir:
  assumes "plain_fs fs" "''..'' \<notin> set p" "p \<noteq> []" "fs_get fs (butlast p) = Some EDir"
  shows "entry_path fs p = Some p"
proof -
  have "''..'' \<notin> set (butlast p)" "last p \<noteq> ''..''" using assms(2,3) by (metis in_set_butlastD, metis last_in_set)
  with assms locate_plain(3) [OF assms(1), of "butlast p"] show ?thesis by (simp add: entry_path_def)
qed

lemma lstat_plain [fs_simps]:
  assumes "plain_fs fs" "''..'' \<notin> set p"
  shows "lstat_at fs p = fs_get fs p"
  using entry_path_plain [OF assms] stat_plain [OF assms] by (auto simp: lstat_at_def split: option.split)

subsection \<open>The operations keep a plain file system plain\<close>

lemma plain_put:
  assumes "plain_fs fs" "p \<noteq> []" "fs_get fs (butlast p) = Some EDir" "member_of e \<noteq> MLink" "list_all good_name p"
    "e = EDir \<or> fs_get fs p \<noteq> Some EDir"
  shows "plain_fs (fs_put p e fs)"
  unfolding plain_fs_def
proof (intro allI impI)
  fix q f assume q: "map_of (fs_put p e fs) q = Some f"
  show "q \<noteq> [] \<and> fs_get (fs_put p e fs) (butlast q) = Some EDir \<and> member_of f \<noteq> MLink \<and> list_all good_name q"
  proof (cases "q = p")
    case True
    moreover have "butlast p \<noteq> p" using assms(2) by (metis append_butlast_last_id append_self_conv not_Cons_self2)
    ultimately show ?thesis using q assms by (simp add: map_of_put)
  next
    case False
    then have "map_of fs q = Some f" using q by (simp add: map_of_put)
    then have "q \<noteq> [] \<and> fs_get fs (butlast q) = Some EDir \<and> member_of f \<noteq> MLink \<and> list_all good_name q"
      using assms(1) by (simp add: plain_fs_def)
    with assms(2,6) show ?thesis by auto
  qed
qed

lemma plain_move:
  assumes "plain_fs fs" "\<not> prefix a b" "b \<noteq> []" "fs_get fs (butlast b) = Some EDir" "fs_get fs a \<noteq> None" "list_all good_name b"
  shows "plain_fs (move_tree a b fs)"
  unfolding plain_fs_def
proof (intro allI impI)
  fix q e assume q: "map_of (move_tree a b fs) q = Some e"
  have a: "a \<noteq> []" using assms(2) by auto
  show "q \<noteq> [] \<and> fs_get (move_tree a b fs) (butlast q) = Some EDir \<and> member_of e \<noteq> MLink \<and> list_all good_name q"
  proof (cases "prefix b q")
    case True
    then obtain s where s: "q = b @ s" by (auto simp: prefix_def)
    then have e: "fs_get fs (a @ s) = Some e" using q a by (simp add: map_of_move fs_get_map)
    have names: "list_all good_name q" using plain_get(2) [OF assms(1) e] assms(6) s by simp
    have "fs_get (move_tree a b fs) (butlast q) = Some EDir"
    proof (cases "s = []")
      case True
      have "\<not> prefix b (butlast b)" using assms(3) prefix_length_le [of b "butlast b"] by (cases b) auto
      moreover have "\<not> prefix a (butlast b)" using assms(2,3) by (metis append_butlast_last_id prefix_prefix)
      ultimately show ?thesis using True s assms(4) by (simp add: fs_get_def map_of_move split: if_splits)
    next
      case False
      then have "fs_get fs (a @ butlast s) = Some EDir" using plain_get(3) [OF assms(1) e] a by (simp add: butlast_append)
      then show ?thesis using False s a assms(3) by (simp add: fs_get_def map_of_move butlast_append)
    qed
    with names plain_get(1) [OF assms(1) e] s assms(3) show ?thesis by simp
  next
    case False
    then have e: "map_of fs q = Some e" and na: "\<not> prefix a q" using q by (auto simp: map_of_move split: if_splits)
    have p: "q \<noteq> []" "fs_get fs (butlast q) = Some EDir" "member_of e \<noteq> MLink" "list_all good_name q"
      using assms(1) e by (auto simp: plain_fs_def)
    have "\<not> prefix b (butlast q)" "\<not> prefix a (butlast q)" using False na p(1)
      by (metis append_butlast_last_id prefix_prefix)+
    then show ?thesis using p by (simp add: fs_get_def map_of_move split: if_splits)
  qed
qed

lemma plain_without:
  assumes "plain_fs fs"
  shows "plain_fs (without p fs)"
  unfolding plain_fs_def
proof (intro allI impI)
  fix q e assume q: "map_of (without p fs) q = Some e"
  then have e: "map_of fs q = Some e" and n: "\<not> prefix p q" by (auto simp: map_of_without split: if_splits)
  have p: "q \<noteq> []" "fs_get fs (butlast q) = Some EDir" "member_of e \<noteq> MLink" "list_all good_name q"
    using assms(1) e by (auto simp: plain_fs_def)
  have "\<not> prefix p (butlast q)" using n p(1) by (metis append_butlast_last_id prefix_prefix)
  then show "q \<noteq> [] \<and> fs_get (without p fs) (butlast q) = Some EDir \<and> member_of e \<noteq> MLink \<and> list_all good_name q"
    using p by (simp add: fs_get_def map_of_without split: if_splits)
qed

lemma os_replace_InrD:
  assumes "plain_fs fs" "list_all good_name src" "list_all good_name dst" "os_replace src dst fs = Inr fs'"
  shows "src \<noteq> [] \<and> dst \<noteq> [] \<and> fs_get fs src \<noteq> None \<and> fs_get fs (butlast dst) = Some EDir \<and>
    (src = dst \<and> fs' = fs \<or> \<not> prefix src dst \<and> \<not> prefix dst src \<and> fs' = move_tree src dst fs)"
proof -
  obtain a b where ab: "entry_path fs src = Some a" "entry_path fs dst = Some b"
    using assms(4) by (auto simp: os_replace_def split: option.splits)
  then have "a = src" "src \<noteq> []" "b = dst" "dst \<noteq> []"
    using entry_path_plain [OF assms(1) good_not_up] assms(2,3) by auto
  with ab assms(4) show ?thesis by (auto simp: os_replace_def split: if_splits)
qed

lemma plain_os_replace:
  assumes "plain_fs fs" "list_all good_name src" "list_all good_name dst" "os_replace src dst fs = Inr fs'"
  shows "plain_fs fs'"
  using os_replace_InrD [OF assms] assms(1,3) plain_move by auto

subsection \<open>Unpacking\<close>

lemma prefixes_mem: "q \<in> set (prefixes p) \<longleftrightarrow> prefix q p"
  by (simp add: in_set_prefixes)

lemma make_dirs_fold:
  "(\<And>q. q \<in> set qs \<Longrightarrow> fs_get fs q \<in> {None, Some EDir}) \<Longrightarrow>
   fs_get (fold (\<lambda>q fs. if fs_get fs q = None then fs_put q EDir fs else fs) qs fs) p =
     (if p \<in> set qs then Some EDir else fs_get fs p)"
proof (induction qs arbitrary: fs)
  case (Cons q qs)
  let ?fs = "if fs_get fs q = None then fs_put q EDir fs else fs"
  have step: "fs_get ?fs r = (if r = q then Some EDir else fs_get fs r)" for r
    using Cons.prems [of q] by (cases "q = []") auto
  have "fs_get (fold (\<lambda>q fs. if fs_get fs q = None then fs_put q EDir fs else fs) qs ?fs) p =
      (if p \<in> set qs then Some EDir else fs_get ?fs p)"
    using Cons.prems by (intro Cons.IH) (simp add: step)
  then show ?case by (simp add: step)
qed simp

lemma make_dirs_InrD:
  assumes "make_dirs p fs = Inr fs'"
  shows "fs_get fs' q = (if prefix q p then Some EDir else fs_get fs q)"
    and "prefix q p \<Longrightarrow> fs_get fs q \<in> {None, Some EDir}"
proof -
  have *: "\<And>q. q \<in> set (prefixes p) \<Longrightarrow> fs_get fs q \<in> {None, Some EDir}"
    and fs': "fs' = fold (\<lambda>q fs. if fs_get fs q = None then fs_put q EDir fs else fs) (prefixes p) fs"
    using assms by (auto simp: make_dirs_def list_all_iff split: if_splits)
  then show "prefix q p \<Longrightarrow> fs_get fs q \<in> {None, Some EDir}" by simp
  show "fs_get fs' q = (if prefix q p then Some EDir else fs_get fs q)"
    unfolding fs' using make_dirs_fold [of "prefixes p" fs q, OF *] by simp
qed

lemma plain_fold_dirs:
  "plain_fs fs \<Longrightarrow> list_all good_name p \<Longrightarrow> (\<And>q. prefix q p \<Longrightarrow> fs_get fs q \<in> {None, Some EDir}) \<Longrightarrow>
   plain_fs (fold (\<lambda>q fs. if fs_get fs q = None then fs_put q EDir fs else fs) (prefixes p) fs)"
proof (induction p rule: rev_induct)
  case (snoc c p)
  let ?g = "\<lambda>q fs. if fs_get fs q = None then fs_put q EDir fs else fs"
  let ?fs = "fold ?g (prefixes p) fs"
  have ok: "\<And>q. q \<in> set (prefixes p) \<Longrightarrow> fs_get fs q \<in> {None, Some EDir}" using snoc.prems(3) by auto
  have "plain_fs ?fs" using snoc by auto
  moreover have "fs_get ?fs p = Some EDir" using make_dirs_fold [of "prefixes p" fs p, OF ok] by simp
  ultimately have "plain_fs (?g (p @ [c]) ?fs)"
    using snoc.prems(2) by (auto intro!: plain_put simp: member_of_def)
  then show ?case by (simp add: prefixes_snoc)
qed simp

lemma plain_make_dirs:
  assumes "plain_fs fs" "list_all good_name p" "make_dirs p fs = Inr fs'"
  shows "plain_fs fs'"
  using plain_fold_dirs [OF assms(1,2)] make_dirs_InrD(2) [OF assms(3)] assms(3)
  by (auto simp: make_dirs_def split: if_splits)

definition member_entry :: "member \<Rightarrow> entry" where
  "member_entry m = (case m of MFile d \<Rightarrow> EFile d | _ \<Rightarrow> EDir)"

text \<open>After one member: it is there, its directories are there, and the rest is as it was.\<close>

lemma put_member_InrD:
  assumes "put_member p m fs = Inr fs'"
  shows "fs_get fs' q = (if q = p then Some (member_entry m) else if prefix q p then Some EDir else fs_get fs q)"
    and "strict_prefix q p \<Longrightarrow> fs_get fs q \<in> {None, Some EDir}"
    and "fs_get fs p = Some EDir \<Longrightarrow> m = MDir" and "m \<noteq> MLink"
    and "m = MDir \<Longrightarrow> fs_get fs p \<in> {None, Some EDir}"
proof -
  have "(\<forall>q. fs_get fs' q = (if q = p then Some (member_entry m) else if prefix q p then Some EDir else fs_get fs q)) \<and>
      (\<forall>q. strict_prefix q p \<longrightarrow> fs_get fs q \<in> {None, Some EDir}) \<and> (fs_get fs p = Some EDir \<longrightarrow> m = MDir) \<and> m \<noteq> MLink \<and>
      (m = MDir \<longrightarrow> fs_get fs p \<in> {None, Some EDir})"
  proof (cases m)
    case MDir
    then have "make_dirs p fs = Inr fs'" using assms by (simp add: put_member_def)
    note make_dirs_InrD [OF this]
    then show ?thesis using MDir by (simp add: member_entry_def strict_prefix_def)
  next
    case (MFile d)
    obtain fs1 where fs1: "make_dirs (butlast p) fs = Inr fs1" "fs_get fs1 p \<noteq> Some EDir" "fs' = fs_put p (EFile d) fs1"
      using assms MFile unfolding put_member_def by (auto split: sum.splits if_splits)
    have p: "p \<noteq> []" using fs1(2) by auto
    then have pre: "prefix q (butlast p) \<longleftrightarrow> prefix q p \<and> q \<noteq> p" for q
      by (cases p rule: rev_cases) (auto simp: prefix_snoc dest: prefix_length_le)
    note g = make_dirs_InrD [OF fs1(1)]
    have 1: "fs_get fs' q = (if q = p then Some (member_entry m) else if prefix q p then Some EDir else fs_get fs q)" for q
      using g(1) [of q] fs1(3) p MFile pre [of q] by (simp add: member_entry_def)
    have 2: "fs_get fs q \<in> {None, Some EDir}" if "strict_prefix q p" for q
      using g(2) [of q] pre [of q] that by (simp add: strict_prefix_def)
    have 3: "fs_get fs p \<noteq> Some EDir" using fs1(2) g(1) [of p] pre [of p] by simp
    from 1 2 3 MFile show ?thesis by blast
  next
    case MLink
    then show ?thesis using assms by (simp add: put_member_def)
  qed
  then show "fs_get fs' q = (if q = p then Some (member_entry m) else if prefix q p then Some EDir else fs_get fs q)"
    "strict_prefix q p \<Longrightarrow> fs_get fs q \<in> {None, Some EDir}" "fs_get fs p = Some EDir \<Longrightarrow> m = MDir" "m \<noteq> MLink"
    "m = MDir \<Longrightarrow> fs_get fs p \<in> {None, Some EDir}"
    by auto
qed

lemma path_parts_names: "''..'' \<notin> set (path_parts n) \<Longrightarrow> list_all good_name (path_parts n)"
  using py_split_parts_free [of "CHR ''/''" n] by (auto simp: path_parts_def good_name_def list_all_iff)

lemma plain_put_member:
  assumes "plain_fs fs" "list_all good_name p" "put_member p m fs = Inr fs'"
  shows "plain_fs fs'"
proof (cases m)
  case (MFile d)
  obtain fs1 where fs1: "make_dirs (butlast p) fs = Inr fs1" "fs_get fs1 p \<noteq> Some EDir" "fs' = fs_put p (EFile d) fs1"
    using assms(3) MFile unfolding put_member_def by (auto split: sum.splits if_splits)
  have "p \<noteq> []" using fs1(2) by auto
  moreover have "list_all good_name (butlast p)" using assms(2) by (metis append_butlast_last_id butlast.simps(1) list_all_append)
  ultimately show ?thesis
    using plain_make_dirs [OF assms(1) _ fs1(1)] make_dirs_InrD(1) [OF fs1(1), of "butlast p"] fs1(2,3) assms(2)
    by (auto intro!: plain_put simp: member_of_def)
qed (use assms plain_make_dirs in \<open>auto simp: put_member_def\<close>)

text \<open>An archive whose members have relative names without \<open>..\<close>.\<close>

definition inner_names :: "archive \<Rightarrow> bool" where
  "inner_names a \<longleftrightarrow> (\<forall>(n, m) \<in> set a. \<not> is_absolute n \<and> ''..'' \<notin> set (path_parts n))"

lemma inner_Cons: "inner_names ((n, m) # a) \<longleftrightarrow> \<not> is_absolute n \<and> ''..'' \<notin> set (path_parts n) \<and> inner_names a"
  by (simp add: inner_names_def)

lemma extract_member_plain:
  assumes "plain_fs fs" "list_all good_name target" "\<not> is_absolute n" "''..'' \<notin> set (path_parts n)"
  shows "extract_member target (n, m) fs = put_member (target @ path_parts n) m fs"
  using resolve_plain [OF assms(1), of "target @ path_parts n"] good_not_up [OF assms(2)] assms(3,4)
  by (simp add: extract_member_def join_path_def)

text \<open>Unpacking one member after the other.\<close>

lemma extract_all_cases:
  assumes "extract_all target ((n, m) # a) fs = Inr fs'" "plain_fs fs" "list_all good_name target" "inner_names ((n, m) # a)"
  obtains fs1 where "put_member (target @ path_parts n) m fs = Inr fs1" "extract_all target a fs1 = Inr fs'"
    "plain_fs fs1" "inner_names a"
  using assms extract_member_plain [OF assms(2,3), of n m] path_parts_names [of n]
    plain_put_member [OF assms(2), of "target @ path_parts n" m]
  by (auto simp: inner_Cons split: sum.splits)

lemma extract_all_keeps:
  assumes "extract_all target a fs = Inr fs'" "plain_fs fs" "list_all good_name target" "inner_names a"
  shows "fs_get fs q = Some EDir \<Longrightarrow> fs_get fs' q = Some EDir"
    and "fs_get fs q = Some (EFile d) \<Longrightarrow> (\<forall>(n, m) \<in> set a. target @ path_parts n = q \<longrightarrow> m = MFile d) \<Longrightarrow>
      fs_get fs' q = Some (EFile d)"
    and "(\<forall>(n, m) \<in> set a. \<not> prefix q (target @ path_parts n)) \<Longrightarrow> fs_get fs' q = fs_get fs q"
    and "plain_fs fs'"
proof -
  have *: "(fs_get fs q = Some EDir \<longrightarrow> fs_get fs' q = Some EDir) \<and>
    (fs_get fs q = Some (EFile d) \<longrightarrow> (\<forall>(n, m) \<in> set a. target @ path_parts n = q \<longrightarrow> m = MFile d) \<longrightarrow>
      fs_get fs' q = Some (EFile d)) \<and>
    ((\<forall>(n, m) \<in> set a. \<not> prefix q (target @ path_parts n)) \<longrightarrow> fs_get fs' q = fs_get fs q) \<and> plain_fs fs'"
    using assms(1,2,4)
  proof (induction a arbitrary: fs)
    case (Cons x a)
    obtain n m where x: "x = (n, m)" by fastforce
    obtain fs1 where fs1: "put_member (target @ path_parts n) m fs = Inr fs1" "extract_all target a fs1 = Inr fs'"
      "plain_fs fs1" "inner_names a"
      by (rule extract_all_cases [OF Cons.prems(1) [unfolded x] Cons.prems(2) assms(3) Cons.prems(3) [unfolded x]])
    note s = put_member_InrD [OF fs1(1)]
    have "fs_get fs q = Some EDir \<Longrightarrow> fs_get fs1 q = Some EDir"
      using s(1) [of q] s(3) by (auto simp: member_entry_def)
    moreover have "fs_get fs q = Some (EFile d) \<Longrightarrow> (target @ path_parts n = q \<Longrightarrow> m = MFile d) \<Longrightarrow> fs_get fs1 q = Some (EFile d)"
      using s(1) [of q] s(2) [of q] by (auto simp: member_entry_def strict_prefix_def)
    moreover have "\<not> prefix q (target @ path_parts n) \<Longrightarrow> fs_get fs1 q = fs_get fs q"
      using s(1) [of q] by (auto simp del: prefix_order.order_refl)
    ultimately show ?case using Cons.IH [OF fs1(2,3,4)] unfolding x
      by (simp only: list.set ball_simps prod.case) (intro conjI impI; elim conjE; simp)
  qed simp
  show "fs_get fs q = Some EDir \<Longrightarrow> fs_get fs' q = Some EDir" by (rule mp [OF conjunct1 [OF *]])
  show "fs_get fs q = Some (EFile d) \<Longrightarrow> (\<forall>(n, m) \<in> set a. target @ path_parts n = q \<longrightarrow> m = MFile d) \<Longrightarrow>
      fs_get fs' q = Some (EFile d)" by (rule mp [OF mp [OF conjunct1 [OF conjunct2 [OF *]]]])
  show "(\<forall>(n, m) \<in> set a. \<not> prefix q (target @ path_parts n)) \<Longrightarrow> fs_get fs' q = fs_get fs q"
    by (rule mp [OF conjunct1 [OF conjunct2 [OF conjunct2 [OF *]]]])
  show "plain_fs fs'" by (rule conjunct2 [OF conjunct2 [OF conjunct2 [OF *]]])
qed

lemma extract_all_member:
  assumes "extract_all target a fs = Inr fs'" "plain_fs fs" "list_all good_name target" "inner_names a" "(n, m) \<in> set a"
    and "\<And>n' m'. (n', m') \<in> set a \<Longrightarrow> path_parts n' = path_parts n \<Longrightarrow> m' = m"
  shows "fs_get fs' (target @ path_parts n) = Some (member_entry m)"
  using assms(1,2,4,5,6)
proof (induction a arbitrary: fs)
  case (Cons x ms)
  obtain n1 m1 where x: "x = (n1, m1)" by fastforce
  obtain fs1 where fs1: "put_member (target @ path_parts n1) m1 fs = Inr fs1" "extract_all target ms fs1 = Inr fs'"
    "plain_fs fs1" "inner_names ms"
    by (rule extract_all_cases [OF Cons.prems(1) [unfolded x] Cons.prems(2) assms(3) Cons.prems(3) [unfolded x]])
  show ?case
  proof (cases "(n, m) \<in> set ms")
    case True
    show ?thesis by (rule Cons.IH [OF fs1(2,3,4) True]) (use Cons.prems(5) x in auto)
  next
    case False
    then have nm: "n1 = n" "m1 = m" using Cons.prems(4) x by auto
    let ?p = "target @ path_parts n"
    have e: "fs_get fs1 ?p = Some (member_entry m)"
      using put_member_InrD(1) [OF fs1(1), of ?p] nm by simp
    have "m \<noteq> MLink" using put_member_InrD(4) [OF fs1(1)] nm by simp
    then consider "m = MDir" | d where "m = MFile d" by (cases m) auto
    then show ?thesis
    proof cases
      case 1
      with e extract_all_keeps(1) [OF fs1(2,3) assms(3) fs1(4), of ?p] show ?thesis by (simp add: member_entry_def)
    next
      case (2 d)
      have "\<forall>(n', m') \<in> set ms. target @ path_parts n' = ?p \<longrightarrow> m' = MFile d" using Cons.prems(5) 2 x by auto
      with 2 e extract_all_keeps(2) [OF fs1(2,3) assms(3) fs1(4), of ?p d] show ?thesis by (simp add: member_entry_def)
    qed
  qed
qed simp

subsection \<open>What an archive of a directory unpacks to\<close>

lemma py_split_append: "py_split c (a @ c # b) = py_split c a @ py_split c b"
proof (induction a)
  case (Cons x a)
  then show ?case by (cases "py_split c a") auto
qed simp

lemma path_parts_append: "path_parts (a @ CHR ''/'' # b) = path_parts a @ path_parts b"
  by (simp add: path_parts_def py_split_append)

lemma path_parts_join:
  assumes "list_all good_name rel"
  shows "path_parts (py_join CHR ''/'' rel) = rel"
proof (cases "rel = []")
  case False
  have "\<forall>p \<in> set rel. CHR ''/'' \<notin> set p" using assms by (simp add: list_all_iff good_name_def)
  from py_split_join [OF False this] show ?thesis
    using assms by (auto simp: path_parts_def list_all_iff good_name_def intro!: filter_True)
qed (simp add: path_parts_def)

lemma tree_mem: "(rel, e) \<in> set (tree_of p fs) \<longleftrightarrow> (p @ rel, e) \<in> set fs"
  by (force simp: tree_of_def prefix_def image_iff)

lemma add_to_tar_dir:
  assumes "plain_fs fs" "distinct (map fst fs)" "list_all good_name src" "fs_get fs src = Some EDir" "last arc \<noteq> CHR ''/''" "arc \<noteq> []"
  shows "(n, m) \<in> set (add_to_tar fs src arc) \<longleftrightarrow>
    n = arc \<and> m = MDir \<or> (\<exists>rel e. rel \<noteq> [] \<and> fs_get fs (src @ rel) = Some e \<and> m = member_of e \<and>
      n = arc @ ''/'' @ py_join CHR ''/'' rel)"
proof -
  have src: "''..'' \<notin> set src" "locate fs src = Some src"
    using locate_plain(3) [OF assms(1) good_not_up [OF assms(3)]] assms(4) good_not_up [OF assms(3)] by auto
  have arc: "rstrip_where (\<lambda>c. c = CHR ''/'') arc = arc"
    using assms(5,6) by (cases arc rule: rev_cases) (auto simp: rstrip_where_def)
  have tree: "(rel, e) \<in> set (rglob fs src) \<longleftrightarrow> rel \<noteq> [] \<and> fs_get fs (src @ rel) = Some e" for rel e
    using src(2) assms(2) by (auto simp: rglob_def tree_mem fs_get_def)
  have "tar_add fs src arc = [(arc, MDir)]"
    using assms(4) lstat_plain [OF assms(1) src(1)] arc by (simp add: tar_add_def member_of_def tar_name_def)
  moreover have "\<not> is_file_at fs src"
    using assms(4) is_dir_plain [OF assms(1) src(1)] by (simp add: is_file_at_def)
  ultimately show ?thesis
    using plain_get(1) [OF assms(1)] by (fastforce simp: add_to_tar_def image_iff tree)
qed

lemma extracted_directory:
  assumes fs: "plain_fs fs" "distinct (map fst fs)" "list_all good_name src" "fs_get fs src = Some EDir"
    and arc: "last arc \<noteq> CHR ''/''" "arc \<noteq> []"
    and rest: "\<And>n m. (n, m) \<in> set rest \<Longrightarrow> \<not> prefix (path_parts arc) (path_parts n)"
    and x: "extract_all target (add_to_tar fs src arc @ rest) fs1 = Inr fs2"
    and fs1: "plain_fs fs1" "list_all good_name target" "inner_names (add_to_tar fs src arc @ rest)"
    and fresh: "\<And>q. fs_get fs1 (target @ path_parts arc @ q) = None"
  shows "fs_get fs2 (target @ path_parts arc @ rel) = fs_get fs (src @ rel)"
proof -
  note tar = add_to_tar_dir [OF fs arc]
  have names: "list_all good_name r" if "fs_get fs (src @ r) = Some e" for r e
    using plain_get(2) [OF fs(1) that] by simp
  have parts: "path_parts (arc @ ''/'' @ py_join CHR ''/'' r) = path_parts arc @ r" if "fs_get fs (src @ r) = Some e" for r e
    using path_parts_append path_parts_join [OF names [OF that]] by simp
  have mem: "\<exists>r e. path_parts n = path_parts arc @ r \<and> fs_get fs (src @ r) = Some e \<and> m = member_of e"
    if "(n, m) \<in> set (add_to_tar fs src arc)" for n m
    using that fs(4) parts unfolding tar by (fastforce simp: member_of_def)
  show ?thesis
  proof (cases "fs_get fs (src @ rel)")
    case None
    have "\<not> prefix (target @ path_parts arc @ rel) (target @ path_parts n)"
      if nm: "(n, m) \<in> set (add_to_tar fs src arc @ rest)" for n m
    proof
      assume pre: "prefix (target @ path_parts arc @ rel) (target @ path_parts n)"
      then have "(n, m) \<in> set (add_to_tar fs src arc)" using nm rest [of n m] by (auto simp: prefix_def)
      then obtain r e where r: "path_parts n = path_parts arc @ r" "fs_get fs (src @ r) = Some e" using mem by blast
      with pre obtain t where "r = rel @ t" by (auto simp: prefix_def)
      with r(2) None plain_parent [OF fs(1), of "src @ rel" t] show False by (cases t) auto
    qed
    with extract_all_keeps(3) [OF x fs1, of "target @ path_parts arc @ rel"] fresh [of rel] None show ?thesis by auto
  next
    case (Some e)
    define n where "n = (if rel = [] then arc else arc @ ''/'' @ py_join CHR ''/'' rel)"
    have n: "(n, member_of e) \<in> set (add_to_tar fs src arc)" "path_parts n = path_parts arc @ rel"
      using Some fs(4) parts [OF Some] by (auto simp: tar n_def member_of_def)
    have "fs_get fs2 (target @ path_parts n) = Some (member_entry (member_of e))"
    proof (rule extract_all_member [OF x fs1])
      show "(n, member_of e) \<in> set (add_to_tar fs src arc @ rest)" using n(1) by simp
      fix n' m' assume *: "(n', m') \<in> set (add_to_tar fs src arc @ rest)" "path_parts n' = path_parts n"
      then have "(n', m') \<in> set (add_to_tar fs src arc)" using rest [of n' m'] n(2) by auto
      from mem [OF this] *(2) n(2) Some show "m' = member_of e" by auto
    qed
    then have "fs_get fs2 (target @ path_parts arc @ rel) = Some (member_entry (member_of e))" using n(2) by simp
    moreover have "member_entry (member_of e) = e"
      using plain_get(1) [OF fs(1) Some] by (cases e) (simp_all add: member_entry_def member_of_def)
    ultimately show ?thesis using Some by simp
  qed
qed

text \<open>An archive the checks let pass has inner names and no links.\<close>

lemma validated:
  assumes "validate_archive_members a = Inr u"
  shows "inner_names a" "(n, m) \<in> set a \<Longrightarrow> m \<noteq> MLink" "has_world a"
  using assms
  by (auto simp: validate_archive_members_def inner_names_def unsafe_member_def list_ex_iff list_all_iff split: if_splits)

lemma extract_safely_plain:
  assumes "extract_safely a target fs = Inr fs'" "plain_fs fs" "list_all good_name target"
  obtains fs1 where "make_dirs target fs = Inr fs1" "extract_all target a fs1 = Inr fs'" "plain_fs fs1" "inner_names a" "plain_fs fs'"
proof -
  have up: "''..'' \<notin> set target" using good_not_up [OF assms(3)] .
  obtain u fs1 where u: "validate_archive_members a = Inr u" "make_dirs target fs = Inr fs1"
    using assms(1) resolve_plain [OF assms(2) up] by (auto simp: extract_safely_def mkdir_p_def split: sum.splits)
  have fs1: "plain_fs fs1" using plain_make_dirs [OF assms(2,3) u(2)] .
  have x: "extract_all target a fs1 = Inr fs'"
    using assms(1) u resolve_plain [OF assms(2) up] resolve_plain [OF fs1 up]
    by (auto simp: extract_safely_def mkdir_p_def split: if_splits)
  show ?thesis
    by (rule that [OF u(2) x fs1 validated(1) [OF u(1)] extract_all_keeps(4) [OF x fs1 assms(3) validated(1) [OF u(1)]]])
qed

subsection \<open>What stays outside a directory\<close>

definition same_outside :: "path \<Rightarrow> fs \<Rightarrow> fs \<Rightarrow> bool" where
  "same_outside p fs fs' \<longleftrightarrow> (\<forall>q. \<not> prefix p q \<longrightarrow> fs_get fs' q = fs_get fs q)"

lemma same_outsideD: "same_outside p fs fs' \<Longrightarrow> \<not> prefix p q \<Longrightarrow> fs_get fs' q = fs_get fs q"
  by (simp add: same_outside_def)

lemma same_outside_trans: "same_outside p fs fs' \<Longrightarrow> same_outside p fs' fs'' \<Longrightarrow> same_outside p fs fs''"
  by (simp add: same_outside_def)

lemma same_outside_mono: "same_outside p fs fs' \<Longrightarrow> prefix r p \<Longrightarrow> same_outside r fs fs'"
  unfolding same_outside_def by (meson prefix_order.trans)

lemma fs_get_without: "fs_get (without p fs) q = (if q \<noteq> [] \<and> prefix p q then None else fs_get fs q)"
  by (simp add: fs_get_def map_of_without)

lemma good_butlast: "list_all good_name p \<Longrightarrow> list_all good_name (butlast p)"
  by (auto simp: list_all_iff dest: in_set_butlastD)

lemma plain_safe_rmtree: "plain_fs fs \<Longrightarrow> plain_fs (safe_rmtree p fs)"
  by (auto simp: safe_rmtree_def Let_def plain_without split: option.split)

lemma safe_rmtree_sub: "fs_get (safe_rmtree p fs) q = Some e \<Longrightarrow> fs_get fs q = Some e"
  by (auto simp: safe_rmtree_def Let_def fs_get_without split: option.splits if_splits)

lemma safe_rmtree_outside:
  assumes "plain_fs fs" "list_all good_name p" "p \<noteq> []"
  shows "same_outside (butlast p) fs (safe_rmtree p fs)"
proof -
  have e: "q = p" if "entry_path fs p = Some q" for q using entry_path_plain [OF assms(1) good_not_up [OF assms(2)] that] by simp
  have l: "d = butlast p" if "locate g (butlast p) = Some d" "plain_fs g" for d g
    by (rule locate_plain(1) [OF that(2) good_not_up [OF good_butlast [OF assms(2)]] that(1)])
  have pre: "\<not> prefix p q" if "\<not> prefix (butlast p) q" for q
    using that assms(3) by (metis append_butlast_last_id append_prefixD)
  show ?thesis
    using assms(1) e l [where g = fs] l [where g = "without p fs", OF _ plain_without [OF assms(1)]] pre
    by (auto simp: same_outside_def safe_rmtree_def Let_def fs_get_without split: option.split)
qed

lemma safe_rmtree_keep:
  assumes "plain_fs fs" "list_all good_name p" "\<not> prefix p q" "q \<noteq> butlast p"
  shows "fs_get (safe_rmtree p fs) q = fs_get fs q"
proof -
  define g where "g = (case entry_path fs p of None \<Rightarrow> fs | Some q \<Rightarrow> if fs_get fs q = Some EDir then without q fs else fs)"
  have pl: "plain_fs g" using plain_without [OF assms(1)] assms(1) by (simp add: g_def split: option.split)
  have g: "fs_get g q = fs_get fs q"
    using entry_path_plain [OF assms(1) good_not_up [OF assms(2)]] assms(3)
    by (auto simp: g_def fs_get_without split: option.split)
  have "fs_get (without d g) q = fs_get g q" if d: "locate g (butlast p) = Some d" "rglob g d = []" for d
  proof (cases "q \<noteq> [] \<and> prefix d q")
    case True
    have eq: "d = butlast p" by (rule locate_plain(1) [OF pl good_not_up [OF good_butlast [OF assms(2)]] d(1)])
    then obtain r where r: "q = d @ r" "r \<noteq> []" using True assms(4) by (auto simp: prefix_def)
    have "locate g d = Some d" using d(1) eq by simp
    then have "(r, e) \<notin> set (tree_of d g)" for e using d(2) r(2) by (auto simp: rglob_def filter_empty_conv)
    then have "map_of (tree_of d g) r = None" by (meson map_of_SomeD not_None_eq)
    then show ?thesis using r True by (simp add: map_of_tree_of fs_get_def map_of_without)
  qed (auto simp: fs_get_without)
  with g show ?thesis
    unfolding safe_rmtree_def g_def [symmetric] Let_def by (auto split: option.split)
qed

lemma mkdir_plain:
  assumes "plain_fs fs" "list_all good_name p" "mkdir_p p fs = Inr fs'"
  shows "plain_fs fs'" "make_dirs p fs = Inr fs'" "fs_get fs' p = Some EDir"
    "fs_get fs r = Some EDir \<Longrightarrow> prefix r p \<Longrightarrow> q \<noteq> p \<Longrightarrow> prefix p q \<or> \<not> prefix q p \<or> prefix q r \<Longrightarrow> fs_get fs' q = fs_get fs q"
proof -
  show m: "make_dirs p fs = Inr fs'"
    using assms(3) resolve_plain [OF assms(1) good_not_up [OF assms(2)]] by (simp add: mkdir_p_def)
  then show "plain_fs fs'" by (rule plain_make_dirs [OF assms(1,2)])
  show "fs_get fs' p = Some EDir" using make_dirs_InrD(1) [OF m, of p] by simp
  assume r: "fs_get fs r = Some EDir" "prefix r p" "q \<noteq> p" "prefix p q \<or> \<not> prefix q p \<or> prefix q r"
  have "fs_get fs q = Some EDir" if "prefix q r"
    by (rule plain_prefix_dir [OF assms(1) r(1) that])
  with r(3,4) make_dirs_InrD(1) [OF m, of q] show "fs_get fs' q = fs_get fs q"
    by (auto dest: prefix_order.antisym)
qed

lemma mkdir_outside:
  assumes "plain_fs fs" "list_all good_name p" "mkdir_p p fs = Inr fs'" "fs_get fs r = Some EDir" "prefix (r @ [c]) p"
  shows "same_outside (r @ [c]) fs fs'"
proof (unfold same_outside_def, intro allI impI)
  fix q assume q: "\<not> prefix (r @ [c]) q"
  have r: "prefix r p" using assms(5) by (auto simp: prefix_def)
  have "prefix q r" if "prefix q p"
    using that prefix_same_cases [OF that assms(5)] q by (auto simp: prefix_snoc)
  moreover have "q \<noteq> p" "\<not> prefix p q" using q assms(5) prefix_order.trans by blast+
  ultimately show "fs_get fs' q = fs_get fs q" by (intro mkdir_plain(4) [OF assms(1,2,3,4) r]) auto
qed

lemma rmtree_below:
  assumes "plain_fs fs" "list_all good_name p" "p \<noteq> []" "q \<noteq> []"
  shows "fs_get (safe_rmtree p fs) (p @ q) = None"
proof (cases "fs_get fs p = Some EDir")
  case True
  have up: "''..'' \<notin> set p" using good_not_up [OF assms(2)] .
  have "entry_path fs p = Some p" "exists_at fs p"
    using entry_path_dir [OF assms(1) up assms(3) plain_get(3) [OF assms(1) True assms(3)]] True
    by (simp_all add: exists_plain [OF assms(1) up])
  with True assms(3) show ?thesis by (auto simp: safe_rmtree_def Let_def fs_get_without split: option.split)
next
  case False
  have "fs_get fs (p @ q) = None"
    using plain_parent [OF assms(1), of p q] False assms(4) by (cases "fs_get fs (p @ q)") auto
  then show ?thesis using safe_rmtree_sub [of p fs "p @ q"] by (cases "fs_get (safe_rmtree p fs) (p @ q)") auto
qed

lemma fresh_dir:
  assumes "plain_fs fs" "list_all good_name p" "p \<noteq> []" "mkdir_p p (safe_rmtree p fs) = Inr fs'" "q \<noteq> []"
  shows "fs_get fs' (p @ q) = None"
  using make_dirs_InrD(1) [OF mkdir_plain(2) [OF plain_safe_rmtree [OF assms(1)] assms(2,4)], of "p @ q"]
    rmtree_below [OF assms(1,2,3,5)] assms(5) by (simp add: prefix_def)

lemma extract_elsewhere:
  assumes "extract_safely a target fs = Inr fs'" "plain_fs fs" "list_all good_name target"
  shows "plain_fs fs'" "\<not> prefix target q \<Longrightarrow> \<not> prefix q target \<Longrightarrow> fs_get fs' q = fs_get fs q"
proof -
  obtain fs1 where fs1: "make_dirs target fs = Inr fs1" "extract_all target a fs1 = Inr fs'" "plain_fs fs1" "inner_names a" "plain_fs fs'"
    by (rule extract_safely_plain [OF assms])
  show "plain_fs fs'" by (rule fs1(5))
  assume q: "\<not> prefix target q" "\<not> prefix q target"
  then have "\<forall>(n, m) \<in> set a. \<not> prefix q (target @ path_parts n)"
    using prefix_same_cases [of q "target @ _" target] by (auto simp del: append_prefixD)
  from extract_all_keeps(3) [OF fs1(2,3) assms(3) fs1(4) this] make_dirs_InrD(1) [OF fs1(1), of q] q(2)
  show "fs_get fs' q = fs_get fs q" by simp
qed

lemma extract_outside:
  assumes "plain_fs fs" "list_all good_name target" "fs_get fs target = Some EDir" "extract_safely a target fs = Inr fs'"
  shows "same_outside target fs fs'" "plain_fs fs'" "inner_names a" "extract_all target a fs = Inr fs'"
proof -
  obtain fs1 where fs1: "make_dirs target fs = Inr fs1" "extract_all target a fs1 = Inr fs'" "plain_fs fs1" "inner_names a" "plain_fs fs'"
    by (rule extract_safely_plain [OF assms(4,1,2)])
  have dirs: "fs_get fs q = Some EDir" if "prefix q target" for q
    by (rule plain_prefix_dir [OF assms(1,3) that])
  have "fold (\<lambda>q fs. if fs_get fs q = None then fs_put q EDir fs else fs) qs fs = fs"
    if "\<And>q. q \<in> set qs \<Longrightarrow> fs_get fs q = Some EDir" for qs
    using that by (induction qs) auto
  from this [of "prefixes target"] dirs fs1(1) have "fs1 = fs"
    by (auto simp: make_dirs_def split: if_splits)
  with fs1 show "extract_all target a fs = Inr fs'" "inner_names a" "plain_fs fs'" by simp_all
  show "same_outside target fs fs'"
  proof (unfold same_outside_def, intro allI impI)
    fix q assume q: "\<not> prefix target q"
    note keeps = extract_all_keeps(1,3) [OF fs1(2,3) assms(2) fs1(4), of q, unfolded \<open>fs1 = fs\<close>]
    show "fs_get fs' q = fs_get fs q"
    proof (cases "prefix q target")
      case True
      with dirs keeps(1) show ?thesis by simp
    next
      case False
      then have "\<forall>(n, m) \<in> set a. \<not> prefix q (target @ path_parts n)"
        using q prefix_same_cases [of q "target @ _" target] by (auto simp del: append_prefixD)
      with keeps(2) show ?thesis by simp
    qed
  qed
qed

lemma copy_file_InrD:
  assumes "plain_fs fs" "list_all good_name dst" "list_all good_name src" "src \<noteq> []" "copy_file src dst fs = Inr fs'"
  shows "plain_fs fs'" "\<exists>q d. q \<in> {dst, dst @ [last src]} \<and> fs' = fs_put q (EFile d) fs \<and> q \<noteq> []"
proof -
  define q where "q = (if fs_get fs dst = Some EDir then dst @ [last src] else dst)"
  obtain d where d: "fs_get fs (butlast q) = Some EDir" "fs_get fs q \<noteq> Some EDir" "fs' = fs_put q (EFile d) fs"
    using assms(5) resolve_plain [OF assms(1) good_not_up [OF assms(2)]]
    by (auto simp: copy_file_def Let_def q_def split: option.splits entry.splits if_splits)
  have "q \<noteq> []" using d(2) by auto
  moreover have "list_all good_name q" using assms(2-4) by (auto simp: q_def list_all_iff)
  ultimately show "plain_fs fs'" using d by (auto intro!: plain_put [OF assms(1)] simp: member_of_def)
  show "\<exists>q d. q \<in> {dst, dst @ [last src]} \<and> fs' = fs_put q (EFile d) fs \<and> q \<noteq> []"
    using d(3) \<open>q \<noteq> []\<close> by (intro exI [of _ q] exI [of _ d]) (simp add: q_def)
qed

text \<open>
  C36: Whatever archive is uploaded or stored, unpacking it changes nothing outside the directory it is
  unpacked in, whose own parents are at most created.
\<close>

theorem extraction_stays_inside:
  assumes "extract_safely a target fs = Inr fs'" "plain_fs fs" "list_all good_name target"
  shows "\<forall>q. \<not> prefix target q \<longrightarrow> fs_get fs' q = (if prefix q target then Some EDir else fs_get fs q)"
proof (intro allI impI)
  fix q assume q: "\<not> prefix target q"
  obtain fs1 where fs1: "make_dirs target fs = Inr fs1" "extract_all target a fs1 = Inr fs'" "plain_fs fs1" "inner_names a"
    by (rule extract_safely_plain [OF assms])
  note keeps = extract_all_keeps(1,3) [OF fs1(2,3) assms(3) fs1(4), of q]
  note dirs = make_dirs_InrD(1) [OF fs1(1), of q]
  show "fs_get fs' q = (if prefix q target then Some EDir else fs_get fs q)"
  proof (cases "prefix q target")
    case True
    with dirs keeps(1) show ?thesis by simp
  next
    case False
    then have "\<forall>(n, m) \<in> set a. \<not> prefix q (target @ path_parts n)"
      using q prefix_same_cases [of q "target @ _" target] by (auto simp del: append_prefixD)
    with keeps(2) dirs False show ?thesis by simp
  qed
qed

theorem extraction_stays_inside_witness:
  "fs_get (case extract_safely [(''java/world'', MDir), (''java/world/level.dat'', MFile ''x'')] [''t'', ''u'']
       [([''t''], EDir), ([''w''], EFile ''y'')] of Inr fs \<Rightarrow> fs) [''w''] = Some (EFile ''y'')"
proof -
  let ?a = "[(''java/world'', MDir), (''java/world/level.dat'', MFile ''x'')]" and ?fs = "[([''t''], EDir), ([''w''], EFile ''y'')]"
  have "(case extract_safely ?a [''t'', ''u''] ?fs of Inl e \<Rightarrow> False | Inr fs \<Rightarrow> True)" by code_simp
  then obtain fs' where fs': "extract_safely ?a [''t'', ''u''] ?fs = Inr fs'" by (auto split: sum.splits)
  have "plain_fs ?fs" by (rule plain_fs_entries) code_simp
  moreover have "list_all good_name [''t'', ''u'']" by code_simp
  ultimately have "\<forall>q. \<not> prefix [''t'', ''u''] q \<longrightarrow> fs_get fs' q = (if prefix q [''t'', ''u''] then Some EDir else fs_get ?fs q)"
    by (rule extraction_stays_inside [OF fs'])
  from spec [OF this, of "[''w'']"] show ?thesis unfolding fs' by (simp add: fs_get_def)
qed

end
