(* ===== verification/Jobs.thy ===== *)
theory Jobs
  imports World_Files
begin

text \<open>
  The background jobs of \<open>orchestrator/backup.py\<close> as programs: over the session, the files of a server,
  the stored archives and the local variables their exception handlers read.  The combinators are those of
  theory Ops over this larger state, and so is the calculus of triples.
\<close>

section \<open>Programs\<close>

text \<open>A stored archive with its checksum file; both lie under the server's and the backup's identifier.\<close>

record artifact =
  art_archive :: archive
  art_size :: int
  art_sidecar :: "string option"

type_synonym store = "((uuid \<times> uuid) \<times> artifact) list"

record job_state =
  js_session :: session
  js_fs :: fs
  js_store :: store
  js_save_held :: bool
  js_stopped :: bool
  js_final :: bool
  js_completed :: bool
  js_was_running :: bool
  js_active :: "path option"
  js_rollback :: "path option"
  js_tmp :: "path option"

definition open_job :: "database \<Rightarrow> fs \<Rightarrow> store \<Rightarrow> job_state" where
  "open_job db fs store = \<lparr>js_session = open_session db, js_fs = fs, js_store = store, js_save_held = False,
     js_stopped = False, js_final = False, js_completed = False, js_was_running = False, js_active = None,
     js_rollback = None, js_tmp = None\<rparr>"

type_synonym 'a job = "job_state \<Rightarrow> (exn + 'a) \<times> job_state"

definition return_job :: "'a \<Rightarrow> 'a job" where
  "return_job a st = (Inr a, st)"

definition raise_job :: "exn \<Rightarrow> 'a job" where
  "raise_job e st = (Inl e, st)"

definition bind_job :: "'a job \<Rightarrow> ('a \<Rightarrow> 'b job) \<Rightarrow> 'b job" where
  "bind_job m k st = (case m st of (Inl e, st') \<Rightarrow> (Inl e, st') | (Inr a, st') \<Rightarrow> k a st')"

definition catch_job :: "'a job \<Rightarrow> (exn \<Rightarrow> 'a job) \<Rightarrow> 'a job" where
  "catch_job m h st = (case m st of (Inl e, st') \<Rightarrow> h e st' | (Inr a, st') \<Rightarrow> (Inr a, st'))"

definition finally_job :: "'a job \<Rightarrow> unit job \<Rightarrow> 'a job" where
  "finally_job m f st = (case m st of (r, st') \<Rightarrow> (case f st' of (Inl e, st'') \<Rightarrow> (Inl e, st'') | (Inr _, st'') \<Rightarrow> (r, st'')))"

definition get_job :: "(job_state \<Rightarrow> 'a) \<Rightarrow> 'a job" where
  "get_job f st = (Inr (f st), st)"

definition set_job :: "(job_state \<Rightarrow> job_state) \<Rightarrow> unit job" where
  "set_job f st = (Inr (), f st)"

definition lift_job :: "exn + 'a \<Rightarrow> 'a job" where
  "lift_job r st = (r, st)"

definition db_job :: "'a op \<Rightarrow> 'a job" where
  "db_job m st = (case m (js_session st) of (r, s) \<Rightarrow> (r, st\<lparr>js_session := s\<rparr>))"

definition fs_job :: "(fs \<Rightarrow> exn + fs) \<Rightarrow> unit job" where
  "fs_job f st = (case f (js_fs st) of Inl e \<Rightarrow> (Inl e, st) | Inr fs \<Rightarrow> (Inr (), st\<lparr>js_fs := fs\<rparr>))"

primrec for_job :: "('a \<Rightarrow> unit job) \<Rightarrow> 'a list \<Rightarrow> unit job" where
  "for_job f [] = return_job ()"
| "for_job f (x # xs) = bind_job (f x) (\<lambda>_. for_job f xs)"

definition when_job :: "bool \<Rightarrow> unit job \<Rightarrow> unit job" where
  "when_job b m = (if b then m else return_job ())"

text \<open>What a job leaves: its result, what is committed when its session closes, the files and the archives.\<close>

definition run_job :: "'a job \<Rightarrow> database \<Rightarrow> fs \<Rightarrow> store \<Rightarrow> (exn + 'a) \<times> database \<times> fs \<times> store" where
  "run_job m db fs store = (case m (open_job db fs store) of
     (r, st) \<Rightarrow> (r, ses_committed (js_session st), js_fs st, js_store st))"

lemmas job_defs = return_job_def raise_job_def bind_job_def catch_job_def get_job_def set_job_def lift_job_def
  db_job_def fs_job_def when_job_def

section \<open>What a successful job did\<close>

lemma job_Inr:
  "return_job a st = (Inr b, st') \<longleftrightarrow> b = a \<and> st' = st"
  "raise_job e st = (Inr b, st') \<longleftrightarrow> False"
  "get_job f st = (Inr b', st') \<longleftrightarrow> b' = f st \<and> st' = st"
  "set_job g st = (Inr u, st') \<longleftrightarrow> st' = g st"
  "lift_job r st = (Inr b, st') \<longleftrightarrow> r = Inr b \<and> st' = st"
  "fs_job h st = (Inr u, st') \<longleftrightarrow> (\<exists>fs. h (js_fs st) = Inr fs \<and> st' = st\<lparr>js_fs := fs\<rparr>)"
  "db_job m st = (Inr b, st') \<longleftrightarrow> (\<exists>s. m (js_session st) = (Inr b, s) \<and> st' = st\<lparr>js_session := s\<rparr>)"
  "bind_job n k st = (Inr b, st') \<longleftrightarrow> (\<exists>a st1. n st = (Inr a, st1) \<and> k a st1 = (Inr b, st'))"
  by (auto simp: job_defs split: prod.split sum.split prod.splits sum.splits)

lemma when_job_Inr: "when_job b m st = (Inr u, st') \<longleftrightarrow> (if b then m st = (Inr (), st') else st' = st)"
  by (simp add: when_job_def job_Inr)

lemma bind_get_job: "bind_job (get_job f) k st = k (f st) st"
  by (simp add: job_defs)

lemma bind_unitE:
  assumes "bind_job n k st = (Inr b, st')"
  obtains st1 where "n st = (Inr (), st1)" "k () st1 = (Inr b, st')"
  using assms by (auto simp: job_Inr)

lemma isl_bind: "(\<And>a st. isl (fst (k a st))) \<Longrightarrow> isl (fst (bind_job m k st))"
  by (auto simp: bind_job_def split: prod.split sum.split)

lemma catch_raising_Inr:
  "(\<And>e st. isl (fst (h e st))) \<Longrightarrow> catch_job m h st = (Inr b, st') \<longleftrightarrow> m st = (Inr b, st')"
  by (auto simp: catch_job_def split: prod.split sum.split) (metis fst_conv isl_def sum.distinct(1))+

section \<open>Triples of jobs\<close>

named_theorems job_rules

definition jtriple :: "(job_state \<Rightarrow> bool) \<Rightarrow> 'a job \<Rightarrow> ('a \<Rightarrow> job_state \<Rightarrow> bool) \<Rightarrow> (exn \<Rightarrow> job_state \<Rightarrow> bool) \<Rightarrow> bool" where
  "jtriple P m Q R \<longleftrightarrow> (\<forall>st. P st \<longrightarrow> (case m st of (Inl e, st') \<Rightarrow> R e st' | (Inr a, st') \<Rightarrow> Q a st'))"

definition jkeeps :: "(job_state \<Rightarrow> bool) \<Rightarrow> 'a job \<Rightarrow> bool" where
  "jkeeps P m \<longleftrightarrow> jtriple P m (\<lambda>_. P) (\<lambda>_. P)"

lemma jtripleI:
  "\<lbrakk>\<And>st a st'. P st \<Longrightarrow> m st = (Inr a, st') \<Longrightarrow> Q a st'; \<And>st e st'. P st \<Longrightarrow> m st = (Inl e, st') \<Longrightarrow> R e st'\<rbrakk> \<Longrightarrow> jtriple P m Q R"
  unfolding jtriple_def by (auto split: prod.split sum.split)

lemma jtriple_Inr: "jtriple P m Q R \<Longrightarrow> P st \<Longrightarrow> m st = (Inr a, st') \<Longrightarrow> Q a st'"
  unfolding jtriple_def by fastforce

lemma jtriple_Inl: "jtriple P m Q R \<Longrightarrow> P st \<Longrightarrow> m st = (Inl e, st') \<Longrightarrow> R e st'"
  unfolding jtriple_def by fastforce

lemma jtriple_weaken:
  "\<lbrakk>jtriple P m Q R; \<And>s. P' s \<Longrightarrow> P s; \<And>a s. Q a s \<Longrightarrow> Q' a s; \<And>e s. R e s \<Longrightarrow> R' e s\<rbrakk> \<Longrightarrow> jtriple P' m Q' R'"
  unfolding jtriple_def by (fastforce split: prod.splits sum.splits)

lemma jtriple_bind: "\<lbrakk>jtriple P m Q R; \<And>a. jtriple (Q a) (k a) Q' R\<rbrakk> \<Longrightarrow> jtriple P (bind_job m k) Q' R"
  unfolding jtriple_def bind_job_def by (fastforce split: prod.splits sum.splits)

lemma jtriple_catch: "\<lbrakk>jtriple P m Q R; \<And>e. jtriple (R e) (h e) Q R'\<rbrakk> \<Longrightarrow> jtriple P (catch_job m h) Q R'"
  unfolding jtriple_def catch_job_def by (fastforce split: prod.splits sum.splits)

lemma jtriple_get_bind: "(\<And>a. jtriple (\<lambda>s. P s \<and> f s = a) (k a) Q R) \<Longrightarrow> jtriple P (bind_job (get_job f) k) Q R"
  by (auto simp: jtriple_def job_defs)

lemma jtriple_return: "(\<And>s. P s \<Longrightarrow> Q a s) \<Longrightarrow> jtriple P (return_job a) Q R"
  by (simp add: jtriple_def return_job_def)

lemma jtriple_raise: "(\<And>s. P s \<Longrightarrow> R e s) \<Longrightarrow> jtriple P (raise_job e) Q R"
  by (simp add: jtriple_def raise_job_def)

lemma jtriple_set: "(\<And>s. P s \<Longrightarrow> Q () (f s)) \<Longrightarrow> jtriple P (set_job f) Q R"
  by (simp add: jtriple_def set_job_def)

lemma jtriple_fs:
  "\<lbrakk>\<And>s fs. P s \<Longrightarrow> f (js_fs s) = Inr fs \<Longrightarrow> Q () (s\<lparr>js_fs := fs\<rparr>); \<And>s e. P s \<Longrightarrow> R e s\<rbrakk> \<Longrightarrow> jtriple P (fs_job f) Q R"
  by (auto simp: jtriple_def fs_job_def split: sum.split)

lemma jkeepsI: "(\<And>st r st'. P st \<Longrightarrow> m st = (r, st') \<Longrightarrow> P st') \<Longrightarrow> jkeeps P m"
  unfolding jkeeps_def jtriple_def by (fastforce split: prod.split sum.split)

lemma jkeepsD: "jkeeps P m \<Longrightarrow> P st \<Longrightarrow> m st = (r, st') \<Longrightarrow> P st'"
  unfolding jkeeps_def jtriple_def by (cases r) fastforce+

lemma jkeeps_simple [job_rules]:
  "jkeeps P (return_job a)" "jkeeps P (raise_job e)" "jkeeps P (get_job f)" "jkeeps P (lift_job r)"
  by (auto simp: jkeeps_def jtriple_def job_defs split: sum.split)

lemma jkeeps_bind [job_rules]: "jkeeps P m \<Longrightarrow> (\<And>a. jkeeps P (k a)) \<Longrightarrow> jkeeps P (bind_job m k)"
  unfolding jkeeps_def by (rule jtriple_bind)

lemma jkeeps_catch [job_rules]: "jkeeps P m \<Longrightarrow> (\<And>e. jkeeps P (h e)) \<Longrightarrow> jkeeps P (catch_job m h)"
  unfolding jkeeps_def by (rule jtriple_catch)

lemma jkeeps_finally [job_rules]: "jkeeps P m \<Longrightarrow> jkeeps P f \<Longrightarrow> jkeeps P (finally_job m f)"
  by (rule jkeepsI) (auto simp: finally_job_def split: prod.splits sum.splits dest: jkeepsD)

lemma jkeeps_if [job_rules]: "jkeeps P m \<Longrightarrow> jkeeps P m' \<Longrightarrow> jkeeps P (if b then m else m')"
  by simp

lemma jkeeps_when [job_rules]: "jkeeps P m \<Longrightarrow> jkeeps P (when_job b m)"
  by (simp add: when_job_def jkeeps_simple)

lemma jkeeps_for [job_rules]: "(\<And>x. x \<in> set xs \<Longrightarrow> jkeeps P (f x)) \<Longrightarrow> jkeeps P (for_job f xs)"
  by (induction xs) (auto intro: jkeeps_simple jkeeps_bind)

lemma jkeeps_option [job_rules]: "jkeeps P f \<Longrightarrow> (\<And>a. jkeeps P (g a)) \<Longrightarrow> jkeeps P (case x of None \<Rightarrow> f | Some a \<Rightarrow> g a)"
  by (cases x) simp_all

lemma jkeeps_prod [job_rules]: "(\<And>a b. jkeeps P (f a b)) \<Longrightarrow> jkeeps P (case x of (a, b) \<Rightarrow> f a b)"
  by (cases x) simp

lemma jkeeps_set: "(\<And>s. P s \<Longrightarrow> P (f s)) \<Longrightarrow> jkeeps P (set_job f)"
  unfolding jkeeps_def by (rule jtriple_set)

lemma jkeeps_fs: "(\<And>s fs. P s \<Longrightarrow> f (js_fs s) = Inr fs \<Longrightarrow> P (s\<lparr>js_fs := fs\<rparr>)) \<Longrightarrow> jkeeps P (fs_job f)"
  unfolding jkeeps_def by (rule jtriple_fs)

lemma jkeeps_db: "keeps (\<lambda>s. P (st\<lparr>js_session := s\<rparr>)) m \<Longrightarrow> P st \<Longrightarrow> P (snd (db_job m st))"
  using keepsD [of "\<lambda>s. P (st\<lparr>js_session := s\<rparr>)" m "js_session st"] by (auto simp: db_job_def split: prod.split)

text \<open>What does not depend on the session survives every step on the database.\<close>

definition sessionless :: "(job_state \<Rightarrow> bool) \<Rightarrow> bool" where
  "sessionless P \<longleftrightarrow> (\<forall>st s. P (st\<lparr>js_session := s\<rparr>) = P st)"

lemma jkeeps_sessionless: "sessionless P \<Longrightarrow> jkeeps P (db_job m)"
  by (rule jkeepsI) (auto simp: sessionless_def db_job_def split: prod.splits)

text \<open>And what depends on the session only survives every step on the files.\<close>

definition session_only :: "(session \<Rightarrow> bool) \<Rightarrow> job_state \<Rightarrow> bool" where
  "session_only P st \<longleftrightarrow> P (js_session st)"

lemma jkeeps_session [job_rules]:
  assumes "keeps P m"
  shows "jkeeps (session_only P) (db_job m)"
  using keepsD [OF assms] by (auto intro!: jkeepsI simp: session_only_def db_job_def split: prod.splits)

lemma jkeeps_session_fs [job_rules]: "jkeeps (session_only P) (fs_job f)"
  by (auto intro!: jkeepsI simp: session_only_def fs_job_def split: sum.splits)

lemma jkeeps_bindD:
  "jkeeps P m \<Longrightarrow> (\<And>e s. P s \<Longrightarrow> R e s) \<Longrightarrow> (\<And>a. jtriple P (k a) Q R) \<Longrightarrow> jtriple P (bind_job m k) Q R"
  unfolding jkeeps_def by (rule jtriple_bind) (auto elim: jtriple_weaken)

lemma jtriple_keeps: "jkeeps P m \<Longrightarrow> (\<And>e s. P s \<Longrightarrow> R e s) \<Longrightarrow> jtriple P m (\<lambda>_. P) R"
  unfolding jkeeps_def by (auto elim: jtriple_weaken)

lemma jtriple_pure: "(b \<Longrightarrow> jtriple P m Q R) \<Longrightarrow> jtriple (\<lambda>s. P s \<and> b) m Q R"
  by (auto simp: jtriple_def)

lemma jtriple_pre: "jtriple P m Q R \<Longrightarrow> (\<And>s. P' s \<Longrightarrow> P s) \<Longrightarrow> jtriple P' m Q R"
  by (rule jtriple_weaken)

lemma jtriple_lift: "(\<And>a s. r = Inr a \<Longrightarrow> P s \<Longrightarrow> Q a s) \<Longrightarrow> (\<And>e s. P s \<Longrightarrow> R e s) \<Longrightarrow> jtriple P (lift_job r) Q R"
  by (cases r) (auto simp: jtriple_def lift_job_def)

lemma jtriple_if: "(b \<Longrightarrow> jtriple P m Q R) \<Longrightarrow> (\<not> b \<Longrightarrow> jtriple P m' Q R) \<Longrightarrow> jtriple P (if b then m else m') Q R"
  by simp

lemma jkeeps_disj: "jkeeps P m \<Longrightarrow> jkeeps P' m \<Longrightarrow> jkeeps (\<lambda>s. P s \<or> P' s) m"
  by (rule jkeepsI) (auto dest: jkeepsD)

end
