(* ===== verification/Backups.thy ===== *)
theory Backups
  imports Jobs Access
begin

text \<open>
  The jobs that back up and restore the world of a server (\<open>orchestrator/backup.py\<close>).  The runtime, gzip,
  SHA-256 and the disk check are parameters; one job reads the clock once.
\<close>

section \<open>Rows\<close>

definition get_backup :: "database \<Rightarrow> uuid \<Rightarrow> backup option" where
  "get_backup db i = get_row bk_id i (db_backups db)"

definition get_backup_job :: "database \<Rightarrow> uuid \<Rightarrow> backup_job option" where
  "get_backup_job db i = get_row bj_id i (db_backup_jobs db)"

definition get_restore_job :: "database \<Rightarrow> uuid \<Rightarrow> restore_job option" where
  "get_restore_job db i = get_row rj_id i (db_restore_jobs db)"

definition get_schedule :: "database \<Rightarrow> uuid \<Rightarrow> backup_schedule option" where
  "get_schedule db i = get_row sch_id i (db_backup_schedules db)"

definition set_backup :: "uuid \<Rightarrow> (backup \<Rightarrow> backup) \<Rightarrow> unit op" where
  "set_backup i f = modify_op (set_objects (\<lambda>db. db\<lparr>db_backups := modify_row bk_id i f (db_backups db)\<rparr>))"

definition set_backup_job :: "uuid \<Rightarrow> (backup_job \<Rightarrow> backup_job) \<Rightarrow> unit op" where
  "set_backup_job i f = modify_op (set_objects (\<lambda>db. db\<lparr>db_backup_jobs := modify_row bj_id i f (db_backup_jobs db)\<rparr>))"

definition set_restore_job :: "uuid \<Rightarrow> (restore_job \<Rightarrow> restore_job) \<Rightarrow> unit op" where
  "set_restore_job i f = modify_op (set_objects (\<lambda>db. db\<lparr>db_restore_jobs := modify_row rj_id i f (db_restore_jobs db)\<rparr>))"

definition set_schedule :: "uuid \<Rightarrow> (backup_schedule \<Rightarrow> backup_schedule) \<Rightarrow> unit op" where
  "set_schedule i f = modify_op (set_objects (\<lambda>db. db\<lparr>db_backup_schedules := modify_row sch_id i f (db_backup_schedules db)\<rparr>))"

definition ACTIVE_BACKUP_STATUSES :: "BackupStatus list" where
  "ACTIVE_BACKUP_STATUSES = [BackupStatus.pending, BackupStatus.running, BackupStatus.held_saves, BackupStatus.copying,
     BackupStatus.compressing, BackupStatus.verifying]"

definition ACTIVE_RESTORE_STATUSES :: "RestoreStatus list" where
  "ACTIVE_RESTORE_STATUSES = [RestoreStatus.pending, RestoreStatus.running, RestoreStatus.validating_backup,
     RestoreStatus.stopping_server, RestoreStatus.extracting, RestoreStatus.validating_restore, RestoreStatus.swapping,
     RestoreStatus.starting_server]"

definition backup_active :: "database \<Rightarrow> uuid \<Rightarrow> bool" where
  "backup_active db sid \<longleftrightarrow>
     list_ex (\<lambda>j. bj_server_id j = sid \<and> bj_status j \<in> set ACTIVE_BACKUP_STATUSES) (db_backup_jobs db)"

definition restore_active :: "database \<Rightarrow> uuid \<Rightarrow> bool" where
  "restore_active db sid \<longleftrightarrow>
     list_ex (\<lambda>j. rj_server_id j = sid \<and> rj_status j \<in> set ACTIVE_RESTORE_STATUSES) (db_restore_jobs db)"

section \<open>The environment\<close>

record backup_env =
  be_start :: start_env
  be_servers_root :: path
  be_disk_safe :: "exn + unit"
  be_command :: "uuid \<Rightarrow> string \<Rightarrow> exn + unit"
  be_sha256 :: "archive \<Rightarrow> string"
  be_gzip_size :: "archive \<Rightarrow> int"
  be_running_afterwards :: "uuid \<Rightarrow> bool"

abbreviation be_now :: "backup_env \<Rightarrow> instant" where
  "be_now env \<equiv> env_now (be_start env)"

text \<open>\<open>getattr(exc, "code", ...)\<close>; SQLAlchemy's errors have a code of their own.\<close>

definition exn_code :: "string \<Rightarrow> exn \<Rightarrow> string" where
  "exn_code dflt e = (case e of
     BackupRestoreError c \<Rightarrow> c | BillingError c \<Rightarrow> c | DiskProtectionError \<Rightarrow> ''disk_usage_critical''
   | IntegrityError \<Rightarrow> ''gkpj'' | _ \<Rightarrow> dflt)"

definition require_server_dir :: "backup_env \<Rightarrow> fs \<Rightarrow> server \<Rightarrow> exn + path" where
  "require_server_dir env fs server =
     (let raw = json_str (dict_get (srv_mc_config server) ''server_dir'')
      in if raw = [] then Inl (BackupRestoreError ''server_dir_missing'')
         else case resolve_path fs (join_path [] raw) of
           None \<Rightarrow> Inl RuntimeError
         | Some d \<Rightarrow>
             if \<not> prefix (be_servers_root env) d then Inl (BackupRestoreError ''invalid_server_dir'')
             else if \<not> exists_at fs d then Inl (BackupRestoreError ''server_dir_missing'')
             else Inr d)"

definition world_name_of :: "server \<Rightarrow> string" where
  "world_name_of server =
     (let level = json_str (dict_get (srv_mc_config server) ''level_name'')
      in if level \<noteq> [] then level else srv_world_name server)"

section \<open>Stored archives\<close>

definition checksum_text :: "backup_env \<Rightarrow> archive \<Rightarrow> string" where
  "checksum_text env a = be_sha256 env a @ [CHR 0x0A]"

definition verify_local_backup_artifact :: "backup_env \<Rightarrow> store \<Rightarrow> uuid \<times> uuid \<Rightarrow> string \<Rightarrow> int \<Rightarrow> exn + (string \<times> int)" where
  "verify_local_backup_artifact env store key expected_checksum expected_size =
     (case map_of store key of
        None \<Rightarrow> Inl (BackupRestoreError ''backup_object_missing'')
      | Some art \<Rightarrow>
          if art_size art \<le> 0 then Inl (BackupRestoreError ''backup_object_empty'')
          else if art_size art \<noteq> expected_size then Inl (BackupRestoreError ''backup_object_size_mismatch'')
          else if be_sha256 env (art_archive art) \<noteq> expected_checksum then Inl (BackupRestoreError ''checksum_mismatch'')
          else if map_option py_strip (art_sidecar art) \<noteq> Some expected_checksum
            then Inl (BackupRestoreError ''checksum_sidecar_missing'')
          else Inr (expected_checksum, art_size art))"

definition verify_backup_artifact :: "backup_env \<Rightarrow> store \<Rightarrow> backup \<Rightarrow> exn + archive" where
  "verify_backup_artifact env store b =
     (case map_of store (bk_server_id b, bk_id b) of
        None \<Rightarrow> Inl (BackupRestoreError ''backup_object_missing'')
      | Some art \<Rightarrow>
          if art_size art \<le> 0 then Inl (BackupRestoreError ''backup_object_empty'')
          else if bk_size_bytes b \<noteq> 0 \<and> art_size art \<noteq> bk_size_bytes b
            then Inl (BackupRestoreError ''backup_object_size_mismatch'')
          else (case bk_checksum_sha256 b of
              None \<Rightarrow> Inr (art_archive art)
            | Some c \<Rightarrow>
                if c = [] then Inr (art_archive art)
                else if be_sha256 env (art_archive art) \<noteq> c then Inl (BackupRestoreError ''checksum_mismatch'')
                else (case art_sidecar art of
                    None \<Rightarrow> Inl (BackupRestoreError ''checksum_sidecar_missing'')
                  | Some t \<Rightarrow> if py_strip t \<noteq> c then Inl (BackupRestoreError ''checksum_sidecar_mismatch'')
                      else Inr (art_archive art))))"

definition unlink_artifact :: "uuid \<times> uuid \<Rightarrow> store \<Rightarrow> store" where
  "unlink_artifact key store = AList.delete key store"

definition commit_local_backup_artifact :: "backup_env \<Rightarrow> archive \<Rightarrow> uuid \<times> uuid \<Rightarrow> (string \<times> int) job" where
  "commit_local_backup_artifact env a key =
     (if be_gzip_size env a \<le> 0 then raise_job (BackupRestoreError ''backup_temp_empty'')
      else
        bind_job (set_job (\<lambda>st. st\<lparr>js_store := AList.update key
            \<lparr>art_archive = a, art_size = be_gzip_size env a, art_sidecar = Some (checksum_text env a)\<rparr> (js_store st)\<rparr>)) (\<lambda>_.
        bind_job (get_job js_store) (\<lambda>store.
        lift_job (verify_local_backup_artifact env store key (be_sha256 env a) (be_gzip_size env a)))))"

text \<open>The newest \<open>keep\<close> unpinned backups stay; archives are removed before the rows are marked.\<close>

definition retention_keep :: "settings \<Rightarrow> int option \<Rightarrow> nat" where
  "retention_keep cfg keep_count =
     nat (max 1 (case keep_count of None \<Rightarrow> cfg_backup_retention_count cfg
       | Some k \<Rightarrow> if k = 0 then cfg_backup_retention_count cfg else k))"

definition retention_candidates :: "database \<Rightarrow> uuid \<Rightarrow> backup list" where
  "retention_candidates db sid = sort_key (\<lambda>b. - bk_created_at b)
     (filter (\<lambda>b. bk_server_id b = sid \<and> bk_status b = BackupStatus.completed \<and> bk_deleted_at b = None \<and> \<not> bk_pinned b)
       (db_backups db))"

definition expire_backup :: "instant \<Rightarrow> uuid \<Rightarrow> backup \<Rightarrow> unit job" where
  "expire_backup now sid b =
     bind_job (set_job (\<lambda>st. st\<lparr>js_store := unlink_artifact (sid, bk_id b) (js_store st)\<rparr>)) (\<lambda>_.
     db_job (set_backup (bk_id b) (\<lambda>b. b\<lparr>bk_status := BackupStatus.deleted, bk_deleted_at := Some now\<rparr>)))"

definition apply_backup_retention :: "settings \<Rightarrow> instant \<Rightarrow> uuid \<Rightarrow> int option \<Rightarrow> unit job" where
  "apply_backup_retention cfg now sid keep_count =
     bind_job (get_job (\<lambda>st. retention_candidates (ses_flushed (js_session st)) sid)) (\<lambda>backups.
     bind_job (for_job (expire_backup now sid) (drop (retention_keep cfg keep_count) backups)) (\<lambda>_.
     db_job commit_op))"

section \<open>Progress\<close>

text \<open>The percentage is computed in floats, exact for sizes below \<open>2 ^ 46\<close> bytes.\<close>

definition progress_percent :: "int \<Rightarrow> int \<Rightarrow> int option \<Rightarrow> backup_job \<Rightarrow> int" where
  "progress_percent mn mx bytes j =
     (case bytes of
        Some b \<Rightarrow> if 0 < bj_total_bytes j then min mx (mn + (mx - mn) * b div bj_total_bytes j) else max (bj_progress_percent j) mn
      | None \<Rightarrow> max (bj_progress_percent j) mn)"

definition update_backup_job :: "instant \<Rightarrow> uuid \<Rightarrow> BackupStatus \<Rightarrow> string \<Rightarrow> int \<Rightarrow> int \<Rightarrow> int option \<Rightarrow> unit job" where
  "update_backup_job now i status phase mn mx bytes = db_job
     (bind_op (set_backup_job i (\<lambda>j. j\<lparr>
        bj_progress_bytes := (case bytes of None \<Rightarrow> bj_progress_bytes j | Some b \<Rightarrow> b),
        bj_progress_percent := progress_percent mn mx bytes j,
        bj_status := status, bj_phase := phase, bj_heartbeat_at := Some now, bj_updated_at := now\<rparr>)) (\<lambda>_. commit_op))"

definition update_restore_job :: "instant \<Rightarrow> uuid \<Rightarrow> RestoreStatus \<Rightarrow> string \<Rightarrow> int \<Rightarrow> unit job" where
  "update_restore_job now i status phase percent = db_job
     (bind_op (set_restore_job i (\<lambda>j. j\<lparr>rj_status := status, rj_phase := phase,
        rj_progress_percent := max (rj_progress_percent j) (min 100 percent),
        rj_heartbeat_at := Some now, rj_updated_at := now\<rparr>)) (\<lambda>_. commit_op))"

text \<open>One update for every file, with the bytes so far.\<close>

definition file_sizes :: "fs \<Rightarrow> path \<Rightarrow> int list" where
  "file_sizes fs src =
     (if is_file_at fs src then [path_size fs src]
      else map (entry_size \<circ> snd) (filter (\<lambda>(rel, e). e \<noteq> EDir \<and> member_of e \<noteq> MLink) (rglob fs src)))"

fun tar_progress :: "instant \<Rightarrow> uuid \<Rightarrow> int list \<Rightarrow> int \<Rightarrow> unit job" where
  "tar_progress now i [] processed = return_job ()"
| "tar_progress now i (n # ns) processed =
     bind_job (update_backup_job now i BackupStatus.compressing ''compressing'' 10 80 (Some (processed + n))) (\<lambda>_.
     tar_progress now i ns (processed + n))"

section \<open>Backing up\<close>

definition ignore_job :: "unit job \<Rightarrow> unit job" where
  "ignore_job m = catch_job m (\<lambda>_. return_job ())"

definition try_save_hold :: "backup_env \<Rightarrow> uuid \<Rightarrow> bool" where
  "try_save_hold env sid =
     (case be_command env sid ''save hold'' of
        Inl _ \<Rightarrow> False
      | Inr _ \<Rightarrow> (case be_command env sid ''save query'' of Inl _ \<Rightarrow> False | Inr _ \<Rightarrow> True))"

text \<open>\<open>save resume\<close> is sent as well, and its outcome ignored.\<close>

definition save_resume_best_effort :: "unit job" where
  "save_resume_best_effort = set_job (\<lambda>st. st\<lparr>js_save_held := False\<rparr>)"

definition begin_backup :: "instant \<Rightarrow> uuid \<Rightarrow> uuid \<Rightarrow> unit job" where
  "begin_backup now jid bid = db_job
     (bind_op (set_backup_job jid (\<lambda>j. j\<lparr>bj_status := BackupStatus.running, bj_phase := ''running'',
        bj_started_at := Some now, bj_locked_at := Some now, bj_heartbeat_at := Some now,
        bj_attempts := bj_attempts j + 1\<rparr>)) (\<lambda>_.
      bind_op (set_backup bid (\<lambda>b. b\<lparr>bk_status := BackupStatus.running\<rparr>)) (\<lambda>_. commit_op)))"

text \<open>The world is kept still by \<open>save hold\<close>, or else the server is stopped.\<close>

definition quiesce :: "backup_env \<Rightarrow> uuid \<Rightarrow> uuid \<Rightarrow> uuid \<Rightarrow> bool \<Rightarrow> BackupConsistencyMethod job" where
  "quiesce env jid bid sid force_offline =
     (let running = env_runtime_running (be_start env) sid; held = running \<and> \<not> force_offline \<and> try_save_hold env sid
      in bind_job (db_job (set_backup bid (\<lambda>b. b\<lparr>bk_server_was_running := running\<rparr>))) (\<lambda>_.
         if held then
           bind_job (set_job (\<lambda>st. st\<lparr>js_save_held := True\<rparr>)) (\<lambda>_.
           bind_job (update_backup_job (be_now env) jid BackupStatus.held_saves ''held_saves'' 8 10 None) (\<lambda>_.
           return_job BackupConsistencyMethod.save_hold))
         else if running then
           bind_job (db_job (orchestrator_stop (be_start env) sid)) (\<lambda>_.
           bind_job (set_job (\<lambda>st. st\<lparr>js_stopped := True\<rparr>)) (\<lambda>_.
           bind_job (db_job commit_op) (\<lambda>_. return_job BackupConsistencyMethod.server_stop)))
         else return_job BackupConsistencyMethod.server_stop))"

definition release :: "settings \<Rightarrow> backup_env \<Rightarrow> uuid \<Rightarrow> unit job" where
  "release cfg env sid =
     bind_job (get_job (\<lambda>st. (js_save_held st, js_stopped st))) (\<lambda>(held, stopped).
     if held then save_resume_best_effort
     else if stopped then
       bind_job (db_job (orchestrator_start cfg (be_start env) sid)) (\<lambda>_.
       bind_job (set_job (\<lambda>st. st\<lparr>js_stopped := False\<rparr>)) (\<lambda>_.
       db_job commit_op))
     else return_job ())"

definition complete_backup :: "instant \<Rightarrow> uuid \<Rightarrow> uuid \<Rightarrow> uuid \<Rightarrow> string \<times> int \<Rightarrow> unit job" where
  "complete_backup now jid bid sid = (\<lambda>(checksum, size).
     bind_job (db_job
       (bind_op (set_backup bid (\<lambda>b. b\<lparr>bk_status := BackupStatus.completed,
          bk_storage_key := Some (str_uuid sid @ ''/objects/'' @ str_uuid bid @ ''.tar.gz''),
          bk_checksum_sha256 := Some checksum, bk_size_bytes := size, bk_completed_at := Some now,
          bk_failure_code := None\<rparr>)) (\<lambda>_.
        bind_op (set_backup_job jid (\<lambda>j. j\<lparr>bj_status := BackupStatus.completed, bj_phase := ''completed'',
          bj_progress_percent := 100, bj_progress_bytes := bj_total_bytes j, bj_completed_at := Some now,
          bj_updated_at := now\<rparr>)) (\<lambda>_.
        bind_op (set_server sid (\<lambda>r. r\<lparr>srv_last_backup_at := Some now, srv_backup_count := srv_backup_count r + 1\<rparr>)) (\<lambda>_.
        commit_op))))) (\<lambda>_.
     set_job (\<lambda>st. st\<lparr>js_completed := True\<rparr>)))"

text \<open>The schedule the backup came from; its result is the number of backups it keeps.\<close>

definition schedule_succeeded :: "instant \<Rightarrow> uuid \<Rightarrow> int option op" where
  "schedule_succeeded now bid =
     bind_op (get_op (\<lambda>s. Option.bind (Option.bind (get_backup (ses_objects s) bid) bk_schedule_id) (get_schedule (ses_objects s)))) (\<lambda>found.
     case found of
       None \<Rightarrow> return_op None
     | Some sch \<Rightarrow>
         bind_op (set_schedule (sch_id sch) (\<lambda>c. c\<lparr>sch_last_success_at := Some now, sch_consecutive_failures := 0\<rparr>)) (\<lambda>_.
         bind_op commit_op (\<lambda>_. return_op (Some (sch_retention_count sch)))))"

text \<open>The body of the \<open>try\<close>, from the server's directory to the stored archive and after it.\<close>

definition store_backup :: "settings \<Rightarrow> backup_env \<Rightarrow> uuid \<Rightarrow> uuid \<Rightarrow> server \<Rightarrow> bool \<Rightarrow> (string \<times> int) job" where
  "store_backup cfg env jid bid server force_offline =
     (let sid = srv_id server; now = be_now env; world_name = world_name_of server in
      bind_job (bind_job (get_job js_fs) (\<lambda>fs. lift_job (require_server_dir env fs server))) (\<lambda>server_dir.
      bind_job (lift_job (be_disk_safe env)) (\<lambda>_.
      bind_job (get_job (\<lambda>st. included_backup_paths (js_fs st) (srv_flavor server) server_dir world_name)) (\<lambda>includes.
      bind_job (get_job (\<lambda>st. size_bytes (js_fs st) (map fst includes))) (\<lambda>total.
      bind_job (db_job (bind_op (set_backup_job jid (\<lambda>j. j\<lparr>bj_total_bytes := total\<rparr>)) (\<lambda>_.
        bind_op (set_backup bid (\<lambda>b. b\<lparr>bk_uncompressed_size_bytes := total\<rparr>)) (\<lambda>_. commit_op)))) (\<lambda>_.
      bind_job (quiesce env jid bid sid force_offline) (\<lambda>consistency_method.
      bind_job (update_backup_job now jid BackupStatus.compressing ''compressing'' 10 80 None) (\<lambda>_.
      bind_job (set_job (\<lambda>st. st\<lparr>js_final := True\<rparr>)) (\<lambda>_.
      if includes = [] then raise_job (BackupRestoreError ''invalid_backup_contents'')
      else
        bind_job (get_job (\<lambda>st. (make_archive (js_fs st) includes, concat (map (file_sizes (js_fs st)) (map fst includes))))) (\<lambda>(a, sizes).
        bind_job (tar_progress now jid sizes 0) (\<lambda>_.
        bind_job (release cfg env sid) (\<lambda>_.
        bind_job (db_job (bind_op (set_backup bid (\<lambda>b. b\<lparr>bk_consistency_method := Some consistency_method,
            bk_included_paths := map snd includes, bk_world_name := world_name,
            bk_bedrock_version := Some (json_str (dict_get (srv_mc_config server) ''template_version''))\<rparr>)) (\<lambda>_. commit_op))) (\<lambda>_.
        bind_job (update_backup_job now jid BackupStatus.verifying ''verifying'' 85 95 None) (\<lambda>_.
        commit_local_backup_artifact env a (sid, bid)))))))))))))))"

definition backup_body :: "settings \<Rightarrow> backup_env \<Rightarrow> backup_job \<Rightarrow> backup \<Rightarrow> server \<Rightarrow> unit job" where
  "backup_body cfg env job b server =
     (let jid = bj_id job; bid = bk_id b; sid = srv_id server; now = be_now env in
      bind_job (get_job (\<lambda>st. restore_active (ses_flushed (js_session st)) sid)) (\<lambda>blocked.
      if blocked then raise_job (BackupRestoreError ''restore_active'')
      else
        bind_job (begin_backup now jid bid) (\<lambda>_.
        bind_job (store_backup cfg env jid bid server (bj_force_offline job)) (\<lambda>artifact.
        bind_job (complete_backup now jid bid sid artifact) (\<lambda>_.
        bind_job (db_job (schedule_succeeded now bid)) (\<lambda>retention_count.
        apply_backup_retention cfg now sid retention_count))))))"

text \<open>
  The handler.  Its inner \<open>except Exception as exc\<close> unbinds \<open>exc\<close>, so the handler itself raises when the
  server cannot be started again.
\<close>

definition record_failed_backup :: "instant \<Rightarrow> uuid \<Rightarrow> uuid \<Rightarrow> exn \<Rightarrow> unit op" where
  "record_failed_backup now jid bid e =
     bind_op (set_backup_job jid (\<lambda>j. j\<lparr>bj_status := BackupStatus.failed, bj_phase := ''failed'',
        bj_error_code := Some (exn_code ''backup_failed'' e), bj_completed_at := Some now, bj_updated_at := now\<rparr>)) (\<lambda>_.
     bind_op (set_backup bid (\<lambda>b. b\<lparr>bk_status := BackupStatus.failed, bk_failure_code := Some (exn_code ''backup_failed'' e)\<rparr>)) (\<lambda>_.
     bind_op (get_op (\<lambda>s. Option.bind (get_backup (ses_objects s) bid) bk_schedule_id)) (\<lambda>sch.
     bind_op (case sch of
        None \<Rightarrow> return_op ()
      | Some i \<Rightarrow> set_schedule i (\<lambda>c. c\<lparr>sch_consecutive_failures := sch_consecutive_failures c + 1, sch_updated_at := now\<rparr>)) (\<lambda>_.
     commit_op))))"

definition backup_failed :: "settings \<Rightarrow> backup_env \<Rightarrow> uuid \<Rightarrow> uuid \<Rightarrow> uuid \<Rightarrow> exn \<Rightarrow> unit job" where
  "backup_failed cfg env jid bid sid e =
     bind_job (get_job js_save_held) (\<lambda>held.
     bind_job (when_job held save_resume_best_effort) (\<lambda>_.
     bind_job (get_job js_stopped) (\<lambda>stopped.
     bind_job (if stopped
        then catch_job (db_job (orchestrator_start cfg (be_start env) sid)) (\<lambda>_. raise_job UnboundLocalError)
        else return_job ()) (\<lambda>_.
     db_job (record_failed_backup (be_now env) jid bid e)))))"

definition backup_cleanup :: "uuid \<Rightarrow> uuid \<Rightarrow> unit job" where
  "backup_cleanup bid sid =
     set_job (\<lambda>st.
       if js_final st \<and> \<not> js_completed st \<and>
         map_option bk_status (get_backup (ses_objects (js_session st)) bid) \<noteq> Some BackupStatus.completed
       then st\<lparr>js_store := unlink_artifact (sid, bid) (js_store st)\<rparr> else st)"

text \<open>A job without its backup or server ends at once, as it is.\<close>

definition run_backup_job :: "settings \<Rightarrow> backup_env \<Rightarrow> uuid \<Rightarrow> unit job" where
  "run_backup_job cfg env job_id =
     bind_job (get_job (\<lambda>st. get_backup_job (ses_objects (js_session st)) job_id)) (\<lambda>found. case found of
       None \<Rightarrow> return_job ()
     | Some job \<Rightarrow>
         bind_job (get_job (\<lambda>st. (get_backup (ses_objects (js_session st)) (bj_backup_id job),
           get_server (ses_objects (js_session st)) (bj_server_id job)))) (\<lambda>rows. case rows of
           (Some b, Some server) \<Rightarrow>
             finally_job
               (catch_job (backup_body cfg env job b server) (backup_failed cfg env job_id (bk_id b) (srv_id server)))
               (backup_cleanup (bk_id b) (srv_id server))
         | _ \<Rightarrow> return_job ()))"

section \<open>Restoring\<close>

definition begin_restore :: "instant \<Rightarrow> uuid \<Rightarrow> unit job" where
  "begin_restore now jid = db_job
     (bind_op (set_restore_job jid (\<lambda>j. j\<lparr>rj_status := RestoreStatus.running, rj_phase := ''running'',
        rj_started_at := Some now, rj_locked_at := Some now, rj_heartbeat_at := Some now,
        rj_attempts := rj_attempts j + 1\<rparr>)) (\<lambda>_. commit_op))"

definition restore_tmp_path :: "path \<Rightarrow> uuid \<Rightarrow> path" where
  "restore_tmp_path server_dir jid = server_dir @ [''runtime'', ''tmp'', ''restore'', str_uuid jid]"

definition rollback_root_path :: "path \<Rightarrow> uuid \<Rightarrow> path" where
  "rollback_root_path server_dir jid = server_dir @ [''runtime'', ''tmp'', ''rollback'', str_uuid jid]"

definition path_name :: "path \<Rightarrow> path" where
  "path_name p = (if p = [] then [] else [last p])"

definition restored_dir :: "ServerFlavor \<Rightarrow> path" where
  "restored_dir flavor = (if is_java_flavor flavor then [''java'', ''world''] else [''bedrock'', ''worlds''])"

text \<open>The world in use gives way to the restored one; a failed second move is undone.\<close>

definition swap_worlds :: "path \<Rightarrow> path \<Rightarrow> path \<Rightarrow> unit job" where
  "swap_worlds live aside restored =
     bind_job (get_job (\<lambda>st. exists_at (js_fs st) live)) (\<lambda>old.
     bind_job (when_job old (fs_job (os_replace live aside))) (\<lambda>_.
     catch_job (fs_job (os_replace restored live)) (\<lambda>e.
       bind_job (get_job (\<lambda>st. exists_at (js_fs st) aside \<and> \<not> exists_at (js_fs st) live)) (\<lambda>undo.
       bind_job (when_job undo (fs_job (os_replace aside live))) (\<lambda>_.
       raise_job e)))))"

definition RESTORED_FILES :: "string list" where
  "RESTORED_FILES = [''server.properties'', ''allowlist.json'', ''permissions.json'', ''valid_known_packs.json'',
     ''world_behavior_packs.json'', ''world_resource_packs.json'', ''eula.txt'', ''ops.json'', ''banned-players.json'',
     ''banned-ips.json'', ''whitelist.json'']"

definition restore_file :: "path \<Rightarrow> path \<Rightarrow> string \<Rightarrow> unit job" where
  "restore_file from server_dir name =
     bind_job (get_job (\<lambda>st. is_file_at (js_fs st) (from @ [name]))) (\<lambda>present.
     when_job present (fs_job (copy_file (from @ [name]) (server_dir @ [name]))))"

text \<open>From the checks of the archive to the unpacked one.\<close>

definition unpack_backup :: "settings \<Rightarrow> backup_env \<Rightarrow> uuid \<Rightarrow> backup \<Rightarrow> server \<Rightarrow> path job" where
  "unpack_backup cfg env jid b server =
     (let sid = srv_id server; now = be_now env; running = env_runtime_running (be_start env) sid in
      if bk_status b \<noteq> BackupStatus.completed then raise_job (BackupRestoreError ''backup_not_completed'')
      else if bk_server_id b \<noteq> sid then raise_job (BackupRestoreError ''backup_server_mismatch'')
      else
        bind_job (update_restore_job now jid RestoreStatus.validating_backup ''validating_backup'' 5) (\<lambda>_.
        bind_job (bind_job (get_job js_store) (\<lambda>store. lift_job (verify_backup_artifact env store b))) (\<lambda>a.
        bind_job (lift_job (validate_archive_members a)) (\<lambda>_.
        bind_job (bind_job (get_job js_fs) (\<lambda>fs. lift_job (require_server_dir env fs server))) (\<lambda>server_dir.
        bind_job (set_job (\<lambda>st. st\<lparr>js_active := Some (active_world_path (js_fs st) (srv_flavor server) server_dir (world_name_of server)),
          js_was_running := running\<rparr>)) (\<lambda>_.
        bind_job (db_job (bind_op (set_restore_job jid (\<lambda>j. j\<lparr>rj_server_was_running := running\<rparr>)) (\<lambda>_. commit_op))) (\<lambda>_.
        bind_job (update_restore_job now jid RestoreStatus.stopping_server ''stopping_server'' 15) (\<lambda>_.
        bind_job (when_job running (db_job (bind_op (orchestrator_stop (be_start env) sid) (\<lambda>_. commit_op)))) (\<lambda>_.
        bind_job (set_job (\<lambda>st. st\<lparr>js_tmp := Some (restore_tmp_path server_dir jid),
          js_fs := safe_rmtree (restore_tmp_path server_dir jid) (js_fs st)\<rparr>)) (\<lambda>_.
        bind_job (fs_job (mkdir_p (restore_tmp_path server_dir jid))) (\<lambda>_.
        bind_job (update_restore_job now jid RestoreStatus.extracting ''extracting'' 25) (\<lambda>_.
        bind_job (fs_job (extract_safely a (restore_tmp_path server_dir jid))) (\<lambda>_.
        return_job server_dir)))))))))))))"

text \<open>An empty directory to put the world in use aside.\<close>

definition prepare_rollback :: "backup_env \<Rightarrow> uuid \<Rightarrow> path \<Rightarrow> path \<Rightarrow> unit job" where
  "prepare_rollback env jid root aside =
     bind_job (update_restore_job (be_now env) jid RestoreStatus.validating_restore ''validating_restore'' 65) (\<lambda>_.
     bind_job (set_job (\<lambda>st. st\<lparr>js_rollback := Some aside, js_fs := safe_rmtree root (js_fs st)\<rparr>)) (\<lambda>_.
     bind_job (fs_job (mkdir_p root)) (\<lambda>_.
     bind_job (db_job (bind_op (set_restore_job jid (\<lambda>j. j\<lparr>rj_rollback_path := Some aside\<rparr>)) (\<lambda>_. commit_op))) (\<lambda>_.
     update_restore_job (be_now env) jid RestoreStatus.swapping ''swapping'' 75))))"

definition finish_restore :: "settings \<Rightarrow> backup_env \<Rightarrow> restore_job \<Rightarrow> uuid \<Rightarrow> path \<Rightarrow> unit job" where
  "finish_restore cfg env job sid aside =
     (let jid = rj_id job; now = be_now env in
      bind_job (when_job (rj_restart_after_restore job)
        (bind_job (update_restore_job now jid RestoreStatus.starting_server ''starting_server'' 90) (\<lambda>_.
         db_job (orchestrator_start cfg (be_start env) sid)))) (\<lambda>_.
      bind_job (db_job (bind_op (set_restore_job jid (\<lambda>j. j\<lparr>rj_status := RestoreStatus.completed, rj_phase := ''completed'',
          rj_progress_percent := 100, rj_completed_at := Some now, rj_updated_at := now\<rparr>)) (\<lambda>_. commit_op))) (\<lambda>_.
      set_job (\<lambda>st. if exists_at (js_fs st) aside then st\<lparr>js_fs := safe_rmtree (butlast aside) (js_fs st)\<rparr> else st))))"

text \<open>From the unpacked archive to the running server.\<close>

definition install_world :: "settings \<Rightarrow> backup_env \<Rightarrow> restore_job \<Rightarrow> server \<Rightarrow> path \<Rightarrow> path \<Rightarrow> unit job" where
  "install_world cfg env job server server_dir live =
     (let jid = rj_id job; tmp = restore_tmp_path server_dir jid; restored = tmp @ restored_dir (srv_flavor server);
          root = rollback_root_path server_dir jid; aside = root @ path_name live
      in bind_job (get_job (\<lambda>st. is_dir_at (js_fs st) restored)) (\<lambda>ok.
         if \<not> ok then raise_job (BackupRestoreError ''restored_world_missing'')
         else
           bind_job (prepare_rollback env jid root aside) (\<lambda>_.
           bind_job (swap_worlds live aside restored) (\<lambda>_.
           bind_job (for_job (restore_file (tmp @ [if is_java_flavor (srv_flavor server) then ''java'' else ''bedrock'']) server_dir) RESTORED_FILES) (\<lambda>_.
           finish_restore cfg env job (srv_id server) aside)))))"

definition restore_body :: "settings \<Rightarrow> backup_env \<Rightarrow> restore_job \<Rightarrow> backup \<Rightarrow> server \<Rightarrow> unit job" where
  "restore_body cfg env job b server =
     bind_job (get_job (\<lambda>st. backup_active (ses_flushed (js_session st)) (srv_id server))) (\<lambda>blocked.
     if blocked then raise_job (BackupRestoreError ''backup_active'')
     else
       bind_job (begin_restore (be_now env) (rj_id job)) (\<lambda>_.
       bind_job (unpack_backup cfg env (rj_id job) b server) (\<lambda>server_dir.
       bind_job (get_job js_active) (\<lambda>live.
       install_world cfg env job server server_dir (case live of None \<Rightarrow> [] | Some p \<Rightarrow> p)))))"

text \<open>The old world comes back, if the request asked for it and there is one.\<close>

definition failed_name :: "path \<Rightarrow> uuid \<Rightarrow> exn + path" where
  "failed_name live jid =
     (if live = [] then Inl ValueError
      else Inr (butlast live @ [last live @ ''.failed-restore-'' @ str_uuid jid]))"

definition roll_back :: "uuid \<Rightarrow> bool \<Rightarrow> bool job" where
  "roll_back jid rollback_enabled =
     bind_job (get_job (\<lambda>st. case (js_active st, js_rollback st) of
        (Some live, Some aside) \<Rightarrow> if rollback_enabled \<and> exists_at (js_fs st) aside then Some (live, aside) else None
      | _ \<Rightarrow> None)) (\<lambda>found. case found of
       None \<Rightarrow> return_job False
     | Some (live, aside) \<Rightarrow>
         bind_job (get_job (\<lambda>st. exists_at (js_fs st) live)) (\<lambda>present.
         bind_job (when_job present
           (bind_job (lift_job (failed_name live jid)) (\<lambda>failed_path.
            bind_job (set_job (\<lambda>st. st\<lparr>js_fs := safe_rmtree failed_path (js_fs st)\<rparr>)) (\<lambda>_.
            fs_job (os_replace live failed_path))))) (\<lambda>_.
         bind_job (fs_job (os_replace aside live)) (\<lambda>_.
         return_job True))))"

definition restore_failed :: "settings \<Rightarrow> backup_env \<Rightarrow> restore_job \<Rightarrow> uuid \<Rightarrow> exn \<Rightarrow> unit job" where
  "restore_failed cfg env job sid e =
     (let jid = rj_id job; now = be_now env in
      bind_job (catch_job
        (bind_job (roll_back jid (rj_rollback_enabled job)) (\<lambda>back.
         return_job (if back then (RestoreStatus.rolled_back, ''rolled_back'', exn_code ''restore_failed'' e)
                     else (RestoreStatus.failed, ''failed'', exn_code ''restore_failed'' e))))
        (\<lambda>_. return_job (RestoreStatus.failed, ''failed'', ''rollback_failed''))) (\<lambda>(status, phase, code).
      bind_job (db_job (bind_op (set_restore_job jid (\<lambda>j. j\<lparr>rj_status := status, rj_phase := phase, rj_error_code := Some code,
        rj_completed_at := Some now, rj_updated_at := now\<rparr>)) (\<lambda>_. commit_op))) (\<lambda>_.
      bind_job (get_job js_was_running) (\<lambda>was_running.
      when_job (was_running \<and> \<not> be_running_afterwards env sid)
        (ignore_job (db_job (bind_op (orchestrator_start cfg (be_start env) sid) (\<lambda>_. commit_op))))))))"

definition restore_cleanup :: "unit job" where
  "restore_cleanup = set_job (\<lambda>st. case js_tmp st of None \<Rightarrow> st | Some p \<Rightarrow> st\<lparr>js_fs := safe_rmtree p (js_fs st)\<rparr>)"

definition run_restore_job :: "settings \<Rightarrow> backup_env \<Rightarrow> uuid \<Rightarrow> unit job" where
  "run_restore_job cfg env job_id =
     bind_job (get_job (\<lambda>st. get_restore_job (ses_objects (js_session st)) job_id)) (\<lambda>found. case found of
       None \<Rightarrow> return_job ()
     | Some job \<Rightarrow>
         bind_job (get_job (\<lambda>st. (get_backup (ses_objects (js_session st)) (rj_backup_id job),
           get_server (ses_objects (js_session st)) (rj_server_id job)))) (\<lambda>rows. case rows of
           (Some b, Some server) \<Rightarrow>
             finally_job
               (catch_job (restore_body cfg env job b server) (restore_failed cfg env job (srv_id server)))
               restore_cleanup
         | _ \<Rightarrow> return_job ()))"

section \<open>A sample\<close>

definition world_server :: "ServerFlavor \<Rightarrow> server" where
  "world_server flavor = sample_server\<lparr>srv_flavor := flavor, srv_mc_config := [(''server_dir'', JStr ''/srv/10'')]\<rparr>"

definition plain_backup :: backup where
  "plain_backup = \<lparr>bk_id = 60, bk_server_id = 10, bk_owner_id = 1, bk_created_by_user_id = Some 1, bk_schedule_id = None,
     bk_kind = BackupKind.manual, bk_status = BackupStatus.pending, bk_name = None, bk_description = None, bk_pinned = False,
     bk_world_name = ''w'', bk_bedrock_version = None, bk_consistency_method = None, bk_server_was_running = False,
     bk_storage_key = None, bk_checksum_sha256 = None, bk_size_bytes = 0, bk_uncompressed_size_bytes = 0,
     bk_included_paths = [], bk_failure_code = None, bk_created_at = 0, bk_completed_at = None, bk_deleted_at = None\<rparr>"

definition plain_backup_job :: backup_job where
  "plain_backup_job = \<lparr>bj_id = 70, bj_backup_id = 60, bj_server_id = 10, bj_requested_by_user_id = Some 1,
     bj_status = BackupStatus.pending, bj_phase = ''pending'', bj_progress_percent = 0, bj_progress_bytes = 0,
     bj_total_bytes = 0, bj_idempotency_key = None, bj_force_offline = False, bj_attempts = 0, bj_locked_at = None,
     bj_heartbeat_at = None, bj_error_code = None, bj_created_at = 0, bj_started_at = None, bj_completed_at = None,
     bj_updated_at = 0\<rparr>"

definition plain_restore_job :: restore_job where
  "plain_restore_job = \<lparr>rj_id = 80, rj_backup_id = 60, rj_server_id = 10, rj_requested_by_user_id = 1,
     rj_status = RestoreStatus.pending, rj_phase = ''pending'', rj_progress_percent = 0, rj_restart_after_restore = False,
     rj_server_was_running = False, rj_rollback_enabled = True, rj_rollback_path = None, rj_attempts = 0,
     rj_locked_at = None, rj_heartbeat_at = None, rj_error_code = None, rj_created_at = 0, rj_started_at = None,
     rj_completed_at = None, rj_updated_at = 0\<rparr>"

definition backup_db :: "ServerFlavor \<Rightarrow> database" where
  "backup_db flavor = empty_db\<lparr>db_servers := [world_server flavor], db_backups := [plain_backup],
     db_backup_jobs := [plain_backup_job]\<rparr>"

text \<open>The same with the backup completed and a restore of it, and the archives the backups leave.\<close>

definition restore_db :: "ServerFlavor \<Rightarrow> bool \<Rightarrow> database" where
  "restore_db flavor restart = empty_db\<lparr>db_servers := [world_server flavor],
     db_backups := [plain_backup\<lparr>bk_status := BackupStatus.completed, bk_checksum_sha256 := Some ''ab'', bk_size_bytes := 2\<rparr>],
     db_restore_jobs := [plain_restore_job\<lparr>rj_restart_after_restore := restart\<rparr>]\<rparr>"

definition stored_archive_of :: "string \<Rightarrow> store" where
  "stored_archive_of dir = [((10, 60), \<lparr>art_archive = [(dir, MDir), (dir @ ''/level.dat'', MFile ''old'')],
     art_size = 2, art_sidecar = Some (''ab'' @ [CHR 0x0A])\<rparr>)]"

definition idle_backup_env :: backup_env where
  "idle_backup_env = \<lparr>be_start = Lifecycle.sample_env\<lparr>env_runtime_running := \<lambda>_. False\<rparr>, be_servers_root = [''srv''],
     be_disk_safe = Inr (), be_command = \<lambda>_ _. Inl RuntimeError, be_sha256 = \<lambda>_. ''ab'',
     be_gzip_size = \<lambda>a. int (length a), be_running_afterwards = \<lambda>_. False\<rparr>"

definition java_world_fs :: "string \<Rightarrow> fs" where
  "java_world_fs data = [([''srv''], EDir), ([''srv'', ''10''], EDir), ([''srv'', ''10'', ''w''], EDir),
     ([''srv'', ''10'', ''w'', ''level.dat''], EFile data)]"

definition bedrock_world_fs :: "string \<Rightarrow> fs" where
  "bedrock_world_fs data = [([''srv''], EDir), ([''srv'', ''10''], EDir), ([''srv'', ''10'', ''worlds''], EDir),
     ([''srv'', ''10'', ''worlds'', ''w''], EDir), ([''srv'', ''10'', ''worlds'', ''w'', ''level.dat''], EFile data)]"

end
