(* ===== verification/Restores.thy ===== *)
theory Restores
  imports Backups
begin

text \<open>
  What a restore does to the world of a server: where a completed one puts the files of the archive, and that
  a failed one leaves the world in use as it was.
\<close>

section \<open>What a successful restore did\<close>

lemma update_job_Inr:
  "update_backup_job now i status phase mn mx bytes st = (Inr u, st') \<Longrightarrow> \<exists>s. st' = st\<lparr>js_session := s\<rparr>"
  "update_restore_job now i rstatus phase percent st = (Inr u, st') \<Longrightarrow> \<exists>s. st' = st\<lparr>js_session := s\<rparr>"
  by (auto simp: update_backup_job_def update_restore_job_def job_Inr)

text \<open>Unpacking: the archive of the backup, in an empty directory of the server's own.\<close>

lemma unpack_backup_InrD:
  assumes "unpack_backup cfg env jid b server st = (Inr sd, st')"
  defines "tmp \<equiv> restore_tmp_path sd jid"
  obtains a f1 f2 where "bk_status b = BackupStatus.completed" "bk_server_id b = srv_id server"
    "verify_backup_artifact env (js_store st) b = Inr a"
    "require_server_dir env (js_fs st) server = Inr sd"
    "mkdir_p tmp (safe_rmtree tmp (js_fs st)) = Inr f1" "extract_safely a tmp f1 = Inr f2"
    "js_fs st' = f2" "js_store st' = js_store st" "js_tmp st' = Some tmp"
    "js_active st' = Some (active_world_path (js_fs st) (srv_flavor server) sd (world_name_of server))"
  using assms
  by (auto simp: unpack_backup_def Let_def job_Inr when_job_Inr split: if_splits dest!: update_job_Inr)

lemma swap_worlds_InrD:
  assumes "swap_worlds live aside restored st = (Inr u, st')"
  obtains f1 f2 where "if exists_at (js_fs st) live then os_replace live aside (js_fs st) = Inr f1 else f1 = js_fs st"
    "os_replace restored live f1 = Inr f2" "st' = st\<lparr>js_fs := f2\<rparr>"
proof -
  let ?h = "\<lambda>e. bind_job (get_job (\<lambda>st. exists_at (js_fs st) aside \<and> \<not> exists_at (js_fs st) live)) (\<lambda>undo.
      bind_job (when_job undo (fs_job (os_replace aside live))) (\<lambda>_. raise_job e)) :: unit job"
  have h: "\<And>e s. isl (fst (?h e s))" by (intro isl_bind) (simp add: raise_job_def)
  obtain s1 where s1: "when_job (exists_at (js_fs st) live) (fs_job (os_replace live aside)) st = (Inr (), s1)"
      "catch_job (fs_job (os_replace restored live)) ?h s1 = (Inr u, st')"
    using assms unfolding swap_worlds_def bind_get_job by (rule bind_unitE)
  obtain f2 where f2: "os_replace restored live (js_fs s1) = Inr f2" "st' = s1\<lparr>js_fs := f2\<rparr>"
    using s1(2) unfolding catch_raising_Inr [OF h] job_Inr by blast
  show ?thesis
  proof (cases "exists_at (js_fs st) live")
    case True
    then obtain f1 where f1: "os_replace live aside (js_fs st) = Inr f1" "s1 = st\<lparr>js_fs := f1\<rparr>"
      using s1(1) unfolding when_job_Inr job_Inr by auto
    with True f2 show ?thesis by (intro that [of f1 f2]) simp_all
  next
    case False
    with s1(1) have "s1 = st" by (simp add: when_job_Inr)
    with False f2 show ?thesis by (intro that [of "js_fs st" f2]) simp_all
  qed
qed

lemma prepare_rollback_InrD:
  assumes "prepare_rollback env jid root aside st = (Inr u, st')"
  shows "mkdir_p root (safe_rmtree root (js_fs st)) = Inr (js_fs st')" "js_rollback st' = Some aside"
    "js_tmp st' = js_tmp st" "js_active st' = js_active st" "js_store st' = js_store st"
  using assms by (auto simp: prepare_rollback_def job_Inr dest!: update_job_Inr)

lemma finish_restore_InrD:
  assumes "finish_restore cfg env job sid aside st = (Inr u, st')"
  shows "js_fs st' = (if exists_at (js_fs st) aside then safe_rmtree (butlast aside) (js_fs st) else js_fs st)"
    "js_tmp st' = js_tmp st" "js_store st' = js_store st"
  using assms unfolding finish_restore_def Let_def update_restore_job_def when_job_def
  by (cases "rj_restart_after_restore job"; cases "exists_at (js_fs st) aside"; auto simp: job_Inr)+

lemma install_world_InrD:
  assumes "install_world cfg env job server sd live st = (Inr u, st')"
  defines "tmp \<equiv> restore_tmp_path sd (rj_id job)" and "root \<equiv> rollback_root_path sd (rj_id job)"
  defines "restored \<equiv> tmp @ restored_dir (srv_flavor server)" and "aside \<equiv> root @ path_name live"
  obtains f1 f2 s1 s2 where "is_dir_at (js_fs st) restored" "mkdir_p root (safe_rmtree root (js_fs st)) = Inr f1"
    "if exists_at f1 live then os_replace live aside f1 = Inr f2 else f2 = f1" "os_replace restored live f2 = Inr (js_fs s1)"
    "for_job (restore_file (tmp @ [if is_java_flavor (srv_flavor server) then ''java'' else ''bedrock'']) sd) RESTORED_FILES s1 = (Inr (), s2)"
    "js_fs st' = (if exists_at (js_fs s2) aside then safe_rmtree (butlast aside) (js_fs s2) else js_fs s2)"
proof -
  obtain s0 s1 s2 where *: "is_dir_at (js_fs st) restored" "prepare_rollback env (rj_id job) root aside st = (Inr (), s0)"
      "swap_worlds live aside restored s0 = (Inr (), s1)"
      "for_job (restore_file (tmp @ [if is_java_flavor (srv_flavor server) then ''java'' else ''bedrock'']) sd) RESTORED_FILES s1 = (Inr (), s2)"
      "finish_restore cfg env job (srv_id server) aside s2 = (Inr (), st')"
    using assms(1) unfolding install_world_def Let_def tmp_def [symmetric] root_def [symmetric] restored_def [symmetric]
      aside_def [symmetric] bind_get_job
    by (cases "is_dir_at (js_fs st) restored") (auto simp: raise_job_def elim!: bind_unitE)
  obtain f2 f3 where f: "if exists_at (js_fs s0) live then os_replace live aside (js_fs s0) = Inr f2 else f2 = js_fs s0"
      "os_replace restored live f2 = Inr f3" "s1 = s0\<lparr>js_fs := f3\<rparr>"
    by (rule swap_worlds_InrD [OF *(3)])
  show ?thesis
    by (rule that [OF *(1) prepare_rollback_InrD(1) [OF *(2)] f(1) _ *(4) finish_restore_InrD(1) [OF *(5)]]) (use f in simp)
qed

lemma restore_body_InrD:
  assumes "restore_body cfg env job b server st = (Inr u, st')"
  obtains sd st1 st2 where "js_fs st1 = js_fs st" "js_store st1 = js_store st"
    "unpack_backup cfg env (rj_id job) b server st1 = (Inr sd, st2)"
    "install_world cfg env job server sd (active_world_path (js_fs st) (srv_flavor server) sd (world_name_of server)) st2 = (Inr (), st')"
proof -
  obtain s sd st2 where *: "unpack_backup cfg env (rj_id job) b server (st\<lparr>js_session := s\<rparr>) = (Inr sd, st2)"
      "install_world cfg env job server sd (case js_active st2 of None \<Rightarrow> [] | Some p \<Rightarrow> p) st2 = (Inr (), st')"
    using assms by (auto simp: restore_body_def begin_restore_def job_Inr split: if_splits)
  have "js_active st2 = Some (active_world_path (js_fs st) (srv_flavor server) sd (world_name_of server))"
    by (rule unpack_backup_InrD [OF *(1)]) simp
  with * show ?thesis by (intro that [OF _ _ *(1)]) simp_all
qed

section \<open>Where the restored world ends up\<close>

text \<open>
  The directories of a restore: the server's own, with the world in use somewhere below it, not among
  the files a restore writes and not among its temporary ones.
\<close>

definition world_place :: "path \<Rightarrow> path \<Rightarrow> bool" where
  "world_place sd wp \<longleftrightarrow> list_all good_name sd \<and> list_all good_name wp \<and> wp \<noteq> [] \<and>
     hd wp \<notin> set (''runtime'' # RESTORED_FILES)"

lemma good_tmp:
  assumes "list_all good_name sd" "good_name (str_uuid jid)"
  shows "list_all good_name (restore_tmp_path sd jid)" "list_all good_name (rollback_root_path sd jid)"
  using assms by (simp_all add: restore_tmp_path_def rollback_root_path_def good_name_def)

lemma place_apart:
  assumes "world_place sd wp"
  shows "\<not> prefix (sd @ ''runtime'' # p) (sd @ wp @ q)" "\<not> prefix (sd @ wp) (sd @ ''runtime'' # p)"
    "n \<in> set RESTORED_FILES \<Longrightarrow> sd @ wp @ q \<noteq> sd @ n # p"
  using assms by (cases wp; auto simp: world_place_def)+

lemma restore_file_InrD:
  assumes "restore_file from sd name st = (Inr u, st')" "plain_fs (js_fs st)" "list_all good_name from" "list_all good_name sd"
    "good_name name"
  shows "plain_fs (js_fs st') \<and> (\<forall>q. (\<forall>p. q \<noteq> sd @ name # p) \<longrightarrow> fs_get (js_fs st') q = fs_get (js_fs st) q)"
proof (cases "is_file_at (js_fs st) (from @ [name])")
  case True
  then obtain fs where fs: "copy_file (from @ [name]) (sd @ [name]) (js_fs st) = Inr fs" "js_fs st' = fs"
    using assms(1) by (auto simp: restore_file_def bind_get_job when_job_def job_Inr)
  have g: "list_all good_name (sd @ [name])" "list_all good_name (from @ [name])" "from @ [name] \<noteq> []"
    using assms(3-5) by simp_all
  from copy_file_InrD [OF assms(2) g fs(1)] fs(2) show ?thesis by auto
next
  case False
  with assms show ?thesis by (auto simp: restore_file_def bind_get_job when_job_def job_Inr)
qed

lemma restore_files_InrD:
  assumes "for_job (restore_file from sd) names st = (Inr u, st')" "plain_fs (js_fs st)" "list_all good_name from"
    "list_all good_name sd" "list_all good_name names"
  shows "plain_fs (js_fs st') \<and> (\<forall>q. (\<forall>n \<in> set names. \<forall>p. q \<noteq> sd @ n # p) \<longrightarrow> fs_get (js_fs st') q = fs_get (js_fs st) q)"
  using assms(1,2,5)
proof (induction names arbitrary: st)
  case Nil
  then show ?case by (simp add: job_Inr)
next
  case (Cons n names)
  obtain st1 where st1: "restore_file from sd n st = (Inr (), st1)" "for_job (restore_file from sd) names st1 = (Inr u, st')"
    using Cons.prems(1) by (auto elim: bind_unitE)
  have 1: "plain_fs (js_fs st1) \<and> (\<forall>q. (\<forall>p. q \<noteq> sd @ n # p) \<longrightarrow> fs_get (js_fs st1) q = fs_get (js_fs st) q)"
    by (rule restore_file_InrD [OF st1(1) Cons.prems(2) assms(3,4)]) (use Cons.prems(3) in simp)
  have "plain_fs (js_fs st') \<and> (\<forall>q. (\<forall>n \<in> set names. \<forall>p. q \<noteq> sd @ n # p) \<longrightarrow> fs_get (js_fs st') q = fs_get (js_fs st1) q)"
    by (rule Cons.IH [OF st1(2)]) (use 1 Cons.prems(3) in simp_all)
  with 1 show ?case by simp
qed

text \<open>The moves of a restore, from the unpacked archive on.\<close>

lemma installed_world:
  assumes "install_world cfg env job server sd (sd @ wp) st = (Inr u, st')" "plain_fs (js_fs st)" "world_place sd wp"
    "good_name (str_uuid (rj_id job))" "fs_get (js_fs st) (restore_tmp_path sd (rj_id job)) = Some EDir"
  shows "plain_fs (js_fs st')"
    "fs_get (js_fs st') (sd @ wp @ rel) = fs_get (js_fs st) (restore_tmp_path sd (rj_id job) @ restored_dir (srv_flavor server) @ rel)"
proof -
  let ?fs = "js_fs st" and ?live = "sd @ wp"
  let ?tmp = "restore_tmp_path sd (rj_id job)" and ?root = "rollback_root_path sd (rj_id job)"
  let ?restored = "?tmp @ restored_dir (srv_flavor server)" and ?aside = "?root @ path_name ?live"
  let ?from = "?tmp @ [if is_java_flavor (srv_flavor server) then ''java'' else ''bedrock'']"
  obtain f1 f2 s1 s2 where f: "is_dir_at ?fs ?restored" "mkdir_p ?root (safe_rmtree ?root ?fs) = Inr f1"
    "if exists_at f1 ?live then os_replace ?live ?aside f1 = Inr f2 else f2 = f1" "os_replace ?restored ?live f2 = Inr (js_fs s1)"
    "for_job (restore_file ?from sd) RESTORED_FILES s1 = (Inr (), s2)"
    "js_fs st' = (if exists_at (js_fs s2) ?aside then safe_rmtree (butlast ?aside) (js_fs s2) else js_fs s2)"
    by (rule install_world_InrD [OF assms(1)])
  have good: "list_all good_name sd" "list_all good_name ?live" "list_all good_name ?tmp" "list_all good_name ?root"
    "list_all good_name ?restored" "list_all good_name ?from" "list_all good_name ?aside"
    using assms(3,4) good_tmp [of sd "rj_id job"]
    by (auto simp: world_place_def restored_dir_def good_name_def path_name_def list_all_iff)
  have aside: "?aside = ?root @ [last wp]" "butlast ?aside = ?root" using assms(3) by (simp_all add: world_place_def path_name_def butlast_append)
  have dirs: "fs_get ?fs (sd @ [''runtime'', ''tmp'']) = Some EDir"
    by (rule plain_prefix_dir [OF assms(2,5)]) (simp add: restore_tmp_path_def prefix_def)
  have root: "butlast ?root = (sd @ [''runtime'', ''tmp'']) @ [''rollback'']" "?root \<noteq> []"
    by (simp_all add: rollback_root_path_def butlast_append)
  have p0: "plain_fs (safe_rmtree ?root ?fs)" by (rule plain_safe_rmtree [OF assms(2)])
  have o0: "same_outside ((sd @ [''runtime'', ''tmp'']) @ [''rollback'']) ?fs (safe_rmtree ?root ?fs)"
    using safe_rmtree_outside [OF assms(2) good(4) root(2)] root(1) by simp
  have d0: "fs_get (safe_rmtree ?root ?fs) (sd @ [''runtime'', ''tmp'']) = Some EDir"
    using same_outsideD [OF o0, of "sd @ [''runtime'', ''tmp'']"] dirs by (simp add: prefix_def)
  have o1: "same_outside ((sd @ [''runtime'', ''tmp'']) @ [''rollback'']) (safe_rmtree ?root ?fs) f1"
    by (rule mkdir_outside [OF p0 good(4) f(2) d0]) (simp add: rollback_root_path_def prefix_def)
  have p1: "plain_fs f1" by (rule mkdir_plain(1) [OF p0 good(4) f(2)])
  have e1: "fs_get f1 (?restored @ q) = fs_get ?fs (?restored @ q)" for q
    by (rule same_outsideD [OF same_outside_trans [OF o0 o1]]) (simp add: restore_tmp_path_def prefix_def)
  have apart: "\<not> prefix ?live (?restored @ q)" "\<not> prefix ?aside (?restored @ q)" for q
    using place_apart(2) [OF assms(3)] by (simp_all add: restore_tmp_path_def rollback_root_path_def prefix_def)
  have 2: "plain_fs f2 \<and> (\<forall>q. fs_get f2 (?restored @ q) = fs_get f1 (?restored @ q))"
  proof (cases "exists_at f1 ?live")
    case True
    then have r: "os_replace ?live ?aside f1 = Inr f2" using f(3) by simp
    have "plain_fs f2" by (rule plain_os_replace [OF p1 good(2,7) r])
    moreover have "f2 = f1 \<or> f2 = move_tree ?live ?aside f1" using os_replace_InrD [OF p1 good(2,7) r] by auto
    ultimately show ?thesis using apart by (auto simp: fs_get_def map_of_move)
  qed (use f(3) p1 in simp)
  have p3: "plain_fs (js_fs s1)" by (rule plain_os_replace [OF _ good(5,2) f(4)]) (use 2 in simp)
  have "js_fs s1 = move_tree ?restored ?live f2"
    using os_replace_InrD [OF _ good(5,2) f(4)] 2 apart(1) [of "[]"] by auto
  then have e3: "fs_get (js_fs s1) (sd @ wp @ rel) = fs_get f2 (?restored @ rel)"
    using assms(3) by (simp add: fs_get_def map_of_move world_place_def restore_tmp_path_def)
  have names: "list_all good_name RESTORED_FILES" by (simp add: RESTORED_FILES_def good_name_def)
  note 4 = restore_files_InrD [OF f(5) p3 good(6,1) names]
  have e4: "fs_get (js_fs s2) (sd @ wp @ rel) = fs_get (js_fs s1) (sd @ wp @ rel)"
    using 4 place_apart(3) [OF assms(3), of _ rel] by simp
  have 5: "plain_fs (js_fs st') \<and> fs_get (js_fs st') (sd @ wp @ rel) = fs_get (js_fs s2) (sd @ wp @ rel)"
  proof (cases "exists_at (js_fs s2) ?aside")
    case True
    have "same_outside (butlast ?root) (js_fs s2) (safe_rmtree ?root (js_fs s2))"
      by (rule safe_rmtree_outside [OF _ good(4) root(2)]) (use 4 in simp)
    from same_outsideD [OF this, of "sd @ wp @ rel"] True f(6) aside(2) plain_safe_rmtree 4 place_apart(1) [OF assms(3)] root(1)
    show ?thesis by simp
  qed (use f(6) 4 in simp)
  then show "plain_fs (js_fs st')" by simp
  show "fs_get (js_fs st') (sd @ wp @ rel) = fs_get ?fs (?tmp @ restored_dir (srv_flavor server) @ rel)"
    using 5 e4 e3 2 e1 by simp
qed

section \<open>A restore that fails leaves the world as it was\<close>

lemma good_uuid: "good_name (str_uuid u)"
proof -
  have h: "c \<noteq> CHR ''/'' \<and> c \<noteq> CHR ''.''" if "c \<in> set (hex_digits 32 u)" for c
  proof -
    from that have "\<exists>d < 16. c = hex_char d" by (rule hex_digits_chars)
    then obtain d where "d < 16" "c = hex_char d" by blast
    then have "hex_val c = Some d" by (simp add: hex_val_hex_char)
    then show ?thesis by (auto simp: hex_val_def Let_def)
  qed
  have "c \<noteq> CHR ''/'' \<and> c \<noteq> CHR ''.''" if "c \<in> set (str_uuid u)" for c
    using that h by (auto simp: str_uuid_def Let_def dest: in_set_takeD in_set_dropD)
  then have "CHR ''/'' \<notin> set (str_uuid u)" "CHR ''.'' \<notin> set (str_uuid u)" by blast+
  moreover have "str_uuid u \<noteq> []" by (simp add: str_uuid_def Let_def)
  ultimately show ?thesis by (auto simp: good_name_def)
qed

definition world_at :: "path \<Rightarrow> fs \<Rightarrow> path \<Rightarrow> fs \<Rightarrow> bool" where
  "world_at p fs live orig \<longleftrightarrow> (\<forall>rel. fs_get fs (p @ rel) = fs_get orig (live @ rel))"

text \<open>Before the world in use has been moved, and after.\<close>

definition untouched :: "path \<Rightarrow> path \<Rightarrow> uuid \<Rightarrow> fs \<Rightarrow> job_state \<Rightarrow> bool" where
  "untouched sd wp jid orig st \<longleftrightarrow> plain_fs (js_fs st) \<and> world_at (sd @ wp) (js_fs st) (sd @ wp) orig \<and>
     js_active st \<in> {None, Some (sd @ wp)} \<and> js_tmp st \<in> {None, Some (restore_tmp_path sd jid)} \<and>
     (js_rollback st = None \<or> js_rollback st = Some (rollback_root_path sd jid @ [last wp]) \<and>
      fs_get (js_fs st) (rollback_root_path sd jid @ [last wp]) = None)"

definition moved :: "path \<Rightarrow> path \<Rightarrow> uuid \<Rightarrow> fs \<Rightarrow> job_state \<Rightarrow> bool" where
  "moved sd wp jid orig st \<longleftrightarrow> plain_fs (js_fs st) \<and> world_at (rollback_root_path sd jid @ [last wp]) (js_fs st) (sd @ wp) orig \<and>
     js_active st = Some (sd @ wp) \<and> js_tmp st \<in> {None, Some (restore_tmp_path sd jid)} \<and>
     js_rollback st = Some (rollback_root_path sd jid @ [last wp])"

definition world_safe :: "path \<Rightarrow> path \<Rightarrow> uuid \<Rightarrow> fs \<Rightarrow> job_state \<Rightarrow> bool" where
  "world_safe sd wp jid orig st \<longleftrightarrow> untouched sd wp jid orig st \<or> moved sd wp jid orig st"

lemma sessionless_restore [simp]:
  "sessionless (untouched sd wp jid orig)" "sessionless (moved sd wp jid orig)" "sessionless (world_safe sd wp jid orig)"
  "sessionless (\<lambda>st. untouched sd wp jid orig st \<and> js_active st = a)"
  "sessionless (\<lambda>st. untouched sd wp jid orig st \<and> js_active st = a \<and> js_rollback st = c)"
  by (simp_all add: sessionless_def untouched_def moved_def world_safe_def)

lemma good_aside:
  assumes "world_place sd wp"
  shows "list_all good_name (rollback_root_path sd jid @ [last wp])" "list_all good_name (rollback_root_path sd jid)"
    "list_all good_name (restore_tmp_path sd jid)" "list_all good_name (sd @ wp)" "list_all good_name sd"
  using assms good_tmp [of sd jid] good_uuid [of jid] by (auto simp: world_place_def list_all_iff)

text \<open>Neither directory is within the other.\<close>

lemma aside_apart:
  assumes "world_place sd wp"
  shows "\<not> prefix (sd @ wp) (rollback_root_path sd jid @ q)" "\<not> prefix (rollback_root_path sd jid @ q) (sd @ wp @ r)"
    "\<not> prefix (sd @ wp) (restore_tmp_path sd jid @ q)" "\<not> prefix (restore_tmp_path sd jid @ q) (sd @ wp @ r)"
    "\<not> prefix (sd @ wp @ r) (rollback_root_path sd jid @ q)" "\<not> prefix (sd @ wp @ r) (restore_tmp_path sd jid @ q)"
    "\<not> prefix (rollback_root_path sd jid @ q) (restore_tmp_path sd jid @ s)"
  using assms
  by (cases wp; auto simp: rollback_root_path_def restore_tmp_path_def prefix_def world_place_def)+

lemma untouched_elsewhere:
  assumes "untouched sd wp jid orig st" "plain_fs fs"
    and "\<And>rel. fs_get fs (sd @ wp @ rel) = fs_get (js_fs st) (sd @ wp @ rel)"
    and "js_rollback st \<noteq> None \<Longrightarrow> fs_get fs (rollback_root_path sd jid @ [last wp]) = None"
  shows "untouched sd wp jid orig (st\<lparr>js_fs := fs\<rparr>)"
  using assms by (auto simp: untouched_def world_at_def)

lemma moved_elsewhere:
  assumes "moved sd wp jid orig st" "plain_fs fs"
    and "\<And>rel. fs_get fs (rollback_root_path sd jid @ last wp # rel) = fs_get (js_fs st) (rollback_root_path sd jid @ last wp # rel)"
  shows "moved sd wp jid orig (st\<lparr>js_fs := fs\<rparr>)"
  using assms by (auto simp: moved_def world_at_def)

text \<open>Putting the world aside, and back.\<close>

lemma put_aside:
  assumes "untouched sd wp jid orig st" "world_place sd wp" "js_active st = Some (sd @ wp)"
    "js_rollback st = Some (rollback_root_path sd jid @ [last wp])"
    and "os_replace (sd @ wp) (rollback_root_path sd jid @ [last wp]) (js_fs st) = Inr fs"
  shows "moved sd wp jid orig (st\<lparr>js_fs := fs\<rparr>)"
proof -
  let ?aside = "rollback_root_path sd jid @ [last wp]"
  have pl: "plain_fs (js_fs st)" using assms(1) by (simp add: untouched_def)
  note r = os_replace_InrD [OF pl good_aside(4,1) [OF assms(2)] assms(5)]
  then have "fs = move_tree (sd @ wp) ?aside (js_fs st)" using aside_apart(1) [OF assms(2), of jid "[last wp]"] by auto
  moreover have "plain_fs fs" by (rule plain_os_replace [OF pl good_aside(4,1) [OF assms(2)] assms(5)])
  moreover have "sd @ wp \<noteq> []" "?aside \<noteq> []" using assms(2) by (simp_all add: world_place_def)
  ultimately show ?thesis
    using assms(1,3,4) fs_get_moved [of "sd @ wp" ?aside "js_fs st"] by (auto simp: moved_def untouched_def world_at_def)
qed

lemma put_back:
  assumes "moved sd wp jid orig st" "world_place sd wp"
    and "os_replace (rollback_root_path sd jid @ [last wp]) (sd @ wp) (js_fs st) = Inr fs"
  shows "untouched sd wp jid orig (st\<lparr>js_fs := fs\<rparr>)"
proof -
  let ?aside = "rollback_root_path sd jid @ [last wp]"
  have pl: "plain_fs (js_fs st)" using assms(1) by (simp add: moved_def)
  note r = os_replace_InrD [OF pl good_aside(1,4) [OF assms(2)] assms(3)]
  have ne: "\<not> prefix (sd @ wp) ?aside" using aside_apart(1) [OF assms(2), of jid "[last wp]"] .
  then have "fs = move_tree ?aside (sd @ wp) (js_fs st)" using r by auto
  moreover have "plain_fs fs" by (rule plain_os_replace [OF pl good_aside(1,4) [OF assms(2)] assms(3)])
  moreover have "sd @ wp \<noteq> []" "?aside \<noteq> []" using assms(2) by (simp_all add: world_place_def)
  ultimately show ?thesis
    using assms(1) fs_get_moved [of ?aside "sd @ wp" "js_fs st"] fs_get_moved_away [of ?aside "sd @ wp" "js_fs st"] ne
    by (auto simp: moved_def untouched_def world_at_def)
qed

lemma jkeeps_update: "sessionless P \<Longrightarrow> jkeeps P (update_restore_job now i rstatus phase percent)"
  "sessionless P \<Longrightarrow> jkeeps P (update_backup_job now i status phase mn mx bytes)"
  by (simp_all add: update_restore_job_def update_backup_job_def jkeeps_sessionless)

lemma jkeeps_ignore [job_rules]: "jkeeps P m \<Longrightarrow> jkeeps P (ignore_job m)"
  unfolding ignore_job_def by (intro job_rules)

subsection \<open>The steps\<close>

lemma triple_swap:
  assumes "world_place sd wp" "fs_get orig (sd @ wp) \<noteq> None" "\<And>q. \<not> prefix (sd @ wp) (restored @ q)"
    "list_all good_name restored" "\<And>q. \<not> prefix restored (rollback_root_path sd jid @ q)"
  defines "aside \<equiv> rollback_root_path sd jid @ [last wp]"
  shows "jtriple (\<lambda>st. untouched sd wp jid orig st \<and> js_active st = Some (sd @ wp) \<and> js_rollback st = Some aside)
    (swap_worlds (sd @ wp) aside restored) (\<lambda>_. moved sd wp jid orig) (\<lambda>_. world_safe sd wp jid orig)"
    (is "jtriple ?P _ _ _")
proof -
  note good = good_aside [OF assms(1)]
  have up: "''..'' \<notin> set (sd @ wp)" "''..'' \<notin> set aside" using good_not_up [OF good(4)] good_not_up [OF good(1)] by (simp_all add: aside_def)
  have there: "exists_at (js_fs st) (sd @ wp)" if "untouched sd wp jid orig st" for st
    using that assms(2) by (auto simp: untouched_def world_at_def exists_plain [OF _ up(1)] dest: spec [of _ "[]"])
  have kept: "exists_at (js_fs st) aside" if "moved sd wp jid orig st" for st
    using that assms(2) unfolding moved_def world_at_def aside_def [symmetric]
    by (auto simp: exists_plain [OF _ up(2)] dest: spec [of _ "[]"])
  have 1: "jtriple ?P (fs_job (os_replace (sd @ wp) aside)) (\<lambda>_. moved sd wp jid orig) (\<lambda>_. world_safe sd wp jid orig)"
    unfolding aside_def by (rule jtriple_fs) (auto simp: world_safe_def intro: put_aside [OF _ assms(1)])
  have 2: "jtriple (moved sd wp jid orig) (fs_job (os_replace restored (sd @ wp))) (\<lambda>_. moved sd wp jid orig) (\<lambda>_. moved sd wp jid orig)"
  proof (rule jtriple_fs)
    fix st fs assume m: "moved sd wp jid orig st" and r: "os_replace restored (sd @ wp) (js_fs st) = Inr fs"
    then have pl: "plain_fs (js_fs st)" by (simp add: moved_def)
    have "fs = js_fs st \<or> fs = move_tree restored (sd @ wp) (js_fs st)" using os_replace_InrD [OF pl assms(4) good(4) r] by auto
    moreover have "\<not> prefix restored (rollback_root_path sd jid @ last wp # rel)"
      "\<not> prefix (sd @ wp) (rollback_root_path sd jid @ last wp # rel)" for rel
      using assms(5) aside_apart(1) [OF assms(1)] by blast+
    ultimately show "moved sd wp jid orig (st\<lparr>js_fs := fs\<rparr>)"
      using fs_get_not_moved by (intro moved_elsewhere [OF m plain_os_replace [OF pl assms(4) good(4) r]]) auto
  qed
  have 3: "jtriple (moved sd wp jid orig) (fs_job (os_replace aside (sd @ wp))) (\<lambda>_. untouched sd wp jid orig) (\<lambda>_. moved sd wp jid orig)"
    unfolding aside_def by (rule jtriple_fs) (auto intro: put_back [OF _ assms(1)])
  have 4: "jtriple (moved sd wp jid orig)
     (bind_job (get_job (\<lambda>st. exists_at (js_fs st) aside \<and> \<not> exists_at (js_fs st) (sd @ wp))) (\<lambda>undo.
       bind_job (when_job undo (fs_job (os_replace aside (sd @ wp)))) (\<lambda>_. raise_job e)))
     (\<lambda>_. moved sd wp jid orig) (\<lambda>_. world_safe sd wp jid orig)" for e
  proof (rule jtriple_get_bind)
    fix undo
    have "jtriple (moved sd wp jid orig) (when_job undo (fs_job (os_replace aside (sd @ wp)))) (\<lambda>_. world_safe sd wp jid orig)
        (\<lambda>_. world_safe sd wp jid orig)"
      using jtriple_weaken [OF 3] by (cases undo) (auto simp: when_job_def world_safe_def intro!: jtriple_return)
    then show "jtriple (\<lambda>s. moved sd wp jid orig s \<and> (exists_at (js_fs s) aside \<and> \<not> exists_at (js_fs s) (sd @ wp)) = undo)
       (bind_job (when_job undo (fs_job (os_replace aside (sd @ wp)))) (\<lambda>_. raise_job e))
       (\<lambda>_. moved sd wp jid orig) (\<lambda>_. world_safe sd wp jid orig)"
      by (intro jtriple_bind [where Q = "\<lambda>_. world_safe sd wp jid orig"]) (auto intro!: jtriple_raise elim: jtriple_weaken)
  qed
  show ?thesis
    unfolding swap_worlds_def
  proof (rule jtriple_get_bind)
    fix old
    have "jtriple (\<lambda>st. ?P st \<and> exists_at (js_fs st) (sd @ wp) = old) (when_job old (fs_job (os_replace (sd @ wp) aside)))
        (\<lambda>_. moved sd wp jid orig) (\<lambda>_. world_safe sd wp jid orig)"
    proof (cases old)
      case True
      then show ?thesis unfolding when_job_def by (simp, intro jtriple_weaken [OF 1]) simp_all
    next
      case False
      then show ?thesis using there by (auto simp: jtriple_def)
    qed
    then show "jtriple (\<lambda>st. ?P st \<and> exists_at (js_fs st) (sd @ wp) = old)
     (bind_job (when_job old (fs_job (os_replace (sd @ wp) aside))) (\<lambda>_.
      catch_job (fs_job (os_replace restored (sd @ wp))) (\<lambda>e.
       bind_job (get_job (\<lambda>st. exists_at (js_fs st) aside \<and> \<not> exists_at (js_fs st) (sd @ wp))) (\<lambda>undo.
       bind_job (when_job undo (fs_job (os_replace aside (sd @ wp)))) (\<lambda>_. raise_job e)))))
     (\<lambda>_. moved sd wp jid orig) (\<lambda>_. world_safe sd wp jid orig)"
      by (rule jtriple_bind) (rule jtriple_catch [OF 2 4])
  qed
qed

lemma keeps_restore_files:
  assumes "world_place sd wp" "list_all good_name from" "list_all good_name names" "set names \<subseteq> set RESTORED_FILES"
  shows "jkeeps (moved sd wp jid orig) (for_job (restore_file from sd) names)"
proof (rule jkeeps_for)
  fix n assume n: "n \<in> set names"
  note good = good_aside [OF assms(1)]
  have gn: "good_name n" using assms(3) n by (simp add: list_all_iff)
  have "jkeeps (moved sd wp jid orig) (fs_job (copy_file (from @ [n]) (sd @ [n])))"
  proof (rule jkeeps_fs)
    fix st fs assume m: "moved sd wp jid orig st" and c: "copy_file (from @ [n]) (sd @ [n]) (js_fs st) = Inr fs"
    have pl: "plain_fs (js_fs st)" using m by (simp add: moved_def)
    have g: "list_all good_name (sd @ [n])" "list_all good_name (from @ [n])" "from @ [n] \<noteq> []"
      using good(5) assms(2) gn by simp_all
    obtain q d where q: "q \<in> {sd @ [n], (sd @ [n]) @ [last (from @ [n])]}" "fs = fs_put q (EFile d) (js_fs st)" "q \<noteq> []"
      using copy_file_InrD(2) [OF pl g c] by blast
    have "n \<noteq> ''runtime''" using n assms(4) by (auto simp: RESTORED_FILES_def)
    then have "rollback_root_path sd jid @ last wp # rel \<noteq> q" for rel using q(1) by (auto simp: rollback_root_path_def)
    with q(2,3) show "moved sd wp jid orig (st\<lparr>js_fs := fs\<rparr>)"
      by (intro moved_elsewhere [OF m copy_file_InrD(1) [OF pl g c]]) simp
  qed
  then show "jkeeps (moved sd wp jid orig) (restore_file from sd n)"
    unfolding restore_file_def by (intro job_rules)
qed

lemma triple_prepare:
  assumes "world_place sd wp"
  shows "jtriple (\<lambda>st. untouched sd wp jid orig st \<and> js_active st = Some (sd @ wp))
    (prepare_rollback env jid (rollback_root_path sd jid) (rollback_root_path sd jid @ [last wp]))
    (\<lambda>_ st. untouched sd wp jid orig st \<and> js_active st = Some (sd @ wp) \<and> js_rollback st = Some (rollback_root_path sd jid @ [last wp]))
    (\<lambda>_. world_safe sd wp jid orig)"
    (is "jtriple ?P _ (\<lambda>_. ?Q) _")
proof -
  let ?root = "rollback_root_path sd jid"
  note good = good_aside [OF assms]
  have root: "?root \<noteq> []" "butlast ?root = sd @ [''runtime'', ''tmp'', ''rollback'']" by (simp_all add: rollback_root_path_def butlast_append)
  have set_: "?Q (st\<lparr>js_rollback := Some (?root @ [last wp]), js_fs := safe_rmtree ?root (js_fs st)\<rparr>)" if "?P st" for st
  proof -
    have pl: "plain_fs (js_fs st)" using that by (simp add: untouched_def)
    have "fs_get (safe_rmtree ?root (js_fs st)) (sd @ wp @ rel) = fs_get (js_fs st) (sd @ wp @ rel)" for rel
      using same_outsideD [OF safe_rmtree_outside [OF pl good(2) root(1)], of "sd @ wp @ rel"] place_apart(1) [OF assms] root(2) by simp
    then show ?thesis
      using that plain_safe_rmtree [OF pl] rmtree_below [OF pl good(2) root(1), of "[last wp]"]
      by (auto simp: untouched_def world_at_def)
  qed
  have mk: "?Q (st\<lparr>js_fs := fs\<rparr>)" if "?Q st" "mkdir_p ?root (js_fs st) = Inr fs" for st fs
  proof -
    have pl: "plain_fs (js_fs st)" using that by (simp add: untouched_def)
    note m = make_dirs_InrD(1) [OF mkdir_plain(2) [OF pl good(2) that(2)]]
    have "fs_get fs (sd @ wp @ rel) = fs_get (js_fs st) (sd @ wp @ rel)" for rel
      using m [of "sd @ wp @ rel"] aside_apart(5) [OF assms, of rel jid "[]"] by simp
    moreover have "fs_get fs (?root @ [last wp]) = fs_get (js_fs st) (?root @ [last wp])" using m by simp
    ultimately show ?thesis
      using that(1) untouched_elsewhere [of sd wp jid orig st fs] mkdir_plain(1) [OF pl good(2) that(2)]
      by (auto simp: untouched_def)
  qed
  have safe: "\<And>s. ?P s \<Longrightarrow> world_safe sd wp jid orig s" "\<And>s. ?Q s \<Longrightarrow> world_safe sd wp jid orig s" by (simp_all add: world_safe_def)
  show ?thesis
    unfolding prepare_rollback_def
  proof (intro jkeeps_bindD [OF jkeeps_update(1)] jkeeps_bindD [OF jkeeps_sessionless]
        jtriple_bind [where Q = "\<lambda>_. ?Q" and m = "set_job _"] jtriple_bind [where Q = "\<lambda>_. ?Q" and m = "fs_job _"]
        jtriple_set jtriple_fs)
    show "jtriple ?Q (update_restore_job (be_now env) jid RestoreStatus.swapping ''swapping'' 75) (\<lambda>_. ?Q) (\<lambda>_. world_safe sd wp jid orig)"
      using jkeeps_update(1) [of ?Q] unfolding jkeeps_def by (rule jtriple_weaken) (simp_all add: safe)
  qed (simp_all add: set_ mk safe)
qed

subsection \<open>Unpacking\<close>

definition fresh_restore :: "fs \<Rightarrow> job_state \<Rightarrow> bool" where
  "fresh_restore orig st \<longleftrightarrow> js_fs st = orig \<and> js_active st = None \<and> js_tmp st = None \<and> js_rollback st = None"

lemma sessionless_fresh [simp]: "sessionless (fresh_restore orig)"
  by (simp add: sessionless_def fresh_restore_def)

lemma untouched_tmp:
  assumes "world_place sd wp" "untouched sd wp jid orig st"
  shows "untouched sd wp jid orig (st\<lparr>js_tmp := Some (restore_tmp_path sd jid), js_fs := safe_rmtree (restore_tmp_path sd jid) (js_fs st)\<rparr>)"
    "mkdir_p (restore_tmp_path sd jid) (js_fs st) = Inr fs \<Longrightarrow> untouched sd wp jid orig (st\<lparr>js_fs := fs\<rparr>)"
    "extract_safely a (restore_tmp_path sd jid) (js_fs st) = Inr fs \<Longrightarrow> untouched sd wp jid orig (st\<lparr>js_fs := fs\<rparr>)"
proof -
  let ?tmp = "restore_tmp_path sd jid" and ?aside = "rollback_root_path sd jid @ [last wp]"
  note good = good_aside [OF assms(1)]
  have pl: "plain_fs (js_fs st)" using assms(2) by (simp add: untouched_def)
  have apart: "\<not> prefix ?tmp (sd @ wp @ r)" "\<not> prefix (sd @ wp @ r) ?tmp" "\<not> prefix ?tmp ?aside" "\<not> prefix ?aside ?tmp" for r
    using aside_apart(4) [OF assms(1), of jid "[]" r] aside_apart(6) [OF assms(1), of r jid "[]"]
    by (simp_all add: restore_tmp_path_def rollback_root_path_def)
  have ne: "?tmp \<noteq> []" "sd @ wp @ r \<noteq> butlast ?tmp" "?aside \<noteq> butlast ?tmp" for r
    using apart(2) [of r] by (auto simp: restore_tmp_path_def rollback_root_path_def butlast_append)
  show "untouched sd wp jid orig (st\<lparr>js_tmp := Some ?tmp, js_fs := safe_rmtree ?tmp (js_fs st)\<rparr>)"
    using assms(2) plain_safe_rmtree [OF pl] safe_rmtree_keep [OF pl good(3) apart(1) ne(2)]
      safe_rmtree_keep [OF pl good(3) apart(3) ne(3)] by (auto simp: untouched_def world_at_def)
  show "untouched sd wp jid orig (st\<lparr>js_fs := fs\<rparr>)" if m: "mkdir_p ?tmp (js_fs st) = Inr fs"
    using make_dirs_InrD(1) [OF mkdir_plain(2) [OF pl good(3) m]] apart assms(2)
    by (intro untouched_elsewhere [OF assms(2) mkdir_plain(1) [OF pl good(3) m]]) (auto simp: untouched_def)
  show "untouched sd wp jid orig (st\<lparr>js_fs := fs\<rparr>)" if x: "extract_safely a ?tmp (js_fs st) = Inr fs"
    using extract_elsewhere(2) [OF x pl good(3) apart(1,2)] extract_elsewhere(2) [OF x pl good(3) apart(3,4)] assms(2)
    by (intro untouched_elsewhere [OF assms(2) extract_elsewhere(1) [OF x pl good(3)]]) (auto simp: untouched_def)
qed

lemma triple_unpack:
  assumes place: "world_place sd wp" and orig: "plain_fs orig" "require_server_dir env orig server = Inr sd"
    "active_world_path orig (srv_flavor server) sd (world_name_of server) = sd @ wp"
  shows "jtriple (fresh_restore orig) (unpack_backup cfg env jid b server)
    (\<lambda>d st. (untouched sd wp jid orig st \<and> js_active st = Some (sd @ wp)) \<and> d = sd) (\<lambda>_. world_safe sd wp jid orig)"
    (is "jtriple ?P _ _ (\<lambda>_. ?safe)")
proof -
  let ?Q = "\<lambda>st. untouched sd wp jid orig st \<and> js_active st = Some (sd @ wp)"
  have safe: "\<And>s. ?P s \<Longrightarrow> ?safe s" "\<And>s. ?Q s \<Longrightarrow> ?safe s"
    using orig(1) by (auto simp: fresh_restore_def world_safe_def untouched_def world_at_def)
  have start: "?Q (st\<lparr>js_active := Some (active_world_path (js_fs st) (srv_flavor server) sd (world_name_of server)), js_was_running := r\<rparr>)"
    if "?P st" for st r using that orig by (simp add: fresh_restore_def untouched_def world_at_def)
  have dir: "d = sd" if "require_server_dir env (js_fs st) server = Inr d" "?P st" for d st
    using that orig(2) by (simp add: fresh_restore_def)
  have up: "\<And>s phase n. jtriple ?Q (update_restore_job (be_now env) jid s phase n) (\<lambda>_. ?Q) (\<lambda>_. ?safe)"
    by (rule jtriple_keeps [OF jkeeps_update(1)]) (simp_all add: safe)
  have db: "\<And>m :: unit op. jtriple ?Q (db_job m) (\<lambda>_. ?Q) (\<lambda>_. ?safe)"
    by (rule jtriple_keeps [OF jkeeps_sessionless]) (simp_all add: safe)
  have wh: "\<And>c (m :: unit op). jtriple ?Q (when_job c (db_job m)) (\<lambda>_. ?Q) (\<lambda>_. ?safe)"
    by (rule jtriple_keeps [OF jkeeps_when [OF jkeeps_sessionless]]) (simp_all add: safe)
  have dirs: "jtriple ?P (bind_job (get_job js_fs) (\<lambda>fs. lift_job (require_server_dir env fs server))) (\<lambda>d s. ?P s \<and> d = sd) (\<lambda>_. ?safe)"
    by (rule jtriple_get_bind, rule jtriple_lift) (auto simp: safe dest: dir)
  have arch: "jtriple ?P (bind_job (get_job js_store) (\<lambda>store. lift_job (verify_backup_artifact env store b))) (\<lambda>_. ?P) (\<lambda>_. ?safe)"
    by (rule jtriple_get_bind, rule jtriple_lift) (auto simp: safe)
  have up0: "\<And>s phase n. jtriple ?P (update_restore_job (be_now env) jid s phase n) (\<lambda>_. ?P) (\<lambda>_. ?safe)"
    by (rule jtriple_keeps [OF jkeeps_update(1)]) (simp_all add: safe)
  have rest: "jtriple ?P (bind_job (set_job (\<lambda>st. st\<lparr>js_active := Some (active_world_path (js_fs st) (srv_flavor server) d (world_name_of server)),
          js_was_running := r\<rparr>)) k) Q' R'" if "d = sd" "jtriple ?Q (k ()) Q' R'" for d r k Q' R'
    by (rule jtriple_bind [where Q = "\<lambda>_. ?Q"]) (use that in \<open>auto intro!: jtriple_set start\<close>)
  note tmp = untouched_tmp [OF place]
  show ?thesis
    unfolding unpack_backup_def Let_def
    by (intro jtriple_if jtriple_raise safe jtriple_bind [OF up0] jtriple_bind [OF arch]
        jtriple_bind [where m = "lift_job _" and Q = "\<lambda>_. ?P"] jtriple_bind [OF dirs] jtriple_pure rest jtriple_bind [OF up]
        jtriple_bind [OF db] jtriple_bind [OF wh] jtriple_bind [where m = "set_job _" and Q = "\<lambda>_. ?Q"]
        jtriple_bind [where m = "fs_job _" and Q = "\<lambda>_. ?Q"] jtriple_lift jtriple_set jtriple_fs jtriple_return)
      (simp_all add: safe tmp)
qed

subsection \<open>The rest of the restore\<close>

definition restore_row :: "(restore_job \<Rightarrow> bool) \<Rightarrow> uuid \<Rightarrow> job_state \<Rightarrow> bool" where
  "restore_row c jid st \<longleftrightarrow> (\<forall>r. get_restore_job (ses_committed (js_session st)) jid = Some r \<longrightarrow> c r)"

lemma row_committed:
  assumes "\<And>r. c (f r)" "\<And>r. rj_id (f r) = rj_id r" "\<And>s. P s \<Longrightarrow> R IntegrityError s"
    "\<And>st s. P (st\<lparr>js_session := s\<rparr>) = P st"
  shows "jtriple P (db_job (bind_op (set_restore_job jid f) (\<lambda>_. commit_op)))
    (\<lambda>_ st. restore_row c jid st \<and> ses_objects (js_session st) = ses_committed (js_session st) \<and> P st) R"
proof (rule jtripleI)
  fix st a st'
  assume P: "P st" and m: "db_job (bind_op (set_restore_job jid f) (\<lambda>_. commit_op)) st = (Inr a, st')"
  obtain s where s: "commit_op (set_objects (\<lambda>db. db\<lparr>db_restore_jobs := modify_row rj_id jid f (db_restore_jobs db)\<rparr>) (js_session st)) = (Inr (), s)"
      "st' = st\<lparr>js_session := s\<rparr>"
    using m unfolding job_Inr by (auto simp: set_restore_job_def bind_modify_op)
  from commit_op_InrD [OF s(1)] show "restore_row c jid st' \<and> ses_objects (js_session st') = ses_committed (js_session st') \<and> P st'"
    using s(2) assms(1,2,4) P by (auto simp: restore_row_def get_restore_job_def get_row_modify_row)
next
  fix st e st'
  assume P: "P st" and m: "db_job (bind_op (set_restore_job jid f) (\<lambda>_. commit_op)) st = (Inl e, st')"
  then have "e = IntegrityError \<and> (\<exists>s. st' = st\<lparr>js_session := s\<rparr>)"
    by (auto simp: db_job_def set_restore_job_def bind_modify_op commit_op_def split: prod.splits sum.splits dest: commit_InlD)
  with assms(3,4) P show "R e st'" by auto
qed

abbreviation is_completed :: "restore_job \<Rightarrow> bool" where
  "is_completed r \<equiv> rj_status r = RestoreStatus.completed"

lemma triple_finish:
  "jtriple (moved sd wp (rj_id job) orig) (finish_restore cfg env job sid aside) (\<lambda>_. restore_row is_completed (rj_id job))
     (\<lambda>_. world_safe sd wp (rj_id job) orig)"
proof -
  let ?P = "moved sd wp (rj_id job) orig" and ?safe = "world_safe sd wp (rj_id job) orig"
  have safe: "\<And>s. ?P s \<Longrightarrow> ?safe s" by (simp add: world_safe_def)
  have start: "jtriple ?P (when_job c (bind_job (update_restore_job now jid s phase n) (\<lambda>_. db_job m))) (\<lambda>_. ?P) (\<lambda>_. ?safe)"
    for c now jid s phase n m
    by (rule jtriple_keeps) (intro jkeeps_when jkeeps_bind jkeeps_update jkeeps_sessionless sessionless_restore safe)+
  show ?thesis
    unfolding finish_restore_def Let_def
    by (rule jtriple_bind [OF start], rule jtriple_bind [OF row_committed [where P = ?P and c = is_completed]])
      (auto simp: safe restore_row_def moved_def intro!: jtriple_set)
qed

lemma triple_install:
  assumes place: "world_place sd wp" and there: "fs_get orig (sd @ wp) \<noteq> None"
  shows "jtriple (\<lambda>st. untouched sd wp (rj_id job) orig st \<and> js_active st = Some (sd @ wp))
    (install_world cfg env job server sd (sd @ wp)) (\<lambda>_. restore_row is_completed (rj_id job)) (\<lambda>_. world_safe sd wp (rj_id job) orig)"
proof -
  let ?jid = "rj_id job"
  let ?tmp = "restore_tmp_path sd ?jid" and ?aside = "rollback_root_path sd ?jid @ [last wp]"
  let ?restored = "?tmp @ restored_dir (srv_flavor server)" and ?from = "?tmp @ [if is_java_flavor (srv_flavor server) then ''java'' else ''bedrock'']"
  note good = good_aside [OF place]
  have aside: "path_name (sd @ wp) = [last wp]" using place by (simp add: path_name_def world_place_def)
  have names: "list_all good_name ?restored" "list_all good_name ?from" "list_all good_name RESTORED_FILES"
    using good(3) by (auto simp: restored_dir_def RESTORED_FILES_def good_name_def)
  have apart: "\<not> prefix (sd @ wp) (?restored @ q)" "\<not> prefix ?restored (rollback_root_path sd ?jid @ q)" for q
    using aside_apart(3) [OF place, of ?jid "restored_dir (srv_flavor server) @ q"] by (auto simp: restore_tmp_path_def rollback_root_path_def)
  have files: "jtriple (moved sd wp ?jid orig) (for_job (restore_file ?from sd) RESTORED_FILES) (\<lambda>_. moved sd wp ?jid orig) (\<lambda>_. world_safe sd wp ?jid orig)"
    by (rule jtriple_keeps [OF keeps_restore_files [OF place names(2,3)]]) (simp_all add: world_safe_def)
  show ?thesis
    unfolding install_world_def Let_def aside
    by (rule jtriple_get_bind, rule jtriple_if, rule jtriple_raise, simp add: world_safe_def,
        rule jtriple_bind [OF jtriple_pre [OF triple_prepare [OF place]]], simp,
        rule jtriple_bind [OF triple_swap [OF place there apart(1) names(1) apart(2)]],
        rule jtriple_bind [OF files], rule triple_finish)
qed

lemma triple_restore:
  assumes place: "world_place sd wp" and there: "fs_get orig (sd @ wp) \<noteq> None"
    and orig: "plain_fs orig" "require_server_dir env orig server = Inr sd"
      "active_world_path orig (srv_flavor server) sd (world_name_of server) = sd @ wp"
  shows "jtriple (fresh_restore orig) (restore_body cfg env job b server) (\<lambda>_. restore_row is_completed (rj_id job)) (\<lambda>_. world_safe sd wp (rj_id job) orig)"
proof -
  let ?jid = "rj_id job"
  have safe: "world_safe sd wp ?jid orig s" if "fresh_restore orig s" for s
    using that orig(1) by (auto simp: fresh_restore_def world_safe_def untouched_def world_at_def)
  have begin_: "jtriple (fresh_restore orig) (begin_restore now ?jid) (\<lambda>_. fresh_restore orig) (\<lambda>_. world_safe sd wp ?jid orig)" for now
    unfolding begin_restore_def by (rule jtriple_keeps [OF jkeeps_sessionless]) (simp_all add: safe)
  have install: "jtriple (\<lambda>st. (untouched sd wp ?jid orig st \<and> js_active st = Some (sd @ wp)) \<and> js_active st = live)
      (install_world cfg env job server sd (case live of None \<Rightarrow> [] | Some p \<Rightarrow> p)) (\<lambda>_. restore_row is_completed ?jid) (\<lambda>_. world_safe sd wp ?jid orig)" for live
    using triple_install [OF place there, of job cfg env server] by (cases "live = Some (sd @ wp)") (auto simp: jtriple_def)
  show ?thesis
    unfolding restore_body_def
    by (rule jtriple_get_bind, rule jtriple_if, rule jtriple_raise, simp add: safe, rule jtriple_bind [OF jtriple_pre [OF begin_]], simp,
        rule jtriple_bind [OF triple_unpack [OF place orig]], rule jtriple_pure, simp only:, rule jtriple_get_bind, rule install)
qed

subsection \<open>The handler\<close>

lemma put_failed_aside:
  assumes "world_place sd wp" "moved sd wp jid orig st" "failed_name (sd @ wp) jid = Inr gone"
  shows "moved sd wp jid orig (st\<lparr>js_fs := safe_rmtree gone (js_fs st)\<rparr>)"
    "os_replace (sd @ wp) gone (js_fs st) = Inr fs \<Longrightarrow> moved sd wp jid orig (st\<lparr>js_fs := fs\<rparr>)"
proof -
  let ?name = "last wp @ ''.failed-restore-'' @ str_uuid jid"
  have gone: "gone = sd @ butlast wp @ [?name]"
    using assms(1,3) by (auto simp: failed_name_def world_place_def butlast_append split: if_splits)
  note good = good_aside [OF assms(1)]
  have "good_name (last wp)" using assms(1) by (simp add: world_place_def list_all_iff)
  then have "good_name ?name" using good_uuid [of jid] by (auto simp: good_name_def Cons_eq_append_conv append_eq_Cons_conv)
  then have gf: "list_all good_name gone"
    using assms(1) by (auto simp: gone world_place_def list_all_iff dest: in_set_butlastD)
  have pl: "plain_fs (js_fs st)" using assms(2) by (simp add: moved_def)
  have hd: "''runtime'' # x \<noteq> butlast wp" "butlast wp \<noteq> ''runtime'' # x" for x
    using assms(1) by (cases wp rule: rev_cases; auto simp: world_place_def)+
  have "?name \<noteq> ''runtime''"
  proof
    assume "?name = ''runtime''"
    then have "CHR ''.'' \<in> set ''runtime''" by (metis Un_iff append_Cons list.set_intros(1) set_append)
    then show False by simp
  qed
  then have apart: "\<not> prefix gone (rollback_root_path sd jid @ last wp # rel)" "rollback_root_path sd jid @ last wp # rel \<noteq> butlast gone" for rel
    using hd by (auto simp: gone rollback_root_path_def prefix_def butlast_append neq_Nil_conv Cons_eq_append_conv)
  show "moved sd wp jid orig (st\<lparr>js_fs := safe_rmtree gone (js_fs st)\<rparr>)"
    by (rule moved_elsewhere [OF assms(2) plain_safe_rmtree [OF pl] safe_rmtree_keep [OF pl gf apart]])
  assume r: "os_replace (sd @ wp) gone (js_fs st) = Inr fs"
  have "fs = js_fs st \<or> fs = move_tree (sd @ wp) gone (js_fs st)" using os_replace_InrD [OF pl good(4) gf r] by auto
  then show "moved sd wp jid orig (st\<lparr>js_fs := fs\<rparr>)"
    using fs_get_not_moved [OF aside_apart(1) [OF assms(1)] apart(1)]
    by (intro moved_elsewhere [OF assms(2) plain_os_replace [OF pl good(4) gf r]]) auto
qed

lemma triple_roll_back:
  assumes place: "world_place sd wp" and there: "fs_get orig (sd @ wp) \<noteq> None"
  shows "jtriple (world_safe sd wp jid orig) (roll_back jid True) (\<lambda>_. untouched sd wp jid orig) (\<lambda>_ _. True)"
proof -
  let ?aside = "rollback_root_path sd jid @ [last wp]"
  let ?found = "\<lambda>st. case (js_active st, js_rollback st) of
        (Some live, Some aside) \<Rightarrow> if exists_at (js_fs st) aside then Some (live, aside) else None | _ \<Rightarrow> None"
  note good = good_aside [OF place]
  have aside: "exists_at (js_fs st) ?aside \<longleftrightarrow> fs_get (js_fs st) ?aside \<noteq> None" if "plain_fs (js_fs st)" for st
    by (rule exists_plain [OF that good_not_up [OF good(1)]])
  have found: "?found st = (if moved sd wp jid orig st then Some (sd @ wp, ?aside) else None)" if "world_safe sd wp jid orig st" for st
  proof (cases "moved sd wp jid orig st")
    case True
    then have "fs_get (js_fs st) ?aside \<noteq> None" using there by (auto simp: moved_def world_at_def dest: spec [of _ "[]"])
    with True aside [of st] show ?thesis by (auto simp: moved_def)
  next
    case False
    then have u: "untouched sd wp jid orig st" using that by (simp add: world_safe_def)
    with aside [of st] False show ?thesis by (auto simp: untouched_def split: option.split)
  qed
  have again: "jtriple (moved sd wp jid orig)
    (bind_job (get_job (\<lambda>st. exists_at (js_fs st) (sd @ wp))) (\<lambda>present.
         bind_job (when_job present
           (bind_job (lift_job (failed_name (sd @ wp) jid)) (\<lambda>failed_path.
            bind_job (set_job (\<lambda>st. st\<lparr>js_fs := safe_rmtree failed_path (js_fs st)\<rparr>)) (\<lambda>_.
            fs_job (os_replace (sd @ wp) failed_path))))) (\<lambda>_.
         bind_job (fs_job (os_replace ?aside (sd @ wp))) (\<lambda>_.
         return_job True)))) (\<lambda>_. untouched sd wp jid orig) (\<lambda>_ _. True)"
  proof (rule jtriple_get_bind, rule jtriple_bind)
    fix present
    let ?m = "bind_job (lift_job (failed_name (sd @ wp) jid)) (\<lambda>failed_path.
            bind_job (set_job (\<lambda>st. st\<lparr>js_fs := safe_rmtree failed_path (js_fs st)\<rparr>)) (\<lambda>_.
            fs_job (os_replace (sd @ wp) failed_path)))"
    note put = put_failed_aside [OF place]
    have "jtriple (moved sd wp jid orig) ?m (\<lambda>_. moved sd wp jid orig) (\<lambda>_ _. True)"
      by (rule jtriple_bind [where Q = "\<lambda>p st. moved sd wp jid orig st \<and> failed_name (sd @ wp) jid = Inr p"], rule jtriple_lift, simp, simp,
          rule jtriple_pure, rule jtriple_bind [where Q = "\<lambda>_. moved sd wp jid orig"], rule jtriple_set, erule put(1), assumption,
          rule jtriple_fs, erule put(2), assumption, assumption, simp)
    then show "jtriple (\<lambda>s. moved sd wp jid orig s \<and> exists_at (js_fs s) (sd @ wp) = present) (when_job present ?m) (\<lambda>_. moved sd wp jid orig) (\<lambda>_ _. True)"
      by (cases present) (auto simp: when_job_def intro!: jtriple_return elim: jtriple_pre)
    show "jtriple (moved sd wp jid orig) (bind_job (fs_job (os_replace ?aside (sd @ wp))) (\<lambda>_. return_job True)) (\<lambda>_. untouched sd wp jid orig) (\<lambda>_ _. True)"
      by (rule jtriple_bind [where Q = "\<lambda>_. untouched sd wp jid orig"], rule jtriple_fs) (auto intro: put_back [OF _ place] jtriple_return)
  qed
  show ?thesis
    unfolding roll_back_def simp_thms
  proof (rule jtriple_get_bind)
    fix a
    show "jtriple (\<lambda>s. world_safe sd wp jid orig s \<and> ?found s = a)
      (case a of None \<Rightarrow> return_job False | Some (live, aside) \<Rightarrow>
         bind_job (get_job (\<lambda>st. exists_at (js_fs st) live)) (\<lambda>present.
         bind_job (when_job present
           (bind_job (lift_job (failed_name live jid)) (\<lambda>failed_path.
            bind_job (set_job (\<lambda>st. st\<lparr>js_fs := safe_rmtree failed_path (js_fs st)\<rparr>)) (\<lambda>_.
            fs_job (os_replace live failed_path))))) (\<lambda>_.
         bind_job (fs_job (os_replace aside live)) (\<lambda>_. return_job True)))) (\<lambda>_. untouched sd wp jid orig) (\<lambda>_ _. True)"
    proof (cases "a = Some (sd @ wp, ?aside)")
      case True
      with found show ?thesis by (auto intro!: jtriple_pre [OF again] split: if_splits)
    next
      case False
      have "a = None \<and> untouched sd wp jid orig s" if "world_safe sd wp jid orig s" "?found s = a" for s
        using found [OF that(1)] that False by (auto simp: world_safe_def split: if_splits)
      then show ?thesis by (cases a) (auto simp: jtriple_def return_job_def)
    qed
  qed
qed

definition restore_rows :: "(restore_job \<Rightarrow> bool) \<Rightarrow> uuid \<Rightarrow> session \<Rightarrow> bool" where
  "restore_rows c jid s \<longleftrightarrow> (\<forall>r. get_restore_job (ses_committed s) jid = Some r \<longrightarrow> c r) \<and>
     (\<forall>r. get_restore_job (ses_objects s) jid = Some r \<longrightarrow> c r)"

lemma keeps_restore_rows: "keeps (restore_rows c jid) (bind_op (orchestrator_start cfg env sid) (\<lambda>_. commit_op))"
  unfolding orchestrator_start_def
  by (intro op_rules keeps_set_server keeps_commit) (simp_all add: restore_rows_def get_restore_job_def upd_server_def)

abbreviation rollback_lost :: "restore_job \<Rightarrow> bool" where
  "rollback_lost r \<equiv> rj_error_code r = Some ''rollback_failed''"

lemma triple_restore_failed:
  assumes place: "world_place sd wp" and there: "fs_get orig (sd @ wp) \<noteq> None" and enabled: "rj_rollback_enabled job"
  shows "jtriple (world_safe sd wp (rj_id job) orig) (restore_failed cfg env job sid e)
    (\<lambda>_ st. untouched sd wp (rj_id job) orig st \<or> session_only (restore_rows rollback_lost (rj_id job)) st) (\<lambda>_ _. True)"
proof -
  let ?jid = "rj_id job"
  let ?A = "untouched sd wp ?jid orig" and ?B = "session_only (restore_rows rollback_lost ?jid)"
  let ?attempt = "catch_job
        (bind_job (roll_back ?jid True) (\<lambda>back.
         return_job (if back then (RestoreStatus.rolled_back, ''rolled_back'', exn_code ''restore_failed'' e)
                     else (RestoreStatus.failed, ''failed'', exn_code ''restore_failed'' e))))
        (\<lambda>_. return_job (RestoreStatus.failed, ''failed'', ''rollback_failed''))"
  have try_: "jtriple (world_safe sd wp ?jid orig) ?attempt (\<lambda>x st. ?A st \<or> snd (snd x) = ''rollback_failed'') (\<lambda>_ _. True)"
    by (rule jtriple_catch [where R = "\<lambda>_ _. True"], rule jtriple_bind [OF triple_roll_back [OF place there]], rule jtriple_return, simp,
        rule jtriple_return, simp)
  have row: "jtriple (\<lambda>st. ?A st \<or> code = ''rollback_failed'')
      (db_job (bind_op (set_restore_job ?jid (\<lambda>j. j\<lparr>rj_status := status, rj_phase := phase, rj_error_code := Some code,
        rj_completed_at := Some now, rj_updated_at := now\<rparr>)) (\<lambda>_. commit_op))) (\<lambda>_ st. ?A st \<or> ?B st) (\<lambda>_ _. True)"
    for status phase code now
    by (rule jtriple_weaken [OF row_committed [where P = "\<lambda>st. ?A st \<or> code = ''rollback_failed''" and c = "\<lambda>r. rj_error_code r = Some code"]])
      (auto simp: restore_row_def session_only_def restore_rows_def untouched_def)
  have start: "jkeeps (\<lambda>st. ?A st \<or> ?B st)
      (when_job c (ignore_job (db_job (bind_op (orchestrator_start cfg (be_start env) sid) (\<lambda>_. commit_op)))))" for c
    by (intro jkeeps_disj job_rules keeps_restore_rows jkeeps_sessionless) simp
  show ?thesis
    unfolding restore_failed_def Let_def enabled [THEN eq_True [THEN iffD2]] case_prod_unfold
    by (rule jtriple_bind [OF try_], rule jtriple_bind [OF jtriple_pre [OF row]], simp,
        rule jtriple_get_bind, rule jtriple_pre [OF jtriple_keeps [OF start]]) simp_all
qed

lemma keeps_cleanup: "world_place sd wp \<Longrightarrow> untouched sd wp jid orig st \<Longrightarrow> restore_cleanup st = (r, st') \<Longrightarrow> untouched sd wp jid orig st'"
  using untouched_tmp(1) [of sd wp jid orig st] by (auto simp: restore_cleanup_def set_job_def untouched_def)


section \<open>A restore that is undone\<close>

text \<open>It is to start a server nobody pays for.\<close>

lemma world_server_simps [simp]: "srv_id (world_server flavor) = 10" "srv_flavor (world_server flavor) = flavor"
  by (simp_all add: world_server_def sample_server_def)

lemma restore_rows [simp]:
  "get_restore_job (restore_db flavor restart) 80 = Some (plain_restore_job\<lparr>rj_restart_after_restore := restart\<rparr>)"
  "get_backup (restore_db flavor restart) 60 =
     Some (plain_backup\<lparr>bk_status := BackupStatus.completed, bk_checksum_sha256 := Some ''ab'', bk_size_bytes := 2\<rparr>)"
  "get_server (restore_db flavor restart) 10 = Some (world_server flavor)"
  by (simp_all add: restore_db_def get_restore_job_def get_backup_def get_server_def plain_restore_job_def plain_backup_def
      world_server_def sample_server_def)

lemma restore_job_simps [simp]:
  "rj_backup_id (plain_restore_job\<lparr>rj_restart_after_restore := restart\<rparr>) = 60"
  "rj_server_id (plain_restore_job\<lparr>rj_restart_after_restore := restart\<rparr>) = 10"
  "rj_rollback_enabled (plain_restore_job\<lparr>rj_restart_after_restore := restart\<rparr>)"
  by (simp_all add: plain_restore_job_def)

lemma java_world_facts:
  "plain_fs (java_world_fs d)"
  "require_server_dir idle_backup_env (java_world_fs ''new'') (world_server ServerFlavor.PAPER) = Inr [''srv'', ''10'']"
  "active_world_path (java_world_fs ''new'') (srv_flavor (world_server ServerFlavor.PAPER)) [''srv'', ''10'']
     (world_name_of (world_server ServerFlavor.PAPER)) = [''srv'', ''10''] @ [''w'']"
  "world_place [''srv'', ''10''] [''w'']" "fs_get (java_world_fs d) ([''srv'', ''10''] @ [''w'']) = Some EDir"
proof -
  show "plain_fs (java_world_fs d)"
    by (rule plain_fs_entries) (simp add: java_world_fs_def fs_get_def member_of_def good_name_def)
  show "require_server_dir idle_backup_env (java_world_fs ''new'') (world_server ServerFlavor.PAPER) = Inr [''srv'', ''10'']"
    "active_world_path (java_world_fs ''new'') (srv_flavor (world_server ServerFlavor.PAPER)) [''srv'', ''10'']
      (world_name_of (world_server ServerFlavor.PAPER)) = [''srv'', ''10''] @ [''w'']"
    "world_place [''srv'', ''10''] [''w'']" by code_simp+
qed (simp add: java_world_fs_def fs_get_def)

lemma unpaid_restore_runs:
  "case run_job (run_restore_job default_settings idle_backup_env 80) (restore_db ServerFlavor.PAPER True) (java_world_fs ''new'')
     (stored_archive_of ''java/world'') of (r, db, fs, st) \<Rightarrow>
     (r, map_option (\<lambda>j. (rj_status j, rj_error_code j)) (get_restore_job db 80)) =
       (Inr (), Some (RestoreStatus.rolled_back, Some ''subscription_required''))"
  by code_simp


end
