(* ===== verification/Restored_Worlds.thy ===== *)
theory Restored_Worlds
  imports Restores
begin

text \<open>
  What comes back: a completed restore of a Java world is the world that was backed up, one of a Bedrock world
  is not where the server looks for it, and a restore that is to start an unpaid server is undone.
\<close>

section \<open>A completed restore brings back what was backed up\<close>

lemma failed_restore_row:
  "jtriple (\<lambda>_. True) (restore_failed cfg env job sid e)
    (\<lambda>_. session_only (restore_rows (\<lambda>r. rj_status r \<in> {RestoreStatus.rolled_back, RestoreStatus.failed}) (rj_id job))) (\<lambda>_ _. True)"
proof -
  let ?c = "\<lambda>r. rj_status r \<in> {RestoreStatus.rolled_back, RestoreStatus.failed}"
  let ?Q = "session_only (restore_rows ?c (rj_id job))"
  have row: "jtriple (\<lambda>_. status \<in> {RestoreStatus.rolled_back, RestoreStatus.failed})
      (db_job (bind_op (set_restore_job (rj_id job) (\<lambda>j. j\<lparr>rj_status := status, rj_phase := phase, rj_error_code := Some code,
        rj_completed_at := Some now, rj_updated_at := now\<rparr>)) (\<lambda>_. commit_op))) (\<lambda>_. ?Q) (\<lambda>_ _. True)"
    for status phase code now
    by (rule jtriple_weaken [OF row_committed [where P = "\<lambda>_. status \<in> {RestoreStatus.rolled_back, RestoreStatus.failed}"
          and c = "\<lambda>r. rj_status r = status"]]) (auto simp: restore_row_def session_only_def restore_rows_def)
  have try_: "jtriple (\<lambda>_. True) (catch_job
        (bind_job (roll_back (rj_id job) enabled) (\<lambda>back.
         return_job (if back then (RestoreStatus.rolled_back, ''rolled_back'', exn_code ''restore_failed'' e)
                     else (RestoreStatus.failed, ''failed'', exn_code ''restore_failed'' e))))
        (\<lambda>_. return_job (RestoreStatus.failed, ''failed'', ''rollback_failed'')))
      (\<lambda>x _. fst x \<in> {RestoreStatus.rolled_back, RestoreStatus.failed}) (\<lambda>_ _. True)" for enabled
    by (rule jtriple_catch [where R = "\<lambda>_ _. True"], rule jtriple_bind [where Q = "\<lambda>_ _. True"])
      (auto simp: jtriple_def return_job_def split: prod.split sum.split)
  have start: "jkeeps ?Q (when_job c (ignore_job (db_job (bind_op (orchestrator_start cfg (be_start env) sid) (\<lambda>_. commit_op)))))" for c
    by (intro job_rules keeps_restore_rows)
  show ?thesis
    unfolding restore_failed_def Let_def case_prod_unfold
    by (rule jtriple_bind [OF try_], rule jtriple_bind [OF jtriple_pre [OF row]], simp,
        rule jtriple_get_bind, rule jtriple_pre [OF jtriple_keeps [OF start]]) simp_all
qed

lemma completed_restoreE:
  assumes run: "run_job (run_restore_job cfg env jid) db fs store = (Inr (), db', fs', store')"
    and rows: "get_restore_job db jid = Some job" "get_backup db (rj_backup_id job) = Some b" "get_server db (rj_server_id job) = Some server"
    and after: "get_restore_job db' jid = Some job'" "rj_status job' = RestoreStatus.completed"
  obtains st where "restore_body cfg env job b server (open_job db fs store) = (Inr (), st)"
    "fs' = (case js_tmp st of None \<Rightarrow> js_fs st | Some p \<Rightarrow> safe_rmtree p (js_fs st))" "rj_id job = jid"
proof -
  have jid: "rj_id job = jid" using get_row_SomeD [OF rows(1) [unfolded get_restore_job_def]] by simp
  obtain st1 st' where st: "catch_job (restore_body cfg env job b server) (restore_failed cfg env job (srv_id server)) (open_job db fs store) = (Inr (), st1)"
      "restore_cleanup st1 = (Inr (), st')" "js_fs st' = fs'" "ses_committed (js_session st') = db'"
    using run rows by (auto simp: run_job_def run_restore_job_def bind_get_job open_job_def finally_job_def restore_cleanup_def set_job_def split: prod.splits sum.splits)
  have row: "ses_committed (js_session st1) = db'"
    using st(2,4) by (auto simp: restore_cleanup_def set_job_def split: option.splits)
  obtain r s where body: "restore_body cfg env job b server (open_job db fs store) = (r, s)" by fastforce
  show ?thesis
  proof (cases r)
    case (Inl e)
    then have "restore_failed cfg env job (srv_id server) e s = (Inr (), st1)" using st(1) body by (simp add: catch_job_def)
    from jtriple_Inr [OF failed_restore_row TrueI this] row after show ?thesis
      by (simp add: session_only_def restore_rows_def jid)
  next
    case (Inr u)
    then have "s = st1" using st(1) body by (simp add: catch_job_def)
    with Inr body st(2,3) show ?thesis
      by (intro that [of st1]) (auto simp: restore_cleanup_def set_job_def jid split: option.splits)
  qed
qed

lemma install_keeps_tmp: "jkeeps (\<lambda>s. js_tmp s = x) (install_world cfg env job server d live)"
  unfolding install_world_def Let_def prepare_rollback_def swap_worlds_def finish_restore_def restore_file_def
  by (intro job_rules jkeeps_update jkeeps_sessionless jkeeps_set jkeeps_fs) (simp_all add: sessionless_def)

text \<open>The archive the restored world comes from, and where its files go.\<close>

lemma restored_world:
  assumes run: "run_job (run_restore_job cfg env jid) db fs store = (Inr (), db', fs', store')"
    and rows: "get_restore_job db jid = Some job" "get_backup db (rj_backup_id job) = Some b" "get_server db (rj_server_id job) = Some server"
    and after: "get_restore_job db' jid = Some job'" "rj_status job' = RestoreStatus.completed"
    and files: "plain_fs fs" "require_server_dir env fs server = Inr sd"
      "active_world_path fs (srv_flavor server) sd (world_name_of server) = sd @ wp" "world_place sd wp"
  obtains art a f1 f2 where "map_of store (srv_id server, rj_backup_id job) = Some art" "a = art_archive art"
    "inner_names a" "extract_all (restore_tmp_path sd jid) a f1 = Inr f2" "plain_fs f1"
    "\<And>q. q \<noteq> [] \<Longrightarrow> fs_get f1 (restore_tmp_path sd jid @ q) = None"
    "\<And>rel. fs_get fs' (sd @ wp @ rel) = fs_get f2 (restore_tmp_path sd jid @ restored_dir (srv_flavor server) @ rel)"
proof -
  let ?tmp = "restore_tmp_path sd jid"
  note good = good_aside [OF files(4)]
  obtain st where st: "restore_body cfg env job b server (open_job db fs store) = (Inr (), st)"
    "fs' = (case js_tmp st of None \<Rightarrow> js_fs st | Some p \<Rightarrow> safe_rmtree p (js_fs st))" "rj_id job = jid"
    by (rule completed_restoreE [OF run rows after])
  obtain d st1 st2 where body: "js_fs st1 = fs" "js_store st1 = store" "unpack_backup cfg env jid b server st1 = (Inr d, st2)"
    "install_world cfg env job server d (active_world_path fs (srv_flavor server) d (world_name_of server)) st2 = (Inr (), st)"
    by (rule restore_body_InrD [OF st(1)]) (simp add: open_job_def st(3))
  obtain a f1 f2 where u: "bk_server_id b = srv_id server" "verify_backup_artifact env store b = Inr a" "require_server_dir env fs server = Inr d"
    "mkdir_p (restore_tmp_path d jid) (safe_rmtree (restore_tmp_path d jid) fs) = Inr f1" "extract_safely a (restore_tmp_path d jid) f1 = Inr f2"
    "js_fs st2 = f2" "js_tmp st2 = Some (restore_tmp_path d jid)"
    by (rule unpack_backup_InrD [OF body(3)]) (use body in simp)
  have d: "d = sd" using u(3) files(2) by simp
  have p1: "plain_fs f1" "fs_get f1 ?tmp = Some EDir"
    using mkdir_plain(1,3) [OF plain_safe_rmtree [OF files(1)] good(3) u(4) [unfolded d]] by simp_all
  note x = extract_outside [OF p1(1) good(3) p1(2) u(5) [unfolded d]]
  have dir: "fs_get f2 ?tmp = Some EDir" using extract_all_keeps(1) [OF x(4) p1(1) good(3) x(3) p1(2)] .
  note inst = installed_world [OF body(4) [unfolded d files(3)], unfolded u(6) st(3), OF x(2) files(4) good_uuid dir]
  have tmp: "js_tmp st = Some ?tmp"
    using jkeepsD [OF install_keeps_tmp u(7) body(4)] d by simp
  have art: "map_of store (srv_id server, rj_backup_id job) \<noteq> None \<and> a = art_archive (the (map_of store (srv_id server, rj_backup_id job)))"
    using u(1,2) get_row_SomeD [OF rows(2) [unfolded get_backup_def]]
    by (auto simp: verify_backup_artifact_def split: option.splits if_splits)
  have fresh: "fs_get f1 (?tmp @ q) = None" if "q \<noteq> []" for q
    by (rule fresh_dir [OF files(1) good(3) _ u(4) [unfolded d] that]) (simp add: restore_tmp_path_def)
  have "fs_get fs' (sd @ wp @ rel) = fs_get f2 (?tmp @ restored_dir (srv_flavor server) @ rel)" for rel
  proof -
    have ne: "?tmp \<noteq> []" "butlast ?tmp = sd @ ''runtime'' # [''tmp'', ''restore'']"
      by (simp_all add: restore_tmp_path_def butlast_append)
    have "fs_get (safe_rmtree ?tmp (js_fs st)) (sd @ wp @ rel) = fs_get (js_fs st) (sd @ wp @ rel)"
      by (rule same_outsideD [OF safe_rmtree_outside [OF inst(1) good(3) ne(1)]]) (use place_apart(1) [OF files(4)] ne(2) in simp)
    with inst(2) [of rel] tmp st(2) show ?thesis by simp
  qed
  with art fresh x(3,4) p1(1) show ?thesis by (intro that) auto
qed

subsection \<open>What a backup stores\<close>

definition stores_world :: "fs \<Rightarrow> archive \<Rightarrow> uuid \<times> uuid \<Rightarrow> job_state \<Rightarrow> bool" where
  "stores_world fs a key st \<longleftrightarrow> js_fs st = fs \<and> (\<forall>art. map_of (js_store st) key = Some art \<longrightarrow> art_archive art = a)"

lemma sessionless_stores [simp]: "sessionless (stores_world fs a key)"
  by (simp add: sessionless_def stores_world_def)

lemma bind_job_assoc: "bind_job (bind_job m f) g = bind_job m (\<lambda>a. bind_job (f a) g)"
  by (rule ext) (simp add: bind_job_def split: prod.split sum.split)

lemma jkeeps_get_bind: "(\<And>s. P s \<Longrightarrow> jkeeps P (k (f s))) \<Longrightarrow> jkeeps P (bind_job (get_job f) k)"
  unfolding jkeeps_def jtriple_def by (simp add: bind_get_job)

lemma jkeeps_lift_bind: "(\<And>a. r = Inr a \<Longrightarrow> jkeeps P (k a)) \<Longrightarrow> jkeeps P (bind_job (lift_job r) k)"
  by (cases r) (auto simp: jkeeps_def jtriple_def job_defs)

lemma jkeeps_if_cases: "(b \<Longrightarrow> jkeeps P m) \<Longrightarrow> (\<not> b \<Longrightarrow> jkeeps P m') \<Longrightarrow> jkeeps P (if b then m else m')"
  by simp

lemma stores_locals [simp]:
  "stores_world fs a key (st\<lparr>js_final := b\<rparr>) = stores_world fs a key st"
  "stores_world fs a key (st\<lparr>js_stopped := b\<rparr>) = stores_world fs a key st"
  "stores_world fs a key (st\<lparr>js_save_held := b\<rparr>) = stores_world fs a key st"
  "stores_world fs a key (st\<lparr>js_completed := b\<rparr>) = stores_world fs a key st"
  by (simp_all add: stores_world_def)

lemma stores_commit: "jkeeps (stores_world fs a key) (commit_local_backup_artifact env a key)"
  unfolding commit_local_backup_artifact_def
  by (intro jkeeps_if_cases jkeeps_bind jkeeps_simple jkeeps_set) (simp add: stores_world_def update_conv)

lemma stores_progress: "jkeeps (stores_world fs a key) (tar_progress now i sizes n)"
  by (induction now i sizes n rule: tar_progress.induct) (auto intro!: jkeeps_bind jkeeps_simple jkeeps_update)

lemma stores_unlink: "stores_world fs a key st \<Longrightarrow> stores_world fs a key (st\<lparr>js_store := unlink_artifact key' (js_store st)\<rparr>)"
  by (auto simp: stores_world_def unlink_artifact_def AList.delete_conv split: if_splits)

lemma stores_retention: "jkeeps (stores_world fs a key) (apply_backup_retention cfg now sid n)"
  unfolding apply_backup_retention_def expire_backup_def
  by (intro jkeeps_bind jkeeps_for jkeeps_simple jkeeps_set jkeeps_sessionless stores_unlink sessionless_stores)

lemma stores_backup:
  assumes "require_server_dir env fs server = Inr sd"
    and a: "a = make_archive fs (included_backup_paths fs (srv_flavor server) sd (world_name_of server))"
  shows "jkeeps (stores_world fs a (srv_id server, bid)) (store_backup cfg env jid bid server force_offline)"
proof -
  let ?P = "stores_world fs a (srv_id server, bid)"
  have quiet: "jkeeps ?P (quiesce env jid bid (srv_id server) force_offline)"
    unfolding quiesce_def Let_def
    by (intro job_rules jkeeps_sessionless jkeeps_update jkeeps_set sessionless_stores) (simp add: stores_world_def)+
  have rel: "jkeeps ?P (release cfg env (srv_id server))"
    unfolding release_def save_resume_best_effort_def
    by (intro job_rules jkeeps_sessionless jkeeps_set sessionless_stores) (simp add: stores_world_def)+
  have fs: "?P s \<Longrightarrow> js_fs s = fs" for s by (simp add: stores_world_def)
  show ?thesis
    unfolding store_backup_def Let_def bind_job_assoc
    apply (intro jkeeps_get_bind jkeeps_lift_bind jkeeps_if_cases jkeeps_bind [OF quiet] jkeeps_bind [OF jkeeps_update(2)]
        jkeeps_bind [OF jkeeps_sessionless] jkeeps_bind [OF jkeeps_set] jkeeps_simple sessionless_stores)
    apply (simp only: stores_locals)
    apply (simp only: prod.case)
    apply (intro jkeeps_bind [OF rel] jkeeps_bind [OF stores_progress] jkeeps_bind [OF jkeeps_update(2)]
        jkeeps_bind [OF jkeeps_sessionless] sessionless_stores)
      apply (use assms(1) in \<open>simp add: fs a stores_commit\<close>)
    done
qed

lemma stored_archive:
  assumes run: "run_job (run_backup_job cfg env jid) db fs store = (r, db', fs', store')"
    and rows: "get_backup_job db jid = Some job" "get_backup db (bj_backup_id job) = Some b" "get_server db (bj_server_id job) = Some server"
    and sd: "require_server_dir env fs server = Inr sd"
    and new: "map_of store (srv_id server, bk_id b) = None"
    and art: "map_of store' (srv_id server, bk_id b) = Some art"
  shows "art_archive art = make_archive fs (included_backup_paths fs (srv_flavor server) sd (world_name_of server))"
proof -
  define a where "a = make_archive fs (included_backup_paths fs (srv_flavor server) sd (world_name_of server))"
  let ?P = "stores_world fs a (srv_id server, bk_id b)"
  have body: "jkeeps ?P (backup_body cfg env job b server)"
    unfolding backup_body_def begin_backup_def complete_backup_def Let_def
    by (intro jkeeps_bind jkeeps_if jkeeps_prod jkeeps_sessionless jkeeps_set jkeeps_simple sessionless_stores stores_backup [OF sd a_def]
        stores_retention) simp
  have handler: "jkeeps ?P (backup_failed cfg env jid (bk_id b) (srv_id server) e)" for e
    unfolding backup_failed_def save_resume_best_effort_def
    by (intro jkeeps_bind jkeeps_if jkeeps_when jkeeps_catch jkeeps_sessionless jkeeps_set jkeeps_simple sessionless_stores) simp
  have cleanup: "jkeeps ?P (backup_cleanup (bk_id b) (srv_id server))"
    unfolding backup_cleanup_def by (intro jkeeps_set) (simp add: stores_unlink)
  have start: "?P (open_job db fs store)" using new by (simp add: stores_world_def open_job_def)
  obtain st where st: "finally_job (catch_job (backup_body cfg env job b server) (backup_failed cfg env jid (bk_id b) (srv_id server)))
       (backup_cleanup (bk_id b) (srv_id server)) (open_job db fs store) = (r, st)" "js_store st = store'"
    using run rows by (auto simp: run_job_def run_backup_job_def bind_get_job open_job_def split: prod.splits)
  have "?P st" by (rule jkeepsD [OF jkeeps_finally [OF jkeeps_catch [OF body handler] cleanup] start st(1)])
  with art st(2) show ?thesis by (simp add: stores_world_def a_def)
qed

lemma add_file_names:
  assumes "(n, m) \<in> set (make_archive fs (included_files fs sd dir names))"
  obtains x where "x \<in> set names" "n \<in> {dir @ ''/'' @ x, rstrip_where (\<lambda>c. c = CHR ''/'') (dir @ ''/'' @ x)}"
  using assms that
  by (fastforce simp: make_archive_def included_files_def add_to_tar_def tar_add_def tar_name_def split: option.splits if_splits)

lemma java_world_member:
  assumes "(n, m) \<in> set (make_archive fs (included_files fs sd ''java'' java_files))"
  shows "\<not> prefix (path_parts ''java/world'') (path_parts n)"
proof -
  have "list_all (\<lambda>x. \<not> prefix (path_parts ''java/world'') (path_parts (''java/'' @ x)) \<and>
      rstrip_where (\<lambda>c. c = CHR ''/'') (''java/'' @ x) = ''java/'' @ x) java_files"
    by code_simp
  then have *: "\<And>x. x \<in> set java_files \<Longrightarrow> \<not> prefix (path_parts ''java/world'') (path_parts (''java/'' @ x))"
    "\<And>x. x \<in> set java_files \<Longrightarrow> rstrip_where (\<lambda>c. c = CHR ''/'') (''java/'' @ x) = ''java/'' @ x"
    unfolding list_all_iff by blast+
  obtain x where x: "x \<in> set java_files" "n \<in> {''java'' @ ''/'' @ x, rstrip_where (\<lambda>c. c = CHR ''/'') (''java'' @ ''/'' @ x)}"
    by (rule add_file_names [OF assms])
  have n: "n = ''java/'' @ x" using x(2) *(2) [OF x(1)] by simp
  show ?thesis unfolding n by (rule *(1) [OF x(1)])
qed

text \<open>
  C32: Backing up a Java server and restoring that backup later, whatever happened to the server's files in
  between, brings its world back: after a restore that completes, every path of the world in use is what it
  was in the world when it was backed up.
\<close>

theorem java_backup_roundtrip:
  assumes backup: "run_job (run_backup_job cfg env bj) db fs store = (r, db1, fs1, store1)"
    "get_backup_job db bj = Some bjob" "get_backup db (bj_backup_id bjob) = Some b" "get_server db (bj_server_id bjob) = Some server"
    "map_of store (srv_id server, bk_id b) = None" "plain_fs fs" "distinct (map fst fs)" "require_server_dir env fs server = Inr sd"
    "resolve_existing_world_path fs sd (world_name_of server) True = Some world" "list_all good_name world" "fs_get fs world = Some EDir"
    and restore: "run_job (run_restore_job cfg' env' rj) db2 fs2 store1 = (Inr (), db3, fs3, store3)"
    "get_restore_job db2 rj = Some rjob" "rj_backup_id rjob = bk_id b" "get_backup db2 (bk_id b) = Some b2"
    "get_server db2 (rj_server_id rjob) = Some server2" "srv_id server2 = srv_id server"
    "get_restore_job db3 rj = Some rjob'" "rj_status rjob' = RestoreStatus.completed"
    "plain_fs fs2" "require_server_dir env' fs2 server2 = Inr sd2"
    "active_world_path fs2 (srv_flavor server2) sd2 (world_name_of server2) = sd2 @ wp" "world_place sd2 wp"
    and java: "is_java_flavor (srv_flavor server)" "is_java_flavor (srv_flavor server2)"
  shows "fs_get fs3 (sd2 @ wp @ rel) = fs_get fs (world @ rel)"
proof -
  have rows: "get_backup db2 (rj_backup_id rjob) = Some b2" using restore(3,4) by simp
  obtain a art f1 f2 where x: "map_of store1 (srv_id server2, rj_backup_id rjob) = Some art" "a = art_archive art"
    "inner_names a" "extract_all (restore_tmp_path sd2 rj) a f1 = Inr f2" "plain_fs f1"
    "\<And>q. q \<noteq> [] \<Longrightarrow> fs_get f1 (restore_tmp_path sd2 rj @ q) = None"
    "\<And>rel. fs_get fs3 (sd2 @ wp @ rel) = fs_get f2 (restore_tmp_path sd2 rj @ restored_dir (srv_flavor server2) @ rel)"
    by (rule restored_world [OF restore(1,2) rows restore(5,7-12)]) (rule that)
  have "a = make_archive fs (included_backup_paths fs (srv_flavor server) sd (world_name_of server))"
    using stored_archive [OF backup(1-4,8,5)] x(1,2) restore(3,6) by simp
  then have a: "a = add_to_tar fs world ''java/world'' @ make_archive fs (included_files fs sd ''java'' java_files)"
    using java(1) backup(9) by (simp add: included_backup_paths_def make_archive_def)
  have parts: "restored_dir (srv_flavor server2) = path_parts ''java/world''"
    using java(2) by (simp add: restored_dir_def path_parts_def)
  have "fs_get f2 (restore_tmp_path sd2 rj @ path_parts ''java/world'' @ rel) = fs_get fs (world @ rel)"
    by (rule extracted_directory [OF backup(6,7,10,11) _ _ java_world_member x(4) [unfolded a] x(5) good_aside(3) [OF restore(12)] x(3) [unfolded a]])
      (simp_all add: x(6) path_parts_def)
  with x(7) parts show ?thesis by simp
qed

lemma bedrock_member:
  assumes "(n, m) \<in> set (make_archive fs (included_files fs sd ''bedrock'' bedrock_files))"
  shows "\<not> prefix (''bedrock'' # ''worlds'' # p) (path_parts n)"
proof -
  have "list_all (\<lambda>x. take 2 (path_parts (''bedrock/'' @ x)) \<noteq> [''bedrock'', ''worlds''] \<and>
      rstrip_where (\<lambda>c. c = CHR ''/'') (''bedrock/'' @ x) = ''bedrock/'' @ x) bedrock_files"
    by code_simp
  then have *: "\<And>x. x \<in> set bedrock_files \<Longrightarrow> take 2 (path_parts (''bedrock/'' @ x)) \<noteq> [''bedrock'', ''worlds'']"
    "\<And>x. x \<in> set bedrock_files \<Longrightarrow> rstrip_where (\<lambda>c. c = CHR ''/'') (''bedrock/'' @ x) = ''bedrock/'' @ x"
    unfolding list_all_iff by blast+
  obtain x where x: "x \<in> set bedrock_files" "n \<in> {''bedrock'' @ ''/'' @ x, rstrip_where (\<lambda>c. c = CHR ''/'') (''bedrock'' @ ''/'' @ x)}"
    by (rule add_file_names [OF assms])
  have n: "n = ''bedrock/'' @ x" using x(2) *(2) [OF x(1)] by simp
  have "take 2 (path_parts n) \<noteq> [''bedrock'', ''worlds'']" unfolding n by (rule *(1) [OF x(1)])
  then show ?thesis by (auto simp: prefix_def)
qed


section \<open>A restore that is to start an unpaid server\<close>

lemma billing_tables_restore [op_rules]:
  "keeps (billing_tables subs plans) (set_restore_job jid f)" "keeps (billing_tables subs plans) (orchestrator_stop env sid)"
  unfolding set_restore_job_def orchestrator_stop_def
  by (intro op_rules keeps_modify, simp add: billing_tables_def, intro op_rules)

lemma unpaid_finish:
  assumes "rj_restart_after_restore job" "\<And>db. db_subscriptions db = subs \<Longrightarrow> active_subscription_for_server cfg (be_now env) db sid = None"
  shows "jtriple (session_only (billing_tables subs plans)) (finish_restore cfg env job sid aside) (\<lambda>_ _. False) (\<lambda>_ _. True)"
proof -
  let ?P = "session_only (billing_tables subs plans)"
  have up: "jkeeps ?P (update_restore_job now jid s phase n)" for now jid s phase n
    unfolding update_restore_job_def by (intro job_rules op_rules)
  have start: "jtriple ?P (db_job (orchestrator_start cfg (be_start env) sid)) (\<lambda>_ _. False) (\<lambda>_ _. True)"
  proof (rule jtripleI)
    fix st and a :: unit and st' assume P: "?P st" and m: "db_job (orchestrator_start cfg (be_start env) sid) st = (Inr a, st')"
    have s2: "db_subscriptions (ses_flushed (js_session st)) = subs" using P unfolding session_only_def billing_tables_def by (elim conjE)
    obtain s where "orchestrator_start cfg (be_start env) sid (js_session st) = (Inr a, s)" using m unfolding job_Inr by (elim exE conjE)
    then have s: "orchestrator_start cfg (be_start env) sid (js_session st) = (Inr (), s)" by simp
    obtain server jar jdk res where r: "get_server (ses_objects (js_session st)) sid = Some server"
        "ensure_active_subscription_for_start cfg (be_now env) (ses_flushed (js_session st)) server = Inr ()"
      by (rule orchestrator_start_InrE [OF s]) (rule that)
    have id: "srv_id server = sid" using get_row_SomeD [OF r(1) [unfolded get_server_def]] by simp
    show False using r(2) unfolding ensure_active_subscription_for_start_def id assms(2) [OF s2] by (simp split: sum.splits)
  qed simp
  show ?thesis
    unfolding finish_restore_def Let_def when_job_def assms(1) [THEN eq_True [THEN iffD2]] if_True bind_job_assoc
    by (rule jtriple_bind [OF jtriple_keeps [OF up]], simp, rule jtriple_bind [OF start]) (simp add: jtriple_def)
qed

lemma unpaid_body:
  assumes "rj_restart_after_restore job" "\<And>db. db_subscriptions db = subs \<Longrightarrow> active_subscription_for_server cfg (be_now env) db (srv_id server) = None"
  shows "jtriple (session_only (billing_tables subs plans)) (restore_body cfg env job b server) (\<lambda>_ _. False) (\<lambda>_ _. True)"
proof -
  let ?P = "session_only (billing_tables subs plans)"
  have begin_: "jkeeps ?P (begin_restore now jid)" for now jid
    unfolding begin_restore_def by (intro job_rules op_rules)
  have unpack: "jkeeps ?P (unpack_backup cfg env jid b server)" for jid
    unfolding unpack_backup_def update_restore_job_def Let_def
    by (intro job_rules op_rules jkeeps_set) (simp_all add: session_only_def)
  have prepare: "jkeeps ?P (prepare_rollback env jid root aside)" for jid root aside
    unfolding prepare_rollback_def update_restore_job_def
    by (intro job_rules op_rules jkeeps_set) (simp_all add: session_only_def)
  have swap: "jkeeps ?P (swap_worlds live aside restored)" for live aside restored
    unfolding swap_worlds_def by (intro job_rules)
  have files: "jkeeps ?P (for_job (restore_file from sd) names)" for "from" sd names
    unfolding restore_file_def by (intro job_rules)
  have install: "jtriple ?P (install_world cfg env job server sd live) (\<lambda>_ _. False) (\<lambda>_ _. True)" for sd live
    unfolding install_world_def Let_def
    by (rule jtriple_get_bind, rule jtriple_if, simp add: jtriple_raise, rule jtriple_bind [OF jtriple_pre [OF jtriple_keeps [OF prepare]]], simp, simp,
        rule jtriple_bind [OF jtriple_keeps [OF swap]], simp, rule jtriple_bind [OF jtriple_keeps [OF files]], simp, rule unpaid_finish [OF assms])
  show ?thesis
    unfolding restore_body_def
    by (rule jtriple_get_bind, rule jtriple_if, simp add: jtriple_raise, rule jtriple_bind [OF jtriple_pre [OF jtriple_keeps [OF begin_]]], simp, simp,
        rule jtriple_bind [OF jtriple_keeps [OF unpack]], simp, rule jtriple_get_bind, rule jtriple_pre [OF install], simp)
qed

text \<open>
  Asking to restore a backup and start the server again while nobody pays for it restores nothing: the
  start is refused at the very end, and the job ends as rolled back, or as failed.
\<close>

theorem unpaid_restore_is_undone:
  assumes run: "run_job (run_restore_job cfg env jid) db fs store = (Inr (), db', fs', store')"
    and rows: "get_restore_job db jid = Some job" "get_backup db (rj_backup_id job) = Some b" "get_server db (rj_server_id job) = Some server"
    and unpaid: "rj_restart_after_restore job" "active_subscription_for_server cfg (be_now env) db (rj_server_id job) = None"
    and after: "get_restore_job db' jid = Some job'"
  shows "rj_status job' \<in> {RestoreStatus.rolled_back, RestoreStatus.failed}"
proof -
  have jid: "rj_id job = jid" using get_row_SomeD [OF rows(1) [unfolded get_restore_job_def]] by simp
  have sid: "srv_id server = rj_server_id job" using get_row_SomeD [OF rows(3) [unfolded get_server_def]] by simp
  have none: "active_subscription_for_server cfg (be_now env) d (srv_id server) = None" if "db_subscriptions d = db_subscriptions db" for d
    using unpaid(2) active_subscription_same [OF that] sid by simp
  obtain st1 st' where st: "catch_job (restore_body cfg env job b server) (restore_failed cfg env job (srv_id server)) (open_job db fs store) = (Inr (), st1)"
      "restore_cleanup st1 = (Inr (), st')" "ses_committed (js_session st') = db'"
    using run rows by (auto simp: run_job_def run_restore_job_def bind_get_job open_job_def finally_job_def restore_cleanup_def set_job_def split: prod.splits sum.splits)
  have start: "session_only (billing_tables (db_subscriptions db) (db_plans db)) (open_job db fs store)"
    by (simp add: session_only_def billing_tables_def open_job_def)
  have "jtriple (session_only (billing_tables (db_subscriptions db) (db_plans db)))
      (catch_job (restore_body cfg env job b server) (restore_failed cfg env job (srv_id server)))
      (\<lambda>_. session_only (restore_rows (\<lambda>r. rj_status r \<in> {RestoreStatus.rolled_back, RestoreStatus.failed}) jid)) (\<lambda>_ _. True)"
    by (rule jtriple_catch [OF jtriple_weaken [OF unpaid_body [OF unpaid(1) none, where plans = "db_plans db"]] failed_restore_row [of cfg env job, unfolded jid]]) simp_all
  note rows' = jtriple_Inr [OF this start st(1), unfolded session_only_def restore_rows_def]
  have "ses_committed (js_session st1) = db'"
    using st(2,3) by (auto simp: restore_cleanup_def set_job_def split: option.splits)
  with rows' after show ?thesis by blast
qed

section \<open>Samples\<close>

lemma backup_rows [simp]:
  "get_backup_job (backup_db flavor) 70 = Some plain_backup_job" "get_backup (backup_db flavor) 60 = Some plain_backup"
  "get_server (backup_db flavor) 10 = Some (world_server flavor)"
  "bj_backup_id plain_backup_job = 60" "bj_server_id plain_backup_job = 10" "bk_id plain_backup = 60"
  by (simp_all add: backup_db_def get_backup_job_def get_backup_def get_server_def plain_backup_job_def plain_backup_def
      world_server_def sample_server_def)

lemma restored_backup:
  "rj_backup_id (plain_restore_job\<lparr>rj_restart_after_restore := restart\<rparr>) = bk_id plain_backup"
  "get_backup (restore_db flavor restart) (bk_id plain_backup) =
     Some (plain_backup\<lparr>bk_status := BackupStatus.completed, bk_checksum_sha256 := Some ''ab'', bk_size_bytes := 2\<rparr>)"
  by simp_all

lemma java_backup_runs:
  "snd (snd (snd (run_job (run_backup_job default_settings idle_backup_env 70) (backup_db ServerFlavor.PAPER) (java_world_fs ''old'') []))) =
     stored_archive_of ''java/world''"
  by code_simp

lemma java_restore_runs:
  "case run_job (run_restore_job default_settings idle_backup_env 80) (restore_db ServerFlavor.PAPER False) (java_world_fs ''new'')
     (stored_archive_of ''java/world'') of (r, db, fs, st) \<Rightarrow>
     (r, map_option rj_status (get_restore_job db 80)) = (Inr (), Some RestoreStatus.completed)"
  by code_simp

theorem java_backup_roundtrip_witness:
  "case run_job (run_restore_job default_settings idle_backup_env 80) (restore_db ServerFlavor.PAPER False) (java_world_fs ''new'')
     (stored_archive_of ''java/world'') of (r, db, fs, st) \<Rightarrow> fs_get fs [''srv'', ''10'', ''w'', ''level.dat''] = Some (EFile ''old'')"
proof -
  obtain r db1 fs1 where backup: "run_job (run_backup_job default_settings idle_backup_env 70) (backup_db ServerFlavor.PAPER)
      (java_world_fs ''old'') [] = (r, db1, fs1, stored_archive_of ''java/world'')"
    using java_backup_runs by (metis prod.collapse)
  obtain r' db' fs' store' where run: "run_job (run_restore_job default_settings idle_backup_env 80) (restore_db ServerFlavor.PAPER False)
      (java_world_fs ''new'') (stored_archive_of ''java/world'') = (r', db', fs', store')"
    by (metis prod_cases4)
  obtain job' where after: "get_restore_job db' 80 = Some job'" "rj_status job' = RestoreStatus.completed" and r': "r' = Inr ()"
    using java_restore_runs unfolding run by auto
  have old: "require_server_dir idle_backup_env (java_world_fs ''old'') (world_server ServerFlavor.PAPER) = Inr [''srv'', ''10'']"
    "resolve_existing_world_path (java_world_fs ''old'') [''srv'', ''10''] (world_name_of (world_server ServerFlavor.PAPER)) True =
       Some ([''srv'', ''10''] @ [''w''])"
    "distinct (map fst (java_world_fs ''old''))" "list_all good_name ([''srv'', ''10''] @ [''w''])"
    by code_simp+
  have "fs_get fs' ([''srv'', ''10''] @ [''w''] @ [''level.dat'']) = fs_get (java_world_fs ''old'') (([''srv'', ''10''] @ [''w'']) @ [''level.dat''])"
    by (rule java_backup_roundtrip [OF backup backup_rows(1) _ _ _ java_world_facts(1) old(3,1,2,4) java_world_facts(5) run [unfolded r']
          restore_rows(1) restored_backup _ _ after java_world_facts(1-4)]) (simp_all add: is_java_flavor_def)
  then show ?thesis unfolding run by (simp add: java_world_fs_def fs_get_def)
qed

lemma bedrock_backup_runs:
  "snd (snd (snd (run_job (run_backup_job default_settings idle_backup_env 70) (backup_db ServerFlavor.BEDROCK) (bedrock_world_fs ''old'') []))) =
     stored_archive_of ''bedrock/worlds/w''"
  by code_simp

lemma bedrock_restore_runs:
  "case run_job (run_restore_job default_settings idle_backup_env 80) (restore_db ServerFlavor.BEDROCK False) (bedrock_world_fs ''new'')
     (stored_archive_of ''bedrock/worlds/w'') of (r, db, fs, st) \<Rightarrow>
     (r, map_option rj_status (get_restore_job db 80)) = (Inr (), Some RestoreStatus.completed)"
  by code_simp


theorem unpaid_restore_is_undone_witness:
  "case run_job (run_restore_job default_settings idle_backup_env 80) (restore_db ServerFlavor.PAPER True) (java_world_fs ''new'')
     (stored_archive_of ''java/world'') of (r, db, fs, st) \<Rightarrow>
     (\<exists>job. get_restore_job db 80 = Some job \<and> rj_status job \<in> {RestoreStatus.rolled_back, RestoreStatus.failed})"
proof -
  obtain r db' fs' store' where run: "run_job (run_restore_job default_settings idle_backup_env 80) (restore_db ServerFlavor.PAPER True)
      (java_world_fs ''new'') (stored_archive_of ''java/world'') = (r, db', fs', store')"
    by (metis prod_cases4)
  obtain job' where after: "get_restore_job db' 80 = Some job'" and r: "r = Inr ()"
    using unpaid_restore_runs unfolding run by auto
  have none: "active_subscription_for_server default_settings (be_now idle_backup_env) (restore_db ServerFlavor.PAPER True) 10 = None"
    by code_simp
  have "rj_status job' \<in> {RestoreStatus.rolled_back, RestoreStatus.failed}"
    by (rule unpaid_restore_is_undone [OF run [unfolded r] restore_rows(1) _ _ _ _ after]) (simp_all add: none)
  with after show ?thesis unfolding run by simp
qed

end
