(* ===== verification/Backup_Outcomes.thy ===== *)
theory Backup_Outcomes
  imports Restores
begin

text \<open>
  How a backup ends: the job whose server cannot be started again, and what retention leaves.
\<close>

section \<open>A backup that cannot start the server again\<close>

definition job_active :: "uuid \<Rightarrow> uuid \<Rightarrow> session \<Rightarrow> bool" where
  "job_active jid sid s \<longleftrightarrow>
     (\<exists>j. get_backup_job (ses_committed s) jid = Some j \<and> bj_server_id j = sid \<and> bj_status j \<in> set ACTIVE_BACKUP_STATUSES) \<and>
     (\<exists>j. get_backup_job (ses_objects s) jid = Some j \<and> bj_server_id j = sid \<and> bj_status j \<in> set ACTIVE_BACKUP_STATUSES)"

lemma job_active_ops [op_rules]:
  "keeps (job_active jid sid) commit_op" "keeps (job_active jid sid) (set_server i f)" "keeps (job_active jid sid) (set_backup i g)"
  "keeps (job_active jid sid) (modify_op rollback)"
  by (auto intro!: keeps_commit keeps_set_server keeps_modify
      simp: job_active_def get_backup_job_def upd_server_def set_backup_def rollback_def)

lemma job_active_set:
  assumes "\<And>j. bj_id (f j) = bj_id j \<and> bj_server_id (f j) = bj_server_id j"
    "\<And>j. bj_status j \<in> set ACTIVE_BACKUP_STATUSES \<Longrightarrow> bj_status (f j) \<in> set ACTIVE_BACKUP_STATUSES"
  shows "keeps (job_active jid sid) (set_backup_job i f)"
  unfolding set_backup_job_def
  by (rule keeps_modify) (use assms in \<open>auto simp: job_active_def get_backup_job_def get_row_modify_row\<close>)

lemma job_active_orchestrator [op_rules]:
  "keeps (job_active jid sid) (orchestrator_start cfg env i)" "keeps (job_active jid sid) (orchestrator_stop env i)"
  unfolding orchestrator_start_def orchestrator_stop_def by (intro op_rules)+

lemma job_active_update [job_rules]:
  "status \<in> set ACTIVE_BACKUP_STATUSES \<Longrightarrow> jkeeps (session_only (job_active jid sid)) (update_backup_job now i status phase mn mx bytes)"
  unfolding update_backup_job_def by (intro job_rules op_rules job_active_set) simp_all

definition stopped_active :: "uuid \<Rightarrow> uuid \<Rightarrow> job_state \<Rightarrow> bool" where
  "stopped_active jid sid st \<longleftrightarrow> (js_stopped st \<longrightarrow> job_active jid sid (js_session st))"

text \<open>While the job runs.\<close>

definition running_job :: "uuid \<Rightarrow> uuid \<Rightarrow> job_state \<Rightarrow> bool" where
  "running_job jid sid st \<longleftrightarrow> session_only (job_active jid sid) st \<and> \<not> (js_save_held st \<and> js_stopped st)"

definition started :: "job_state \<Rightarrow> bool" where
  "started st \<longleftrightarrow> \<not> js_stopped st"

definition unheld :: "job_state \<Rightarrow> bool" where
  "unheld st \<longleftrightarrow> \<not> js_stopped st \<and> \<not> js_save_held st"

lemma sessionless_started [simp]: "sessionless started" "sessionless unheld"
  by (simp_all add: sessionless_def started_def unheld_def)

lemma stopped_activeI: "session_only (job_active jid sid) st \<Longrightarrow> stopped_active jid sid st" "started st \<Longrightarrow> stopped_active jid sid st"
  by (simp_all add: stopped_active_def session_only_def started_def)

lemma jkeeps_conj: "jkeeps P m \<Longrightarrow> jkeeps P' m \<Longrightarrow> jkeeps (\<lambda>s. P s \<and> P' s) m"
  by (rule jkeepsI) (auto dest: jkeepsD)

lemma running_jobI: "jkeeps (session_only (job_active jid sid)) m \<Longrightarrow> jkeeps (\<lambda>st. \<not> (js_save_held st \<and> js_stopped st)) m \<Longrightarrow> jkeeps (running_job jid sid) m"
  unfolding running_job_def [abs_def] by (rule jkeeps_conj)

lemma running_job_stopped: "running_job jid sid st \<Longrightarrow> stopped_active jid sid st"
  by (simp add: running_job_def stopped_activeI)

lemma triple_quiesce:
  "jtriple (\<lambda>st. session_only (job_active jid sid) st \<and> unheld st) (quiesce env jid bid i force_offline)
     (\<lambda>_. running_job jid sid) (\<lambda>_. stopped_active jid sid)"
proof -
  let ?P = "\<lambda>st. session_only (job_active jid sid) st \<and> unheld st" and ?H = "\<lambda>st. session_only (job_active jid sid) st \<and> started st"
  let ?R = "\<lambda>_. stopped_active jid sid"
  have db: "jtriple ?P (db_job m) (\<lambda>_. ?P) ?R" if "keeps (job_active jid sid) m" for m :: "unit op"
    by (rule jtriple_keeps [OF jkeeps_conj [OF jkeeps_session [OF that] jkeeps_sessionless]]) (simp_all add: stopped_activeI)
  have up: "jtriple ?H (update_backup_job now jid BackupStatus.held_saves ph a b n) (\<lambda>_. ?H) ?R" for now ph a b n
    by (rule jtriple_keeps [OF jkeeps_conj [OF job_active_update jkeeps_update(2)]]) (simp_all add: stopped_activeI ACTIVE_BACKUP_STATUSES_def)
  have rest: "jtriple (running_job jid sid) (bind_job (db_job commit_op) (\<lambda>_. return_job m)) (\<lambda>_. running_job jid sid) ?R" for m
    by (rule jtriple_keeps, intro running_jobI job_rules op_rules jkeeps_sessionless) (simp_all add: sessionless_def running_job_stopped)
  have hold: "jtriple ?P (bind_job (set_job (\<lambda>st. st\<lparr>js_save_held := True\<rparr>)) (\<lambda>_.
      bind_job (update_backup_job now jid BackupStatus.held_saves ph a b n) (\<lambda>_. return_job m))) (\<lambda>_. running_job jid sid) ?R"
    for now ph a b n m
    by (rule jtriple_bind [where Q = "\<lambda>_. ?H"], rule jtriple_set, simp add: session_only_def started_def unheld_def,
        rule jtriple_bind [OF up], rule jtriple_return, simp add: started_def running_job_def)
  have stop: "jtriple ?P (bind_job (db_job (orchestrator_stop e i)) (\<lambda>_.
           bind_job (set_job (\<lambda>st. st\<lparr>js_stopped := True\<rparr>)) (\<lambda>_.
           bind_job (db_job commit_op) (\<lambda>_. return_job m)))) (\<lambda>_. running_job jid sid) ?R"
    for e m
    by (rule jtriple_bind [OF db [OF job_active_orchestrator(2)]], rule jtriple_bind [OF jtriple_set rest])
      (simp add: session_only_def unheld_def running_job_def)
  show ?thesis
    unfolding quiesce_def Let_def
    by (rule jtriple_bind [OF db [OF job_active_ops(3)]], intro jtriple_if hold stop jtriple_return) (simp add: unheld_def running_job_def)
qed

lemma triple_release:
  "jtriple (running_job jid sid) (release cfg env i) (\<lambda>_. started) (\<lambda>_. stopped_active jid sid)"
proof -
  let ?R = "\<lambda>_. stopped_active jid sid"
  have start: "jtriple (session_only (job_active jid sid)) (db_job (orchestrator_start cfg e i)) (\<lambda>_. session_only (job_active jid sid)) ?R" for e
    by (rule jtriple_keeps [OF jkeeps_session [OF job_active_orchestrator(1)]]) (simp add: stopped_activeI)
  have commit: "jtriple started (db_job commit_op) (\<lambda>_. started) ?R"
    by (rule jtriple_keeps [OF jkeeps_sessionless]) (simp_all add: stopped_activeI)
  show ?thesis
    unfolding release_def save_resume_best_effort_def case_prod_unfold
    apply (rule jtriple_get_bind, intro jtriple_if)
      apply (rule jtriple_set) apply (auto simp: started_def running_job_def) []
     apply (rule jtriple_bind [OF jtriple_pre [OF start]]) apply (simp add: running_job_def)
     apply (rule jtriple_bind [OF jtriple_set commit]) apply (simp add: started_def)
    apply (rule jtriple_return) apply (auto simp: started_def running_job_def)
    done
qed

lemma triple_store:
  "jtriple (\<lambda>st. session_only (job_active jid sid) st \<and> unheld st) (store_backup cfg env jid bid server force_offline)
     (\<lambda>_. started) (\<lambda>_. stopped_active jid sid)"
proof -
  let ?P = "\<lambda>st. session_only (job_active jid sid) st \<and> unheld st" and ?R = "\<lambda>_. stopped_active jid sid"
  have k: "jtriple ?P m (\<lambda>_. ?P) ?R" if "jkeeps ?P m" for m :: "'a job"
    by (rule jtriple_keeps [OF that]) (simp add: stopped_activeI)
  have r: "jtriple (running_job jid sid) m (\<lambda>_. running_job jid sid) ?R" if "jkeeps (running_job jid sid) m" for m :: "'a job"
    by (rule jtriple_keeps [OF that]) (simp add: running_job_stopped)
  have s: "jtriple started m (\<lambda>_. started) ?R" if "jkeeps started m" for m :: "'a job"
    by (rule jtriple_keeps [OF that]) (simp add: stopped_activeI)
  have dirs: "jkeeps ?P (bind_job (get_job js_fs) (\<lambda>fs. lift_job (require_server_dir env fs server)))"
    by (intro job_rules)
  have totals: "jkeeps ?P (db_job (bind_op (set_backup_job jid (\<lambda>j. j\<lparr>bj_total_bytes := total\<rparr>)) (\<lambda>_.
        bind_op (set_backup bid (\<lambda>b. b\<lparr>bk_uncompressed_size_bytes := total\<rparr>)) (\<lambda>_. commit_op))))" for total
    by (intro jkeeps_conj job_rules op_rules job_active_set jkeeps_sessionless) simp_all
  have up: "jkeeps (running_job jid sid) (update_backup_job now jid BackupStatus.compressing ph a b n)" for now ph a b n
    by (intro running_jobI job_active_update jkeeps_update(2)) (simp_all add: ACTIVE_BACKUP_STATUSES_def sessionless_def)
  have final: "jkeeps (running_job jid sid) (set_job (\<lambda>st. st\<lparr>js_final := True\<rparr>))"
    by (rule jkeeps_set) (simp add: session_only_def running_job_def)
  have tar: "jkeeps (running_job jid sid) (tar_progress now jid sizes n)" for now sizes n
    by (induction sizes arbitrary: n) (auto intro!: jkeeps_bind jkeeps_simple up)
  have commit: "jkeeps started (commit_local_backup_artifact env a key)" for a key
    unfolding commit_local_backup_artifact_def by (intro jkeeps_if jkeeps_bind jkeeps_simple jkeeps_set) (simp add: started_def)
  show ?thesis
    unfolding store_backup_def Let_def
    apply (rule jtriple_bind [OF k [OF dirs]], rule jtriple_bind [OF k], rule jkeeps_simple)
    apply (rule jtriple_bind [OF k], rule jkeeps_simple, rule jtriple_bind [OF k], rule jkeeps_simple, rule jtriple_bind [OF k [OF totals]])
    apply (rule jtriple_bind [OF triple_quiesce], rule jtriple_bind [OF r [OF up]], rule jtriple_bind [OF r [OF final]], rule jtriple_if)
     apply (rule jtriple_raise, erule running_job_stopped)
    apply (rule jtriple_bind [OF r], rule jkeeps_simple, unfold case_prod_unfold)
    apply (rule jtriple_bind [OF r [OF tar]], rule jtriple_bind [OF triple_release])
    apply (rule s, intro jkeeps_bind jkeeps_sessionless jkeeps_update commit sessionless_started)
    done
qed

lemma triple_backup_body:
  assumes row: "bj_server_id job = srv_id server"
  shows "jtriple (\<lambda>st. (\<exists>j. get_backup_job (ses_objects (js_session st)) (bj_id job) = Some j \<and> bj_server_id j = srv_id server) \<and> unheld st)
    (backup_body cfg env job b server) (\<lambda>_. started) (\<lambda>_. stopped_active (bj_id job) (srv_id server))"
    (is "jtriple ?P _ _ ?R")
proof -
  let ?A = "session_only (job_active (bj_id job) (srv_id server))"
  have begin_: "jtriple ?P (begin_backup now (bj_id job) bid) (\<lambda>_ st. ?A st \<and> unheld st) ?R" for now bid
  proof (rule jtripleI)
    fix st u st' assume P: "?P st" and m: "begin_backup now (bj_id job) bid st = (Inr u, st')"
    then obtain s where s: "st' = st\<lparr>js_session := s\<rparr>"
        "commit_op (set_objects (\<lambda>db. db\<lparr>db_backups := modify_row bk_id bid (\<lambda>b. b\<lparr>bk_status := BackupStatus.running\<rparr>) (db_backups db)\<rparr>)
          (set_objects (\<lambda>db. db\<lparr>db_backup_jobs := modify_row bj_id (bj_id job) (\<lambda>j. j\<lparr>bj_status := BackupStatus.running, bj_phase := ''running'',
            bj_started_at := Some now, bj_locked_at := Some now, bj_heartbeat_at := Some now, bj_attempts := bj_attempts j + 1\<rparr>) (db_backup_jobs db)\<rparr>)
            (js_session st))) = (Inr (), s)"
      by (auto simp: begin_backup_def set_backup_job_def set_backup_def bind_modify_op job_Inr)
    from commit_op_InrD [OF s(2)] P show "?A st' \<and> unheld st'"
      by (auto simp: s(1) session_only_def job_active_def get_backup_job_def get_row_modify_row ACTIVE_BACKUP_STATUSES_def unheld_def)
  next
    fix st e st' assume "?P st" "begin_backup now (bj_id job) bid st = (Inl e, st')"
    then show "stopped_active (bj_id job) (srv_id server) st'"
      by (auto simp: begin_backup_def db_job_def stopped_active_def unheld_def split: prod.splits)
  qed
  have after: "jtriple started m (\<lambda>_. started) ?R" if "jkeeps started m" for m :: "'a job"
    by (rule jtriple_keeps [OF that]) (simp add: stopped_activeI)
  have tail: "jkeeps started (bind_job (complete_backup now jid bid sid art) (\<lambda>_. bind_job (db_job (schedule_succeeded now bid)) (\<lambda>n. apply_backup_retention cfg now sid n)))"
    for now jid bid sid art
    unfolding complete_backup_def apply_backup_retention_def expire_backup_def
    by (intro jkeeps_bind jkeeps_prod jkeeps_for jkeeps_simple jkeeps_sessionless jkeeps_set sessionless_started) (simp_all add: started_def)
  show ?thesis
    unfolding backup_body_def Let_def
    by (rule jtriple_get_bind, rule jtriple_if, rule jtriple_raise, simp add: stopped_active_def unheld_def,
        rule jtriple_bind [OF jtriple_pre [OF begin_]], simp, rule jtriple_bind [OF triple_store], rule after [OF tail])
qed

lemma record_failed_error: "triple (\<lambda>_. True) (record_failed_backup now jid bid e) (\<lambda>_ _. True) (\<lambda>e _. e = IntegrityError)"
  unfolding record_failed_backup_def set_backup_job_def set_backup_def set_schedule_def
  by (intro triple_bind [where Q = "\<lambda>_ _. True"] triple_modify triple_get triple_commit) (auto simp: triple_return triple_modify split: option.split)

lemma triple_backup_failed:
  "jtriple (stopped_active jid sid) (backup_failed cfg env jid bid i e) (\<lambda>_ _. True)
     (\<lambda>e st. e = UnboundLocalError \<longrightarrow> session_only (job_active jid sid) st)"
proof -
  let ?A = "session_only (job_active jid sid)" and ?R = "\<lambda>e st. e = UnboundLocalError \<longrightarrow> session_only (job_active jid sid) st"
  have start: "jtriple ?A (catch_job (db_job (orchestrator_start c v i)) (\<lambda>_. raise_job UnboundLocalError)) (\<lambda>_ _. True) ?R" for c v
    by (rule jtriple_catch [where R = "\<lambda>_. ?A"], rule jtriple_weaken [OF jtriple_keeps [OF jkeeps_session [OF job_active_orchestrator(1)]]])
      (auto simp: jtriple_def raise_job_def)
  have resume: "jtriple (stopped_active jid sid) (when_job h save_resume_best_effort) (\<lambda>_. stopped_active jid sid) ?R" for h
    by (simp add: when_job_def save_resume_best_effort_def jtriple_def set_job_def return_job_def stopped_active_def)
  have recorded: "jtriple (\<lambda>_. True) (db_job (record_failed_backup now jid bid e)) (\<lambda>_ _. True) ?R" for now
    using record_failed_error [of now jid bid e] by (auto simp: jtriple_def triple_def db_job_def split: prod.splits sum.splits)
  have restart: "jtriple (\<lambda>s. stopped_active jid sid s \<and> js_stopped s = stopped)
      (if stopped then catch_job (db_job (orchestrator_start cfg (be_start env) i)) (\<lambda>_. raise_job UnboundLocalError) else return_job ())
      (\<lambda>_ _. True) ?R" for stopped
    by (rule jtriple_if, rule jtriple_pre [OF start], simp add: stopped_active_def session_only_def, rule jtriple_return, simp)
  show ?thesis
    unfolding backup_failed_def
    by (rule jtriple_get_bind, rule jtriple_bind [OF jtriple_pre [OF resume]], simp, rule jtriple_get_bind,
        rule jtriple_bind [OF restart], rule recorded)
qed


section \<open>Retention\<close>

definition retire :: "instant \<Rightarrow> uuid set \<Rightarrow> backup \<Rightarrow> backup" where
  "retire now ids b = (if bk_id b \<in> ids then b\<lparr>bk_status := BackupStatus.deleted, bk_deleted_at := Some now\<rparr> else b)"

lemma retire_simps [simp]:
  "retire now A (retire now B b) = retire now (B \<union> A) b" "bk_id (retire now A b) = bk_id b" "retire now {} b = b"
  "bk_server_id (retire now A b) = bk_server_id b" "bk_created_at (retire now A b) = bk_created_at b" "bk_pinned (retire now A b) = bk_pinned b"
  by (simp_all add: retire_def)

lemma expire_all:
  "for_job (expire_backup now sid) bs st =
     (Inr (), st\<lparr>js_session := set_objects (\<lambda>db. db\<lparr>db_backups := map (retire now (bk_id ` set bs)) (db_backups db)\<rparr>) (js_session st),
       js_store := fold (\<lambda>b. unlink_artifact (sid, bk_id b)) bs (js_store st)\<rparr>)"
proof (induction bs arbitrary: st)
  case Nil
  then show ?case by (simp add: return_job_def set_objects_def)
next
  case (Cons b bs)
  have step: "expire_backup now sid b st = (Inr (), st\<lparr>js_session := set_objects (\<lambda>db. db\<lparr>db_backups := map (retire now {bk_id b}) (db_backups db)\<rparr>) (js_session st),
      js_store := unlink_artifact (sid, bk_id b) (js_store st)\<rparr>)" for st
    by (simp add: expire_backup_def job_defs set_backup_def modify_op_def modify_row_def retire_def [abs_def])
  show ?case by (simp add: bind_job_def step Cons.IH set_objects_def comp_def)
qed

lemma filter_not_drop: "distinct xs \<Longrightarrow> filter (\<lambda>x. x \<notin> set (drop n xs)) xs = take n xs"
proof (induction xs arbitrary: n)
  case (Cons x xs)
  then show ?case
    by (cases n) (auto simp: filter_empty_conv intro!: filter_cong dest: in_set_dropD)
qed simp

lemma unlinked: "map_of (fold (\<lambda>b. unlink_artifact (sid, bk_id b)) bs store) key = (if key \<in> (\<lambda>b. (sid, bk_id b)) ` set bs then None else map_of store key)"
  by (induction bs arbitrary: store) (auto simp: unlink_artifact_def AList.delete_conv)

definition retained :: "uuid \<Rightarrow> backup \<Rightarrow> bool" where
  "retained sid b \<longleftrightarrow> bk_server_id b = sid \<and> bk_status b = BackupStatus.completed \<and> bk_deleted_at b = None \<and> \<not> bk_pinned b"

lemma retention_split:
  assumes run: "run_job (apply_backup_retention cfg now sid keep_count) db fs store = (Inr (), db', fs', store')"
    and ids: "distinct (map bk_id (db_backups db))"
  shows "retention_candidates db' sid = take (retention_keep cfg keep_count) (retention_candidates db sid) \<and>
    (\<forall>b \<in> set (db_backups db). map_of store' (sid, bk_id b) =
       (if b \<in> set (drop (retention_keep cfg keep_count) (retention_candidates db sid)) then None else map_of store (sid, bk_id b)))"
proof -
  let ?c = "retention_candidates db sid" and ?n = "retention_keep cfg keep_count" and ?key = "\<lambda>b. - bk_created_at b"
  let ?gone = "drop ?n ?c"
  let ?map = "map (retire now (bk_id ` set ?gone))"
  have c: "retention_candidates d sid = sort_key ?key (filter (retained sid) (db_backups d))" for d
    by (simp add: retention_candidates_def retained_def [abs_def])
  have db': "db' = db\<lparr>db_backups := ?map (db_backups db)\<rparr>" "store' = fold (\<lambda>b. unlink_artifact (sid, bk_id b)) ?gone store"
    using run by (auto simp: run_job_def apply_backup_retention_def get_job_def bind_job_def expire_all db_job_def open_job_def commit_op_def
        split: sum.splits dest!: commit_InrD)
  have sub: "b \<in> set (db_backups db)" "retained sid b" if "b \<in> set ?gone" for b
    using in_set_dropD [OF that] by (auto simp: c)
  have inj: "bk_id b \<in> bk_id ` set ?gone \<longleftrightarrow> b \<in> set ?gone" if "b \<in> set (db_backups db)" for b
    using ids that sub(1) by (auto simp: distinct_map dest: inj_onD)
  have r: "retained sid (retire now (bk_id ` set ?gone) b) \<longleftrightarrow> retained sid b \<and> b \<notin> set ?gone"
    "b \<notin> set ?gone \<Longrightarrow> retire now (bk_id ` set ?gone) b = b" if "b \<in> set (db_backups db)" for b
    using inj [OF that] by (auto simp: retained_def retire_def)
  have "filter (retained sid) (?map (db_backups db)) = map (retire now (bk_id ` set ?gone)) (filter (\<lambda>b. b \<notin> set ?gone) (filter (retained sid) (db_backups db)))"
    using r(1) by (auto simp: filter_map comp_def intro!: filter_cong arg_cong [where f = ?map])
  also have "\<dots> = filter (\<lambda>b. b \<notin> set ?gone) (filter (retained sid) (db_backups db))"
    using r(2) by (intro map_idI) auto
  finally have "retention_candidates db' sid = filter (\<lambda>b. b \<notin> set ?gone) ?c"
    unfolding c db'(1) by (simp add: filter_sort [symmetric])
  also have "distinct ?c" using ids by (simp add: c distinct_map)
  note filter_not_drop [OF this]
  finally show ?thesis
    using inj by (auto simp: db'(2) unlinked)
qed

lemma sorted_take_drop: "sorted (map f xs) \<Longrightarrow> x \<in> set (take n xs) \<Longrightarrow> y \<in> set (drop n xs) \<Longrightarrow> f x \<le> f y"
  using sorted_append [of "map f (take n xs)" "map f (drop n xs)"] by (simp flip: map_append)

text \<open>
  C35: Retention keeps the newest backups, as many as it is told to and at least one: of the completed, unpinned
  backups of the server so many remain, none of them older than one that does not, the archives of those that
  do not are gone and all the others are untouched.
\<close>

theorem retention_keeps_newest:
  assumes run: "run_job (apply_backup_retention cfg now sid keep_count) db fs store = (Inr (), db', fs', store')"
    and ids: "distinct (map bk_id (db_backups db))"
  defines "old \<equiv> filter (retained sid) (db_backups db)" and "new \<equiv> filter (retained sid) (db_backups db')"
  shows "set new \<subseteq> set old \<and> length new = min (retention_keep cfg keep_count) (length old) \<and>
    (\<forall>k \<in> set new. \<forall>g \<in> set old - set new. bk_created_at g \<le> bk_created_at k) \<and>
    (\<forall>b \<in> set (db_backups db). map_of store' (sid, bk_id b) =
       (if b \<in> set old - set new then None else map_of store (sid, bk_id b)))"
proof -
  let ?c = "retention_candidates db sid" and ?n = "retention_keep cfg keep_count" and ?key = "\<lambda>b. - bk_created_at b"
  have c: "retention_candidates d sid = sort_key ?key (filter (retained sid) (db_backups d))" for d
    by (simp add: retention_candidates_def retained_def [abs_def])
  note split = retention_split [OF run ids]
  have sets: "set ?c = set old" "length ?c = length old" "distinct ?c" "sorted (map ?key ?c)"
    using ids by (simp_all add: c old_def distinct_map)
  have "set (retention_candidates db' sid) = set new" "length (retention_candidates db' sid) = length new" by (simp_all add: c new_def)
  then have new: "set new = set (take ?n ?c)" "length new = min ?n (length old)" using split sets(2) by simp_all
  have gone: "set old - set new = set (drop ?n ?c)"
    using set_take_disj_set_drop_if_distinct [OF sets(3), of ?n ?n] sets(1) new(1) append_take_drop_id [of ?n ?c]
    by (metis Diff_cancel Un_Diff Un_Diff_Int Diff_triv Int_commute order_refl set_append sup_bot.left_neutral)
  have "set new \<subseteq> set old" using new(1) sets(1) set_take_subset [of ?n ?c] by simp
  moreover have "\<forall>k \<in> set new. \<forall>g \<in> set (drop ?n ?c). bk_created_at g \<le> bk_created_at k"
    using sorted_take_drop [OF sets(4), of _ ?n] new(1) by fastforce
  ultimately show ?thesis using new(2) split unfolding gone by blast
qed

section \<open>Samples\<close>

definition busy_backup_env :: backup_env where
  "busy_backup_env = idle_backup_env\<lparr>be_start := (be_start idle_backup_env)\<lparr>env_runtime_running := \<lambda>_. True\<rparr>\<rparr>"

lemma stuck_backup_runs:
  "fst (run_job (run_backup_job default_settings busy_backup_env 70) (backup_db ServerFlavor.PAPER) (java_world_fs ''old'') []) =
     Inl UnboundLocalError"
  by code_simp


definition two_backups :: database where
  "two_backups = empty_db\<lparr>db_backups := [plain_backup\<lparr>bk_status := BackupStatus.completed\<rparr>,
     plain_backup\<lparr>bk_id := 61, bk_status := BackupStatus.completed, bk_created_at := 5\<rparr>]\<rparr>"

theorem retention_keeps_newest_witness:
  "length (filter (retained 10) (db_backups (fst (snd (run_job (apply_backup_retention default_settings 7 10 (Some 1)) two_backups [] []))))) = 1"
proof -
  have "fst (run_job (apply_backup_retention default_settings 7 10 (Some 1)) two_backups [] []) = Inr ()" by code_simp
  then obtain db' fs' store' where run: "run_job (apply_backup_retention default_settings 7 10 (Some 1)) two_backups [] [] = (Inr (), db', fs', store')"
    by (metis prod.collapse)
  have "distinct (map bk_id (db_backups two_backups))" by (simp add: two_backups_def plain_backup_def)
  from retention_keeps_newest [OF run this]
  have "length (filter (retained 10) (db_backups db')) =
      min (retention_keep default_settings (Some 1)) (length (filter (retained 10) (db_backups two_backups)))" by blast
  also have "\<dots> = 1" by code_simp
  finally show ?thesis unfolding run by simp
qed

end
