(* ===== verification/Backup_Routes.thy ===== *)
theory Backup_Routes
  imports Backups
begin

text \<open>
  The routes for backups, restores and schedules (\<open>api/backups.py\<close>) and the pass that starts the backups
  that are due (\<open>orchestrator/backup.py\<close>).  A route is a job; where it hands a job to the executor, the
  identifiers of those jobs are part of its answer.  New identifiers are parameters, and so are the sizes
  of directories measured in the last ten seconds (\<open>services/system_health.py\<close>).
\<close>

record route_env =
  ro_backup :: backup_env
  ro_new_id :: uuid
  ro_new_job_id :: uuid
  ro_measured :: "path \<Rightarrow> int option"
  ro_free_world_limit_mb :: int

abbreviation ro_now :: "route_env \<Rightarrow> instant" where
  "ro_now env \<equiv> be_now (ro_backup env)"

section \<open>Access\<close>

definition require_server :: "string \<Rightarrow> user \<Rightarrow> server job" where
  "require_server server_id user =
     (case parse_uuid server_id of
        None \<Rightarrow> raise_job (HTTPException 404)
      | Some i \<Rightarrow> bind_job (get_job (\<lambda>st. get_server (ses_objects (js_session st)) i)) (\<lambda>found.
          case found of
            None \<Rightarrow> raise_job (HTTPException 404)
          | Some server \<Rightarrow> if srv_owner_id server \<noteq> usr_id user then raise_job (HTTPException 404) else return_job server))"

definition require_backup :: "server \<Rightarrow> string \<Rightarrow> user \<Rightarrow> backup job" where
  "require_backup server backup_id user =
     (case parse_uuid backup_id of
        None \<Rightarrow> raise_job (HTTPException 404)
      | Some i \<Rightarrow> bind_job (get_job (\<lambda>st. get_backup (ses_objects (js_session st)) i)) (\<lambda>found.
          case found of
            None \<Rightarrow> raise_job (HTTPException 404)
          | Some b \<Rightarrow> if bk_server_id b \<noteq> srv_id server \<or> bk_owner_id b \<noteq> usr_id user then raise_job (HTTPException 404)
              else return_job b))"

definition active_backup_job :: "uuid \<Rightarrow> database \<Rightarrow> backup_job option" where
  "active_backup_job sid db = first_row (sort_key (\<lambda>j. - bj_created_at j)
     (filter (\<lambda>j. bj_server_id j = sid \<and> bj_status j \<in> set ACTIVE_BACKUP_STATUSES) (db_backup_jobs db)))"

definition active_restore_job :: "uuid \<Rightarrow> database \<Rightarrow> restore_job option" where
  "active_restore_job sid db = first_row (sort_key (\<lambda>j. - rj_created_at j)
     (filter (\<lambda>j. rj_server_id j = sid \<and> rj_status j \<in> set ACTIVE_RESTORE_STATUSES) (db_restore_jobs db)))"

definition flushed_job :: "(database \<Rightarrow> 'a) \<Rightarrow> 'a job" where
  "flushed_job f = get_job (\<lambda>st. f (ses_flushed (js_session st)))"

definition refuse_job :: "bool \<Rightarrow> nat \<Rightarrow> unit job" where
  "refuse_job b code = (if b then raise_job (HTTPException code) else return_job ())"

definition guard_disk_for_operation :: "backup_env \<Rightarrow> unit job" where
  "guard_disk_for_operation env = (case be_disk_safe env of
     Inr _ \<Rightarrow> return_job () | Inl DiskProtectionError \<Rightarrow> raise_job (HTTPException 503) | Inl e \<Rightarrow> raise_job e)"

section \<open>The size of a world\<close>

definition is_link_at :: "fs \<Rightarrow> path \<Rightarrow> bool" where
  "is_link_at fs p = (case lstat_at fs p of Some (ELink _) \<Rightarrow> True | _ \<Rightarrow> False)"

definition calculate_directory_size :: "(path \<Rightarrow> int option) \<Rightarrow> fs \<Rightarrow> path \<Rightarrow> exn + int" where
  "calculate_directory_size measured fs p =
     (case resolve_path fs p of
        None \<Rightarrow> Inl RuntimeError
      | Some q \<Rightarrow> (case measured q of
          Some n \<Rightarrow> Inr n
        | None \<Rightarrow>
            if \<not> exists_at fs p then Inr 0
            else if is_file_at fs p \<and> \<not> is_link_at fs p then Inr (path_size fs p)
            else Inr (sum_of (entry_size \<circ> snd) (rglob fs p))))"

text \<open>\<open>mc_config["resource_limits"].get("storage_mb")\<close>; a limit is a number, and without one the free plan's holds.\<close>

definition storage_limit_mb :: "int \<Rightarrow> server \<Rightarrow> exn + int" where
  "storage_limit_mb free_limit server =
     (case dict_get (srv_mc_config server) ''resource_limits'' of
        None \<Rightarrow> Inr free_limit
      | Some (JObj limits) \<Rightarrow> (case dict_get limits ''storage_mb'' of
            None \<Rightarrow> Inr free_limit
          | Some v \<Rightarrow> if \<not> json_truthy v then Inr free_limit
              else (case v of JInt n \<Rightarrow> Inr n | JBool _ \<Rightarrow> Inr 1 | _ \<Rightarrow> Inl TypeError))
      | Some _ \<Rightarrow> Inl AttributeError)"

definition assert_world_size_within_plan :: "route_env \<Rightarrow> fs \<Rightarrow> path \<Rightarrow> server \<Rightarrow> exn + int" where
  "assert_world_size_within_plan env fs p server =
     (case calculate_directory_size (ro_measured env) fs p of
        Inl e \<Rightarrow> Inl e
      | Inr n \<Rightarrow> (case storage_limit_mb (ro_free_world_limit_mb env) server of
          Inl e \<Rightarrow> Inl e
        | Inr limit_mb \<Rightarrow> if limit_mb * 1024 * 1024 < n then Inl WorldSizeLimitError else Inr n))"

definition world_path :: "fs \<Rightarrow> server \<Rightarrow> path" where
  "world_path fs server =
     (let worlds = join_path [] (json_str (dict_get (srv_mc_config server) ''server_dir'')) @ [''worlds''];
          p = join_path worlds (world_name_of server)
      in if exists_at fs p then p else worlds)"

definition guard_world_size_for_backup :: "route_env \<Rightarrow> server \<Rightarrow> unit job" where
  "guard_world_size_for_backup env server =
     bind_job (get_job (\<lambda>st. assert_world_size_within_plan env (js_fs st) (world_path (js_fs st) server) server)) (\<lambda>checked.
     case checked of
       Inr _ \<Rightarrow> return_job ()
     | Inl WorldSizeLimitError \<Rightarrow> raise_job (HTTPException 413)
     | Inl e \<Rightarrow> raise_job e)"

definition backup_storage_key :: "uuid \<Rightarrow> uuid \<Rightarrow> string" where
  "backup_storage_key server_id backup_id = str_uuid server_id @ ''/objects/'' @ str_uuid backup_id @ ''.tar.gz''"

section \<open>Backups\<close>

record create_backup_request =
  cb_name :: "string option"
  cb_description :: "string option"
  cb_idempotency_key :: "string option"
  cb_force_offline :: bool

definition new_backup :: "instant \<Rightarrow> uuid \<Rightarrow> server \<Rightarrow> uuid \<Rightarrow> BackupKind \<Rightarrow> string option \<Rightarrow> string option \<Rightarrow> uuid option \<Rightarrow> backup" where
  "new_backup now i server owner kind name description schedule =
     \<lparr>bk_id = i, bk_server_id = srv_id server, bk_owner_id = owner, bk_created_by_user_id = Some owner,
      bk_schedule_id = schedule, bk_kind = kind, bk_status = BackupStatus.pending, bk_name = name,
      bk_description = description, bk_pinned = False, bk_world_name = world_name_of server, bk_bedrock_version = None,
      bk_consistency_method = None, bk_server_was_running = False,
      bk_storage_key = Some (backup_storage_key (srv_id server) i), bk_checksum_sha256 = None, bk_size_bytes = 0,
      bk_uncompressed_size_bytes = 0, bk_included_paths = [], bk_failure_code = None, bk_created_at = now,
      bk_completed_at = None, bk_deleted_at = None\<rparr>"

definition new_backup_job :: "instant \<Rightarrow> uuid \<Rightarrow> uuid \<Rightarrow> uuid \<Rightarrow> uuid \<Rightarrow> string option \<Rightarrow> bool \<Rightarrow> backup_job" where
  "new_backup_job now i backup_id server_id requested_by idempotency_key force_offline =
     \<lparr>bj_id = i, bj_backup_id = backup_id, bj_server_id = server_id, bj_requested_by_user_id = Some requested_by,
      bj_status = BackupStatus.pending, bj_phase = ''pending'', bj_progress_percent = 0, bj_progress_bytes = 0,
      bj_total_bytes = 0, bj_idempotency_key = idempotency_key, bj_force_offline = force_offline, bj_attempts = 0,
      bj_locked_at = None, bj_heartbeat_at = None, bj_error_code = None, bj_created_at = now, bj_started_at = None,
      bj_completed_at = None, bj_updated_at = now\<rparr>"

definition add_backup :: "backup \<Rightarrow> unit op" where
  "add_backup b = modify_op (set_objects (\<lambda>db. db\<lparr>db_backups := db_backups db @ [b]\<rparr>))"

definition add_backup_job :: "backup_job \<Rightarrow> unit op" where
  "add_backup_job j = modify_op (set_objects (\<lambda>db. db\<lparr>db_backup_jobs := db_backup_jobs db @ [j]\<rparr>))"

text \<open>The job, whether it was there already, and what is handed to the executor.\<close>

type_synonym backup_answer = "backup_job \<times> bool \<times> uuid list"

definition idempotent_job :: "uuid \<Rightarrow> string option \<Rightarrow> database \<Rightarrow> backup_job option" where
  "idempotent_job sid key db = (case key of
     None \<Rightarrow> None
   | Some k \<Rightarrow> if k = [] then None
       else find (\<lambda>j. bj_server_id j = sid \<and> bj_idempotency_key j = Some k) (db_backup_jobs db))"

definition create_backup :: "route_env \<Rightarrow> string \<Rightarrow> create_backup_request \<Rightarrow> user \<Rightarrow> backup_answer job" where
  "create_backup env server_id payload user =
     bind_job (require_server server_id user) (\<lambda>server.
     bind_job (flushed_job (active_restore_job (srv_id server))) (\<lambda>restore.
     bind_job (refuse_job (restore \<noteq> None) 409) (\<lambda>_.
     bind_job (flushed_job (active_backup_job (srv_id server))) (\<lambda>existing.
     case existing of
       Some j \<Rightarrow> return_job (j, True, [])
     | None \<Rightarrow>
       bind_job (flushed_job (idempotent_job (srv_id server) (cb_idempotency_key payload))) (\<lambda>idempotent.
       case idempotent of
         Some j \<Rightarrow> return_job (j, bj_status j \<in> set ACTIVE_BACKUP_STATUSES, [])
       | None \<Rightarrow>
         (let b = new_backup (ro_now env) (ro_new_id env) server (usr_id user) BackupKind.manual (cb_name payload) (cb_description payload) None;
              job = new_backup_job (ro_now env) (ro_new_job_id env) (ro_new_id env) (srv_id server) (usr_id user)
                (cb_idempotency_key payload) (cb_force_offline payload)
          in bind_job (guard_disk_for_operation (ro_backup env)) (\<lambda>_.
             bind_job (guard_world_size_for_backup env server) (\<lambda>_.
             bind_job (db_job (bind_op (add_backup b) (\<lambda>_. flush_op))) (\<lambda>_.
             bind_job (db_job (bind_op (add_backup_job job) (\<lambda>_. commit_op))) (\<lambda>_.
             return_job (job, False, [bj_id job])))))))))))"

definition list_backups :: "string \<Rightarrow> BackupStatus option \<Rightarrow> int \<Rightarrow> user \<Rightarrow> backup list job" where
  "list_backups server_id status_filter limit user =
     bind_job (require_server server_id user) (\<lambda>server.
     flushed_job (\<lambda>db. take (nat (max 1 (min limit 100))) (sort_key (\<lambda>b. - bk_created_at b)
       (filter (\<lambda>b. bk_server_id b = srv_id server \<and> bk_deleted_at b = None \<and>
          (status_filter = None \<or> status_filter = Some (bk_status b))) (db_backups db)))))"

definition get_backup_route :: "string \<Rightarrow> string \<Rightarrow> user \<Rightarrow> backup job" where
  "get_backup_route server_id backup_id user =
     bind_job (require_server server_id user) (\<lambda>server. require_backup server backup_id user)"

text \<open>A download authenticates by header or by a token in the query.\<close>

definition resolve_user_for_download :: "settings \<Rightarrow> auth_env \<Rightarrow> string option \<Rightarrow> string option \<Rightarrow> user job" where
  "resolve_user_for_download cfg auth creds token =
     (case creds of
        Some c \<Rightarrow> db_job (get_current_user cfg auth (Some c) None)
      | None \<Rightarrow> (case token of
          None \<Rightarrow> raise_job (HTTPException 401)
        | Some t \<Rightarrow> (case user_of_token cfg auth t of
            None \<Rightarrow> raise_job (HTTPException 401)
          | Some user_id \<Rightarrow> bind_job (get_job (\<lambda>st. get_user (ses_objects (js_session st)) user_id)) (\<lambda>found.
              case found of
                None \<Rightarrow> raise_job (HTTPException 401)
              | Some u \<Rightarrow> if usr_deleted_at u \<noteq> None then raise_job (HTTPException 401) else return_job u))))"

definition gone_if_broken :: "exn + 'a \<Rightarrow> 'a job" where
  "gone_if_broken r = (case r of Inl (BackupRestoreError _) \<Rightarrow> raise_job (HTTPException 410) | _ \<Rightarrow> lift_job r)"

definition download_backup :: "settings \<Rightarrow> auth_env \<Rightarrow> backup_env \<Rightarrow> string \<Rightarrow> string \<Rightarrow> string option \<Rightarrow> string option \<Rightarrow> archive job" where
  "download_backup cfg auth env server_id backup_id token creds =
     bind_job (resolve_user_for_download cfg auth creds token) (\<lambda>user.
     bind_job (require_server server_id user) (\<lambda>server.
     bind_job (require_backup server backup_id user) (\<lambda>b.
     bind_job (refuse_job (bk_status b \<noteq> BackupStatus.completed) 409) (\<lambda>_.
     bind_job (get_job js_store) (\<lambda>store. gone_if_broken (verify_backup_artifact env store b))))))"

definition delete_backup :: "instant \<Rightarrow> string \<Rightarrow> string \<Rightarrow> bool \<Rightarrow> user \<Rightarrow> unit job" where
  "delete_backup now server_id backup_id delete_even_if_pinned user =
     bind_job (require_server server_id user) (\<lambda>server.
     bind_job (require_backup server backup_id user) (\<lambda>b.
     bind_job (refuse_job (bk_status b \<in> set ACTIVE_BACKUP_STATUSES) 409) (\<lambda>_.
     bind_job (refuse_job (bk_pinned b \<and> \<not> delete_even_if_pinned) 409) (\<lambda>_.
     bind_job (set_job (\<lambda>st. st\<lparr>js_store := unlink_artifact (srv_id server, bk_id b) (js_store st)\<rparr>)) (\<lambda>_.
     db_job (bind_op (set_backup (bk_id b) (\<lambda>b. b\<lparr>bk_status := BackupStatus.deleted, bk_deleted_at := Some now\<rparr>)) (\<lambda>_. commit_op)))))))"

definition get_backup_job_route :: "string \<Rightarrow> string \<Rightarrow> user \<Rightarrow> backup_job job" where
  "get_backup_job_route server_id job_id user =
     bind_job (require_server server_id user) (\<lambda>server.
     case parse_uuid job_id of
       None \<Rightarrow> raise_job (HTTPException 404)
     | Some i \<Rightarrow> bind_job (get_job (\<lambda>st. get_backup_job (ses_objects (js_session st)) i)) (\<lambda>found.
         case found of
           None \<Rightarrow> raise_job (HTTPException 404)
         | Some j \<Rightarrow> if bj_server_id j \<noteq> srv_id server then raise_job (HTTPException 404) else return_job j))"

definition apply_retention_now :: "settings \<Rightarrow> instant \<Rightarrow> string \<Rightarrow> user \<Rightarrow> unit job" where
  "apply_retention_now cfg now server_id user =
     bind_job (require_server server_id user) (\<lambda>server. apply_backup_retention cfg now (srv_id server) None)"

section \<open>Restores\<close>

record create_restore_request =
  cr_backup_id :: uuid
  cr_restart_after_restore :: bool
  cr_rollback_enabled :: bool
  cr_confirm :: string

definition new_restore_job :: "instant \<Rightarrow> uuid \<Rightarrow> uuid \<Rightarrow> uuid \<Rightarrow> uuid \<Rightarrow> bool \<Rightarrow> bool \<Rightarrow> restore_job" where
  "new_restore_job now i backup_id server_id requested_by restart rollback_enabled =
     \<lparr>rj_id = i, rj_backup_id = backup_id, rj_server_id = server_id, rj_requested_by_user_id = requested_by,
      rj_status = RestoreStatus.pending, rj_phase = ''pending'', rj_progress_percent = 0, rj_restart_after_restore = restart,
      rj_server_was_running = False, rj_rollback_enabled = rollback_enabled, rj_rollback_path = None, rj_attempts = 0,
      rj_locked_at = None, rj_heartbeat_at = None, rj_error_code = None, rj_created_at = now, rj_started_at = None,
      rj_completed_at = None, rj_updated_at = now\<rparr>"

definition add_restore_job :: "restore_job \<Rightarrow> unit op" where
  "add_restore_job j = modify_op (set_objects (\<lambda>db. db\<lparr>db_restore_jobs := db_restore_jobs db @ [j]\<rparr>))"

definition create_restore :: "route_env \<Rightarrow> string \<Rightarrow> create_restore_request \<Rightarrow> user \<Rightarrow> (restore_job \<times> uuid list) job" where
  "create_restore env server_id payload user =
     bind_job (refuse_job (cr_confirm payload \<noteq> ''RESTORE'') 400) (\<lambda>_.
     bind_job (require_server server_id user) (\<lambda>server.
     bind_job (require_backup server (str_uuid (cr_backup_id payload)) user) (\<lambda>b.
     bind_job (refuse_job (bk_status b \<noteq> BackupStatus.completed) 409) (\<lambda>_.
     bind_job (bind_job (get_job js_store) (\<lambda>store. gone_if_broken (verify_backup_artifact (ro_backup env) store b))) (\<lambda>_.
     bind_job (flushed_job (active_backup_job (srv_id server))) (\<lambda>backing_up.
     bind_job (refuse_job (backing_up \<noteq> None) 409) (\<lambda>_.
     bind_job (flushed_job (active_restore_job (srv_id server))) (\<lambda>restoring.
     bind_job (refuse_job (restoring \<noteq> None) 409) (\<lambda>_.
     bind_job (guard_disk_for_operation (ro_backup env)) (\<lambda>_.
     (let job = new_restore_job (ro_now env) (ro_new_job_id env) (bk_id b) (srv_id server) (usr_id user)
        (cr_restart_after_restore payload) (cr_rollback_enabled payload)
      in bind_job (db_job (bind_op (add_restore_job job) (\<lambda>_. commit_op))) (\<lambda>_.
         return_job (job, [rj_id job])))))))))))))"

definition get_restore_job_route :: "string \<Rightarrow> string \<Rightarrow> user \<Rightarrow> restore_job job" where
  "get_restore_job_route server_id job_id user =
     bind_job (require_server server_id user) (\<lambda>server.
     case parse_uuid job_id of
       None \<Rightarrow> raise_job (HTTPException 404)
     | Some i \<Rightarrow> bind_job (get_job (\<lambda>st. get_restore_job (ses_objects (js_session st)) i)) (\<lambda>found.
         case found of
           None \<Rightarrow> raise_job (HTTPException 404)
         | Some j \<Rightarrow> if rj_server_id j \<noteq> srv_id server then raise_job (HTTPException 404) else return_job j))"

section \<open>Schedules\<close>

record backup_schedule_request =
  bs_enabled :: bool
  bs_interval_minutes :: int
  bs_retention_count :: int
  bs_retention_days :: "int option"
  bs_skip_if_server_offline :: bool
  bs_defer_if_job_active :: bool

definition next_schedule_run :: "backup_schedule \<Rightarrow> instant \<Rightarrow> instant option" where
  "next_schedule_run schedule from_time = (case sch_interval_minutes schedule of
     None \<Rightarrow> None | Some m \<Rightarrow> if m = 0 then None else Some (from_time + minutes (max 1 m)))"

definition server_schedule :: "uuid \<Rightarrow> database \<Rightarrow> backup_schedule option" where
  "server_schedule sid db = find (\<lambda>c. sch_server_id c = sid) (db_backup_schedules db)"

definition get_backup_schedule :: "string \<Rightarrow> user \<Rightarrow> backup_schedule job" where
  "get_backup_schedule server_id user =
     bind_job (require_server server_id user) (\<lambda>server.
     bind_job (flushed_job (server_schedule (srv_id server))) (\<lambda>found. case found of
       None \<Rightarrow> raise_job (HTTPException 404) | Some c \<Rightarrow> return_job c))"

definition new_schedule :: "instant \<Rightarrow> uuid \<Rightarrow> uuid \<Rightarrow> uuid \<Rightarrow> backup_schedule_request \<Rightarrow> backup_schedule" where
  "new_schedule now i server_id owner payload =
     \<lparr>sch_id = i, sch_server_id = server_id, sch_owner_id = owner, sch_enabled = bs_enabled payload,
      sch_interval_minutes = Some (bs_interval_minutes payload), sch_retention_count = bs_retention_count payload,
      sch_retention_days = bs_retention_days payload, sch_skip_if_server_offline = bs_skip_if_server_offline payload,
      sch_defer_if_job_active = bs_defer_if_job_active payload, sch_last_run_at = None, sch_last_success_at = None,
      sch_next_run_at = (if bs_enabled payload then Some now else None), sch_consecutive_failures = 0,
      sch_created_at = now, sch_updated_at = now\<rparr>"

definition change_schedule :: "instant \<Rightarrow> backup_schedule_request \<Rightarrow> backup_schedule \<Rightarrow> backup_schedule" where
  "change_schedule now payload c =
     (let c = c\<lparr>sch_enabled := bs_enabled payload, sch_interval_minutes := Some (bs_interval_minutes payload),
         sch_retention_count := bs_retention_count payload, sch_retention_days := bs_retention_days payload,
         sch_skip_if_server_offline := bs_skip_if_server_offline payload,
         sch_defer_if_job_active := bs_defer_if_job_active payload, sch_updated_at := now\<rparr>;
       c = (if bs_enabled payload \<and> sch_next_run_at c = None then c\<lparr>sch_next_run_at := next_schedule_run c now\<rparr> else c)
      in if bs_enabled payload then c else c\<lparr>sch_next_run_at := None\<rparr>)"

definition upsert_backup_schedule :: "route_env \<Rightarrow> string \<Rightarrow> backup_schedule_request \<Rightarrow> user \<Rightarrow> unit job" where
  "upsert_backup_schedule env server_id payload user =
     bind_job (require_server server_id user) (\<lambda>server.
     bind_job (flushed_job (server_schedule (srv_id server))) (\<lambda>found.
     db_job (bind_op (case found of
         None \<Rightarrow> modify_op (set_objects (\<lambda>db. db\<lparr>db_backup_schedules := db_backup_schedules db @
           [new_schedule (ro_now env) (ro_new_id env) (srv_id server) (usr_id user) payload]\<rparr>))
       | Some c \<Rightarrow> set_schedule (sch_id c) (change_schedule (ro_now env) payload)) (\<lambda>_. commit_op))))"

text \<open>A backup refers to its schedule, and the foreign key has no action for a schedule that goes.\<close>

definition delete_backup_schedule :: "settings \<Rightarrow> string \<Rightarrow> user \<Rightarrow> unit job" where
  "delete_backup_schedule cfg server_id user =
     bind_job (require_server server_id user) (\<lambda>server.
     bind_job (flushed_job (server_schedule (srv_id server))) (\<lambda>found. case found of
       None \<Rightarrow> return_job ()
     | Some c \<Rightarrow>
         bind_job (db_job (modify_op (set_objects (\<lambda>db. db\<lparr>db_backup_schedules := delete_row sch_id (sch_id c) (db_backup_schedules db)\<rparr>)))) (\<lambda>_.
         bind_job (get_job (\<lambda>st. foreign_keys_enforced cfg \<and>
           list_ex (\<lambda>b. bk_schedule_id b = Some (sch_id c)) (db_backups (ses_objects (js_session st))))) (\<lambda>referenced.
         if referenced then raise_job IntegrityError else db_job commit_op))))"

section \<open>The scheduler\<close>

definition due_schedules :: "instant \<Rightarrow> database \<Rightarrow> uuid list" where
  "due_schedules now db = map sch_id (filter (\<lambda>c. sch_enabled c \<and>
     (case sch_next_run_at c of None \<Rightarrow> False | Some t \<Rightarrow> t \<le> now)) (db_backup_schedules db))"

text \<open>The backup of one schedule; its result is the job handed to the executor.\<close>

definition dispatch_backup :: "instant \<Rightarrow> uuid \<times> uuid \<Rightarrow> string \<Rightarrow> backup_schedule \<Rightarrow> server \<Rightarrow> uuid option job" where
  "dispatch_backup now ids title schedule server =
     (let b = new_backup now (fst ids) server (sch_owner_id schedule) BackupKind.scheduled (Some title)
          (Some ''Automatically created by backup schedule'') (Some (sch_id schedule));
          job = new_backup_job now (snd ids) (fst ids) (srv_id server) (sch_owner_id schedule) None False
      in bind_job (db_job (bind_op (add_backup b) (\<lambda>_. flush_op))) (\<lambda>_.
         bind_job (db_job (bind_op (add_backup_job job) (\<lambda>_.
           bind_op (set_schedule (sch_id schedule) (\<lambda>c. c\<lparr>sch_last_run_at := Some now, sch_next_run_at := next_schedule_run c now\<rparr>)) (\<lambda>_.
           commit_op)))) (\<lambda>_.
         return_job (Some (bj_id job)))))"

definition dispatch_schedule :: "backup_env \<Rightarrow> string \<Rightarrow> uuid \<times> uuid \<Rightarrow> uuid \<Rightarrow> uuid option job" where
  "dispatch_schedule env title ids i =
     (let now = be_now env in
      bind_job (get_job (\<lambda>st. get_schedule (ses_objects (js_session st)) i)) (\<lambda>found. case found of
        None \<Rightarrow> raise_job AttributeError
      | Some schedule \<Rightarrow>
          bind_job (get_job (\<lambda>st. get_server (ses_objects (js_session st)) (sch_server_id schedule))) (\<lambda>found. case found of
            None \<Rightarrow> bind_job (db_job (set_schedule i (\<lambda>c. c\<lparr>sch_enabled := False\<rparr>))) (\<lambda>_. return_job None)
          | Some server \<Rightarrow>
              if sch_skip_if_server_offline schedule \<and> \<not> env_runtime_running (be_start env) (srv_id server) then
                bind_job (db_job (set_schedule i (\<lambda>c. c\<lparr>sch_next_run_at := next_schedule_run c now\<rparr>))) (\<lambda>_. return_job None)
              else
                bind_job (flushed_job (\<lambda>db. backup_active db (srv_id server))) (\<lambda>busy.
                if sch_defer_if_job_active schedule \<and> busy then
                  bind_job (db_job (set_schedule i (\<lambda>c. c\<lparr>sch_next_run_at := Some (now + minutes 5)\<rparr>))) (\<lambda>_. return_job None)
                else dispatch_backup now ids title schedule server))))"

text \<open>An exception ends the pass with the answer 0, but what was handed over stays so.\<close>

fun dispatch_loop :: "backup_env \<Rightarrow> string \<Rightarrow> (uuid \<Rightarrow> uuid \<times> uuid) \<Rightarrow> uuid list \<Rightarrow> nat \<times> uuid list \<Rightarrow> job_state \<Rightarrow> (nat \<times> uuid list) \<times> job_state" where
  "dispatch_loop env title new_ids [] acc st = (acc, st)"
| "dispatch_loop env title new_ids (i # is) (n, submitted) st =
     (case dispatch_schedule env title (new_ids i) i st of
        (Inl e, st') \<Rightarrow> ((0, submitted), st')
      | (Inr None, st') \<Rightarrow> dispatch_loop env title new_ids is (n, submitted) st'
      | (Inr (Some j), st') \<Rightarrow> dispatch_loop env title new_ids is (Suc n, submitted @ [j]) st')"

definition dispatch_due_backup_schedules :: "backup_env \<Rightarrow> string \<Rightarrow> (uuid \<Rightarrow> uuid \<times> uuid) \<Rightarrow> job_state \<Rightarrow> (nat \<times> uuid list) \<times> job_state" where
  "dispatch_due_backup_schedules env title new_ids st =
     dispatch_loop env title new_ids (due_schedules (be_now env) (ses_flushed (js_session st))) (0, []) st"

section \<open>Requests\<close>

datatype backup_call =
    CreateBackup string create_backup_request
  | ListBackups string "BackupStatus option" int
  | GetBackup string string
  | DownloadBackup string string "string option" "string option"
  | DeleteBackup string string bool
  | CreateRestore string create_restore_request
  | GetBackupJob string string
  | GetRestoreJob string string
  | ApplyRetention string
  | GetSchedule string
  | PutSchedule string backup_schedule_request
  | DeleteSchedule string

definition answered :: "'a job \<Rightarrow> unit job" where
  "answered m = bind_job m (\<lambda>_. return_job ())"

fun backup_route :: "settings \<Rightarrow> auth_env \<Rightarrow> route_env \<Rightarrow> user \<Rightarrow> backup_call \<Rightarrow> unit job" where
  "backup_route cfg auth env user (CreateBackup sid r) = answered (create_backup env sid r user)"
| "backup_route cfg auth env user (ListBackups sid st n) = answered (list_backups sid st n user)"
| "backup_route cfg auth env user (GetBackup sid bid) = answered (get_backup_route sid bid user)"
| "backup_route cfg auth env user (DownloadBackup sid bid token creds) =
     answered (download_backup cfg auth (ro_backup env) sid bid token creds)"
| "backup_route cfg auth env user (DeleteBackup sid bid even_pinned) = delete_backup (ro_now env) sid bid even_pinned user"
| "backup_route cfg auth env user (CreateRestore sid r) = answered (create_restore env sid r user)"
| "backup_route cfg auth env user (GetBackupJob sid jid) = answered (get_backup_job_route sid jid user)"
| "backup_route cfg auth env user (GetRestoreJob sid jid) = answered (get_restore_job_route sid jid user)"
| "backup_route cfg auth env user (ApplyRetention sid) = apply_retention_now cfg (ro_now env) sid user"
| "backup_route cfg auth env user (GetSchedule sid) = answered (get_backup_schedule sid user)"
| "backup_route cfg auth env user (PutSchedule sid r) = upsert_backup_schedule env sid r user"
| "backup_route cfg auth env user (DeleteSchedule sid) = delete_backup_schedule cfg sid user"

text \<open>Each request has a session of its own, closed when it is answered.\<close>

definition serve_backup_call :: "settings \<Rightarrow> auth_env \<times> route_env \<times> user \<times> backup_call \<Rightarrow> database \<times> fs \<times> store \<Rightarrow> database \<times> fs \<times> store" where
  "serve_backup_call cfg = (\<lambda>(auth, env, user, call) (db, fs, store).
     snd (run_job (backup_route cfg auth env user call) db fs store))"

text \<open>Everything that happens to backups: requests, passes of the scheduler, and the jobs themselves.\<close>

datatype backup_event =
    Request auth_env route_env user backup_call
  | SchedulerPass backup_env string "uuid \<Rightarrow> uuid \<times> uuid"
  | RunBackup backup_env uuid
  | RunRestore backup_env uuid

fun backup_step :: "settings \<Rightarrow> backup_event \<Rightarrow> database \<times> fs \<times> store \<Rightarrow> database \<times> fs \<times> store" where
  "backup_step cfg (Request auth env user call) w = serve_backup_call cfg (auth, env, user, call) w"
| "backup_step cfg (SchedulerPass env title new_ids) (db, fs, store) =
     (case dispatch_due_backup_schedules env title new_ids (open_job db fs store) of
        (_, st) \<Rightarrow> (ses_committed (js_session st), js_fs st, js_store st))"
| "backup_step cfg (RunBackup env jid) (db, fs, store) = snd (run_job (run_backup_job cfg env jid) db fs store)"
| "backup_step cfg (RunRestore env jid) (db, fs, store) = snd (run_job (run_restore_job cfg env jid) db fs store)"

end
