(* ===== verification/Backup_Service.thy ===== *)
theory Backup_Service
  imports Backup_Routes
begin

text \<open>
  What the routes of backups and the scheduler promise, and what they do not.
\<close>

section \<open>One job per server\<close>

definition active_jobs :: "database \<Rightarrow> uuid \<Rightarrow> nat" where
  "active_jobs db sid =
     length (filter (\<lambda>j. bj_server_id j = sid \<and> bj_status j \<in> set ACTIVE_BACKUP_STATUSES) (db_backup_jobs db)) +
     length (filter (\<lambda>j. rj_server_id j = sid \<and> rj_status j \<in> set ACTIVE_RESTORE_STATUSES) (db_restore_jobs db))"

definition same_jobs :: "database \<Rightarrow> database \<Rightarrow> bool" where
  "same_jobs db d \<longleftrightarrow> db_backup_jobs d = db_backup_jobs db \<and> db_restore_jobs d = db_restore_jobs db"

definition jobs_settled :: "database \<Rightarrow> session \<Rightarrow> bool" where
  "jobs_settled db s \<longleftrightarrow> same_jobs db (ses_committed s) \<and> same_jobs db (ses_flushed s) \<and> same_jobs db (ses_objects s)"

definition one_job :: "uuid \<Rightarrow> session \<Rightarrow> bool" where
  "one_job sid s \<longleftrightarrow> active_jobs (ses_committed s) sid \<le> 1"

lemma active_jobs_cong: "same_jobs db d \<Longrightarrow> active_jobs d sid = active_jobs db sid"
  by (simp add: same_jobs_def active_jobs_def)

lemma settled_one_job: "jobs_settled db s \<Longrightarrow> active_jobs db sid \<le> 1 \<Longrightarrow> one_job sid s"
  using active_jobs_cong [of db "ses_committed s" sid] by (simp add: jobs_settled_def one_job_def)

lemma keeps_flush: "(\<And>s. P s \<Longrightarrow> P (s\<lparr>ses_flushed := ses_objects s\<rparr>)) \<Longrightarrow> keeps P flush_op"
  unfolding keeps_def by (rule triple_flush) auto

lemma jobs_settled_ops [op_rules]:
  "keeps (jobs_settled db) commit_op" "keeps (jobs_settled db) flush_op" "keeps (jobs_settled db) (set_backup i f)"
  "keeps (jobs_settled db) (set_schedule i g)" "keeps (jobs_settled db) (add_backup b)"
  "keeps (jobs_settled db) (modify_op (set_objects (\<lambda>d. d\<lparr>db_backup_schedules := h d\<rparr>)))"
  by (auto intro!: keeps_commit keeps_flush keeps_modify
      simp: jobs_settled_def same_jobs_def set_backup_def set_schedule_def add_backup_def)

lemma keeps_lookup [op_rules]: "keeps P (get_current_user cfg auth creds token)"
  unfolding get_current_user_def Let_def by (intro op_rules)

lemma session_only_store [job_rules]: "jkeeps (session_only P) (set_job (\<lambda>st. st\<lparr>js_store := f st\<rparr>))"
  by (rule jkeeps_set) (simp add: session_only_def)

lemma jkeeps_parts [job_rules]:
  "jkeeps P (require_server i user)" "jkeeps P (require_backup server i user)" "jkeeps P (flushed_job f)"
  "jkeeps P (refuse_job b code)" "jkeeps P (guard_disk_for_operation env)" "jkeeps P (gone_if_broken r)"
  "jkeeps P (guard_world_size_for_backup renv server)"
  unfolding require_server_def require_backup_def flushed_job_def refuse_job_def guard_disk_for_operation_def
    gone_if_broken_def guard_world_size_for_backup_def
  by (intro job_rules | simp add: jkeeps_simple split: sum.split exn.split)+

lemma jkeeps_reading [job_rules]:
  "jkeeps P (list_backups i f n user)" "jkeeps P (get_backup_route i b user)" "jkeeps P (get_backup_job_route i j user)"
  "jkeeps P (get_restore_job_route i j user)" "jkeeps P (get_backup_schedule i user)"
  unfolding list_backups_def get_backup_route_def get_backup_job_route_def get_restore_job_route_def get_backup_schedule_def
  by (intro job_rules)+

lemma settled_download: "jkeeps (session_only (jobs_settled db)) (download_backup cfg auth env i b token creds)"
  unfolding download_backup_def resolve_user_for_download_def by (intro job_rules op_rules)

lemma settled_writing:
  "jkeeps (session_only (jobs_settled db)) (delete_backup now i b p user)"
  "jkeeps (session_only (jobs_settled db)) (apply_retention_now cfg now i user)"
  "jkeeps (session_only (jobs_settled db)) (upsert_backup_schedule env i r user)"
  "jkeeps (session_only (jobs_settled db)) (delete_backup_schedule cfg i user)"
  unfolding delete_backup_def apply_retention_now_def apply_backup_retention_def expire_backup_def unlink_artifact_def
    upsert_backup_schedule_def delete_backup_schedule_def
  by (intro job_rules session_only_store op_rules)+

lemma sort_key_Nil: "sort_key f xs = [] \<longleftrightarrow> xs = []"
  by (metis set_empty set_sort)

text \<open>What a route knows of the server when it records a job.\<close>

definition unoccupied :: "database \<Rightarrow> uuid \<Rightarrow> job_state \<Rightarrow> bool" where
  "unoccupied db i st \<longleftrightarrow> session_only (jobs_settled db) st \<and> active_jobs db i = 0"

lemma unoccupiedI:
  assumes "session_only (jobs_settled db) st"
    and "active_restore_job i (ses_flushed (js_session st)) = None" "active_backup_job i (ses_flushed (js_session st)) = None"
  shows "unoccupied db i st"
  using assms by (simp add: unoccupied_def session_only_def jobs_settled_def same_jobs_def active_restore_job_def
      active_backup_job_def sort_key_Nil active_jobs_def)

lemma unoccupied_keeps: "jkeeps (session_only (jobs_settled db)) m \<Longrightarrow> jkeeps (unoccupied db i) m"
  by (rule jkeepsI) (auto simp: unoccupied_def dest: jkeepsD)

lemma record_job:
  assumes "\<And>d. same_jobs db d \<Longrightarrow> active_jobs (f d) sid \<le> active_jobs db sid + (if i = sid then 1 else 0)"
    and "active_jobs db sid \<le> 1"
  shows "jtriple (unoccupied db i) (db_job (bind_op (modify_op (set_objects f)) (\<lambda>_. commit_op)))
    (\<lambda>_. session_only (one_job sid)) (\<lambda>_. session_only (one_job sid))"
proof -
  have "one_job sid (open_session (f (ses_objects s)))" if "jobs_settled db s" "active_jobs db i = 0" for s
    using that assms(1) [of "ses_objects s"] assms(2) by (cases "i = sid") (simp_all add: one_job_def jobs_settled_def)
  moreover have "one_job sid (set_objects f s)" if "jobs_settled db s" for s
    using settled_one_job [OF that assms(2)] by (simp add: one_job_def)
  ultimately show ?thesis
    by (auto simp: jtriple_def db_job_def bind_op_def modify_op_def commit_op_def unoccupied_def session_only_def
        split: sum.split dest!: commit_InrD commit_InlD)
qed

lemma jtriple_refuse:
  "(\<And>s. P s \<Longrightarrow> R (HTTPException code) s) \<Longrightarrow> (\<not> b \<Longrightarrow> jtriple P (k ()) Q R) \<Longrightarrow> jtriple P (bind_job (refuse_job b code) k) Q R"
  by (auto simp: refuse_job_def jtriple_def job_defs)

lemma jtriple_flushed:
  "(\<And>a. jtriple (\<lambda>s. P s \<and> f (ses_flushed (js_session s)) = a) (k a) Q R) \<Longrightarrow> jtriple P (bind_job (flushed_job f) k) Q R"
  unfolding flushed_job_def by (rule jtriple_get_bind)

lemma triple_recording:
  assumes "active_jobs db sid \<le> 1"
  shows "jtriple (unoccupied db (bj_server_id job)) (db_job (bind_op (add_backup_job job) (\<lambda>_. commit_op)))
      (\<lambda>_. session_only (one_job sid)) (\<lambda>_. session_only (one_job sid))"
    and "jtriple (unoccupied db (rj_server_id rjob)) (db_job (bind_op (add_restore_job rjob) (\<lambda>_. commit_op)))
      (\<lambda>_. session_only (one_job sid)) (\<lambda>_. session_only (one_job sid))"
proof -
  show "jtriple (unoccupied db (bj_server_id job)) (db_job (bind_op (add_backup_job job) (\<lambda>_. commit_op)))
      (\<lambda>_. session_only (one_job sid)) (\<lambda>_. session_only (one_job sid))"
    unfolding add_backup_job_def by (rule record_job [OF _ assms]) (auto simp: same_jobs_def active_jobs_def)
  show "jtriple (unoccupied db (rj_server_id rjob)) (db_job (bind_op (add_restore_job rjob) (\<lambda>_. commit_op)))
      (\<lambda>_. session_only (one_job sid)) (\<lambda>_. session_only (one_job sid))"
    unfolding add_restore_job_def by (rule record_job [OF _ assms]) (auto simp: same_jobs_def active_jobs_def)
qed

lemma triple_create_backup:
  assumes "active_jobs db sid \<le> 1"
  shows "jtriple (session_only (jobs_settled db)) (create_backup env i r user)
    (\<lambda>_. session_only (one_job sid)) (\<lambda>_. session_only (one_job sid))"
proof -
  let ?P = "session_only (jobs_settled db)" and ?Q = "\<lambda>_. session_only (one_job sid)"
  have safe: "?P s \<Longrightarrow> session_only (one_job sid) s" for s
    using settled_one_job [OF _ assms] by (simp add: session_only_def)
  have quiet: "jtriple (unoccupied db k) m (\<lambda>_. unoccupied db k) (\<lambda>_. session_only (one_job sid))" if "jkeeps ?P m" for m :: "unit job" and k
    by (rule jtriple_keeps [OF unoccupied_keeps [OF that]]) (simp add: unoccupied_def safe)
  have record_it: "jtriple (unoccupied db (srv_id server)) (bind_job (guard_disk_for_operation (ro_backup env)) (\<lambda>_.
      bind_job (guard_world_size_for_backup env server) (\<lambda>_.
      bind_job (db_job (bind_op (add_backup b) (\<lambda>_. flush_op))) (\<lambda>_.
      bind_job (db_job (bind_op (add_backup_job job) (\<lambda>_. commit_op))) (\<lambda>_.
      return_job (job, False, [bj_id job])))))) ?Q ?Q" if "bj_server_id job = srv_id server" for server b job
  proof -
    have "jkeeps ?P (db_job (bind_op (add_backup b) (\<lambda>_. flush_op)))"
      by (intro job_rules op_rules)
    from jtriple_bind [OF quiet [OF jkeeps_parts(5)] jtriple_bind [OF quiet [OF jkeeps_parts(7)]
        jtriple_bind [OF quiet [OF this] jtriple_bind [OF triple_recording(1) [OF assms, of job, unfolded that] jtriple_return]]]]
    show ?thesis by simp
  qed
  show ?thesis
    unfolding create_backup_def Let_def
    apply (rule jtriple_bind [OF jtriple_keeps [OF jkeeps_parts(1)]], erule safe)
    apply (rule jtriple_flushed, rule jtriple_refuse, simp add: safe)
    apply (rule jtriple_flushed, split option.split, intro conjI impI allI)
     apply (rule jtriple_flushed, split option.split, intro conjI impI allI)
      apply (rule jtriple_pre [OF record_it], simp add: new_backup_job_def, simp add: unoccupiedI)
     apply (rule jtriple_return, simp add: safe)
    apply (rule jtriple_return, simp add: safe)
    done
qed

lemma triple_create_restore:
  assumes "active_jobs db sid \<le> 1"
  shows "jtriple (session_only (jobs_settled db)) (create_restore env i r user)
    (\<lambda>_. session_only (one_job sid)) (\<lambda>_. session_only (one_job sid))"
proof -
  let ?P = "session_only (jobs_settled db)" and ?Q = "\<lambda>_. session_only (one_job sid)"
  have safe: "?P s \<Longrightarrow> session_only (one_job sid) s" for s
    using settled_one_job [OF _ assms] by (simp add: session_only_def)
  have step: "jtriple ?P (bind_job m k) ?Q ?Q" if "jkeeps ?P m" "\<And>a. jtriple ?P (k a) ?Q ?Q" for m :: "'a job" and k :: "'a \<Rightarrow> 'b job"
    by (rule jtriple_bind [OF jtriple_keeps [OF that(1)] that(2)]) (rule safe)
  have record_it: "jtriple (unoccupied db (srv_id server)) (bind_job (guard_disk_for_operation (ro_backup env)) (\<lambda>_.
      bind_job (db_job (bind_op (add_restore_job job) (\<lambda>_. commit_op))) (\<lambda>_. return_job (job, [rj_id job])))) ?Q ?Q"
    if "rj_server_id job = srv_id server" for server job
    by (rule jtriple_bind [OF jtriple_keeps [OF unoccupied_keeps [OF jkeeps_parts(5)]]
          jtriple_bind [OF triple_recording(2) [OF assms, of job, unfolded that] jtriple_return]])
      (simp_all add: unoccupied_def safe)
  show ?thesis
    unfolding create_restore_def Let_def
    apply (rule jtriple_refuse, erule safe, rule step, rule jkeeps_parts(1), rule step, rule jkeeps_parts(2))
    apply (rule jtriple_refuse, erule safe, rule step, intro job_rules)
    apply (rule jtriple_flushed, rule jtriple_refuse, simp add: safe, rule jtriple_flushed, rule jtriple_refuse, simp add: safe)
    apply (rule jtriple_pre [OF record_it], simp add: new_restore_job_def, simp add: unoccupiedI)
    done
qed

text \<open>
  Every route leaves the other jobs alone, and the two that record a job look for an active one first.
\<close>

lemma one_job_route:
  assumes "active_jobs db sid \<le> 1"
  shows "jtriple (session_only (jobs_settled db)) (backup_route cfg auth env user call)
    (\<lambda>_. session_only (one_job sid)) (\<lambda>_. session_only (one_job sid))"
proof -
  have safe: "session_only (jobs_settled db) s \<Longrightarrow> session_only (one_job sid) s" for s
    using settled_one_job [OF _ assms] by (simp add: session_only_def)
  have quiet: "jtriple (session_only (jobs_settled db)) m (\<lambda>_. session_only (one_job sid)) (\<lambda>_. session_only (one_job sid))"
    if "jkeeps (session_only (jobs_settled db)) m" for m :: "unit job"
    using that unfolding jkeeps_def by (rule jtriple_weaken) (simp_all add: safe)
  show ?thesis
  proof (cases call)
    case (CreateBackup i r)
    then show ?thesis
      by (simp add: answered_def jtriple_bind [OF triple_create_backup [OF assms] jtriple_return])
  next
    case (CreateRestore i r)
    then show ?thesis
      by (simp add: answered_def jtriple_bind [OF triple_create_restore [OF assms] jtriple_return])
  qed (simp_all add: answered_def quiet settled_writing settled_download jkeeps_bind jkeeps_simple jkeeps_reading)
qed

lemma serve_one_job:
  assumes "active_jobs (fst w) sid \<le> 1"
  shows "active_jobs (fst (serve_backup_call cfg c w)) sid \<le> 1"
proof (cases w)
  case (fields db fs store)
  obtain auth env user call where c: "c = (auth, env, user, call)" by (cases c)
  obtain r st where run: "backup_route cfg auth env user call (open_job db fs store) = (r, st)" by fastforce
  have start: "session_only (jobs_settled db) (open_job db fs store)"
    by (simp add: open_job_def session_only_def jobs_settled_def same_jobs_def)
  from assms fields have "active_jobs db sid \<le> 1" by simp
  note t = one_job_route [OF this, of cfg auth env user call]
  from jtriple_Inr [OF t start] jtriple_Inl [OF t start] run have "session_only (one_job sid) st"
    by (cases r) auto
  with fields c run show ?thesis
    by (simp add: serve_backup_call_def run_job_def session_only_def one_job_def)
qed

text \<open>
  C37: whatever requests for backups, restores and schedules arrive, from whomever, a server that had at
  most one active backup or restore has at most one after them: the routes that record a job refuse or answer
  the active one.  (Each request is handled alone; the scheduler is not a route.)
\<close>

theorem routes_keep_one_job:
  assumes "active_jobs db sid \<le> 1"
  shows "active_jobs (fst (fold (serve_backup_call cfg) calls (db, fs, store))) sid \<le> 1"
proof -
  have "active_jobs (fst w) sid \<le> 1 \<Longrightarrow> active_jobs (fst (fold (serve_backup_call cfg) calls w)) sid \<le> 1" for w
  proof (induction calls arbitrary: w)
    case (Cons c calls)
    from Cons.IH [OF serve_one_job [OF Cons.prems]] show ?case by simp
  qed simp
  from this [of "(db, fs, store)"] assms show ?thesis by simp
qed

section \<open>Downloads\<close>

lemma refuse_job_Inr: "refuse_job b code st = (Inr u, st') \<longleftrightarrow> \<not> b \<and> st' = st"
  by (auto simp: refuse_job_def job_defs)

lemma require_server_InrD:
  "require_server i user st = (Inr server, st') \<Longrightarrow>
   st' = st \<and> get_server (ses_objects (js_session st)) (srv_id server) = Some server \<and> parse_uuid i = Some (srv_id server) \<and>
   srv_owner_id server = usr_id user"
  by (auto simp: require_server_def job_Inr split: option.splits if_splits dest: get_server_SomeD)

lemma require_backup_InrD:
  "require_backup server i user st = (Inr b, st') \<Longrightarrow>
   st' = st \<and> get_backup (ses_objects (js_session st)) (bk_id b) = Some b \<and> parse_uuid i = Some (bk_id b) \<and>
   bk_server_id b = srv_id server \<and> bk_owner_id b = usr_id user"
  by (auto simp: require_backup_def get_backup_def job_Inr split: option.splits if_splits dest: get_row_SomeD)

lemma resolve_user_InrD:
  assumes "resolve_user_for_download cfg auth creds token st = (Inr u, st')"
  obtains t where "creds = Some t \<or> creds = None \<and> token = Some t" "user_of_token cfg auth t = Some (usr_id u)"
    "get_user (ses_objects (js_session st)) (usr_id u) = Some u" "usr_deleted_at u = None" "st' = st"
proof -
  have id: "usr_id u = i" if "get_user (ses_objects (js_session st)) i = Some u" for i
    using that by (auto simp: get_user_def dest: get_row_SomeD)
  have "\<exists>t. (creds = Some t \<or> creds = None \<and> token = Some t) \<and> user_of_token cfg auth t = Some (usr_id u) \<and>
      get_user (ses_objects (js_session st)) (usr_id u) = Some u \<and> usr_deleted_at u = None \<and> st' = st"
    using assms
    by (auto simp: resolve_user_for_download_def get_current_user_def db_job_def op_defs job_Inr id
        split: option.splits if_splits prod.splits)
  then show thesis using that by blast
qed

lemma verified_InrD:
  assumes "verify_backup_artifact env store b = Inr a"
  obtains art where "map_of store (bk_server_id b, bk_id b) = Some art" "art_archive art = a" "0 < art_size art"
    "\<And>c. bk_checksum_sha256 b = Some c \<Longrightarrow> c \<noteq> [] \<Longrightarrow> be_sha256 env a = c"
    "bk_size_bytes b \<noteq> 0 \<Longrightarrow> art_size art = bk_size_bytes b"
  using assms by (auto simp: verify_backup_artifact_def split: option.splits if_splits)

text \<open>
  C38: a download serves the stored archive of a completed backup, with the size and the checksum on record,
  to the owner of the server and of the backup, whose live account an access token (in the header or, without
  one, in the query) identifies; it changes nothing.
\<close>

theorem download_is_own_and_intact:
  assumes "download_backup cfg auth env server_id backup_id token creds (open_job db fs store) = (Inr a, st')"
  shows "\<exists>t u server b art. (creds = Some t \<or> creds = None \<and> token = Some t) \<and>
    user_of_token cfg auth t = Some (usr_id u) \<and> get_user db (usr_id u) = Some u \<and> usr_deleted_at u = None \<and>
    parse_uuid server_id = Some (srv_id server) \<and> get_server db (srv_id server) = Some server \<and> srv_owner_id server = usr_id u \<and>
    parse_uuid backup_id = Some (bk_id b) \<and> get_backup db (bk_id b) = Some b \<and> bk_owner_id b = usr_id u \<and>
    bk_server_id b = srv_id server \<and> bk_status b = BackupStatus.completed \<and>
    map_of store (srv_id server, bk_id b) = Some art \<and> art_archive art = a \<and> 0 < art_size art \<and>
    (bk_size_bytes b \<noteq> 0 \<longrightarrow> art_size art = bk_size_bytes b) \<and>
    (bk_checksum_sha256 b \<notin> {None, Some []} \<longrightarrow> bk_checksum_sha256 b = Some (be_sha256 env a)) \<and>
    st' = open_job db fs store"
proof -
  let ?st = "open_job db fs store"
  have db: "ses_objects (js_session ?st) = db" "js_store ?st = store" by (simp_all add: open_job_def)
  from assms obtain u st1 server st2 b st3 where
    r: "resolve_user_for_download cfg auth creds token ?st = (Inr u, st1)" and
    s: "require_server server_id u st1 = (Inr server, st2)" and
    b: "require_backup server backup_id u st2 = (Inr b, st3)" and
    c: "bk_status b = BackupStatus.completed" and
    v: "gone_if_broken (verify_backup_artifact env (js_store st3) b) st3 = (Inr a, st')"
    unfolding download_backup_def job_Inr refuse_job_Inr by blast
  obtain t where u: "creds = Some t \<or> creds = None \<and> token = Some t" "user_of_token cfg auth t = Some (usr_id u)"
    "get_user (ses_objects (js_session ?st)) (usr_id u) = Some u" "usr_deleted_at u = None" "st1 = ?st"
    using r by (rule resolve_user_InrD)
  note server = require_server_InrD [OF s] and backup = require_backup_InrD [OF b]
  from v server backup u(5) have "verify_backup_artifact env store b = Inr a" "st' = ?st"
    by (auto simp: gone_if_broken_def job_Inr db split: sum.splits exn.splits)
  from this(1) obtain art where "map_of store (bk_server_id b, bk_id b) = Some art" "art_archive art = a" "0 < art_size art"
    "\<And>c. bk_checksum_sha256 b = Some c \<Longrightarrow> c \<noteq> [] \<Longrightarrow> be_sha256 env a = c"
    "bk_size_bytes b \<noteq> 0 \<Longrightarrow> art_size art = bk_size_bytes b"
    by (rule verified_InrD) (rule that)
  with u server backup c db \<open>st' = ?st\<close> show ?thesis
    by (intro exI [of _ t] exI [of _ u] exI [of _ server] exI [of _ b] exI [of _ art]) auto
qed

section \<open>The scheduler\<close>

text \<open>What a pass looks at in a schedule: its server and how it treats one that is offline or busy.\<close>

definition schedule_policy :: "backup_schedule \<Rightarrow> uuid \<times> bool \<times> bool" where
  "schedule_policy c = (sch_server_id c, sch_skip_if_server_offline c, sch_defer_if_job_active c)"

definition unsaved :: "database \<Rightarrow> job_state \<Rightarrow> bool" where
  "unsaved db st \<longleftrightarrow> ses_committed (js_session st) = db \<and> ses_flushed (js_session st) = db \<and>
     db_servers (ses_objects (js_session st)) = db_servers db \<and>
     (\<forall>i. map_option schedule_policy (get_schedule (ses_objects (js_session st)) i) = map_option schedule_policy (get_schedule db i))"

definition postponed :: "backup_env \<Rightarrow> database \<Rightarrow> backup_schedule \<Rightarrow> bool" where
  "postponed env db c \<longleftrightarrow> get_server db (sch_server_id c) \<noteq> None \<and>
     (sch_skip_if_server_offline c \<and> \<not> env_runtime_running (be_start env) (sch_server_id c) \<or>
      sch_defer_if_job_active c \<and> backup_active db (sch_server_id c))"

lemma set_schedule_run:
  "db_job (set_schedule i f) st = (Inr (), st\<lparr>js_session := set_objects (\<lambda>db. db\<lparr>db_backup_schedules :=
     modify_row sch_id i f (db_backup_schedules db)\<rparr>) (js_session st)\<rparr>)"
  by (simp add: db_job_def set_schedule_def modify_op_def)

lemma bind_set_schedule: "bind_job (db_job (set_schedule i f)) k st = k () (snd (db_job (set_schedule i f) st))"
  by (simp add: bind_job_def set_schedule_run)

lemma unsaved_set_schedule:
  assumes "unsaved db st" "\<And>c. sch_id (f c) = sch_id c" "\<And>c. schedule_policy (f c) = schedule_policy c"
  shows "unsaved db (snd (db_job (set_schedule i f) st))"
proof -
  have policy: "map_option schedule_policy (if k = i then map_option f x else x) = map_option schedule_policy x" for k x
    using assms(3) by (simp add: option.map_comp o_def)
  show ?thesis
    using assms(1,2) policy by (simp add: set_schedule_run unsaved_def get_schedule_def get_row_modify_row)
qed

lemma postponed_dispatch:
  assumes "unsaved db st" "get_schedule db i = Some c" "postponed env db c"
  obtains st' where "dispatch_schedule env title ids i st = (Inr None, st')" "unsaved db st'"
proof -
  from assms(1,2) obtain c' where c': "get_schedule (ses_objects (js_session st)) i = Some c'" "schedule_policy c' = schedule_policy c"
    by (force simp: unsaved_def dest: spec [of _ i])
  from assms(1,3) c'(2) obtain server where server: "get_server (ses_objects (js_session st)) (sch_server_id c') = Some server"
    "srv_id server = sch_server_id c'"
    by (auto simp: postponed_def unsaved_def schedule_policy_def get_server_def dest: get_row_SomeD)
  let ?skip = "sch_skip_if_server_offline c' \<and> \<not> env_runtime_running (be_start env) (srv_id server)"
  let ?f = "\<lambda>c. if ?skip then c\<lparr>sch_next_run_at := next_schedule_run c (be_now env)\<rparr>
    else c\<lparr>sch_next_run_at := Some (be_now env + minutes 5)\<rparr>"
  have "dispatch_schedule env title ids i st = (Inr None, snd (db_job (set_schedule i ?f) st))"
    using assms(1,3) c' server
    by (auto simp: dispatch_schedule_def Let_def bind_get_job bind_set_schedule return_job_def flushed_job_def unsaved_def
        postponed_def schedule_policy_def)
  moreover have "unsaved db (snd (db_job (set_schedule i ?f) st))"
    by (rule unsaved_set_schedule [OF assms(1)]) (simp_all add: schedule_policy_def)
  ultimately show thesis by (rule that)
qed

lemma postponed_loop:
  assumes "unsaved db st" "\<And>i. i \<in> set is \<Longrightarrow> \<exists>c. get_schedule db i = Some c \<and> postponed env db c"
  shows "\<exists>st'. dispatch_loop env title new_ids is acc st = (acc, st') \<and> unsaved db st'"
  using assms
proof (induction "is" arbitrary: st)
  case (Cons i js)
  then obtain c where "get_schedule db i = Some c" "postponed env db c" by force
  with Cons.prems(1) obtain st1 where "dispatch_schedule env title (new_ids i) i st = (Inr None, st1)" "unsaved db st1"
    by (rule postponed_dispatch)
  with Cons.IH [of st1] Cons.prems(2) show ?case by (cases acc) simp
qed simp

text \<open>
  C39: a pass in which every due schedule is to skip its server, offline, or to wait for a backup of it under way
  starts nothing and saves nothing: neither the next interval nor the five minutes it sets are committed, so
  that at any later pass the same schedules are due.
\<close>

theorem postponed_schedules_stay_due:
  assumes "distinct (map sch_id (db_backup_schedules db))"
    and "\<And>c. c \<in> set (db_backup_schedules db) \<Longrightarrow> sch_id c \<in> set (due_schedules (be_now env) db) \<Longrightarrow> postponed env db c"
    and "be_now env \<le> later"
  shows "\<exists>st'. dispatch_due_backup_schedules env title new_ids (open_job db fs store) = ((0, []), st') \<and>
    ses_committed (js_session st') = db \<and>
    set (due_schedules (be_now env) db) \<subseteq> set (due_schedules later (ses_committed (js_session st')))"
proof -
  have start: "unsaved db (open_job db fs store)" by (simp add: unsaved_def open_job_def)
  have due: "\<exists>c. get_schedule db i = Some c \<and> postponed env db c" if i: "i \<in> set (due_schedules (be_now env) db)" for i
  proof -
    from i obtain c where c: "c \<in> set (db_backup_schedules db)" "sch_id c = i" by (auto simp: due_schedules_def)
    with get_row_unique [OF assms(1) c(1)] assms(2) i show ?thesis by (auto simp: get_schedule_def)
  qed
  have "set (due_schedules (be_now env) db) \<subseteq> set (due_schedules later db)"
    using assms(3) by (auto simp: due_schedules_def split: option.splits)
  moreover obtain st' where "dispatch_loop env title new_ids (due_schedules (be_now env) db) (0, []) (open_job db fs store) = ((0, []), st')"
    "unsaved db st'"
    using postponed_loop [OF start due] by blast
  ultimately show ?thesis
    by (auto simp: dispatch_due_backup_schedules_def unsaved_def open_job_def)
qed

lemma scheduler_ignores_restores:
  assumes "due_schedules (be_now env) db = [i]" "get_schedule db i = Some c" "get_server db (sch_server_id c) = Some server"
    and "\<not> sch_skip_if_server_offline c" "\<not> backup_active db (srv_id server)" "constraints_ok db"
  shows "\<exists>st'. dispatch_due_backup_schedules env title new_ids (open_job db fs store) = ((1, [snd (new_ids i)]), st') \<and>
    db_restore_jobs (ses_committed (js_session st')) = db_restore_jobs db \<and> backup_active (ses_committed (js_session st')) (srv_id server)"
proof -
  let ?b = "new_backup (be_now env) (fst (new_ids i)) server (sch_owner_id c) BackupKind.scheduled (Some title)
    (Some ''Automatically created by backup schedule'') (Some (sch_id c))"
  let ?j = "new_backup_job (be_now env) (snd (new_ids i)) (fst (new_ids i)) (srv_id server) (sch_owner_id c) None False"
  let ?db = "db\<lparr>db_backups := db_backups db @ [?b], db_backup_jobs := db_backup_jobs db @ [?j], db_backup_schedules :=
    modify_row sch_id (sch_id c) (\<lambda>c. c\<lparr>sch_last_run_at := Some (be_now env), sch_next_run_at := next_schedule_run c (be_now env)\<rparr>)
      (db_backup_schedules db)\<rparr>"
  have ok: "constraints_ok (db\<lparr>db_backups := x\<rparr>)" "constraints_ok (db\<lparr>db_backups := x, db_backup_jobs := y, db_backup_schedules := z\<rparr>)" for x y z
    using assms(6) by (simp_all add: constraints_ok_def)
  have rows: "get_schedule (db\<lparr>db_backups := x\<rparr>) i = get_schedule db i" "get_server (db\<lparr>db_backups := x\<rparr>) k = get_server db k" for x k
    by (simp_all add: get_schedule_def get_server_def)
  have "dispatch_schedule env title (new_ids i) i (open_job db fs store) = (Inr (Some (bj_id ?j)), (open_job db fs store)\<lparr>js_session := open_session ?db\<rparr>)"
    using assms ok by (simp add: dispatch_schedule_def dispatch_backup_def Let_def bind_get_job flushed_job_def open_job_def job_defs
        add_backup_def add_backup_job_def set_schedule_def op_defs flush_def commit_def set_objects_def open_session_def)
  moreover have "backup_active ?db (srv_id server)"
    by (simp add: backup_active_def new_backup_job_def ACTIVE_BACKUP_STATUSES_def)
  ultimately show ?thesis
    using assms(1) by (simp add: dispatch_due_backup_schedules_def open_job_def new_backup_job_def)
qed

section \<open>The size of Java worlds\<close>

text \<open>A Java server keeps its world beside \<open>worlds\<close>, which is all that the guard measures.\<close>

lemma java_worlds_pass_the_size_guard:
  assumes "\<not> exists_at (js_fs st) (world_path (js_fs st) server)"
    and "resolve_path (js_fs st) (world_path (js_fs st) server) = Some q" "ro_measured env q = None"
    and "storage_limit_mb (ro_free_world_limit_mb env) server = Inr limit" "0 \<le> limit"
  shows "guard_world_size_for_backup env server st = (Inr (), st)"
  using assms by (simp add: guard_world_size_for_backup_def bind_get_job assert_world_size_within_plan_def calculate_directory_size_def
      return_job_def)

section \<open>Samples\<close>

definition sample_route_env :: route_env where
  "sample_route_env = \<lparr>ro_backup = idle_backup_env, ro_new_id = 61, ro_new_job_id = 71, ro_measured = \<lambda>_. None,
     ro_free_world_limit_mb = 2048\<rparr>"

definition sample_backup_request :: create_backup_request where
  "sample_backup_request = \<lparr>cb_name = None, cb_description = None, cb_idempotency_key = None, cb_force_offline = False\<rparr>"

definition sample_restore_request :: create_restore_request where
  "sample_restore_request = \<lparr>cr_backup_id = 60, cr_restart_after_restore = True, cr_rollback_enabled = True, cr_confirm = ''RESTORE''\<rparr>"

definition sample_schedule :: backup_schedule where
  "sample_schedule = \<lparr>sch_id = 90, sch_server_id = 10, sch_owner_id = 1, sch_enabled = True, sch_interval_minutes = Some 60,
     sch_retention_count = 7, sch_retention_days = None, sch_skip_if_server_offline = True, sch_defer_if_job_active = True,
     sch_last_run_at = None, sch_last_success_at = None, sch_next_run_at = Some 0, sch_consecutive_failures = 0,
     sch_created_at = 0, sch_updated_at = 0\<rparr>"

definition scheduled_db :: database where
  "scheduled_db = (restore_db ServerFlavor.PAPER True)\<lparr>db_users := [sample_user], db_restore_jobs := [],
     db_backup_schedules := [sample_schedule]\<rparr>"

definition sample_access_token :: string where
  "sample_access_token = sign default_settings sample_env (access_claims default_settings sample_env 1)"

lemma routes_keep_one_job_witness:
  "active_jobs (fst (fold (serve_backup_call default_settings)
      [(sample_env, sample_route_env, sample_user, CreateBackup (str_uuid 10) sample_backup_request),
       (sample_env, sample_route_env, sample_user, CreateRestore (str_uuid 10) sample_restore_request)]
      (scheduled_db, java_world_fs ''data'', stored_archive_of ''java/world''))) 10 \<le> 1"
  by (rule routes_keep_one_job) (simp add: active_jobs_def scheduled_db_def restore_db_def empty_db_def)

lemma token_of_user: "user_of_token default_settings sample_env sample_access_token = Some 1"
  using decode_accepted [OF sample_codec(2) [of 1], of "''access''" 1] parse_str_uuid [of 1]
  by (simp add: user_of_token_def sample_access_token_def)

lemma download_is_own_and_intact_witness:
  "\<exists>st'. download_backup default_settings sample_env idle_backup_env (str_uuid 10) (str_uuid 60) (Some sample_access_token) None
      (open_job scheduled_db [] (stored_archive_of ''java/world'')) =
      (Inr [(''java/world'', MDir), (''java/world/level.dat'', MFile ''old'')], st') \<and>
    st' = open_job scheduled_db [] (stored_archive_of ''java/world'')"
proof -
  let ?st = "open_job scheduled_db [] (stored_archive_of ''java/world'')"
  let ?a = "[(''java/world'', MDir), (''java/world/level.dat'', MFile ''old'')]"
  have objects: "get_user scheduled_db 1 = Some sample_user" "get_server scheduled_db 10 = Some (world_server ServerFlavor.PAPER)"
    "get_backup scheduled_db 60 = Some (plain_backup\<lparr>bk_status := BackupStatus.completed, bk_checksum_sha256 := Some ''ab'', bk_size_bytes := 2\<rparr>)"
    by (simp_all add: scheduled_db_def restore_db_def get_user_def get_server_def get_backup_def get_row_def sample_user_def
        world_server_def sample_server_def plain_backup_def)
  have strip: "py_strip (''ab'' @ [CHR 0x0A]) = ''ab''" by code_simp
  have "verify_backup_artifact idle_backup_env (stored_archive_of ''java/world'')
      (plain_backup\<lparr>bk_status := BackupStatus.completed, bk_checksum_sha256 := Some ''ab'', bk_size_bytes := 2\<rparr>) = Inr ?a"
    using strip by (simp add: verify_backup_artifact_def stored_archive_of_def plain_backup_def idle_backup_env_def)
  then have "download_backup default_settings sample_env idle_backup_env (str_uuid 10) (str_uuid 60) (Some sample_access_token) None ?st
      = (Inr ?a, ?st)"
    using objects token_of_user
    by (simp add: download_backup_def resolve_user_for_download_def require_server_def require_backup_def job_defs refuse_job_def
        gone_if_broken_def open_job_def parse_str_uuid sample_user_def world_server_def sample_server_def plain_backup_def)
  from download_is_own_and_intact [OF this] this show ?thesis by blast
qed

lemma postponed_schedules_stay_due_witness:
  "\<exists>st'. dispatch_due_backup_schedules idle_backup_env ''t'' (\<lambda>_. (61, 71)) (open_job scheduled_db [] []) = ((0, []), st') \<and>
    due_schedules (be_now idle_backup_env) (ses_committed (js_session st')) = [90]"
proof -
  have due: "due_schedules (be_now idle_backup_env) scheduled_db = [90]"
    by (simp add: due_schedules_def scheduled_db_def sample_schedule_def idle_backup_env_def Lifecycle.sample_env_def)
  have "distinct (map sch_id (db_backup_schedules scheduled_db))" by (simp add: scheduled_db_def)
  moreover have "postponed idle_backup_env scheduled_db c" if "c \<in> set (db_backup_schedules scheduled_db)" for c
    using that by (simp add: postponed_def scheduled_db_def restore_db_def sample_schedule_def get_server_def get_row_def
        world_server_def sample_server_def idle_backup_env_def)
  ultimately show ?thesis
    using postponed_schedules_stay_due [of scheduled_db idle_backup_env "be_now idle_backup_env" "''t''" "\<lambda>_. (61, 71)" "[]" "[]"] due
    by auto
qed

end
