(* ===== verification/Backup_Progress.thy ===== *)
theory Backup_Progress
  imports Backup_Service Restores
begin

text \<open>
  The progress the jobs report is a percentage, whatever happens to backups.
\<close>

definition percentage :: "int \<Rightarrow> bool" where
  "percentage n \<longleftrightarrow> 0 \<le> n \<and> n \<le> 100"

definition progress_ok :: "database \<Rightarrow> bool" where
  "progress_ok db \<longleftrightarrow> list_all (\<lambda>j. percentage (bj_progress_percent j)) (db_backup_jobs db) \<and>
     list_all (\<lambda>j. percentage (rj_progress_percent j)) (db_restore_jobs db)"

definition progressing :: "session \<Rightarrow> bool" where
  "progressing s \<longleftrightarrow> progress_ok (ses_committed s) \<and> progress_ok (ses_flushed s) \<and> progress_ok (ses_objects s)"

section \<open>What keeps percentages\<close>

lemma list_all_modify_row: "list_all P xs \<Longrightarrow> (\<And>x. P x \<Longrightarrow> P (f x)) \<Longrightarrow> list_all P (modify_row key i f xs)"
  by (auto simp: list_all_iff modify_row_def)

lemma progressing_ops [op_rules]:
  "keeps progressing commit_op" "keeps progressing flush_op" "keeps progressing (modify_op rollback)"
  "keeps progressing (set_server i f)" "keeps progressing (set_backup i g)" "keeps progressing (set_schedule i h)"
  "keeps progressing (add_backup b)" "keeps progressing (modify_op (set_objects (\<lambda>d. d\<lparr>db_backup_schedules := k d\<rparr>)))"
  "keeps progressing (add_backup_job (new_backup_job now ji bi si u key off))"
  "keeps progressing (add_restore_job (new_restore_job now ji bi si u restart back))"
  by (auto intro!: keeps_commit keeps_flush keeps_set_server keeps_modify
      simp: progressing_def progress_ok_def set_backup_def set_schedule_def add_backup_def upd_server_def rollback_def
        add_backup_job_def new_backup_job_def add_restore_job_def new_restore_job_def percentage_def)

lemma progressing_set_backup_job:
  "(\<And>j. percentage (bj_progress_percent j) \<Longrightarrow> percentage (bj_progress_percent (f j))) \<Longrightarrow> keeps progressing (set_backup_job i f)"
  unfolding set_backup_job_def by (rule keeps_modify) (simp add: progressing_def progress_ok_def list_all_modify_row)

lemma progressing_set_restore_job:
  "(\<And>j. percentage (rj_progress_percent j) \<Longrightarrow> percentage (rj_progress_percent (f j))) \<Longrightarrow> keeps progressing (set_restore_job i f)"
  unfolding set_restore_job_def by (rule keeps_modify) (simp add: progressing_def progress_ok_def list_all_modify_row)

lemma progressing_orchestrator [op_rules]:
  "keeps progressing (orchestrator_start cfg env i)" "keeps progressing (orchestrator_stop env i)"
  unfolding orchestrator_start_def orchestrator_stop_def by (intro op_rules)+

lemmas progressing_rules = op_rules progressing_set_backup_job progressing_set_restore_job

lemma session_only_set: "(\<And>st. js_session (f st) = js_session st) \<Longrightarrow> jkeeps (session_only P) (set_job f)"
  by (rule jkeeps_set) (simp add: session_only_def)

lemma progress_percent_range:
  assumes "0 \<le> mn" "mn \<le> mx" "mx \<le> 100" "percentage (bj_progress_percent j)" "\<And>b. bytes = Some b \<Longrightarrow> 0 \<le> b"
  shows "percentage (progress_percent mn mx bytes j)"
proof (cases "bytes \<noteq> None \<and> 0 < bj_total_bytes j")
  case True
  then obtain b where b: "bytes = Some b" by blast
  have "0 \<le> (mx - mn) * b div bj_total_bytes j"
    using True assms(2) assms(5) [OF b] by (intro pos_imp_zdiv_nonneg_iff [THEN iffD2] mult_nonneg_nonneg) simp_all
  with True b assms(1-3) show ?thesis by (simp add: progress_percent_def percentage_def)
qed (use assms in \<open>auto simp: progress_percent_def percentage_def split: option.split\<close>)

lemma progressing_update:
  assumes "0 \<le> mn" "mn \<le> mx" "mx \<le> 100" "\<And>b. bytes = Some b \<Longrightarrow> 0 \<le> b"
  shows "jkeeps (session_only progressing) (update_backup_job now i status phase mn mx bytes)"
  unfolding update_backup_job_def
  by (intro job_rules progressing_rules) (simp add: progress_percent_range [OF assms(1-3) _ assms(4)])

lemma progressing_update_restore:
  "0 \<le> percent \<Longrightarrow> jkeeps (session_only progressing) (update_restore_job now i rstatus phase percent)"
  unfolding update_restore_job_def by (intro job_rules progressing_rules) (auto simp: percentage_def)

lemma progressing_tar:
  "\<forall>n\<in>set sizes. 0 \<le> n \<Longrightarrow> 0 \<le> processed \<Longrightarrow> jkeeps (session_only progressing) (tar_progress now i sizes processed)"
  by (induction sizes arbitrary: processed) (auto intro!: jkeeps_simple jkeeps_bind progressing_update)

lemma file_sizes_nonneg: "n \<in> set (file_sizes fs p) \<Longrightarrow> 0 \<le> n"
  by (auto simp: file_sizes_def entry_size_def path_size_def intro!: sum_of_nonneg split: if_splits option.splits entry.splits)

section \<open>Backups and restores\<close>

lemmas progress_rules = job_rules progressing_rules session_only_set progressing_update progressing_update_restore

lemma progressing_quiesce: "jkeeps (session_only progressing) (quiesce env jid bid sid off)"
  unfolding quiesce_def Let_def by (intro progress_rules) simp_all

lemma progressing_release: "jkeeps (session_only progressing) (release cfg env sid)"
  unfolding release_def save_resume_best_effort_def by (intro progress_rules) simp_all

lemma progressing_store: "jkeeps (session_only progressing) (store_backup cfg env jid bid server off)"
proof -
  have sizes: "\<forall>n\<in>set (concat (map (file_sizes fs) ps)). 0 \<le> n" for fs ps
    by (auto dest: file_sizes_nonneg)
  have pack: "jkeeps (session_only progressing) (bind_job (get_job (\<lambda>st. (h st, concat (map (file_sizes (js_fs st)) ps)))) (\<lambda>(a, ns). k a ns))"
    if "\<And>a ns. \<forall>n\<in>set ns. 0 \<le> n \<Longrightarrow> jkeeps (session_only progressing) (k a ns)" for h ps and k :: "'a \<Rightarrow> int list \<Rightarrow> 'b job"
  proof (rule jkeepsI)
    fix st r st'
    assume "session_only progressing st" "bind_job (get_job (\<lambda>st. (h st, concat (map (file_sizes (js_fs st)) ps)))) (\<lambda>(a, ns). k a ns) st = (r, st')"
    then show "session_only progressing st'"
      using jkeepsD [OF that [OF sizes]] by (simp add: bind_get_job)
  qed
  show ?thesis
    unfolding store_backup_def commit_local_backup_artifact_def Let_def
    by (intro pack job_rules | intro progress_rules progressing_quiesce progressing_release | simp add: progressing_tar)+
qed

lemma progressing_retention: "jkeeps (session_only progressing) (apply_backup_retention cfg now sid n)"
  unfolding apply_backup_retention_def expire_backup_def by (intro progress_rules) simp_all

lemma progressing_complete: "jkeeps (session_only progressing) (complete_backup now jid bid sid art)"
  unfolding complete_backup_def by (intro progress_rules) (simp_all add: percentage_def)

lemma progressing_succeeded: "jkeeps (session_only progressing) (db_job (schedule_succeeded now bid))"
  unfolding schedule_succeeded_def by (intro progress_rules)

lemma progressing_backup: "jkeeps (session_only progressing) (run_backup_job cfg env jid)"
  unfolding run_backup_job_def backup_body_def begin_backup_def backup_failed_def record_failed_backup_def backup_cleanup_def
    save_resume_best_effort_def Let_def
  by (intro progress_rules progressing_store progressing_complete progressing_succeeded progressing_retention) simp_all

lemma progressing_unpack: "jkeeps (session_only progressing) (unpack_backup cfg env jid b server)"
  unfolding unpack_backup_def Let_def by (intro progress_rules) simp_all

lemma progressing_finish: "jkeeps (session_only progressing) (finish_restore cfg env job sid aside)"
  unfolding finish_restore_def Let_def by (intro progress_rules) (simp_all add: percentage_def)

lemma progressing_install: "jkeeps (session_only progressing) (install_world cfg env job server dir live)"
  unfolding install_world_def prepare_rollback_def swap_worlds_def restore_file_def Let_def
  by (intro progress_rules progressing_finish) simp_all

lemma progressing_restore: "jkeeps (session_only progressing) (run_restore_job cfg env jid)"
  unfolding run_restore_job_def restore_body_def begin_restore_def restore_failed_def roll_back_def restore_cleanup_def Let_def
  by (intro progress_rules progressing_unpack progressing_install) (simp_all split: option.split)

section \<open>Requests and the scheduler\<close>

lemma progressing_route: "jkeeps (session_only progressing) (backup_route cfg auth env user call)"
proof (cases call)
  case (CreateBackup i r)
  show ?thesis
    unfolding CreateBackup backup_route.simps answered_def create_backup_def Let_def by (intro progress_rules)
next
  case (CreateRestore i r)
  show ?thesis
    unfolding CreateRestore backup_route.simps answered_def create_restore_def Let_def by (intro progress_rules)
qed (auto intro!: progress_rules progressing_retention simp: answered_def download_backup_def resolve_user_for_download_def delete_backup_def
    apply_retention_now_def upsert_backup_schedule_def delete_backup_schedule_def split: option.split)

lemma progressing_dispatch: "jkeeps (session_only progressing) (dispatch_schedule env title ids i)"
  unfolding dispatch_schedule_def dispatch_backup_def Let_def by (intro progress_rules)

lemma progressing_loop: "session_only progressing st \<Longrightarrow> session_only progressing (snd (dispatch_loop env title new_ids is acc st))"
proof (induction "is" arbitrary: acc st)
  case (Cons i js)
  obtain r st1 where d: "dispatch_schedule env title (new_ids i) i st = (r, st1)" by fastforce
  from jkeepsD [OF progressing_dispatch Cons.prems d] Cons.IH d show ?case
    by (cases acc; cases r) (auto split: option.split)
qed simp

text \<open>
  C40: whatever happens to backups, requests, passes of the scheduler, backups and restores in any order,
  the progress that any job reports is a percentage.
\<close>

theorem progress_is_a_percentage:
  assumes "progress_ok db"
  shows "progress_ok (fst (fold (backup_step cfg) events (db, fs, store)))"
proof -
  have open_ok: "session_only progressing (open_job db fs store)" if "progress_ok db" for db fs store
    using that by (simp add: session_only_def progressing_def open_job_def)
  have job: "progress_ok (fst (snd (run_job m db fs store)))" if "progress_ok db" "jkeeps (session_only progressing) m"
    for db fs store and m :: "unit job"
    using jkeepsD [OF that(2) open_ok [OF that(1)]]
    by (auto simp: run_job_def session_only_def progressing_def split: prod.split)
  have step: "progress_ok (fst (backup_step cfg e w))" if "progress_ok (fst w)" for e w
  proof (cases w)
    case (fields db fs store)
    with that have "progress_ok db" by simp
    note db = this and loop = progressing_loop [OF open_ok [OF this]]
    show ?thesis
    proof (cases e)
      case (SchedulerPass env title new_ids)
      with fields loop show ?thesis
        by (simp add: dispatch_due_backup_schedules_def case_prod_unfold) (simp add: session_only_def progressing_def)
    qed (simp_all add: fields serve_backup_call_def job [OF db] progressing_route progressing_backup progressing_restore)
  qed
  have "progress_ok (fst w) \<Longrightarrow> progress_ok (fst (fold (backup_step cfg) events w))" for w
    by (induction events arbitrary: w) (simp_all add: step)
  from this [of "(db, fs, store)"] assms show ?thesis by simp
qed

lemma progress_is_a_percentage_witness:
  "progress_ok scheduled_db \<and>
   progress_ok (fst (fold (backup_step default_settings)
     [SchedulerPass idle_backup_env ''t'' (\<lambda>_. (61, 71)), Request sample_env sample_route_env sample_user (CreateRestore (str_uuid 10) sample_restore_request),
      RunRestore idle_backup_env 71]
     (scheduled_db, java_world_fs ''data'', stored_archive_of ''java/world'')))"
proof -
  have "progress_ok scheduled_db"
    by (simp add: progress_ok_def scheduled_db_def restore_db_def empty_db_def)
  with progress_is_a_percentage [OF this] show ?thesis by blast
qed

end
