(* ===== verification/Spec2Isabelle.thy ===== *)
theory Spec2Isabelle
  imports Billing Ports Windows Node_Agent Creation Rebalancer Game_Proxy Bans Deployments Sleeper Node_Router Server_Config Restored_Worlds Backup_Outcomes Backup_Progress
begin

text \<open>
  A verification development of the Blockhost control plane (\<open>src/blockhost_backend\<close>) and of the parts
  of its node agent (\<open>src/blockhost_agent\<close>) that decide what a game server does.

  \<^bold>\<open>The program.\<close>  Blockhost rents game servers.  A FastAPI back end keeps users, servers, plans,
  subscriptions, nodes and backups in a relational database.  Users sign in and act on servers through
  HTTP routes (\<open>api/\<close>); the routes call an orchestrator (\<open>orchestrator/\<close>), which reaches the machine
  a server runs on through a runtime (\<open>runtime/\<close>), a systemd unit or the agent of a remote node.
  Background passes (\<open>services/\<close>, \<open>worker/\<close>) expire subscriptions, put idle servers to sleep, move
  servers between nodes and forward players from public ports to the nodes.  Agents connect over a
  websocket, register and send heartbeats, from which the back end corrects its view.

  \<^bold>\<open>How code is modelled.\<close>  A row is a record, a table the list of its rows, the database the record
  of its tables (theory Schema).  A SQLAlchemy session (theory Session) has three levels, committed,
  written and in memory, because \<open>database/db.py\<close> turns autoflush off and several results depend on it.
  A handler is a program over a session that returns a value or an exception (theory Ops), its guards
  in the order of the source; an exception leaves the session as it is, and \<open>run_request\<close> gives what
  is committed when the request ends.  Times are microseconds, durations too; Python's integers are
  unbounded, so they are \<open>int\<close>, and a limit is written out where bytes are packed.  Text is a list of
  bytes.  A JSON object or a \<open>dict\<close> is an association list in insertion order.

  \<^bold>\<open>Theories, in the order of the program.\<close>
  \<^item> Prelude, PyText, Schema, Samples, Session, Ops: tables, dictionaries, exceptions; Python's text
    operations; the data model and the settings (\<open>database/schema.py\<close>, \<open>config/config_manager.py\<close>); the
    rows the witnesses use; the session (\<open>database/db.py\<close>); programs and their calculus of triples.
  \<^item> Resources, Billing: the plans and what a subscription in force grants (\<open>orchestrator/resources.py\<close>,
    \<open>services/plan_limits.py\<close>), and orders, payments and expiry (\<open>services/billing.py\<close>).
  \<^item> Ports, Creation, Lifecycle, Versions: the free ports (\<open>minecraft/port_alloc.py\<close>), creating, starting,
    stopping and deleting servers (\<open>api/servers.py\<close>, \<open>orchestrator/server_lifecycle.py\<close>), the versions they
    run (\<open>minecraft/java_compat.py\<close>, \<open>minecraft/modrinth_compat.py\<close>, \<open>runtime/bedrock_process.py\<close>).
  \<^item> Node_Capacity, Node_Agent, Rebalancer: what a node has reserved and where work is placed
    (\<open>services/node_capacity.py\<close>, \<open>orchestrator/lifecycle_manager.py\<close>), the agent's connection
    (\<open>api/nodes.py\<close>), and the passes that move servers (\<open>services/node_rebalancer.py\<close>,
    \<open>api/servers_migration.py\<close>).
  \<^item> Windows: rate limits (\<open>services/rate_limit.py\<close>, \<open>services/migration_guards.py\<close>).
  \<^item> Wire, Pong, Game_Proxy: the byte formats (\<open>minecraft/java_ping.py\<close>, \<open>minecraft/rcon_client.py\<close>,
    \<open>minecraft/bedrock_ping.py\<close>) and the proxy in front of the nodes (\<open>services/game_proxy.py\<close>).
  \<^item> Tokens, Auth, Access, Bans: tokens (\<open>core/security.py\<close>, \<open>services/auth_tokens.py\<close>, \<open>api/deps.py\<close>), accounts
    (\<open>api/auth.py\<close>), collaborators and the guarded properties route (\<open>api/servers_collaborators.py\<close>,
    \<open>api/servers.py\<close>), bans (\<open>api/servers_bans.py\<close>, \<open>services/ban_service.py\<close>).
  \<^item> Properties_Files: \<open>server.properties\<close> (\<open>minecraft/java_properties.py\<close>,
    \<open>minecraft/bedrock_properties.py\<close>) and the file the agent provisions (\<open>blockhost_agent/agent.py\<close>).
  \<^item> Paddle: the billing routes and the webhooks (\<open>api/billing.py\<close>).
  \<^item> Ingress: the routes of the reverse proxy and the custom domains (\<open>services/ingress.py\<close>,
    \<open>api/domains.py\<close>).  Provisioning: the background task that builds and starts what was ordered
    (\<open>services/provisioning.py\<close>).  Deployments: applications, databases and the wake page
    (\<open>api/deployments.py\<close>, \<open>api/databases.py\<close>, \<open>api/wake_proxy.py\<close>).
  \<^item> Sleeper: the pass that puts idle servers and applications to sleep and the correction after a restart
    (\<open>services/auto_sleeper.py\<close>, \<open>services/startup_reconciliation.py\<close>).  Node_Router: the runtime a call
    reaches (\<open>orchestrator/node_router.py\<close>).  Api_Cache, Server_Config: cached answers over Redis
    (\<open>services/api_cache.py\<close>) and the configuration routes that use them (\<open>api/servers.py\<close>).
  \<^item> World_Files: paths, links and directories as the backups use them, what a backup of a world holds and how an
    archive is checked and unpacked.  Jobs: programs over a session, the files and the stored archives, with their
    calculus.  Backups: the jobs that back up and restore a world, and retention (\<open>orchestrator/backup.py\<close>).
    Restores, Restored_Worlds, Backup_Outcomes: what a failed and a completed restore leave, and how a backup ends.
    Backup_Routes, Backup_Service, Backup_Progress: the routes of backups (\<open>api/backups.py\<close>) and the scheduler, what
    they promise, and the percentages that jobs report.

  \<^bold>\<open>Interfaces.\<close>  \<open>port_picker\<close> (Ports) is the contract of the searches for a port, interpreted on the
  UDP, the TCP and the proxy search; \<open>node_choice\<close> (Node_Capacity) that of choosing a node, interpreted on
  placement, consolidation, overflow and migration; \<open>sliding_window\<close> (Windows) that of a limiter,
  interpreted on migrations and requests; \<open>property_setter\<close> (Properties_Files) that of a setter of one
  property, interpreted on the Java and the Bedrock setter.  \<open>expiring_cache\<close> (Node_Router) is the contract of
  a cache whose entries expire, interpreted on the router.

  \<^bold>\<open>What the lemmas show.\<close>  For each component: what its operations return and commit on every branch,
  the invariants they keep, and where code and intention differ.  Step relations (\<open>auth_step\<close>,
  \<open>proxy_reachable\<close>, \<open>paddle_life\<close>, \<open>app_step\<close>, \<open>backup_step\<close>) carry the invariants over arbitrary sequences of requests.  A theorem about an
  error, such as a ban that cannot be lifted, is a fact of the code as it is.

  \<^bold>\<open>Parameters.\<close>  What is not under \<open>src/\<close> is an argument: the clock and the random values a request
  draws, the JWT library, the password hash, Google's verifier, the payment provider, Redis, the
  outcome of binding a socket, the runtime of a node and its cloud.  What is assumed of them is a
  premise of the theorem, and each such theorem has a witness with concrete functions.

  \<^bold>\<open>Bounds and fuel.\<close>  The loop that waits for a build on a node (\<open>poll_build\<close>) has fuel, because it ends
  only when the agent reports an end; \<open>provisioning_settles\<close> assumes that some poll within the fuel
  reports one, which is all the code itself relies on.  The loops of the writers of variable-length
  integers, which do not end on negative numbers, are partial functions in the option type, and it is
  proved for which values they return.  The loop of the reader is bounded by five bytes, as in the code.

  \<^bold>\<open>Not modelled.\<close>  The clients, the administration pages, the migrations of the schema and the deployment
  files, which are not this language or hold no logic of their own; the calls of S3, of cloud
  providers, of systemd and Docker, whose behaviour is outside the repository; the logging and the mails;
  the times that columns with \<open>onupdate\<close> set by themselves; requests that interleave, except where a
  theory says so (Windows): below the granularity of a handler scheduling is not modelled.
\<close>

end
